(* ===== verification/Prelude.thy ===== *)
theory Prelude
  imports Complex_Main "HOL-Library.AList" "HOL-Library.Sublist"
begin

text \<open>
  The vocabulary every component shares.

  \<^item> Python values that are stored in a dictionary are of type \<open>pyval\<close>; a dictionary is an
    association list in insertion order (\<open>pydict\<close>), read with \<open>map_of\<close> and written with
    \<open>AList.update\<close>, which keeps the position of a key that is already present, as Python does.
  \<^item> A time (\<open>datetime\<close> in UTC) is the number of microseconds since the epoch, Python's own
    resolution, and a \<open>timedelta\<close> is a number of microseconds. The string that \<open>isoformat()\<close>
    gives for a time is kept as the tagged value \<open>VIso t\<close>.
  \<^item> A Python \<open>float\<close> is a \<open>rat\<close>: every finite double is a rational number, comparisons are
    exact, and the arithmetic is the exact one (rounding, infinities and NaN are not modelled).
  \<^item> An f-string is the list of its parts (\<open>fstring\<close>): literal text, and the interpolated
    values before they are rendered.
  \<^item> An exception is the left side of a sum: \<open>py_error + 'a\<close>.
\<close>

section \<open>Values, times, messages and errors\<close>

type_synonym time = int

definition seconds :: "int \<Rightarrow> int" where
  "seconds n = n * 1000000"

definition minutes :: "int \<Rightarrow> int" where
  "minutes n = n * 60000000"

datatype pyval =
    VNone
  | VBool bool
  | VInt int
  | VFloat rat
  | VStr string
  | VIso time
  | VList "pyval list"
  | VDict "(string \<times> pyval) list"

type_synonym pydict = "(string \<times> pyval) list"

datatype fpart = T string | I int | F rat | At time | S "string option" | PV pyval

type_synonym fstring = "fpart list"

datatype py_error =
    ValueError fstring
  | TypeError fstring
  | KeyError string
  | ZeroDivisionError
  | OSError
  | ModeSelectionError fstring
  | Raised string

named_theorems run_simps \<open>equations that execute a model on given arguments\<close>
named_theorems frame_simps \<open>what an operation leaves unchanged\<close>

section \<open>Optional values\<close>

fun opt_str :: "string option \<Rightarrow> pyval" where
  "opt_str None = VNone"
| "opt_str (Some s) = VStr s"

fun opt_float :: "rat option \<Rightarrow> pyval" where
  "opt_float None = VNone"
| "opt_float (Some x) = VFloat x"

fun opt_iso :: "time option \<Rightarrow> pyval" where
  "opt_iso None = VNone"
| "opt_iso (Some t) = VIso t"

lemma opt_str_inject [simp]: "opt_str a = opt_str b \<longleftrightarrow> a = b"
  by (cases a; cases b) auto

lemma opt_float_inject [simp]: "opt_float a = opt_float b \<longleftrightarrow> a = b"
  by (cases a; cases b) auto

lemma opt_iso_inject [simp]: "opt_iso a = opt_iso b \<longleftrightarrow> a = b"
  by (cases a; cases b) auto

text \<open>Python's \<open>x or default\<close> on an optional string: \<open>None\<close> and the empty string are false.\<close>

definition str_or :: "string option \<Rightarrow> string \<Rightarrow> string" where
  "str_or x d = (case x of None \<Rightarrow> d | Some s \<Rightarrow> if s = [] then d else s)"

lemma str_or_simps [simp]:
  "str_or None d = d"
  "str_or (Some []) d = d"
  "s \<noteq> [] \<Longrightarrow> str_or (Some s) d = s"
  by (simp_all add: str_or_def)

definition truthy_str :: "string option \<Rightarrow> bool" where
  "truthy_str x = (case x of None \<Rightarrow> False | Some s \<Rightarrow> s \<noteq> [])"

lemma truthy_str_simps [simp]:
  "truthy_str None = False"
  "truthy_str (Some s) = (s \<noteq> [])"
  by (simp_all add: truthy_str_def)

text \<open>\<open>sep.join(parts)\<close>, and a string in single quotes.\<close>

fun join_parts :: "fstring \<Rightarrow> fstring list \<Rightarrow> fstring" where
  "join_parts sep [] = []"
| "join_parts sep [x] = x"
| "join_parts sep (x # y # ys) = x @ sep @ join_parts sep (y # ys)"

definition quoted :: "string \<Rightarrow> string" where
  "quoted s = [CHR 0x27] @ s @ [CHR 0x27]"

section \<open>Decimal rendering of integers\<close>

definition digit :: "nat \<Rightarrow> char" where
  "digit d = (''0123456789'' ! d)"

fun show_nat :: "nat \<Rightarrow> string" where
  "show_nat n = (if n < 10 then [digit n] else show_nat (n div 10) @ [digit (n mod 10)])"

declare show_nat.simps [simp del]

definition show_int :: "int \<Rightarrow> string" where
  "show_int z = (if z < 0 then CHR ''-'' # show_nat (nat (- z)) else show_nat (nat z))"

lemma show_nat_nonempty: "show_nat n \<noteq> []"
  by (subst show_nat.simps) simp

section \<open>Dictionaries as association lists\<close>

text \<open>\<open>d.get(k)\<close> and \<open>d.get(k, default)\<close>.\<close>

definition dget :: "'k \<Rightarrow> ('k \<times> 'v) list \<Rightarrow> 'v \<Rightarrow> 'v" where
  "dget k d dflt = (case map_of d k of None \<Rightarrow> dflt | Some v \<Rightarrow> v)"

lemma dget_update [simp]:
  "dget k (AList.update k' v d) x = (if k = k' then v else dget k d x)"
  by (simp add: dget_def update_conv')

text \<open>\<open>d[k] += 1\<close> with a default of 0, and the sum of a counting dictionary.\<close>

definition bump :: "'k \<Rightarrow> ('k \<times> int) list \<Rightarrow> ('k \<times> int) list" where
  "bump k d = AList.update k (dget k d 0 + 1) d"

definition total :: "('k \<times> int) list \<Rightarrow> int" where
  "total d = sum_list (map snd d)"

lemma dget_bump: "dget k (bump k' d) 0 = (if k = k' then dget k d 0 + 1 else dget k d 0)"
  by (auto simp: bump_def)

lemma total_update:
  assumes "distinct (map fst d)"
  shows "total (AList.update k v d) = total d - dget k d 0 + v"
  using assms
proof (induction d)
  case Nil
  then show ?case by (simp add: total_def dget_def)
next
  case (Cons p d)
  obtain k' v' where p: "p = (k', v')" by fastforce
  show ?case
  proof (cases "k' = k")
    case True
    then show ?thesis by (simp add: p total_def dget_def)
  next
    case False
    with Cons.IH Cons.prems show ?thesis
      by (simp add: p total_def dget_def split: option.splits)
  qed
qed

lemma total_bump: "distinct (map fst d) \<Longrightarrow> total (bump k d) = total d + 1"
  by (simp add: bump_def total_update)

lemma distinct_bump: "distinct (map fst d) \<Longrightarrow> distinct (map fst (bump k d))"
  by (simp add: bump_def distinct_update)

lemma total_nonneg:
  assumes "\<And>k v. (k, v) \<in> set d \<Longrightarrow> 0 \<le> v"
  shows "0 \<le> total d"
  unfolding total_def by (rule sum_list_nonneg) (use assms in auto)

section \<open>Lists\<close>

definition map_last :: "('a \<Rightarrow> 'a) \<Rightarrow> 'a list \<Rightarrow> 'a list" where
  "map_last f xs = (case rev xs of [] \<Rightarrow> [] | x # ys \<Rightarrow> rev (f x # ys))"

lemma map_last_snoc [simp]: "map_last f (xs @ [x]) = xs @ [f x]"
  by (simp add: map_last_def)

lemma map_last_single [simp]: "map_last f [x] = [f x]"
  by (simp add: map_last_def)

lemma length_map_last [simp]: "length (map_last f xs) = length xs"
  by (cases xs rule: rev_cases) (simp_all add: map_last_def)

lemma find_SomeD: "find P xs = Some x \<Longrightarrow> P x \<and> x \<in> set xs"
  by (induction xs) (auto split: if_splits)

lemma subseq_snoc_both: "subseq xs ys \<Longrightarrow> subseq (xs @ [x]) (ys @ [x])"
  by (simp add: list_emb_append_mono)

lemma subseq_snoc_right: "subseq xs ys \<Longrightarrow> subseq xs (ys @ [x])"
  by (metis append_Nil2 list_emb_append_mono list_emb_Nil)

end
