(* ===== verification/Boundary_Models.thy ===== *)
theory Boundary_Models
  imports Prelude
begin

text \<open>
  The data contracts of \<open>execution_boundary/execution_models.py\<close>: execution intents, human
  approvals, the kill-switch state with its methods, and audit records. Each dataclass is a
  record; its \<open>__post_init__\<close> is a function that returns the record or the \<open>ValueError\<close>; its
  \<open>to_dict\<close> is a function to a dictionary. A call of \<open>datetime.now\<close> is a time argument.
\<close>

section \<open>Enumerations\<close>

datatype intent_type =
    OPEN_POSITION | CLOSE_POSITION | MODIFY_POSITION | HALT_ALL_TRADING | RESUME_TRADING
  | MANUAL_OVERRIDE

fun intent_type_value :: "intent_type \<Rightarrow> string" where
  "intent_type_value OPEN_POSITION = ''open_position''"
| "intent_type_value CLOSE_POSITION = ''close_position''"
| "intent_type_value MODIFY_POSITION = ''modify_position''"
| "intent_type_value HALT_ALL_TRADING = ''halt_all_trading''"
| "intent_type_value RESUME_TRADING = ''resume_trading''"
| "intent_type_value MANUAL_OVERRIDE = ''manual_override''"

lemma intent_type_value_inject [simp]:
  "intent_type_value a = intent_type_value b \<longleftrightarrow> a = b"
  by (cases a; cases b) simp_all

datatype intent_status =
    PENDING_APPROVAL | APPROVED_INTENT | REJECTED_INTENT | EXECUTED_INTENT | CANCELLED_INTENT
  | FAILED_INTENT

fun intent_status_value :: "intent_status \<Rightarrow> string" where
  "intent_status_value PENDING_APPROVAL = ''pending_approval''"
| "intent_status_value APPROVED_INTENT = ''approved''"
| "intent_status_value REJECTED_INTENT = ''rejected''"
| "intent_status_value EXECUTED_INTENT = ''executed''"
| "intent_status_value CANCELLED_INTENT = ''cancelled''"
| "intent_status_value FAILED_INTENT = ''failed''"

lemma intent_status_value_inject [simp]:
  "intent_status_value a = intent_status_value b \<longleftrightarrow> a = b"
  by (cases a; cases b) simp_all

datatype approval_authority = HUMAN_TRADER | RISK_OFFICER | SYSTEM_ADMIN

fun authority_value :: "approval_authority \<Rightarrow> string" where
  "authority_value HUMAN_TRADER = ''human_trader''"
| "authority_value RISK_OFFICER = ''risk_officer''"
| "authority_value SYSTEM_ADMIN = ''system_admin''"

lemma authority_value_inject [simp]:
  "authority_value a = authority_value b \<longleftrightarrow> a = b"
  by (cases a; cases b) simp_all

section \<open>Execution intents\<close>

record execution_intent =
  ei_intent_id :: string
  ei_intent_type :: intent_type
  ei_status :: intent_status
  ei_created_at :: time
  ei_symbol :: "string option"
  ei_quantity :: "rat option"
  ei_price :: "rat option"
  ei_order_type :: "string option"
  ei_time_in_force :: "string option"
  ei_human_rationale :: string
  ei_max_loss :: "rat option"
  ei_max_position_size :: "rat option"
  ei_required_profit_margin :: "rat option"
  ei_expires_at :: "time option"
  ei_metadata :: pydict

text \<open>\<open>__post_init__\<close>: only the rationale is required.\<close>

definition intent_post_init :: "execution_intent \<Rightarrow> py_error + execution_intent" where
  "intent_post_init i =
     (if ei_human_rationale i = [] then Inl (ValueError [T ''human_rationale is required for audit trail''])
      else Inr i)"

definition intent_to_dict :: "execution_intent \<Rightarrow> pydict" where
  "intent_to_dict i =
    [(''intent_id'', VStr (ei_intent_id i)),
     (''intent_type'', VStr (intent_type_value (ei_intent_type i))),
     (''status'', VStr (intent_status_value (ei_status i))),
     (''created_at'', VIso (ei_created_at i)),
     (''symbol'', opt_str (ei_symbol i)),
     (''quantity'', opt_float (ei_quantity i)),
     (''price'', opt_float (ei_price i)),
     (''order_type'', opt_str (ei_order_type i)),
     (''time_in_force'', opt_str (ei_time_in_force i)),
     (''human_rationale'', VStr (ei_human_rationale i)),
     (''max_loss'', opt_float (ei_max_loss i)),
     (''max_position_size'', opt_float (ei_max_position_size i)),
     (''required_profit_margin'', opt_float (ei_required_profit_margin i)),
     (''expires_at'', opt_iso (ei_expires_at i)),
     (''metadata'', VDict (ei_metadata i))]"

lemma intent_to_dict_inject: "intent_to_dict i = intent_to_dict j \<longleftrightarrow> i = j"
  by (cases i; cases j) (simp add: intent_to_dict_def)

section \<open>Human approvals\<close>

record human_approval =
  ha_approval_id :: string
  ha_intent_id :: string
  ha_approved :: bool
  ha_authority_level :: approval_authority
  ha_approved_by :: string
  ha_approved_at :: time
  ha_approval_rationale :: string
  ha_conditional_approval :: bool
  ha_approval_conditions :: "string list"
  ha_expires_at :: "time option"

definition approval_post_init :: "human_approval \<Rightarrow> py_error + human_approval" where
  "approval_post_init a =
     (if ha_intent_id a = [] then Inl (ValueError [T ''intent_id is required''])
      else if ha_approved_by a = [] then Inl (ValueError [T ''approved_by is required''])
      else if ha_approval_rationale a = []
        then Inl (ValueError [T ''approval_rationale is required for audit trail''])
      else Inr a)"

definition approval_is_valid :: "time \<Rightarrow> human_approval \<Rightarrow> bool" where
  "approval_is_valid now a =
     (case ha_expires_at a of None \<Rightarrow> True | Some e \<Rightarrow> now < e)"

definition approval_to_dict :: "human_approval \<Rightarrow> pydict" where
  "approval_to_dict a =
    [(''approval_id'', VStr (ha_approval_id a)),
     (''intent_id'', VStr (ha_intent_id a)),
     (''approved'', VBool (ha_approved a)),
     (''authority_level'', VStr (authority_value (ha_authority_level a))),
     (''approved_by'', VStr (ha_approved_by a)),
     (''approved_at'', VIso (ha_approved_at a)),
     (''approval_rationale'', VStr (ha_approval_rationale a)),
     (''conditional_approval'', VBool (ha_conditional_approval a)),
     (''approval_conditions'', VList (map VStr (ha_approval_conditions a))),
     (''expires_at'', opt_iso (ha_expires_at a))]"

lemma map_VStr_inject [simp]: "map VStr xs = map VStr ys \<longleftrightarrow> xs = ys"
  by (simp add: inj_map_eq_map inj_def)

lemma approval_to_dict_inject: "approval_to_dict a = approval_to_dict b \<longleftrightarrow> a = b"
  by (cases a; cases b) (simp add: approval_to_dict_def)

section \<open>Kill-switch state\<close>

record kill_switch_state =
  ks_manual_kill_active :: bool
  ks_manual_kill_activated_by :: "string option"
  ks_manual_kill_activated_at :: "time option"
  ks_manual_kill_reason :: string
  ks_circuit_breaker_active :: bool
  ks_circuit_breaker_trigger_at :: "time option"
  ks_circuit_breaker_reason :: string
  ks_timeout_active :: bool
  ks_timeout_triggered_at :: "time option"
  ks_timeout_duration_seconds :: int

definition ks_default :: kill_switch_state where
  "ks_default =
    \<lparr>ks_manual_kill_active = False, ks_manual_kill_activated_by = None,
     ks_manual_kill_activated_at = None, ks_manual_kill_reason = [],
     ks_circuit_breaker_active = False, ks_circuit_breaker_trigger_at = None,
     ks_circuit_breaker_reason = [], ks_timeout_active = False,
     ks_timeout_triggered_at = None, ks_timeout_duration_seconds = 300\<rparr>"

definition ks_is_halted :: "kill_switch_state \<Rightarrow> bool" where
  "ks_is_halted s \<longleftrightarrow>
     ks_manual_kill_active s \<or> ks_circuit_breaker_active s \<or> ks_timeout_active s"

definition ks_activate_manual_kill :: "time \<Rightarrow> string \<Rightarrow> string \<Rightarrow> kill_switch_state \<Rightarrow> kill_switch_state" where
  "ks_activate_manual_kill now activated_by reason s =
     s\<lparr>ks_manual_kill_active := True, ks_manual_kill_activated_by := Some activated_by,
       ks_manual_kill_activated_at := Some now, ks_manual_kill_reason := reason\<rparr>"

definition ks_deactivate_manual_kill :: "kill_switch_state \<Rightarrow> kill_switch_state" where
  "ks_deactivate_manual_kill s = s\<lparr>ks_manual_kill_active := False\<rparr>"

definition ks_activate_circuit_breaker :: "time \<Rightarrow> string \<Rightarrow> kill_switch_state \<Rightarrow> kill_switch_state" where
  "ks_activate_circuit_breaker now reason s =
     s\<lparr>ks_circuit_breaker_active := True, ks_circuit_breaker_trigger_at := Some now,
       ks_circuit_breaker_reason := reason\<rparr>"

definition ks_deactivate_circuit_breaker :: "kill_switch_state \<Rightarrow> kill_switch_state" where
  "ks_deactivate_circuit_breaker s = s\<lparr>ks_circuit_breaker_active := False\<rparr>"

text \<open>The \<open>reason\<close> argument of the source's \<open>activate_timeout\<close> is not stored anywhere.\<close>

definition ks_activate_timeout :: "time \<Rightarrow> string \<Rightarrow> int \<Rightarrow> kill_switch_state \<Rightarrow> kill_switch_state" where
  "ks_activate_timeout now reason duration_seconds s =
     s\<lparr>ks_timeout_active := True, ks_timeout_triggered_at := Some now,
       ks_timeout_duration_seconds := duration_seconds\<rparr>"

definition ks_deactivate_timeout :: "kill_switch_state \<Rightarrow> kill_switch_state" where
  "ks_deactivate_timeout s = s\<lparr>ks_timeout_active := False\<rparr>"

definition ks_to_dict :: "kill_switch_state \<Rightarrow> pydict" where
  "ks_to_dict s =
    [(''manual_kill_active'', VBool (ks_manual_kill_active s)),
     (''manual_kill_activated_by'', opt_str (ks_manual_kill_activated_by s)),
     (''manual_kill_activated_at'', opt_iso (ks_manual_kill_activated_at s)),
     (''manual_kill_reason'', VStr (ks_manual_kill_reason s)),
     (''circuit_breaker_active'', VBool (ks_circuit_breaker_active s)),
     (''circuit_breaker_trigger_at'', opt_iso (ks_circuit_breaker_trigger_at s)),
     (''circuit_breaker_reason'', VStr (ks_circuit_breaker_reason s)),
     (''timeout_active'', VBool (ks_timeout_active s)),
     (''timeout_triggered_at'', opt_iso (ks_timeout_triggered_at s)),
     (''timeout_duration_seconds'', VInt (ks_timeout_duration_seconds s)),
     (''is_halted'', VBool (ks_is_halted s))]"

lemma ks_to_dict_inject: "ks_to_dict s = ks_to_dict t \<longleftrightarrow> s = t"
  by (cases s; cases t) (auto simp: ks_to_dict_def ks_is_halted_def)

lemmas ks_op_defs =
  ks_activate_manual_kill_def ks_deactivate_manual_kill_def ks_activate_circuit_breaker_def
  ks_deactivate_circuit_breaker_def ks_activate_timeout_def ks_deactivate_timeout_def

section \<open>Audit records\<close>

record audit_record =
  ar_record_id :: string
  ar_timestamp :: time
  ar_event_type :: string
  ar_intent_id :: string
  ar_approval_id :: "string option"
  ar_status :: string
  ar_event_data :: pydict
  ar_human_note :: string
  ar_actor :: string
  ar_severity :: string

definition audit_post_init :: "audit_record \<Rightarrow> py_error + audit_record" where
  "audit_post_init r =
     (if ar_event_type r = [] then Inl (ValueError [T ''event_type is required''])
      else if ar_intent_id r = [] then Inl (ValueError [T ''intent_id is required''])
      else if ar_actor r = [] then Inl (ValueError [T ''actor is required''])
      else Inr r)"

definition audit_to_dict :: "audit_record \<Rightarrow> pydict" where
  "audit_to_dict r =
    [(''record_id'', VStr (ar_record_id r)),
     (''timestamp'', VIso (ar_timestamp r)),
     (''event_type'', VStr (ar_event_type r)),
     (''intent_id'', VStr (ar_intent_id r)),
     (''approval_id'', opt_str (ar_approval_id r)),
     (''status'', VStr (ar_status r)),
     (''event_data'', VDict (ar_event_data r)),
     (''human_note'', VStr (ar_human_note r)),
     (''actor'', VStr (ar_actor r)),
     (''severity'', VStr (ar_severity r))]"

lemma audit_to_dict_inject: "audit_to_dict r = audit_to_dict q \<longleftrightarrow> r = q"
  by (cases r; cases q) (simp add: audit_to_dict_def)

lemma audit_to_dict_get [simp]:
  "map_of (audit_to_dict r) ''event_type'' = Some (VStr (ar_event_type r))"
  "map_of (audit_to_dict r) ''intent_id'' = Some (VStr (ar_intent_id r))"
  "map_of (audit_to_dict r) ''approval_id'' = Some (opt_str (ar_approval_id r))"
  by (simp_all add: audit_to_dict_def)

end
