(* ===== verification/Contracts.thy ===== *)
theory Contracts
  imports Prelude
begin

text \<open>
  The interfaces the components promise one another, as locales. Every component that keeps a
  log, a keyed store or an invariant interprets the matching locale on its own operations, and
  the facts about whole runs of the component are proved here once.
\<close>

section \<open>Machines that keep an invariant\<close>

text \<open>A step function with an invariant that every step keeps.\<close>

locale inv_machine =
  fixes mstep :: "'op \<Rightarrow> 's \<Rightarrow> 's"
    and minv :: "'s \<Rightarrow> bool"
  assumes mstep_inv: "minv s \<Longrightarrow> minv (mstep op s)"
begin

lemma run_inv: "minv s \<Longrightarrow> minv (fold mstep ops s)"
  by (induction ops arbitrary: s) (auto intro: mstep_inv)

end

section \<open>Append-only logs\<close>

text \<open>A step function may add entries at the end of the log and may do nothing else to it.\<close>

locale append_only =
  fixes lstep :: "'op \<Rightarrow> 's \<Rightarrow> 's"
    and entries :: "'s \<Rightarrow> 'e list"
  assumes lstep_extends: "prefix (entries s) (entries (lstep op s))"
begin

lemma run_extends: "prefix (entries s) (entries (fold lstep ops s))"
proof (induction ops arbitrary: s)
  case Nil
  show ?case by simp
next
  case (Cons op ops)
  have "prefix (entries s) (entries (lstep op s))" by (rule lstep_extends)
  also have "prefix \<dots> (entries (fold lstep ops (lstep op s)))" by (rule Cons.IH)
  finally show ?case by simp
qed

lemma run_length: "length (entries s) \<le> length (entries (fold lstep ops s))"
  by (rule prefix_length_le [OF run_extends])

lemma run_entry_stable:
  assumes "i < length (entries s)"
  shows "entries (fold lstep ops s) ! i = entries s ! i"
  using run_extends [of s ops] assms by (auto simp: prefix_def nth_append)

end

text \<open>
  An append-only log that is also complete for a view of the state: whatever changes the view
  leaves an entry. So a log that did not grow means a view that did not change.
\<close>

locale audited = append_only +
  fixes view :: "'b \<Rightarrow> 'v"
  assumes silent_step: "entries (lstep op s) = entries s \<Longrightarrow> view (lstep op s) = view s"
begin

lemma silent_run: "entries (fold lstep ops s) = entries s \<Longrightarrow> view (fold lstep ops s) = view s"
proof (induction ops arbitrary: s)
  case Nil
  show ?case by simp
next
  case (Cons op ops)
  let ?t = "lstep op s"
  have 1: "prefix (entries s) (entries ?t)" by (rule lstep_extends)
  have 2: "prefix (entries ?t) (entries (fold lstep ops ?t))" by (rule run_extends)
  from Cons.prems have 3: "entries (fold lstep ops ?t) = entries s" by simp
  with 1 2 have same: "entries ?t = entries s"
    using prefix_order.antisym by metis
  with 3 have "view (fold lstep ops ?t) = view ?t" by (intro Cons.IH) simp
  with same silent_step show ?case by simp
qed

end

section \<open>Keyed stores\<close>

text \<open>
  What a lookup returns after a store: the law a dictionary field of an object obeys. A store
  operation carries its key and its value.
\<close>

locale keyed_store =
  fixes look :: "'s \<Rightarrow> 'k \<rightharpoonup> 'v"
    and put :: "'op \<Rightarrow> 's \<Rightarrow> 's"
    and key :: "'op \<Rightarrow> 'k"
    and val :: "'op \<Rightarrow> 'v"
  assumes look_put: "look (put op s) = (look s)(key op \<mapsto> val op)"
begin

lemma look_puts: "look (fold put ops s) = look s ++ map_of (rev (map (\<lambda>op. (key op, val op)) ops))"
proof (induction ops arbitrary: s)
  case Nil
  show ?case by simp
next
  case (Cons op ops)
  show ?case by (simp add: Cons.IH look_put map_add_def fun_eq_iff split: option.splits)
qed

lemma last_put_wins: "look (fold put (ops @ [op]) s) (key op) = Some (val op)"
  by (simp add: look_put)

lemma put_other: "k \<notin> key ` set ops \<Longrightarrow> look (fold put ops s) k = look s k"
  by (induction ops arbitrary: s) (auto simp: look_put)

lemma find_latest:
  "look (fold put ops s) k =
     (case find (\<lambda>op. key op = k) (rev ops) of Some op \<Rightarrow> Some (val op) | None \<Rightarrow> look s k)"
  by (induction ops arbitrary: s rule: rev_induct) (auto simp: look_put)

end

end
