(* ===== verification/Boundary_Kill_Switch.thy ===== *)
theory Boundary_Kill_Switch
  imports Boundary_Models Contracts
begin

text \<open>
  \<open>execution_boundary/kill_switch_controller.py\<close>: the controller owns one kill-switch state and
  the history of its changes. Every operation that changes the state reads the clock twice, once
  for the state (\<open>t1\<close>) and once for the history record (\<open>t2\<close>). An operation returns the boolean
  of the source and the new controller.

  \<open>ks_op\<close> and \<open>ks_step\<close> collect the operations into one machine. The abstract specification is a
  triple of latches (\<open>latches\<close>): each operation sets or clears one latch, provided its guard
  accepted the arguments.
\<close>

section \<open>The controller\<close>

record ks_change =
  kh_timestamp :: time
  kh_event_type :: string
  kh_reason :: fstring
  kh_actor :: string
  kh_severity :: string
  kh_state_snapshot :: pydict

record ks_controller =
  kc_state :: kill_switch_state
  kc_history :: "ks_change list"

definition kc_get_state :: "ks_controller \<Rightarrow> pydict" where
  "kc_get_state c = ks_to_dict (kc_state c)"

definition kc_get_history :: "ks_controller \<Rightarrow> ks_change list" where
  "kc_get_history c = kc_history c"

definition log_state_change ::
    "time \<Rightarrow> string \<Rightarrow> fstring \<Rightarrow> string \<Rightarrow> string \<Rightarrow> ks_controller \<Rightarrow> ks_controller" where
  "log_state_change now event_type reason actor severity c =
     c\<lparr>kc_history := kc_history c @
        [\<lparr>kh_timestamp = now, kh_event_type = event_type, kh_reason = reason, kh_actor = actor,
          kh_severity = severity, kh_state_snapshot = kc_get_state c\<rparr>]\<rparr>"

definition kc_init :: "time \<Rightarrow> ks_controller" where
  "kc_init now =
     log_state_change now ''INIT'' [T ''Controller initialized''] ''system'' ''INFO''
       \<lparr>kc_state = ks_default, kc_history = []\<rparr>"

definition activate_manual_kill ::
    "time \<Rightarrow> time \<Rightarrow> string \<Rightarrow> string \<Rightarrow> ks_controller \<Rightarrow> bool \<times> ks_controller" where
  "activate_manual_kill t1 t2 activated_by reason c =
     (if activated_by = [] \<or> reason = [] then (False, c)
      else (True,
        log_state_change t2 ''MANUAL_KILL_ACTIVATED'' [T reason] activated_by ''INFO''
          (c\<lparr>kc_state := ks_activate_manual_kill t1 activated_by reason (kc_state c)\<rparr>)))"

definition deactivate_manual_kill ::
    "time \<Rightarrow> string \<Rightarrow> string \<Rightarrow> ks_controller \<Rightarrow> bool \<times> ks_controller" where
  "deactivate_manual_kill t2 deactivated_by reason c =
     (if deactivated_by = [] \<or> reason = [] then (False, c)
      else (True,
        log_state_change t2 ''MANUAL_KILL_DEACTIVATED'' [T reason] deactivated_by ''INFO''
          (c\<lparr>kc_state := ks_deactivate_manual_kill (kc_state c)\<rparr>)))"

definition activate_circuit_breaker ::
    "time \<Rightarrow> time \<Rightarrow> string \<Rightarrow> ks_controller \<Rightarrow> bool \<times> ks_controller" where
  "activate_circuit_breaker t1 t2 reason c =
     (if reason = [] then (False, c)
      else (True,
        log_state_change t2 ''CIRCUIT_BREAKER_ACTIVATED'' [T reason] ''system'' ''CRITICAL''
          (c\<lparr>kc_state := ks_activate_circuit_breaker t1 reason (kc_state c)\<rparr>)))"

definition deactivate_circuit_breaker ::
    "time \<Rightarrow> string \<Rightarrow> string \<Rightarrow> ks_controller \<Rightarrow> bool \<times> ks_controller" where
  "deactivate_circuit_breaker t2 deactivated_by reason c =
     (if deactivated_by = [] \<or> reason = [] then (False, c)
      else (True,
        log_state_change t2 ''CIRCUIT_BREAKER_DEACTIVATED'' [T reason] deactivated_by ''INFO''
          (c\<lparr>kc_state := ks_deactivate_circuit_breaker (kc_state c)\<rparr>)))"

definition activate_timeout ::
    "time \<Rightarrow> time \<Rightarrow> string \<Rightarrow> int \<Rightarrow> ks_controller \<Rightarrow> bool \<times> ks_controller" where
  "activate_timeout t1 t2 reason duration_seconds c =
     (if reason = [] \<or> duration_seconds \<le> 0 then (False, c)
      else (True,
        log_state_change t2 ''TIMEOUT_ACTIVATED''
          [T reason, T '' (duration: '', I duration_seconds, T ''s)''] ''system'' ''WARNING''
          (c\<lparr>kc_state := ks_activate_timeout t1 reason duration_seconds (kc_state c)\<rparr>)))"

definition deactivate_timeout ::
    "time \<Rightarrow> string \<Rightarrow> string \<Rightarrow> ks_controller \<Rightarrow> bool \<times> ks_controller" where
  "deactivate_timeout t2 deactivated_by reason c =
     (if deactivated_by = [] \<or> reason = [] then (False, c)
      else (True,
        log_state_change t2 ''TIMEOUT_DEACTIVATED'' [T reason] deactivated_by ''INFO''
          (c\<lparr>kc_state := ks_deactivate_timeout (kc_state c)\<rparr>)))"

definition kc_is_halted :: "ks_controller \<Rightarrow> bool" where
  "kc_is_halted c = ks_is_halted (kc_state c)"

definition get_halt_reason :: "ks_controller \<Rightarrow> fstring option" where
  "get_halt_reason c =
     (let s = kc_state c in
      if ks_manual_kill_active s then Some [T ''MANUAL: '', T (ks_manual_kill_reason s)]
      else if ks_circuit_breaker_active s
        then Some [T ''CIRCUIT_BREAKER: '', T (ks_circuit_breaker_reason s)]
      else if ks_timeout_active s
        then Some [T ''TIMEOUT: '', I (ks_timeout_duration_seconds s), T ''s'']
      else None)"

definition check_timeout_expired :: "time \<Rightarrow> ks_controller \<Rightarrow> bool" where
  "check_timeout_expired now c =
     (let s = kc_state c in
      case ks_timeout_triggered_at s of
        None \<Rightarrow> False
      | Some t \<Rightarrow> ks_timeout_active s \<and> now - t \<ge> seconds (ks_timeout_duration_seconds s))"

section \<open>The controller as a machine\<close>

datatype ks_op =
    Activate_manual string string
  | Deactivate_manual string string
  | Activate_breaker string
  | Deactivate_breaker string string
  | Activate_timeout string int
  | Deactivate_timeout string string

fun ks_exec :: "time \<times> time \<times> ks_op \<Rightarrow> ks_controller \<Rightarrow> bool \<times> ks_controller" where
  "ks_exec (t1, t2, Activate_manual by r) c = activate_manual_kill t1 t2 by r c"
| "ks_exec (t1, t2, Deactivate_manual by r) c = deactivate_manual_kill t2 by r c"
| "ks_exec (t1, t2, Activate_breaker r) c = activate_circuit_breaker t1 t2 r c"
| "ks_exec (t1, t2, Deactivate_breaker by r) c = deactivate_circuit_breaker t2 by r c"
| "ks_exec (t1, t2, Activate_timeout r d) c = activate_timeout t1 t2 r d c"
| "ks_exec (t1, t2, Deactivate_timeout by r) c = deactivate_timeout t2 by r c"

definition ks_step :: "time \<times> time \<times> ks_op \<Rightarrow> ks_controller \<Rightarrow> ks_controller" where
  "ks_step op c = snd (ks_exec op c)"

lemmas controller_op_defs =
  activate_manual_kill_def deactivate_manual_kill_def activate_circuit_breaker_def
  deactivate_circuit_breaker_def activate_timeout_def deactivate_timeout_def

text \<open>The guards of the six operations, and what an accepted operation does to the latches.\<close>

fun ks_accepts :: "ks_op \<Rightarrow> bool" where
  "ks_accepts (Activate_manual by r) \<longleftrightarrow> by \<noteq> [] \<and> r \<noteq> []"
| "ks_accepts (Deactivate_manual by r) \<longleftrightarrow> by \<noteq> [] \<and> r \<noteq> []"
| "ks_accepts (Activate_breaker r) \<longleftrightarrow> r \<noteq> []"
| "ks_accepts (Deactivate_breaker by r) \<longleftrightarrow> by \<noteq> [] \<and> r \<noteq> []"
| "ks_accepts (Activate_timeout r d) \<longleftrightarrow> r \<noteq> [] \<and> 0 < d"
| "ks_accepts (Deactivate_timeout by r) \<longleftrightarrow> by \<noteq> [] \<and> r \<noteq> []"

type_synonym latches = "bool \<times> bool \<times> bool"

fun latch_step :: "ks_op \<Rightarrow> latches \<Rightarrow> latches" where
  "latch_step op (m, b, t) =
     (if \<not> ks_accepts op then (m, b, t)
      else case op of
        Activate_manual _ _ \<Rightarrow> (True, b, t)
      | Deactivate_manual _ _ \<Rightarrow> (False, b, t)
      | Activate_breaker _ \<Rightarrow> (m, True, t)
      | Deactivate_breaker _ _ \<Rightarrow> (m, False, t)
      | Activate_timeout _ _ \<Rightarrow> (m, b, True)
      | Deactivate_timeout _ _ \<Rightarrow> (m, b, False))"

definition latches_of :: "ks_controller \<Rightarrow> latches" where
  "latches_of c =
     (ks_manual_kill_active (kc_state c), ks_circuit_breaker_active (kc_state c),
      ks_timeout_active (kc_state c))"

lemma ks_exec_accepts: "fst (ks_exec (t1, t2, op) c) = ks_accepts op"
  by (cases op) (auto simp: controller_op_defs)

lemma ks_step_rejected: "\<not> ks_accepts op \<Longrightarrow> ks_step (t1, t2, op) c = c"
  by (cases op) (auto simp: ks_step_def controller_op_defs)

lemma ks_step_latches: "latches_of (ks_step (t1, t2, op) c) = latch_step op (latches_of c)"
  by (cases op) (auto simp: ks_step_def controller_op_defs latches_of_def log_state_change_def ks_op_defs)

lemma ks_step_history:
  "kc_history (ks_step (t1, t2, op) c) =
     kc_history c @
       (if ks_accepts op then [last (kc_history (ks_step (t1, t2, op) c))] else [])"
  by (cases op) (auto simp: ks_step_def controller_op_defs log_state_change_def)

lemma ks_step_snapshot:
  "ks_accepts op \<Longrightarrow>
     kh_state_snapshot (last (kc_history (ks_step (t1, t2, op) c))) =
       ks_to_dict (kc_state (ks_step (t1, t2, op) c))"
  by (cases op) (auto simp: ks_step_def controller_op_defs log_state_change_def kc_get_state_def)

text \<open>The history is an append-only log, and it is complete for the state of the switches.\<close>

interpretation ksc: audited ks_step kc_history kc_state
proof
  fix op :: "time \<times> time \<times> ks_op" and c
  obtain t1 t2 k where op: "op = (t1, t2, k)" by (cases op)
  show "prefix (kc_history c) (kc_history (ks_step op c))"
    by (subst op, subst ks_step_history) simp
  assume "kc_history (ks_step op c) = kc_history c"
  then have "\<not> ks_accepts k"
    unfolding op by (subst (asm) ks_step_history) (simp split: if_splits)
  then show "kc_state (ks_step op c) = kc_state c" by (simp add: op ks_step_rejected)
qed

lemma ks_run_latches:
  "latches_of (fold ks_step ops c) = fold (\<lambda>(_, _, op). latch_step op) ops (latches_of c)"
  by (induction ops arbitrary: c) (auto simp: ks_step_latches)

lemma kc_is_halted_latches:
  "kc_is_halted c \<longleftrightarrow> (case latches_of c of (m, b, t) \<Rightarrow> m \<or> b \<or> t)"
  by (simp add: kc_is_halted_def ks_is_halted_def latches_of_def)

fun clears_manual :: "ks_op \<Rightarrow> bool" where
  "clears_manual (Deactivate_manual by r) \<longleftrightarrow> by \<noteq> [] \<and> r \<noteq> []"
| "clears_manual _ \<longleftrightarrow> False"

lemma latch_manual_stays:
  "\<not> clears_manual op \<Longrightarrow> fst l \<Longrightarrow> fst (latch_step op l)"
  by (cases l; cases op) auto

lemma manual_latch_run:
  assumes "\<forall>(t1, t2, op) \<in> set ops. \<not> clears_manual op" and "fst (latches_of c)"
  shows "fst (latches_of (fold ks_step ops c))"
  using assms
  by (induction ops arbitrary: c) (auto simp: ks_step_latches latch_manual_stays)

section \<open>Properties\<close>

text \<open>C10: after any sequence of operations on a fresh controller, the three
  switches are exactly what the abstract machine of three latches says, and the controller reports
  a halt exactly when a latch is set. An operation with a missing actor or reason (or a
  non-positive duration) moves no latch.\<close>

theorem ks_refines_latches:
  "latches_of (fold ks_step ops (kc_init tz)) =
     fold (\<lambda>(_, _, op). latch_step op) ops (False, False, False) \<and>
   (kc_is_halted (fold ks_step ops (kc_init tz)) \<longleftrightarrow>
     (case fold (\<lambda>(_, _, op). latch_step op) ops (False, False, False) of (m, b, t) \<Rightarrow> m \<or> b \<or> t))"
proof -
  have "latches_of (kc_init tz) = (False, False, False)"
    by (simp add: kc_init_def log_state_change_def latches_of_def ks_default_def)
  then show ?thesis by (simp add: kc_is_halted_latches ks_run_latches)
qed

text \<open>C6: once a human has activated the manual kill switch, the system stays
  halted, with the manual reason in front, through every sequence of other operations (breaker and
  timeout traffic, refused deactivations, at any times) that has no accepted manual deactivation.\<close>

theorem manual_kill_overrides:
  assumes "by \<noteq> []" and "reason \<noteq> []"
    and "\<forall>(t1, t2, op) \<in> set ops. \<not> clears_manual op"
  shows "kc_is_halted (fold ks_step ops (snd (activate_manual_kill t1 t2 by reason c))) \<and>
         (\<exists>r. get_halt_reason (fold ks_step ops (snd (activate_manual_kill t1 t2 by reason c))) =
            Some [T ''MANUAL: '', T r])"
proof -
  let ?c = "snd (activate_manual_kill t1 t2 by reason c)"
  have "fst (latches_of ?c)"
    using assms(1,2)
    by (simp add: activate_manual_kill_def log_state_change_def latches_of_def ks_activate_manual_kill_def)
  with assms(3) have "fst (latches_of (fold ks_step ops ?c))" by (rule manual_latch_run)
  then show ?thesis
    by (simp add: latches_of_def kc_is_halted_def ks_is_halted_def get_halt_reason_def)
qed

theorem manual_kill_overrides_witness:
  "kc_is_halted (fold ks_step [(3, 4, Deactivate_manual [] ''resume''), (5, 6, Activate_breaker ''db''),
       (7, 8, Deactivate_breaker ''bob'' ''fixed'')]
     (snd (activate_manual_kill 1 2 ''alice'' ''drill'' (kc_init 0))))"
  by (rule manual_kill_overrides [THEN conjunct1]) simp_all

text \<open>The history of a controller has its initial record and exactly one
  record per accepted operation, the last record's snapshot is the current state, and a record
  once written is never changed by later operations.\<close>

theorem ks_history_complete:
  "length (kc_history (fold ks_step ops (kc_init tz))) =
     1 + length (filter (\<lambda>(_, _, op). ks_accepts op) ops) \<and>
   kh_state_snapshot (last (kc_history (fold ks_step ops (kc_init tz)))) =
     ks_to_dict (kc_state (fold ks_step ops (kc_init tz))) \<and>
   (i < length (kc_history c) \<longrightarrow> kc_history (fold ks_step ops c) ! i = kc_history c ! i)"
proof (intro conjI impI)
  show "kc_history (fold ks_step ops c) ! i = kc_history c ! i" if "i < length (kc_history c)"
    using that by (rule ksc.run_entry_stable)
  have len: "length (kc_history (fold ks_step ops d)) =
      length (kc_history d) + length (filter (\<lambda>(_, _, op). ks_accepts op) ops)" for d
    by (induction ops arbitrary: d) (auto, (subst ks_step_history, simp)+)
  show "length (kc_history (fold ks_step ops (kc_init tz))) =
          1 + length (filter (\<lambda>(_, _, op). ks_accepts op) ops)"
    by (simp add: len, simp add: kc_init_def log_state_change_def)
  have snap: "kh_state_snapshot (last (kc_history d)) = ks_to_dict (kc_state d) \<Longrightarrow>
      kh_state_snapshot (last (kc_history (fold ks_step ops d))) =
        ks_to_dict (kc_state (fold ks_step ops d))" for d
  proof (induction ops arbitrary: d)
    case (Cons op ops)
    obtain t1 t2 k where op: "op = (t1, t2, k)" by (cases op)
    have "kh_state_snapshot (last (kc_history (ks_step op d))) = ks_to_dict (kc_state (ks_step op d))"
      using Cons.prems unfolding op
      by (cases "ks_accepts k") (simp_all add: ks_step_snapshot ks_step_rejected)
    then show ?case by (simp add: Cons.IH)
  qed simp
  show "kh_state_snapshot (last (kc_history (fold ks_step ops (kc_init tz)))) =
          ks_to_dict (kc_state (fold ks_step ops (kc_init tz)))"
    by (rule snap) (simp add: kc_init_def log_state_change_def kc_get_state_def)
qed

theorem ks_history_complete_witness:
  "kc_history (fold ks_step [(1, 2, Activate_breaker ''db'')] (kc_init 0)) ! 0 = kc_history (kc_init 0) ! 0"
  using ks_history_complete [where i = 0 and c = "kc_init 0" and ops = "[(1, 2, Activate_breaker ''db'')]" and tz = 0]
  by (simp add: kc_init_def log_state_change_def)

end
