(* ===== verification/Boundary_Audit.thy ===== *)
theory Boundary_Audit
  imports Boundary_Models Contracts
begin

text \<open>
  \<open>execution_boundary/execution_audit_logger.py\<close>: the audit logger keeps every record in memory
  and, when a log file is configured, appends it to the file too. The file system is outside the
  program: whether creating the directory, touching the file or appending a line succeeds is an
  argument (\<open>mkdir_ok\<close>, \<open>touch_ok\<close>, \<open>write_ok\<close>). A fresh record id (\<open>rid\<close>) and the clock
  (\<open>now\<close>) are arguments of every operation. Building the record may raise the \<open>ValueError\<close> of
  \<open>ExecutionAuditRecord.__post_init__\<close>, and then nothing is logged.
\<close>

section \<open>The logger\<close>

record audit_logger =
  al_log_file :: "string option"
  al_memory_log :: "pydict list"
  al_file_lines :: "pydict list"

definition al_init :: "bool \<Rightarrow> bool \<Rightarrow> string option \<Rightarrow> pydict list \<Rightarrow> py_error + audit_logger" where
  "al_init mkdir_ok touch_ok log_file existing =
     (if truthy_str log_file then
        (if \<not> mkdir_ok then Inl OSError
         else Inr \<lparr>al_log_file = (if touch_ok then log_file else None),
                   al_memory_log = [], al_file_lines = existing\<rparr>)
      else Inr \<lparr>al_log_file = log_file, al_memory_log = [], al_file_lines = existing\<rparr>)"

definition append_record :: "bool \<Rightarrow> audit_record \<Rightarrow> audit_logger \<Rightarrow> string \<times> audit_logger" where
  "append_record write_ok r l =
     (let d = audit_to_dict r;
          l' = l\<lparr>al_memory_log := al_memory_log l @ [d]\<rparr> in
      (ar_record_id r,
       if truthy_str (al_log_file l) \<and> write_ok
       then l'\<lparr>al_file_lines := al_file_lines l @ [d]\<rparr> else l'))"

text \<open>The common shape of the logging operations: build the record, check it, append it.\<close>

definition log_record ::
    "bool \<Rightarrow> audit_record \<Rightarrow> audit_logger \<Rightarrow> (py_error + string) \<times> audit_logger" where
  "log_record write_ok r l =
     (case audit_post_init r of
        Inl e \<Rightarrow> (Inl e, l)
      | Inr r' \<Rightarrow> (case append_record write_ok r' l of (rid, l') \<Rightarrow> (Inr rid, l')))"

definition data_or :: "pydict option \<Rightarrow> pydict \<Rightarrow> pydict" where
  "data_or event_data dflt =
     (case event_data of None \<Rightarrow> dflt | Some d \<Rightarrow> if d = [] then dflt else d)"

type_synonym log_env = "bool \<times> string \<times> time"

section \<open>The logging operations\<close>

definition log_intent_created ::
    "log_env \<Rightarrow> execution_intent \<Rightarrow> string \<Rightarrow> string \<Rightarrow> audit_logger \<Rightarrow>
     (py_error + string) \<times> audit_logger" where
  "log_intent_created e intent actor note =
     (case e of (write_ok, rid, now) \<Rightarrow> log_record write_ok
       \<lparr>ar_record_id = rid, ar_timestamp = now, ar_event_type = ''intent_created'',
        ar_intent_id = ei_intent_id intent, ar_approval_id = None,
        ar_status = intent_status_value (ei_status intent),
        ar_event_data = intent_to_dict intent, ar_human_note = note, ar_actor = actor,
        ar_severity = ''INFO''\<rparr>)"

definition log_approval_granted ::
    "log_env \<Rightarrow> string \<Rightarrow> human_approval \<Rightarrow> string \<Rightarrow> string \<Rightarrow> audit_logger \<Rightarrow>
     (py_error + string) \<times> audit_logger" where
  "log_approval_granted e intent_id approval actor note =
     (case e of (write_ok, rid, now) \<Rightarrow> log_record write_ok
       \<lparr>ar_record_id = rid, ar_timestamp = now, ar_event_type = ''approval_granted'',
        ar_intent_id = intent_id, ar_approval_id = Some (ha_approval_id approval),
        ar_status = ''approved'', ar_event_data = approval_to_dict approval,
        ar_human_note = note, ar_actor = actor, ar_severity = ''INFO''\<rparr>)"

definition log_approval_rejected ::
    "log_env \<Rightarrow> string \<Rightarrow> human_approval \<Rightarrow> string \<Rightarrow> string \<Rightarrow> audit_logger \<Rightarrow>
     (py_error + string) \<times> audit_logger" where
  "log_approval_rejected e intent_id approval actor note =
     (case e of (write_ok, rid, now) \<Rightarrow> log_record write_ok
       \<lparr>ar_record_id = rid, ar_timestamp = now, ar_event_type = ''approval_rejected'',
        ar_intent_id = intent_id, ar_approval_id = Some (ha_approval_id approval),
        ar_status = ''rejected'', ar_event_data = approval_to_dict approval,
        ar_human_note = note, ar_actor = actor, ar_severity = ''WARNING''\<rparr>)"

definition log_execution_started ::
    "log_env \<Rightarrow> string \<Rightarrow> string \<Rightarrow> string \<Rightarrow> pydict option \<Rightarrow> audit_logger \<Rightarrow>
     (py_error + string) \<times> audit_logger" where
  "log_execution_started e intent_id actor note event_data =
     (case e of (write_ok, rid, now) \<Rightarrow> log_record write_ok
       \<lparr>ar_record_id = rid, ar_timestamp = now, ar_event_type = ''execution_started'',
        ar_intent_id = intent_id, ar_approval_id = None, ar_status = ''executing'',
        ar_event_data = data_or event_data [], ar_human_note = note, ar_actor = actor,
        ar_severity = ''INFO''\<rparr>)"

definition log_execution_completed ::
    "log_env \<Rightarrow> string \<Rightarrow> string \<Rightarrow> string \<Rightarrow> pydict option \<Rightarrow> audit_logger \<Rightarrow>
     (py_error + string) \<times> audit_logger" where
  "log_execution_completed e intent_id actor note event_data =
     (case e of (write_ok, rid, now) \<Rightarrow> log_record write_ok
       \<lparr>ar_record_id = rid, ar_timestamp = now, ar_event_type = ''execution_completed'',
        ar_intent_id = intent_id, ar_approval_id = None, ar_status = ''executed'',
        ar_event_data = data_or event_data [], ar_human_note = note, ar_actor = actor,
        ar_severity = ''INFO''\<rparr>)"

definition log_execution_failed ::
    "log_env \<Rightarrow> string \<Rightarrow> string \<Rightarrow> string \<Rightarrow> pydict option \<Rightarrow> audit_logger \<Rightarrow>
     (py_error + string) \<times> audit_logger" where
  "log_execution_failed e intent_id actor error event_data =
     (case e of (write_ok, rid, now) \<Rightarrow> log_record write_ok
       \<lparr>ar_record_id = rid, ar_timestamp = now, ar_event_type = ''execution_failed'',
        ar_intent_id = intent_id, ar_approval_id = None, ar_status = ''failed'',
        ar_event_data = data_or event_data [(''error'', VStr error)],
        ar_human_note = ''Execution failed: '' @ error, ar_actor = actor,
        ar_severity = ''CRITICAL''\<rparr>)"

definition log_kill_switch_activated ::
    "log_env \<Rightarrow> string \<Rightarrow> string \<Rightarrow> string \<Rightarrow> pydict option \<Rightarrow> audit_logger \<Rightarrow>
     (py_error + string) \<times> audit_logger" where
  "log_kill_switch_activated e kill_switch_type actor reason event_data =
     (case e of (write_ok, rid, now) \<Rightarrow> log_record write_ok
       \<lparr>ar_record_id = rid, ar_timestamp = now, ar_event_type = ''kill_switch_activated'',
        ar_intent_id = ''system'', ar_approval_id = None,
        ar_status = ''halted_'' @ kill_switch_type,
        ar_event_data = data_or event_data [(''kill_switch_type'', VStr kill_switch_type)],
        ar_human_note = ''Kill switch activated: '' @ reason, ar_actor = actor,
        ar_severity = ''CRITICAL''\<rparr>)"

definition log_kill_switch_deactivated ::
    "log_env \<Rightarrow> string \<Rightarrow> string \<Rightarrow> string \<Rightarrow> pydict option \<Rightarrow> audit_logger \<Rightarrow>
     (py_error + string) \<times> audit_logger" where
  "log_kill_switch_deactivated e kill_switch_type actor reason event_data =
     (case e of (write_ok, rid, now) \<Rightarrow> log_record write_ok
       \<lparr>ar_record_id = rid, ar_timestamp = now, ar_event_type = ''kill_switch_deactivated'',
        ar_intent_id = ''system'', ar_approval_id = None,
        ar_status = ''resumed_'' @ kill_switch_type,
        ar_event_data = data_or event_data [(''kill_switch_type'', VStr kill_switch_type)],
        ar_human_note = ''Kill switch deactivated: '' @ reason, ar_actor = actor,
        ar_severity = ''WARNING''\<rparr>)"

definition log_custom_event ::
    "log_env \<Rightarrow> string \<Rightarrow> string \<Rightarrow> string \<Rightarrow> string \<Rightarrow> string \<Rightarrow> pydict option \<Rightarrow> audit_logger \<Rightarrow>
     (py_error + string) \<times> audit_logger" where
  "log_custom_event e event_type intent_id actor note severity event_data =
     (case e of (write_ok, rid, now) \<Rightarrow> log_record write_ok
       \<lparr>ar_record_id = rid, ar_timestamp = now, ar_event_type = event_type,
        ar_intent_id = intent_id, ar_approval_id = None, ar_status = event_type,
        ar_event_data = data_or event_data [], ar_human_note = note, ar_actor = actor,
        ar_severity = severity\<rparr>)"

text \<open>\<open>get_logs\<close> filters by the given fields; an absent or empty argument does not filter.\<close>

definition has_field :: "string \<Rightarrow> string \<Rightarrow> pydict \<Rightarrow> bool" where
  "has_field f v d \<longleftrightarrow> map_of d f = Some (VStr v)"

definition get_logs :: "string option \<Rightarrow> string option \<Rightarrow> audit_logger \<Rightarrow> pydict list" where
  "get_logs intent_id event_type l =
     (let logs = al_memory_log l;
          logs = (if truthy_str intent_id then filter (has_field ''intent_id'' (the intent_id)) logs
                  else logs)
      in if truthy_str event_type then filter (has_field ''event_type'' (the event_type)) logs
         else logs)"

section \<open>The logger as a machine\<close>

datatype audit_op =
    Op_intent_created execution_intent string string
  | Op_approval_granted string human_approval string string
  | Op_approval_rejected string human_approval string string
  | Op_execution_started string string string "pydict option"
  | Op_execution_completed string string string "pydict option"
  | Op_execution_failed string string string "pydict option"
  | Op_kill_switch_activated string string string "pydict option"
  | Op_kill_switch_deactivated string string string "pydict option"
  | Op_custom_event string string string string string "pydict option"

fun audit_exec :: "log_env \<times> audit_op \<Rightarrow> audit_logger \<Rightarrow> (py_error + string) \<times> audit_logger" where
  "audit_exec (e, Op_intent_created i a n) l = log_intent_created e i a n l"
| "audit_exec (e, Op_approval_granted i ap a n) l = log_approval_granted e i ap a n l"
| "audit_exec (e, Op_approval_rejected i ap a n) l = log_approval_rejected e i ap a n l"
| "audit_exec (e, Op_execution_started i a n d) l = log_execution_started e i a n d l"
| "audit_exec (e, Op_execution_completed i a n d) l = log_execution_completed e i a n d l"
| "audit_exec (e, Op_execution_failed i a n d) l = log_execution_failed e i a n d l"
| "audit_exec (e, Op_kill_switch_activated k a r d) l = log_kill_switch_activated e k a r d l"
| "audit_exec (e, Op_kill_switch_deactivated k a r d) l = log_kill_switch_deactivated e k a r d l"
| "audit_exec (e, Op_custom_event t i a n s d) l = log_custom_event e t i a n s d l"

definition audit_step :: "log_env \<times> audit_op \<Rightarrow> audit_logger \<Rightarrow> audit_logger" where
  "audit_step op l = snd (audit_exec op l)"

text \<open>The record an operation builds, and the fields the constructor insists on.\<close>

fun op_actor :: "audit_op \<Rightarrow> string" where
  "op_actor (Op_intent_created i a n) = a"
| "op_actor (Op_approval_granted i ap a n) = a"
| "op_actor (Op_approval_rejected i ap a n) = a"
| "op_actor (Op_execution_started i a n d) = a"
| "op_actor (Op_execution_completed i a n d) = a"
| "op_actor (Op_execution_failed i a n d) = a"
| "op_actor (Op_kill_switch_activated k a r d) = a"
| "op_actor (Op_kill_switch_deactivated k a r d) = a"
| "op_actor (Op_custom_event t i a n s d) = a"

fun op_intent :: "audit_op \<Rightarrow> string" where
  "op_intent (Op_intent_created i a n) = ei_intent_id i"
| "op_intent (Op_approval_granted i ap a n) = i"
| "op_intent (Op_approval_rejected i ap a n) = i"
| "op_intent (Op_execution_started i a n d) = i"
| "op_intent (Op_execution_completed i a n d) = i"
| "op_intent (Op_execution_failed i a n d) = i"
| "op_intent (Op_kill_switch_activated k a r d) = ''system''"
| "op_intent (Op_kill_switch_deactivated k a r d) = ''system''"
| "op_intent (Op_custom_event t i a n s d) = i"

fun op_event_type :: "audit_op \<Rightarrow> string" where
  "op_event_type (Op_intent_created i a n) = ''intent_created''"
| "op_event_type (Op_approval_granted i ap a n) = ''approval_granted''"
| "op_event_type (Op_approval_rejected i ap a n) = ''approval_rejected''"
| "op_event_type (Op_execution_started i a n d) = ''execution_started''"
| "op_event_type (Op_execution_completed i a n d) = ''execution_completed''"
| "op_event_type (Op_execution_failed i a n d) = ''execution_failed''"
| "op_event_type (Op_kill_switch_activated k a r d) = ''kill_switch_activated''"
| "op_event_type (Op_kill_switch_deactivated k a r d) = ''kill_switch_deactivated''"
| "op_event_type (Op_custom_event t i a n s d) = t"

definition op_complete :: "audit_op \<Rightarrow> bool" where
  "op_complete op \<longleftrightarrow> op_event_type op \<noteq> [] \<and> op_intent op \<noteq> [] \<and> op_actor op \<noteq> []"

lemmas audit_op_defs =
  log_intent_created_def log_approval_granted_def log_approval_rejected_def
  log_execution_started_def log_execution_completed_def log_execution_failed_def
  log_kill_switch_activated_def log_kill_switch_deactivated_def log_custom_event_def

lemma log_record_cases:
  "log_record w r l =
     (if ar_event_type r = [] \<or> ar_intent_id r = [] \<or> ar_actor r = []
      then (Inl (projl (audit_post_init r)), l)
      else (Inr (ar_record_id r), snd (append_record w r l)))"
  by (auto simp: log_record_def audit_post_init_def append_record_def Let_def)

lemma append_record_memory [simp]:
  "al_memory_log (snd (append_record w r l)) = al_memory_log l @ [audit_to_dict r]"
  "al_log_file (snd (append_record w r l)) = al_log_file l"
  by (simp_all add: append_record_def Let_def)

lemma append_record_file:
  "al_file_lines (snd (append_record w r l)) =
     al_file_lines l @ (if truthy_str (al_log_file l) \<and> w then [audit_to_dict r] else [])"
  by (simp add: append_record_def Let_def)

text \<open>Every operation is \<open>log_record\<close> on a record with the fields above.\<close>

lemma audit_exec_record:
  "\<exists>r. audit_exec ((w, rid, now), op) l = log_record w r l \<and> ar_record_id r = rid \<and>
       ar_event_type r = op_event_type op \<and> ar_intent_id r = op_intent op \<and>
       ar_actor r = op_actor op \<and> ar_timestamp r = now"
  by (cases op) (simp_all add: audit_op_defs, (rule exI, rule conjI, rule refl, simp)+)

lemma audit_step_cases:
  obtains (rejected) "\<not> op_complete op" "audit_step ((w, rid, now), op) l = l"
    | (logged) r where "op_complete op" "audit_step ((w, rid, now), op) l = snd (append_record w r l)"
        "ar_record_id r = rid" "ar_event_type r = op_event_type op"
        "ar_intent_id r = op_intent op" "ar_actor r = op_actor op"
proof -
  obtain r where r: "audit_exec ((w, rid, now), op) l = log_record w r l" "ar_record_id r = rid"
      "ar_event_type r = op_event_type op" "ar_intent_id r = op_intent op"
      "ar_actor r = op_actor op"
    using audit_exec_record [of w rid now op l] by blast
  show ?thesis
  proof (cases "op_complete op")
    case True
    with r show ?thesis
      by (intro logged [of r]) (auto simp: audit_step_def log_record_cases op_complete_def)
  next
    case False
    with r show ?thesis
      by (intro rejected) (auto simp: audit_step_def log_record_cases op_complete_def)
  qed
qed

text \<open>The memory log is an append-only log and complete for itself and the file.\<close>

interpretation aul: audited audit_step al_memory_log al_file_lines
proof
  fix op :: "log_env \<times> audit_op" and l
  obtain w rid now k where op: "op = ((w, rid, now), k)" by (cases op) auto
  show "prefix (al_memory_log l) (al_memory_log (audit_step op l))"
    unfolding op by (rule audit_step_cases [of k w rid now l]) simp_all
  show "al_file_lines (audit_step op l) = al_file_lines l"
    if "al_memory_log (audit_step op l) = al_memory_log l"
    using that unfolding op by (rule_tac audit_step_cases [of k w rid now l]) simp_all
qed

text \<open>
  What the file holds, beyond the lines it had when it was opened, is a subsequence of the
  memory log: a failed write loses a line and never reorders or invents one.
\<close>

definition file_inv :: "pydict list \<Rightarrow> audit_logger \<Rightarrow> bool" where
  "file_inv existing l \<longleftrightarrow> (\<exists>ls. al_file_lines l = existing @ ls \<and> subseq ls (al_memory_log l))"

lemma file_inv_append:
  assumes "file_inv existing l"
  shows "file_inv existing (snd (append_record w r l))"
proof -
  obtain ls where ls: "al_file_lines l = existing @ ls" "subseq ls (al_memory_log l)"
    using assms by (auto simp: file_inv_def)
  show ?thesis
  proof (cases "truthy_str (al_log_file l) \<and> w")
    case True
    with ls show ?thesis
      by (auto simp: file_inv_def append_record_file intro!: subseq_snoc_both exI [of _ "ls @ [audit_to_dict r]"])
  next
    case False
    with ls show ?thesis
      by (auto simp: file_inv_def append_record_file intro: subseq_snoc_right)
  qed
qed

interpretation aul_file: inv_machine audit_step "file_inv existing" for existing
proof
  fix op :: "log_env \<times> audit_op" and l
  assume inv: "file_inv existing l"
  obtain w rid now k where op: "op = ((w, rid, now), k)" by (cases op) auto
  show "file_inv existing (audit_step op l)"
    unfolding op by (rule audit_step_cases [of k w rid now l]) (simp_all add: inv file_inv_append)
qed

section \<open>Properties\<close>

text \<open>C7: no logging operation, whatever its arguments and whether or not its
  file write succeeds, changes or removes a record that is already in the log; and the file
  receives only records of the memory log, in order.\<close>

theorem audit_log_immutable:
  "(i < length (al_memory_log l) \<longrightarrow> al_memory_log (fold audit_step ops l) ! i = al_memory_log l ! i) \<and>
   (al_init mk tc f existing = Inr l0 \<longrightarrow>
      (\<exists>ls. al_file_lines (fold audit_step ops l0) = existing @ ls \<and>
            subseq ls (al_memory_log (fold audit_step ops l0))))"
proof (intro conjI impI)
  show "al_memory_log (fold audit_step ops l) ! i = al_memory_log l ! i"
    if "i < length (al_memory_log l)"
    using that by (rule aul.run_entry_stable)
  assume "al_init mk tc f existing = Inr l0"
  then have "file_inv existing l0" by (auto simp: al_init_def file_inv_def split: if_splits)
  then have "file_inv existing (fold audit_step ops l0)" by (rule aul_file.run_inv)
  then show "\<exists>ls. al_file_lines (fold audit_step ops l0) = existing @ ls \<and>
      subseq ls (al_memory_log (fold audit_step ops l0))"
    by (simp add: file_inv_def)
qed

theorem audit_log_immutable_witness:
  "\<exists>l0 l1. al_init True True (Some ''audit.log'') [] = Inr l0 \<and>
     l1 = audit_step ((False, ''r1'', 5), Op_execution_started ''i1'' ''bob'' ''go'' None) l0 \<and>
     length (al_memory_log l1) = 1 \<and>
     (\<forall>ops. al_memory_log (fold audit_step ops l1) ! 0 = al_memory_log l1 ! 0)"
proof -
  obtain l0 where l0: "al_init True True (Some ''audit.log'') [] = Inr l0" "al_memory_log l0 = []"
    by (simp add: al_init_def)
  let ?l1 = "audit_step ((False, ''r1'', 5), Op_execution_started ''i1'' ''bob'' ''go'' None) l0"
  have len: "length (al_memory_log ?l1) = 1"
    by (simp add: audit_step_def log_execution_started_def log_record_cases l0(2))
  then have "\<forall>ops. al_memory_log (fold audit_step ops ?l1) ! 0 = al_memory_log ?l1 ! 0"
    using audit_log_immutable [of 0 ?l1] by simp
  with l0(1) len show ?thesis by blast
qed

text \<open>An operation whose event type, intent id and actor are present returns
  the new record's id and adds exactly one record, with these three values; an operation with one
  of them missing raises \<open>ValueError\<close> and leaves the logger as it was.\<close>

theorem audit_op_logs_once:
  "if op_complete op then
     fst (audit_exec ((w, rid, now), op) l) = Inr rid \<and>
     (\<exists>r. al_memory_log (audit_step ((w, rid, now), op) l) = al_memory_log l @ [audit_to_dict r] \<and>
          ar_record_id r = rid \<and> ar_timestamp r = now \<and> ar_event_type r = op_event_type op \<and>
          ar_intent_id r = op_intent op \<and> ar_actor r = op_actor op)
   else (\<exists>m. fst (audit_exec ((w, rid, now), op) l) = Inl (ValueError m)) \<and>
        audit_step ((w, rid, now), op) l = l"
proof -
  obtain r where r: "audit_exec ((w, rid, now), op) l = log_record w r l" "ar_record_id r = rid"
      "ar_event_type r = op_event_type op" "ar_intent_id r = op_intent op"
      "ar_actor r = op_actor op" "ar_timestamp r = now"
    using audit_exec_record [of w rid now op l] by blast
  then show ?thesis
    by (auto simp: audit_step_def log_record_cases op_complete_def audit_post_init_def)
qed

end
