(* ===== verification/Boundary_Guards.thy ===== *)
theory Boundary_Guards
  imports Boundary_Kill_Switch Boundary_Audit
begin

text \<open>
  \<open>execution_boundary/safety_guards.py\<close>: the guards and the gate that runs them all. A check
  returns its verdict and its message; the gate returns the verdict, the summary and one detail
  line per check, kept as a record of the check's name, verdict and message (the source renders
  the verdict with a tick or a cross). The gate reads the clock twice: \<open>t1\<close> is the reading in
  \<open>is_valid\<close>, \<open>t2\<close> the one in \<open>check_intent_constraints\<close>.
\<close>

section \<open>The checks\<close>

definition check_explicit_approval ::
    "time \<Rightarrow> execution_intent \<Rightarrow> human_approval option \<Rightarrow> bool \<times> fstring" where
  "check_explicit_approval now intent approval =
     (case approval of
        None \<Rightarrow> (False, [T ''No explicit human approval found. Execution blocked.''])
      | Some a \<Rightarrow>
          if ha_intent_id a \<noteq> ei_intent_id intent then
            (False, [T ''Approval intent_id '', T (ha_intent_id a),
                     T '' does not match execution intent_id '', T (ei_intent_id intent)])
          else if \<not> ha_approved a then (False, [T ''Approval explicitly rejected (approved=False)''])
          else if \<not> approval_is_valid now a then (False, [T ''Approval has expired''])
          else if ha_approval_rationale a = [] then (False, [T ''Approval missing required rationale''])
          else (True, [T ''Explicit human approval is valid'']))"

definition check_kill_switch :: "kill_switch_state \<Rightarrow> bool \<times> fstring" where
  "check_kill_switch k =
     (if ks_manual_kill_active k then
        (False, [T ''Manual kill switch is ACTIVE. Reason: '', T (ks_manual_kill_reason k)])
      else if ks_circuit_breaker_active k then
        (False, [T ''Circuit breaker is ACTIVE. Reason: '', T (ks_circuit_breaker_reason k)])
      else if ks_timeout_active k then
        (False, [T ''Timeout halt is ACTIVE. Duration: '', I (ks_timeout_duration_seconds k), T ''s''])
      else (True, [T ''All kill switches are inactive'']))"

definition opt_test :: "('a \<Rightarrow> bool) \<Rightarrow> 'a option \<Rightarrow> bool" where
  "opt_test p x = (case x of None \<Rightarrow> False | Some v \<Rightarrow> p v)"

lemma opt_test_simps [simp]:
  "opt_test p None = False"
  "opt_test p (Some v) = p v"
  by (simp_all add: opt_test_def)

definition check_intent_constraints :: "time \<Rightarrow> execution_intent \<Rightarrow> bool \<times> fstring" where
  "check_intent_constraints now intent =
     (if ei_human_rationale intent = [] then (False, [T ''Intent missing required human_rationale''])
      else if opt_test (\<lambda>x. x < 0) (ei_max_loss intent) then
        (False, [T ''max_loss must be non-negative, got '', F (the (ei_max_loss intent))])
      else if opt_test (\<lambda>x. x \<le> 0) (ei_max_position_size intent) then
        (False, [T ''max_position_size must be positive, got '', F (the (ei_max_position_size intent))])
      else if opt_test (\<lambda>e. e < now) (ei_expires_at intent) then (False, [T ''Intent has expired''])
      else (True, [T ''Intent constraints are satisfied'']))"

definition check_approval_conditions :: "human_approval \<Rightarrow> bool \<times> fstring" where
  "check_approval_conditions a =
     (if ha_conditional_approval a then
        (if ha_approval_conditions a = [] then
           (False, [T ''Conditional approval requires non-empty approval_conditions list''])
         else if length (ha_approval_conditions a) = 0 then
           (False, [T ''Conditional approval requires at least one condition''])
         else (True, [T ''Conditional approval has '', I (int (length (ha_approval_conditions a))),
                      T '' conditions (conditions must be verified by domain-specific logic)'']))
      else (True, [T ''No conditional constraints'']))"

definition check_approval_authority :: "human_approval \<Rightarrow> string \<Rightarrow> bool \<times> fstring" where
  "check_approval_authority a intent_type =
     (case ha_authority_level a of
        SYSTEM_ADMIN \<Rightarrow> (True, [T ''System admin approval is valid for all intent types''])
      | RISK_OFFICER \<Rightarrow>
          (if intent_type = ''manual_override'' then
             (False, [T ''Risk officer cannot approve emergency manual overrides. Requires system admin approval.''])
           else (True, [T ''Risk officer approval is valid for this intent type'']))
      | HUMAN_TRADER \<Rightarrow>
          (if intent_type \<in> {''open_position'', ''close_position'', ''modify_position''} then
             (True, [T ''Human trader approval is valid for this intent type''])
           else (False, [T ''Human trader cannot approve '', T intent_type,
                         T ''. Requires risk officer or system admin approval.''])))"

text \<open>The audit log is a list of dictionaries; \<open>e.get(f) == v\<close> is \<open>has_field f v e\<close>.\<close>

definition check_audit_trail :: "string \<Rightarrow> string \<Rightarrow> pydict list \<Rightarrow> bool \<times> fstring" where
  "check_audit_trail intent_id approval_id audit_log =
     (if audit_log = [] then (False, [T ''No audit trail present''])
      else if filter (\<lambda>e. has_field ''event_type'' ''intent_created'' e \<and>
                          has_field ''intent_id'' intent_id e) audit_log = [] then
        (False, [T ''No 'intent_created' event in audit trail for '', T intent_id])
      else if filter (has_field ''approval_id'' approval_id) audit_log = [] then
        (False, [T ''No approval event in audit trail for '', T approval_id])
      else (True, [T ''Audit trail is continuous ('', I (int (length audit_log)),
                   T '' events recorded)'']))"

section \<open>The gate\<close>

record check_line =
  cl_name :: string
  cl_ok :: bool
  cl_message :: fstring

definition mk_line :: "string \<Rightarrow> bool \<times> fstring \<Rightarrow> check_line" where
  "mk_line name r = \<lparr>cl_name = name, cl_ok = fst r, cl_message = snd r\<rparr>"

definition execute_all_checks ::
    "time \<Rightarrow> time \<Rightarrow> execution_intent \<Rightarrow> human_approval option \<Rightarrow> kill_switch_state \<Rightarrow> pydict list \<Rightarrow>
     bool \<times> string \<times> check_line list" where
  "execute_all_checks t1 t2 intent approval kill_switch audit_log =
     (let checks = [mk_line ''Explicit Approval'' (check_explicit_approval t1 intent approval),
                    mk_line ''Kill Switch'' (check_kill_switch kill_switch),
                    mk_line ''Intent Constraints'' (check_intent_constraints t2 intent)];
          checks = checks @
            (case approval of
               None \<Rightarrow> []
             | Some a \<Rightarrow>
                 [mk_line ''Approval Conditions'' (check_approval_conditions a),
                  mk_line ''Approval Authority''
                    (check_approval_authority a (intent_type_value (ei_intent_type intent))),
                  mk_line ''Audit Trail''
                    (check_audit_trail (ei_intent_id intent) (ha_approval_id a) audit_log)]);
          all_passed = list_all cl_ok checks
      in (all_passed,
          if all_passed then ''ALL CHECKS PASSED - Execution may proceed''
          else ''SAFETY CHECK FAILED - Execution blocked'',
          checks))"

section \<open>The specification of the gate\<close>

text \<open>Which authority may approve which type of intent.\<close>

fun may_approve :: "approval_authority \<Rightarrow> intent_type \<Rightarrow> bool" where
  "may_approve SYSTEM_ADMIN _ = True"
| "may_approve RISK_OFFICER ty = (ty \<noteq> MANUAL_OVERRIDE)"
| "may_approve HUMAN_TRADER ty = (ty \<in> {OPEN_POSITION, CLOSE_POSITION, MODIFY_POSITION})"

definition trail_complete :: "string \<Rightarrow> string \<Rightarrow> pydict list \<Rightarrow> bool" where
  "trail_complete intent_id approval_id trail \<longleftrightarrow>
     (\<exists>e \<in> set trail. has_field ''event_type'' ''intent_created'' e \<and> has_field ''intent_id'' intent_id e) \<and>
     (\<exists>e \<in> set trail. has_field ''approval_id'' approval_id e)"

definition may_execute ::
    "time \<Rightarrow> time \<Rightarrow> execution_intent \<Rightarrow> human_approval option \<Rightarrow> kill_switch_state \<Rightarrow> pydict list \<Rightarrow> bool" where
  "may_execute t1 t2 intent approval kill_switch trail \<longleftrightarrow>
     (\<exists>a. approval = Some a \<and>
        ha_intent_id a = ei_intent_id intent \<and> ha_approved a \<and> approval_is_valid t1 a \<and>
        ha_approval_rationale a \<noteq> [] \<and>
        (ha_conditional_approval a \<longrightarrow> ha_approval_conditions a \<noteq> []) \<and>
        may_approve (ha_authority_level a) (ei_intent_type intent) \<and>
        trail_complete (ei_intent_id intent) (ha_approval_id a) trail) \<and>
     \<not> ks_is_halted kill_switch \<and>
     ei_human_rationale intent \<noteq> [] \<and>
     (\<forall>x. ei_max_loss intent = Some x \<longrightarrow> 0 \<le> x) \<and>
     (\<forall>x. ei_max_position_size intent = Some x \<longrightarrow> 0 < x) \<and>
     (\<forall>e. ei_expires_at intent = Some e \<longrightarrow> t2 \<le> e)"

lemma explicit_approval_ok:
  "fst (check_explicit_approval now i ap) \<longleftrightarrow>
     (\<exists>a. ap = Some a \<and> ha_intent_id a = ei_intent_id i \<and> ha_approved a \<and>
          approval_is_valid now a \<and> ha_approval_rationale a \<noteq> [])"
  by (auto simp: check_explicit_approval_def split: option.splits)

lemma kill_switch_ok: "fst (check_kill_switch k) \<longleftrightarrow> \<not> ks_is_halted k"
  by (simp add: check_kill_switch_def ks_is_halted_def)

lemma intent_constraints_ok:
  "fst (check_intent_constraints now i) \<longleftrightarrow>
     ei_human_rationale i \<noteq> [] \<and> (\<forall>x. ei_max_loss i = Some x \<longrightarrow> 0 \<le> x) \<and>
     (\<forall>x. ei_max_position_size i = Some x \<longrightarrow> 0 < x) \<and>
     (\<forall>e. ei_expires_at i = Some e \<longrightarrow> now \<le> e)"
  by (cases "ei_max_loss i"; cases "ei_max_position_size i"; cases "ei_expires_at i")
     (auto simp: check_intent_constraints_def)

lemma approval_conditions_ok:
  "fst (check_approval_conditions a) \<longleftrightarrow>
     (ha_conditional_approval a \<longrightarrow> ha_approval_conditions a \<noteq> [])"
  by (simp add: check_approval_conditions_def)

lemma approval_authority_ok:
  "fst (check_approval_authority a (intent_type_value ty)) \<longleftrightarrow> may_approve (ha_authority_level a) ty"
  by (cases "ha_authority_level a"; cases ty) (simp_all add: check_approval_authority_def)

lemma audit_trail_ok: "fst (check_audit_trail i a trail) \<longleftrightarrow> trail_complete i a trail"
  by (auto simp: check_audit_trail_def trail_complete_def filter_empty_conv)

lemmas guard_oks =
  explicit_approval_ok kill_switch_ok intent_constraints_ok approval_conditions_ok
  approval_authority_ok audit_trail_ok

lemma execute_all_checks_spec:
  "fst (execute_all_checks t1 t2 i ap k trail) \<longleftrightarrow> may_execute t1 t2 i ap k trail"
  by (cases ap)
     (auto simp: execute_all_checks_def mk_line_def Let_def guard_oks may_execute_def)

text \<open>
  A trail stays complete when the log grows, so a run of the logger between the two required
  events, or after them, never makes the audit check fail.
\<close>

lemma trail_complete_prefix:
  "trail_complete i a t \<Longrightarrow> prefix t u \<Longrightarrow> trail_complete i a u"
  by (auto simp: trail_complete_def prefix_def)

lemma log_intent_created_logs:
  assumes "actor \<noteq> []" and "ei_intent_id i \<noteq> []"
  shows "\<exists>e \<in> set (al_memory_log (audit_step (env, Op_intent_created i actor note) l)).
           has_field ''event_type'' ''intent_created'' e \<and> has_field ''intent_id'' (ei_intent_id i) e"
  using assms
  by (cases env)
     (auto simp: audit_step_def log_intent_created_def log_record_cases has_field_def)

lemma log_approval_logs:
  assumes "actor \<noteq> []" and "iid \<noteq> []"
  shows "\<exists>e \<in> set (al_memory_log (audit_step (env, Op_approval_granted iid ap actor note) l)).
           has_field ''approval_id'' (ha_approval_id ap) e"
  using assms
  by (cases env)
     (auto simp: audit_step_def log_approval_granted_def log_record_cases has_field_def)

section \<open>Properties\<close>

text \<open>C2: the gate passes exactly when its specification allows execution: there
  is an approval for this very intent, granted, unexpired, with a rationale, with its conditions
  listed when it is conditional, from an authority that may approve this type of intent, with a
  complete audit trail; no kill switch is active; and the intent keeps its own bounds. In
  particular no approval, or any active kill switch, means no execution.\<close>

theorem gate_is_fail_closed:
  "(fst (execute_all_checks t1 t2 i ap k trail) \<longleftrightarrow> may_execute t1 t2 i ap k trail) \<and>
   \<not> fst (execute_all_checks t1 t2 i None k trail) \<and>
   (ks_is_halted k \<longrightarrow> \<not> fst (execute_all_checks t1 t2 i ap k trail))"
  by (simp_all add: execute_all_checks_spec may_execute_def)

theorem gate_is_fail_closed_witness:
  "\<forall>t1 t2 i ap trail.
     \<not> fst (execute_all_checks t1 t2 i ap (ks_default\<lparr>ks_timeout_active := True\<rparr>) trail)"
proof -
  have "ks_is_halted (ks_default\<lparr>ks_timeout_active := True\<rparr>)" by (simp add: ks_is_halted_def)
  then show ?thesis using gate_is_fail_closed by blast
qed

end
