(* ===== verification/Engine_Types.thy ===== *)
theory Engine_Types
  imports Contracts
begin

text \<open>
  \<open>reasoner_service/execution_engine.py\<close>, first part: the enumerations and data contracts of the
  execution engine, the kill-switch manager and the timeout controller. Clock readings are
  arguments here; the engine itself (theory \<open>Engine\<close>) reads a clock.
\<close>

section \<open>Enumerations\<close>

datatype execution_stage =
    SUBMITTED | PENDING | PARTIALLY_FILLED | FILLED | CANCELLED | FAILED | FAILED_TIMEOUT
  | EXECUTED_FULL_LATE | REJECTED

datatype switch_type = GLOBAL | SYMBOL_LEVEL | RISK_LIMIT | MANUAL

datatype switch_level = OFF | WARNING | ACTIVE

datatype reconciliation_status =
    MATCHED | MISMATCH | PHANTOM_POSITION | MISSING_POSITION | MISSING_SL_TP

text \<open>The levels of a switch are ordered by severity.\<close>

fun level_rank :: "switch_level \<Rightarrow> nat" where
  "level_rank OFF = 0"
| "level_rank WARNING = 1"
| "level_rank ACTIVE = 2"

lemma level_rank_inject [simp]: "level_rank a = level_rank b \<longleftrightarrow> a = b"
  by (cases a; cases b) simp_all

instantiation switch_level :: linorder
begin

definition less_eq_switch_level :: "switch_level \<Rightarrow> switch_level \<Rightarrow> bool" where
  "a \<le> b \<longleftrightarrow> level_rank a \<le> level_rank b"

definition less_switch_level :: "switch_level \<Rightarrow> switch_level \<Rightarrow> bool" where
  "a < b \<longleftrightarrow> level_rank a < level_rank b"

instance
  by standard (auto simp: less_eq_switch_level_def less_switch_level_def)

end

lemma OFF_least [simp]: "OFF \<le> l"
  by (simp add: less_eq_switch_level_def)

lemma not_off_iff: "l \<noteq> OFF \<longleftrightarrow> WARNING \<le> l"
  by (cases l) (simp_all add: less_eq_switch_level_def)

section \<open>Data contracts\<close>

text \<open>
  \<open>FrozenSnapshot\<close> is a frozen dataclass: as a value it cannot change. Its forensic hash is
  SHA-256 of five interpolated fields; the digest function is the argument \<open>sha256\<close>.
\<close>

record frozen_snapshot =
  fs_advisory_id :: string
  fs_htf_bias :: string
  fs_reasoning_mode :: string
  fs_reference_price :: rat
  fs_sl_offset_pct :: rat
  fs_tp_offset_pct :: rat
  fs_position_size :: rat
  fs_symbol :: string
  fs_expiration_timestamp :: time
  fs_created_at :: time
  fs_reasoning_context :: pydict

definition snapshot_hash :: "(fstring \<Rightarrow> string) \<Rightarrow> frozen_snapshot \<Rightarrow> string" where
  "snapshot_hash sha256 s =
     sha256 [T (fs_advisory_id s), F (fs_reference_price s), F (fs_sl_offset_pct s),
             F (fs_tp_offset_pct s), F (fs_position_size s)]"

record execution_attempt =
  ea_attempt_id :: string
  ea_advisory_id :: string
  ea_timestamp_submit :: "time option"
  ea_timestamp_fill :: "time option"
  ea_order_id :: "string option"
  ea_fill_price :: "rat option"
  ea_filled_size :: "rat option"
  ea_stage :: execution_stage
  ea_slippage_pct :: "rat option"
  ea_calculated_sl :: "rat option"
  ea_calculated_tp :: "rat option"
  ea_retry_count :: int
  ea_retry_reasons :: "string list"

record reconciliation_report =
  rr_reconciliation_id :: string
  rr_advisory_id :: string
  rr_timestamp :: time
  rr_broker_order_id :: "string option"
  rr_broker_order_state :: "string option"
  rr_broker_fill_price :: "rat option"
  rr_broker_filled_size :: "rat option"
  rr_broker_position_size :: "rat option"
  rr_broker_sl :: "rat option"
  rr_broker_tp :: "rat option"
  rr_internal_order_id :: "string option"
  rr_internal_fill_price :: "rat option"
  rr_internal_position_size :: "rat option"
  rr_internal_sl :: "rat option"
  rr_internal_tp :: "rat option"
  rr_status :: reconciliation_status
  rr_mismatches :: "fstring list"
  rr_requires_manual_resolution :: bool

definition new_report :: "string \<Rightarrow> time \<Rightarrow> string \<Rightarrow> reconciliation_report" where
  "new_report rid now advisory_id =
    \<lparr>rr_reconciliation_id = rid, rr_advisory_id = advisory_id, rr_timestamp = now,
     rr_broker_order_id = None, rr_broker_order_state = None, rr_broker_fill_price = None,
     rr_broker_filled_size = None, rr_broker_position_size = None, rr_broker_sl = None,
     rr_broker_tp = None, rr_internal_order_id = None, rr_internal_fill_price = None,
     rr_internal_position_size = None, rr_internal_sl = None, rr_internal_tp = None,
     rr_status = MATCHED, rr_mismatches = [], rr_requires_manual_resolution = False\<rparr>"

record execution_result =
  er_advisory_id :: string
  er_status :: execution_stage
  er_final_order_id :: "string option"
  er_final_fill_price :: "rat option"
  er_final_position_size :: "rat option"
  er_final_sl :: "rat option"
  er_final_tp :: "rat option"
  er_slippage_pct :: "rat option"
  er_total_duration_seconds :: "rat option"
  er_kill_switch_state :: switch_level
  er_attempts :: "execution_attempt list"
  er_reconciliation_report :: "reconciliation_report option"
  er_error_message :: "fstring option"

definition new_result :: "string \<Rightarrow> execution_result" where
  "new_result advisory_id =
    \<lparr>er_advisory_id = advisory_id, er_status = SUBMITTED, er_final_order_id = None,
     er_final_fill_price = None, er_final_position_size = None, er_final_sl = None,
     er_final_tp = None, er_slippage_pct = None, er_total_duration_seconds = None,
     er_kill_switch_state = OFF, er_attempts = [], er_reconciliation_report = None,
     er_error_message = None\<rparr>"

section \<open>Kill-switch manager\<close>

record switch_change =
  sc_timestamp :: time
  sc_switch_type :: switch_type
  sc_target :: string
  sc_state :: switch_level
  sc_reason :: "string option"

record kill_switch_manager =
  km_kill_switches :: "string \<rightharpoonup> switch_level"
  km_switch_history :: "switch_change list"

definition km_init :: kill_switch_manager where
  "km_init = \<lparr>km_kill_switches = Map.empty, km_switch_history = []\<rparr>"

definition set_kill_switch ::
    "time \<Rightarrow> switch_type \<Rightarrow> switch_level \<Rightarrow> string option \<Rightarrow> string option \<Rightarrow>
     kill_switch_manager \<Rightarrow> kill_switch_manager" where
  "set_kill_switch now switch_type state target reason m =
     (let key = str_or target ''global'' in
      m\<lparr>km_kill_switches := (km_kill_switches m)(key \<mapsto> state),
        km_switch_history := km_switch_history m @
          [\<lparr>sc_timestamp = now, sc_switch_type = switch_type, sc_target = key,
            sc_state = state, sc_reason = reason\<rparr>]\<rparr>)"

definition km_get_state :: "string option \<Rightarrow> kill_switch_manager \<Rightarrow> switch_level" where
  "km_get_state target m =
     (case km_kill_switches m (str_or target ''global'') of None \<Rightarrow> OFF | Some l \<Rightarrow> l)"

definition km_is_active :: "string option \<Rightarrow> kill_switch_manager \<Rightarrow> bool" where
  "km_is_active target m =
     (let key = str_or target ''global'';
          state = (case km_kill_switches m key of None \<Rightarrow> OFF | Some l \<Rightarrow> l)
      in state \<in> {ACTIVE, WARNING})"

lemma km_is_active_iff: "km_is_active target m \<longleftrightarrow> WARNING \<le> km_get_state target m"
  by (cases "km_get_state target m")
     (auto simp: km_is_active_def km_get_state_def Let_def less_eq_switch_level_def)

type_synonym switch_call = "time \<times> switch_type \<times> switch_level \<times> string option \<times> string option"

fun km_step :: "switch_call \<Rightarrow> kill_switch_manager \<Rightarrow> kill_switch_manager" where
  "km_step (now, ty, l, target, reason) m = set_kill_switch now ty l target reason m"

text \<open>The manager's two interfaces: an append-only history, and a store keyed by the target.\<close>

interpretation km_log: append_only km_step km_switch_history
  by standard (auto simp: set_kill_switch_def Let_def)

fun call_key :: "switch_call \<Rightarrow> string" where
  "call_key (now, ty, l, target, reason) = str_or target ''global''"

fun call_level :: "switch_call \<Rightarrow> switch_level" where
  "call_level (now, ty, l, target, reason) = l"

interpretation km_store: keyed_store km_kill_switches km_step call_key call_level
  by standard (auto simp: set_kill_switch_def Let_def)

lemma set_kill_switch_state:
  "km_get_state t (set_kill_switch now ty l target reason m) =
     (if str_or t ''global'' = str_or target ''global'' then l else km_get_state t m)"
  by (simp add: km_get_state_def set_kill_switch_def Let_def)

section \<open>Timeout controller\<close>

definition HARD_TIMEOUT_SECONDS :: int where
  "HARD_TIMEOUT_SECONDS = 30"

record timeout_controller =
  tc_start_time :: "time option"
  tc_timeout_triggered :: bool

definition tc_init :: timeout_controller where
  "tc_init = \<lparr>tc_start_time = None, tc_timeout_triggered = False\<rparr>"

definition tc_start :: "time \<Rightarrow> timeout_controller \<Rightarrow> timeout_controller" where
  "tc_start now c = c\<lparr>tc_start_time := Some now\<rparr>"

definition tc_is_expired :: "time \<Rightarrow> timeout_controller \<Rightarrow> bool \<times> timeout_controller" where
  "tc_is_expired now c =
     (case tc_start_time c of
        None \<Rightarrow> (False, c)
      | Some t \<Rightarrow>
          let expired = (now - t > seconds HARD_TIMEOUT_SECONDS) in
          (expired, if expired \<and> \<not> tc_timeout_triggered c
                    then c\<lparr>tc_timeout_triggered := True\<rparr> else c))"

text \<open>\<open>total_seconds()\<close> of a difference of two times.\<close>

definition total_seconds :: "time \<Rightarrow> rat" where
  "total_seconds d = of_int d / 1000000"

definition tc_elapsed_seconds :: "time \<Rightarrow> timeout_controller \<Rightarrow> rat" where
  "tc_elapsed_seconds now c =
     (case tc_start_time c of None \<Rightarrow> 0 | Some t \<Rightarrow> total_seconds (now - t))"

definition tc_time_remaining_seconds :: "time \<Rightarrow> timeout_controller \<Rightarrow> rat" where
  "tc_time_remaining_seconds now c =
     max 0 (of_int HARD_TIMEOUT_SECONDS - tc_elapsed_seconds now c)"

lemma tc_is_expired_start [simp]: "tc_start_time (snd (tc_is_expired now c)) = tc_start_time c"
  by (simp add: tc_is_expired_def Let_def split: option.splits)

lemma tc_is_expired_iff:
  "fst (tc_is_expired now c) \<longleftrightarrow>
     (\<exists>t. tc_start_time c = Some t \<and> now - t > seconds HARD_TIMEOUT_SECONDS)"
  by (simp add: tc_is_expired_def Let_def split: option.splits)

lemma tc_is_expired_mono:
  "fst (tc_is_expired now c) \<Longrightarrow> now \<le> later \<Longrightarrow> fst (tc_is_expired later c)"
  by (auto simp: tc_is_expired_iff)

lemma tc_expired_iff_elapsed:
  "fst (tc_is_expired now c) \<longleftrightarrow> of_int HARD_TIMEOUT_SECONDS < tc_elapsed_seconds now c"
proof (cases "tc_start_time c")
  case None
  then show ?thesis
    by (simp add: tc_is_expired_iff tc_elapsed_seconds_def HARD_TIMEOUT_SECONDS_def)
next
  case (Some t)
  have "30 < (of_int (now - t) :: rat) / 1000000 \<longleftrightarrow> (of_int 30000000 :: rat) < of_int (now - t)"
    by (simp add: field_simps)
  also have "\<dots> \<longleftrightarrow> 30000000 < now - t" by (rule of_int_less_iff)
  finally show ?thesis
    using Some by (simp add: tc_is_expired_iff tc_elapsed_seconds_def total_seconds_def
        HARD_TIMEOUT_SECONDS_def seconds_def)
qed

end
