(* ===== verification/Exec_Monad.thy ===== *)
theory Exec_Monad
  imports Prelude
begin

text \<open>
  Programs that read and change a state, may raise, and may fail to return. The result \<open>None\<close> is
  "does not return"; \<open>Some (Inl e, s)\<close> is an exception with the state at the raise, for in Python
  the mutations made before an exception stay; \<open>Some (Inr x, s)\<close> is a normal result.
  \<open>hoare P m Q E\<close> is the partial-correctness triple with one postcondition per exit, and
  \<open>returns P m\<close> says that the program comes back from every state of \<open>P\<close>.
\<close>

type_synonym ('s, 'a) prog = "'s \<Rightarrow> ((py_error + 'a) \<times> 's) option"

definition ret :: "'a \<Rightarrow> ('s, 'a) prog" where
  "ret x s = Some (Inr x, s)"

definition throw :: "py_error \<Rightarrow> ('s, 'a) prog" where
  "throw e s = Some (Inl e, s)"

definition bnd :: "('s, 'a) prog \<Rightarrow> ('a \<Rightarrow> ('s, 'b) prog) \<Rightarrow> ('s, 'b) prog" where
  "bnd m f s =
     (case m s of
        None \<Rightarrow> None
      | Some (Inl e, s') \<Rightarrow> Some (Inl e, s')
      | Some (Inr x, s') \<Rightarrow> f x s')"

definition seq :: "('s, 'a) prog \<Rightarrow> ('s, 'b) prog \<Rightarrow> ('s, 'b) prog" where
  "seq m k = bnd m (\<lambda>_. k)"

definition gets :: "('s \<Rightarrow> 'a) \<Rightarrow> ('s, 'a) prog" where
  "gets f s = Some (Inr (f s), s)"

definition modify :: "('s \<Rightarrow> 's) \<Rightarrow> ('s, unit) prog" where
  "modify f s = Some (Inr (), f s)"

definition pure_step :: "('s \<Rightarrow> 'a \<times> 's) \<Rightarrow> ('s, 'a) prog" where
  "pure_step f s = (case f s of (x, s') \<Rightarrow> Some (Inr x, s'))"

definition call :: "('s \<Rightarrow> (py_error + 'a) \<times> 's) \<Rightarrow> ('s, 'a) prog" where
  "call f s = Some (f s)"

text \<open>\<open>try: m except Exception: pass\<close>.\<close>

definition swallow :: "('s, 'a) prog \<Rightarrow> ('s, unit) prog" where
  "swallow m s =
     (case m s of None \<Rightarrow> None | Some (_, s') \<Rightarrow> Some (Inr (), s'))"

lemmas prog_defs =
  ret_def throw_def bnd_def seq_def gets_def modify_def pure_step_def call_def swallow_def

section \<open>Triples\<close>

definition hoare ::
    "('s \<Rightarrow> bool) \<Rightarrow> ('s, 'a) prog \<Rightarrow> ('a \<Rightarrow> 's \<Rightarrow> bool) \<Rightarrow> ('s \<Rightarrow> bool) \<Rightarrow> bool" where
  "hoare P m Q E \<longleftrightarrow>
     (\<forall>s. P s \<longrightarrow>
        (case m s of None \<Rightarrow> True | Some (Inl e, s') \<Rightarrow> E s' | Some (Inr x, s') \<Rightarrow> Q x s'))"

lemma hoareD_normal: "hoare P m Q E \<Longrightarrow> P s \<Longrightarrow> m s = Some (Inr x, s') \<Longrightarrow> Q x s'"
  by (fastforce simp: hoare_def)

lemma hoareD_error: "hoare P m Q E \<Longrightarrow> P s \<Longrightarrow> m s = Some (Inl e, s') \<Longrightarrow> E s'"
  by (fastforce simp: hoare_def)

lemma hoare_weaken_pre: "hoare P m Q E \<Longrightarrow> (\<And>s. P' s \<Longrightarrow> P s) \<Longrightarrow> hoare P' m Q E"
  by (auto simp: hoare_def)

lemma hoare_conseq:
  "hoare P m Q E \<Longrightarrow> (\<And>s. P' s \<Longrightarrow> P s) \<Longrightarrow> (\<And>x s. Q x s \<Longrightarrow> Q' x s) \<Longrightarrow> (\<And>s. E s \<Longrightarrow> E' s) \<Longrightarrow>
   hoare P' m Q' E'"
  by (fastforce simp: hoare_def split: option.splits sum.splits)

lemma hoare_ret: "hoare (Q x) (ret x) Q E"
  by (simp add: hoare_def ret_def)

lemma hoare_throw: "hoare E (throw e) Q E"
  by (simp add: hoare_def throw_def)

lemma hoare_gets: "hoare (\<lambda>s. Q (f s) s) (gets f) Q E"
  by (simp add: hoare_def gets_def)

lemma hoare_modify: "hoare (\<lambda>s. Q () (f s)) (modify f) Q E"
  by (simp add: hoare_def modify_def)

lemma hoare_pure_step: "hoare (\<lambda>s. Q (fst (f s)) (snd (f s))) (pure_step f) Q E"
  by (simp add: hoare_def pure_step_def split: prod.splits)

lemma hoare_call:
  "hoare (\<lambda>s. case f s of (Inl e, s') \<Rightarrow> E s' | (Inr x, s') \<Rightarrow> Q x s') (call f) Q E"
  by (auto simp: hoare_def call_def split: prod.splits sum.splits)

lemma hoare_bnd: "hoare P m R E \<Longrightarrow> (\<And>x. hoare (R x) (f x) Q E) \<Longrightarrow> hoare P (bnd m f) Q E"
  by (fastforce simp: hoare_def bnd_def split: option.splits sum.splits prod.splits)

lemma hoare_seq: "hoare P m (\<lambda>_. R) E \<Longrightarrow> hoare R k Q E \<Longrightarrow> hoare P (seq m k) Q E"
  unfolding seq_def by (rule hoare_bnd)

lemma hoare_swallow: "hoare P m (\<lambda>_. Q ()) (Q ()) \<Longrightarrow> hoare P (swallow m) Q E"
  by (fastforce simp: hoare_def swallow_def split: option.splits sum.splits prod.splits)

lemma hoare_if:
  "(b \<Longrightarrow> hoare P m Q E) \<Longrightarrow> (\<not> b \<Longrightarrow> hoare P' k Q E) \<Longrightarrow>
   hoare (\<lambda>s. if b then P s else P' s) (if b then m else k) Q E"
  by (simp add: hoare_def)

section \<open>Returning\<close>

definition returns :: "('s \<Rightarrow> bool) \<Rightarrow> ('s, 'a) prog \<Rightarrow> bool" where
  "returns P m \<longleftrightarrow> (\<forall>s. P s \<longrightarrow> m s \<noteq> None)"

lemma returns_basic [simp]:
  "returns P (ret x)" "returns P (throw e)" "returns P (gets g)" "returns P (modify f)"
  "returns P (pure_step h)" "returns P (call c)"
  by (simp_all add: returns_def prog_defs split: prod.splits)

lemma returns_bnd:
  "returns P m \<Longrightarrow> hoare P m R E \<Longrightarrow> (\<And>x. returns (R x) (f x)) \<Longrightarrow> returns P (bnd m f)"
  by (fastforce simp: returns_def hoare_def bnd_def split: option.splits sum.splits prod.splits)

lemma returns_seq:
  "returns P m \<Longrightarrow> hoare P m (\<lambda>_. R) E \<Longrightarrow> returns R k \<Longrightarrow> returns P (seq m k)"
  unfolding seq_def by (rule returns_bnd)

lemma returns_swallow: "returns P m \<Longrightarrow> returns P (swallow m)"
  by (fastforce simp: returns_def swallow_def split: option.splits)

lemma returns_weaken: "returns P m \<Longrightarrow> (\<And>s. P' s \<Longrightarrow> P s) \<Longrightarrow> returns P' m"
  by (auto simp: returns_def)

end
