(* ===== verification/Engine.thy ===== *)
theory Engine
  imports Engine_Types Exec_Monad
begin

text \<open>
  \<open>reasoner_service/execution_engine.py\<close>, second part: the broker interface, reconciliation, the
  execution log and the engine.

  The broker is an abstract class whose methods raise \<open>NotImplementedError\<close>; the implementation
  that production plugs in is not in the repository. It is a record of functions over a broker
  state \<open>'b\<close> (\<open>broker_adapter\<close>), each of which may raise. The world a run reads is in
  \<open>engine_env\<close>: the broker, the clock as a sequence of readings (the n-th call of \<open>datetime.now\<close>
  returns \<open>env_clock n\<close>), the fresh ids and the SHA-256 digest. \<open>time.sleep\<close> changes nothing but
  what later readings return, so it is a property of the sequence of readings.
\<close>

section \<open>The world of the engine\<close>

record order_status =
  os_state :: "string option"
  os_fill_price :: "rat option"
  os_filled_size :: "rat option"

record broker_position =
  bp_size :: "rat option"
  bp_sl :: "rat option"
  bp_tp :: "rat option"

record 'b broker_adapter =
  ba_submit_order :: "string \<Rightarrow> rat \<Rightarrow> rat option \<Rightarrow> string \<Rightarrow> 'b \<Rightarrow> (py_error + string option) \<times> 'b"
  ba_cancel_order :: "string option \<Rightarrow> 'b \<Rightarrow> (py_error + bool) \<times> 'b"
  ba_get_order_status :: "string option \<Rightarrow> 'b \<Rightarrow> (py_error + order_status) \<times> 'b"
  ba_get_positions :: "'b \<Rightarrow> (py_error + broker_position list) \<times> 'b"

text \<open>The base class itself: every method raises.\<close>

definition not_implemented :: py_error where
  "not_implemented = Raised ''Implement in subclass with real broker API''"

definition base_broker :: "'b broker_adapter" where
  "base_broker =
    \<lparr>ba_submit_order = (\<lambda>_ _ _ _ b. (Inl not_implemented, b)),
     ba_cancel_order = (\<lambda>_ b. (Inl not_implemented, b)),
     ba_get_order_status = (\<lambda>_ b. (Inl not_implemented, b)),
     ba_get_positions = (\<lambda>b. (Inl not_implemented, b))\<rparr>"

record 'b engine_env =
  env_broker :: "'b broker_adapter"
  env_clock :: "nat \<Rightarrow> time"
  env_uuid :: "nat \<Rightarrow> string"
  env_sha256 :: "fstring \<Rightarrow> string"

record 'b engine =
  en_broker :: 'b
  en_ticks :: nat
  en_ids :: nat
  en_switches :: kill_switch_manager
  en_timeout :: timeout_controller
  en_reconciliations :: "reconciliation_report list"
  en_logs :: "pydict list"

definition engine_init :: "'b \<Rightarrow> kill_switch_manager option \<Rightarrow> 'b engine" where
  "engine_init b km =
    \<lparr>en_broker = b, en_ticks = 0, en_ids = 0,
     en_switches = (case km of None \<Rightarrow> km_init | Some m \<Rightarrow> m),
     en_timeout = tc_init, en_reconciliations = [], en_logs = []\<rparr>"

text \<open>While \<open>execute\<close> runs, the state is the engine and the result object it is filling in.\<close>

type_synonym 'b xstate = "'b engine \<times> execution_result"

type_synonym ('b, 'a) xprog = "('b xstate, 'a) prog"

definition on_engine :: "('b engine \<Rightarrow> 'b engine) \<Rightarrow> ('b, unit) xprog" where
  "on_engine f = modify (apfst f)"

definition on_result :: "(execution_result \<Rightarrow> execution_result) \<Rightarrow> ('b, unit) xprog" where
  "on_result f = modify (apsnd f)"

definition read_clock :: "'b engine_env \<Rightarrow> ('b, time) xprog" where
  "read_clock env = pure_step (\<lambda>(e, r). (env_clock env (en_ticks e), (e\<lparr>en_ticks := Suc (en_ticks e)\<rparr>, r)))"

definition fresh_id :: "'b engine_env \<Rightarrow> ('b, string) xprog" where
  "fresh_id env = pure_step (\<lambda>(e, r). (env_uuid env (en_ids e), (e\<lparr>en_ids := Suc (en_ids e)\<rparr>, r)))"

definition broker_call :: "('b \<Rightarrow> (py_error + 'a) \<times> 'b) \<Rightarrow> ('b, 'a) xprog" where
  "broker_call f = call (\<lambda>(e, r). case f (en_broker e) of (x, b) \<Rightarrow> (x, (e\<lparr>en_broker := b\<rparr>, r)))"

text \<open>The timeout controller against the clock: the clock is read only when the timer runs.\<close>

definition start_timer :: "'b engine_env \<Rightarrow> ('b, unit) xprog" where
  "start_timer env =
     bnd (read_clock env) (\<lambda>t. on_engine (\<lambda>e. e\<lparr>en_timeout := tc_start t (en_timeout e)\<rparr>))"

definition is_expired :: "'b engine_env \<Rightarrow> ('b, bool) xprog" where
  "is_expired env = pure_step (\<lambda>(e, r).
     case tc_start_time (en_timeout e) of
       None \<Rightarrow> (False, (e, r))
     | Some _ \<Rightarrow>
         (case tc_is_expired (env_clock env (en_ticks e)) (en_timeout e) of
            (x, c) \<Rightarrow> (x, (e\<lparr>en_ticks := Suc (en_ticks e), en_timeout := c\<rparr>, r))))"

definition elapsed_seconds :: "'b engine_env \<Rightarrow> ('b, rat) xprog" where
  "elapsed_seconds env = pure_step (\<lambda>(e, r).
     case tc_start_time (en_timeout e) of
       None \<Rightarrow> (0, (e, r))
     | Some _ \<Rightarrow>
         (tc_elapsed_seconds (env_clock env (en_ticks e)) (en_timeout e),
          (e\<lparr>en_ticks := Suc (en_ticks e)\<rparr>, r)))"

section \<open>The execution log\<close>

fun stage_value :: "execution_stage \<Rightarrow> string" where
  "stage_value SUBMITTED = ''submitted''"
| "stage_value PENDING = ''pending''"
| "stage_value PARTIALLY_FILLED = ''partially_filled''"
| "stage_value FILLED = ''filled''"
| "stage_value CANCELLED = ''cancelled''"
| "stage_value FAILED = ''failed''"
| "stage_value FAILED_TIMEOUT = ''failed_timeout''"
| "stage_value EXECUTED_FULL_LATE = ''executed_full_late''"
| "stage_value REJECTED = ''rejected''"

fun level_value :: "switch_level \<Rightarrow> string" where
  "level_value OFF = ''off''"
| "level_value WARNING = ''warning''"
| "level_value ACTIVE = ''active''"

text \<open>An f-string that is stored in a dictionary is kept as the list of its parts.\<close>

fun part_val :: "fpart \<Rightarrow> pyval" where
  "part_val (T s) = VStr s"
| "part_val (I n) = VInt n"
| "part_val (F x) = VFloat x"
| "part_val (At t) = VIso t"
| "part_val (S s) = opt_str s"
| "part_val (PV v) = v"

definition fstr_val :: "fstring \<Rightarrow> pyval" where
  "fstr_val m = VList (map part_val m)"

definition push_log :: "'b engine_env \<Rightarrow> (time \<Rightarrow> pydict) \<Rightarrow> ('b, unit) xprog" where
  "push_log env entry =
     bnd (read_clock env) (\<lambda>t. on_engine (\<lambda>e. e\<lparr>en_logs := en_logs e @ [entry t]\<rparr>))"

definition log_execution_start ::
    "'b engine_env \<Rightarrow> string \<Rightarrow> frozen_snapshot \<Rightarrow> switch_level \<Rightarrow> ('b, unit) xprog" where
  "log_execution_start env advisory_id snapshot l = push_log env (\<lambda>t.
    [(''event'', VStr ''execution_start''), (''timestamp'', VIso t),
     (''advisory_id'', VStr advisory_id),
     (''snapshot_hash'', VStr (snapshot_hash (env_sha256 env) snapshot)),
     (''position_size'', VFloat (fs_position_size snapshot)),
     (''reference_price'', VFloat (fs_reference_price snapshot)),
     (''sl_offset_pct'', VFloat (fs_sl_offset_pct snapshot)),
     (''tp_offset_pct'', VFloat (fs_tp_offset_pct snapshot)),
     (''kill_switch_state'', VStr (level_value l))])"

definition log_order_submitted ::
    "'b engine_env \<Rightarrow> string \<Rightarrow> string option \<Rightarrow> string \<Rightarrow> rat \<Rightarrow> ('b, unit) xprog" where
  "log_order_submitted env advisory_id order_id traded quantity = push_log env (\<lambda>t.
    [(''event'', VStr ''order_submitted''), (''timestamp'', VIso t),
     (''advisory_id'', VStr advisory_id), (''order_id'', opt_str order_id),
     (''symbol'', VStr traded), (''quantity'', VFloat quantity)])"

definition log_order_filled ::
    "'b engine_env \<Rightarrow> string \<Rightarrow> string option \<Rightarrow> rat \<Rightarrow> rat option \<Rightarrow> rat \<Rightarrow> rat \<Rightarrow> rat \<Rightarrow>
     ('b, unit) xprog" where
  "log_order_filled env advisory_id order_id fill_price filled_size sl tp slippage = push_log env (\<lambda>t.
    [(''event'', VStr ''order_filled''), (''timestamp'', VIso t),
     (''advisory_id'', VStr advisory_id), (''order_id'', opt_str order_id),
     (''fill_price'', VFloat fill_price), (''filled_size'', opt_float filled_size),
     (''calculated_sl'', VFloat sl), (''calculated_tp'', VFloat tp),
     (''slippage_pct'', VFloat slippage)])"

definition log_timeout :: "'b engine_env \<Rightarrow> string \<Rightarrow> rat \<Rightarrow> ('b, unit) xprog" where
  "log_timeout env advisory_id elapsed = push_log env (\<lambda>t.
    [(''event'', VStr ''timeout''), (''timestamp'', VIso t),
     (''advisory_id'', VStr advisory_id), (''elapsed_seconds'', VFloat elapsed)])"

definition log_kill_switch_abort ::
    "'b engine_env \<Rightarrow> string \<Rightarrow> switch_level \<Rightarrow> fstring \<Rightarrow> ('b, unit) xprog" where
  "log_kill_switch_abort env advisory_id l reason = push_log env (\<lambda>t.
    [(''event'', VStr ''kill_switch_abort''), (''timestamp'', VIso t),
     (''advisory_id'', VStr advisory_id), (''kill_switch_state'', VStr (level_value l)),
     (''reason'', fstr_val reason)])"

definition log_execution_result :: "'b engine_env \<Rightarrow> ('b, unit) xprog" where
  "log_execution_result env = bnd (gets snd) (\<lambda>r. push_log env (\<lambda>t.
    [(''event'', VStr ''execution_result''), (''timestamp'', VIso t),
     (''advisory_id'', VStr (er_advisory_id r)), (''status'', VStr (stage_value (er_status r))),
     (''final_order_id'', opt_str (er_final_order_id r)),
     (''final_fill_price'', opt_float (er_final_fill_price r)),
     (''final_position_size'', opt_float (er_final_position_size r)),
     (''final_sl'', opt_float (er_final_sl r)), (''final_tp'', opt_float (er_final_tp r)),
     (''slippage_pct'', opt_float (er_slippage_pct r)),
     (''total_duration_seconds'', opt_float (er_total_duration_seconds r)),
     (''kill_switch_state'', VStr (level_value (er_kill_switch_state r))),
     (''error_message'', (case er_error_message r of None \<Rightarrow> VNone | Some m \<Rightarrow> fstr_val m))]))"

section \<open>Reconciliation\<close>

text \<open>The findings of \<open>reconcile\<close>, from the filled-in report and what was expected.\<close>

definition find_mismatches ::
    "rat option \<Rightarrow> rat option \<Rightarrow> reconciliation_report \<Rightarrow> reconciliation_report" where
  "find_mismatches expected_position_size expected_sl report =
     (let report =
        (case expected_position_size of
           None \<Rightarrow> report
         | Some x \<Rightarrow>
             (case rr_broker_position_size report of
                None \<Rightarrow> report\<lparr>rr_status := MISSING_POSITION,
                  rr_mismatches := rr_mismatches report @
                    [[T ''Expected position '', F x, T '', found NONE in broker'']],
                  rr_requires_manual_resolution := True\<rparr>
              | Some y \<Rightarrow>
                  if \<bar>y - x\<bar> > 1 / 1000 then report\<lparr>rr_status := MISMATCH,
                    rr_mismatches := rr_mismatches report @
                      [[T ''Position size mismatch: expected '', F x, T '', broker has '', F y]],
                    rr_requires_manual_resolution := True\<rparr>
                  else report))
      in if expected_sl \<noteq> None \<and> rr_broker_sl report = None then
           report\<lparr>rr_status := MISSING_SL_TP,
             rr_mismatches := rr_mismatches report @ [[T ''SL/TP missing from broker'']],
             rr_requires_manual_resolution := True\<rparr>
         else report)"

definition with_order_status ::
    "string option \<Rightarrow> order_status \<Rightarrow> reconciliation_report \<Rightarrow> reconciliation_report" where
  "with_order_status order_id st report =
     report\<lparr>rr_broker_order_id := order_id, rr_broker_order_state := os_state st,
       rr_broker_fill_price := os_fill_price st, rr_broker_filled_size := os_filled_size st,
       rr_internal_order_id := order_id, rr_internal_fill_price := os_fill_price st\<rparr>"

definition with_position ::
    "broker_position list \<Rightarrow> rat option \<Rightarrow> rat option \<Rightarrow> rat option \<Rightarrow>
     reconciliation_report \<Rightarrow> reconciliation_report" where
  "with_position positions expected_size expected_sl expected_tp report =
     (case positions of
        [] \<Rightarrow> report
      | pos # _ \<Rightarrow> report\<lparr>rr_broker_position_size := bp_size pos, rr_broker_sl := bp_sl pos,
          rr_broker_tp := bp_tp pos, rr_internal_position_size := expected_size,
          rr_internal_sl := expected_sl, rr_internal_tp := expected_tp\<rparr>)"

definition reconcile ::
    "'b engine_env \<Rightarrow> string \<Rightarrow> string option \<Rightarrow> rat option \<Rightarrow> rat option \<Rightarrow> rat option \<Rightarrow>
     ('b, reconciliation_report) xprog" where
  "reconcile env advisory_id order_id expected_size expected_sl expected_tp =
     bnd (fresh_id env) (\<lambda>rid.
     bnd (read_clock env) (\<lambda>t.
     bnd (if truthy_str order_id
          then bnd (broker_call (ba_get_order_status (env_broker env) order_id)) (\<lambda>st.
                 ret (with_order_status order_id st (new_report rid t advisory_id)))
          else ret (new_report rid t advisory_id)) (\<lambda>report.
     bnd (broker_call (ba_get_positions (env_broker env))) (\<lambda>positions.
     (let report = find_mismatches expected_size expected_sl
                     (with_position positions expected_size expected_sl expected_tp report)
      in seq (on_engine (\<lambda>e. e\<lparr>en_reconciliations := en_reconciliations e @ [report]\<rparr>))
             (ret report))))))"

section \<open>The engine\<close>

definition calculate_sl :: "rat \<Rightarrow> rat \<Rightarrow> rat" where
  "calculate_sl fill_price sl_offset_pct = fill_price * (1 + sl_offset_pct)"

definition calculate_tp :: "rat \<Rightarrow> rat \<Rightarrow> rat" where
  "calculate_tp fill_price tp_offset_pct = fill_price * (1 + tp_offset_pct)"

definition validate_preconditions :: "time \<Rightarrow> frozen_snapshot \<Rightarrow> fstring option" where
  "validate_preconditions t s =
     (if t > fs_expiration_timestamp s then
        Some [T ''Advisory expired (expiration: '', At (fs_expiration_timestamp s), T '')'']
      else if fs_advisory_id s = [] then Some [T ''Snapshot missing advisory_id'']
      else if fs_position_size s \<le> 0 then Some [T ''Invalid position size: '', F (fs_position_size s)]
      else if fs_sl_offset_pct s \<ge> 0 then
        Some [T ''SL offset must be negative: '', F (fs_sl_offset_pct s)]
      else if fs_tp_offset_pct s \<le> 0 then
        Some [T ''TP offset must be positive: '', F (fs_tp_offset_pct s)]
      else None)"

text \<open>
  The polling loop. It returns the fill's price and size when a poll says "filled", \<open>None\<close> when
  the timer has run out, and does not return at all if neither ever happens.
\<close>

partial_function (option) wait_for_fill ::
    "'b engine_env \<Rightarrow> string option \<Rightarrow> 'b xstate \<Rightarrow>
     ((py_error + (rat option \<times> rat option) option) \<times> 'b xstate) option" where
  "wait_for_fill env order_id s =
     (case is_expired env s of
        None \<Rightarrow> None
      | Some (Inl e, s1) \<Rightarrow> Some (Inl e, s1)
      | Some (Inr expired, s1) \<Rightarrow>
          if expired then Some (Inr None, s1)
          else (case broker_call (ba_get_order_status (env_broker env) order_id) s1 of
                  None \<Rightarrow> None
                | Some (Inl e, s2) \<Rightarrow> Some (Inl e, s2)
                | Some (Inr st, s2) \<Rightarrow>
                    if os_state st = Some ''filled''
                    then Some (Inr (Some (os_fill_price st, os_filled_size st)), s2)
                    else wait_for_fill env order_id s2))"

text \<open>
  Steps 1 to 3: log the start, validate, check the kill switch of the symbol. The result says
  whether \<open>execute\<close> returned early.
\<close>

definition pre_submission :: "'b engine_env \<Rightarrow> frozen_snapshot \<Rightarrow> ('b, bool) xprog" where
  "pre_submission env snap =
     bnd (gets (\<lambda>(e, r). km_get_state None (en_switches e))) (\<lambda>l.
     seq (log_execution_start env (fs_advisory_id snap) snap l)
     (bnd (read_clock env) (\<lambda>t.
     (case validate_preconditions t snap of
        Some msg \<Rightarrow>
          seq (on_result (\<lambda>r. r\<lparr>er_status := REJECTED, er_error_message := Some msg\<rparr>))
         (seq (log_kill_switch_abort env (fs_advisory_id snap) l msg)
              (ret True))
      | None \<Rightarrow>
          bnd (gets (\<lambda>(e, r). (km_is_active (Some (fs_symbol snap)) (en_switches e),
                               km_get_state (Some (fs_symbol snap)) (en_switches e)))) (\<lambda>(active, sl).
          if active then
            seq (on_result (\<lambda>r. r\<lparr>er_status := REJECTED,
                   er_error_message := Some [T ''Kill switch active for '', T (fs_symbol snap)]\<rparr>))
           (seq (log_kill_switch_abort env (fs_advisory_id snap) sl
                   [T ''Kill switch active at submission time''])
                (ret True))
          else ret False)))))"

text \<open>Step 4: start the timer and submit one market order.\<close>

definition submission :: "'b engine_env \<Rightarrow> frozen_snapshot \<Rightarrow> ('b, string option) xprog" where
  "submission env snap =
     seq (start_timer env)
     (bnd (broker_call (ba_submit_order (env_broker env) (fs_symbol snap) (fs_position_size snap)
                          None ''MARKET'')) (\<lambda>order_id.
      bnd (read_clock env) (\<lambda>t.
      bnd (fresh_id env) (\<lambda>aid.
      seq (on_result (\<lambda>r. r\<lparr>er_attempts := er_attempts r @
             [\<lparr>ea_attempt_id = aid, ea_advisory_id = fs_advisory_id snap,
               ea_timestamp_submit = Some t, ea_timestamp_fill = None, ea_order_id = order_id,
               ea_fill_price = None, ea_filled_size = None, ea_stage = SUBMITTED,
               ea_slippage_pct = None, ea_calculated_sl = None, ea_calculated_tp = None,
               ea_retry_count = 0, ea_retry_reasons = []\<rparr>],
             er_final_order_id := order_id\<rparr>))
     (seq (log_order_submitted env (fs_advisory_id snap) order_id (fs_symbol snap)
             (fs_position_size snap))
          (ret order_id))))))"

text \<open>Timeout without a fill: mark, log, cancel (a failing cancel is ignored), reconcile once.\<close>

definition timeout_branch ::
    "'b engine_env \<Rightarrow> frozen_snapshot \<Rightarrow> string option \<Rightarrow> ('b, unit) xprog" where
  "timeout_branch env snap order_id =
     seq (on_result (\<lambda>r. r\<lparr>er_status := FAILED_TIMEOUT,
            er_attempts := map_last (\<lambda>a. a\<lparr>ea_stage := FAILED_TIMEOUT\<rparr>) (er_attempts r)\<rparr>))
    (bnd (elapsed_seconds env) (\<lambda>el.
     seq (log_timeout env (fs_advisory_id snap) el)
    (seq (swallow (broker_call (ba_cancel_order (env_broker env) order_id)))
    (bnd (reconcile env (fs_advisory_id snap) order_id None None None) (\<lambda>rep.
     on_result (\<lambda>r. r\<lparr>er_reconciliation_report := Some rep\<rparr>))))))"

text \<open>
  A fill: stop loss and take profit from the fill price, slippage against the reference price,
  the late mark, the final fields, the log entry, one reconciliation. \<open>None\<close> as the fill price
  makes the multiplication raise; a reference price of zero makes the division raise.
\<close>

definition fill_branch ::
    "'b engine_env \<Rightarrow> frozen_snapshot \<Rightarrow> string option \<Rightarrow> rat option \<times> rat option \<Rightarrow>
     ('b, unit) xprog" where
  "fill_branch env snap order_id fill =
     (case fill of (None, _) \<Rightarrow>
        throw (TypeError [T (''unsupported operand type(s) for *: 'NoneType' and 'float'' @ [CHR 0x27])])
      | (Some fill_price, filled_size) \<Rightarrow>
       (let sl = calculate_sl fill_price (fs_sl_offset_pct snap);
            tp = calculate_tp fill_price (fs_tp_offset_pct snap) in
        if fs_reference_price snap = 0 then throw ZeroDivisionError
        else
         (let slippage = (fill_price - fs_reference_price snap) / fs_reference_price snap * 100 in
          bnd (read_clock env) (\<lambda>t.
          bnd (is_expired env) (\<lambda>late.
          (let stage = (if late then EXECUTED_FULL_LATE else FILLED) in
           seq (on_result (\<lambda>r. r\<lparr>er_status := stage,
                  er_attempts := map_last (\<lambda>a. a\<lparr>ea_timestamp_fill := Some t,
                    ea_fill_price := Some fill_price, ea_filled_size := filled_size,
                    ea_calculated_sl := Some sl, ea_calculated_tp := Some tp,
                    ea_slippage_pct := Some slippage, ea_stage := stage\<rparr>) (er_attempts r),
                  er_final_fill_price := Some fill_price, er_final_position_size := filled_size,
                  er_final_sl := Some sl, er_final_tp := Some tp,
                  er_slippage_pct := Some slippage\<rparr>))
          (seq (log_order_filled env (fs_advisory_id snap) order_id fill_price filled_size sl tp
                  slippage)
          (bnd (reconcile env (fs_advisory_id snap) order_id filled_size (Some sl) (Some tp))
               (\<lambda>rep. on_result (\<lambda>r. r\<lparr>er_reconciliation_report := Some rep\<rparr>))))))))))"

text \<open>Steps 6 and 7.\<close>

definition finish :: "'b engine_env \<Rightarrow> frozen_snapshot \<Rightarrow> ('b, unit) xprog" where
  "finish env snap =
     bnd (gets (\<lambda>(e, r). km_get_state (Some (fs_symbol snap)) (en_switches e))) (\<lambda>l.
     seq (on_result (\<lambda>r. r\<lparr>er_kill_switch_state := l\<rparr>))
    (bnd (elapsed_seconds env) (\<lambda>el.
     on_result (\<lambda>r. r\<lparr>er_total_duration_seconds := Some el\<rparr>))))"

definition after_wait ::
    "'b engine_env \<Rightarrow> frozen_snapshot \<Rightarrow> string option \<Rightarrow> (rat option \<times> rat option) option \<Rightarrow>
     ('b, unit) xprog" where
  "after_wait env snap order_id fill =
     seq (bnd (is_expired env) (\<lambda>expired.
            if expired \<and> fill = None then timeout_branch env snap order_id
            else (case fill of None \<Rightarrow> ret () | Some f \<Rightarrow> fill_branch env snap order_id f)))
         (finish env snap)"

definition execute_body :: "'b engine_env \<Rightarrow> frozen_snapshot \<Rightarrow> ('b, bool) xprog" where
  "execute_body env snap =
     bnd (pre_submission env snap) (\<lambda>early.
     if early then ret True
     else bnd (submission env snap) (\<lambda>order_id.
          bnd (wait_for_fill env order_id) (\<lambda>fill.
          seq (after_wait env snap order_id fill) (ret False))))"

fun exception_text :: "py_error \<Rightarrow> fstring" where
  "exception_text (ValueError m) = m"
| "exception_text (TypeError m) = m"
| "exception_text (KeyError k) = [T k]"
| "exception_text ZeroDivisionError = [T ''float division by zero'']"
| "exception_text OSError = [T ''OSError'']"
| "exception_text (ModeSelectionError m) = m"
| "exception_text (Raised s) = [T s]"

text \<open>The method: an early return skips the final log entry, an exception gives FAILED.\<close>

definition execute ::
    "'b engine_env \<Rightarrow> frozen_snapshot \<Rightarrow> 'b engine \<Rightarrow> (execution_result \<times> 'b engine) option" where
  "execute env snap e =
     (case execute_body env snap (e, new_result (fs_advisory_id snap)) of
        None \<Rightarrow> None
      | Some (Inr True, (e1, r1)) \<Rightarrow> Some (r1, e1)
      | Some (Inr False, s1) \<Rightarrow>
          (case log_execution_result env s1 of
             None \<Rightarrow> None
           | Some (_, (e2, r2)) \<Rightarrow> Some (r2, e2))
      | Some (Inl ex, (e1, r1)) \<Rightarrow>
          (case log_execution_result env
                  (e1, r1\<lparr>er_status := FAILED, er_error_message := Some (exception_text ex)\<rparr>) of
             None \<Rightarrow> None
           | Some (_, (e2, r2)) \<Rightarrow> Some (r2, e2)))"

end
