(* ===== verification/Engine_Lemmas.thy ===== *)
theory Engine_Lemmas
  imports Engine
begin

text \<open>
  The library of the engine: what its blocks leave unchanged (\<open>engine_frame\<close>, a contract on
  predicates over the engine that is interpreted for the log, the reconciliations and the kill
  switches), that the polling loop returns, and the facts of each block of \<open>execute\<close>.
\<close>

section \<open>Primitive programs\<close>

lemmas engine_prims =
  on_engine_def on_result_def read_clock_def fresh_id_def broker_call_def is_expired_def
  elapsed_seconds_def start_timer_def push_log_def

lemmas engine_log_defs =
  log_execution_start_def log_order_submitted_def log_order_filled_def log_timeout_def
  log_kill_switch_abort_def log_execution_result_def

lemma read_clock_eval [run_simps]:
  "read_clock env (e, r) = Some (Inr (env_clock env (en_ticks e)), (e\<lparr>en_ticks := Suc (en_ticks e)\<rparr>, r))"
  by (simp add: read_clock_def pure_step_def)

lemma fresh_id_eval [run_simps]:
  "fresh_id env (e, r) = Some (Inr (env_uuid env (en_ids e)), (e\<lparr>en_ids := Suc (en_ids e)\<rparr>, r))"
  by (simp add: fresh_id_def pure_step_def)

lemma on_engine_eval [run_simps]: "on_engine f (e, r) = Some (Inr (), (f e, r))"
  by (simp add: on_engine_def modify_def)

lemma on_result_eval [run_simps]: "on_result f (e, r) = Some (Inr (), (e, f r))"
  by (simp add: on_result_def modify_def)

lemma gets_eval [run_simps]: "gets f s = Some (Inr (f s), s)"
  by (simp add: gets_def)

lemma ret_eval [run_simps]: "ret x s = Some (Inr x, s)"
  by (simp add: ret_def)

lemma throw_eval [run_simps]: "throw x s = Some (Inl x, s)"
  by (simp add: throw_def)

lemma broker_call_eval [run_simps]:
  "broker_call f (e, r) =
     (case f (en_broker e) of (x, b) \<Rightarrow> Some (x, (e\<lparr>en_broker := b\<rparr>, r)))"
  by (simp add: broker_call_def call_def split: prod.splits)

lemma is_expired_eval [run_simps]:
  "is_expired env (e, r) =
     (case tc_start_time (en_timeout e) of
        None \<Rightarrow> Some (Inr False, (e, r))
      | Some _ \<Rightarrow>
         (let x = tc_is_expired (env_clock env (en_ticks e)) (en_timeout e) in
          Some (Inr (fst x), (e\<lparr>en_ticks := Suc (en_ticks e), en_timeout := snd x\<rparr>, r))))"
  by (simp add: is_expired_def pure_step_def Let_def split: option.splits prod.splits)

lemma elapsed_seconds_eval [run_simps]:
  "elapsed_seconds env (e, r) =
     (case tc_start_time (en_timeout e) of
        None \<Rightarrow> Some (Inr 0, (e, r))
      | Some _ \<Rightarrow> Some (Inr (tc_elapsed_seconds (env_clock env (en_ticks e)) (en_timeout e)),
                       (e\<lparr>en_ticks := Suc (en_ticks e)\<rparr>, r)))"
  by (simp add: elapsed_seconds_def pure_step_def split: option.splits)

lemma bnd_eval [run_simps]:
  "m s = Some (Inr x, s') \<Longrightarrow> bnd m f s = f x s'"
  "m s = Some (Inl e, s') \<Longrightarrow> bnd m f s = Some (Inl e, s')"
  by (simp_all add: bnd_def)

lemma seq_eval [run_simps]:
  "m s = Some (Inr x, s') \<Longrightarrow> seq m k s = k s'"
  "m s = Some (Inl e, s') \<Longrightarrow> seq m k s = Some (Inl e, s')"
  by (simp_all add: seq_def bnd_def)

lemma push_log_eval [run_simps]:
  "push_log env entry (e, r) =
     Some (Inr (), (e\<lparr>en_ticks := Suc (en_ticks e),
                      en_logs := en_logs e @ [entry (env_clock env (en_ticks e))]\<rparr>, r))"
  by (simp add: push_log_def run_simps)

lemma start_timer_eval [run_simps]:
  "start_timer env (e, r) =
     Some (Inr (), (e\<lparr>en_ticks := Suc (en_ticks e),
                      en_timeout := tc_start (env_clock env (en_ticks e)) (en_timeout e)\<rparr>, r))"
  by (simp add: start_timer_def run_simps)

lemma swallow_broker_call_eval [run_simps]:
  "swallow (broker_call f) (e, r) = Some (Inr (), (e\<lparr>en_broker := snd (f (en_broker e))\<rparr>, r))"
  by (simp add: swallow_def broker_call_eval split: prod.splits)

section \<open>The polling loop\<close>

text \<open>
  The rule for the loop: \<open>Inv\<close> holds before every poll, and \<open>Q\<close> relates each way out of the loop to
  the state it leaves behind.
\<close>

lemma wait_for_fill_rule:
  assumes run: "wait_for_fill env oid s = Some (y, s')"
    and start: "Inv s"
    and out: "\<And>s s1. Inv s \<Longrightarrow> is_expired env s = Some (Inr True, s1) \<Longrightarrow> Q (Inr None) s1"
    and raised: "\<And>s s1 z s2. Inv s \<Longrightarrow> is_expired env s = Some (Inr False, s1) \<Longrightarrow>
      broker_call (ba_get_order_status (env_broker env) oid) s1 = Some (Inl z, s2) \<Longrightarrow> Q (Inl z) s2"
    and filled: "\<And>s s1 st s2. Inv s \<Longrightarrow> is_expired env s = Some (Inr False, s1) \<Longrightarrow>
      broker_call (ba_get_order_status (env_broker env) oid) s1 = Some (Inr st, s2) \<Longrightarrow>
      os_state st = Some ''filled'' \<Longrightarrow> Q (Inr (Some (os_fill_price st, os_filled_size st))) s2"
    and again: "\<And>s s1 st s2. Inv s \<Longrightarrow> is_expired env s = Some (Inr False, s1) \<Longrightarrow>
      broker_call (ba_get_order_status (env_broker env) oid) s1 = Some (Inr st, s2) \<Longrightarrow>
      os_state st \<noteq> Some ''filled'' \<Longrightarrow> Inv s2"
  shows "Q y s'"
proof -
  have no_raise: "is_expired env s \<noteq> Some (Inl z, s1)" for s :: "'a xstate" and z s1
    by (cases s) (auto simp: is_expired_eval Let_def split: option.splits)
  have "env' = env \<longrightarrow> oid' = oid \<longrightarrow> Inv s \<longrightarrow> Q (fst res) (snd res)"
    if "wait_for_fill env' oid' s = Some res" for env' oid' s res
  proof (rule wait_for_fill.raw_induct
      [where P = "\<lambda>env' oid' s res. env' = env \<longrightarrow> oid' = oid \<longrightarrow> Inv s \<longrightarrow> Q (fst res) (snd res)", OF _ that])
    fix loop :: "'a engine_env \<Rightarrow> string option \<Rightarrow> 'a xstate \<Rightarrow>
        ((py_error + (rat option \<times> rat option) option) \<times> 'a xstate) option"
      and env' oid' and s :: "'a xstate" and res
    assume IH: "\<And>env' oid' s res. loop env' oid' s = Some res \<Longrightarrow>
        env' = env \<longrightarrow> oid' = oid \<longrightarrow> Inv s \<longrightarrow> Q (fst res) (snd res)"
      and eq: "(case is_expired env' s of
        None \<Rightarrow> None
      | Some (Inl e, s1) \<Rightarrow> Some (Inl e, s1)
      | Some (Inr expired, s1) \<Rightarrow>
          if expired then Some (Inr None, s1)
          else (case broker_call (ba_get_order_status (env_broker env') oid') s1 of
                  None \<Rightarrow> None
                | Some (Inl e, s2) \<Rightarrow> Some (Inl e, s2)
                | Some (Inr st, s2) \<Rightarrow>
                    if os_state st = Some ''filled''
                    then Some (Inr (Some (os_fill_price st, os_filled_size st)), s2)
                    else loop env' oid' s2)) = Some res"
    show "env' = env \<longrightarrow> oid' = oid \<longrightarrow> Inv s \<longrightarrow> Q (fst res) (snd res)"
    proof (intro impI)
      assume e: "env' = env" and o': "oid' = oid" and inv: "Inv s"
      from eq e o' obtain b s1 where exp: "is_expired env s = Some (Inr b, s1)"
        by (auto simp: no_raise split: option.splits sum.splits)
      show "Q (fst res) (snd res)"
      proof (cases b)
        case True
        with eq exp e o' out [OF inv, of s1] show ?thesis
          by (auto simp del: split_paired_All)
      next
        case False
        with eq exp e o' obtain x s2 where
          poll: "broker_call (ba_get_order_status (env_broker env) oid) s1 = Some (x, s2)"
          by (auto split: option.splits)
        show ?thesis
        proof (cases x)
          case (Inl z)
          with eq exp e o' False poll raised [OF inv, of s1 z s2] show ?thesis
            by (auto simp del: split_paired_All)
        next
          case (Inr st)
          with eq exp e o' False poll filled [OF inv, of s1 st s2] again [OF inv, of s1 st s2]
            IH [of env oid s2 res]
          show ?thesis by (auto simp del: split_paired_All split: if_splits)
        qed
      qed
    qed
  qed
  from this [OF run] start show ?thesis by simp
qed

section \<open>Frames\<close>

text \<open>
  A predicate on the engine that no primitive of the engine can break is kept by every block and
  by \<open>execute\<close>, whatever the broker does.
\<close>

definition keeps :: "('b engine \<Rightarrow> bool) \<Rightarrow> ('b, 'a) xprog \<Rightarrow> bool" where
  "keeps P m \<longleftrightarrow> (\<forall>e r x e' r'. P e \<longrightarrow> m (e, r) = Some (x, (e', r')) \<longrightarrow> P e')"

lemma keepsI: "(\<And>e r x e' r'. P e \<Longrightarrow> m (e, r) = Some (x, (e', r')) \<Longrightarrow> P e') \<Longrightarrow> keeps P m"
  by (auto simp: keeps_def)

lemma keepsD: "keeps P m \<Longrightarrow> P e \<Longrightarrow> m (e, r) = Some (x, (e', r')) \<Longrightarrow> P e'"
  unfolding keeps_def by blast

lemma keepsD_state: "keeps P m \<Longrightarrow> P (fst s) \<Longrightarrow> m s = Some (x, s') \<Longrightarrow> P (fst s')"
  by (cases s; cases s') (auto dest: keepsD)

lemma keeps_ret: "keeps P (ret x)"
  by (auto intro!: keepsI simp: ret_def)

lemma keeps_throw: "keeps P (throw x)"
  by (auto intro!: keepsI simp: throw_def)

lemma keeps_gets: "keeps P (gets f)"
  by (auto intro!: keepsI simp: gets_def)

lemma keeps_on_result: "keeps P (on_result f)"
  by (auto intro!: keepsI simp: on_result_def modify_def)

lemma keeps_bnd: "keeps P m \<Longrightarrow> (\<And>x. keeps P (f x)) \<Longrightarrow> keeps P (bnd m f)"
  by (rule keepsI) (auto simp: bnd_def split: option.splits sum.splits, (blast dest: keepsD)+)

lemma keeps_seq: "keeps P m \<Longrightarrow> keeps P k \<Longrightarrow> keeps P (seq m k)"
  unfolding seq_def by (rule keeps_bnd)

lemma keeps_swallow: "keeps P m \<Longrightarrow> keeps P (swallow m)"
  by (rule keepsI) (auto simp: swallow_def split: option.splits dest: keepsD)

lemma keeps_if: "keeps P m \<Longrightarrow> keeps P k \<Longrightarrow> keeps P (if b then m else k)"
  by simp

lemma keeps_option: "keeps P m \<Longrightarrow> (\<And>x. keeps P (f x)) \<Longrightarrow> keeps P (case o' of None \<Rightarrow> m | Some x \<Rightarrow> f x)"
  by (cases o') simp_all

lemma keeps_prod: "(\<And>x y. keeps P (f x y)) \<Longrightarrow> keeps P (case p of (x, y) \<Rightarrow> f x y)"
  by (cases p) simp

lemma keeps_Let: "(\<And>x. keeps P (f x)) \<Longrightarrow> keeps P (Let v f)"
  by (simp add: Let_def)

lemmas keeps_rules =
  keeps_ret keeps_throw keeps_gets keeps_on_result keeps_bnd keeps_seq keeps_swallow keeps_if
  keeps_option keeps_prod keeps_Let

text \<open>The body of \<open>execute\<close> only reads the clock onwards, and writes no entry "execution_result" to its log; the method
  itself writes that one.\<close>

definition is_result_entry :: "pydict \<Rightarrow> bool" where
  "is_result_entry d \<longleftrightarrow> map_of d ''event'' = Some (VStr ''execution_result'')"

locale engine_body_frame =
  fixes P :: "'b engine \<Rightarrow> bool"
  assumes ticks: "P e \<Longrightarrow> en_ticks e \<le> n \<Longrightarrow> P (e\<lparr>en_ticks := n\<rparr>)"
    and ids: "P e \<Longrightarrow> P (e\<lparr>en_ids := n\<rparr>)"
    and timer: "P e \<Longrightarrow> P (e\<lparr>en_timeout := c\<rparr>)"
    and broker: "P e \<Longrightarrow> P (e\<lparr>en_broker := b\<rparr>)"
    and logs: "P e \<Longrightarrow> \<not> is_result_entry d \<Longrightarrow> P (e\<lparr>en_logs := en_logs e @ [d]\<rparr>)"
    and recs: "P e \<Longrightarrow> P (e\<lparr>en_reconciliations := en_reconciliations e @ [rep]\<rparr>)"
begin

lemma keeps_read_clock: "keeps P (read_clock env)"
  by (rule keepsI) (auto simp: read_clock_eval intro: ticks)

lemma keeps_fresh_id: "keeps P (fresh_id env)"
  by (rule keepsI) (auto simp: fresh_id_eval intro: ids)

lemma keeps_broker_call: "keeps P (broker_call f)"
  by (rule keepsI) (auto simp: broker_call_eval intro: broker split: prod.splits)

lemma ticks_timer: "P e \<Longrightarrow> en_ticks e \<le> n \<Longrightarrow> P (e\<lparr>en_ticks := n, en_timeout := c\<rparr>)"
  by (drule ticks [of _ n], assumption, drule timer [of _ c]) simp

lemma keeps_is_expired: "keeps P (is_expired env)"
  by (rule keepsI) (auto simp: is_expired_eval Let_def intro: ticks_timer split: option.splits)

lemma keeps_elapsed: "keeps P (elapsed_seconds env)"
  by (rule keepsI) (auto simp: elapsed_seconds_eval intro: ticks split: option.splits)

lemma keeps_on_engine: "(\<And>e. P e \<Longrightarrow> P (f e)) \<Longrightarrow> keeps P (on_engine f)"
  by (rule keepsI) (auto simp: on_engine_eval)

lemma keeps_start_timer: "keeps P (start_timer env)"
  unfolding start_timer_def by (intro keeps_bnd keeps_read_clock keeps_on_engine timer)

lemma keeps_push_log: "(\<And>t. \<not> is_result_entry (entry t)) \<Longrightarrow> keeps P (push_log env entry)"
  unfolding push_log_def by (intro keeps_bnd keeps_read_clock keeps_on_engine logs)

lemma keeps_push_rec:
  "keeps P (on_engine (\<lambda>e. e\<lparr>en_reconciliations := en_reconciliations e @ [rep]\<rparr>))"
  by (intro keeps_on_engine recs)

lemmas keeps_prims =
  keeps_read_clock keeps_fresh_id keeps_broker_call keeps_is_expired keeps_elapsed
  keeps_start_timer keeps_push_log keeps_push_rec

lemma keeps_reconcile: "keeps P (reconcile env a oid x sl tp)"
  unfolding reconcile_def by (intro keeps_rules keeps_prims)

lemma keeps_pre_submission: "keeps P (pre_submission env snap)"
  unfolding pre_submission_def engine_log_defs by ((intro keeps_rules keeps_prims), simp_all add: is_result_entry_def)

lemma keeps_submission: "keeps P (submission env snap)"
  unfolding submission_def engine_log_defs by ((intro keeps_rules keeps_prims), simp_all add: is_result_entry_def)

lemma keeps_timeout_branch: "keeps P (timeout_branch env snap oid)"
  unfolding timeout_branch_def engine_log_defs by ((intro keeps_rules keeps_prims keeps_reconcile), simp_all add: is_result_entry_def)

lemma keeps_fill_branch: "keeps P (fill_branch env snap oid fill)"
  unfolding fill_branch_def engine_log_defs by ((intro keeps_rules keeps_prims keeps_reconcile), simp_all add: is_result_entry_def)

lemma keeps_finish: "keeps P (finish env snap)"
  unfolding finish_def by (intro keeps_rules keeps_prims)

lemma keeps_after_wait: "keeps P (after_wait env snap oid fill)"
  unfolding after_wait_def
  by (intro keeps_rules keeps_prims keeps_timeout_branch keeps_fill_branch keeps_finish)

lemma keeps_wait: "keeps P (wait_for_fill env oid)"
proof (rule keepsI)
  fix e r x e' r'
  assume "P e" and run: "wait_for_fill env oid (e, r) = Some (x, (e', r'))"
  have "P (fst (e', r'))"
    by (rule wait_for_fill_rule [OF run, where Inv = "\<lambda>s. P (fst s)"])
       (use \<open>P e\<close> in \<open>auto dest: keepsD_state [OF keeps_is_expired, rotated]
          keepsD_state [OF keeps_broker_call, rotated]\<close>)
  then show "P e'" by simp
qed

lemma keeps_execute_body: "keeps P (execute_body env snap)"
  unfolding execute_body_def
  by (intro keeps_rules keeps_pre_submission keeps_submission keeps_wait keeps_after_wait)

end

locale engine_frame = engine_body_frame +
  assumes results: "P e \<Longrightarrow> is_result_entry d \<Longrightarrow> P (e\<lparr>en_logs := en_logs e @ [d]\<rparr>)"
begin

lemma keeps_log_result: "keeps P (log_execution_result env)"
  unfolding log_execution_result_def push_log_def
  by ((intro keeps_bnd keeps_gets keeps_read_clock keeps_on_engine results), simp_all add: is_result_entry_def)

lemma execute_keeps:
  assumes "P e" and "execute env snap e = Some (r, e')"
  shows "P e'"
proof -
  obtain x e1 r1 where b: "execute_body env snap (e, new_result (fs_advisory_id snap)) = Some (x, (e1, r1))"
    using assms(2) by (auto simp: execute_def split: option.splits)
  from keepsD [OF keeps_execute_body assms(1) b] have "P e1" .
  with assms(2) b show ?thesis
    by (auto simp: execute_def split: option.splits sum.splits bool.splits
        dest: keepsD [OF keeps_log_result])
qed

end

lemma prefix_snoc_right: "prefix L xs \<Longrightarrow> prefix L (xs @ [x])"
  by (auto simp: prefix_def)

interpretation frame_logs: engine_frame "\<lambda>e. prefix L (en_logs e)" for L
  by unfold_locales (auto intro: prefix_snoc_right)

interpretation frame_body: engine_body_frame
    "\<lambda>e. n \<le> en_ticks e \<and> (\<exists>es. en_logs e = L @ es \<and> filter is_result_entry es = [])" for n L
  by unfold_locales auto

interpretation frame_recs: engine_frame "\<lambda>e. prefix R (en_reconciliations e)" for R
  by unfold_locales (auto intro: prefix_snoc_right)

interpretation frame_switches: engine_frame "\<lambda>e. en_switches e = K" for K
  by unfold_locales auto

text \<open>The engine's two logs are append-only, over any sequence of executions and switch calls.\<close>

datatype engine_op = Execute frozen_snapshot | Switch switch_call

fun engine_step :: "'b engine_env \<times> engine_op \<Rightarrow> 'b engine \<Rightarrow> 'b engine" where
  "engine_step (env, Execute snap) e =
     (case execute env snap e of None \<Rightarrow> e | Some (r, e') \<Rightarrow> e')"
| "engine_step (env, Switch c) e = e\<lparr>en_switches := km_step c (en_switches e)\<rparr>"

interpretation eng_logs: append_only engine_step en_logs
proof
  fix op :: "'b engine_env \<times> engine_op" and e :: "'b engine"
  obtain env k where op: "op = (env, k)" by fastforce
  show "prefix (en_logs e) (en_logs (engine_step op e))"
    unfolding op
    by (cases k) (auto split: option.splits dest: frame_logs.execute_keeps [where L = "en_logs e", rotated])
qed

interpretation eng_recs: append_only engine_step en_reconciliations
proof
  fix op :: "'b engine_env \<times> engine_op" and e :: "'b engine"
  obtain env k where op: "op = (env, k)" by fastforce
  show "prefix (en_reconciliations e) (en_reconciliations (engine_step op e))"
    unfolding op
    by (cases k) (auto split: option.splits
        dest: frame_recs.execute_keeps [where R = "en_reconciliations e", rotated])
qed

section \<open>The blocks of \<open>execute\<close>\<close>

text \<open>Before the submission: who returns early, and with which result.\<close>

definition blocked :: "'b engine_env \<Rightarrow> frozen_snapshot \<Rightarrow> 'b engine \<Rightarrow> bool" where
  "blocked env snap e \<longleftrightarrow>
     validate_preconditions (env_clock env (Suc (en_ticks e))) snap \<noteq> None \<or>
     km_is_active (Some (fs_symbol snap)) (en_switches e)"

lemma pre_submission_cases:
  assumes "pre_submission env snap (e, r) = Some (x, (e', r'))"
  shows "x = Inr (blocked env snap e)"
    and "en_broker e' = en_broker e" and "en_timeout e' = en_timeout e"
    and "en_reconciliations e' = en_reconciliations e" and "en_switches e' = en_switches e"
    and "blocked env snap e \<Longrightarrow> er_status r' = REJECTED \<and> er_error_message r' \<noteq> None \<and>
           er_attempts r' = er_attempts r"
    and "\<not> blocked env snap e \<Longrightarrow> r' = r"
  using assms
  by (auto simp: pre_submission_def engine_log_defs blocked_def run_simps split: option.splits if_splits)

lemma pre_submission_returns: "pre_submission env snap s \<noteq> None"
  by (cases s) (auto simp: pre_submission_def engine_log_defs run_simps split: option.splits)

text \<open>After the submission the timer runs, and nothing later stops it.\<close>

definition timer_runs :: "time \<Rightarrow> 'b engine \<Rightarrow> bool" where
  "timer_runs t e \<longleftrightarrow> tc_start_time (en_timeout e) = Some t"

lemma submission_timer:
  assumes "submission env snap (e, r) = Some (Inr oid, (e', r'))"
  shows "timer_runs (env_clock env (en_ticks e)) e'"
proof -
  obtain x b where call: "ba_submit_order (env_broker env) (fs_symbol snap) (fs_position_size snap)
      None ''MARKET'' (en_broker e) = (x, b)"
    by fastforce
  with assms show ?thesis
    by (cases x) (auto simp: submission_def engine_log_defs run_simps timer_runs_def tc_start_def)
qed

text \<open>What an execution adds to the log: one entry with its result, the time of writing in it, unless it was rejected
  before the submission, and then none.\<close>

definition reports_fill :: "pydict \<Rightarrow> bool" where
  "reports_fill d \<longleftrightarrow> is_result_entry d \<and> map_of d ''status'' \<in> {Some (VStr ''filled''), Some (VStr ''executed_full_late'')}"

lemma execute_body_early:
  assumes "execute_body env snap (e, r) = Some (Inr True, (e', r'))"
  shows "er_status r' = REJECTED"
proof -
  obtain x e1 r1 where pre: "pre_submission env snap (e, r) = Some (x, (e1, r1))"
    using pre_submission_returns[of env snap "(e, r)"] by auto
  note p = pre_submission_cases[OF pre]
  show ?thesis
  proof (cases "blocked env snap e")
    case True
    with assms pre p show ?thesis by (auto simp: execute_body_def bnd_eval(1) ret_def)
  next
    case False
    with assms pre p show ?thesis
      by (auto simp: execute_body_def bnd_def seq_def ret_def split: option.splits sum.splits)
  qed
qed

lemma execute_log:
  assumes run: "execute env snap e = Some (r, e')"
  shows "en_ticks e \<le> en_ticks e'"
    and "\<exists>es. en_logs e' = en_logs e @ es \<and>
      (if er_status r \<in> {FILLED, EXECUTED_FULL_LATE}
       then \<exists>d k. filter reports_fill es = [d] \<and> en_ticks e \<le> k \<and> k < en_ticks e' \<and>
         map_of d ''timestamp'' = Some (VIso (env_clock env k))
       else filter reports_fill es = [])"
proof -
  obtain x e1 r1 where body: "execute_body env snap (e, new_result (fs_advisory_id snap)) = Some (x, (e1, r1))"
    using run by (auto simp: execute_def split: option.splits)
  have "en_ticks e \<le> en_ticks e1 \<and> (\<exists>es. en_logs e1 = en_logs e @ es \<and> filter is_result_entry es = [])"
    by (rule keepsD [OF frame_body.keeps_execute_body _ body]) simp
  then obtain es where n: "en_ticks e \<le> en_ticks e1" and es: "en_logs e1 = en_logs e @ es" "filter reports_fill es = []"
    by (auto simp: reports_fill_def filter_empty_conv)
  have "en_ticks e \<le> en_ticks e' \<and> (\<exists>es. en_logs e' = en_logs e @ es \<and>
      (if er_status r \<in> {FILLED, EXECUTED_FULL_LATE}
       then \<exists>d k. filter reports_fill es = [d] \<and> en_ticks e \<le> k \<and> k < en_ticks e' \<and>
         map_of d ''timestamp'' = Some (VIso (env_clock env k))
       else filter reports_fill es = []))"
  proof (cases "x = Inr True")
    case True
    with run body have "r = r1" "e' = e1" by (auto simp: execute_def)
    with execute_body_early[OF body[unfolded True]] n es show ?thesis by auto
  next
    case False
    then obtain d where "e' = e1\<lparr>en_ticks := Suc (en_ticks e1), en_logs := en_logs e1 @ [d]\<rparr>"
      "map_of d ''event'' = Some (VStr ''execution_result'')" "map_of d ''status'' = Some (VStr (stage_value (er_status r)))"
      "map_of d ''timestamp'' = Some (VIso (env_clock env (en_ticks e1)))"
      using run body
      by (auto simp: execute_def log_execution_result_def bnd_eval(1) gets_def push_log_eval split: sum.splits bool.splits)
    with n es show ?thesis
      by (intro conjI exI [of _ "es @ [d]"])
         (auto simp: reports_fill_def is_result_entry_def intro!: exI [of _ "en_ticks e1"] elim!: stage_value.elims)
  qed
  then show "en_ticks e \<le> en_ticks e'" and "\<exists>es. en_logs e' = en_logs e @ es \<and>
      (if er_status r \<in> {FILLED, EXECUTED_FULL_LATE}
       then \<exists>d k. filter reports_fill es = [d] \<and> en_ticks e \<le> k \<and> k < en_ticks e' \<and>
         map_of d ''timestamp'' = Some (VIso (env_clock env k))
       else filter reports_fill es = [])" by blast+
qed

end
