(* ===== verification/Engine_Trace.thy ===== *)
theory Engine_Trace
  imports Engine_Lemmas
begin

text \<open>
  What \<open>execute\<close> does, as seen from outside: the calls the broker receives, the result, the
  reconciliation report, and that it returns. The blocks of \<open>Engine\<close> are taken one at a time;
  each lemma says what a block adds to the broker's trace and to the result, on its normal and
  on its exceptional exit.
\<close>

section \<open>Runs taken apart\<close>

text \<open>What it means that a composed program has ended with a given result: one step at a time.\<close>

lemma bnd_Some:
  "bnd m f s = Some (y, s') \<longleftrightarrow>
     (\<exists>z. m s = Some (Inl z, s') \<and> y = Inl z) \<or> (\<exists>x s1. m s = Some (Inr x, s1) \<and> f x s1 = Some (y, s'))"
  by (auto simp: bnd_def split: option.splits sum.splits)

lemma seq_Some:
  "seq m k s = Some (y, s') \<longleftrightarrow>
     (\<exists>z. m s = Some (Inl z, s') \<and> y = Inl z) \<or> (\<exists>x s1. m s = Some (Inr x, s1) \<and> k s1 = Some (y, s'))"
  by (simp add: seq_def bnd_Some)

lemma broker_call_Some:
  "broker_call f (e, r) = Some (y, s') \<longleftrightarrow>
     (\<exists>b. f (en_broker e) = (y, b) \<and> s' = (e\<lparr>en_broker := b\<rparr>, r))"
  by (auto simp: broker_call_eval split: prod.splits)

lemma is_expired_Some:
  "is_expired env (e, r) = Some (y, s') \<longleftrightarrow>
     (\<exists>x n c. y = Inr x \<and> s' = (e\<lparr>en_ticks := n, en_timeout := c\<rparr>, r) \<and>
        (if tc_start_time (en_timeout e) = None then \<not> x \<and> n = en_ticks e \<and> c = en_timeout e
         else (x, c) = tc_is_expired (env_clock env (en_ticks e)) (en_timeout e) \<and> n = Suc (en_ticks e)))"
  by (cases "tc_is_expired (env_clock env (en_ticks e)) (en_timeout e)")
     (auto simp: is_expired_eval split: option.splits)

lemma elapsed_Some:
  "elapsed_seconds env (e, r) = Some (y, s') \<longleftrightarrow>
     (\<exists>n. s' = (e\<lparr>en_ticks := n\<rparr>, r) \<and>
        y = Inr (tc_elapsed_seconds (env_clock env (en_ticks e)) (en_timeout e)) \<and>
        n = (if tc_start_time (en_timeout e) = None then en_ticks e else Suc (en_ticks e)))"
  by (auto simp: elapsed_seconds_eval tc_elapsed_seconds_def split: option.splits)

lemmas run_Some =
  bnd_Some seq_Some broker_call_Some is_expired_Some elapsed_Some
  read_clock_eval fresh_id_eval on_engine_eval on_result_eval gets_eval ret_eval throw_eval
  push_log_eval start_timer_eval swallow_broker_call_eval

section \<open>The trace of broker calls\<close>

datatype broker_event =
    Submitted string rat "rat option" string
  | Cancelled "string option"
  | Polled "string option"
  | Listed

text \<open>\<open>tr\<close> reads off the broker's state the calls it has received, in order.\<close>

definition records :: "'b broker_adapter \<Rightarrow> ('b \<Rightarrow> broker_event list) \<Rightarrow> bool" where
  "records B tr \<longleftrightarrow>
     (\<forall>s q l k b. tr (snd (ba_submit_order B s q l k b)) = tr b @ [Submitted s q l k]) \<and>
     (\<forall>i b. tr (snd (ba_cancel_order B i b)) = tr b @ [Cancelled i]) \<and>
     (\<forall>i b. tr (snd (ba_get_order_status B i b)) = tr b @ [Polled i]) \<and>
     (\<forall>b. tr (snd (ba_get_positions B b)) = tr b @ [Listed])"

text \<open>Any broker can be instrumented so that its trace is recorded beside its state.\<close>

definition recording :: "'b broker_adapter \<Rightarrow> ('b \<times> broker_event list) broker_adapter" where
  "recording B =
    \<lparr>ba_submit_order = (\<lambda>s q l k (b, L). case ba_submit_order B s q l k b of
        (x, b') \<Rightarrow> (x, (b', L @ [Submitted s q l k]))),
     ba_cancel_order = (\<lambda>i (b, L). case ba_cancel_order B i b of
        (x, b') \<Rightarrow> (x, (b', L @ [Cancelled i]))),
     ba_get_order_status = (\<lambda>i (b, L). case ba_get_order_status B i b of
        (x, b') \<Rightarrow> (x, (b', L @ [Polled i]))),
     ba_get_positions = (\<lambda>(b, L). case ba_get_positions B b of
        (x, b') \<Rightarrow> (x, (b', L @ [Listed])))\<rparr>"

lemma records_recording: "records (recording B) snd"
  by (auto simp: records_def recording_def split: prod.splits)

lemma recordsD:
  assumes "records B tr"
  shows "ba_submit_order B s q l k b = (x, b') \<Longrightarrow> tr b' = tr b @ [Submitted s q l k]"
    and "ba_cancel_order B i b = (y, b') \<Longrightarrow> tr b' = tr b @ [Cancelled i]"
    and "ba_get_order_status B i b = (z, b') \<Longrightarrow> tr b' = tr b @ [Polled i]"
    and "ba_get_positions B b = (w, b') \<Longrightarrow> tr b' = tr b @ [Listed]"
  using assms unfolding records_def by (metis snd_conv)+

section \<open>Reconciliation\<close>

text \<open>The calls one reconciliation makes.\<close>

definition recon_calls :: "string option \<Rightarrow> broker_event list" where
  "recon_calls oid = (if truthy_str oid then [Polled oid] else []) @ [Listed]"

text \<open>
  What \<open>reconcile\<close> reports, from the positions the broker listed: the status and the flag depend
  on the first position and on the expectations, and on nothing else.
\<close>

definition recon_status ::
    "rat option \<Rightarrow> rat option \<Rightarrow> broker_position list \<Rightarrow> reconciliation_status" where
  "recon_status x sl positions =
     (let size = (case positions of [] \<Rightarrow> None | p # _ \<Rightarrow> bp_size p);
          bsl = (case positions of [] \<Rightarrow> None | p # _ \<Rightarrow> bp_sl p) in
      if sl \<noteq> None \<and> bsl = None then MISSING_SL_TP
      else case x of None \<Rightarrow> MATCHED
           | Some v \<Rightarrow> (case size of None \<Rightarrow> MISSING_POSITION
                       | Some w \<Rightarrow> if \<bar>w - v\<bar> > 1 / 1000 then MISMATCH else MATCHED))"

definition blank_report :: "reconciliation_report \<Rightarrow> bool" where
  "blank_report rep \<longleftrightarrow> rr_status rep = MATCHED \<and> \<not> rr_requires_manual_resolution rep \<and>
     rr_mismatches rep = [] \<and> rr_broker_position_size rep = None \<and> rr_broker_sl rep = None"

lemma find_mismatches_status:
  assumes "blank_report base"
  shows "rr_status (find_mismatches x sl (with_position ps x sl tp base)) = recon_status x sl ps \<and>
         (rr_requires_manual_resolution (find_mismatches x sl (with_position ps x sl tp base)) \<longleftrightarrow>
           recon_status x sl ps \<noteq> MATCHED)"
  using assms
  by (cases ps; cases x; cases sl)
     (auto simp: blank_report_def find_mismatches_def with_position_def recon_status_def Let_def
        split: option.splits)

lemma blank_reports [simp]:
  "blank_report (new_report rid t a)"
  "blank_report (with_order_status oid st (new_report rid t a))"
  by (simp_all add: blank_report_def new_report_def with_order_status_def)

text \<open>\<open>ps\<close> is a list of positions that the broker returned with the state \<open>b'\<close> left behind.\<close>

definition listed :: "'b engine_env \<Rightarrow> 'b \<Rightarrow> broker_position list \<Rightarrow> bool" where
  "listed env b' ps \<longleftrightarrow> (\<exists>b. ba_get_positions (env_broker env) b = (Inr ps, b'))"

lemma reconcile_spec:
  assumes "reconcile env a oid x sl tp (e, r) = Some (y, (e', r'))"
  shows "r' = r"
    and "y = Inr rep \<Longrightarrow>
      (\<exists>ps. listed env (en_broker e') ps \<and> rr_status rep = recon_status x sl ps \<and>
            (rr_requires_manual_resolution rep \<longleftrightarrow> recon_status x sl ps \<noteq> MATCHED)) \<and>
      en_reconciliations e' = en_reconciliations e @ [rep]"
    and "y = Inl z \<Longrightarrow> en_reconciliations e' = en_reconciliations e"
    and "en_timeout e' = en_timeout e"
  using assms
  by (auto simp: reconcile_def run_Some Let_def find_mismatches_status listed_def split: if_splits) blast+

lemma reconcile_trace:
  assumes R: "records (env_broker env) tr"
    and "reconcile env a oid x sl tp (e, r) = Some (y, (e', r'))"
  shows "prefix (tr (en_broker e)) (tr (en_broker e')) \<and>
         prefix (tr (en_broker e')) (tr (en_broker e) @ recon_calls oid) \<and>
         ((\<exists>rep. y = Inr rep) \<longrightarrow> tr (en_broker e') = tr (en_broker e) @ recon_calls oid)"
proof (cases "truthy_str oid")
  case True
  with assms(2) show ?thesis
    by (auto simp: reconcile_def run_Some Let_def recon_calls_def recordsD(3,4) [OF R])
next
  case False
  with assms(2) show ?thesis
    by (auto simp: reconcile_def run_Some Let_def recon_calls_def recordsD(4) [OF R])
qed

section \<open>The blocks after the submission\<close>

definition submit_event :: "frozen_snapshot \<Rightarrow> broker_event" where
  "submit_event snap = Submitted (fs_symbol snap) (fs_position_size snap) None ''MARKET''"

lemma submission_spec:
  assumes R: "records (env_broker env) tr"
    and run: "submission env snap (e, r) = Some (y, (e', r'))"
  shows "tr (en_broker e') = tr (en_broker e) @ [submit_event snap]"
    and "y = Inr oid \<Longrightarrow> er_final_order_id r' = oid \<and> er_status r' = er_status r \<and>
           length (er_attempts r') = Suc (length (er_attempts r))"
  using run
  by (auto simp: submission_def run_Some engine_log_defs submit_event_def recordsD(1) [OF R])

lemma wait_trace:
  assumes R: "records (env_broker env) tr"
    and run: "wait_for_fill env oid (e, r) = Some (y, (e', r'))"
  shows "\<exists>n. tr (en_broker e') = tr (en_broker e) @ replicate n (Polled oid) \<and>
             (\<forall>f. y = Inr (Some f) \<longrightarrow> 0 < n)"
proof -
  define Q where "Q = (\<lambda>(y :: py_error + (rat option \<times> rat option) option) (s :: 'a xstate). \<exists>n. tr (en_broker (fst s)) =
    tr (en_broker e) @ replicate n (Polled oid) \<and> (\<forall>f. y = Inr (Some f) \<longrightarrow> 0 < n))"
  have poll: "\<exists>n. 0 < n \<and> tr (en_broker (fst s2)) = tr (en_broker e) @ replicate n (Polled oid)"
    if "\<exists>n. tr (en_broker (fst s)) = tr (en_broker e) @ replicate n (Polled oid)"
      and "is_expired env s = Some (Inr b, s1)"
      and "broker_call (ba_get_order_status (env_broker env) oid) s1 = Some (x, s2)"
    for s s1 s2 :: "'a xstate" and b x
  proof -
    obtain es rs where "s = (es, rs)" by fastforce
    with that obtain n where "tr (en_broker (fst s2)) =
        tr (en_broker e) @ replicate n (Polled oid) @ [Polled oid]"
      by (auto simp: is_expired_Some broker_call_Some recordsD(3) [OF R])
    then show ?thesis by (intro exI [of _ "Suc n"]) (simp add: replicate_append_same)
  qed
  have "Q y (e', r')"
  proof (rule wait_for_fill_rule [OF run, where Inv = "\<lambda>s. \<exists>n. tr (en_broker (fst s)) =
      tr (en_broker e) @ replicate n (Polled oid)"])
    show "\<exists>n. tr (en_broker (fst (e, r))) = tr (en_broker e) @ replicate n (Polled oid)"
      by (rule exI [of _ 0]) simp
    show "Q (Inr None) s1" if "\<exists>n. tr (en_broker (fst s)) = tr (en_broker e) @ replicate n (Polled oid)"
        and "is_expired env s = Some (Inr True, s1)" for s s1
      using that by (cases s) (auto simp: Q_def is_expired_Some)
  qed (use poll in \<open>fastforce simp: Q_def simp del: split_paired_All\<close>)+
  then show ?thesis by (simp add: Q_def)
qed

lemma is_expired_returns:
  "\<exists>x n c. is_expired env (e, r) = Some (Inr x, (e\<lparr>en_ticks := n, en_timeout := c\<rparr>, r))"
proof (cases "tc_start_time (en_timeout e)")
  case None
  then have "is_expired env (e, r) = Some (Inr False, (e\<lparr>en_ticks := en_ticks e, en_timeout := en_timeout e\<rparr>, r))"
    by (simp add: is_expired_eval)
  then show ?thesis by blast
qed (auto simp: is_expired_eval Let_def)

lemma is_expired_True:
  assumes "is_expired env (e, r) = Some (Inr True, (e', r'))"
  shows "\<exists>t. timer_runs t e \<and> en_ticks e' = Suc (en_ticks e) \<and>
             seconds HARD_TIMEOUT_SECONDS < env_clock env (en_ticks e) - t"
  using assms
  by (auto simp: is_expired_Some timer_runs_def tc_is_expired_def Let_def split: if_splits option.splits)

lemma is_expired_keeps_timer:
  assumes "is_expired env (e, r) = Some (y, (e', r'))"
  shows "r' = r" and "timer_runs t e' \<longleftrightarrow> timer_runs t e" and "en_broker e' = en_broker e"
    and "en_ticks e \<le> en_ticks e'"
  using assms
  by (auto simp: is_expired_Some timer_runs_def tc_is_expired_def Let_def split: if_splits option.splits)

lemma wait_result:
  assumes run: "wait_for_fill env oid (e, r) = Some (y, (e', r'))"
  shows "r' = r \<and> (\<forall>t. timer_runs t e' \<longleftrightarrow> timer_runs t e) \<and> en_ticks e \<le> en_ticks e' \<and>
         (y = Inr None \<longrightarrow> (\<exists>t n. timer_runs t e \<and> en_ticks e' = Suc n \<and>
             seconds HARD_TIMEOUT_SECONDS < env_clock env n - t))"
proof -
  define Inv where "Inv = (\<lambda>s :: 'a xstate. snd s = r \<and> (\<forall>t. timer_runs t (fst s) \<longleftrightarrow> timer_runs t e) \<and>
    en_ticks e \<le> en_ticks (fst s))"
  define Q where "Q = (\<lambda>(y :: py_error + (rat option \<times> rat option) option) (s :: 'a xstate).
    Inv s \<and> (y = Inr None \<longrightarrow> (\<exists>t n. timer_runs t e \<and> en_ticks (fst s) = Suc n \<and>
       seconds HARD_TIMEOUT_SECONDS < env_clock env n - t)))"
  have poll: "Inv s2" if "Inv s" and "is_expired env s = Some (Inr b, s1)"
      and "broker_call (ba_get_order_status (env_broker env) oid) s1 = Some (x, s2)"
    for s s1 s2 :: "'a xstate" and b x
  proof -
    obtain es rs es1 rs1 where [simp]: "s = (es, rs)" "s1 = (es1, rs1)" by fastforce
    have "timer_runs t (es1\<lparr>en_broker := bs\<rparr>) \<longleftrightarrow> timer_runs t es1" for t bs
      by (simp add: timer_runs_def)
    with that is_expired_keeps_timer [of env es rs "Inr b" es1 rs1] show ?thesis
      by (auto simp: Inv_def broker_call_Some)
  qed
  have "Q y (e', r')"
  proof (rule wait_for_fill_rule [OF run, where Inv = Inv])
    show "Inv (e, r)" by (simp add: Inv_def)
    show "Q (Inr None) s1" if "Inv s" and "is_expired env s = Some (Inr True, s1)" for s s1
      using that is_expired_True [of env "fst s" "snd s" "fst s1" "snd s1"]
        is_expired_keeps_timer [of env "fst s" "snd s" "Inr True" "fst s1" "snd s1"]
      by (auto simp: Q_def Inv_def simp del: split_paired_All) blast
  qed (use poll in \<open>fastforce simp: Q_def simp del: split_paired_All\<close>)+
  then show ?thesis by (simp add: Q_def Inv_def)
qed

lemma timeout_branch_spec:
  assumes R: "records (env_broker env) tr"
    and run: "timeout_branch env snap oid (e, r) = Some (y, (e', r'))"
  shows "prefix (tr (en_broker e)) (tr (en_broker e'))"
    and "prefix (tr (en_broker e')) (tr (en_broker e) @ Cancelled oid # recon_calls oid)"
    and "y = Inr u \<Longrightarrow> tr (en_broker e') = tr (en_broker e) @ Cancelled oid # recon_calls oid"
    and "er_final_order_id r' = er_final_order_id r"
    and "y = Inr u \<Longrightarrow> er_status r' = FAILED_TIMEOUT \<and>
      (\<exists>rep ps. listed env (en_broker e') ps \<and> er_reconciliation_report r' = Some rep \<and>
          rr_status rep = recon_status None None ps \<and>
          (rr_requires_manual_resolution rep \<longleftrightarrow> recon_status None None ps \<noteq> MATCHED))"
proof -
  obtain x e1 r1 e2 r2 where rc: "reconcile env (fs_advisory_id snap) oid None None None (e1, r1) = Some (x, (e2, r2))"
    and tr1: "tr (en_broker e1) = tr (en_broker e) @ [Cancelled oid]"
    and fin: "er_final_order_id r1 = er_final_order_id r" "er_status r1 = FAILED_TIMEOUT"
    and res: "en_broker e' = en_broker e2"
      "case x of Inl z \<Rightarrow> y = Inl z \<and> r' = r2
       | Inr rep \<Rightarrow> y = Inr () \<and> r' = r2\<lparr>er_reconciliation_report := Some rep\<rparr>"
    using run R
    by (auto simp: timeout_branch_def run_Some engine_log_defs records_def)
  note rec = reconcile_spec [OF rc] reconcile_trace [OF R rc]
  show "prefix (tr (en_broker e)) (tr (en_broker e'))"
    using rec(5) tr1 res(1) by (metis prefix_def append_assoc)
  show "prefix (tr (en_broker e')) (tr (en_broker e) @ Cancelled oid # recon_calls oid)"
    using rec(5) tr1 res(1) by simp
  show "y = Inr u \<Longrightarrow> tr (en_broker e') = tr (en_broker e) @ Cancelled oid # recon_calls oid"
    using rec(5) tr1 res by (auto split: sum.splits)
  show "er_final_order_id r' = er_final_order_id r"
    using rec(1) fin res(2) by (auto split: sum.splits)
  show "y = Inr u \<Longrightarrow> er_status r' = FAILED_TIMEOUT \<and>
      (\<exists>rep ps. listed env (en_broker e') ps \<and> er_reconciliation_report r' = Some rep \<and>
          rr_status rep = recon_status None None ps \<and>
          (rr_requires_manual_resolution rep \<longleftrightarrow> recon_status None None ps \<noteq> MATCHED))"
    using rec(1,2) fin res by (auto split: sum.splits)
qed

definition checked_report ::
    "'b engine_env \<Rightarrow> 'b \<Rightarrow> rat option \<Rightarrow> rat option \<Rightarrow> execution_result \<Rightarrow> bool" where
  "checked_report env b x sl r \<longleftrightarrow>
     (\<exists>rep ps. listed env b ps \<and> er_reconciliation_report r = Some rep \<and> rr_status rep = recon_status x sl ps \<and>
        (rr_requires_manual_resolution rep \<longleftrightarrow> recon_status x sl ps \<noteq> MATCHED))"

definition filled_result :: "'b engine_env \<Rightarrow> 'b \<Rightarrow> frozen_snapshot \<Rightarrow> execution_result \<Rightarrow> bool" where
  "filled_result env b snap r \<longleftrightarrow>
     (\<exists>p. fs_reference_price snap \<noteq> 0 \<and>
        (er_status r = FILLED \<or> er_status r = EXECUTED_FULL_LATE) \<and>
        er_final_fill_price r = Some p \<and>
        er_final_sl r = Some (calculate_sl p (fs_sl_offset_pct snap)) \<and>
        er_final_tp r = Some (calculate_tp p (fs_tp_offset_pct snap)) \<and>
        er_slippage_pct r = Some ((p - fs_reference_price snap) / fs_reference_price snap * 100) \<and>
        checked_report env b (er_final_position_size r) (er_final_sl r) r)"

lemma fill_branch_spec:
  assumes R: "records (env_broker env) tr"
    and run: "fill_branch env snap oid fill (e, r) = Some (y, (e', r'))"
  shows "prefix (tr (en_broker e)) (tr (en_broker e'))"
    and "prefix (tr (en_broker e')) (tr (en_broker e) @ recon_calls oid)"
    and "y = Inr u \<Longrightarrow> tr (en_broker e') = tr (en_broker e) @ recon_calls oid"
    and "er_final_order_id r' = er_final_order_id r"
    and "y = Inr u \<Longrightarrow> filled_result env (en_broker e') snap r'"
proof -
  have "(\<exists>z. y = Inl z \<and> en_broker e' = en_broker e \<and> er_final_order_id r' = er_final_order_id r \<and> fst fill = None) \<or>
        (\<exists>z. y = Inl z \<and> en_broker e' = en_broker e \<and> er_final_order_id r' = er_final_order_id r \<and> fs_reference_price snap = 0) \<or>
        (\<exists>p q. fill = (Some p, q) \<and> fs_reference_price snap \<noteq> 0)"
    using run by (auto simp: fill_branch_def throw_eval Let_def split: option.splits prod.splits if_splits)
  then consider (raised) z where "y = Inl z" "en_broker e' = en_broker e" "er_final_order_id r' = er_final_order_id r"
    | (filled) p q where "fill = (Some p, q)" "fs_reference_price snap \<noteq> 0" by blast
  then have "prefix (tr (en_broker e)) (tr (en_broker e')) \<and>
    prefix (tr (en_broker e')) (tr (en_broker e) @ recon_calls oid) \<and>
    (\<forall>u. y = Inr u \<longrightarrow> tr (en_broker e') = tr (en_broker e) @ recon_calls oid \<and> filled_result env (en_broker e') snap r') \<and>
    er_final_order_id r' = er_final_order_id r"
  proof cases
    case raised
    then show ?thesis by simp
  next
    case filled
    let ?sl = "calculate_sl p (fs_sl_offset_pct snap)" and ?tp = "calculate_tp p (fs_tp_offset_pct snap)"
    obtain late n c where late: "is_expired env (e\<lparr>en_ticks := Suc (en_ticks e)\<rparr>, r) =
        Some (Inr late, (e\<lparr>en_ticks := n, en_timeout := c\<rparr>, r))"
      using is_expired_returns [of env "e\<lparr>en_ticks := Suc (en_ticks e)\<rparr>" r] by auto
    obtain e1 r1 where rest: "bnd (reconcile env (fs_advisory_id snap) oid q (Some ?sl) (Some ?tp))
          (\<lambda>rep. on_result (\<lambda>r. r\<lparr>er_reconciliation_report := Some rep\<rparr>)) (e1, r1) = Some (y, (e', r'))"
      and e1: "en_broker e1 = en_broker e"
      and r1: "er_final_order_id r1 = er_final_order_id r"
        "er_status r1 = FILLED \<or> er_status r1 = EXECUTED_FULL_LATE"
        "er_final_fill_price r1 = Some p" "er_final_position_size r1 = q"
        "er_final_sl r1 = Some ?sl" "er_final_tp r1 = Some ?tp"
        "er_slippage_pct r1 = Some ((p - fs_reference_price snap) / fs_reference_price snap * 100)"
      using run filled
      by (simp add: fill_branch_def Let_def bnd_eval(1) seq_eval(1) read_clock_eval late on_result_eval
          log_order_filled_def push_log_eval)
    obtain x e2 r2 where rc: "reconcile env (fs_advisory_id snap) oid q (Some ?sl) (Some ?tp) (e1, r1) =
        Some (x, (e2, r2))"
      and res: "en_broker e' = en_broker e2" "case x of Inl z \<Rightarrow> y = Inl z \<and> r' = r2
        | Inr rep \<Rightarrow> y = Inr () \<and> r' = r2\<lparr>er_reconciliation_report := Some rep\<rparr>"
      using rest by (auto simp: bnd_Some on_result_eval)
    note rec = reconcile_spec [OF rc] reconcile_trace [OF R rc]
    show ?thesis
      using rec res e1 r1 filled(2)
      by (cases x) (auto simp: filled_result_def checked_report_def)
  qed
  then show "prefix (tr (en_broker e)) (tr (en_broker e'))"
    and "prefix (tr (en_broker e')) (tr (en_broker e) @ recon_calls oid)"
    and "y = Inr u \<Longrightarrow> tr (en_broker e') = tr (en_broker e) @ recon_calls oid"
    and "er_final_order_id r' = er_final_order_id r"
    and "y = Inr u \<Longrightarrow> filled_result env (en_broker e') snap r'"
    by auto
qed

lemma finish_spec:
  assumes "finish env snap (e, r) = Some (y, (e', r'))"
  shows "y = Inr ()" and "en_broker e' = en_broker e"
    and "\<exists>l d. r' = r\<lparr>er_kill_switch_state := l, er_total_duration_seconds := d\<rparr>"
  using assms by (auto simp: finish_def run_Some)

lemma filled_result_frame [simp]:
  "filled_result env b snap (r\<lparr>er_kill_switch_state := l, er_total_duration_seconds := d\<rparr>) \<longleftrightarrow> filled_result env b snap r"
  "checked_report env b x z (r\<lparr>er_kill_switch_state := l, er_total_duration_seconds := d\<rparr>) \<longleftrightarrow> checked_report env b x z r"
  by (simp_all add: filled_result_def checked_report_def)

text \<open>What the broker still sees after the polls: the calls of the branch that was taken.\<close>

definition closing_calls :: "execution_stage \<Rightarrow> string option \<Rightarrow> broker_event list" where
  "closing_calls st oid =
     (case st of
        FAILED_TIMEOUT \<Rightarrow> Cancelled oid # recon_calls oid
      | FILLED \<Rightarrow> recon_calls oid
      | EXECUTED_FULL_LATE \<Rightarrow> recon_calls oid
      | _ \<Rightarrow> [])"

definition closed_result :: "'b engine_env \<Rightarrow> 'b \<Rightarrow> frozen_snapshot \<Rightarrow> execution_result \<Rightarrow> bool" where
  "closed_result env b snap r \<longleftrightarrow>
     (case er_status r of
        FAILED_TIMEOUT \<Rightarrow> checked_report env b None None r
      | FILLED \<Rightarrow> filled_result env b snap r
      | EXECUTED_FULL_LATE \<Rightarrow> filled_result env b snap r
      | SUBMITTED \<Rightarrow> True
      | _ \<Rightarrow> False)"

lemma after_wait_spec:
  assumes R: "records (env_broker env) tr"
    and run: "after_wait env snap oid fill (e, r) = Some (y, (e', r'))"
    and st: "er_status r = SUBMITTED"
  shows "prefix (tr (en_broker e)) (tr (en_broker e')) \<and> er_final_order_id r' = er_final_order_id r \<and>
    (prefix (tr (en_broker e')) (tr (en_broker e) @ Cancelled oid # recon_calls oid) \<or>
     prefix (tr (en_broker e')) (tr (en_broker e) @ recon_calls oid)) \<and>
    (y = Inr () \<longrightarrow> closed_result env (en_broker e') snap r' \<and>
       tr (en_broker e') = tr (en_broker e) @ closing_calls (er_status r') oid \<and>
       (er_status r' = SUBMITTED \<longrightarrow> fill = None \<and> (\<exists>s1. is_expired env (e, r) = Some (Inr False, s1))))"
proof -
  obtain late n c where late: "is_expired env (e, r) =
      Some (Inr late, (e\<lparr>en_ticks := n, en_timeout := c\<rparr>, r))"
    using is_expired_returns by blast
  let ?e = "e\<lparr>en_ticks := n, en_timeout := c\<rparr>"
  let ?m = "if late \<and> fill = None then timeout_branch env snap oid
            else (case fill of None \<Rightarrow> ret () | Some f \<Rightarrow> fill_branch env snap oid f)"
  have "seq ?m (finish env snap) (?e, r) = Some (y, (e', r'))"
    using run late by (auto simp: after_wait_def seq_Some bnd_Some)
  then obtain x e2 r2 where m: "?m (?e, r) = Some (x, (e2, r2))"
    and res: "case x of Inl z \<Rightarrow> y = Inl z \<and> e' = e2 \<and> r' = r2
              | Inr u \<Rightarrow> finish env snap (e2, r2) = Some (y, (e', r'))"
    by (auto simp: seq_Some)
  have branch: "prefix (tr (en_broker e)) (tr (en_broker e2)) \<and> er_final_order_id r2 = er_final_order_id r \<and>
    (prefix (tr (en_broker e2)) (tr (en_broker e) @ Cancelled oid # recon_calls oid) \<or>
     prefix (tr (en_broker e2)) (tr (en_broker e) @ recon_calls oid)) \<and>
    (\<forall>u. x = Inr u \<longrightarrow> closed_result env (en_broker e2) snap r2 \<and>
       tr (en_broker e2) = tr (en_broker e) @ closing_calls (er_status r2) oid \<and>
       (er_status r2 = SUBMITTED \<longrightarrow> fill = None \<and> \<not> late))"
  proof (cases "late \<and> fill = None")
    case True
    with m have "timeout_branch env snap oid (?e, r) = Some (x, (e2, r2))" by simp
    from timeout_branch_spec [OF R this] show ?thesis
      by (auto simp: closed_result_def closing_calls_def checked_report_def)
  next
    case False
    show ?thesis
    proof (cases fill)
      case None
      with False m st show ?thesis by (auto simp: ret_eval closed_result_def closing_calls_def)
    next
      case (Some f)
      with m have "fill_branch env snap oid f (?e, r) = Some (x, (e2, r2))" by simp
      from fill_branch_spec [OF R this] show ?thesis
        by (auto simp: closed_result_def closing_calls_def filled_result_def)
    qed
  qed
  show ?thesis
  proof (cases x)
    case (Inl z)
    with branch res show ?thesis by auto
  next
    case (Inr u)
    with res have f: "finish env snap (e2, r2) = Some (y, (e', r'))" by simp
    from finish_spec [OF f] branch Inr late show ?thesis
      by (auto simp: closed_result_def split: execution_stage.splits)
  qed
qed

section \<open>The whole method\<close>

text \<open>
  The protocol between the engine and the broker: nothing at all when the execution is rejected;
  otherwise one submission, polls of the order that came back, and the closing calls of the
  outcome (of which an exception may leave a prefix).
\<close>

definition broker_protocol :: "frozen_snapshot \<Rightarrow> execution_result \<Rightarrow> broker_event list \<Rightarrow> bool" where
  "broker_protocol snap r evs \<longleftrightarrow>
     (if er_status r = REJECTED then evs = []
      else \<exists>n tail. evs = submit_event snap # replicate n (Polled (er_final_order_id r)) @ tail \<and>
        (if er_status r = FAILED
         then prefix tail (Cancelled (er_final_order_id r) # recon_calls (er_final_order_id r)) \<or>
              prefix tail (recon_calls (er_final_order_id r))
         else tail = closing_calls (er_status r) (er_final_order_id r)))"

definition execute_outcome ::
    "'b engine_env \<Rightarrow> frozen_snapshot \<Rightarrow> 'b engine \<Rightarrow> execution_result \<Rightarrow> 'b engine \<Rightarrow> bool" where
  "execute_outcome env snap e r e' \<longleftrightarrow>
     (if blocked env snap e then er_status r = REJECTED \<and> er_attempts r = [] \<and> er_error_message r \<noteq> None
      else er_status r = FAILED \<or> closed_result env (en_broker e') snap r)"

lemma late_stays_late:
  assumes "mono (env_clock env)" and "timer_runs t e" and "en_ticks e = Suc n"
    and "seconds HARD_TIMEOUT_SECONDS < env_clock env n - t"
  shows "is_expired env (e, r) \<noteq> Some (Inr False, s1)"
proof -
  have "env_clock env n \<le> env_clock env (Suc n)" using assms(1) by (simp add: mono_iff_le_Suc)
  with assms show ?thesis
    by (auto simp: is_expired_eval timer_runs_def tc_is_expired_def Let_def)
qed

lemma body_tail:
  assumes R: "records (env_broker env) tr"
    and run: "bnd (submission env snap) (\<lambda>oid. bnd (wait_for_fill env oid) (\<lambda>fill.
      seq (after_wait env snap oid fill) (ret False))) (e, r) = Some (y, (e', r'))"
    and st: "er_status r = SUBMITTED"
  shows "\<exists>n tail. tr (en_broker e') =
      tr (en_broker e) @ submit_event snap # replicate n (Polled (er_final_order_id r')) @ tail \<and>
    (prefix tail (Cancelled (er_final_order_id r') # recon_calls (er_final_order_id r')) \<or>
     prefix tail (recon_calls (er_final_order_id r'))) \<and>
    (\<forall>u. y = Inr u \<longrightarrow> \<not> u \<and> closed_result env (en_broker e') snap r' \<and>
       (mono (env_clock env) \<longrightarrow> er_status r' \<noteq> SUBMITTED) \<and>
       tail = closing_calls (er_status r') (er_final_order_id r'))"
proof -
  obtain x e1 r1 where sub: "submission env snap (e, r) = Some (x, (e1, r1))"
    and res1: "case x of Inl z \<Rightarrow> y = Inl z \<and> e' = e1 \<and> r' = r1
       | Inr oid \<Rightarrow> bnd (wait_for_fill env oid) (\<lambda>fill. seq (after_wait env snap oid fill) (ret False)) (e1, r1)
           = Some (y, (e', r'))"
    using run by (auto simp: bnd_Some)
  note sub_tr = submission_spec(1) [OF R sub]
  show ?thesis
  proof (cases x)
    case (Inl z)
    with res1 sub_tr show ?thesis by (intro exI [of _ 0] exI [of _ "[]"]) auto
  next
    case (Inr oid)
    from submission_spec(2) [OF R sub Inr] st have oid: "er_final_order_id r1 = oid" "er_status r1 = SUBMITTED"
      by auto
    obtain w e2 r2 where wt: "wait_for_fill env oid (e1, r1) = Some (w, (e2, r2))"
      and res2: "case w of Inl z \<Rightarrow> y = Inl z \<and> e' = e2 \<and> r' = r2
         | Inr fill \<Rightarrow> seq (after_wait env snap oid fill) (ret False) (e2, r2) = Some (y, (e', r'))"
      using res1 Inr by (auto simp: bnd_Some)
    obtain n where polls: "tr (en_broker e2) = tr (en_broker e1) @ replicate n (Polled oid)"
      using wait_trace [OF R wt] by blast
    note wres = wait_result [OF wt]
    then have r2: "r2 = r1" by simp
    show ?thesis
    proof (cases w)
      case (Inl z)
      with res2 polls sub_tr oid r2 show ?thesis
        by (intro exI [of _ n] exI [of _ "[]"]) auto
    next
      case w: (Inr fill)
      obtain v where aw: "after_wait env snap oid fill (e2, r2) = Some (v, (e', r'))"
        and v: "case v of Inl z \<Rightarrow> y = Inl z | Inr u \<Rightarrow> y = Inr False"
        using res2 w by (auto simp: seq_Some ret_eval)
      note aft = after_wait_spec [OF R aw]
      from aft oid r2 obtain tail where tail: "tr (en_broker e') = tr (en_broker e2) @ tail"
        by (auto simp: prefix_def)
      have clocked: "mono (env_clock env) \<longrightarrow> fill = None \<longrightarrow> is_expired env (e2, r2) \<noteq> Some (Inr False, s1)" for s1
        using wres w late_stays_late by (metis (no_types, lifting))
      show ?thesis
        by (intro exI [of _ n] exI [of _ tail])
           (use aft clocked tail polls sub_tr oid r2 v in \<open>auto split: sum.splits\<close>)
    qed
  qed
qed

lemma execute_spec:
  assumes R: "records (env_broker env) tr"
    and run: "execute env snap e = Some (r, e')"
  shows "execute_outcome env snap e r e' \<and>
     (\<exists>evs. tr (en_broker e') = tr (en_broker e) @ evs \<and> broker_protocol snap r evs) \<and>
     (mono (env_clock env) \<longrightarrow> er_status r \<noteq> SUBMITTED) \<and>
     (blocked env snap e \<longrightarrow> en_broker e' = en_broker e \<and> en_reconciliations e' = en_reconciliations e)"
proof -
  let ?r0 = "new_result (fs_advisory_id snap)"
  obtain x e1 r1 where pre: "pre_submission env snap (e, ?r0) = Some (x, (e1, r1))"
    using pre_submission_returns [of env snap "(e, ?r0)"] by auto
  note p = pre_submission_cases [OF pre]
  show ?thesis
  proof (cases "blocked env snap e")
    case True
    with run pre p have "r = r1" "e' = e1"
      by (auto simp: execute_def execute_body_def bnd_eval(1) ret_eval)
    with p True show ?thesis
      by (auto simp: execute_outcome_def broker_protocol_def new_result_def)
  next
    case False
    let ?tail = "bnd (submission env snap) (\<lambda>oid. bnd (wait_for_fill env oid) (\<lambda>fill.
      seq (after_wait env snap oid fill) (ret False)))"
    have body: "execute_body env snap (e, ?r0) = ?tail (e1, ?r0)"
      using pre p False by (simp add: execute_body_def bnd_eval(1))
    with run obtain y e2 r2 where tl: "?tail (e1, ?r0) = Some (y, (e2, r2))"
      by (auto simp: execute_def split: option.splits)
    note t = body_tail [OF R tl]
    have "y \<noteq> Inr True" and y: "case y of
        Inl z \<Rightarrow> en_broker e' = en_broker e2 \<and> er_status r = FAILED \<and>
          er_final_order_id r = er_final_order_id r2
      | Inr _ \<Rightarrow> en_broker e' = en_broker e2 \<and> r = r2"
      using run body tl t
      by (auto simp: execute_def log_execution_result_def bnd_eval(1) gets_eval push_log_eval new_result_def
          split: sum.splits bool.splits)
    with t p(2) False show ?thesis
      by (cases y) (auto simp: execute_outcome_def broker_protocol_def new_result_def closed_result_def
          split: execution_stage.splits)
  qed
qed

section \<open>Returning\<close>

text \<open>Every block but the polling loop comes back from every state.\<close>

abbreviation always :: "('b, 'a) xprog \<Rightarrow> bool" where
  "always m \<equiv> returns (\<lambda>_. True) m"

lemma always_bnd: "always m \<Longrightarrow> (\<And>x. always (f x)) \<Longrightarrow> always (bnd m f)"
  by (fastforce simp: returns_def bnd_def split: option.splits sum.splits)

lemma always_seq: "always m \<Longrightarrow> always k \<Longrightarrow> always (seq m k)"
  unfolding seq_def by (rule always_bnd)

lemma always_prims:
  "always (read_clock env)" "always (fresh_id env)" "always (broker_call f)" "always (is_expired env)"
  "always (elapsed_seconds env)" "always (on_engine g)" "always (on_result h)"
  by (simp_all add: engine_prims)

lemma always_if: "always m \<Longrightarrow> always k \<Longrightarrow> always (if b then m else k)"
  by simp

lemma always_option: "always m \<Longrightarrow> (\<And>x. always (f x)) \<Longrightarrow> always (case o' of None \<Rightarrow> m | Some x \<Rightarrow> f x)"
  by (cases o') simp_all

lemma always_prod: "(\<And>x y. always (f x y)) \<Longrightarrow> always (case p of (x, y) \<Rightarrow> f x y)"
  by (cases p) simp

lemma always_Let: "(\<And>x. always (f x)) \<Longrightarrow> always (Let v f)"
  by (simp add: Let_def)

lemmas always_rules =
  returns_basic always_bnd always_seq always_prims always_if always_option always_prod always_Let
  returns_swallow

lemma always_push_log: "always (push_log env entry)"
  unfolding push_log_def by (intro always_rules)

lemma always_start_timer: "always (start_timer env)"
  unfolding start_timer_def by (intro always_rules)

lemma always_reconcile: "always (reconcile env a oid x sl tp)"
  unfolding reconcile_def by (intro always_rules)

lemma always_submission: "always (submission env snap)"
  unfolding submission_def engine_log_defs by (intro always_rules always_push_log always_start_timer)

lemma always_after_wait: "always (after_wait env snap oid fill)"
  unfolding after_wait_def timeout_branch_def fill_branch_def finish_def engine_log_defs
  by (intro always_rules always_push_log always_reconcile)

lemma alwaysD: "always m \<Longrightarrow> \<exists>x s'. m s = Some (x, s')"
  unfolding returns_def by (metis not_None_eq prod.exhaust)

text \<open>
  The loop reads the clock once per round, so it comes back no later than the first reading that
  is more than 30 seconds after the start, whatever the broker answers.
\<close>

lemma is_expired_timer:
  "timer_runs t e \<Longrightarrow> is_expired env (e, r) =
     Some (Inr (seconds HARD_TIMEOUT_SECONDS < env_clock env (en_ticks e) - t),
       (e\<lparr>en_ticks := Suc (en_ticks e),
          en_timeout := snd (tc_is_expired (env_clock env (en_ticks e)) (en_timeout e))\<rparr>, r))"
  by (simp add: is_expired_eval timer_runs_def tc_is_expired_def Let_def)

lemma wait_returns:
  assumes "timer_runs t e" and "en_ticks e \<le> N"
    and "seconds HARD_TIMEOUT_SECONDS < env_clock env N - t"
  shows "\<exists>y e' r'. wait_for_fill env oid (e, r) = Some (y, (e', r')) \<and> en_ticks e' \<le> Suc N"
  using assms(1,2)
proof (induction "N - en_ticks e" arbitrary: e r rule: less_induct)
  case less
  define b where "b \<longleftrightarrow> seconds HARD_TIMEOUT_SECONDS < env_clock env (en_ticks e) - t"
  define n where "n = Suc (en_ticks e)"
  define c where "c = snd (tc_is_expired (env_clock env (en_ticks e)) (en_timeout e))"
  have exp: "is_expired env (e, r) = Some (Inr b, (e\<lparr>en_ticks := n, en_timeout := c\<rparr>, r))"
    using is_expired_timer [OF less.prems(1)] by (simp add: b_def n_def c_def)
  have c: "tc_start_time c = Some t"
    using less.prems(1) by (simp add: c_def timer_runs_def)
  note n = n_def and b = b_def
  show ?case
  proof (cases b)
    case True
    with exp n less.prems show ?thesis by (subst wait_for_fill.simps) simp
  next
    case False
    with b assms(3) less.prems(2) have lt: "en_ticks e < N" by (metis le_neq_implies_less)
    obtain x b' where poll: "ba_get_order_status (env_broker env) oid (en_broker e) = (x, b')"
      by fastforce
    let ?e = "e\<lparr>en_ticks := n, en_timeout := c, en_broker := b'\<rparr>"
    show ?thesis
    proof (cases "\<exists>st. x = Inr st \<and> os_state st \<noteq> Some ''filled''")
      case True
      have "\<exists>y e' r'. wait_for_fill env oid (?e, r) = Some (y, (e', r')) \<and> en_ticks e' \<le> Suc N"
        by (rule less.hyps) (use lt n c in \<open>auto simp: timer_runs_def\<close>)
      with True False exp poll show ?thesis
        by (subst wait_for_fill.simps) (auto simp: broker_call_eval)
    next
      case stop: False
      with False exp poll n lt show ?thesis
        by (subst wait_for_fill.simps) (auto simp: broker_call_eval split: sum.splits)
    qed
  qed
qed

lemma execute_returns_if:
  assumes "\<forall>t m. \<exists>n\<ge>m. t < env_clock env n"
  shows "\<exists>r e'. execute env snap e = Some (r, e')"
proof -
  let ?r0 = "new_result (fs_advisory_id snap)"
  obtain x e1 r1 where pre: "pre_submission env snap (e, ?r0) = Some (x, (e1, r1))"
    using pre_submission_returns [of env snap "(e, ?r0)"] by auto
  note p = pre_submission_cases [OF pre]
  have wait: "\<exists>z s'. bnd (wait_for_fill env oid) (\<lambda>fill. seq (after_wait env snap oid fill) (ret False)) (e2, r2)
      = Some (z, s')" if sub: "submission env snap (e1, r1) = Some (Inr oid, (e2, r2))" for oid e2 r2
  proof -
    let ?t = "env_clock env (en_ticks e1)"
    obtain N where "en_ticks e2 \<le> N" "?t + seconds HARD_TIMEOUT_SECONDS < env_clock env N"
      using assms by blast
    then obtain w e3 r3 where "wait_for_fill env oid (e2, r2) = Some (w, (e3, r3))"
      using wait_returns [OF submission_timer [OF sub], of N] by force
    moreover have "\<exists>z s'. seq (after_wait env snap oid fill) (ret False) (e3, r3) = Some (z, s')" for fill
      by (rule alwaysD) (intro always_seq always_after_wait returns_basic)
    ultimately show ?thesis by (cases w) (auto simp: bnd_def)
  qed
  obtain y e2 r2 where sub: "submission env snap (e1, r1) = Some (y, (e2, r2))"
    using alwaysD [OF always_submission] by (metis prod.exhaust)
  have "\<exists>z s'. execute_body env snap (e, ?r0) = Some (z, s')"
    using pre p(1) sub wait
    by (cases y) (auto simp: execute_body_def bnd_eval ret_eval bnd_def)
  then obtain z s' where "execute_body env snap (e, ?r0) = Some (z, s')" by blast
  then have "execute env snap e \<noteq> None"
    by (cases s') (auto simp: execute_def log_execution_result_def bnd_eval(1) gets_eval push_log_eval
        split: sum.splits bool.splits)
  then show ?thesis by auto
qed

section \<open>Counting the calls of the protocol\<close>

lemma protocol_shape:
  assumes "broker_protocol snap r evs" and "er_status r \<noteq> REJECTED"
  obtains n tail i where "evs = submit_event snap # replicate n (Polled i) @ tail"
    and "prefix tail (Cancelled i # recon_calls i) \<or> prefix tail (recon_calls i)"
    and "er_status r \<in> {FILLED, EXECUTED_FULL_LATE} \<Longrightarrow> tail = recon_calls i"
proof -
  from assms obtain n tail where evs: "evs = submit_event snap # replicate n (Polled (er_final_order_id r)) @ tail"
    and tail: "if er_status r = FAILED
         then prefix tail (Cancelled (er_final_order_id r) # recon_calls (er_final_order_id r)) \<or>
              prefix tail (recon_calls (er_final_order_id r))
         else tail = closing_calls (er_status r) (er_final_order_id r)"
    by (auto simp: broker_protocol_def)
  from tail show ?thesis
    by (intro that [OF evs]) (auto simp: closing_calls_def split: if_splits execution_stage.splits)
qed

lemma tail_counts:
  assumes "prefix tail (Cancelled i # recon_calls i) \<or> prefix tail (recon_calls i)"
  shows "filter (\<lambda>ev. \<exists>s q l k. ev = Submitted s q l k) tail = []"
    and "length (filter (\<lambda>ev. \<exists>i. ev = Cancelled i) tail) \<le> 1"
    and "submit_event snap \<notin> set tail"
  using assms
  by (auto simp: recon_calls_def prefix_Cons submit_event_def split: if_splits)

lemma protocol_counts:
  assumes "broker_protocol snap r evs"
  shows "count_list evs (submit_event snap) = (if er_status r = REJECTED then 0 else 1) \<and>
     length (filter (\<lambda>ev. \<exists>s q l k. ev = Submitted s q l k) evs) \<le> 1 \<and>
     length (filter (\<lambda>ev. \<exists>i. ev = Cancelled i) evs) \<le> 1 \<and>
     (er_status r \<in> {FILLED, EXECUTED_FULL_LATE} \<longrightarrow> filter (\<lambda>ev. \<exists>i. ev = Cancelled i) evs = [])"
proof (cases "er_status r = REJECTED")
  case True
  with assms show ?thesis by (simp add: broker_protocol_def)
next
  case False
  from protocol_shape [OF assms False] obtain n tail i
    where evs: "evs = submit_event snap # replicate n (Polled i) @ tail"
      and tail: "prefix tail (Cancelled i # recon_calls i) \<or> prefix tail (recon_calls i)"
      and ok: "er_status r \<in> {FILLED, EXECUTED_FULL_LATE} \<Longrightarrow> tail = recon_calls i" by blast
  have "count_list (replicate n (Polled i)) (submit_event snap) = 0"
    by (simp add: submit_event_def count_list_0_iff)
  moreover have "filter (\<lambda>ev. \<exists>i. ev = Cancelled i) tail = []" if "er_status r \<in> {FILLED, EXECUTED_FULL_LATE}"
    using ok [OF that] by (simp add: recon_calls_def)
  ultimately show ?thesis
    using False evs tail_counts(1,2) [OF tail] tail_counts(3) [OF tail, of snap]
    by (auto simp: submit_event_def count_list_0_iff)
qed

end
