(* ===== verification/Engine_Observe.thy ===== *)
theory Engine_Observe
  imports Engine_Trace
begin

text \<open>
  The recording broker. Instrumenting a broker so that it keeps a trace of its calls changes
  nothing else about a run, so the protocol proved of traced brokers holds of every broker.
\<close>

section \<open>Every broker can be observed\<close>

text \<open>
  Running against the recording broker gives the same result and the same engine as running
  against the broker itself, with the trace beside the broker's state. So what is proved of the
  trace holds of every broker.
\<close>

definition recorded :: "'b engine_env \<Rightarrow> ('b \<times> broker_event list) engine_env" where
  "recorded env =
    \<lparr>env_broker = recording (env_broker env), env_clock = env_clock env, env_uuid = env_uuid env,
     env_sha256 = env_sha256 env\<rparr>"

definition with_trace :: "broker_event list \<Rightarrow> 'b engine \<Rightarrow> ('b \<times> broker_event list) engine" where
  "with_trace L e =
    \<lparr>en_broker = (en_broker e, L), en_ticks = en_ticks e, en_ids = en_ids e,
     en_switches = en_switches e, en_timeout = en_timeout e,
     en_reconciliations = en_reconciliations e, en_logs = en_logs e\<rparr>"

lemma recorded_simps [simp]:
  "env_broker (recorded env) = recording (env_broker env)" "env_clock (recorded env) = env_clock env"
  "env_uuid (recorded env) = env_uuid env" "env_sha256 (recorded env) = env_sha256 env"
  by (simp_all add: recorded_def)

lemma with_trace_simps [simp]:
  "en_broker (with_trace L e) = (en_broker e, L)" "en_ticks (with_trace L e) = en_ticks e"
  "en_ids (with_trace L e) = en_ids e" "en_switches (with_trace L e) = en_switches e"
  "en_timeout (with_trace L e) = en_timeout e" "en_logs (with_trace L e) = en_logs e"
  "en_reconciliations (with_trace L e) = en_reconciliations e"
  by (simp_all add: with_trace_def)

definition follows :: "('b, 'a) xprog \<Rightarrow> ('b \<times> broker_event list, 'a) xprog \<Rightarrow> bool" where
  "follows m m' \<longleftrightarrow>
     (\<forall>e r x e' r' L. m (e, r) = Some (x, (e', r')) \<longrightarrow>
        (\<exists>L'. m' (with_trace L e, r) = Some (x, (with_trace L' e', r'))))"

lemma followsD:
  "follows m m' \<Longrightarrow> m (e, r) = Some (x, (e', r')) \<Longrightarrow>
     \<exists>L'. m' (with_trace L e, r) = Some (x, (with_trace L' e', r'))"
  unfolding follows_def by blast

lemma follows_ret: "follows (ret x) (ret x)"
  by (auto simp: follows_def ret_def)

lemma follows_throw: "follows (throw x) (throw x)"
  by (auto simp: follows_def throw_def)

lemma follows_gets: "(\<And>e r L. g (e, r) = g' (with_trace L e, r)) \<Longrightarrow> follows (gets g) (gets g')"
  by (auto simp: follows_def gets_def)

lemma follows_on_result: "follows (on_result f) (on_result f)"
  by (auto simp: follows_def on_result_eval)

lemma follows_on_engine:
  "(\<And>e L. f' (with_trace L e) = with_trace L (f e)) \<Longrightarrow> follows (on_engine f) (on_engine f')"
  by (auto simp: follows_def on_engine_eval)

lemma follows_bnd:
  assumes "follows m m'" and "\<And>x. follows (f x) (f' x)"
  shows "follows (bnd m f) (bnd m' f')"
  unfolding follows_def
proof (intro allI impI)
  fix e r x e' r' L
  assume "bnd m f (e, r) = Some (x, (e', r'))"
  then consider (raised) z where "m (e, r) = Some (Inl z, (e', r'))" "x = Inl z"
    | (normal) y e1 r1 where "m (e, r) = Some (Inr y, (e1, r1))" "f y (e1, r1) = Some (x, (e', r'))"
    by (auto simp: bnd_Some)
  then show "\<exists>L'. bnd m' f' (with_trace L e, r) = Some (x, (with_trace L' e', r'))"
  proof cases
    case raised
    with followsD [OF assms(1), of e r "Inl z" e' r' L] show ?thesis by (auto simp: bnd_def)
  next
    case normal
    from followsD [OF assms(1) normal(1), of L] obtain M
      where "m' (with_trace L e, r) = Some (Inr y, (with_trace M e1, r1))" by blast
    with followsD [OF assms(2) normal(2), of M] show ?thesis by (auto simp: bnd_def)
  qed
qed

lemma follows_seq: "follows m m' \<Longrightarrow> follows k k' \<Longrightarrow> follows (seq m k) (seq m' k')"
  unfolding seq_def by (rule follows_bnd)

lemma follows_swallow: "follows m m' \<Longrightarrow> follows (swallow m) (swallow m')"
proof -
  assume m: "follows m m'"
  have "\<exists>L'. swallow m' (with_trace L e, r) = Some (x, (with_trace L' e', r'))"
    if "swallow m (e, r) = Some (x, (e', r'))" for e r x e' r' L
  proof -
    from that obtain y where "m (e, r) = Some (y, (e', r'))" and "x = Inr ()"
      by (auto simp: swallow_def split: option.splits)
    with followsD [OF m, of e r y e' r' L] show ?thesis by (auto simp: swallow_def)
  qed
  then show ?thesis by (simp add: follows_def)
qed

lemma follows_if: "follows m m' \<Longrightarrow> follows k k' \<Longrightarrow> follows (if b then m else k) (if b then m' else k')"
  by simp

lemma follows_option:
  "follows m m' \<Longrightarrow> (\<And>x. follows (f x) (f' x)) \<Longrightarrow>
   follows (case o' of None \<Rightarrow> m | Some x \<Rightarrow> f x) (case o' of None \<Rightarrow> m' | Some x \<Rightarrow> f' x)"
  by (cases o') simp_all

lemma follows_prod:
  "(\<And>x y. follows (f x y) (f' x y)) \<Longrightarrow> follows (case p of (x, y) \<Rightarrow> f x y) (case p of (x, y) \<Rightarrow> f' x y)"
  by (cases p) simp

lemma follows_Let: "(\<And>x. follows (f x) (f' x)) \<Longrightarrow> follows (Let v f) (Let v f')"
  by (simp add: Let_def)

lemma follows_broker_call:
  assumes "\<And>b L. \<exists>L'. f' (b, L) = (fst (f b), (snd (f b), L'))"
  shows "follows (broker_call f) (broker_call f')"
  unfolding follows_def
proof (intro allI impI)
  fix e r x e' r' L
  assume "broker_call f (e, r) = Some (x, (e', r'))"
  then obtain b where "f (en_broker e) = (x, b)" "e' = e\<lparr>en_broker := b\<rparr>" "r' = r"
    by (auto simp: broker_call_Some)
  moreover obtain L' where "f' (en_broker e, L) = (fst (f (en_broker e)), (snd (f (en_broker e)), L'))"
    using assms by blast
  ultimately show "\<exists>L'. broker_call f' (with_trace L e, r) = Some (x, (with_trace L' e', r'))"
    by (intro exI [of _ L']) (auto simp: broker_call_Some with_trace_def)
qed

lemma recording_calls:
  "\<exists>L'. ba_submit_order (recording B) s q l k (b, L) =
     (fst (ba_submit_order B s q l k b), (snd (ba_submit_order B s q l k b), L'))"
  "\<exists>L'. ba_cancel_order (recording B) i (b, L) =
     (fst (ba_cancel_order B i b), (snd (ba_cancel_order B i b), L'))"
  "\<exists>L'. ba_get_order_status (recording B) i (b, L) =
     (fst (ba_get_order_status B i b), (snd (ba_get_order_status B i b), L'))"
  "\<exists>L'. ba_get_positions (recording B) (b, L) =
     (fst (ba_get_positions B b), (snd (ba_get_positions B b), L'))"
  by (auto simp: recording_def split: prod.splits)

lemma follows_calls:
  "follows (broker_call (ba_submit_order B s q l k)) (broker_call (ba_submit_order (recording B) s q l k))"
  "follows (broker_call (ba_cancel_order B i)) (broker_call (ba_cancel_order (recording B) i))"
  "follows (broker_call (ba_get_order_status B i)) (broker_call (ba_get_order_status (recording B) i))"
  "follows (broker_call (ba_get_positions B)) (broker_call (ba_get_positions (recording B)))"
  by (rule follows_broker_call, rule recording_calls)+

lemma follows_is_expired: "follows (is_expired env) (is_expired (recorded env))"
  by (auto simp: follows_def is_expired_eval Let_def with_trace_def split: option.splits)

lemma follows_elapsed: "follows (elapsed_seconds env) (elapsed_seconds (recorded env))"
  by (auto simp: follows_def elapsed_seconds_eval with_trace_def split: option.splits)

lemma follows_read_clock: "follows (read_clock env) (read_clock (recorded env))"
  by (auto simp: follows_def read_clock_eval with_trace_def)

lemma follows_fresh_id: "follows (fresh_id env) (fresh_id (recorded env))"
  by (auto simp: follows_def fresh_id_eval with_trace_def)

lemma follows_push_log: "follows (push_log env entry) (push_log (recorded env) entry)"
  by (auto simp: follows_def push_log_eval with_trace_def)

lemma follows_start_timer: "follows (start_timer env) (start_timer (recorded env))"
  by (auto simp: follows_def start_timer_eval with_trace_def)

lemma follows_push_rec:
  "follows (on_engine (\<lambda>e. e\<lparr>en_reconciliations := en_reconciliations e @ [rep]\<rparr>))
           (on_engine (\<lambda>e. e\<lparr>en_reconciliations := en_reconciliations e @ [rep]\<rparr>))"
  by (rule follows_on_engine) (simp add: with_trace_def)

lemmas follows_rules =
  follows_ret follows_throw follows_on_result follows_bnd follows_seq follows_swallow follows_if
  follows_option follows_prod follows_Let follows_is_expired follows_elapsed follows_read_clock
  follows_fresh_id follows_push_log follows_start_timer follows_push_rec
  follows_calls

lemma follows_reconcile: "follows (reconcile env a oid x sl tp) (reconcile (recorded env) a oid x sl tp)"
  unfolding reconcile_def recorded_simps by (intro follows_rules)

lemma follows_submission: "follows (submission env snap) (submission (recorded env) snap)"
  unfolding submission_def engine_log_defs recorded_simps by (intro follows_rules)

lemma follows_pre_submission: "follows (pre_submission env snap) (pre_submission (recorded env) snap)"
  unfolding pre_submission_def engine_log_defs recorded_simps
  by (intro follows_rules follows_gets) simp_all

lemma follows_after_wait:
  "follows (after_wait env snap oid fill) (after_wait (recorded env) snap oid fill)"
  unfolding after_wait_def timeout_branch_def fill_branch_def finish_def engine_log_defs recorded_simps
  by (intro follows_rules follows_reconcile follows_gets) simp_all

lemma follows_log_result: "follows (log_execution_result env) (log_execution_result (recorded env))"
  unfolding engine_log_defs by (intro follows_rules follows_gets) simp

lemma wait_round:
  assumes "is_expired env (ea, ra) = Some (Inr False, (eb, rb))"
    and "broker_call (ba_get_order_status (env_broker env) oid) (eb, rb) = Some (y, (ec, rc))"
  shows "\<exists>M'. wait_for_fill (recorded env) oid (with_trace M ea, ra) =
      (case y of
         Inl z \<Rightarrow> Some (Inl z, (with_trace M' ec, rc))
       | Inr st \<Rightarrow> if os_state st = Some ''filled''
           then Some (Inr (Some (os_fill_price st, os_filled_size st)), (with_trace M' ec, rc))
           else wait_for_fill (recorded env) oid (with_trace M' ec, rc))"
proof -
  from assms(1) obtain M1 where M1: "is_expired (recorded env) (with_trace M ea, ra) = Some (Inr False, (with_trace M1 eb, rb))"
    using followsD [OF follows_is_expired] by blast
  from assms(2) obtain M2 where "broker_call (ba_get_order_status (recording (env_broker env)) oid) (with_trace M1 eb, rb)
      = Some (y, (with_trace M2 ec, rc))"
    using followsD [OF follows_calls(3)] by blast
  with M1 show ?thesis
    by (intro exI [of _ M2]) (subst wait_for_fill.simps, simp split: sum.splits)
qed

lemma wait_out:
  assumes "is_expired env (ea, ra) = Some (Inr True, (eb, rb))"
  shows "\<exists>M'. wait_for_fill (recorded env) oid (with_trace M ea, ra) = Some (Inr None, (with_trace M' eb, rb))"
proof -
  from assms(1) obtain M1 where "is_expired (recorded env) (with_trace M ea, ra) = Some (Inr True, (with_trace M1 eb, rb))"
    using followsD [OF follows_is_expired] by blast
  then show ?thesis
    by (intro exI [of _ M1]) (subst wait_for_fill.simps, simp)
qed

lemma follows_wait: "follows (wait_for_fill env oid) (wait_for_fill (recorded env) oid)"
proof -
  have "\<exists>L'. wait_for_fill (recorded env) oid (with_trace L e, r) = Some (x, (with_trace L' e', r'))"
    if run: "wait_for_fill env oid (e, r) = Some (x, (e', r'))" for e r x e' r' L
  proof -
    let ?w = "wait_for_fill (recorded env) oid"
    define Inv where "Inv = (\<lambda>s. \<exists>M. ?w (with_trace L e, r) = ?w (with_trace M (fst s), snd s))"
    define Q where "Q = (\<lambda>x s. \<exists>M. ?w (with_trace L e, r) = Some (x, (with_trace M (fst s), snd s)))"
    have "Q x (e', r')"
    proof (rule wait_for_fill_rule [OF run, where Inv = Inv])
      show "Inv (e, r)" by (auto simp: Inv_def)
    next
      fix s s1 assume "Inv s" and "is_expired env s = Some (Inr True, s1)"
      then show "Q (Inr None) s1"
        using wait_out [of env "fst s" "snd s" "fst s1" "snd s1"]
        by (simp add: Inv_def Q_def) metis
    next
      fix s s1 z s2 assume "Inv s" and "is_expired env s = Some (Inr False, s1)"
        and "broker_call (ba_get_order_status (env_broker env) oid) s1 = Some (Inl z, s2)"
      then show "Q (Inl z) s2"
        using wait_round [of env "fst s" "snd s" "fst s1" "snd s1" oid "Inl z" "fst s2" "snd s2"]
        by (simp add: Inv_def Q_def) metis
    next
      fix s s1 st s2 assume "Inv s" and "is_expired env s = Some (Inr False, s1)"
        and "broker_call (ba_get_order_status (env_broker env) oid) s1 = Some (Inr st, s2)"
        and "os_state st = Some ''filled''"
      then show "Q (Inr (Some (os_fill_price st, os_filled_size st))) s2"
        using wait_round [of env "fst s" "snd s" "fst s1" "snd s1" oid "Inr st" "fst s2" "snd s2"]
        by (simp add: Inv_def Q_def) metis
    next
      fix s s1 st s2 assume "Inv s" and "is_expired env s = Some (Inr False, s1)"
        and "broker_call (ba_get_order_status (env_broker env) oid) s1 = Some (Inr st, s2)"
        and "os_state st \<noteq> Some ''filled''"
      then show "Inv s2"
        using wait_round [of env "fst s" "snd s" "fst s1" "snd s1" oid "Inr st" "fst s2" "snd s2"]
        by (simp add: Inv_def Q_def) metis
    qed
    then show ?thesis by (simp add: Q_def)
  qed
  then show ?thesis by (simp add: follows_def)
qed

lemma follows_execute_body: "follows (execute_body env snap) (execute_body (recorded env) snap)"
  unfolding execute_body_def
  by (intro follows_rules follows_pre_submission follows_submission follows_wait follows_after_wait)

lemma execute_observed:
  assumes "execute env snap e = Some (r, e')"
  shows "\<exists>M. execute (recorded env) snap (with_trace L e) = Some (r, with_trace M e')"
proof -
  obtain x e1 r1 where b: "execute_body env snap (e, new_result (fs_advisory_id snap)) = Some (x, (e1, r1))"
    using assms by (auto simp: execute_def split: option.splits)
  obtain M where b': "execute_body (recorded env) snap (with_trace L e, new_result (fs_advisory_id snap)) =
      Some (x, (with_trace M e1, r1))"
    using followsD [OF follows_execute_body b] by blast
  from assms b b' show ?thesis
    by (auto simp: execute_def log_execution_result_def bnd_eval(1) gets_eval push_log_eval with_trace_def
        split: sum.splits bool.splits)
qed

lemma listed_recorded: "listed (recorded env) (b', L) ps \<Longrightarrow> listed env b' ps"
  by (auto simp: listed_def recording_def split: prod.splits) (metis old.prod.exhaust)

lemma checked_report_recorded:
  "checked_report (recorded env) (b, L) x sl r \<Longrightarrow> checked_report env b x sl r"
  by (auto simp: checked_report_def dest: listed_recorded)

lemma filled_result_recorded:
  "filled_result (recorded env) (b, L) snap r \<Longrightarrow> filled_result env b snap r"
  by (auto simp: filled_result_def dest: checked_report_recorded)

lemma closed_result_recorded:
  "closed_result (recorded env) (b, L) snap r \<Longrightarrow> closed_result env b snap r"
  by (auto simp: closed_result_def dest: checked_report_recorded filled_result_recorded
      split: execution_stage.splits)

lemma execute_spec_any:
  assumes "execute env snap e = Some (r, e')"
  shows "execute_outcome env snap e r e' \<and> (mono (env_clock env) \<longrightarrow> er_status r \<noteq> SUBMITTED) \<and>
    (\<exists>evs. execute (recorded env) snap (with_trace [] e) = Some (r, with_trace evs e') \<and>
           broker_protocol snap r evs) \<and>
    (blocked env snap e \<longrightarrow> en_broker e' = en_broker e)"
proof -
  obtain M where M: "execute (recorded env) snap (with_trace [] e) = Some (r, with_trace M e')"
    using execute_observed [OF assms] by blast
  have "blocked (recorded env) snap (with_trace [] e) = blocked env snap e"
    by (simp add: blocked_def)
  moreover have "records (env_broker (recorded env)) snd" by (simp add: records_recording)
  ultimately show ?thesis
    using execute_spec [OF _ M, of snd] M
    by (auto simp: execute_outcome_def dest: closed_result_recorded)
qed

end
