(* ===== verification/Engine_Props.thy ===== *)
theory Engine_Props
  imports Engine_Observe
begin

text \<open>
  The properties of the execution engine, with a broker to apply them to.
\<close>

section \<open>A broker to run against\<close>

text \<open>
  A broker whose state is its own trace: it accepts every order under the id ''O1'' and answers
  every poll with the given status. It is the instance on which the properties are applied.
\<close>

definition trace_broker :: "order_status \<Rightarrow> broker_position list \<Rightarrow> broker_event list broker_adapter" where
  "trace_broker st ps =
    \<lparr>ba_submit_order = (\<lambda>s q l k L. (Inr (Some ''O1''), L @ [Submitted s q l k])),
     ba_cancel_order = (\<lambda>i L. (Inr True, L @ [Cancelled i])),
     ba_get_order_status = (\<lambda>i L. (Inr st, L @ [Polled i])),
     ba_get_positions = (\<lambda>L. (Inr ps, L @ [Listed]))\<rparr>"

lemma records_trace_broker: "records (trace_broker st ps) (\<lambda>L. L)"
  by (simp add: records_def trace_broker_def)

definition demo_env :: "order_status \<Rightarrow> broker_position list \<Rightarrow> int \<Rightarrow> broker_event list engine_env" where
  "demo_env st ps tick =
    \<lparr>env_broker = trace_broker st ps, env_clock = (\<lambda>n. int n * tick), env_uuid = (\<lambda>n. ''U''),
     env_sha256 = (\<lambda>_. ''H'')\<rparr>"

definition demo_snapshot :: frozen_snapshot where
  "demo_snapshot =
    \<lparr>fs_advisory_id = ''A1'', fs_htf_bias = ''BULLISH'', fs_reasoning_mode = ''bias'',
     fs_reference_price = 100, fs_sl_offset_pct = - 1 / 50, fs_tp_offset_pct = 1 / 25,
     fs_position_size = 1, fs_symbol = ''XAUUSD'', fs_expiration_timestamp = 3600000000,
     fs_created_at = 0, fs_reasoning_context = []\<rparr>"

definition filled_status :: order_status where
  "filled_status = \<lparr>os_state = Some ''filled'', os_fill_price = Some 101, os_filled_size = Some 1\<rparr>"

definition pending_status :: order_status where
  "pending_status = \<lparr>os_state = Some ''pending'', os_fill_price = None, os_filled_size = None\<rparr>"

definition demo_engine :: "broker_event list engine" where
  "demo_engine = engine_init [] None"

lemmas demo_defs =
  demo_env_def demo_snapshot_def demo_engine_def engine_init_def filled_status_def pending_status_def
  trace_broker_def km_init_def tc_init_def new_result_def

lemma demo_not_blocked: "0 \<le> tick \<Longrightarrow> tick \<le> 1000000 \<Longrightarrow> \<not> blocked (demo_env st ps tick) demo_snapshot demo_engine"
  by (simp add: blocked_def demo_defs validate_preconditions_def km_is_active_def)

lemma demo_clock: "0 < tick \<Longrightarrow> \<forall>t m. \<exists>n\<ge>m. t < env_clock (demo_env st ps tick) n"
proof (intro allI)
  fix t m assume pos: "0 < tick"
  have "t < int (m + nat (\<bar>t\<bar> + 1)) * tick"
  proof -
    have "t < int (nat (\<bar>t\<bar> + 1))" by simp
    also have "\<dots> \<le> int (m + nat (\<bar>t\<bar> + 1)) * 1" by simp
    also have "\<dots> \<le> int (m + nat (\<bar>t\<bar> + 1)) * tick" using pos by (intro mult_left_mono) auto
    finally show ?thesis .
  qed
  then show "\<exists>n\<ge>m. t < env_clock (demo_env st ps tick) n"
    by (intro exI [of _ "m + nat (\<bar>t\<bar> + 1)"]) (simp add: demo_env_def)
qed

lemma demo_runs: "0 < tick \<Longrightarrow> \<exists>r e'. execute (demo_env st ps tick) snap e = Some (r, e')"
  by (rule execute_returns_if [OF demo_clock])

text \<open>A fill at the first poll.\<close>

lemmas demo_eval =
  execute_def execute_body_def pre_submission_def submission_def after_wait_def timeout_branch_def
  fill_branch_def reconcile_def finish_def engine_log_defs prog_defs engine_prims demo_defs
  validate_preconditions_def km_is_active_def km_get_state_def wait_for_fill.simps
  tc_is_expired_def tc_start_def seconds_def HARD_TIMEOUT_SECONDS_def calculate_sl_def calculate_tp_def
  Let_def

lemma demo_fill:
  "\<exists>r e'. execute (demo_env filled_status [\<lparr>bp_size = Some 1, bp_sl = Some 99, bp_tp = Some 105\<rparr>] 1000000)
       demo_snapshot demo_engine = Some (r, e') \<and> er_status r = FILLED"
  by (simp add: demo_eval)

text \<open>A clock that jumps 16 seconds per reading: the order times out although the broker filled it.\<close>

lemma demo_timeout:
  "\<exists>r e'. execute (demo_env filled_status [\<lparr>bp_size = Some 1, bp_sl = None, bp_tp = None\<rparr>] 16000000)
       demo_snapshot demo_engine = Some (r, e') \<and> er_status r = FAILED_TIMEOUT"
  by (simp add: demo_eval)

section \<open>Properties\<close>

text \<open>C1: for every broker, clock and snapshot, the calls the broker sees during a
  run of \<open>execute\<close> are either none at all (exactly when the result is REJECTED) or exactly one
  market order of the snapshot's symbol and size, then polls of the order id that came back, then
  the closing calls of the outcome: at most one submission and one cancel, no retry, and never a
  cancel of an order that was filled.\<close>

theorem execute_one_submission:
  assumes "execute env snap e = Some (r, e')"
  shows "\<exists>evs. execute (recorded env) snap (with_trace [] e) = Some (r, with_trace evs e') \<and>
     broker_protocol snap r evs \<and>
     count_list evs (submit_event snap) = (if er_status r = REJECTED then 0 else 1) \<and>
     length (filter (\<lambda>ev. \<exists>s q l k. ev = Submitted s q l k) evs) \<le> 1 \<and>
     length (filter (\<lambda>ev. \<exists>i. ev = Cancelled i) evs) \<le> 1 \<and>
     (er_status r \<in> {FILLED, EXECUTED_FULL_LATE} \<longrightarrow> filter (\<lambda>ev. \<exists>i. ev = Cancelled i) evs = [])"
  using execute_spec_any [OF assms] protocol_counts by blast

theorem execute_one_submission_witness:
  "\<exists>r e' evs. execute (recorded (demo_env filled_status [] 16000000)) demo_snapshot
       (with_trace [] demo_engine) = Some (r, with_trace evs e') \<and>
     broker_protocol demo_snapshot r evs"
proof -
  obtain r e' where "execute (demo_env filled_status [] 16000000) demo_snapshot demo_engine = Some (r, e')"
    using demo_runs [of 16000000 filled_status "[]" demo_snapshot demo_engine] by auto
  from execute_one_submission [OF this] show ?thesis by blast
qed

text \<open>C3: a snapshot that fails validation (expired, no id, size, stop-loss or
  take-profit offset of the wrong sign) or whose symbol's kill switch is at WARNING or ACTIVE is
  rejected: \<open>execute\<close> returns at once with an error message and no attempt, and the broker and the
  reconciliations are untouched. Without such a reason the result is never REJECTED.\<close>

theorem blocked_execution_rejected:
  "(blocked env snap e \<longrightarrow>
     (\<exists>r e'. execute env snap e = Some (r, e') \<and> er_status r = REJECTED \<and> er_attempts r = [] \<and>
        er_error_message r \<noteq> None \<and> en_broker e' = en_broker e \<and>
        en_reconciliations e' = en_reconciliations e)) \<and>
   (\<not> blocked env snap e \<longrightarrow> (\<forall>r e'. execute env snap e = Some (r, e') \<longrightarrow> er_status r \<noteq> REJECTED))"
proof -
  obtain x e1 r1 where pre: "pre_submission env snap (e, new_result (fs_advisory_id snap)) = Some (x, (e1, r1))"
    using pre_submission_returns [of env snap "(e, new_result (fs_advisory_id snap))"] by auto
  note p = pre_submission_cases [OF pre]
  have "\<exists>r e'. execute env snap e = Some (r, e') \<and> er_status r = REJECTED \<and> er_attempts r = [] \<and>
      er_error_message r \<noteq> None \<and> en_broker e' = en_broker e \<and>
      en_reconciliations e' = en_reconciliations e" if b: "blocked env snap e"
  proof (intro exI conjI)
    show "execute env snap e = Some (r1, e1)"
      using pre p(1) b by (simp add: execute_def execute_body_def bnd_eval(1) ret_eval)
  qed (use p b in \<open>simp_all add: new_result_def\<close>)
  moreover have "er_status r \<noteq> REJECTED" if "\<not> blocked env snap e" "execute env snap e = Some (r, e')" for r e'
    using execute_spec_any [OF that(2)] that(1) by (auto simp: execute_outcome_def closed_result_def)
  ultimately show ?thesis by blast
qed

theorem blocked_execution_rejected_witness:
  "(\<exists>r e'. execute (demo_env filled_status [] 1000000) (demo_snapshot\<lparr>fs_position_size := 0\<rparr>) demo_engine
       = Some (r, e') \<and> er_status r = REJECTED \<and> en_broker e' = []) \<and>
   (\<exists>r e'. execute (demo_env filled_status [] 1000000) demo_snapshot demo_engine = Some (r, e') \<and>
       er_status r \<noteq> REJECTED)"
proof
  have "blocked (demo_env filled_status [] 1000000) (demo_snapshot\<lparr>fs_position_size := 0\<rparr>) demo_engine"
    by (simp add: blocked_def demo_defs validate_preconditions_def)
  then show "\<exists>r e'. execute (demo_env filled_status [] 1000000) (demo_snapshot\<lparr>fs_position_size := 0\<rparr>) demo_engine
       = Some (r, e') \<and> er_status r = REJECTED \<and> en_broker e' = []"
    using blocked_execution_rejected [of "demo_env filled_status [] 1000000" "demo_snapshot\<lparr>fs_position_size := 0\<rparr>" demo_engine]
    by (auto simp: demo_engine_def engine_init_def)
  have "\<not> blocked (demo_env filled_status [] 1000000) demo_snapshot demo_engine"
    by (rule demo_not_blocked) simp_all
  then show "\<exists>r e'. execute (demo_env filled_status [] 1000000) demo_snapshot demo_engine = Some (r, e') \<and>
       er_status r \<noteq> REJECTED"
    using blocked_execution_rejected [of "demo_env filled_status [] 1000000" demo_snapshot demo_engine]
      demo_runs [of 1000000 filled_status "[]" demo_snapshot demo_engine] by fastforce
qed

lemma recon_status_nothing_expected [simp]: "recon_status None None ps = MATCHED"
  by (simp add: recon_status_def)

lemma valid_offsets:
  assumes "\<not> blocked env snap e"
  shows "fs_sl_offset_pct snap < 0" and "0 < fs_tp_offset_pct snap" and "0 < fs_position_size snap"
  using assms by (auto simp: blocked_def validate_preconditions_def split: if_splits)

lemma sl_tp_around:
  fixes p :: rat
  assumes "0 < p" and "a < 0" and "0 < b"
  shows "calculate_sl p a < p" and "p < calculate_tp p b"
  using assms by (simp_all add: calculate_sl_def calculate_tp_def algebra_simps mult_neg_pos)

text \<open>C4: whenever an execution ends FILLED or EXECUTED_FULL_LATE, its stop loss and take
  profit are computed from the actual fill price and not from the reference price, its slippage
  is the relative distance of the two, the stop loss lies below and the take profit above a
  positive fill price, and the report of one reconciliation against exactly these values is
  attached.\<close>

theorem fill_protection:
  assumes "execute env snap e = Some (r, e')"
    and "er_status r \<in> {FILLED, EXECUTED_FULL_LATE}"
  shows "\<exists>p. er_final_fill_price r = Some p \<and>
     er_final_sl r = Some (p * (1 + fs_sl_offset_pct snap)) \<and>
     er_final_tp r = Some (p * (1 + fs_tp_offset_pct snap)) \<and>
     er_slippage_pct r = Some ((p - fs_reference_price snap) / fs_reference_price snap * 100) \<and>
     (0 < p \<longrightarrow> p * (1 + fs_sl_offset_pct snap) < p \<and> p < p * (1 + fs_tp_offset_pct snap)) \<and>
     (\<exists>rep ps. listed env (en_broker e') ps \<and> er_reconciliation_report r = Some rep \<and>
        rr_status rep = recon_status (er_final_position_size r) (er_final_sl r) ps \<and>
        (rr_requires_manual_resolution rep \<longleftrightarrow> rr_status rep \<noteq> MATCHED))"
proof -
  have nb: "\<not> blocked env snap e" and "filled_result env (en_broker e') snap r"
    using execute_spec_any [OF assms(1)] assms(2)
    by (auto simp: execute_outcome_def closed_result_def split: if_splits)
  then show ?thesis
    using valid_offsets [OF nb] sl_tp_around
    by (fastforce simp: filled_result_def checked_report_def calculate_sl_def calculate_tp_def)
qed

theorem fill_protection_witness:
  "\<exists>r e' p. execute (demo_env filled_status [\<lparr>bp_size = Some 1, bp_sl = Some 99, bp_tp = Some 105\<rparr>] 1000000)
       demo_snapshot demo_engine = Some (r, e') \<and>
     er_final_fill_price r = Some p \<and> er_final_sl r = Some (p * (1 + fs_sl_offset_pct demo_snapshot))"
proof -
  from demo_fill obtain r e' where
    run: "execute (demo_env filled_status [\<lparr>bp_size = Some 1, bp_sl = Some 99, bp_tp = Some 105\<rparr>] 1000000)
       demo_snapshot demo_engine = Some (r, e')" and "er_status r = FILLED" by blast
  with fill_protection [OF run] show ?thesis by auto
qed

text \<open>C5: if the clock goes on for ever, \<open>execute\<close> returns, whatever the broker answers; and
  if in addition the clock never goes back, it ends in one of the five final stages, never in the
  initial SUBMITTED.\<close>

theorem execute_returns:
  assumes "\<forall>t m. \<exists>n\<ge>m. t < env_clock env n"
  shows "\<exists>r e'. execute env snap e = Some (r, e') \<and>
     (mono (env_clock env) \<longrightarrow>
        er_status r \<in> {REJECTED, FAILED, FAILED_TIMEOUT, FILLED, EXECUTED_FULL_LATE})"
proof -
  obtain r e' where run: "execute env snap e = Some (r, e')"
    using execute_returns_if [OF assms] by blast
  with execute_spec_any [OF run] show ?thesis
    by (auto simp: execute_outcome_def closed_result_def split: if_splits execution_stage.splits)
qed

theorem execute_returns_witness:
  "\<exists>r e'. execute (demo_env pending_status [] 1000) demo_snapshot demo_engine = Some (r, e')"
  using execute_returns [OF demo_clock [of 1000 pending_status "[]"], of demo_snapshot demo_engine] by auto

text \<open>C8: the polling loop reads the clock once per round. When the readings of consecutive
  rounds are at least the poll interval of 100 ms apart, the loop returns after at most 302
  readings, whatever the broker answers; so it polls at most 301 times.\<close>

theorem wait_poll_bound:
  assumes "timer_runs t e" and "t \<le> env_clock env (en_ticks e)"
    and "\<forall>n\<ge>en_ticks e. env_clock env n + 100000 \<le> env_clock env (Suc n)"
  shows "\<exists>y e' r'. wait_for_fill env oid (e, r) = Some (y, (e', r')) \<and> en_ticks e' \<le> en_ticks e + 302"
proof -
  have reading: "env_clock env (en_ticks e) + int k * 100000 \<le> env_clock env (en_ticks e + k)" for k
  proof (induction k)
    case (Suc k)
    with assms(3) [rule_format, of "en_ticks e + k"] show ?case by simp
  qed simp
  have "seconds HARD_TIMEOUT_SECONDS < env_clock env (en_ticks e + 301) - t"
    using reading [of 301] assms(2) by (simp add: seconds_def HARD_TIMEOUT_SECONDS_def)
  from wait_returns [OF assms(1) _ this] show ?thesis by force
qed

theorem wait_poll_bound_witness:
  "\<exists>y e' r'. wait_for_fill (demo_env pending_status [] 100000) (Some ''O1'')
      (demo_engine\<lparr>en_timeout := tc_start 0 tc_init\<rparr>, new_result ''A1'') = Some (y, (e', r')) \<and>
      en_ticks e' \<le> 302"
  using wait_poll_bound [of 0 "demo_engine\<lparr>en_timeout := tc_start 0 tc_init\<rparr>" "demo_env pending_status [] 100000"]
  by (simp add: timer_runs_def tc_start_def demo_defs algebra_simps)

text \<open>After a timeout the reconciliation is run with nothing expected, so its
  report says MATCHED and asks for no manual resolution, whatever position the broker holds: a
  position that was opened by an order taken for dead goes unreported.\<close>

theorem timeout_report_is_blind:
  assumes "execute env snap e = Some (r, e')" and "er_status r = FAILED_TIMEOUT"
  shows "\<exists>rep. er_reconciliation_report r = Some rep \<and> rr_status rep = MATCHED \<and>
     \<not> rr_requires_manual_resolution rep"
  using execute_spec_any [OF assms(1)] assms(2)
  by (auto simp: execute_outcome_def closed_result_def checked_report_def split: if_splits)

theorem timeout_report_is_blind_witness:
  "\<exists>r e' rep. execute (demo_env filled_status [\<lparr>bp_size = Some 1, bp_sl = None, bp_tp = None\<rparr>] 16000000)
       demo_snapshot demo_engine = Some (r, e') \<and>
     er_reconciliation_report r = Some rep \<and> rr_status rep = MATCHED"
proof -
  from demo_timeout obtain r e' where
    run: "execute (demo_env filled_status [\<lparr>bp_size = Some 1, bp_sl = None, bp_tp = None\<rparr>] 16000000)
       demo_snapshot demo_engine = Some (r, e')" and "er_status r = FAILED_TIMEOUT" by blast
  with timeout_report_is_blind [OF run] show ?thesis by blast
qed

text \<open>C9: a reconciliation that completes appends exactly its own report; the report's
  status follows from the first position the broker listed: no stop loss where one was expected
  gives MISSING_SL_TP, an expected size that is absent MISSING_POSITION, one that differs by more
  than 0.001 MISMATCH, and everything else MATCHED; manual resolution is required exactly for a
  status other than MATCHED. A position nobody expected is never reported (PHANTOM_POSITION is not
  assigned), and the values of stop loss and take profit are not compared with the expected ones.\<close>

theorem reconcile_verdict:
  assumes "reconcile env a oid x sl tp (e, r) = Some (Inr rep, (e', r'))"
  shows "en_reconciliations e' = en_reconciliations e @ [rep] \<and> r' = r \<and>
     rr_status rep \<noteq> PHANTOM_POSITION \<and>
     (rr_requires_manual_resolution rep \<longleftrightarrow> rr_status rep \<noteq> MATCHED) \<and>
     (\<exists>ps. listed env (en_broker e') ps \<and>
        (\<forall>y. rr_status rep = recon_status x (map_option (\<lambda>_. y) sl) ps))"
proof -
  from reconcile_spec [OF assms] obtain ps where ps: "listed env (en_broker e') ps"
    "rr_status rep = recon_status x sl ps" "rr_requires_manual_resolution rep \<longleftrightarrow> recon_status x sl ps \<noteq> MATCHED"
    and "r' = r" "en_reconciliations e' = en_reconciliations e @ [rep]" by blast
  moreover have "recon_status x (map_option (\<lambda>_. y) sl) ps = recon_status x sl ps" for y
    by (simp add: recon_status_def)
  moreover have "recon_status x sl ps \<noteq> PHANTOM_POSITION"
    by (auto simp: recon_status_def Let_def split: option.splits)
  ultimately show ?thesis by auto
qed

theorem reconcile_verdict_witness:
  "\<exists>rep e' r'. reconcile (demo_env filled_status [\<lparr>bp_size = Some 5, bp_sl = Some 1, bp_tp = None\<rparr>] 1) ''A1'' (Some ''O1'')
      (Some 1) (Some 99) (Some 105) (demo_engine, new_result ''A1'') = Some (Inr rep, (e', r')) \<and>
      rr_status rep \<noteq> PHANTOM_POSITION \<and> rr_requires_manual_resolution rep"
proof -
  have "\<exists>rep e' r'. reconcile (demo_env filled_status [\<lparr>bp_size = Some 5, bp_sl = Some 1, bp_tp = None\<rparr>] 1) ''A1'' (Some ''O1'')
      (Some 1) (Some 99) (Some 105) (demo_engine, new_result ''A1'') = Some (Inr rep, (e', r')) \<and> rr_status rep = MISMATCH"
    by (simp add: demo_eval new_report_def with_order_status_def with_position_def find_mismatches_def)
  then obtain rep e' r' where run: "reconcile (demo_env filled_status [\<lparr>bp_size = Some 5, bp_sl = Some 1, bp_tp = None\<rparr>] 1)
      ''A1'' (Some ''O1'') (Some 1) (Some 99) (Some 105) (demo_engine, new_result ''A1'') = Some (Inr rep, (e', r'))"
    and "rr_status rep = MISMATCH" by blast
  with reconcile_verdict [OF run] show ?thesis by auto
qed

text \<open>The engine asks for the switch of the snapshot's symbol only, so the global
  switch has no influence on whether it submits: for a symbol other than "global", setting the
  global switch to any level leaves the set of rejected executions as it was.\<close>

theorem global_switch_not_enforced:
  assumes "fs_symbol snap \<notin> {[], ''global''}"
    and "execute env snap (e\<lparr>en_switches := set_kill_switch t GLOBAL l None reason (en_switches e)\<rparr>) = Some (r, e')"
  shows "er_status r = REJECTED \<longleftrightarrow> blocked env snap e"
proof -
  have "blocked env snap (e\<lparr>en_switches := set_kill_switch t GLOBAL l None reason (en_switches e)\<rparr>) = blocked env snap e"
    using assms(1) by (auto simp: blocked_def km_is_active_iff set_kill_switch_state)
  with execute_spec_any [OF assms(2)] show ?thesis
    by (auto simp: execute_outcome_def closed_result_def split: if_splits)
qed

theorem global_switch_not_enforced_witness:
  "\<exists>r e'. execute (demo_env filled_status [] 1000000) demo_snapshot
       (demo_engine\<lparr>en_switches := set_kill_switch 0 GLOBAL ACTIVE None None (en_switches demo_engine)\<rparr>) = Some (r, e') \<and>
     er_status r \<noteq> REJECTED"
proof -
  have nb: "\<not> blocked (demo_env filled_status [] 1000000) demo_snapshot demo_engine"
    by (rule demo_not_blocked) simp_all
  have symb: "fs_symbol demo_snapshot \<notin> {[], ''global''}" by (simp add: demo_snapshot_def)
  obtain r e' where run: "execute (demo_env filled_status [] 1000000) demo_snapshot
       (demo_engine\<lparr>en_switches := set_kill_switch 0 GLOBAL ACTIVE None None (en_switches demo_engine)\<rparr>) = Some (r, e')"
    using demo_runs [of 1000000 filled_status "[]"] by fastforce
  from global_switch_not_enforced [OF symb run] nb run show ?thesis by auto
qed

text \<open>Over any sequence of executions and kill-switch changes, against whatever
  brokers and clocks, an entry of the execution log and a reconciliation report, once written, is
  never changed and never removed.\<close>

theorem engine_logs_append_only:
  assumes "i < length (en_logs e)" and "j < length (en_reconciliations e)"
  shows "en_logs (fold engine_step ops e) ! i = en_logs e ! i \<and>
     en_reconciliations (fold engine_step ops e) ! j = en_reconciliations e ! j \<and>
     length (en_logs e) \<le> length (en_logs (fold engine_step ops e)) \<and>
     length (en_reconciliations e) \<le> length (en_reconciliations (fold engine_step ops e))"
  using eng_logs.run_entry_stable [OF assms(1)] eng_recs.run_entry_stable [OF assms(2)]
    eng_logs.run_length eng_recs.run_length by blast

theorem engine_logs_append_only_witness:
  "\<forall>rep. en_logs (fold engine_step
      [(demo_env filled_status [] 1000000, Execute demo_snapshot),
       (demo_env pending_status [] 1000000, Switch (0, GLOBAL, ACTIVE, None, None))]
      (demo_engine\<lparr>en_logs := [[(''event'', VNone)]], en_reconciliations := [rep]\<rparr>)) ! 0 = [(''event'', VNone)]"
proof
  fix rep
  let ?e = "demo_engine\<lparr>en_logs := [[(''event'', VNone)]], en_reconciliations := [rep]\<rparr>"
  have "0 < length (en_logs ?e)" and "0 < length (en_reconciliations ?e)" by simp_all
  from engine_logs_append_only [OF this, THEN conjunct1]
  have "en_logs (fold engine_step ops ?e) ! 0 = [(''event'', VNone)]" for ops by simp
  then show "en_logs (fold engine_step
      [(demo_env filled_status [] 1000000, Execute demo_snapshot),
       (demo_env pending_status [] 1000000, Switch (0, GLOBAL, ACTIVE, None, None))] ?e) ! 0 = [(''event'', VNone)]" .
qed

lemma km_history_length: "length (km_switch_history (fold km_step cs m)) = length (km_switch_history m) + length cs"
proof (induction cs arbitrary: m)
  case (Cons c cs)
  then show ?case by (cases c) (simp add: set_kill_switch_def Let_def)
qed simp

text \<open>After any sequence of calls of \<open>set_kill_switch\<close> on a fresh manager, the level of
  a target is the one given by the latest call for that target (no target, or an empty one, is
  the global switch), and OFF if there was none; a target counts as active exactly at WARNING and
  above; and the history holds one record per call.\<close>

theorem latest_switch_wins:
  "km_get_state target (fold km_step cs km_init) =
     (case find (\<lambda>c. call_key c = str_or target ''global'') (rev cs) of
        Some c \<Rightarrow> call_level c | None \<Rightarrow> OFF) \<and>
   km_is_active target (fold km_step cs km_init) =
     (WARNING \<le> km_get_state target (fold km_step cs km_init)) \<and>
   length (km_switch_history (fold km_step cs km_init)) = length cs"
  by (auto simp: km_get_state_def km_store.find_latest km_is_active_iff km_history_length km_init_def
      split: option.splits)

end
