(* ===== verification/Stage10.thy ===== *)
theory Stage10
  imports Engine_Props
begin

text \<open>
  \<open>reasoner_service/stage10_controller.py\<close>: the guardrails in front of the execution engine.

  The controller holds the engine it drives; its kill-switch manager is the engine's own object,
  so it reads the switches inside the engine's state. Clock readings and fresh ids are taken from
  the same sequences as the engine's, in program order. The connection check of the second broker
  object is the argument \<open>health\<close>: \<open>None\<close> when the object has no \<open>is_connected\<close>, otherwise the
  answer to each call. The class \<open>Stage8TradeIntent\<close> is not in the repository; \<open>trade_intent\<close> has
  the attributes the controller reads, with the snapshot's entries as strings.
\<close>

section \<open>Data\<close>

datatype guardrail_status = PASS | FAIL

datatype trade_action = FORWARDED | ABORTED | PAPER_EXECUTION

record guardrail_check =
  gc_name :: string
  gc_status :: guardrail_status
  gc_reason :: fstring
  gc_severity :: string

definition pass_check :: "string \<Rightarrow> fstring \<Rightarrow> guardrail_check" where
  "pass_check name reason = \<lparr>gc_name = name, gc_status = PASS, gc_reason = reason, gc_severity = ''info''\<rparr>"

definition fail_check :: "string \<Rightarrow> fstring \<Rightarrow> string \<Rightarrow> guardrail_check" where
  "fail_check name reason severity =
    \<lparr>gc_name = name, gc_status = FAIL, gc_reason = reason, gc_severity = severity\<rparr>"

record trade_intent =
  ti_intent_id :: string
  ti_symbol :: string
  ti_direction :: string
  ti_proposed_entry :: rat
  ti_proposed_sl :: rat
  ti_proposed_tp :: rat
  ti_risk :: "(string \<times> rat) list"
  ti_snapshot :: "(string \<times> string) list"

record daily_counters =
  dc_trades_executed :: int
  dc_total_loss_usd :: rat
  dc_per_symbol_trades :: "(string \<times> int) list"
  dc_last_reset :: time

definition dc_new :: "time \<Rightarrow> daily_counters" where
  "dc_new t = \<lparr>dc_trades_executed = 0, dc_total_loss_usd = 0, dc_per_symbol_trades = [], dc_last_reset = t\<rparr>"

definition dc_is_stale :: "time \<Rightarrow> int \<Rightarrow> daily_counters \<Rightarrow> bool" where
  "dc_is_stale t hours k \<longleftrightarrow> total_seconds (t - dc_last_reset k) > of_int (hours * 3600)"

definition dc_reset :: "time \<Rightarrow> daily_counters \<Rightarrow> daily_counters" where
  "dc_reset t k = k\<lparr>dc_trades_executed := 0, dc_total_loss_usd := 0, dc_per_symbol_trades := [],
     dc_last_reset := t\<rparr>"

record stage10_log =
  sl_log_id :: string
  sl_timestamp :: time
  sl_intent_id :: string
  sl_symbol :: string
  sl_direction :: string
  sl_guardrail_checks :: "guardrail_check list"
  sl_final_action :: trade_action
  sl_execution_result :: "execution_result option"
  sl_error_message :: "fstring option"

record 'b stage10 =
  s10_engine :: "'b engine"
  s10_health_calls :: nat
  s10_daily_max_trades :: int
  s10_daily_max_loss_usd :: rat
  s10_per_symbol_max_trades :: int
  s10_paper_mode :: bool
  s10_counters :: daily_counters
  s10_audit_logs :: "stage10_log list"

type_synonym health_check = "(nat \<Rightarrow> py_error + bool) option"

text \<open>The configuration dictionary, with the defaults of its missing entries.\<close>

record stage10_config =
  cf_daily_max_trades :: "int option"
  cf_daily_max_loss_usd :: "rat option"
  cf_per_symbol_max_trades :: "int option"
  cf_paper_mode :: "bool option"

definition s10_read_clock :: "'b engine_env \<Rightarrow> 'b stage10 \<Rightarrow> time \<times> 'b stage10" where
  "s10_read_clock env c =
     (let e = s10_engine c in
      (env_clock env (en_ticks e), c\<lparr>s10_engine := e\<lparr>en_ticks := Suc (en_ticks e)\<rparr>\<rparr>))"

definition s10_init :: "'b engine_env \<Rightarrow> 'b engine \<Rightarrow> stage10_config \<Rightarrow> 'b stage10" where
  "s10_init env e cf =
    \<lparr>s10_engine = e\<lparr>en_ticks := Suc (en_ticks e)\<rparr>, s10_health_calls = 0,
     s10_daily_max_trades = (case cf_daily_max_trades cf of None \<Rightarrow> 10 | Some n \<Rightarrow> n),
     s10_daily_max_loss_usd = (case cf_daily_max_loss_usd cf of None \<Rightarrow> 100 | Some x \<Rightarrow> x),
     s10_per_symbol_max_trades = (case cf_per_symbol_max_trades cf of None \<Rightarrow> 3 | Some n \<Rightarrow> n),
     s10_paper_mode = (case cf_paper_mode cf of None \<Rightarrow> False | Some b \<Rightarrow> b),
     s10_counters = dc_new (env_clock env (en_ticks e)), s10_audit_logs = []\<rparr>"

section \<open>The guardrail checks\<close>

definition check_broker_health :: "health_check \<Rightarrow> nat \<Rightarrow> guardrail_check" where
  "check_broker_health health n =
     (case health of
        None \<Rightarrow> pass_check ''broker_health'' [T ''Broker connected'']
      | Some is_connected \<Rightarrow>
          (case is_connected n of
             Inl e \<Rightarrow> fail_check ''broker_health''
                (T ''Broker health check failed: '' # exception_text e) ''error''
           | Inr up \<Rightarrow>
               if \<not> up
               then fail_check ''broker_health'' [T ''Broker disconnected''] ''error''
               else pass_check ''broker_health'' [T ''Broker connected'']))"

definition check_global_kill_switch :: "kill_switch_manager option \<Rightarrow> guardrail_check" where
  "check_global_kill_switch manager =
     (case manager of
        None \<Rightarrow> pass_check ''global_kill_switch'' [T ''No kill switch manager'']
      | Some m \<Rightarrow>
          if km_is_active None m
          then fail_check ''global_kill_switch'' [T ''Global kill switch active''] ''error''
          else pass_check ''global_kill_switch'' [T ''Global kill switch off''])"

definition check_symbol_kill_switch :: "kill_switch_manager option \<Rightarrow> string \<Rightarrow> guardrail_check" where
  "check_symbol_kill_switch manager traded =
     (case manager of
        None \<Rightarrow> pass_check ''symbol_kill_switch'' [T ''No kill switch manager'']
      | Some m \<Rightarrow>
          if km_is_active (Some traded) m
          then fail_check ''symbol_kill_switch'' [T ''Kill switch active for '', T traded] ''error''
          else pass_check ''symbol_kill_switch'' [T ''Kill switch off for '', T traded])"

definition check_daily_max_trades :: "'b stage10 \<Rightarrow> guardrail_check" where
  "check_daily_max_trades c =
     (if dc_trades_executed (s10_counters c) \<ge> s10_daily_max_trades c
      then fail_check ''daily_max_trades''
        [T ''Daily max trades ('', I (s10_daily_max_trades c), T '') reached''] ''warning''
      else pass_check ''daily_max_trades''
        [T ''Daily trades: '', I (dc_trades_executed (s10_counters c)), T ''/'', I (s10_daily_max_trades c)])"

definition check_per_symbol_max_trades :: "string \<Rightarrow> 'b stage10 \<Rightarrow> guardrail_check" where
  "check_per_symbol_max_trades traded c =
     (let n = dget traded (dc_per_symbol_trades (s10_counters c)) 0 in
      if n \<ge> s10_per_symbol_max_trades c
      then fail_check ''per_symbol_max_trades''
        [T ''Max trades for '', T traded, T '' ('', I (s10_per_symbol_max_trades c), T '') reached'']
        ''warning''
      else pass_check ''per_symbol_max_trades''
        [T ''Trades for '', T traded, T '': '', I n, T ''/'', I (s10_per_symbol_max_trades c)])"

definition check_daily_max_loss :: "trade_intent \<Rightarrow> 'b stage10 \<Rightarrow> guardrail_check" where
  "check_daily_max_loss i c =
     (let entry = ti_proposed_entry i; sl = ti_proposed_sl i;
          amount = dget ''account_risk_usd'' (ti_risk i) 1;
          potential_loss = \<bar>entry - sl\<bar> * amount;
          total_potential_loss = dc_total_loss_usd (s10_counters c) + potential_loss in
      if total_potential_loss > s10_daily_max_loss_usd c
      then fail_check ''daily_max_loss''
        [T ''Daily max loss ($'', F (s10_daily_max_loss_usd c), T '') would be exceeded; '',
         T ''current: $'', F (dc_total_loss_usd (s10_counters c)), T '', '', T ''potential: $'',
         F potential_loss] ''warning''
      else pass_check ''daily_max_loss''
        [T ''Loss limit OK: $'', F (dc_total_loss_usd (s10_counters c)), T ''/'', T ''$'',
         F (s10_daily_max_loss_usd c)])"

definition check_paper_live_mode :: "'b stage10 \<Rightarrow> guardrail_check" where
  "check_paper_live_mode c =
     (if s10_paper_mode c
      then pass_check ''paper_live_mode'' [T ''Paper mode (simulation only)'']
      else pass_check ''paper_live_mode'' [T ''Live mode (real execution)''])"

definition run_guardrail_checks ::
    "health_check \<Rightarrow> trade_intent \<Rightarrow> 'b stage10 \<Rightarrow> guardrail_check list \<times> 'b stage10" where
  "run_guardrail_checks health i c =
     (let manager = Some (en_switches (s10_engine c)) in
      ([check_broker_health health (s10_health_calls c),
        check_global_kill_switch manager,
        check_symbol_kill_switch manager (ti_symbol i),
        check_daily_max_trades c,
        check_per_symbol_max_trades (ti_symbol i) c,
        check_daily_max_loss i c,
        check_paper_live_mode c],
       c\<lparr>s10_health_calls := Suc (s10_health_calls c)\<rparr>))"

section \<open>Submitting a trade\<close>

text \<open>
  An entry price of zero makes the offset raise. The expiration is read from the clock before the
  creation time, which is the default of a field.
\<close>

definition create_frozen_snapshot ::
    "'b engine_env \<Rightarrow> trade_intent \<Rightarrow> 'b stage10 \<Rightarrow> (py_error + frozen_snapshot) \<times> 'b stage10" where
  "create_frozen_snapshot env i c =
     (let entry = ti_proposed_entry i; sl = ti_proposed_sl i; tp = ti_proposed_tp i in
      if entry = 0 then (Inl ZeroDivisionError, c)
      else
       (let sl_offset_pct = (sl - entry) / entry;
            tp_offset_pct = (tp - entry) / entry;
            (now, c1) = s10_read_clock env c;
            (created, c2) = s10_read_clock env c1 in
        (Inr \<lparr>fs_advisory_id = ti_intent_id i,
              fs_htf_bias = dget ''htf_bias'' (ti_snapshot i) ''NEUTRAL'',
              fs_reasoning_mode = dget ''ltf_structure'' (ti_snapshot i) ''UNKNOWN'',
              fs_reference_price = entry, fs_sl_offset_pct = sl_offset_pct,
              fs_tp_offset_pct = tp_offset_pct,
              fs_position_size = dget ''account_risk_usd'' (ti_risk i) 1,
              fs_symbol = ti_symbol i, fs_expiration_timestamp = now + minutes 5,
              fs_created_at = created,
              fs_reasoning_context = map (\<lambda>(k, v). (k, VStr v)) (ti_snapshot i)\<rparr>, c2)))"

definition start_audit_log :: "'b engine_env \<Rightarrow> trade_intent \<Rightarrow> 'b stage10 \<Rightarrow> stage10_log \<times> 'b stage10" where
  "start_audit_log env i c =
     (let e = s10_engine c; (t, c1) = s10_read_clock env (c\<lparr>s10_engine := e\<lparr>en_ids := Suc (en_ids e)\<rparr>\<rparr>) in
      (\<lparr>sl_log_id = env_uuid env (en_ids e), sl_timestamp = t, sl_intent_id = ti_intent_id i,
        sl_symbol = ti_symbol i, sl_direction = ti_direction i, sl_guardrail_checks = [],
        sl_final_action = ABORTED, sl_execution_result = None, sl_error_message = None\<rparr>, c1))"

definition daily_reset :: "'b engine_env \<Rightarrow> 'b stage10 \<Rightarrow> 'b stage10" where
  "daily_reset env c =
     (let (t, c1) = s10_read_clock env c in
      if dc_is_stale t 24 (s10_counters c1)
      then (let (tz, c2) = s10_read_clock env c1 in c2\<lparr>s10_counters := dc_reset tz (s10_counters c2)\<rparr>)
      else c1)"

text \<open>The counters after a fill; without a filled size the multiplication raises, the trade counted.\<close>

definition count_trade ::
    "string \<Rightarrow> execution_result \<Rightarrow> daily_counters \<Rightarrow> py_error option \<times> daily_counters" where
  "count_trade traded r k =
     (let k1 = k\<lparr>dc_trades_executed := dc_trades_executed k + 1,
                 dc_per_symbol_trades := bump traded (dc_per_symbol_trades k)\<rparr> in
      case (er_final_fill_price r, er_final_sl r) of
        (Some p, Some sl) \<Rightarrow>
          if p \<noteq> 0 \<and> sl \<noteq> 0 then
            (case er_final_position_size r of
               None \<Rightarrow> (Some (TypeError [T (''unsupported operand type(s) for *: 'float' and 'NoneType'' @ [CHR 0x27])]), k1)
             | Some amount \<Rightarrow> (None, k1\<lparr>dc_total_loss_usd := dc_total_loss_usd k1 + \<bar>p - sl\<bar> * amount\<rparr>))
          else (None, k1)
      | _ \<Rightarrow> (None, k1))"

definition push_audit :: "stage10_log \<Rightarrow> 'b stage10 \<Rightarrow> 'b stage10" where
  "push_audit l c = c\<lparr>s10_audit_logs := s10_audit_logs c @ [l]\<rparr>"

definition aborted_result :: "trade_intent \<Rightarrow> execution_stage \<Rightarrow> fstring \<Rightarrow> execution_result" where
  "aborted_result i st msg = (new_result (ti_intent_id i))\<lparr>er_status := st, er_error_message := Some msg\<rparr>"

text \<open>The \<open>except\<close> branch: ABORTED in the log, FAILED as the result.\<close>

definition abort_trade ::
    "trade_intent \<Rightarrow> stage10_log \<Rightarrow> py_error \<Rightarrow> 'b stage10 \<Rightarrow> execution_result \<times> 'b stage10" where
  "abort_trade i l e c =
     (aborted_result i FAILED (exception_text e),
      push_audit (l\<lparr>sl_final_action := ABORTED, sl_error_message := Some (exception_text e)\<rparr>) c)"

definition filled_stage :: "execution_stage \<Rightarrow> bool" where
  "filled_stage st \<longleftrightarrow> st \<in> {FILLED, EXECUTED_FULL_LATE}"

text \<open>Steps 4 and 5, on the engine's answer.\<close>

definition settle_trade ::
    "trade_intent \<Rightarrow> stage10_log \<Rightarrow> execution_result \<Rightarrow> 'b stage10 \<Rightarrow> execution_result \<times> 'b stage10" where
  "settle_trade i l r c =
     (let l1 = l\<lparr>sl_execution_result := Some r\<rparr> in
      if filled_stage (er_status r) then
        (case count_trade (ti_symbol i) r (s10_counters c) of
           (None, k) \<Rightarrow> (r, push_audit (l1\<lparr>sl_final_action := FORWARDED\<rparr>) (c\<lparr>s10_counters := k\<rparr>))
         | (Some e, k) \<Rightarrow> abort_trade i l1 e (c\<lparr>s10_counters := k\<rparr>))
      else (r, push_audit (l1\<lparr>sl_final_action := FORWARDED\<rparr>) c))"

definition failed_checks :: "guardrail_check list \<Rightarrow> guardrail_check list" where
  "failed_checks checks = filter (\<lambda>k. gc_status k = FAIL) checks"

definition reject_reason :: "guardrail_check list \<Rightarrow> fstring" where
  "reject_reason failed = join_parts [T ''; ''] (map (\<lambda>k. T (gc_name k) # T '': '' # gc_reason k) failed)"

definition submit_trade ::
    "'b engine_env \<Rightarrow> health_check \<Rightarrow> trade_intent \<Rightarrow> 'b stage10 \<Rightarrow> (execution_result \<times> 'b stage10) option" where
  "submit_trade env health i c =
     (let (l, c1) = start_audit_log env i c;
          c2 = daily_reset env c1;
          (checks, c3) = run_guardrail_checks health i c2;
          l1 = l\<lparr>sl_guardrail_checks := checks\<rparr>;
          failed = failed_checks checks in
      if failed \<noteq> [] then
        Some (aborted_result i REJECTED (reject_reason failed),
              push_audit (l1\<lparr>sl_final_action := ABORTED, sl_error_message := Some (reject_reason failed)\<rparr>) c3)
      else
        (case create_frozen_snapshot env i c3 of
           (Inl e, c4) \<Rightarrow> Some (abort_trade i l1 e c4)
         | (Inr snap, c4) \<Rightarrow>
             (case execute env snap (s10_engine c4) of
                None \<Rightarrow> None
              | Some (r, en) \<Rightarrow> Some (settle_trade i l1 r (c4\<lparr>s10_engine := en\<rparr>)))))"

section \<open>Reporting and mode\<close>

definition get_daily_stats :: "'b stage10 \<Rightarrow> pydict" where
  "get_daily_stats c =
    [(''trades_executed'', VInt (dc_trades_executed (s10_counters c))),
     (''daily_max_trades'', VInt (s10_daily_max_trades c)),
     (''total_loss_usd'', VFloat (dc_total_loss_usd (s10_counters c))),
     (''daily_max_loss_usd'', VFloat (s10_daily_max_loss_usd c)),
     (''per_symbol_trades'', VDict (map (\<lambda>(k, n). (k, VInt n)) (dc_per_symbol_trades (s10_counters c)))),
     (''per_symbol_max_trades'', VInt (s10_per_symbol_max_trades c))]"

text \<open>\<open>sorted(..., reverse=True)\<close> keeps the order of equal keys; \<open>[:limit]\<close> counts from the end when negative.\<close>

definition get_audit_logs :: "int option \<Rightarrow> 'b stage10 \<Rightarrow> stage10_log list" where
  "get_audit_logs limit c =
     (let logs = rev (sort_key sl_timestamp (rev (s10_audit_logs c))) in
      case limit of
        None \<Rightarrow> logs
      | Some n \<Rightarrow> if n = 0 then logs
                 else if n > 0 then take (nat n) logs
                 else take (nat (int (length logs) + n)) logs)"

definition enable_paper_mode :: "'b stage10 \<Rightarrow> 'b stage10" where
  "enable_paper_mode c = c\<lparr>s10_paper_mode := True\<rparr>"

definition disable_paper_mode :: "'b stage10 \<Rightarrow> 'b stage10" where
  "disable_paper_mode c = c\<lparr>s10_paper_mode := False\<rparr>"

end
