(* ===== verification/Stage10_Props.thy ===== *)
theory Stage10_Props
  imports Stage10
begin

text \<open>
  The guardrail controller as a machine: what one \<open>submit_trade\<close> does on each of its ways out, the
  invariant of the daily counters over the fills of the engine's log and the times they are reported at,
  the append-only audit log, and the properties.
\<close>

section \<open>The steps before the decision\<close>

lemmas s10_prep_defs =
  start_audit_log_def daily_reset_def run_guardrail_checks_def create_frozen_snapshot_def
  s10_read_clock_def

lemma dc_reset_new: "dc_reset t k = dc_new t"
  by (cases k) (simp add: dc_reset_def dc_new_def)

text \<open>What stays the same up to the call of the engine.\<close>

definition prepared :: "'b stage10 \<Rightarrow> 'b stage10 \<Rightarrow> bool" where
  "prepared c d \<longleftrightarrow>
     en_broker (s10_engine d) = en_broker (s10_engine c) \<and>
     en_switches (s10_engine d) = en_switches (s10_engine c) \<and>
     s10_daily_max_trades d = s10_daily_max_trades c \<and>
     s10_daily_max_loss_usd d = s10_daily_max_loss_usd c \<and>
     s10_per_symbol_max_trades d = s10_per_symbol_max_trades c \<and>
     s10_paper_mode d = s10_paper_mode c \<and> s10_audit_logs d = s10_audit_logs c \<and>
     (s10_counters d = s10_counters c \<or> (\<exists>t. s10_counters d = dc_new t))"

lemma prepared_trans: "prepared c d \<Longrightarrow> prepared d f \<Longrightarrow> prepared c f"
  by (auto simp: prepared_def)

lemma prepared_start: "start_audit_log env i c = (l, d) \<Longrightarrow> prepared c d"
  by (auto simp: prepared_def s10_prep_defs Let_def)

lemma prepared_reset: "prepared c (daily_reset env c)"
  by (auto simp: prepared_def s10_prep_defs Let_def dc_reset_new)

lemma prepared_checks: "run_guardrail_checks health i c = (checks, d) \<Longrightarrow> prepared c d"
  by (auto simp: prepared_def s10_prep_defs Let_def)

lemma prepared_snapshot: "create_frozen_snapshot env i c = (x, d) \<Longrightarrow> prepared c d"
  by (auto simp: prepared_def s10_prep_defs Let_def split: if_splits)

lemma snapshot_counters: "create_frozen_snapshot env i c = (x, d) \<Longrightarrow> s10_counters d = s10_counters c"
  by (auto simp: s10_prep_defs Let_def split: if_splits)

lemma checks_counters: "run_guardrail_checks health i c = (checks, d) \<Longrightarrow> s10_counters d = s10_counters c"
  by (auto simp: s10_prep_defs Let_def)

text \<open>The same with the clock: the engine's log is untouched, and counters are only replaced, by fresh ones, when a reading
  of the clock was more than 24 hours after the last reset.\<close>

definition anew :: "'b engine_env \<Rightarrow> nat \<Rightarrow> nat \<Rightarrow> daily_counters \<Rightarrow> daily_counters \<Rightarrow> bool" where
  "anew env from_tick to_tick k k' \<longleftrightarrow>
     (\<exists>i j. from_tick \<le> i \<and> i \<le> j \<and> j < to_tick \<and> dc_last_reset k + seconds 86400 < env_clock env i \<and>
        k' = dc_new (env_clock env j))"

definition clocked :: "'b engine_env \<Rightarrow> 'b stage10 \<Rightarrow> 'b stage10 \<Rightarrow> bool" where
  "clocked env c d \<longleftrightarrow>
     en_ticks (s10_engine c) \<le> en_ticks (s10_engine d) \<and> en_logs (s10_engine d) = en_logs (s10_engine c) \<and>
     (s10_counters d = s10_counters c \<or>
      anew env (en_ticks (s10_engine c)) (en_ticks (s10_engine d)) (s10_counters c) (s10_counters d))"

lemma anew_mono: "anew env m n k k' \<Longrightarrow> m' \<le> m \<Longrightarrow> n \<le> n' \<Longrightarrow> anew env m' n' k k'"
  unfolding anew_def by (elim exE conjE) (rule exI, rule exI, intro conjI, erule (1) le_trans, assumption, erule (1) order.strict_trans2)

definition same_period :: "'b stage10 \<Rightarrow> 'b stage10 \<Rightarrow> bool" where
  "same_period c d \<longleftrightarrow> en_ticks (s10_engine c) \<le> en_ticks (s10_engine d) \<and>
     en_logs (s10_engine d) = en_logs (s10_engine c) \<and> s10_counters d = s10_counters c"

lemma clocked_after_same: "same_period c d \<Longrightarrow> clocked env d f \<Longrightarrow> clocked env c f"
  by (auto simp: clocked_def same_period_def dest: anew_mono [OF _ order_refl] anew_mono [OF _ _ order_refl])

lemma clocked_then_same: "clocked env c d \<Longrightarrow> same_period d f \<Longrightarrow> clocked env c f"
  by (auto simp: clocked_def same_period_def dest: anew_mono [OF _ order_refl] anew_mono [OF _ _ order_refl])

lemma stale_iff: "dc_is_stale t 24 k \<longleftrightarrow> dc_last_reset k + seconds 86400 < t"
proof -
  have "(86400 :: rat) < of_int (t - dc_last_reset k) / 1000000 \<longleftrightarrow> (of_int 86400000000 :: rat) < of_int (t - dc_last_reset k)"
    by (simp add: less_divide_eq del: of_int_diff)
  also have "\<dots> \<longleftrightarrow> 86400000000 < t - dc_last_reset k" by (simp only: of_int_less_iff)
  finally show ?thesis by (auto simp: dc_is_stale_def total_seconds_def seconds_def)
qed

lemma same_period_steps:
  "start_audit_log env i c = (l, d) \<Longrightarrow> same_period c d"
  "run_guardrail_checks health i c = (checks, d) \<Longrightarrow> same_period c d"
  "create_frozen_snapshot env i c = (x, d) \<Longrightarrow> same_period c d"
  by (auto simp: same_period_def s10_prep_defs Let_def split: if_splits)

lemma clocked_reset: "clocked env c (daily_reset env c)"
proof -
  let ?n = "en_ticks (s10_engine c)"
  have "dc_is_stale (env_clock env ?n) 24 (s10_counters c) \<Longrightarrow>
      anew env ?n (Suc (Suc ?n)) (s10_counters c) (dc_new (env_clock env (Suc ?n)))"
    unfolding anew_def stale_iff by (intro exI [of _ ?n] exI [of _ "Suc ?n"]) simp
  then show ?thesis by (auto simp: clocked_def daily_reset_def s10_read_clock_def Let_def dc_reset_new)
qed

text \<open>The gate: all seven checks pass.\<close>

definition guardrails_pass :: "health_check \<Rightarrow> nat \<Rightarrow> trade_intent \<Rightarrow> 'b stage10 \<Rightarrow> bool" where
  "guardrails_pass health n i c \<longleftrightarrow>
     (case health of None \<Rightarrow> True | Some f \<Rightarrow> f n = Inr True) \<and>
     \<not> km_is_active None (en_switches (s10_engine c)) \<and>
     \<not> km_is_active (Some (ti_symbol i)) (en_switches (s10_engine c)) \<and>
     dc_trades_executed (s10_counters c) < s10_daily_max_trades c \<and>
     dget (ti_symbol i) (dc_per_symbol_trades (s10_counters c)) 0 < s10_per_symbol_max_trades c \<and>
     dc_total_loss_usd (s10_counters c) +
       \<bar>ti_proposed_entry i - ti_proposed_sl i\<bar> * dget ''account_risk_usd'' (ti_risk i) 1
       \<le> s10_daily_max_loss_usd c"

lemma failed_checks_iff:
  "failed_checks (fst (run_guardrail_checks health i c)) = [] \<longleftrightarrow>
     guardrails_pass health (s10_health_calls c) i c"
  by (auto simp: failed_checks_def run_guardrail_checks_def guardrails_pass_def Let_def
      check_broker_health_def check_global_kill_switch_def check_symbol_kill_switch_def
      check_daily_max_trades_def check_per_symbol_max_trades_def check_daily_max_loss_def
      check_paper_live_mode_def pass_check_def fail_check_def split: option.splits sum.splits)

text \<open>The three ways out of \<open>submit_trade\<close> before and after the engine.\<close>

lemma submit_trade_cases:
  assumes "submit_trade env health i c = Some (r, c')"
  obtains
    (rejected) d l reason where "prepared c d" "\<not> guardrails_pass health (s10_health_calls c) i d"
      "c' = push_audit l d" "sl_final_action l = ABORTED" "r = aborted_result i REJECTED reason"
      "clocked env c d"
  | (failed) d l e where "prepared c d" "guardrails_pass health (s10_health_calls c) i d" "c' = push_audit l d" "sl_final_action l = ABORTED"
      "r = aborted_result i FAILED (exception_text e)" "ti_proposed_entry i = 0" "clocked env c d"
  | (forwarded) d l snap r0 en where "prepared c d" "guardrails_pass health (s10_health_calls c) i d"
      "execute env snap (s10_engine d) = Some (r0, en)"
      "fs_symbol snap = ti_symbol i" "ti_proposed_entry i \<noteq> 0"
      "fs_sl_offset_pct snap = (ti_proposed_sl i - ti_proposed_entry i) / ti_proposed_entry i"
      "fs_tp_offset_pct snap = (ti_proposed_tp i - ti_proposed_entry i) / ti_proposed_entry i"
      "(r, c') = settle_trade i l r0 (d\<lparr>s10_engine := en\<rparr>)" "clocked env c d"
proof -
  obtain l c1 where a: "start_audit_log env i c = (l, c1)" by fastforce
  obtain checks c3 where k: "run_guardrail_checks health i (daily_reset env c1) = (checks, c3)" by fastforce
  have p1: "prepared c (daily_reset env c1)"
    using prepared_start [OF a] prepared_reset prepared_trans by blast
  have p3: "prepared c c3" using p1 prepared_checks [OF k] prepared_trans by blast
  have k3: "clocked env c c3"
    using clocked_after_same [OF same_period_steps(1) [OF a] clocked_reset] clocked_then_same same_period_steps(2) [OF k] by blast
  have hc: "s10_health_calls (daily_reset env c1) = s10_health_calls c"
    using a by (auto simp: s10_prep_defs Let_def)
  have same: "guardrails_pass health n i c3 \<longleftrightarrow> guardrails_pass health n i (daily_reset env c1)" for n
    using k by (auto simp: run_guardrail_checks_def guardrails_pass_def Let_def)
  have gate: "failed_checks checks = [] \<longleftrightarrow> guardrails_pass health (s10_health_calls c) i c3"
    using failed_checks_iff [of health i "daily_reset env c1"] k same hc by simp
  show thesis
  proof (cases "failed_checks checks = []")
    case False
    then show thesis
      using rejected [OF p3] k3 assms a k gate by (auto simp: submit_trade_def Let_def)
  next
    case True
    obtain x c4 where f: "create_frozen_snapshot env i c3 = (x, c4)" by fastforce
    have p4: "prepared c c4" using p3 prepared_snapshot [OF f] prepared_trans by blast
    have k4: "clocked env c c4" by (rule clocked_then_same [OF k3 same_period_steps(3) [OF f]])
    have g4: "guardrails_pass health (s10_health_calls c) i c4"
      using gate True f by (auto simp: guardrails_pass_def s10_prep_defs Let_def split: if_splits)
    show thesis
    proof (cases x)
      case (Inl e)
      with f have "ti_proposed_entry i = 0"
        by (auto simp: create_frozen_snapshot_def Let_def split: if_splits prod.splits)
      with failed [OF p4 g4] k4 assms a k True f Inl show thesis
        by (auto simp: submit_trade_def Let_def abort_trade_def)
    next
      case (Inr snap)
      have facts: "fs_symbol snap = ti_symbol i" "ti_proposed_entry i \<noteq> 0"
        "fs_sl_offset_pct snap = (ti_proposed_sl i - ti_proposed_entry i) / ti_proposed_entry i"
        "fs_tp_offset_pct snap = (ti_proposed_tp i - ti_proposed_entry i) / ti_proposed_entry i"
        using f Inr by (auto simp: create_frozen_snapshot_def Let_def split: if_splits prod.splits)
      obtain r0 en where "execute env snap (s10_engine c4) = Some (r0, en)"
        "(r, c') = settle_trade i (l\<lparr>sl_guardrail_checks := checks\<rparr>) r0 (c4\<lparr>s10_engine := en\<rparr>)"
        using assms a k True f Inr by (auto simp: submit_trade_def Let_def split: option.splits)
      with forwarded [OF p4 g4] facts k4 show thesis by blast
    qed
  qed
qed

text \<open>The settlement: one log entry, and a trade counted exactly for a filled stage.\<close>

lemma count_trade_counters:
  "count_trade traded r k = (x, k') \<Longrightarrow>
     dc_trades_executed k' = dc_trades_executed k + 1 \<and>
     dc_per_symbol_trades k' = bump traded (dc_per_symbol_trades k) \<and>
     (x \<noteq> None \<longleftrightarrow> er_final_position_size r = None \<and>
        (\<exists>p sl. er_final_fill_price r = Some p \<and> er_final_sl r = Some sl \<and> p \<noteq> 0 \<and> sl \<noteq> 0))"
  by (auto simp: count_trade_def Let_def split: option.splits if_splits)

lemma settle_trade_spec:
  assumes "(r, c') = settle_trade i l r0 c"
  shows "\<exists>x. s10_audit_logs c' = s10_audit_logs c @ [x]"
    and "s10_engine c' = s10_engine c" "s10_daily_max_trades c' = s10_daily_max_trades c"
      "s10_per_symbol_max_trades c' = s10_per_symbol_max_trades c" "s10_paper_mode c' = s10_paper_mode c"
      "s10_daily_max_loss_usd c' = s10_daily_max_loss_usd c"
    and "if filled_stage (er_status r0)
         then dc_trades_executed (s10_counters c') = dc_trades_executed (s10_counters c) + 1 \<and>
              dc_per_symbol_trades (s10_counters c') = bump (ti_symbol i) (dc_per_symbol_trades (s10_counters c))
         else s10_counters c' = s10_counters c \<and> r = r0"
  using assms
  by (auto simp: settle_trade_def abort_trade_def push_audit_def Let_def
      split: if_splits prod.splits option.splits dest: count_trade_counters)

section \<open>The machine and its invariant\<close>

datatype s10_op = Submit trade_intent | PaperOn | PaperOff | SetSwitch switch_call

fun s10_step :: "('b engine_env \<times> health_check) \<times> s10_op \<Rightarrow> 'b stage10 \<Rightarrow> 'b stage10" where
  "s10_step ((env, health), Submit i) c =
     (case submit_trade env health i c of None \<Rightarrow> c | Some (r, c') \<Rightarrow> c')"
| "s10_step (w, PaperOn) c = enable_paper_mode c"
| "s10_step (w, PaperOff) c = disable_paper_mode c"
| "s10_step (w, SetSwitch k) c =
     c\<lparr>s10_engine := (s10_engine c)\<lparr>en_switches := km_step k (en_switches (s10_engine c))\<rparr>\<rparr>"

definition counters_ok :: "int \<Rightarrow> int \<Rightarrow> daily_counters \<Rightarrow> bool" where
  "counters_ok n m k \<longleftrightarrow>
     0 \<le> dc_trades_executed k \<and> dc_trades_executed k \<le> max 0 n \<and>
     distinct (map fst (dc_per_symbol_trades k)) \<and>
     total (dc_per_symbol_trades k) = dc_trades_executed k \<and>
     (\<forall>s. 0 \<le> dget s (dc_per_symbol_trades k) 0 \<and> dget s (dc_per_symbol_trades k) 0 \<le> max 0 m)"

definition s10_inv :: "int \<Rightarrow> int \<Rightarrow> 'b stage10 \<Rightarrow> bool" where
  "s10_inv n m c \<longleftrightarrow> s10_daily_max_trades c = n \<and> s10_per_symbol_max_trades c = m \<and>
     counters_ok n m (s10_counters c)"

lemma counters_ok_new: "counters_ok n m (dc_new t)"
  by (simp add: counters_ok_def dc_new_def total_def dget_def)

lemma s10_inv_prepared: "s10_inv n m c \<Longrightarrow> prepared c d \<Longrightarrow> s10_inv n m d"
  by (auto simp: s10_inv_def prepared_def counters_ok_new)

lemma counters_ok_bump:
  assumes "counters_ok n m k" and "dc_trades_executed k < n" and "dget s (dc_per_symbol_trades k) 0 < m"
    and "dc_trades_executed k' = dc_trades_executed k + 1"
    and "dc_per_symbol_trades k' = bump s (dc_per_symbol_trades k)"
  shows "counters_ok n m k'"
  using assms by (auto simp: counters_ok_def total_bump distinct_bump dget_bump)

lemma submit_keeps_inv:
  assumes "s10_inv n m c" and "submit_trade env health i c = Some (r, c')"
  shows "s10_inv n m c'"
  using assms(2)
proof (cases rule: submit_trade_cases)
  case (rejected d l reason)
  with s10_inv_prepared [OF assms(1) rejected(1)] show ?thesis by (auto simp: s10_inv_def push_audit_def)
next
  case (failed d l e)
  with s10_inv_prepared [OF assms(1) failed(1)] show ?thesis by (auto simp: s10_inv_def push_audit_def)
next
  case (forwarded d l snap r0 en)
  note st = settle_trade_spec [OF forwarded(8)]
  have inv: "s10_inv n m d" by (rule s10_inv_prepared [OF assms(1) forwarded(1)])
  show ?thesis
  proof (cases "filled_stage (er_status r0)")
    case True
    with st(7) have counted: "dc_trades_executed (s10_counters c') = dc_trades_executed (s10_counters d) + 1"
      "dc_per_symbol_trades (s10_counters c') = bump (ti_symbol i) (dc_per_symbol_trades (s10_counters d))"
      by simp_all
    have ok: "counters_ok n m (s10_counters d)" and lim: "dc_trades_executed (s10_counters d) < n"
      "dget (ti_symbol i) (dc_per_symbol_trades (s10_counters d)) 0 < m"
      using inv forwarded(2) by (simp_all add: s10_inv_def guardrails_pass_def)
    have "counters_ok n m (s10_counters c')"
      by (rule counters_ok_bump [OF ok lim counted])
    with inv st(3,4) show ?thesis by (simp add: s10_inv_def)
  next
    case False
    with inv st show ?thesis by (auto simp: s10_inv_def)
  qed
qed

interpretation s10m: inv_machine s10_step "s10_inv n m" for n m
proof
  fix c :: "'b stage10" and op :: "('b engine_env \<times> health_check) \<times> s10_op"
  assume inv: "s10_inv n m c"
  obtain env health k where op: "op = ((env, health), k)" by (metis surj_pair)
  show "s10_inv n m (s10_step op c)"
    unfolding op
    by (cases k) (use inv submit_keeps_inv [OF inv] in \<open>auto simp: s10_inv_def enable_paper_mode_def
        disable_paper_mode_def split: option.splits\<close>)
qed

lemma submit_logs_once:
  assumes "submit_trade env health i c = Some (r, c')"
  shows "\<exists>x. s10_audit_logs c' = s10_audit_logs c @ [x]"
  using assms
proof (cases rule: submit_trade_cases)
  case (forwarded d l snap r0 en)
  then show ?thesis using settle_trade_spec(1) [OF forwarded(8)] by (simp add: prepared_def)
qed (auto simp: push_audit_def prepared_def)

interpretation s10l: append_only s10_step s10_audit_logs
proof
  fix op :: "('b engine_env \<times> health_check) \<times> s10_op" and c :: "'b stage10"
  obtain env health k where op: "op = ((env, health), k)" by (metis surj_pair)
  show "prefix (s10_audit_logs c) (s10_audit_logs (s10_step op c))"
    unfolding op
    by (cases k) (auto simp: enable_paper_mode_def disable_paper_mode_def split: option.splits
        dest: submit_logs_once)
qed

lemma s10_inv_init:
  "s10_inv (s10_daily_max_trades (s10_init env e cf)) (s10_per_symbol_max_trades (s10_init env e cf))
     (s10_init env e cf)"
  by (simp add: s10_inv_def counters_ok_new) (simp add: s10_init_def counters_ok_new)

section \<open>Fills and days\<close>

text \<open>
  The fills of a run are read off the engine's own log: the entries that report one, each with its time
  of writing and the symbol of the submission. The guardrails take no part in writing them.
\<close>

definition entry_time :: "pydict \<Rightarrow> time" where
  "entry_time d = (case map_of d ''timestamp'' of Some (VIso t) \<Rightarrow> t | _ \<Rightarrow> 0)"

definition step_fills :: "s10_op \<Rightarrow> 'b stage10 \<Rightarrow> 'b stage10 \<Rightarrow> (time \<times> string) list" where
  "step_fills k c c' =
     (case k of
        Submit i \<Rightarrow> map (\<lambda>d. (entry_time d, ti_symbol i))
          (filter reports_fill (drop (length (en_logs (s10_engine c))) (en_logs (s10_engine c'))))
      | _ \<Rightarrow> [])"

primrec s10_run ::
    "'b engine_env \<Rightarrow> (health_check \<times> s10_op) list \<Rightarrow> 'b stage10 \<Rightarrow> (time \<times> string) list \<times> 'b stage10" where
  "s10_run env [] c = ([], c)"
| "s10_run env (x # xs) c =
     (let c' = s10_step ((env, fst x), snd x) c; (fs, c'') = s10_run env xs c'
      in (step_fills (snd x) c c' @ fs, c''))"

definition in_day :: "time \<Rightarrow> time \<times> string \<Rightarrow> bool" where
  "in_day a f \<longleftrightarrow> a \<le> fst f \<and> fst f \<le> a + seconds 86400"

definition day_limit :: "(time \<times> string \<Rightarrow> bool) \<Rightarrow> int \<Rightarrow> (time \<times> string) list \<Rightarrow> bool" where
  "day_limit P q fs \<longleftrightarrow> (\<forall>a. int (length (filter (\<lambda>f. P f \<and> in_day a f) fs)) \<le> 2 * max 0 q)"

lemma day_limit_snoc:
  assumes "day_limit P q (old @ prev @ cur)" and "\<forall>f\<in>set old. fst f + seconds 86400 < l" and "l \<le> fst u"
    and "int (length (filter P prev)) \<le> max 0 q" and "int (length (filter P (cur @ [u]))) \<le> max 0 q"
  shows "day_limit P q ((old @ prev @ cur) @ [u])"
  unfolding day_limit_def
proof
  fix a
  show "int (length (filter (\<lambda>f. P f \<and> in_day a f) ((old @ prev @ cur) @ [u]))) \<le> 2 * max 0 q"
  proof (cases "in_day a u")
    case True
    then have "filter (\<lambda>f. P f \<and> in_day a f) old = []"
      using assms(2,3) by (fastforce simp: filter_empty_conv in_day_def)
    then have "length (filter (\<lambda>f. P f \<and> in_day a f) ((old @ prev @ cur) @ [u])) =
        length (filter (\<lambda>f. P f \<and> in_day a f) prev) + length (filter (\<lambda>f. P f \<and> in_day a f) (cur @ [u]))"
      by simp
    moreover have "length (filter (\<lambda>f. P f \<and> in_day a f) xs) \<le> length (filter P xs)" for xs
      by (metis filter_filter length_filter_le)
    note this [of prev] this [of "cur @ [u]"]
    ultimately show ?thesis using assms(4,5) by linarith
  next
    case False
    then show ?thesis using assms(1) by (simp add: day_limit_def)
  qed
qed

text \<open>
  The fills so far fall in three groups: those since the last reset, which the counters count; those of the
  period before it, within the limits; and the older ones, more than 24 hours before the last reset.
\<close>

definition day_groups :: "int \<Rightarrow> int \<Rightarrow> daily_counters \<Rightarrow> (time \<times> string) list \<Rightarrow> bool" where
  "day_groups n m k fs \<longleftrightarrow>
     (\<exists>old prev cur. fs = old @ prev @ cur \<and>
        (\<forall>f\<in>set old. fst f + seconds 86400 < dc_last_reset k) \<and> (\<forall>f\<in>set (old @ prev). fst f \<le> dc_last_reset k) \<and>
        (\<forall>f\<in>set cur. dc_last_reset k \<le> fst f) \<and>
        int (length prev) \<le> max 0 n \<and> (\<forall>s. int (length (filter (\<lambda>f. snd f = s) prev)) \<le> max 0 m) \<and>
        int (length cur) = dc_trades_executed k \<and>
        (\<forall>s. int (length (filter (\<lambda>f. snd f = s) cur)) = dget s (dc_per_symbol_trades k) 0))"

definition day_inv :: "'b engine_env \<Rightarrow> int \<Rightarrow> int \<Rightarrow> (time \<times> string) list \<Rightarrow> 'b stage10 \<Rightarrow> bool" where
  "day_inv env n m fs c \<longleftrightarrow>
     s10_inv n m c \<and> dc_last_reset (s10_counters c) \<le> env_clock env (en_ticks (s10_engine c)) \<and>
     list_all (\<lambda>f. fst f \<le> env_clock env (en_ticks (s10_engine c))) fs \<and>
     day_limit (\<lambda>_. True) n fs \<and> (\<forall>s. day_limit (\<lambda>f. snd f = s) m fs) \<and> day_groups n m (s10_counters c) fs"

lemma list_all_le: "list_all (\<lambda>f. fst f \<le> (t::int)) fs \<Longrightarrow> t \<le> t' \<Longrightarrow> list_all (\<lambda>f. fst f \<le> t') fs"
  by (auto simp: list_all_iff)

lemma day_inv_later:
  assumes "mono (env_clock env)" and "day_inv env n m fs c" and "s10_inv n m d"
    and "s10_counters d = s10_counters c" and "en_ticks (s10_engine c) \<le> en_ticks (s10_engine d)"
  shows "day_inv env n m fs d"
proof -
  have "env_clock env (en_ticks (s10_engine c)) \<le> env_clock env (en_ticks (s10_engine d))"
    using assms(1,5) by (rule monoD)
  then show ?thesis using assms(2-4) by (auto simp: day_inv_def elim: list_all_le)
qed

lemma day_groups_reset:
  assumes "day_groups n m k fs" and "counters_ok n m k" and "list_all (\<lambda>f. fst f \<le> t) fs"
    and "dc_last_reset k + seconds 86400 < t"
  shows "day_groups n m (dc_new t) fs"
proof -
  obtain old prev cur where fs: "fs = old @ prev @ cur" "\<forall>f\<in>set (old @ prev). fst f \<le> dc_last_reset k"
    "int (length cur) = dc_trades_executed k"
    "\<forall>s. int (length (filter (\<lambda>f. snd f = s) cur)) = dget s (dc_per_symbol_trades k) 0"
    using assms(1) unfolding day_groups_def by blast
  have "\<forall>f\<in>set (old @ prev). fst f + seconds 86400 < t" using fs(2) assms(4) by fastforce
  moreover have "\<forall>f\<in>set ((old @ prev) @ cur). fst f \<le> t" using assms(3) unfolding fs(1) list_all_iff by auto
  moreover have "int (length cur) \<le> max 0 n" "\<forall>s. int (length (filter (\<lambda>f. snd f = s) cur)) \<le> max 0 m"
    using assms(2) fs(3,4) by (simp_all add: counters_ok_def)
  ultimately show ?thesis unfolding day_groups_def fs(1)
    by (intro exI [of _ "old @ prev"] exI [of _ cur] exI [of _ "[]"]) (simp add: dc_new_def dget_def)
qed

lemma day_inv_reset:
  assumes "mono (env_clock env)" and inv: "day_inv env n m fs c" and "s10_inv n m d"
    and "anew env (en_ticks (s10_engine c)) (en_ticks (s10_engine d)) (s10_counters c) (s10_counters d)"
  shows "day_inv env n m fs d"
proof -
  obtain i j where ij: "en_ticks (s10_engine c) \<le> i" "i \<le> j" "j < en_ticks (s10_engine d)"
    "dc_last_reset (s10_counters c) + seconds 86400 < env_clock env i" and k: "s10_counters d = dc_new (env_clock env j)"
    using assms(4) by (auto simp: anew_def)
  have le: "env_clock env (en_ticks (s10_engine c)) \<le> env_clock env j" "env_clock env i \<le> env_clock env j"
    "env_clock env j \<le> env_clock env (en_ticks (s10_engine d))"
    using ij(1-3) by (auto intro!: monoD [OF assms(1)])
  have past: "list_all (\<lambda>f. fst f \<le> env_clock env j) fs"
    using inv le(1) list_all_le by (auto simp: day_inv_def)
  have "day_groups n m (s10_counters d) fs"
    unfolding k by (rule day_groups_reset [OF _ _ past]) (use inv ij(4) le(2) in \<open>auto simp: day_inv_def s10_inv_def\<close>)
  then show ?thesis
    using assms(3) inv le(3) list_all_le [OF past le(3)] by (simp add: day_inv_def k dc_new_def)
qed

lemma day_inv_clocked:
  assumes "mono (env_clock env)" and "day_inv env n m fs c" and "clocked env c d" and "prepared c d"
  shows "day_inv env n m fs d"
proof -
  have "s10_inv n m d" using s10_inv_prepared [OF _ assms(4)] assms(2) by (simp add: day_inv_def)
  then show ?thesis
    using assms(3) day_inv_later [OF assms(1,2)] day_inv_reset [OF assms(1,2)] by (auto simp: clocked_def)
qed

lemma day_groups_fill:
  assumes "day_groups n m k fs" and ok: "counters_ok n m k'"
    and more: "dc_trades_executed k' = dc_trades_executed k + 1"
      "dc_per_symbol_trades k' = bump s (dc_per_symbol_trades k)" "dc_last_reset k' = dc_last_reset k"
    and t: "dc_last_reset k \<le> t"
    and lim: "day_limit (\<lambda>_. True) n fs" "\<forall>s. day_limit (\<lambda>f. snd f = s) m fs"
  shows "day_groups n m k' (fs @ [(t, s)])"
    and "day_limit (\<lambda>_. True) n (fs @ [(t, s)])" "\<forall>x. day_limit (\<lambda>f. snd f = x) m (fs @ [(t, s)])"
proof -
  obtain old prev cur where fs: "fs = old @ prev @ cur" "\<forall>f\<in>set old. fst f + seconds 86400 < dc_last_reset k"
    "\<forall>f\<in>set (old @ prev). fst f \<le> dc_last_reset k" "\<forall>f\<in>set cur. dc_last_reset k \<le> fst f" "int (length prev) \<le> max 0 n"
    "\<forall>s. int (length (filter (\<lambda>f. snd f = s) prev)) \<le> max 0 m"
    "int (length cur) = dc_trades_executed k"
    "\<forall>s. int (length (filter (\<lambda>f. snd f = s) cur)) = dget s (dc_per_symbol_trades k) 0"
    using assms(1) unfolding day_groups_def by blast
  have len: "int (length (cur @ [(t, s)])) = dc_trades_executed k'"
    "int (length (filter (\<lambda>f. snd f = x) (cur @ [(t, s)]))) = dget x (dc_per_symbol_trades k') 0" for x
    using fs(7,8) more by (auto simp: dget_bump)
  have u: "dc_last_reset k \<le> fst (t, s)" using t by simp
  have cap: "dc_trades_executed k' \<le> max 0 n" "dget x (dc_per_symbol_trades k') 0 \<le> max 0 m" for x
    using ok by (simp_all add: counters_ok_def)
  have "int (length (filter (\<lambda>_. True) prev)) \<le> max 0 n" "int (length (filter (\<lambda>_. True) (cur @ [(t, s)]))) \<le> max 0 n"
    using fs(5) len(1) cap(1) by simp_all
  from day_limit_snoc [OF lim(1) [unfolded fs(1)] fs(2) u this]
  show "day_limit (\<lambda>_. True) n (fs @ [(t, s)])" unfolding fs(1) .
  show "\<forall>x. day_limit (\<lambda>f. snd f = x) m (fs @ [(t, s)])"
  proof
    fix x
    have "int (length (filter (\<lambda>f. snd f = x) (cur @ [(t, s)]))) \<le> max 0 m" unfolding len(2) by (rule cap(2))
    from day_limit_snoc [OF lim(2) [unfolded fs(1), rule_format] fs(2) u fs(6) [rule_format] this]
    show "day_limit (\<lambda>f. snd f = x) m (fs @ [(t, s)])" unfolding fs(1) .
  qed
  have "\<forall>f\<in>set (cur @ [(t, s)]). dc_last_reset k \<le> fst f" using fs(4) t by simp
  then show "day_groups n m k' (fs @ [(t, s)])"
    unfolding day_groups_def more(3)
    by (intro exI [of _ old] exI [of _ prev] exI [of _ "cur @ [(t, s)]"] conjI allI)
       (use fs(1-3,5) in simp, use fs(2) in assumption, use fs(3) in assumption, assumption, rule fs(5),
        rule fs(6) [rule_format], rule len(1), rule len(2))
qed

lemma day_inv_fill:
  assumes "mono (env_clock env)" and inv: "day_inv env n m fs c" and d: "s10_inv n m d"
    and more: "dc_trades_executed (s10_counters d) = dc_trades_executed (s10_counters c) + 1"
      "dc_per_symbol_trades (s10_counters d) = bump s (dc_per_symbol_trades (s10_counters c))"
      "dc_last_reset (s10_counters d) = dc_last_reset (s10_counters c)"
    and tick: "en_ticks (s10_engine c) \<le> i" "i < en_ticks (s10_engine d)"
  shows "day_inv env n m (fs @ [(env_clock env i, s)]) d"
proof -
  have le: "env_clock env (en_ticks (s10_engine c)) \<le> env_clock env i" "env_clock env i \<le> env_clock env (en_ticks (s10_engine d))"
    using tick by (auto intro!: monoD [OF assms(1)])
  have i: "day_groups n m (s10_counters c) fs" "counters_ok n m (s10_counters d)"
    "dc_last_reset (s10_counters c) \<le> env_clock env i" "day_limit (\<lambda>_. True) n fs" "\<forall>s. day_limit (\<lambda>f. snd f = s) m fs"
    using inv d le(1) by (auto simp: day_inv_def s10_inv_def)
  note g = day_groups_fill [OF i(1,2) more i(3-5)]
  have "list_all (\<lambda>f. fst f \<le> env_clock env (en_ticks (s10_engine d))) fs"
    using inv list_all_le [OF _ order_trans [OF le]] by (auto simp: day_inv_def)
  then show ?thesis
    unfolding day_inv_def using g d le(2) i(3) more(3) by simp
qed

lemma settle_trade_reset: "(r, c') = settle_trade i l r0 c \<Longrightarrow> dc_last_reset (s10_counters c') = dc_last_reset (s10_counters c)"
  by (auto simp: settle_trade_def count_trade_def abort_trade_def push_audit_def Let_def
      split: if_splits option.splits)

lemma day_inv_submit:
  assumes "mono (env_clock env)" and inv: "day_inv env n m fs c" and run: "submit_trade env health i c = Some (r, c')"
  shows "day_inv env n m (fs @ step_fills (Submit i) c c') c'"
proof -
  have inv': "s10_inv n m c'" using submit_keeps_inv [OF _ run] inv by (simp add: day_inv_def)
  have ended: ?thesis if "prepared c d" "clocked env c d" "c' = push_audit l d" for d l
  proof -
    have "step_fills (Submit i) c c' = []" using that(2,3) by (simp add: step_fills_def push_audit_def clocked_def)
    moreover have "day_inv env n m fs c'"
      by (rule day_inv_later [OF assms(1) day_inv_clocked [OF assms(1) inv that(2,1)] inv']) (simp_all add: that(3) push_audit_def)
    ultimately show ?thesis by simp
  qed
  show ?thesis
    using run
  proof (cases rule: submit_trade_cases)
    case (rejected d l reason)
    show ?thesis by (rule ended [OF rejected(1,6,3)])
  next
    case (failed d l e)
    show ?thesis by (rule ended [OF failed(1,7,3)])
  next
    case (forwarded d l snap r0 en)
    note st = settle_trade_spec [OF forwarded(8)] and reset = settle_trade_reset [OF forwarded(8)]
    have day: "day_inv env n m fs d" by (rule day_inv_clocked [OF assms(1) inv forwarded(9,1)])
    have eng: "s10_engine c' = en" "en_ticks (s10_engine d) \<le> en_ticks en"
      using st(2) execute_log(1) [OF forwarded(3)] by simp_all
    obtain es where es: "en_logs en = en_logs (s10_engine c) @ es"
      "if filled_stage (er_status r0) then \<exists>x k. filter reports_fill es = [x] \<and> en_ticks (s10_engine d) \<le> k \<and> k < en_ticks en \<and>
         map_of x ''timestamp'' = Some (VIso (env_clock env k)) else filter reports_fill es = []"
      using execute_log(2) [OF forwarded(3)] forwarded(9) unfolding filled_stage_def clocked_def by auto
    have fills: "step_fills (Submit i) c c' = map (\<lambda>x. (entry_time x, ti_symbol i)) (filter reports_fill es)"
      by (simp add: step_fills_def eng es(1))
    show ?thesis
    proof (cases "filled_stage (er_status r0)")
      case True
      then obtain x k where x: "filter reports_fill es = [x]" "en_ticks (s10_engine d) \<le> k" "k < en_ticks (s10_engine c')"
        "map_of x ''timestamp'' = Some (VIso (env_clock env k))" using es(2) eng(1) by auto
      from True st(7) have "dc_trades_executed (s10_counters c') = dc_trades_executed (s10_counters d) + 1"
        "dc_per_symbol_trades (s10_counters c') = bump (ti_symbol i) (dc_per_symbol_trades (s10_counters d))"
        "dc_last_reset (s10_counters c') = dc_last_reset (s10_counters d)" using reset by simp_all
      from day_inv_fill [OF assms(1) day inv' this x(2,3)] x(1,4) fills show ?thesis by (simp add: entry_time_def)
    next
      case False
      with st(7) have "s10_counters c' = s10_counters d" by simp
      then have "day_inv env n m fs c'" by (rule day_inv_later [OF assms(1) day inv']) (simp add: eng)
      with False es(2) fills show ?thesis by simp
    qed
  qed
qed

lemma day_inv_step:
  assumes "mono (env_clock env)" and inv: "day_inv env n m fs c"
  shows "day_inv env n m (fs @ step_fills k c (s10_step ((env, health), k) c)) (s10_step ((env, health), k) c)"
proof (cases "\<exists>i. k = Submit i")
  case True
  then obtain i where k: "k = Submit i" by blast
  show ?thesis
    using day_inv_submit [OF assms, of health i] inv
    by (cases "submit_trade env health i c") (auto simp: k, simp add: step_fills_def)
next
  case False
  have "s10_inv n m (s10_step ((env, health), k) c)"
    by (rule s10m.mstep_inv) (use inv in \<open>simp add: day_inv_def\<close>)
  then have "day_inv env n m fs (s10_step ((env, health), k) c)"
    by (rule day_inv_later [OF assms]) (use False in \<open>cases k; simp add: enable_paper_mode_def disable_paper_mode_def\<close>)+
  moreover have "step_fills k c d = []" for d using False by (cases k) (simp_all add: step_fills_def)
  ultimately show ?thesis by simp
qed

lemma day_inv_run:
  assumes "mono (env_clock env)"
  shows "day_inv env n m fs c \<Longrightarrow> day_inv env n m (fs @ fst (s10_run env xs c)) (snd (s10_run env xs c))"
proof (induction xs arbitrary: fs c)
  case Nil
  then show ?case by simp
next
  case (Cons x xs)
  from Cons.IH [OF day_inv_step [OF assms Cons.prems]] show ?case
    by (simp add: Let_def case_prod_unfold)
qed

lemma day_inv_init:
  assumes "mono (env_clock env)" and "n = s10_daily_max_trades (s10_init env e cf)" "m = s10_per_symbol_max_trades (s10_init env e cf)"
  shows "day_inv env n m [] (s10_init env e cf)"
proof -
  have "day_groups n m (s10_counters (s10_init env e cf)) []"
    unfolding day_groups_def by (intro exI [of _ "[]"]) (simp add: s10_init_def dc_new_def dget_def)
  moreover have "env_clock env (en_ticks e) \<le> env_clock env (Suc (en_ticks e))" by (rule monoD [OF assms(1)]) simp
  ultimately show ?thesis
    using s10_inv_init [of env e cf] assms(2,3) by (simp add: day_inv_def day_limit_def s10_init_def dc_new_def)
qed

text \<open>Counts of a run: what the counters say of the fills since the last reset.\<close>

lemma day_groups_counts:
  assumes "day_groups n m k fs"
  shows "int (length (filter (\<lambda>f. dc_last_reset k < fst f) fs)) \<le> dc_trades_executed k"
    and "int (length (filter (\<lambda>f. snd f = s \<and> dc_last_reset k < fst f) fs)) \<le> dget s (dc_per_symbol_trades k) 0"
proof -
  obtain old prev cur where fs: "fs = (old @ prev) @ cur" "\<forall>f\<in>set (old @ prev). fst f \<le> dc_last_reset k"
    "int (length cur) = dc_trades_executed k"
    "\<forall>s. int (length (filter (\<lambda>f. snd f = s) cur)) = dget s (dc_per_symbol_trades k) 0"
    using assms unfolding day_groups_def by force
  have none: "filter (\<lambda>f. Q f \<and> dc_last_reset k < fst f) (old @ prev) = []" for Q
    using fs(2) by (auto simp: filter_empty_conv not_less)
  have le: "length (filter (\<lambda>f. Q f \<and> dc_last_reset k < fst f) fs) \<le> length (filter Q cur)" for Q
    unfolding fs(1) filter_append [of _ "old @ prev"] none by simp (metis filter_filter length_filter_le)
  show "int (length (filter (\<lambda>f. dc_last_reset k < fst f) fs)) \<le> dc_trades_executed k"
    using le [of "\<lambda>_. True"] fs(3) by simp
  show "int (length (filter (\<lambda>f. snd f = s \<and> dc_last_reset k < fst f) fs)) \<le> dget s (dc_per_symbol_trades k) 0"
    using le [of "\<lambda>f. snd f = s"] unfolding fs(4) [rule_format, symmetric] of_nat_le_iff .
qed

section \<open>A run\<close>

definition demo_intent :: trade_intent where
  "demo_intent = \<lparr>ti_intent_id = ''I1'', ti_symbol = ''XAUUSD'', ti_direction = ''LONG'',
     ti_proposed_entry = 100, ti_proposed_sl = 98, ti_proposed_tp = 104,
     ti_risk = [(''account_risk_usd'', 1)], ti_snapshot = []\<rparr>"

definition demo_config :: stage10_config where
  "demo_config = \<lparr>cf_daily_max_trades = None, cf_daily_max_loss_usd = None,
     cf_per_symbol_max_trades = None, cf_paper_mode = None\<rparr>"

text \<open>Two submissions to a controller that allows one trade a day, with a broker that fills: up to the call of the engine
  the clock is read five times, and the engine reports a fill.\<close>

abbreviation "fill_env \<equiv> demo_env filled_status [] 1000000"

abbreviation "one_a_day \<equiv> s10_init fill_env demo_engine (demo_config\<lparr>cf_daily_max_trades := Some 1\<rparr>)"

definition demo_at :: "nat \<Rightarrow> broker_event list stage10" where
  "demo_at n = one_a_day
     \<lparr>s10_engine := demo_engine\<lparr>en_ticks := n, en_ids := 1\<rparr>\<rparr>"

lemma demo_start: "start_audit_log fill_env demo_intent
       one_a_day =
    (fst (start_audit_log fill_env demo_intent
       one_a_day), demo_at 2)"
  by (simp add: s10_prep_defs Let_def demo_at_def s10_init_def demo_engine_def engine_init_def)

lemma demo_reset: "daily_reset fill_env (demo_at 2) = demo_at 3"
  by (simp add: s10_prep_defs Let_def demo_at_def s10_init_def demo_engine_def engine_init_def dc_new_def dc_is_stale_def total_seconds_def demo_env_def)

lemma demo_checks: "\<exists>ks. run_guardrail_checks None demo_intent (demo_at 3) = (ks, demo_at 3\<lparr>s10_health_calls := 1\<rparr>) \<and> failed_checks ks = []"
proof -
  have "guardrails_pass None 0 demo_intent (demo_at 3)"
    by (simp add: guardrails_pass_def Let_def demo_at_def s10_init_def dc_new_def demo_intent_def demo_config_def
    dget_def km_is_active_iff demo_engine_def engine_init_def km_init_def km_get_state_def less_eq_switch_level_def)
  then have "failed_checks (fst (run_guardrail_checks None demo_intent (demo_at 3))) = []"
    unfolding failed_checks_iff by (simp add: demo_at_def s10_init_def)
  then show ?thesis by (simp add: run_guardrail_checks_def Let_def demo_at_def s10_init_def)
qed

definition demo_snap :: frozen_snapshot where
  "demo_snap = (demo_snapshot\<lparr>fs_advisory_id := ''I1'', fs_htf_bias := ''NEUTRAL'', fs_reasoning_mode := ''UNKNOWN'', fs_expiration_timestamp := 303000000, fs_created_at := 4000000\<rparr>)"

lemma demo_frozen: "create_frozen_snapshot fill_env demo_intent (demo_at 3\<lparr>s10_health_calls := 1\<rparr>) = (Inr demo_snap, demo_at 5\<lparr>s10_health_calls := 1\<rparr>)"
  by (simp add: s10_prep_defs Let_def demo_at_def s10_init_def demo_intent_def demo_snap_def demo_snapshot_def demo_env_def dget_def minutes_def demo_engine_def engine_init_def)

lemma demo_exec: "\<exists>r e'. execute fill_env demo_snap (demo_engine\<lparr>en_ticks := 5, en_ids := 1\<rparr>) = Some (r, e') \<and> er_status r = FILLED"
  apply (simp add: demo_snap_def execute_def execute_body_def pre_submission_def submission_def engine_log_defs run_simps bnd_def seq_def ret_def gets_def
     demo_defs validate_preconditions_def km_is_active_iff minutes_def km_get_state_def less_eq_switch_level_def)
  apply (subst wait_for_fill.simps)
  apply (simp add: run_simps bnd_def seq_def ret_def gets_def engine_log_defs demo_defs after_wait_def fill_branch_def finish_def reconcile_def tc_is_expired_def tc_start_def tc_elapsed_seconds_def total_seconds_def find_mismatches_def with_order_status_def
   with_position_def new_report_def calculate_sl_def calculate_tp_def Let_def HARD_TIMEOUT_SECONDS_def seconds_def km_get_state_def less_eq_switch_level_def)
  done

section \<open>Properties\<close>

text \<open>C11: whatever is submitted, in whatever order with mode and kill-switch changes and against whatever
  broker, while the clock does not go back: of the fills the engine writes to its log no more than twice the daily maximum fall
  into any 24 hours, and no more than twice the maximum of a symbol are of that symbol. The
  factor is there because 24 hours can touch two periods of the counters; within one period, that is since the last
  reset, the counters count at least the fills, in all and for every symbol, and never exceed the maxima; the
  symbols' counts add up to the daily count.\<close>

theorem guardrails_bound_trades:
  assumes "mono (env_clock env)"
  shows "case s10_run env ops (s10_init env e cf) of (fills, c) \<Rightarrow>
     let k = s10_counters c;
         n = (case cf_daily_max_trades cf of None \<Rightarrow> 10 | Some n \<Rightarrow> n);
         m = (case cf_per_symbol_max_trades cf of None \<Rightarrow> 3 | Some m \<Rightarrow> m) in
     (\<forall>a. int (length (filter (\<lambda>(t, s). a \<le> t \<and> t \<le> a + seconds 86400) fills)) \<le> 2 * max 0 n) \<and>
     (\<forall>a x. int (length (filter (\<lambda>(t, s). s = x \<and> a \<le> t \<and> t \<le> a + seconds 86400) fills)) \<le> 2 * max 0 m) \<and>
     int (length (filter (\<lambda>(t, s). dc_last_reset k < t) fills)) \<le> dc_trades_executed k \<and> dc_trades_executed k \<le> max 0 n \<and>
     (\<forall>x. int (length (filter (\<lambda>(t, s). s = x \<and> dc_last_reset k < t) fills)) \<le> dget x (dc_per_symbol_trades k) 0 \<and>
          dget x (dc_per_symbol_trades k) 0 \<le> max 0 m) \<and>
     0 \<le> dc_trades_executed k \<and> total (dc_per_symbol_trades k) = dc_trades_executed k"
proof -
  let ?c = "s10_init env e cf"
  let ?n = "s10_daily_max_trades ?c" and ?m = "s10_per_symbol_max_trades ?c"
  obtain fills c where run: "s10_run env ops ?c = (fills, c)" by fastforce
  have lim: "?n = (case cf_daily_max_trades cf of None \<Rightarrow> 10 | Some n \<Rightarrow> n)"
    "?m = (case cf_per_symbol_max_trades cf of None \<Rightarrow> 3 | Some m \<Rightarrow> m)"
    by (simp_all add: s10_init_def)
  have inv: "day_inv env ?n ?m fills c"
    using day_inv_run [OF assms day_inv_init [OF assms refl refl, of e cf], of ops] run by simp
  have groups: "day_groups ?n ?m (s10_counters c) fills" using inv by (simp add: day_inv_def)
  have "counters_ok ?n ?m (s10_counters c)" "day_limit (\<lambda>_. True) ?n fills" "\<forall>s. day_limit (\<lambda>f. snd f = s) ?m fills"
    using inv by (simp_all add: day_inv_def s10_inv_def)
  with day_groups_counts [OF groups] show ?thesis
    unfolding run prod.case Let_def lim [symmetric]
    by (simp add: day_limit_def in_day_def counters_ok_def case_prod_unfold)
qed

theorem guardrails_bound_trades_witness:
  "case s10_run fill_env [(None, Submit demo_intent), (None, Submit demo_intent)] one_a_day of (fills, c) \<Rightarrow>
     fills \<noteq> [] \<and> int (length (filter (\<lambda>(t, s). 0 \<le> t \<and> t \<le> seconds 86400) fills)) \<le> 2 \<and> dc_trades_executed (s10_counters c) \<le> 1"
proof -
  obtain r e' where ex: "execute fill_env demo_snap (demo_engine\<lparr>en_ticks := 5, en_ids := 1\<rparr>) = Some (r, e')" and f: "er_status r = FILLED"
    using demo_exec by blast
  obtain ks where ks: "run_guardrail_checks None demo_intent (demo_at 3) = (ks, demo_at 3\<lparr>s10_health_calls := 1\<rparr>)" "failed_checks ks = []"
    using demo_checks by blast
  let ?d = "demo_at 5\<lparr>s10_health_calls := 1, s10_engine := e'\<rparr>"
  define l0 where "l0 = fst (start_audit_log fill_env demo_intent one_a_day)"
  define l where "l = l0\<lparr>sl_guardrail_checks := ks\<rparr>"
  have start: "start_audit_log fill_env demo_intent one_a_day = (l0, demo_at 2)"
    unfolding l0_def by (rule demo_start)
  have "s10_engine (demo_at 5\<lparr>s10_health_calls := 1\<rparr>) = demo_engine\<lparr>en_ticks := 5, en_ids := 1\<rparr>" by (simp add: demo_at_def)
  then have sub: "submit_trade fill_env None demo_intent one_a_day = Some (settle_trade demo_intent l r ?d)"
    unfolding submit_trade_def using ks ex by (simp add: start Let_def demo_reset demo_frozen [simplified] l_def)
  obtain r' c' where set: "settle_trade demo_intent l r ?d = (r', c')" by fastforce
  have eng: "s10_engine c' = e'" using settle_trade_spec(2) [OF set [symmetric]] by simp
  have "en_logs (s10_engine one_a_day) = []" by (simp add: s10_init_def demo_engine_def engine_init_def)
  moreover have "\<exists>x. filter reports_fill (en_logs e') = [x]"
    using execute_log(2) [OF ex] f by (auto simp: demo_engine_def engine_init_def)
  ultimately have "step_fills (Submit demo_intent) one_a_day c' \<noteq> []" by (auto simp: step_fills_def eng)
  then have some: "fst (s10_run fill_env [(None, Submit demo_intent), (None, Submit demo_intent)] one_a_day) \<noteq> []"
    using sub set by (simp add: Let_def case_prod_unfold)
  obtain fills c where run: "s10_run fill_env [(None, Submit demo_intent), (None, Submit demo_intent)] one_a_day = (fills, c)"
    by fastforce
  have "mono (env_clock fill_env)" by (simp add: demo_env_def mono_def)
  note bounds = guardrails_bound_trades [OF this, where ops = "[(None, Submit demo_intent), (None, Submit demo_intent)]"
      and e = demo_engine and cf = "demo_config\<lparr>cf_daily_max_trades := Some 1\<rparr>", unfolded run prod.case Let_def]
  have "int (length (filter (\<lambda>(t, s). 0 \<le> t \<and> t \<le> 0 + seconds 86400) fills)) \<le> 2"
    using bounds [THEN conjunct1, rule_format, of 0] by simp
  moreover have "dc_trades_executed (s10_counters c) \<le> 1" using bounds by simp
  ultimately show ?thesis using some unfolding run by simp
qed

text \<open>While the global switch or the symbol's switch is at WARNING or ACTIVE, or the
  connection check fails, a submission is rejected without the broker being touched, no trade is
  counted, and the audit log grows by exactly one ABORTED entry.\<close>

theorem guardrail_failure_blocks:
  assumes "km_is_active None (en_switches (s10_engine c)) \<or>
     km_is_active (Some (ti_symbol i)) (en_switches (s10_engine c)) \<or>
     (\<exists>f. health = Some f \<and> f (s10_health_calls c) \<noteq> Inr True)"
    and "submit_trade env health i c = Some (r, c')"
  shows "er_status r = REJECTED \<and> en_broker (s10_engine c') = en_broker (s10_engine c) \<and>
     dc_trades_executed (s10_counters c') \<in> {dc_trades_executed (s10_counters c), 0} \<and>
     (\<exists>x. s10_audit_logs c' = s10_audit_logs c @ [x] \<and> sl_final_action x = ABORTED)"
  using assms(2)
proof (cases rule: submit_trade_cases)
  case (rejected d l reason)
  then show ?thesis by (auto simp: push_audit_def prepared_def aborted_result_def dc_new_def)
qed (use assms(1) in \<open>auto simp: guardrails_pass_def prepared_def\<close>)

lemma submit_returns:
  assumes "\<forall>t m. \<exists>n\<ge>m. t < env_clock env n"
  shows "\<exists>r c'. submit_trade env health i c = Some (r, c')"
proof -
  have runs: "execute env snap e = None \<longleftrightarrow> False" for snap e
    using execute_returns_if [OF assms, of snap e] by auto
  have "submit_trade env health i c \<noteq> None"
    by (auto simp: submit_trade_def Let_def runs split: prod.splits sum.splits option.splits)
  then show ?thesis by auto
qed

theorem guardrail_failure_blocks_witness:
  "\<exists>r c'. submit_trade (demo_env filled_status [] 1000000) None demo_intent
       (s10_init (demo_env filled_status [] 1000000)
          (demo_engine\<lparr>en_switches := set_kill_switch 0 GLOBAL ACTIVE None None km_init\<rparr>) demo_config) = Some (r, c') \<and>
     er_status r = REJECTED \<and> en_broker (s10_engine c') = []"
proof -
  let ?env = "demo_env filled_status [] 1000000"
  let ?c = "s10_init ?env (demo_engine\<lparr>en_switches := set_kill_switch 0 GLOBAL ACTIVE None None km_init\<rparr>) demo_config"
  obtain r c' where run: "submit_trade ?env None demo_intent ?c = Some (r, c')"
    using submit_returns [OF demo_clock] by fastforce
  have "km_is_active None (en_switches (s10_engine ?c))"
    by (simp add: km_is_active_iff set_kill_switch_state s10_init_def less_eq_switch_level_def)
  then show ?thesis
    using guardrail_failure_blocks [OF _ run] run by (simp add: s10_init_def demo_engine_def engine_init_def)
qed

text \<open>Every submission that returns appends exactly one entry to the audit log, on every
  way out, and no later operation changes or removes an entry.\<close>

theorem submission_audited:
  assumes "submit_trade env health i c = Some (r, c')"
  shows "length (s10_audit_logs c') = Suc (length (s10_audit_logs c)) \<and>
     prefix (s10_audit_logs c) (s10_audit_logs c') \<and>
     (\<forall>ops. s10_audit_logs (fold s10_step ops c') ! length (s10_audit_logs c) =
        s10_audit_logs c' ! length (s10_audit_logs c))"
proof -
  obtain x where "s10_audit_logs c' = s10_audit_logs c @ [x]" using submit_logs_once [OF assms] by blast
  then show ?thesis using s10l.run_entry_stable [of "length (s10_audit_logs c)" c'] by simp
qed

theorem submission_audited_witness:
  "\<exists>r c'. submit_trade (demo_env filled_status [] 1000000) None demo_intent
       (s10_init (demo_env filled_status [] 1000000) demo_engine demo_config) = Some (r, c') \<and>
     length (s10_audit_logs c') = 1"
proof -
  let ?env = "demo_env filled_status [] 1000000"
  obtain r c' where run: "submit_trade ?env None demo_intent (s10_init ?env demo_engine demo_config) = Some (r, c')"
    using submit_returns [OF demo_clock] by fastforce
  from submission_audited [OF run] run show ?thesis by (simp add: s10_init_def)
qed

text \<open>C12: a short trade (positive entry, stop loss at or above it) that passes all
  guardrails is never executed: the engine only accepts negative stop-loss offsets, so the result
  is REJECTED and the broker is untouched.\<close>

theorem short_trades_never_filled:
  assumes "0 < ti_proposed_entry i" and "ti_proposed_entry i \<le> ti_proposed_sl i"
    and "submit_trade env health i c = Some (r, c')"
  shows "er_status r = REJECTED \<and> en_broker (s10_engine c') = en_broker (s10_engine c)"
  using assms(3)
proof (cases rule: submit_trade_cases)
  case (rejected d l reason)
  then show ?thesis by (auto simp: aborted_result_def push_audit_def prepared_def)
next
  case (failed d l e)
  with assms(1) show ?thesis by simp
next
  case (forwarded d l snap r0 en)
  have "0 \<le> fs_sl_offset_pct snap" using assms(1,2) forwarded(6) by simp
  then have "blocked env snap (s10_engine d)" by (auto simp: blocked_def validate_preconditions_def)
  with execute_spec_any [OF forwarded(3)] have "er_status r0 = REJECTED" "en_broker en = en_broker (s10_engine d)"
    by (auto simp: execute_outcome_def)
  with settle_trade_spec [OF forwarded(8)] forwarded(1) show ?thesis
    by (auto simp: filled_stage_def prepared_def)
qed

theorem short_trades_never_filled_witness:
  "\<exists>r c'. submit_trade (demo_env filled_status [] 1000000) None (demo_intent\<lparr>ti_proposed_sl := 102, ti_proposed_tp := 96\<rparr>)
       (s10_init (demo_env filled_status [] 1000000) demo_engine demo_config) = Some (r, c') \<and>
     er_status r = REJECTED \<and> en_broker (s10_engine c') = []"
proof -
  let ?env = "demo_env filled_status [] 1000000"
  let ?i = "demo_intent\<lparr>ti_proposed_sl := 102, ti_proposed_tp := 96\<rparr>"
  obtain r c' where run: "submit_trade ?env None ?i (s10_init ?env demo_engine demo_config) = Some (r, c')"
    using submit_returns [OF demo_clock] by fastforce
  with short_trades_never_filled [OF _ _ run] show ?thesis
    by (simp add: demo_intent_def s10_init_def demo_engine_def engine_init_def)
qed

definition with_mode :: "bool \<Rightarrow> 'b stage10 \<Rightarrow> 'b stage10" where
  "with_mode b c = c\<lparr>s10_paper_mode := b\<rparr>"

lemma mode_start: "start_audit_log env i (with_mode b c) = map_prod id (with_mode b) (start_audit_log env i c)"
  by (simp add: start_audit_log_def s10_read_clock_def with_mode_def Let_def)

lemma mode_reset: "daily_reset env (with_mode b c) = with_mode b (daily_reset env c)"
  by (simp add: daily_reset_def s10_read_clock_def with_mode_def Let_def)

lemma mode_snapshot:
  "create_frozen_snapshot env i (with_mode b c) = map_prod id (with_mode b) (create_frozen_snapshot env i c)"
  by (simp add: create_frozen_snapshot_def s10_read_clock_def with_mode_def Let_def)

lemma mode_checks:
  "\<exists>checks. run_guardrail_checks health i (with_mode b c) = (checks, with_mode b (snd (run_guardrail_checks health i c))) \<and>
     failed_checks checks = failed_checks (fst (run_guardrail_checks health i c))"
  by (simp add: run_guardrail_checks_def with_mode_def Let_def failed_checks_def check_daily_max_trades_def
      check_per_symbol_max_trades_def check_daily_max_loss_def check_paper_live_mode_def pass_check_def)

text \<open>What an outside observer of a submission sees: the result, the engine and the counters.\<close>

definition visible :: "(execution_result \<times> 'b stage10) option \<Rightarrow> (execution_result \<times> 'b engine \<times> daily_counters) option" where
  "visible = map_option (\<lambda>(r, c). (r, s10_engine c, s10_counters c))"

lemma mode_frame [simp]:
  "s10_engine (with_mode b c) = s10_engine c" "s10_counters (with_mode b c) = s10_counters c"
  "s10_engine (push_audit l d) = s10_engine d" "s10_counters (push_audit l d) = s10_counters d"
  by (simp_all add: with_mode_def push_audit_def)

lemma visible_settle:
  "visible (Some (settle_trade i l r ((with_mode b c)\<lparr>s10_engine := en\<rparr>))) =
   visible (Some (settle_trade i l' r (c\<lparr>s10_engine := en\<rparr>)))"
  by (auto simp: visible_def settle_trade_def abort_trade_def push_audit_def with_mode_def Let_def
      split: prod.splits option.splits)

lemma visible_with_mode:
  "visible (submit_trade env health i (with_mode b c)) = visible (submit_trade env health i c)"
proof -
  obtain l c1 where a: "start_audit_log env i c = (l, c1)" by fastforce
  obtain checks c3 where k: "run_guardrail_checks health i (daily_reset env c1) = (checks, c3)" by fastforce
  obtain x c4 where f: "create_frozen_snapshot env i c3 = (x, c4)" by fastforce
  obtain checks' where k': "run_guardrail_checks health i (with_mode b (daily_reset env c1)) = (checks', with_mode b c3)"
    and same: "failed_checks checks' = failed_checks checks"
    using mode_checks [of health i b "daily_reset env c1"] k by auto
  show ?thesis
  proof (cases "failed_checks checks = []")
    case False
    then show ?thesis
      using a k k' same
      by (simp add: submit_trade_def Let_def mode_start mode_reset visible_def)
  next
    case True
    show ?thesis
    proof (cases x)
      case (Inl e)
      then show ?thesis
        using a k k' same f True
        by (simp add: submit_trade_def Let_def mode_start mode_reset mode_snapshot visible_def abort_trade_def)
    next
      case (Inr snap)
      show ?thesis
      proof (cases "execute env snap (s10_engine c4)")
        case None
        then show ?thesis
          using a k k' same f True Inr
          by (simp add: submit_trade_def Let_def mode_start mode_reset mode_snapshot visible_def)
      next
        case (Some p)
        obtain r en where "p = (r, en)" by fastforce
        with Some show ?thesis
          using a k k' same f True Inr visible_settle
          by (simp add: submit_trade_def Let_def mode_start mode_reset mode_snapshot) blast
      qed
    qed
  qed
qed

text \<open>Paper mode is only written into the text of a check: a submission in paper mode
  has the same result, makes the same calls to the broker of the engine (the same broker state is
  left) and counts the same as the submission in live mode.\<close>

theorem paper_mode_not_enforced:
  "map_option (\<lambda>(r, c'). (r, s10_engine c', s10_counters c')) (submit_trade env health i (enable_paper_mode c)) =
   map_option (\<lambda>(r, c'). (r, s10_engine c', s10_counters c')) (submit_trade env health i (disable_paper_mode c))"
proof -
  have "enable_paper_mode c = with_mode True c" "disable_paper_mode c = with_mode False c"
    by (simp_all add: enable_paper_mode_def disable_paper_mode_def with_mode_def)
  then show ?thesis using visible_with_mode [of env health i _ c] by (simp add: visible_def)
qed

text \<open>When the engine reports a fill with prices but without a filled size, the
  trade is counted and the broker holds the position, but the submission raises inside and its
  caller gets FAILED with an ABORTED audit entry.\<close>

theorem unsized_fill_reported_failed:
  assumes "settle_trade i l r0 c = (r, c')"
    and "filled_stage (er_status r0)" and "er_final_position_size r0 = None"
    and "er_final_fill_price r0 = Some p" and "er_final_sl r0 = Some sl" and "p \<noteq> 0" and "sl \<noteq> 0"
  shows "er_status r = FAILED \<and>
     dc_trades_executed (s10_counters c') = dc_trades_executed (s10_counters c) + 1 \<and>
     s10_engine c' = s10_engine c \<and>
     (\<exists>x. s10_audit_logs c' = s10_audit_logs c @ [x] \<and> sl_final_action x = ABORTED \<and>
          sl_execution_result x = Some r0)"
  using assms
  by (auto simp: settle_trade_def count_trade_def abort_trade_def push_audit_def aborted_result_def Let_def)

theorem unsized_fill_reported_failed_witness:
  "\<exists>r c'. settle_trade demo_intent (fst (start_audit_log (demo_env filled_status [] 1) demo_intent
        (s10_init (demo_env filled_status [] 1) demo_engine demo_config)))
      ((new_result ''I1'')\<lparr>er_status := FILLED, er_final_fill_price := Some 101, er_final_sl := Some 99\<rparr>)
      (s10_init (demo_env filled_status [] 1) demo_engine demo_config) = (r, c') \<and>
    er_status r = FAILED \<and> dc_trades_executed (s10_counters c') = 1"
proof -
  let ?c = "s10_init (demo_env filled_status [] 1) demo_engine demo_config"
  let ?l = "fst (start_audit_log (demo_env filled_status [] 1) demo_intent ?c)"
  let ?r0 = "(new_result ''I1'')\<lparr>er_status := FILLED, er_final_fill_price := Some 101, er_final_sl := Some 99\<rparr>"
  obtain r c' where run: "settle_trade demo_intent ?l ?r0 ?c = (r, c')" by fastforce
  from unsized_fill_reported_failed [OF run, of 101 99] run show ?thesis
    by (simp add: filled_stage_def new_result_def s10_init_def dc_new_def)
qed

end
