(* ===== verification/Approval.thy ===== *)
theory Approval
  imports Contracts
begin

text \<open>
  \<open>reasoner_service/human_approval_manager.py\<close>: the human decision on an advisory and the boundary
  that lets an advisory through.

  The three dictionaries and lists of \<open>HumanApprovalManager\<close> are the fields of \<open>approval_manager\<close>.
  A call of \<open>approve_advisory\<close> reads the clock three times (request, expiration check, receipt);
  the readings are arguments. The reasoning context is a dictionary of Python values; its
  "timeframe" is looked up as a dictionary key, which raises for a list or a dictionary.
\<close>

section \<open>Data\<close>

datatype approval_outcome = APPROVED | REJECTED | EXPIRED | INVALIDATED | PENDING

fun outcome_value :: "approval_outcome \<Rightarrow> string" where
  "outcome_value APPROVED = ''APPROVED''"
| "outcome_value REJECTED = ''REJECTED''"
| "outcome_value EXPIRED = ''EXPIRED''"
| "outcome_value INVALIDATED = ''INVALIDATED''"
| "outcome_value PENDING = ''PENDING''"

lemma outcome_value_inject [simp]: "outcome_value a = outcome_value b \<longleftrightarrow> a = b"
  by (cases a; cases b) simp_all

record advisory_snapshot =
  as_advisory_id :: string
  as_htf_bias :: string
  as_reasoning_mode :: string
  as_price :: rat
  as_expiration_timestamp :: "time option"
  as_created_at :: time
  as_reasoning_context :: pydict

record audit_entry =
  ae_advisory_id :: string
  ae_user_id :: string
  ae_timestamp_request :: time
  ae_timestamp_received :: time
  ae_state_snapshot :: advisory_snapshot
  ae_outcome :: approval_outcome
  ae_reason :: "string option"
  ae_request_duration_ms :: "rat option"

text \<open>\<open>to_dict\<close> calls \<open>isoformat\<close> on the expiration, which \<open>None\<close> does not have.\<close>

definition no_isoformat :: py_error where
  "no_isoformat = Raised ''AttributeError: NoneType object has no attribute isoformat''"

definition entry_to_dict :: "audit_entry \<Rightarrow> py_error + pydict" where
  "entry_to_dict x =
     (let s = ae_state_snapshot x in
      case as_expiration_timestamp s of
        None \<Rightarrow> Inl no_isoformat
      | Some expiration \<Rightarrow> Inr
         [(''advisory_id'', VStr (ae_advisory_id x)), (''user_id'', VStr (ae_user_id x)),
          (''timestamp_request'', VIso (ae_timestamp_request x)),
          (''timestamp_received'', VIso (ae_timestamp_received x)),
          (''state_snapshot'', VDict
             [(''advisory_id'', VStr (as_advisory_id s)), (''htf_bias'', VStr (as_htf_bias s)),
              (''reasoning_mode'', VStr (as_reasoning_mode s)), (''price'', VFloat (as_price s)),
              (''expiration_timestamp'', VIso expiration), (''created_at'', VIso (as_created_at s))]),
          (''outcome'', VStr (outcome_value (ae_outcome x))), (''reason'', opt_str (ae_reason x)),
          (''request_duration_ms'', opt_float (ae_request_duration_ms x))])"

section \<open>The manager\<close>

record approval_manager =
  am_approvals :: "string \<rightharpoonup> advisory_snapshot"
  am_outcomes :: "string \<rightharpoonup> approval_outcome"
  am_audit_log :: "audit_entry list"
  am_durations :: "(string \<times> int) list"

definition default_durations :: "(string \<times> int) list" where
  "default_durations =
    [(''1M'', 60), (''5M'', 300), (''15M'', 900), (''1H'', 3600), (''4H'', 14400), (''1D'', 86400)]"

text \<open>\<open>timeframe_candle_durations or {...}\<close>: a missing and an empty dictionary give the default.\<close>

definition am_init :: "(string \<times> int) list option \<Rightarrow> approval_manager" where
  "am_init durations =
    \<lparr>am_approvals = Map.empty, am_outcomes = Map.empty, am_audit_log = [],
     am_durations = (case durations of None \<Rightarrow> default_durations
                     | Some d \<Rightarrow> if d = [] then default_durations else d)\<rparr>"

fun hashable :: "pyval \<Rightarrow> bool" where
  "hashable (VList xs) = False"
| "hashable (VDict d) = False"
| "hashable v = True"

definition candle_duration :: "(string \<times> int) list \<Rightarrow> pyval \<Rightarrow> py_error + int" where
  "candle_duration durations timeframe =
     (if \<not> hashable timeframe then Inl (TypeError [T ''unhashable type''])
      else Inr (case timeframe of VStr s \<Rightarrow> dget s durations 14400 | _ \<Rightarrow> 14400))"

definition stage7_expiration_check ::
    "time \<Rightarrow> (string \<times> int) list \<Rightarrow> advisory_snapshot \<Rightarrow> py_error + bool" where
  "stage7_expiration_check now_utc durations s =
     (case candle_duration durations (dget ''timeframe'' (as_reasoning_context s) (VStr ''4H'')) of
        Inl e \<Rightarrow> Inl e
      | Inr candle_duration_seconds \<Rightarrow>
          (case as_expiration_timestamp s of
             None \<Rightarrow> Inl (TypeError [T ''> not supported between datetime and NoneType''])
           | Some expiration \<Rightarrow> Inr (now_utc > expiration)))"

definition log_audit_entry :: "audit_entry \<Rightarrow> approval_manager \<Rightarrow> approval_manager" where
  "log_audit_entry x m = m\<lparr>am_audit_log := am_audit_log m @ [x]\<rparr>"

definition approve_advisory ::
    "time \<Rightarrow> time \<Rightarrow> time \<Rightarrow> advisory_snapshot \<Rightarrow> string \<Rightarrow> bool \<Rightarrow> string option \<Rightarrow> approval_manager \<Rightarrow>
     (py_error + approval_outcome) \<times> approval_manager" where
  "approve_advisory t_request t_check t_received s user_id approve reason m =
     (if as_advisory_id s = [] then (Inl (ValueError [T ''snapshot advisory_id is required'']), m)
      else if as_htf_bias s = [] then (Inl (ValueError [T ''snapshot htf_bias is required'']), m)
      else if as_reasoning_mode s = [] then
        (Inl (ValueError [T ''snapshot reasoning_mode is required'']), m)
      else if as_expiration_timestamp s = None then
        (Inl (ValueError [T ''snapshot expiration_timestamp is required'']), m)
      else case stage7_expiration_check t_check (am_durations m) s of
        Inl e \<Rightarrow> (Inl e, m)
      | Inr True \<Rightarrow>
          (Inr EXPIRED, log_audit_entry
             \<lparr>ae_advisory_id = as_advisory_id s, ae_user_id = user_id,
              ae_timestamp_request = t_request, ae_timestamp_received = t_received,
              ae_state_snapshot = s, ae_outcome = EXPIRED,
              ae_reason = Some ''Advisory expired per Stage 7 expiration rules'',
              ae_request_duration_ms = None\<rparr> m)
      | Inr False \<Rightarrow>
          (let outcome = (if approve then APPROVED else REJECTED);
               m1 = (if approve
                     then m\<lparr>am_approvals := (am_approvals m)(as_advisory_id s \<mapsto> s)\<rparr> else m);
               entry = \<lparr>ae_advisory_id = as_advisory_id s, ae_user_id = user_id,
                 ae_timestamp_request = t_request, ae_timestamp_received = t_received,
                 ae_state_snapshot = s, ae_outcome = outcome, ae_reason = reason,
                 ae_request_duration_ms =
                   Some (of_int (t_received - t_request) / 1000000 * 1000)\<rparr>;
               m2 = m1\<lparr>am_outcomes := (am_outcomes m1)(as_advisory_id s \<mapsto> outcome)\<rparr>
           in (Inr outcome, log_audit_entry entry m2)))"

definition execute_if_approved :: "time \<Rightarrow> string \<Rightarrow> approval_manager \<Rightarrow> py_error + bool" where
  "execute_if_approved now_utc advisory_id m =
     (case am_outcomes m advisory_id of
        None \<Rightarrow> Inr False
      | Some outcome \<Rightarrow>
          if outcome \<noteq> APPROVED then Inr False
          else (case am_approvals m advisory_id of
                  None \<Rightarrow> Inr False
                | Some s \<Rightarrow>
                    (case stage7_expiration_check now_utc (am_durations m) s of
                       Inl e \<Rightarrow> Inl e
                     | Inr True \<Rightarrow> Inr False
                     | Inr False \<Rightarrow> Inr True)))"

definition is_approval_valid :: "time \<Rightarrow> string \<Rightarrow> approval_manager \<Rightarrow> py_error + bool" where
  "is_approval_valid now_utc advisory_id m =
     (if am_outcomes m advisory_id \<noteq> Some APPROVED then Inr False
      else case am_approvals m advisory_id of
        None \<Rightarrow> Inr False
      | Some s \<Rightarrow> map_sum id Not (stage7_expiration_check now_utc (am_durations m) s))"

text \<open>A list comprehension over a function that may raise.\<close>

fun collect :: "('a \<Rightarrow> py_error + 'b) \<Rightarrow> 'a list \<Rightarrow> py_error + 'b list" where
  "collect f [] = Inr []"
| "collect f (x # xs) =
     (case f x of Inl e \<Rightarrow> Inl e
      | Inr y \<Rightarrow> (case collect f xs of Inl e \<Rightarrow> Inl e | Inr ys \<Rightarrow> Inr (y # ys)))"

definition get_audit_trail :: "string option \<Rightarrow> approval_manager \<Rightarrow> py_error + pydict list" where
  "get_audit_trail advisory_id m =
     (case advisory_id of
        None \<Rightarrow> collect entry_to_dict (am_audit_log m)
      | Some i \<Rightarrow> collect entry_to_dict (filter (\<lambda>x. ae_advisory_id x = i) (am_audit_log m)))"

section \<open>Calls as steps\<close>

datatype approval_call = Decide (dc_request: time) (dc_check: time) (dc_received: time)
  (dc_snapshot: advisory_snapshot) (dc_user: string) (dc_approve: bool) (dc_reason: "string option")

fun am_exec :: "approval_call \<Rightarrow> approval_manager \<Rightarrow> (py_error + approval_outcome) \<times> approval_manager" where
  "am_exec (Decide tr tc tv s u a why) m = approve_advisory tr tc tv s u a why m"

definition am_step :: "approval_call \<Rightarrow> approval_manager \<Rightarrow> approval_manager" where
  "am_step c m = snd (am_exec c m)"

text \<open>Which calls complete, and which of them decide (neither raising nor too late).\<close>

definition well_formed_call :: "approval_call \<Rightarrow> bool" where
  "well_formed_call c \<longleftrightarrow>
     (let s = dc_snapshot c in
      as_advisory_id s \<noteq> [] \<and> as_htf_bias s \<noteq> [] \<and> as_reasoning_mode s \<noteq> [] \<and>
      as_expiration_timestamp s \<noteq> None \<and>
      hashable (dget ''timeframe'' (as_reasoning_context s) (VStr ''4H'')))"

fun in_time :: "time \<Rightarrow> advisory_snapshot \<Rightarrow> bool" where
  "in_time t s = (case as_expiration_timestamp s of None \<Rightarrow> False | Some x \<Rightarrow> t \<le> x)"

definition deciding :: "approval_call \<Rightarrow> bool" where
  "deciding c \<longleftrightarrow> well_formed_call c \<and> in_time (dc_check c) (dc_snapshot c)"

definition call_id :: "approval_call \<Rightarrow> string" where
  "call_id c = as_advisory_id (dc_snapshot c)"

section \<open>What one call does\<close>

lemma stage7_check:
  "stage7_expiration_check t d s =
     (if \<not> hashable (dget ''timeframe'' (as_reasoning_context s) (VStr ''4H''))
      then Inl (TypeError [T ''unhashable type''])
      else case as_expiration_timestamp s of
        None \<Rightarrow> Inl (TypeError [T ''> not supported between datetime and NoneType''])
      | Some x \<Rightarrow> Inr (x < t))"
  by (simp add: stage7_expiration_check_def candle_duration_def)

text \<open>The candle duration is looked up and does not enter the decision.\<close>

lemma stage7_ignores_durations:
  "stage7_expiration_check t d s = stage7_expiration_check t d' s"
  by (simp add: stage7_check)

lemma am_exec_raises: "\<not> well_formed_call c \<Longrightarrow> (\<exists>e. fst (am_exec c m) = Inl e) \<and> am_step c m = m"
  by (cases c)
     (auto simp: am_step_def approve_advisory_def well_formed_call_def Let_def stage7_check
        split: option.splits)

lemma am_exec_expired:
  assumes "well_formed_call c" and "\<not> deciding c"
  shows "fst (am_exec c m) = Inr EXPIRED \<and> am_approvals (am_step c m) = am_approvals m \<and>
     am_outcomes (am_step c m) = am_outcomes m \<and>
     (\<exists>x. am_audit_log (am_step c m) = am_audit_log m @ [x] \<and> ae_outcome x = EXPIRED \<and>
          ae_state_snapshot x = dc_snapshot c)"
  using assms
  by (cases c)
     (auto simp: am_step_def approve_advisory_def well_formed_call_def deciding_def Let_def
        stage7_check log_audit_entry_def)

lemma am_exec_decides:
  assumes "deciding c"
  shows "fst (am_exec c m) = Inr (if dc_approve c then APPROVED else REJECTED) \<and>
     am_outcomes (am_step c m) = (am_outcomes m)(call_id c \<mapsto> (if dc_approve c then APPROVED else REJECTED)) \<and>
     am_approvals (am_step c m) =
       (if dc_approve c then (am_approvals m)(call_id c \<mapsto> dc_snapshot c) else am_approvals m) \<and>
     (\<exists>x. am_audit_log (am_step c m) = am_audit_log m @ [x] \<and>
          ae_outcome x = (if dc_approve c then APPROVED else REJECTED) \<and>
          ae_state_snapshot x = dc_snapshot c)"
  using assms
  by (cases c)
     (auto simp: am_step_def approve_advisory_def well_formed_call_def deciding_def Let_def
        stage7_check log_audit_entry_def call_id_def split: option.splits)

interpretation apl: append_only am_step am_audit_log
proof
  fix c m
  show "prefix (am_audit_log m) (am_audit_log (am_step c m))"
    using am_exec_raises [of c m] am_exec_expired [of c m] am_exec_decides [of c m]
    by (cases "well_formed_call c"; cases "deciding c") auto
qed

section \<open>Runs of calls\<close>

text \<open>The abstract state: the latest call that decided an advisory.\<close>

definition latest_decision :: "string \<Rightarrow> approval_call list \<Rightarrow> approval_call option" where
  "latest_decision i cs = find (\<lambda>c. deciding c \<and> call_id c = i) (rev cs)"

lemma latest_snoc:
  "latest_decision i (cs @ [c]) = (if deciding c \<and> call_id c = i then Some c else latest_decision i cs)"
  by (simp add: latest_decision_def)

lemma latest_deciding: "latest_decision i cs = Some c \<Longrightarrow> deciding c \<and> call_id c = i \<and> c \<in> set cs"
  by (auto simp: latest_decision_def dest: find_SomeD)

lemma am_step_frame: "\<not> deciding c \<Longrightarrow> am_outcomes (am_step c m) = am_outcomes m \<and> am_approvals (am_step c m) = am_approvals m"
  using am_exec_raises [of c m] am_exec_expired [of c m] by (cases "well_formed_call c") auto

lemma run_state:
  "am_outcomes (fold am_step cs (am_init d)) i =
     map_option (\<lambda>c. if dc_approve c then APPROVED else REJECTED) (latest_decision i cs) \<and>
   (\<forall>c. latest_decision i cs = Some c \<longrightarrow> dc_approve c \<longrightarrow>
      am_approvals (fold am_step cs (am_init d)) i = Some (dc_snapshot c))"
proof (induction cs rule: rev_induct)
  case Nil
  show ?case by (simp add: latest_decision_def am_init_def)
next
  case (snoc c cs)
  then show ?case
    using am_step_frame [of c "fold am_step cs (am_init d)"]
      am_exec_decides [of c "fold am_step cs (am_init d)"]
    by (cases "deciding c") (auto simp: latest_snoc)
qed

lemma run_log:
  "length (am_audit_log (fold am_step cs m)) = length (am_audit_log m) + length (filter well_formed_call cs)"
proof (induction cs arbitrary: m)
  case (Cons c cs)
  then show ?case
    using am_exec_raises [of c m] am_exec_expired [of c m] am_exec_decides [of c m]
    by (cases "well_formed_call c"; cases "deciding c") (auto simp: deciding_def)
qed simp

lemma run_log_dated:
  "(\<forall>x\<in>set (am_audit_log m). as_expiration_timestamp (ae_state_snapshot x) \<noteq> None) \<Longrightarrow>
   x \<in> set (am_audit_log (fold am_step cs m)) \<Longrightarrow> as_expiration_timestamp (ae_state_snapshot x) \<noteq> None"
proof (induction cs arbitrary: m)
  case (Cons c cs)
  have "\<forall>x\<in>set (am_audit_log (am_step c m)). as_expiration_timestamp (ae_state_snapshot x) \<noteq> None"
    using Cons.prems(1) am_exec_raises [of c m] am_exec_expired [of c m] am_exec_decides [of c m]
    by (cases "well_formed_call c"; cases "deciding c") (fastforce simp: well_formed_call_def Let_def deciding_def)+
  with Cons show ?case by simp
qed simp

lemma collect_total: "(\<And>x. x \<in> set xs \<Longrightarrow> \<exists>y. f x = Inr y) \<Longrightarrow> \<exists>ys. collect f xs = Inr ys \<and> length ys = length xs"
proof (induction xs)
  case (Cons x xs)
  then obtain y ys where "f x = Inr y" "collect f xs = Inr ys" "length ys = length xs"
    by (metis list.set_intros)
  then show ?case by simp
qed simp

section \<open>Properties\<close>

text \<open>C13: after any sequence of approval calls, an advisory passes the execution
  boundary exactly when the latest call that decided it (well formed, and made before the
  expiration) approved it and the snapshot given to that call has not expired by now. There is no
  other way through: no decision, a rejection as the latest decision, or an expired snapshot
  blocks, and the boundary never raises.\<close>

theorem execution_boundary_latest_decision:
  "execute_if_approved t i (fold am_step cs (am_init d)) =
     Inr (case latest_decision i cs of
            None \<Rightarrow> False
          | Some c \<Rightarrow> dc_approve c \<and> in_time t (dc_snapshot c))"
proof (cases "latest_decision i cs")
  case None
  with run_state [of cs d i] show ?thesis by (simp add: execute_if_approved_def)
next
  case (Some c)
  with latest_deciding [OF Some] run_state [of cs d i] show ?thesis
    by (auto simp: execute_if_approved_def stage7_check deciding_def well_formed_call_def Let_def
        split: option.splits bool.splits)
qed

text \<open>The query \<open>is_approval_valid\<close> gives the same answer, or the same exception, as the
  execution boundary in every state of the manager.\<close>

theorem approval_check_agrees:
  "is_approval_valid t i m = execute_if_approved t i m"
  by (auto simp: is_approval_valid_def execute_if_approved_def split: option.splits sum.splits bool.splits)

text \<open>A decision on an advisory that has expired by the time of the check, be
  it an approval or a rejection, returns EXPIRED and leaves approvals and outcomes as they were; a
  call whose snapshot lacks a field raises and leaves the whole manager as it was.\<close>

theorem expired_decision_changes_nothing:
  "if well_formed_call c then
     (\<not> in_time (dc_check c) (dc_snapshot c) \<longrightarrow>
        fst (am_exec c m) = Inr EXPIRED \<and> am_approvals (am_step c m) = am_approvals m \<and>
        am_outcomes (am_step c m) = am_outcomes m)
   else (\<exists>e. fst (am_exec c m) = Inl e) \<and> am_step c m = m"
  using am_exec_raises [of c m] am_exec_expired [of c m] by (auto simp: deciding_def)

definition demo_decision :: "bool \<Rightarrow> time \<Rightarrow> approval_call" where
  "demo_decision b t = Decide t t t
    \<lparr>as_advisory_id = ''A1'', as_htf_bias = ''BIAS_UP'', as_reasoning_mode = ''entry_evaluation'',
     as_price = 2000, as_expiration_timestamp = Some 100, as_created_at = 0,
     as_reasoning_context = []\<rparr> ''trader'' b None"

theorem expired_decision_changes_nothing_witness:
  "fst (am_exec (demo_decision True 101) (am_init None)) = Inr EXPIRED \<and>
   am_outcomes (am_step (demo_decision True 101) (am_init None)) = Map.empty"
  using expired_decision_changes_nothing [of "demo_decision True 101" "am_init None"]
  by (simp add: demo_decision_def well_formed_call_def Let_def dget_def am_init_def)

text \<open>From a fresh manager, the audit trail can always be rendered, holds one entry per
  call that did not raise, and an entry once written is never changed or removed by later calls.\<close>

theorem approval_trail_complete:
  assumes "i < length (am_audit_log (fold am_step cs (am_init d)))"
  shows "am_audit_log (fold am_step (cs @ cs') (am_init d)) ! i = am_audit_log (fold am_step cs (am_init d)) ! i \<and>
     (\<exists>ys. get_audit_trail None (fold am_step (cs @ cs') (am_init d)) = Inr ys \<and>
           length ys = length (filter well_formed_call (cs @ cs')))"
proof -
  let ?m = "fold am_step (cs @ cs') (am_init d)"
  have "\<exists>ys. collect entry_to_dict (am_audit_log ?m) = Inr ys \<and> length ys = length (am_audit_log ?m)"
  proof (rule collect_total)
    fix x assume "x \<in> set (am_audit_log ?m)"
    then have "as_expiration_timestamp (ae_state_snapshot x) \<noteq> None"
      by (rule run_log_dated [rotated]) (simp add: am_init_def)
    then show "\<exists>y. entry_to_dict x = Inr y" by (auto simp: entry_to_dict_def Let_def)
  qed
  then have "\<exists>ys. get_audit_trail None ?m = Inr ys \<and> length ys = length (filter well_formed_call (cs @ cs'))"
    using run_log [of "cs @ cs'" "am_init d"] by (auto simp: get_audit_trail_def am_init_def)
  then show ?thesis using apl.run_entry_stable [OF assms, of cs'] by simp
qed

theorem approval_trail_complete_witness:
  "am_audit_log (fold am_step ([demo_decision True 1] @ [demo_decision False 2]) (am_init None)) ! 0 =
   am_audit_log (fold am_step [demo_decision True 1] (am_init None)) ! 0"
proof -
  have "0 < length (am_audit_log (fold am_step [demo_decision True 1] (am_init None)))"
    by (subst run_log) (simp add: demo_decision_def well_formed_call_def Let_def dget_def)
  from approval_trail_complete [OF this, THEN conjunct1] show ?thesis .
qed

end
