(* ===== verification/Mode_Selector.thy ===== *)
theory Mode_Selector
  imports Prelude
begin

text \<open>
  \<open>reasoner_service/reasoning_mode_selector.py\<close>: the one reasoning mode of a decision cycle.

  Python does not check the argument types, and the code does; so the arguments are values of
  \<open>mode_value\<close>: a member of the enumeration (which is also a string), a plain string, a boolean, or
  anything else, with the name of its type.
\<close>

datatype htf_bias_state = UNDEFINED | BIAS_UP | BIAS_DOWN | BIAS_NEUTRAL | INVALIDATED

fun bias_value :: "htf_bias_state \<Rightarrow> string" where
  "bias_value UNDEFINED = ''undefined''"
| "bias_value BIAS_UP = ''bias_up''"
| "bias_value BIAS_DOWN = ''bias_down''"
| "bias_value BIAS_NEUTRAL = ''bias_neutral''"
| "bias_value INVALIDATED = ''invalidated''"

definition all_biases :: "htf_bias_state list" where
  "all_biases = [UNDEFINED, BIAS_UP, BIAS_DOWN, BIAS_NEUTRAL, INVALIDATED]"

text \<open>\<open>HTFBiasState(s)\<close>: the member with the value, or a \<open>ValueError\<close>.\<close>

definition bias_of :: "string \<Rightarrow> htf_bias_state option" where
  "bias_of s = find (\<lambda>b. bias_value b = s) all_biases"

lemma bias_value_inject [simp]: "bias_value a = bias_value b \<longleftrightarrow> a = b"
  by (cases a; cases b) simp_all

lemma bias_of_value: "bias_of (bias_value b) = Some b"
  by (cases b) (simp_all add: bias_of_def all_biases_def)

lemma bias_of_Some: "bias_of s = Some b \<longleftrightarrow> s = bias_value b"
  by (auto simp: bias_of_value) (auto simp: bias_of_def dest: find_SomeD)

datatype mode_value = MBias htf_bias_state | MStr string | MBool bool | MOther string

fun type_name :: "mode_value \<Rightarrow> string" where
  "type_name (MBias b) = ''<enum '' @ quoted ''HTFBiasState'' @ ''>''"
| "type_name (MStr s) = ''<class '' @ quoted ''str'' @ ''>''"
| "type_name (MBool b) = ''<class '' @ quoted ''bool'' @ ''>''"
| "type_name (MOther n) = ''<class '' @ quoted n @ ''>''"

record mode_result =
  mr_mode :: "string option"
  mr_reason :: fstring
  mr_error :: "string option"

definition mode_result_of :: "string \<Rightarrow> fstring \<Rightarrow> mode_result" where
  "mode_result_of mode reason = \<lparr>mr_mode = Some mode, mr_reason = reason, mr_error = None\<rparr>"

definition valid_bias_states :: "htf_bias_state list" where
  "valid_bias_states = [BIAS_UP, BIAS_DOWN, BIAS_NEUTRAL]"

definition invalid_bias_states :: "htf_bias_state list" where
  "invalid_bias_states = [UNDEFINED, INVALIDATED]"

definition select_mode :: "mode_value \<Rightarrow> mode_value \<Rightarrow> py_error + mode_result" where
  "select_mode htf_bias_state position_open =
     (case htf_bias_state of
        MBias b \<Rightarrow>
          (case position_open of
             MBool opened \<Rightarrow>
               if b \<in> set invalid_bias_states then Inr (mode_result_of ''bias_evaluation''
                 [T ''HTF bias state is '', T (bias_value b), T ''; '',
                  T ''bias evaluation required before entry evaluation.''])
               else if b \<in> set valid_bias_states \<and> \<not> opened then Inr (mode_result_of ''entry_evaluation''
                 [T ''HTF bias is '', T (bias_value b), T ''; '',
                  T ''no position open; ready for entry evaluation.''])
               else if opened then Inr (mode_result_of ''trade_management''
                 [T ''Position is open; trade management mode selected '', T ''(HTF bias: '',
                  T (bias_value b), T '').''])
               else Inl (ModeSelectionError
                 [T ''Unresolvable state: HTF bias='', T (bias_value b), T '', position_open=False. '',
                  T ''This should not occur with valid inputs.''])
           | other \<Rightarrow> Inl (ModeSelectionError
               [T ''Invalid position_open type: '', T (type_name other), T ''. Must be bool.'']))
      | other \<Rightarrow> Inl (ModeSelectionError
          [T ''Invalid HTF bias state type: '', T (type_name other), T ''. '',
           T ''Must be HTFBiasState enum value.'']))"

definition missing_key :: "string \<Rightarrow> py_error" where
  "missing_key k = ModeSelectionError
     [T ''Missing required key in state dict: '', T (quoted k), T ''. '',
      T ''Must have 'htf_bias_state' and 'position_open'.'']"

definition select_mode_from_dict :: "(string \<times> mode_value) list \<Rightarrow> py_error + mode_result" where
  "select_mode_from_dict d =
     (case map_of d ''htf_bias_state'' of
        None \<Rightarrow> Inl (missing_key ''htf_bias_state'')
      | Some h \<Rightarrow>
          (case map_of d ''position_open'' of
             None \<Rightarrow> Inl (missing_key ''position_open'')
           | Some p \<Rightarrow>
               (case h of
                  MStr s \<Rightarrow>
                    (case bias_of s of
                       None \<Rightarrow> Inl (ModeSelectionError
                         (T ''Invalid HTF bias state string: '' # T (quoted s) # T ''. Valid values: '' #
                          join_parts [T '', ''] (map (\<lambda>b. [T (bias_value b)]) all_biases)))
                     | Some b \<Rightarrow> select_mode (MBias b) p)
                | _ \<Rightarrow> select_mode h p)))"

section \<open>Properties\<close>

text \<open>The specification: a table, and an error for everything the table does not cover.\<close>

fun mode_table :: "htf_bias_state \<Rightarrow> bool \<Rightarrow> string" where
  "mode_table b opened =
     (if b = UNDEFINED \<or> b = INVALIDATED then ''bias_evaluation''
      else if opened then ''trade_management'' else ''entry_evaluation'')"

fun mode_of :: "py_error + mode_result \<Rightarrow> string option" where
  "mode_of (Inl e) = None"
| "mode_of (Inr r) = mr_mode r"

lemma select_mode_table: "mode_of (select_mode (MBias b) (MBool p)) = Some (mode_table b p)"
  by (cases b) (auto simp: select_mode_def valid_bias_states_def invalid_bias_states_def mode_result_of_def)

text \<open>For every bias state and either position flag exactly the mode of the table is
  selected (the branch for unresolvable states is never taken), and every other pair of arguments
  raises a \<open>ModeSelectionError\<close> and selects nothing.\<close>

theorem mode_selection_total:
  "(\<forall>b p. mode_of (select_mode (MBias b) (MBool p)) = Some (mode_table b p)) \<and>
   (\<forall>h q. (\<exists>b p. h = MBias b \<and> q = MBool p) \<or> (\<exists>m. select_mode h q = Inl (ModeSelectionError m)))"
proof (intro conjI allI)
  fix h q
  show "(\<exists>b p. h = MBias b \<and> q = MBool p) \<or> (\<exists>m. select_mode h q = Inl (ModeSelectionError m))"
    by (cases h; cases q) (auto simp: select_mode_def)
qed (rule select_mode_table)

text \<open>Selecting from a dictionary agrees with the table when the bias is an enumeration
  member or the value string of one, and otherwise raises \<open>ModeSelectionError\<close>: a missing key too
  gives that error and never a \<open>KeyError\<close>.\<close>

theorem mode_from_dict:
  "(\<forall>b p d. select_mode_from_dict ((''htf_bias_state'', MStr (bias_value b)) # (''position_open'', MBool p) # d) =
        select_mode (MBias b) (MBool p)) \<and>
   (\<forall>b p d. select_mode_from_dict ((''htf_bias_state'', MBias b) # (''position_open'', MBool p) # d) =
        select_mode (MBias b) (MBool p)) \<and>
   (\<forall>d. (\<exists>r. select_mode_from_dict d = Inr r) \<or> (\<exists>m. select_mode_from_dict d = Inl (ModeSelectionError m)))"
proof (intro conjI allI)
  fix d :: "(string \<times> mode_value) list"
  have total: "(\<exists>r. select_mode h q = Inr r) \<or> (\<exists>m. select_mode h q = Inl (ModeSelectionError m))" for h q
    by (cases h; cases q) (auto simp: select_mode_def)
  show "(\<exists>r. select_mode_from_dict d = Inr r) \<or> (\<exists>m. select_mode_from_dict d = Inl (ModeSelectionError m))"
    using total by (simp add: select_mode_from_dict_def missing_key_def split: option.splits mode_value.splits)
qed (simp_all add: select_mode_from_dict_def bias_of_value)

end
