(* ===== verification/Governance.thy ===== *)
theory Governance
  imports Prelude
begin

text \<open>
  \<open>reasoner_service/trade_governance_service.py\<close>: would a hypothetical trade comply with the risk
  rules, given the outcomes registered so far.

  An outcome is the dictionary entries the rules read: symbol and timeframe are strings or absent,
  the timestamp is already parsed (\<open>None\<close> for an absent or unreadable one), all times are in UTC;
  the "pnl" entry is absent, a number, or a value that is not a number (\<open>None\<close>). Each helper of the
  source catches every exception and returns a neutral value; that is a branch here as well.
\<close>

datatype pnl_entry = No_Pnl | Pnl rat | Bad_Pnl

record gov_outcome =
  go_symbol :: "string option"
  go_timeframe :: "string option"
  go_time :: "time option"
  go_pnl :: pnl_entry

record governance =
  gv_max_trades_per_day :: int
  gv_max_daily_loss :: rat
  gv_killzone_hours :: "(int \<times> int) list"
  gv_cooldown_minutes_after_loss :: int
  gv_max_trades_per_symbol :: int
  gv_max_trades_per_timeframe :: int
  gv_min_trade_spacing_minutes :: int
  gv_outcomes :: "gov_outcome list"

definition gv_default :: governance where
  "gv_default =
    \<lparr>gv_max_trades_per_day = 5, gv_max_daily_loss = 500, gv_killzone_hours = [],
     gv_cooldown_minutes_after_loss = 30, gv_max_trades_per_symbol = 3,
     gv_max_trades_per_timeframe = 4, gv_min_trade_spacing_minutes = 5, gv_outcomes = []\<rparr>"

text \<open>\<open>add_outcomes\<close> replaces the registered outcomes; a value that is not a list is ignored.\<close>

definition add_outcomes :: "gov_outcome list option \<Rightarrow> governance \<Rightarrow> governance" where
  "add_outcomes outcomes g =
     (case outcomes of None \<Rightarrow> g | Some xs \<Rightarrow> g\<lparr>gv_outcomes := xs\<rparr>)"

text \<open>\<open>.date()\<close> and \<open>.hour\<close> of a UTC time.\<close>

definition date_of :: "time \<Rightarrow> int" where
  "date_of t = t div 86400000000"

definition hour_of :: "time \<Rightarrow> int" where
  "hour_of t = (t div 3600000000) mod 24"

section \<open>The helpers\<close>

definition same_day :: "time \<Rightarrow> gov_outcome \<Rightarrow> bool" where
  "same_day ref x = (case go_time x of None \<Rightarrow> False | Some t \<Rightarrow> date_of t = date_of ref)"

fun count_where :: "('a \<Rightarrow> bool) \<Rightarrow> 'a list \<Rightarrow> int" where
  "count_where p [] = 0"
| "count_where p (x # xs) = (if p x then 1 else 0) + count_where p xs"

definition count_daily_trades :: "time \<Rightarrow> governance \<Rightarrow> int" where
  "count_daily_trades ref g = count_where (same_day ref) (gv_outcomes g)"

fun add_daily_pnl :: "time \<Rightarrow> gov_outcome list \<Rightarrow> rat \<Rightarrow> rat option" where
  "add_daily_pnl ref [] acc = Some acc"
| "add_daily_pnl ref (x # xs) acc =
     (if same_day ref x then
        (case go_pnl x of
           No_Pnl \<Rightarrow> add_daily_pnl ref xs (acc + 0)
         | Pnl v \<Rightarrow> add_daily_pnl ref xs (acc + v)
         | Bad_Pnl \<Rightarrow> None)
      else add_daily_pnl ref xs acc)"

definition calculate_daily_loss :: "time \<Rightarrow> governance \<Rightarrow> rat" where
  "calculate_daily_loss ref g =
     (case add_daily_pnl ref (gv_outcomes g) 0 of None \<Rightarrow> 0 | Some x \<Rightarrow> x)"

fun in_zone :: "int \<Rightarrow> int \<times> int \<Rightarrow> bool" where
  "in_zone hour (start_hour, end_hour) =
     (if start_hour \<le> end_hour then start_hour \<le> hour \<and> hour < end_hour
      else hour \<ge> start_hour \<or> hour < end_hour)"

definition is_in_killzone :: "time \<Rightarrow> governance \<Rightarrow> bool" where
  "is_in_killzone t g \<longleftrightarrow> list_ex (in_zone (hour_of t)) (gv_killzone_hours g)"

fun last_loss_loop :: "time \<Rightarrow> gov_outcome list \<Rightarrow> time option \<Rightarrow> time option option" where
  "last_loss_loop ref [] latest = Some latest"
| "last_loss_loop ref (x # xs) latest =
     (case go_time x of
        None \<Rightarrow> last_loss_loop ref xs latest
      | Some t \<Rightarrow>
          if t \<ge> ref then last_loss_loop ref xs latest
          else (case go_pnl x of
                  Bad_Pnl \<Rightarrow> None
                | No_Pnl \<Rightarrow> last_loss_loop ref xs latest
                | Pnl v \<Rightarrow>
                    last_loss_loop ref xs
                      (if v < 0 \<and> (case latest of None \<Rightarrow> True | Some l \<Rightarrow> t > l) then Some t else latest)))"

definition find_last_loss_time :: "time \<Rightarrow> governance \<Rightarrow> time option" where
  "find_last_loss_time ref g =
     (case last_loss_loop ref (gv_outcomes g) None of None \<Rightarrow> None | Some r \<Rightarrow> r)"

definition count_daily_symbol_trades :: "string \<Rightarrow> time \<Rightarrow> governance \<Rightarrow> int" where
  "count_daily_symbol_trades traded ref g =
     count_where (\<lambda>x. same_day ref x \<and> (case go_symbol x of None \<Rightarrow> [] | Some s \<Rightarrow> s) = traded) (gv_outcomes g)"

definition count_daily_timeframe_trades :: "string \<Rightarrow> time \<Rightarrow> governance \<Rightarrow> int" where
  "count_daily_timeframe_trades tf ref g =
     count_where (\<lambda>x. same_day ref x \<and> (case go_timeframe x of None \<Rightarrow> [] | Some s \<Rightarrow> s) = tf) (gv_outcomes g)"

fun last_trade_loop :: "time \<Rightarrow> gov_outcome list \<Rightarrow> time option \<Rightarrow> time option" where
  "last_trade_loop ref [] latest = latest"
| "last_trade_loop ref (x # xs) latest =
     (case go_time x of
        None \<Rightarrow> last_trade_loop ref xs latest
      | Some t \<Rightarrow>
          if t \<ge> ref then last_trade_loop ref xs latest
          else last_trade_loop ref xs
                 (if (case latest of None \<Rightarrow> True | Some l \<Rightarrow> t > l) then Some t else latest))"

definition find_last_trade_time :: "time \<Rightarrow> governance \<Rightarrow> time option" where
  "find_last_trade_time ref g = last_trade_loop ref (gv_outcomes g) None"

section \<open>The report\<close>

record gov_report =
  gr_allowed :: bool
  gr_violations :: "fstring list"
  gr_explanation :: fstring
  gr_evaluated_at :: time

definition create_error_report :: "time \<Rightarrow> fstring \<Rightarrow> gov_report" where
  "create_error_report now msg =
    \<lparr>gr_allowed = False, gr_violations = [msg], gr_explanation = T ''Evaluation error: '' # msg,
     gr_evaluated_at = now\<rparr>"

text \<open>The status line: the counts and the day's result. The bullet of the source is written \<open>*\<close>.\<close>

definition status_line :: "int \<Rightarrow> rat \<Rightarrow> governance \<Rightarrow> fstring" where
  "status_line daily_trades daily_loss g =
     [T ''Status: '', I daily_trades, T ''/'', I (gv_max_trades_per_day g), T '' daily trades. '',
      T ''Daily PnL: $'', F daily_loss]"

definition generate_explanation ::
    "string \<Rightarrow> string \<Rightarrow> bool \<Rightarrow> fstring list \<Rightarrow> int \<Rightarrow> rat \<Rightarrow> governance \<Rightarrow> fstring" where
  "generate_explanation traded timeframe allowed violations daily_trades daily_loss g =
     (if allowed then
        [T ''Trade on '', T traded, T '' ('', T timeframe, T '') would comply with all governance rules. ''] @
        status_line daily_trades daily_loss g @ [T ''. No violations detected.'']
      else
        [T ''Trade on '', T traded, T '' ('', T timeframe, T '') would violate governance rules.''] @
        (if violations \<noteq> [] then T '' Violations:'' # concat (map (\<lambda>v. T ''   * '' # v) violations) else []) @
        T '' '' # status_line daily_trades daily_loss g @ [T ''.''])"

datatype gov_timestamp = No_Timestamp | Bad_Timestamp string | Timestamp time

record gov_context =
  gx_symbol :: "string option"
  gx_timeframe :: "string option"
  gx_timestamp :: gov_timestamp

definition rule :: "bool \<Rightarrow> fstring \<Rightarrow> fstring list" where
  "rule violated msg = (if violated then [msg] else [])"

definition trade_violations :: "string \<Rightarrow> string \<Rightarrow> time \<Rightarrow> governance \<Rightarrow> fstring list" where
  "trade_violations traded timeframe t g =
     (let daily = count_daily_trades t g;
          loss = calculate_daily_loss t g;
          on_symbol = count_daily_symbol_trades traded t g;
          on_timeframe = count_daily_timeframe_trades timeframe t g in
      rule (daily \<ge> gv_max_trades_per_day g)
        [T ''Daily trade limit reached: '', I daily, T '' trades already executed today''] @
      rule (loss \<le> - gv_max_daily_loss g)
        [T ''Daily loss limit exceeded: $'', F \<bar>loss\<bar>, T '' loss already accrued today''] @
      rule (is_in_killzone t g) [T ''Trade attempted during killzone: '', At t] @
      (case find_last_loss_time t g of
         None \<Rightarrow> []
       | Some l \<Rightarrow>
           (let cooldown_end = l + minutes (gv_cooldown_minutes_after_loss g) in
            rule (t < cooldown_end)
              [T ''Cooldown period active: '', I ((cooldown_end - t) div minutes 1),
               T '' minutes remaining after last loss''])) @
      rule (on_symbol \<ge> gv_max_trades_per_symbol g)
        [T ''Symbol trade limit reached: '', I on_symbol, T '' trades on '', T traded, T '' today''] @
      rule (on_timeframe \<ge> gv_max_trades_per_timeframe g)
        [T ''Timeframe trade limit reached: '', I on_timeframe, T '' trades on '', T timeframe, T '' today''] @
      (case find_last_trade_time t g of
         None \<Rightarrow> []
       | Some l \<Rightarrow>
           (let spacing_minutes = of_int (t - l) / 1000000 / 60 in
            rule (spacing_minutes < of_int (gv_min_trade_spacing_minutes g))
              [T ''Trade spacing violation: only '', F spacing_minutes, T ''m since last trade (min '',
               I (gv_min_trade_spacing_minutes g), T ''m)''])))"

definition evaluate_trade :: "time \<Rightarrow> gov_context option \<Rightarrow> governance \<Rightarrow> gov_report" where
  "evaluate_trade now ctx g =
     (case ctx of
        None \<Rightarrow> create_error_report now [T ''Trade context is empty. Cannot evaluate.'']
      | Some x \<Rightarrow>
          (let traded = (case gx_symbol x of None \<Rightarrow> ''UNKNOWN'' | Some s \<Rightarrow> s);
               timeframe = (case gx_timeframe x of None \<Rightarrow> ''UNKNOWN'' | Some s \<Rightarrow> s) in
           case gx_timestamp x of
             No_Timestamp \<Rightarrow> create_error_report now
               [T ''Trade timestamp is missing. Cannot evaluate timing rules.'']
           | Bad_Timestamp why \<Rightarrow> create_error_report now [T ''Invalid timestamp format: '', T why]
           | Timestamp t \<Rightarrow>
               (let violations = trade_violations traded timeframe t g;
                    allowed = (length violations = 0) in
                \<lparr>gr_allowed = allowed, gr_violations = violations,
                 gr_explanation = generate_explanation traded timeframe allowed violations
                   (count_daily_trades t g) (calculate_daily_loss t g) g,
                 gr_evaluated_at = now\<rparr>)))"

text \<open>\<open>evaluate_batch\<close>: the n-th report reads the clock once.\<close>

definition evaluate_batch :: "(nat \<Rightarrow> time) \<Rightarrow> gov_context option list option \<Rightarrow> governance \<Rightarrow> gov_report list" where
  "evaluate_batch clock trades g =
     (case trades of
        None \<Rightarrow> []
      | Some xs \<Rightarrow> map (\<lambda>(n, x). evaluate_trade (clock n) x g) (zip [0..<length xs] xs))"

section \<open>The rules as a specification\<close>

definition loses :: "gov_outcome \<Rightarrow> bool" where
  "loses x \<longleftrightarrow> (case go_pnl x of Pnl v \<Rightarrow> v < 0 | _ \<Rightarrow> False)"

definition pnl_of :: "gov_outcome \<Rightarrow> rat" where
  "pnl_of x = (case go_pnl x of Pnl v \<Rightarrow> v | _ \<Rightarrow> 0)"

definition numeric :: "governance \<Rightarrow> bool" where
  "numeric g \<longleftrightarrow> (\<forall>x\<in>set (gv_outcomes g). go_pnl x \<noteq> Bad_Pnl)"

definition complies :: "string \<Rightarrow> string \<Rightarrow> time \<Rightarrow> governance \<Rightarrow> bool" where
  "complies traded timeframe t g \<longleftrightarrow>
     (let today = filter (same_day t) (gv_outcomes g) in
      int (length today) < gv_max_trades_per_day g \<and>
      - gv_max_daily_loss g < sum_list (map pnl_of today) \<and>
      (\<forall>z\<in>set (gv_killzone_hours g). \<not> in_zone (hour_of t) z) \<and>
      (\<forall>x\<in>set (gv_outcomes g). \<forall>u. go_time x = Some u \<longrightarrow> u < t \<longrightarrow> loses x \<longrightarrow>
         u + minutes (gv_cooldown_minutes_after_loss g) \<le> t) \<and>
      int (length (filter (\<lambda>x. (case go_symbol x of None \<Rightarrow> [] | Some s \<Rightarrow> s) = traded) today))
        < gv_max_trades_per_symbol g \<and>
      int (length (filter (\<lambda>x. (case go_timeframe x of None \<Rightarrow> [] | Some s \<Rightarrow> s) = timeframe) today))
        < gv_max_trades_per_timeframe g \<and>
      (\<forall>x\<in>set (gv_outcomes g). \<forall>u. go_time x = Some u \<longrightarrow> u < t \<longrightarrow>
         minutes (gv_min_trade_spacing_minutes g) \<le> t - u))"

lemma count_where_length: "count_where p xs = int (length (filter p xs))"
  by (induction xs) auto

lemma add_daily_pnl_sum:
  "\<forall>x\<in>set xs. go_pnl x \<noteq> Bad_Pnl \<Longrightarrow>
   add_daily_pnl ref xs acc = Some (acc + sum_list (map pnl_of (filter (same_day ref) xs)))"
  by (induction xs arbitrary: acc) (auto simp: pnl_of_def split: pnl_entry.splits)

lemma add_daily_pnl_bad:
  "x \<in> set xs \<Longrightarrow> same_day ref x \<Longrightarrow> go_pnl x = Bad_Pnl \<Longrightarrow> add_daily_pnl ref xs acc = None"
  by (induction xs arbitrary: acc) (auto split: pnl_entry.splits)

text \<open>The loops keep a maximum; it is compared with a bound only, so it is enough to know which bounds it exceeds.\<close>

definition exceeds :: "time option \<Rightarrow> time \<Rightarrow> bool" where
  "exceeds l b \<longleftrightarrow> (case l of None \<Rightarrow> False | Some u \<Rightarrow> b < u)"

lemma exceeds_max: "exceeds (if (case l of None \<Rightarrow> True | Some v \<Rightarrow> v < t) then Some t else l) b \<longleftrightarrow> exceeds l b \<or> b < t"
  by (auto simp: exceeds_def split: option.splits)

lemma last_loss_loop_spec:
  assumes "\<forall>x\<in>set xs. go_pnl x \<noteq> Bad_Pnl"
  shows "\<exists>r. last_loss_loop ref xs latest = Some r \<and>
     (\<forall>b. exceeds r b \<longleftrightarrow> exceeds latest b \<or>
        (\<exists>x\<in>set xs. \<exists>u. go_time x = Some u \<and> u < ref \<and> loses x \<and> b < u))"
  using assms
proof (induction xs arbitrary: latest)
  case (Cons x xs)
  then have IH: "\<exists>r. last_loss_loop ref xs l = Some r \<and>
     (\<forall>b. exceeds r b \<longleftrightarrow> exceeds l b \<or>
        (\<exists>x\<in>set xs. \<exists>u. go_time x = Some u \<and> u < ref \<and> loses x \<and> b < u))" for l by simp
  show ?case
  proof (cases "\<exists>t v. go_time x = Some t \<and> t < ref \<and> go_pnl x = Pnl v \<and> v < 0")
    case True
    then obtain t v where x: "go_time x = Some t" "t < ref" "go_pnl x = Pnl v" "v < 0" by blast
    from IH [of "if (case latest of None \<Rightarrow> True | Some l \<Rightarrow> l < t) then Some t else latest"] obtain r
      where "last_loss_loop ref xs (if (case latest of None \<Rightarrow> True | Some l \<Rightarrow> l < t) then Some t else latest) = Some r"
        "\<forall>b. exceeds r b \<longleftrightarrow> (exceeds latest b \<or> b < t) \<or>
           (\<exists>x\<in>set xs. \<exists>u. go_time x = Some u \<and> u < ref \<and> loses x \<and> b < u)"
      unfolding exceeds_max by blast
    with x show ?thesis by (auto simp: loses_def)
  next
    case False
    with Cons.prems have "last_loss_loop ref (x # xs) latest = last_loss_loop ref xs latest"
      by (auto simp: not_le split: option.splits pnl_entry.splits)
    moreover from False have "\<not> (\<exists>u. go_time x = Some u \<and> u < ref \<and> loses x)"
      by (auto simp: loses_def split: pnl_entry.splits)
    ultimately show ?thesis using IH [of latest] by auto
  qed
qed simp

lemma last_loss_loop_bad:
  "x \<in> set xs \<Longrightarrow> go_pnl x = Bad_Pnl \<Longrightarrow> go_time x = Some u \<Longrightarrow> u < ref \<Longrightarrow> last_loss_loop ref xs latest = None"
  by (induction xs arbitrary: latest) (auto split: option.splits pnl_entry.splits)

lemma last_trade_loop_spec:
  "exceeds (last_trade_loop ref xs latest) b \<longleftrightarrow> exceeds latest b \<or>
     (\<exists>x\<in>set xs. \<exists>u. go_time x = Some u \<and> u < ref \<and> b < u)"
proof (induction xs arbitrary: latest)
  case (Cons x xs)
  then show ?case
    by (cases "go_time x") (auto simp: exceeds_max)
qed simp

lemma cooldown_rule:
  assumes "numeric g"
  shows "(case find_last_loss_time t g of None \<Rightarrow> [] | Some l \<Rightarrow> rule (t < l + d) (msg l)) = [] \<longleftrightarrow>
     (\<forall>x\<in>set (gv_outcomes g). \<forall>u. go_time x = Some u \<longrightarrow> u < t \<longrightarrow> loses x \<longrightarrow> u + d \<le> t)"
proof -
  from last_loss_loop_spec [of "gv_outcomes g" t None] assms obtain r
    where r: "last_loss_loop t (gv_outcomes g) None = Some r"
      "\<And>b. exceeds r b \<longleftrightarrow> (\<exists>x\<in>set (gv_outcomes g). \<exists>u. go_time x = Some u \<and> u < t \<and> loses x \<and> b < u)"
    by (auto simp: numeric_def exceeds_def)
  have "(case r of None \<Rightarrow> [] | Some l \<Rightarrow> rule (t < l + d) (msg l)) = [] \<longleftrightarrow> \<not> exceeds r (t - d)"
    by (auto simp: exceeds_def rule_def split: option.splits)
  also have "\<dots> \<longleftrightarrow> (\<forall>x\<in>set (gv_outcomes g). \<forall>u. go_time x = Some u \<longrightarrow> u < t \<longrightarrow> loses x \<longrightarrow> u + d \<le> t)"
    unfolding r(2) by (auto simp: not_less algebra_simps)
  finally show ?thesis by (simp add: find_last_loss_time_def r(1))
qed

lemma spacing_minutes_less: "(of_int d / 1000000 / 60 :: rat) < of_int m \<longleftrightarrow> d < minutes m"
proof -
  have "(of_int d / 1000000 / 60 :: rat) < of_int m \<longleftrightarrow> (of_int d :: rat) < of_int (m * 60000000)"
    by (simp add: field_simps)
  then show ?thesis by (simp only: of_int_less_iff minutes_def)
qed

lemma spacing_rule:
  "(case find_last_trade_time t g of None \<Rightarrow> []
    | Some l \<Rightarrow> rule ((of_int (t - l) / 1000000 / 60 :: rat) < of_int m) (msg l)) = [] \<longleftrightarrow>
   (\<forall>x\<in>set (gv_outcomes g). \<forall>u. go_time x = Some u \<longrightarrow> u < t \<longrightarrow> minutes m \<le> t - u)"
proof -
  have "(case find_last_trade_time t g of None \<Rightarrow> []
    | Some l \<Rightarrow> rule ((of_int (t - l) / 1000000 / 60 :: rat) < of_int m) (msg l)) = [] \<longleftrightarrow>
    \<not> exceeds (find_last_trade_time t g) (t - minutes m)"
    unfolding spacing_minutes_less by (auto simp: exceeds_def rule_def split: option.splits)
  also have "\<dots> \<longleftrightarrow> (\<forall>x\<in>set (gv_outcomes g). \<forall>u. go_time x = Some u \<longrightarrow> u < t \<longrightarrow> minutes m \<le> t - u)"
    unfolding find_last_trade_time_def last_trade_loop_spec
    by (auto simp: exceeds_def not_less algebra_simps)
  finally show ?thesis .
qed

lemma rule_nil [simp]: "rule b msg = [] \<longleftrightarrow> \<not> b"
  by (simp add: rule_def)

lemma violations_iff:
  assumes "numeric g"
  shows "trade_violations traded tf t g = [] \<longleftrightarrow> complies traded tf t g"
proof -
  have loss: "calculate_daily_loss t g = sum_list (map pnl_of (filter (same_day t) (gv_outcomes g)))"
    using assms by (simp add: calculate_daily_loss_def numeric_def add_daily_pnl_sum)
  show ?thesis
    unfolding trade_violations_def complies_def Let_def append_is_Nil_conv rule_nil
      cooldown_rule [OF assms] spacing_rule loss
    by (auto simp: count_daily_trades_def count_daily_symbol_trades_def count_daily_timeframe_trades_def
        count_where_length is_in_killzone_def list_ex_iff not_le conj_commute)
qed

section \<open>Properties\<close>

text \<open>C14: as long as every registered result is a number, a trade is allowed exactly when
  it has a timestamp and complies with all seven rules: fewer trades today, a smaller loss today,
  outside every killzone, the cooldown over since every earlier loss, the symbol and the timeframe
  below their limits, and far enough from every earlier trade.\<close>

theorem governance_allows_compliant:
  assumes "numeric g"
  shows "gr_allowed (evaluate_trade now (Some ctx) g) \<longleftrightarrow>
     (\<exists>t. gx_timestamp ctx = Timestamp t \<and>
        complies (case gx_symbol ctx of None \<Rightarrow> ''UNKNOWN'' | Some s \<Rightarrow> s)
          (case gx_timeframe ctx of None \<Rightarrow> ''UNKNOWN'' | Some s \<Rightarrow> s) t g)"
  by (auto simp: evaluate_trade_def Let_def create_error_report_def violations_iff [OF assms]
      split: gov_timestamp.splits)

theorem governance_allows_compliant_witness:
  "\<not> gr_allowed (evaluate_trade 0 (Some \<lparr>gx_symbol = Some ''EURUSD'', gx_timeframe = None, gx_timestamp = Timestamp (minutes 100)\<rparr>)
       (gv_default\<lparr>gv_outcomes := [\<lparr>go_symbol = None, go_timeframe = None, go_time = Some (minutes 90), go_pnl = Pnl (- 1)\<rparr>]\<rparr>))"
proof -
  let ?g = "gv_default\<lparr>gv_outcomes := [\<lparr>go_symbol = None, go_timeframe = None, go_time = Some (minutes 90), go_pnl = Pnl (- 1)\<rparr>]\<rparr>"
  have "numeric ?g" by (simp add: numeric_def)
  from governance_allows_compliant [OF this] show ?thesis
    by (simp add: complies_def Let_def gv_default_def minutes_def loses_def)
qed

text \<open>One earlier outcome of the same day whose "pnl" is present and not a number
  (\<open>None\<close>) disables both loss rules: the daily loss is taken for 0 and no last loss is found,
  however large the registered losses are.\<close>

theorem bad_pnl_disables_loss_rules:
  assumes "x \<in> set (gv_outcomes g)" and "go_pnl x = Bad_Pnl" and "go_time x = Some u"
    and "u < t" and "date_of u = date_of t"
  shows "calculate_daily_loss t g = 0 \<and> find_last_loss_time t g = None"
proof -
  have "same_day t x" using assms by (simp add: same_day_def)
  with assms show ?thesis
    by (simp add: calculate_daily_loss_def add_daily_pnl_bad find_last_loss_time_def last_loss_loop_bad)
qed

theorem bad_pnl_disables_loss_rules_witness:
  "gr_allowed (evaluate_trade 0 (Some \<lparr>gx_symbol = None, gx_timeframe = None, gx_timestamp = Timestamp (minutes 100)\<rparr>)
     (gv_default\<lparr>gv_outcomes :=
        [\<lparr>go_symbol = None, go_timeframe = None, go_time = Some (minutes 80), go_pnl = Pnl (- 100000)\<rparr>,
         \<lparr>go_symbol = None, go_timeframe = None, go_time = Some (minutes 1), go_pnl = Bad_Pnl\<rparr>]\<rparr>))"
proof -
  let ?y = "\<lparr>go_symbol = None, go_timeframe = None, go_time = Some (minutes 1), go_pnl = Bad_Pnl\<rparr>"
  let ?g = "gv_default\<lparr>gv_outcomes :=
        [\<lparr>go_symbol = None, go_timeframe = None, go_time = Some (minutes 80), go_pnl = Pnl (- 100000)\<rparr>, ?y]\<rparr>"
  have "calculate_daily_loss (minutes 100) ?g = 0 \<and> find_last_loss_time (minutes 100) ?g = None"
    by (rule bad_pnl_disables_loss_rules [of ?y _ "minutes 1"]) (simp_all add: minutes_def date_of_def)
  then show ?thesis
    by (simp add: evaluate_trade_def Let_def trade_violations_def rule_def count_daily_trades_def
        count_daily_symbol_trades_def count_daily_timeframe_trades_def same_day_def gv_default_def
        is_in_killzone_def find_last_trade_time_def minutes_def date_of_def)
qed

text \<open>A report allows the trade exactly when it lists no violation, a missing context
  or an unreadable timestamp never allows it, and a batch gives one report per trade, each the
  report of that trade alone.\<close>

theorem governance_report_consistent:
  "(gr_allowed (evaluate_trade now ctx g) \<longleftrightarrow> gr_violations (evaluate_trade now ctx g) = []) \<and>
   (gr_allowed (evaluate_trade now ctx g) \<longrightarrow> (\<exists>x t. ctx = Some x \<and> gx_timestamp x = Timestamp t)) \<and>
   map gr_allowed (evaluate_batch clock (Some xs) g) = map (\<lambda>x. gr_allowed (evaluate_trade now x g)) xs"
proof -
  have time: "gr_allowed (evaluate_trade a x g) = gr_allowed (evaluate_trade b x g)" for a b x
    by (auto simp: evaluate_trade_def Let_def create_error_report_def split: option.splits gov_timestamp.splits)
  have "map gr_allowed (evaluate_batch clock (Some xs) g) = map (\<lambda>x. gr_allowed (evaluate_trade now x g)) xs"
  proof (rule nth_equalityI)
    fix i assume "i < length (map gr_allowed (evaluate_batch clock (Some xs) g))"
    then show "map gr_allowed (evaluate_batch clock (Some xs) g) ! i =
        map (\<lambda>x. gr_allowed (evaluate_trade now x g)) xs ! i"
      using time [of "clock i" "xs ! i" now] by (simp add: evaluate_batch_def)
  qed (simp add: evaluate_batch_def)
  then show ?thesis
    by (auto simp: evaluate_trade_def Let_def create_error_report_def split: option.splits gov_timestamp.splits)
qed

theorem governance_report_consistent_witness:
  "\<forall>now g. \<not> gr_allowed (evaluate_trade now None g)"
  using governance_report_consistent by blast

end
