(* ===== verification/Orchestration.thy ===== *)
theory Orchestration
  imports Contracts
begin

text \<open>
  \<open>reasoner_service/orchestration_advanced.py\<close> and the constraint check of
  \<open>reasoner_service/orchestrator.py\<close>: event tracking, cooldowns, session windows, signal
  filtering and metrics.

  Every method of the managers holds one \<open>asyncio\<close> lock for its whole body and awaits nothing
  inside it, so it is one atomic step. Times are milliseconds; the readings of the clock are
  arguments, in program order. Dictionaries are association lists in insertion order.
\<close>

section \<open>Event trackers\<close>

datatype event_state = EPending | EDeferred | EEscalated | EProcessed | EDiscarded

record event_tracker =
  et_correlation_id :: string
  et_event_type :: string
  et_state :: event_state
  et_created_at_ms :: int
  et_processed_at_ms :: "int option"
  et_status_history :: "(event_state \<times> int) list"
  et_reason :: "string option"
  et_decision_id :: "string option"
  et_signals_count :: int
  et_errors :: "string list"
  et_policy_decisions :: "(string \<times> string) list"

definition new_tracker :: "string \<Rightarrow> string \<Rightarrow> int \<Rightarrow> event_tracker" where
  "new_tracker cid ty now =
    \<lparr>et_correlation_id = cid, et_event_type = ty, et_state = EPending, et_created_at_ms = now,
     et_processed_at_ms = None, et_status_history = [], et_reason = None, et_decision_id = None,
     et_signals_count = 0, et_errors = [], et_policy_decisions = []\<rparr>"

definition update_state :: "int \<Rightarrow> event_state \<Rightarrow> string option \<Rightarrow> event_tracker \<Rightarrow> event_tracker" where
  "update_state now st reason t =
     t\<lparr>et_state := st, et_reason := reason, et_status_history := et_status_history t @ [(st, now)]\<rparr>"

definition mark_processed :: "int \<Rightarrow> int \<Rightarrow> string \<Rightarrow> int \<Rightarrow> event_tracker \<Rightarrow> event_tracker" where
  "mark_processed now1 now2 decision_id signals_count t =
     update_state now2 EProcessed None
       (t\<lparr>et_decision_id := Some decision_id, et_signals_count := signals_count,
          et_processed_at_ms := Some now1\<rparr>)"

text \<open>A processing time of zero is false in Python and counts as not processed.\<close>

definition get_processing_time_ms :: "int \<Rightarrow> event_tracker \<Rightarrow> int" where
  "get_processing_time_ms now t =
     (case et_processed_at_ms t of
        None \<Rightarrow> now - et_created_at_ms t
      | Some p \<Rightarrow> if p = 0 then now - et_created_at_ms t else p - et_created_at_ms t)"

section \<open>Correlation\<close>

record correlation_manager =
  cm_max_tracked_events :: int
  cm_events :: "(string \<times> event_tracker) list"

definition cm_init :: "int \<Rightarrow> correlation_manager" where
  "cm_init n = \<lparr>cm_max_tracked_events = n, cm_events = []\<rparr>"

text \<open>\<open>int(n * 0.1)\<close> and \<open>xs[:n]\<close>.\<close>

definition tenth :: "int \<Rightarrow> int" where
  "tenth n = (if n \<ge> 0 then n div 10 else - ((- n) div 10))"

definition slice_to :: "int \<Rightarrow> 'a list \<Rightarrow> 'a list" where
  "slice_to n xs = (if n \<ge> 0 then take (nat n) xs else take (nat (int (length xs) + n)) xs)"

definition evict_oldest :: "correlation_manager \<Rightarrow> correlation_manager" where
  "evict_oldest m =
     (if int (length (cm_events m)) \<ge> cm_max_tracked_events m then
        (let to_remove = tenth (cm_max_tracked_events m);
             sorted_events = sort_key (et_created_at_ms \<circ> snd) (cm_events m);
             gone = map fst (slice_to to_remove sorted_events)
         in m\<lparr>cm_events := filter (\<lambda>p. fst p \<notin> set gone) (cm_events m)\<rparr>)
      else m)"

definition create_event_tracker :: "int \<Rightarrow> string \<Rightarrow> string \<Rightarrow> correlation_manager \<Rightarrow> event_tracker \<times> correlation_manager" where
  "create_event_tracker now cid ty m =
     (let m1 = evict_oldest m; t = new_tracker cid ty now in
      (t, m1\<lparr>cm_events := AList.update cid t (cm_events m1)\<rparr>))"

definition get_event_tracker :: "string \<Rightarrow> correlation_manager \<Rightarrow> event_tracker option" where
  "get_event_tracker cid m = map_of (cm_events m) cid"

definition update_event_state ::
    "int \<Rightarrow> string \<Rightarrow> event_state \<Rightarrow> string option \<Rightarrow> correlation_manager \<Rightarrow> bool \<times> correlation_manager" where
  "update_event_state now cid st reason m =
     (case map_of (cm_events m) cid of
        None \<Rightarrow> (False, m)
      | Some t \<Rightarrow> (True, m\<lparr>cm_events := AList.update cid (update_state now st reason t) (cm_events m)\<rparr>))"

definition get_event_history :: "string \<Rightarrow> correlation_manager \<Rightarrow> (event_state \<times> int) list option" where
  "get_event_history cid m = map_option et_status_history (map_of (cm_events m) cid)"

definition get_events_by_type :: "string \<Rightarrow> correlation_manager \<Rightarrow> event_tracker list" where
  "get_events_by_type ty m = filter (\<lambda>t. et_event_type t = ty) (map snd (cm_events m))"

definition get_recent_events :: "string \<Rightarrow> int \<Rightarrow> correlation_manager \<Rightarrow> event_tracker list" where
  "get_recent_events ty since m =
     filter (\<lambda>t. et_event_type t = ty \<and> et_created_at_ms t \<ge> since) (map snd (cm_events m))"

section \<open>Cooldowns and session windows\<close>

record cooldown_config =
  cc_event_type :: string
  cc_cooldown_ms :: int
  cc_max_events_per_window :: "int option"

record session_window =
  sw_event_type :: string
  sw_start_hour :: int
  sw_end_hour :: int
  sw_max_events :: int

text \<open>\<open>gmtime(t).tm_hour\<close> of a time in milliseconds.\<close>

definition utc_hour :: "int \<Rightarrow> int" where
  "utc_hour ms = (ms div 3600000) mod 24"

definition window_active :: "int \<Rightarrow> session_window \<Rightarrow> bool" where
  "window_active now w \<longleftrightarrow>
     (let hour = utc_hour now in
      if sw_start_hour w \<le> sw_end_hour w then sw_start_hour w \<le> hour \<and> hour \<le> sw_end_hour w
      else hour \<ge> sw_start_hour w \<or> hour \<le> sw_end_hour w)"

record cooldown_tracker =
  ct_event_type :: string
  ct_cooldown_until_ms :: int
  ct_events_in_window :: int
  ct_last_event_time_ms :: int

definition new_cooldown :: "string \<Rightarrow> cooldown_tracker" where
  "new_cooldown ty =
    \<lparr>ct_event_type = ty, ct_cooldown_until_ms = 0, ct_events_in_window = 0, ct_last_event_time_ms = 0\<rparr>"

definition is_cooling_down :: "int \<Rightarrow> cooldown_tracker \<Rightarrow> bool" where
  "is_cooling_down now t \<longleftrightarrow> now < ct_cooldown_until_ms t"

definition reset_window :: "int \<Rightarrow> cooldown_config \<Rightarrow> cooldown_tracker \<Rightarrow> cooldown_tracker" where
  "reset_window now cfg t =
     t\<lparr>ct_cooldown_until_ms := now + cc_cooldown_ms cfg, ct_events_in_window := 0,
       ct_last_event_time_ms := now\<rparr>"

record cooldown_manager =
  cd_cooldowns :: "(string \<times> cooldown_tracker) list"
  cd_configs :: "(string \<times> cooldown_config) list"
  cd_windows :: "(string \<times> session_window) list"

definition cd_init :: cooldown_manager where
  "cd_init = \<lparr>cd_cooldowns = [], cd_configs = [], cd_windows = []\<rparr>"

definition configure_cooldown :: "cooldown_config \<Rightarrow> cooldown_manager \<Rightarrow> cooldown_manager" where
  "configure_cooldown cfg m =
     (let ty = cc_event_type cfg;
          m1 = m\<lparr>cd_configs := AList.update ty cfg (cd_configs m)\<rparr> in
      if map_of (cd_cooldowns m1) ty = None
      then m1\<lparr>cd_cooldowns := AList.update ty (new_cooldown ty) (cd_cooldowns m1)\<rparr> else m1)"

definition configure_session_window :: "session_window \<Rightarrow> cooldown_manager \<Rightarrow> cooldown_manager" where
  "configure_session_window w m = m\<lparr>cd_windows := AList.update (sw_event_type w) w (cd_windows m)\<rparr>"

definition check_cooldown :: "int \<Rightarrow> string \<Rightarrow> cooldown_manager \<Rightarrow> bool \<times> int option" where
  "check_cooldown now ty m =
     (case map_of (cd_cooldowns m) ty of
        None \<Rightarrow> (False, None)
      | Some t \<Rightarrow> if is_cooling_down now t then (True, Some (ct_cooldown_until_ms t)) else (False, None))"

definition check_session_window :: "int \<Rightarrow> string \<Rightarrow> cooldown_manager \<Rightarrow> bool" where
  "check_session_window now ty m =
     (case map_of (cd_windows m) ty of None \<Rightarrow> True | Some w \<Rightarrow> window_active now w)"

definition check_event_limit :: "string \<Rightarrow> cooldown_manager \<Rightarrow> bool" where
  "check_event_limit ty m =
     (case (map_of (cd_windows m) ty, map_of (cd_cooldowns m) ty) of
        (Some w, Some t) \<Rightarrow> ct_events_in_window t < sw_max_events w
      | _ \<Rightarrow> True)"

text \<open>The three readings: the event's time, the cooldown test, the new window.\<close>

definition record_event :: "int \<Rightarrow> int \<Rightarrow> int \<Rightarrow> string \<Rightarrow> cooldown_manager \<Rightarrow> cooldown_manager" where
  "record_event now1 now2 now3 ty m =
     (case (map_of (cd_configs m) ty, map_of (cd_cooldowns m) ty) of
        (Some cfg, Some t) \<Rightarrow>
          (let t1 = t\<lparr>ct_events_in_window := ct_events_in_window t + 1, ct_last_event_time_ms := now1\<rparr>;
               t2 = (if \<not> is_cooling_down now2 t1 then reset_window now3 cfg t1 else t1)
           in m\<lparr>cd_cooldowns := AList.update ty t2 (cd_cooldowns m)\<rparr>)
      | _ \<Rightarrow> m)"

text \<open>\<open>_check_event_constraints\<close> of the orchestrator: two readings of the clock.\<close>

definition check_event_constraints ::
    "int \<Rightarrow> int \<Rightarrow> string \<Rightarrow> cooldown_manager \<Rightarrow> bool \<times> string option \<times> int option" where
  "check_event_constraints now1 now2 ty m =
     (case check_cooldown now1 ty m of
        (True, next_available) \<Rightarrow> (False, Some ''cooldown_active'', next_available)
      | (False, _) \<Rightarrow>
          if \<not> check_session_window now2 ty m then (False, Some ''outside_session_window'', None)
          else if \<not> check_event_limit ty m then (False, Some ''event_limit_exceeded'', None)
          else (True, None, None))"

section \<open>Metrics\<close>

record reasoning_metrics =
  rm_total_calls :: int
  rm_successful_calls :: int
  rm_failed_calls :: int
  rm_timeout_calls :: int
  rm_total_execution_time_ms :: int
  rm_total_signals_generated :: int

definition rm_init :: reasoning_metrics where
  "rm_init = \<lparr>rm_total_calls = 0, rm_successful_calls = 0, rm_failed_calls = 0, rm_timeout_calls = 0,
     rm_total_execution_time_ms = 0, rm_total_signals_generated = 0\<rparr>"

definition add_call :: "bool \<Rightarrow> int \<Rightarrow> int \<Rightarrow> reasoning_metrics \<Rightarrow> reasoning_metrics" where
  "add_call success ms signals m =
     (let m1 = m\<lparr>rm_total_calls := rm_total_calls m + 1\<rparr>;
          m2 = (if success then m1\<lparr>rm_successful_calls := rm_successful_calls m1 + 1\<rparr>
                else m1\<lparr>rm_failed_calls := rm_failed_calls m1 + 1\<rparr>)
      in m2\<lparr>rm_total_execution_time_ms := rm_total_execution_time_ms m2 + ms,
            rm_total_signals_generated := rm_total_signals_generated m2 + signals\<rparr>)"

definition get_average_execution_time_ms :: "reasoning_metrics \<Rightarrow> rat" where
  "get_average_execution_time_ms m =
     (if rm_total_calls m = 0 then 0 else of_int (rm_total_execution_time_ms m) / of_int (rm_total_calls m))"

definition get_success_rate :: "reasoning_metrics \<Rightarrow> rat" where
  "get_success_rate m =
     (if rm_total_calls m = 0 then 0 else of_int (rm_successful_calls m) / of_int (rm_total_calls m) * 100)"

record orchestration_metrics =
  om_total_events :: int
  om_accepted_events :: int
  om_rejected_events :: int
  om_deferred_events :: int
  om_escalated_events :: int
  om_total_processing_time_ms :: int
  om_policy_vetoes :: int
  om_policy_defers :: int

definition om_init :: orchestration_metrics where
  "om_init = \<lparr>om_total_events = 0, om_accepted_events = 0, om_rejected_events = 0, om_deferred_events = 0,
     om_escalated_events = 0, om_total_processing_time_ms = 0, om_policy_vetoes = 0, om_policy_defers = 0\<rparr>"

definition add_event :: "string \<Rightarrow> int \<Rightarrow> orchestration_metrics \<Rightarrow> orchestration_metrics" where
  "add_event status ms m =
     (let m1 = m\<lparr>om_total_events := om_total_events m + 1\<rparr>;
          m2 = (if status = ''accepted'' then m1\<lparr>om_accepted_events := om_accepted_events m1 + 1\<rparr>
                else if status = ''rejected'' then m1\<lparr>om_rejected_events := om_rejected_events m1 + 1\<rparr>
                else if status = ''deferred'' then m1\<lparr>om_deferred_events := om_deferred_events m1 + 1\<rparr>
                else if status = ''escalated'' then m1\<lparr>om_escalated_events := om_escalated_events m1 + 1\<rparr>
                else m1)
      in m2\<lparr>om_total_processing_time_ms := om_total_processing_time_ms m2 + ms\<rparr>)"

definition get_acceptance_rate :: "orchestration_metrics \<Rightarrow> rat" where
  "get_acceptance_rate m =
     (if om_total_events m = 0 then 0 else of_int (om_accepted_events m) / of_int (om_total_events m) * 100)"

record orchestration_state =
  os_event_correlation :: correlation_manager
  os_cooldown_manager :: cooldown_manager
  os_reasoning_metrics :: reasoning_metrics
  os_orchestration_metrics :: orchestration_metrics

definition os_init :: orchestration_state where
  "os_init = \<lparr>os_event_correlation = cm_init 10000, os_cooldown_manager = cd_init,
     os_reasoning_metrics = rm_init, os_orchestration_metrics = om_init\<rparr>"

definition record_reasoning_call :: "bool \<Rightarrow> int \<Rightarrow> int \<Rightarrow> orchestration_state \<Rightarrow> orchestration_state" where
  "record_reasoning_call success ms signals s =
     s\<lparr>os_reasoning_metrics := add_call success ms signals (os_reasoning_metrics s)\<rparr>"

definition record_event_processing :: "string \<Rightarrow> int \<Rightarrow> orchestration_state \<Rightarrow> orchestration_state" where
  "record_event_processing status ms s =
     s\<lparr>os_orchestration_metrics := add_event status ms (os_orchestration_metrics s)\<rparr>"

definition get_reasoning_stats :: "orchestration_state \<Rightarrow> pydict" where
  "get_reasoning_stats s =
     (let m = os_reasoning_metrics s in
      [(''total_calls'', VInt (rm_total_calls m)), (''successful_calls'', VInt (rm_successful_calls m)),
       (''failed_calls'', VInt (rm_failed_calls m)), (''timeout_calls'', VInt (rm_timeout_calls m)),
       (''success_rate'', VFloat (get_success_rate m)),
       (''avg_execution_time_ms'', VFloat (get_average_execution_time_ms m)),
       (''total_signals'', VInt (rm_total_signals_generated m))])"

definition get_orchestration_stats :: "orchestration_state \<Rightarrow> pydict" where
  "get_orchestration_stats s =
     (let m = os_orchestration_metrics s in
      [(''total_events'', VInt (om_total_events m)), (''accepted_events'', VInt (om_accepted_events m)),
       (''rejected_events'', VInt (om_rejected_events m)), (''deferred_events'', VInt (om_deferred_events m)),
       (''escalated_events'', VInt (om_escalated_events m)),
       (''acceptance_rate'', VFloat (get_acceptance_rate m)),
       (''policy_vetoes'', VInt (om_policy_vetoes m)), (''policy_defers'', VInt (om_policy_defers m))])"

section \<open>Signal filtering\<close>

text \<open>
  The policy store is an object outside this file: its answer to \<open>get_policy\<close> is the argument
  \<open>answer\<close>, an exception, no policy, or the two entries the filter reads. A signal has the two
  entries the filter reads, each possibly absent.
\<close>

record signal =
  sg_confidence :: "rat option"
  sg_signal_type :: "string option"

record signal_policy =
  sp_min_confidence :: "rat option"
  sp_blocked_types :: "string list option"

record policy_decision =
  pd_policy_name :: string
  pd_decision :: string
  pd_reason :: "string option"
  pd_signals_filtered :: int
  pd_timestamp_ms :: int

definition signal_passes :: "signal_policy \<Rightarrow> signal \<Rightarrow> bool" where
  "signal_passes p s \<longleftrightarrow>
     \<not> (case sg_signal_type s of None \<Rightarrow> False
        | Some ty \<Rightarrow> ty \<in> set (case sp_blocked_types p of None \<Rightarrow> [] | Some xs \<Rightarrow> xs)) \<and>
     \<not> (case sg_confidence s of None \<Rightarrow> False
        | Some c \<Rightarrow> c < (case sp_min_confidence p of None \<Rightarrow> 0 | Some x \<Rightarrow> x))"

fun filter_signals :: "signal_policy \<Rightarrow> signal list \<Rightarrow> signal list \<Rightarrow> int \<Rightarrow> signal list \<times> int" where
  "filter_signals p [] kept n = (kept, n)"
| "filter_signals p (s # ss) kept n =
     (if signal_passes p s then filter_signals p ss (kept @ [s]) n
      else filter_signals p ss kept (n + 1))"

definition apply_policies ::
    "bool \<Rightarrow> (py_error + signal_policy option) \<Rightarrow> int \<Rightarrow> signal list \<Rightarrow> string \<Rightarrow> signal list \<times> policy_decision list" where
  "apply_policies has_store answer now signals ty =
     (if \<not> has_store then (signals, [])
      else case answer of
        Inl e \<Rightarrow> (signals, [])
      | Inr None \<Rightarrow> (signals, [])
      | Inr (Some p) \<Rightarrow>
          (case filter_signals p signals [] 0 of (kept, n) \<Rightarrow>
             (kept, if n > 0 then
                [\<lparr>pd_policy_name = ''signal_filter_'' @ ty, pd_decision = ''filtered'', pd_reason = None,
                  pd_signals_filtered = n, pd_timestamp_ms = now\<rparr>] else [])))"

end
