(* ===== verification/Orchestration_Props.thy ===== *)
theory Orchestration_Props
  imports Orchestration
begin

text \<open>
  The tracker table, the cooldowns and the metrics as machines over sequences of atomic steps, with
  their invariants, and the properties of the orchestration helpers.
\<close>

section \<open>The table of tracked events\<close>

datatype cm_op = Create int string string | Update int string event_state "string option"

fun cm_step :: "cm_op \<Rightarrow> correlation_manager \<Rightarrow> correlation_manager" where
  "cm_step (Create now cid ty) m = snd (create_event_tracker now cid ty m)"
| "cm_step (Update now cid st reason) m = snd (update_event_state now cid st reason m)"

lemma length_update: "length (AList.update k v d) \<le> Suc (length d)"
  by (induction d) auto

lemma length_update_present: "map_of d k \<noteq> None \<Longrightarrow> length (AList.update k v d) = length d"
  by (induction d) auto

lemma length_update_absent: "map_of d k = None \<Longrightarrow> length (AList.update k v d) = Suc (length d)"
  by (induction d) (auto split: if_splits)

lemma evict_max [simp]: "cm_max_tracked_events (evict_oldest m) = cm_max_tracked_events m"
  by (simp add: evict_oldest_def Let_def)

lemma evict_makes_room:
  assumes "10 \<le> cm_max_tracked_events m" and "int (length (cm_events m)) \<le> cm_max_tracked_events m"
  shows "int (length (cm_events (evict_oldest m))) < cm_max_tracked_events m"
proof (cases "int (length (cm_events m)) \<ge> cm_max_tracked_events m")
  case False
  then show ?thesis by (simp add: evict_oldest_def)
next
  case True
  let ?s = "sort_key (et_created_at_ms \<circ> snd) (cm_events m)"
  let ?gone = "map fst (slice_to (tenth (cm_max_tracked_events m)) ?s)"
  from True assms(1) have "cm_events m \<noteq> []" by auto
  then have "?s \<noteq> []" by (metis set_empty set_sort)
  then obtain p ps where s: "?s = p # ps" by (cases ?s) auto
  have "1 \<le> cm_max_tracked_events m div 10" using assms(1) by linarith
  then have "fst p \<in> set ?gone"
    using assms(1) s by (simp add: slice_to_def tenth_def take_Cons' )
  moreover have "p \<in> set (cm_events m)" using s by (metis list.set_intros(1) set_sort)
  ultimately have "length (filter (\<lambda>p. fst p \<notin> set ?gone) (cm_events m)) < length (cm_events m)"
    by (intro length_filter_less) auto
  with True assms(2) show ?thesis by (simp add: evict_oldest_def Let_def)
qed

definition cm_bounded :: "int \<Rightarrow> correlation_manager \<Rightarrow> bool" where
  "cm_bounded n m \<longleftrightarrow> 10 \<le> n \<and> cm_max_tracked_events m = n \<and> int (length (cm_events m)) \<le> n"

lemma cm_bounded_create:
  assumes "cm_bounded n m"
  shows "cm_bounded n (snd (create_event_tracker now cid ty m))"
proof -
  let ?d = "cm_events (evict_oldest m)" and ?t = "new_tracker cid ty now"
  have "int (length ?d) < n" using evict_makes_room [of m] assms by (simp add: cm_bounded_def)
  moreover have "length (AList.update cid ?t ?d) \<le> Suc (length ?d)" by (rule length_update)
  ultimately have "int (length (AList.update cid ?t ?d)) \<le> n" by linarith
  with assms show ?thesis by (simp add: cm_bounded_def create_event_tracker_def Let_def)
qed

interpretation cmb: inv_machine cm_step "cm_bounded n" for n
proof
  fix m op
  assume inv: "cm_bounded n m"
  show "cm_bounded n (cm_step op m)"
  proof (cases op)
    case Create
    with inv show ?thesis by (simp add: cm_bounded_create)
  next
    case Update
    with inv show ?thesis
      by (auto simp: update_event_state_def length_update_present cm_bounded_def split: option.splits)
  qed
qed

lemma created_is_found: "map_of (cm_events (snd (create_event_tracker now cid ty m))) cid = Some (new_tracker cid ty now)"
  by (simp add: create_event_tracker_def Let_def update_conv')

lemma small_never_evicts:
  assumes "0 \<le> cm_max_tracked_events m" and "cm_max_tracked_events m < 10"
  shows "evict_oldest m = m"
  using assms by (simp add: evict_oldest_def tenth_def slice_to_def Let_def)

lemma small_grows:
  assumes "0 \<le> cm_max_tracked_events m" and "cm_max_tracked_events m < 10"
    and "distinct cids" and "\<forall>c\<in>set cids. map_of (cm_events m) c = None"
  shows "length (cm_events (fold (\<lambda>c. cm_step (Create now c ty)) cids m)) = length (cm_events m) + length cids"
  using assms
proof (induction cids arbitrary: m)
  case (Cons c cids)
  let ?m = "cm_step (Create now c ty) m"
  have m: "?m = m\<lparr>cm_events := AList.update c (new_tracker c ty now) (cm_events m)\<rparr>"
    using Cons.prems(1,2) by (simp add: create_event_tracker_def Let_def small_never_evicts)
  have "length (cm_events (fold (\<lambda>c. cm_step (Create now c ty)) cids ?m)) = length (cm_events ?m) + length cids"
    by (intro Cons.IH) (use Cons.prems in \<open>auto simp: m update_conv' simp del: cm_step.simps\<close>)
  with Cons.prems show ?case by (simp add: m length_update_absent del: cm_step.simps)
qed simp

text \<open>A tracker's state is the last one of its history, and its history only grows.\<close>

definition tracker_ok :: "event_tracker \<Rightarrow> bool" where
  "tracker_ok t \<longleftrightarrow> et_state t = (if et_status_history t = [] then EPending else fst (List.last (et_status_history t)))"

lemma tracker_ok_steps:
  "tracker_ok (new_tracker cid ty now)" "tracker_ok (update_state now st reason t)"
  "tracker_ok (mark_processed a b d n t)"
  by (simp_all add: tracker_ok_def new_tracker_def update_state_def mark_processed_def)

definition cm_ok :: "correlation_manager \<Rightarrow> bool" where
  "cm_ok m \<longleftrightarrow> (\<forall>p\<in>set (cm_events m). tracker_ok (snd p))"

lemma set_update_subset: "set (AList.update k v d) \<subseteq> insert (k, v) (set d)"
  by (induction d) auto

interpretation cmo: inv_machine cm_step cm_ok
proof
  fix m op
  assume ok: "cm_ok m"
  show "cm_ok (cm_step op m)"
  proof (cases op)
    case (Create now cid ty)
    have "set (cm_events (evict_oldest m)) \<subseteq> set (cm_events m)" by (auto simp: evict_oldest_def Let_def)
    with ok Create set_update_subset [of cid "new_tracker cid ty now" "cm_events (evict_oldest m)"]
    show ?thesis by (auto simp: cm_ok_def create_event_tracker_def Let_def dest!: subsetD intro: tracker_ok_steps)
  next
    case (Update now cid st reason)
    with ok set_update_subset [of cid _ "cm_events m"] show ?thesis
      by (fastforce simp: cm_ok_def update_event_state_def tracker_ok_steps split: option.splits)
  qed
qed

section \<open>Cooldowns\<close>

lemma record_cases:
  assumes "map_of (cd_configs m) ty = Some cfg" and "map_of (cd_cooldowns m) ty = Some t"
  shows "map_of (cd_cooldowns (record_event a b c ty m)) ty =
     Some (if is_cooling_down b t
           then t\<lparr>ct_events_in_window := ct_events_in_window t + 1, ct_last_event_time_ms := a\<rparr>
           else reset_window c cfg (t\<lparr>ct_events_in_window := ct_events_in_window t + 1, ct_last_event_time_ms := a\<rparr>))"
  using assms by (simp add: record_event_def Let_def is_cooling_down_def update_conv')

text \<open>
  A caller that checks the constraints and records what it admits. The delays between the readings
  of the clock are natural numbers: time does not go back.
\<close>

datatype cd_op =
    Cooldown cooldown_config
  | Window session_window
  | Attempt int nat nat nat nat string

fun admitted :: "cd_op \<Rightarrow> cooldown_manager \<Rightarrow> bool" where
  "admitted (Attempt now d1 d2 d3 d4 ty) m = fst (check_event_constraints now (now + int d1) ty m)"
| "admitted _ m = False"

fun cd_step :: "cd_op \<Rightarrow> cooldown_manager \<Rightarrow> cooldown_manager" where
  "cd_step (Cooldown cfg) m = configure_cooldown cfg m"
| "cd_step (Window w) m = configure_session_window w m"
| "cd_step (Attempt now d1 d2 d3 d4 ty) m =
     (if fst (check_event_constraints now (now + int d1) ty m)
      then record_event (now + int (d1 + d2)) (now + int (d1 + d2 + d3)) (now + int (d1 + d2 + d3 + d4)) ty m
      else m)"

definition windows_empty :: "cooldown_manager \<Rightarrow> bool" where
  "windows_empty m \<longleftrightarrow> (\<forall>ty t. map_of (cd_cooldowns m) ty = Some t \<longrightarrow> ct_events_in_window t = 0)"

lemma admitted_not_cooling:
  "fst (check_event_constraints now u ty m) \<Longrightarrow> map_of (cd_cooldowns m) ty = Some t \<Longrightarrow> now \<le> b \<Longrightarrow>
   \<not> is_cooling_down b t"
  by (auto simp: check_event_constraints_def check_cooldown_def is_cooling_down_def split: if_splits)

interpretation cdw: inv_machine cd_step windows_empty
proof
  fix m op
  assume inv: "windows_empty m"
  show "windows_empty (cd_step op m)"
  proof (cases op)
    case (Attempt now d1 d2 d3 d4 ty)
    show ?thesis
    proof (cases "fst (check_event_constraints now (now + int d1) ty m)")
      case True
      note nc = admitted_not_cooling [OF True]
      have "now \<le> now + int (d1 + d2 + d3)" by simp
      with inv Attempt True show ?thesis
        by (auto simp: windows_empty_def record_event_def Let_def reset_window_def update_conv'
            is_cooling_down_def dest: nc split: option.splits if_splits)
    qed (use inv Attempt in simp)
  qed (use inv in \<open>auto simp: windows_empty_def configure_cooldown_def configure_session_window_def Let_def
        new_cooldown_def update_conv' split: if_splits\<close>)
qed

section \<open>Metrics\<close>

definition rm_ok :: "reasoning_metrics \<Rightarrow> bool" where
  "rm_ok m \<longleftrightarrow> 0 \<le> rm_successful_calls m \<and> 0 \<le> rm_failed_calls m \<and>
     rm_successful_calls m + rm_failed_calls m = rm_total_calls m"

definition om_ok :: "orchestration_metrics \<Rightarrow> bool" where
  "om_ok m \<longleftrightarrow> 0 \<le> om_accepted_events m \<and> 0 \<le> om_rejected_events m \<and> 0 \<le> om_deferred_events m \<and>
     0 \<le> om_escalated_events m \<and>
     om_accepted_events m + om_rejected_events m + om_deferred_events m + om_escalated_events m \<le> om_total_events m"

datatype os_op = Call bool int int | Event string int

fun os_step :: "os_op \<Rightarrow> orchestration_state \<Rightarrow> orchestration_state" where
  "os_step (Call b ms n) s = record_reasoning_call b ms n s"
| "os_step (Event st ms) s = record_event_processing st ms s"

interpretation osm: inv_machine os_step "\<lambda>s. rm_ok (os_reasoning_metrics s) \<and> om_ok (os_orchestration_metrics s)"
proof
  fix s :: orchestration_state and op :: os_op
  assume inv: "rm_ok (os_reasoning_metrics s) \<and> om_ok (os_orchestration_metrics s)"
  then show "rm_ok (os_reasoning_metrics (os_step op s)) \<and> om_ok (os_orchestration_metrics (os_step op s))"
    by (cases op) (auto simp: rm_ok_def om_ok_def record_reasoning_call_def record_event_processing_def
        add_call_def add_event_def Let_def)
qed

lemma percentage:
  assumes "0 \<le> a" and "a \<le> b" and "(0::int) < b"
  shows "0 \<le> (of_int a :: rat) / of_int b * 100 \<and> (of_int a :: rat) / of_int b * 100 \<le> 100"
  using assms by (simp add: divide_le_eq)

section \<open>Properties\<close>

lemma filter_signals_spec:
  "filter_signals p ss kept n = (kept @ filter (signal_passes p) ss, n + int (length (filter (\<lambda>s. \<not> signal_passes p s) ss)))"
  by (induction ss arbitrary: kept n) auto

text \<open>The table of tracked events never exceeds its maximum when the maximum is at least
  10, over any sequence of creations and state changes from an empty table, and a tracker just
  created is found. Below 10 a tenth of the maximum rounds to zero, nothing is ever evicted, and
  the table holds as many events as there were distinct ids, whatever the maximum.\<close>

theorem tracked_events_bounded:
  "(10 \<le> n \<longrightarrow> int (length (cm_events (fold cm_step ops (cm_init n)))) \<le> n) \<and>
   get_event_tracker cid (cm_step (Create now cid ty) (fold cm_step ops (cm_init n))) = Some (new_tracker cid ty now) \<and>
   (0 \<le> n \<longrightarrow> n < 10 \<longrightarrow> distinct cids \<longrightarrow>
      length (cm_events (fold (\<lambda>c. cm_step (Create now c ty)) cids (cm_init n))) = length cids)"
proof (intro conjI impI)
  assume "10 \<le> n"
  then have "cm_bounded n (cm_init n)" by (simp add: cm_bounded_def cm_init_def)
  from cmb.run_inv [OF this] show "int (length (cm_events (fold cm_step ops (cm_init n)))) \<le> n"
    by (simp add: cm_bounded_def)
next
  assume "0 \<le> n" "n < 10" "distinct cids"
  then show "length (cm_events (fold (\<lambda>c. cm_step (Create now c ty)) cids (cm_init n))) = length cids"
    by (subst small_grows) (simp_all add: cm_init_def)
qed (simp add: get_event_tracker_def created_is_found)

theorem tracked_events_bounded_witness:
  "int (length (cm_events (fold cm_step
     (map (\<lambda>i. Create (int i) (show_nat i) ''tick'') [0..<30]) (cm_init 10)))) \<le> 10 \<and>
   length (cm_events (fold (\<lambda>c. cm_step (Create 0 c ''tick'')) [''a'', ''b'', ''c''] (cm_init 1))) = 3"
  using tracked_events_bounded [of 10 "map (\<lambda>i. Create (int i) (show_nat i) ''tick'') [0..<30]"]
    tracked_events_bounded [of 1 "[]" "[]" 0 "''tick''" "[''a'', ''b'', ''c'']"] by simp

text \<open>Recording an event outside a cooldown opens one: until the configured time after the
  recording has passed, every check says the type is cooling down and when it will be available,
  and from then on it is available; the event that opened the cooldown is not counted in its
  window.\<close>

theorem cooldown_enforced:
  assumes "map_of (cd_configs m) ty = Some cfg" and "map_of (cd_cooldowns m) ty = Some t"
    and "\<not> is_cooling_down b t"
  shows "check_cooldown u ty (record_event a b c ty m) =
     (if u < c + cc_cooldown_ms cfg then (True, Some (c + cc_cooldown_ms cfg)) else (False, None)) \<and>
     map_option ct_events_in_window (map_of (cd_cooldowns (record_event a b c ty m)) ty) = Some 0"
  using record_cases [OF assms(1,2), of a b c] assms(3)
  by (simp add: check_cooldown_def reset_window_def is_cooling_down_def)

theorem cooldown_enforced_witness:
  "check_cooldown 1500 ''tick''
     (record_event 1000 1000 1000 ''tick''
        (configure_cooldown \<lparr>cc_event_type = ''tick'', cc_cooldown_ms = 700, cc_max_events_per_window = None\<rparr> cd_init)) =
   (True, Some 1700)"
  using cooldown_enforced [of "configure_cooldown \<lparr>cc_event_type = ''tick'', cc_cooldown_ms = 700, cc_max_events_per_window = None\<rparr> cd_init"
      "''tick''" "\<lparr>cc_event_type = ''tick'', cc_cooldown_ms = 700, cc_max_events_per_window = None\<rparr>" "new_cooldown ''tick''" 1000 1500 1000 1000]
  by (simp add: configure_cooldown_def Let_def cd_init_def is_cooling_down_def new_cooldown_def)

text \<open>A caller that records exactly the events it admits never meets the limit of a
  session window: an admitted event is outside every cooldown, so recording it resets the counter,
  and after any sequence of configurations and attempts the limit check fails only for windows
  that allow no event at all.\<close>

theorem event_limit_never_reached:
  "check_event_limit ty (fold cd_step ops cd_init) \<longleftrightarrow>
     (case (map_of (cd_windows (fold cd_step ops cd_init)) ty, map_of (cd_cooldowns (fold cd_step ops cd_init)) ty) of
        (Some w, Some t) \<Rightarrow> 0 < sw_max_events w
      | _ \<Rightarrow> True)"
proof -
  have "windows_empty (fold cd_step ops cd_init)"
    by (rule cdw.run_inv) (simp add: windows_empty_def cd_init_def)
  then show ?thesis by (auto simp: check_event_limit_def windows_empty_def split: option.splits)
qed

text \<open>With a policy the filter returns exactly the signals that pass it, in order, and one
  decision with the number it dropped when there are any; without a store or a policy, and when
  the store raises, every signal is let through and no decision is recorded.\<close>

theorem signal_filter_exact:
  "fst (apply_policies has_store answer now ss ty) =
     (case answer of Inr (Some p) \<Rightarrow> if has_store then filter (signal_passes p) ss else ss | _ \<Rightarrow> ss) \<and>
   sum_list (map pd_signals_filtered (snd (apply_policies has_store answer now ss ty))) =
     int (length ss) - int (length (fst (apply_policies has_store answer now ss ty))) \<and>
   length (snd (apply_policies has_store answer now ss ty)) \<le> 1"
proof -
  show ?thesis
  proof (cases "\<exists>p. answer = Inr (Some p) \<and> has_store")
    case True
    then obtain p where p: "answer = Inr (Some p)" "has_store" by blast
    have "int (length ss) = int (length (filter (signal_passes p) ss)) + int (length (filter (\<lambda>s. \<not> signal_passes p s) ss))"
      by (metis of_nat_add sum_length_filter_compl)
    with p show ?thesis by (auto simp: apply_policies_def filter_signals_spec)
  next
    case False
    then show ?thesis by (auto simp: apply_policies_def split: sum.splits option.splits)
  qed
qed

text \<open>Over any sequence of recorded calls and events the counters add up and the success
  and acceptance rates lie between 0 and 100.\<close>

theorem rates_are_percentages:
  "let s = fold os_step ops os_init; r = os_reasoning_metrics s; e = os_orchestration_metrics s in
   rm_successful_calls r + rm_failed_calls r = rm_total_calls r \<and>
   0 \<le> get_success_rate r \<and> get_success_rate r \<le> 100 \<and>
   0 \<le> get_acceptance_rate e \<and> get_acceptance_rate e \<le> 100"
proof -
  have "rm_ok (os_reasoning_metrics (fold os_step ops os_init)) \<and> om_ok (os_orchestration_metrics (fold os_step ops os_init))"
    by (rule osm.run_inv) (simp add: os_init_def rm_ok_def rm_init_def om_ok_def om_init_def)
  then show ?thesis
    using percentage by (fastforce simp: Let_def rm_ok_def om_ok_def get_success_rate_def get_acceptance_rate_def)
qed

end
