(* ===== verification/Timeline.thy ===== *)
theory Timeline
  imports Contracts "HOL-Library.Char_ord" "HOL-Library.List_Lexorder"
begin

text \<open>
  \<open>reasoner_service/decision_timeline_service.py\<close>: the append-only timeline of decision events.

  \<open>record_event\<close> reads the shared event counter before it takes the lock and appends under the
  lock, so a call is two atomic steps: \<open>build_event\<close> (the guards, the copy of the payload, the
  sequence number) and \<open>append_event\<close> (the locked block). \<open>record_event\<close> composes them for one
  thread; the step relation \<open>tl_step\<close> interleaves them for any number of threads.

  The code stores times as \<open>isoformat()\<close> strings and compares the strings. All of them have the
  offset \<open>+00:00\<close>, a year of four digits and either no fraction or one of six digits, and \<open>+\<close> is
  below \<open>.\<close>, so the order of the strings is the order of the times; the model keeps the times.
  Payloads are deep-copied in and out, so a payload here is a value.
\<close>

section \<open>Events and the service\<close>

record tl_event =
  te_event_type :: string
  te_timestamp :: time
  te_payload :: pydict
  te_correlation_id :: string
  te_sequence_number :: int

record timeline_service =
  ts_timelines :: "(string \<times> tl_event list) list"
  ts_event_count :: int

definition VALID_EVENT_TYPES :: "string list" where
  "VALID_EVENT_TYPES =
     [''SIGNAL_DETECTED'', ''DECISION_PROPOSED'', ''POLICY_EVALUATED'', ''POLICY_CONFIDENCE_SCORED'',
      ''GOVERNANCE_EVALUATED'', ''TRADE_EXECUTED'', ''OUTCOME_RECORDED'']"

definition ts_init :: timeline_service where
  "ts_init = \<lparr>ts_timelines = [], ts_event_count = 0\<rparr>"

text \<open>An unknown event type is only logged: it is recorded anyway.\<close>

definition build_event ::
    "time \<Rightarrow> pyval \<Rightarrow> pyval \<Rightarrow> pyval \<Rightarrow> timeline_service \<Rightarrow> tl_event option" where
  "build_event now event_type payload correlation_id s =
     (case event_type of
        VStr ty \<Rightarrow>
          if ty = [] then None
          else (case correlation_id of
                  VStr cid \<Rightarrow>
                    if cid = [] then None
                    else (case payload of
                            VDict p \<Rightarrow>
                              Some \<lparr>te_event_type = ty, te_timestamp = now, te_payload = p,
                                    te_correlation_id = cid, te_sequence_number = ts_event_count s\<rparr>
                          | _ \<Rightarrow> None)
                | _ \<Rightarrow> None)
      | _ \<Rightarrow> None)"

definition append_event :: "tl_event \<Rightarrow> timeline_service \<Rightarrow> timeline_service" where
  "append_event e s =
     (let cid = te_correlation_id e in
      s\<lparr>ts_timelines := AList.update cid (dget cid (ts_timelines s) [] @ [e]) (ts_timelines s),
        ts_event_count := ts_event_count s + 1\<rparr>)"

definition record_event_tl ::
    "time \<Rightarrow> pyval \<Rightarrow> pyval \<Rightarrow> pyval \<Rightarrow> timeline_service \<Rightarrow> timeline_service" where
  "record_event_tl now event_type payload correlation_id s =
     (case build_event now event_type payload correlation_id s of
        None \<Rightarrow> s
      | Some e \<Rightarrow> append_event e s)"

section \<open>Queries\<close>

definition get_timeline :: "pyval \<Rightarrow> timeline_service \<Rightarrow> tl_event list" where
  "get_timeline correlation_id s =
     (case correlation_id of
        VStr cid \<Rightarrow> if cid = [] then [] else dget cid (ts_timelines s) []
      | _ \<Rightarrow> [])"

definition replay :: "pyval \<Rightarrow> timeline_service \<Rightarrow> tl_event list" where
  "replay correlation_id s = get_timeline correlation_id s"

definition get_event_count :: "string option \<Rightarrow> timeline_service \<Rightarrow> int" where
  "get_event_count cid s =
     (if truthy_str cid then int (length (dget (the cid) (ts_timelines s) []))
      else (\<Sum>p\<leftarrow>ts_timelines s. int (length (snd p))))"

definition get_all_correlation_ids :: "timeline_service \<Rightarrow> string list" where
  "get_all_correlation_ids s = sort (map fst (ts_timelines s))"

definition tl_events_by_type :: "pyval \<Rightarrow> string \<Rightarrow> timeline_service \<Rightarrow> tl_event list" where
  "tl_events_by_type cid ty s = filter (\<lambda>e. te_event_type e = ty) (get_timeline cid s)"

record tl_export =
  tx_found :: bool
  tx_event_count :: int
  tx_event_types :: "string list"
  tx_first_event_time :: "time option"
  tx_last_event_time :: "time option"
  tx_events :: "tl_event list"
  tx_exported_at :: "time option"

definition export_timeline :: "time \<Rightarrow> pyval \<Rightarrow> timeline_service \<Rightarrow> tl_export" where
  "export_timeline now cid s =
     (let timeline = get_timeline cid s in
      if timeline = [] then
        \<lparr>tx_found = False, tx_event_count = 0, tx_event_types = [], tx_first_event_time = None,
         tx_last_event_time = None, tx_events = [], tx_exported_at = None\<rparr>
      else
        \<lparr>tx_found = True, tx_event_count = int (length timeline),
         tx_event_types = map te_event_type timeline,
         tx_first_event_time = Some (te_timestamp (hd timeline)),
         tx_last_event_time = Some (te_timestamp (List.last timeline)),
         tx_events = timeline, tx_exported_at = Some now\<rparr>)"

text \<open>
  The two loops over a timeline. The loop over required fields finds nothing, since every event
  the service stores has them all.
\<close>

fun sequence_issues :: "nat \<Rightarrow> int \<Rightarrow> tl_event list \<Rightarrow> fstring list" where
  "sequence_issues i prev [] = []"
| "sequence_issues i prev (e # es) =
     (if te_sequence_number e < prev
      then [[T ''Event '', I (int i), T '': sequence number not monotonic'']] else []) @
     sequence_issues (Suc i) (te_sequence_number e) es"

fun timestamp_issues :: "nat \<Rightarrow> tl_event list \<Rightarrow> fstring list" where
  "timestamp_issues i (e1 # e2 # es) =
     (if te_timestamp e1 > te_timestamp e2
      then [[T ''Event '', I (int i), T '': timestamp before previous event ('',
             At (te_timestamp e2), T '' < '', At (te_timestamp e1), T '')'']] else []) @
     timestamp_issues (Suc i) (e2 # es)"
| "timestamp_issues i _ = []"

record tl_validation =
  tv_valid :: bool
  tv_reason :: "string option"
  tv_event_count :: "int option"
  tv_issues :: "fstring list"
  tv_validated_at :: "time option"

definition validate_timeline :: "time \<Rightarrow> pyval \<Rightarrow> timeline_service \<Rightarrow> tl_validation" where
  "validate_timeline now cid s =
     (let timeline = get_timeline cid s in
      if timeline = [] then
        \<lparr>tv_valid = False, tv_reason = Some ''Timeline not found'', tv_event_count = None,
         tv_issues = [], tv_validated_at = None\<rparr>
      else
        (let issues = sequence_issues 0 (-1) timeline @ timestamp_issues 1 timeline in
         \<lparr>tv_valid = (issues = []), tv_reason = None, tv_event_count = Some (int (length timeline)),
          tv_issues = issues, tv_validated_at = Some now\<rparr>))"

definition clear_all :: "timeline_service \<Rightarrow> timeline_service" where
  "clear_all s = s\<lparr>ts_timelines := [], ts_event_count := 0\<rparr>"

record tl_statistics =
  tst_total_events :: int
  tst_total_correlations :: int
  tst_event_type_distribution :: "(string \<times> int) list"

definition get_statistics :: "timeline_service \<Rightarrow> tl_statistics" where
  "get_statistics s =
     \<lparr>tst_total_events = (\<Sum>p\<leftarrow>ts_timelines s. int (length (snd p))),
      tst_total_correlations = int (length (ts_timelines s)),
      tst_event_type_distribution =
        fold (\<lambda>p counts. fold (\<lambda>e c. bump (te_event_type e) c) (snd p) counts) (ts_timelines s) []\<rparr>"

section \<open>Several threads\<close>

record tl_system =
  sys_service :: timeline_service
  sys_pending :: "nat \<Rightarrow> tl_event option"

definition sys_init :: tl_system where
  "sys_init = \<lparr>sys_service = ts_init, sys_pending = (\<lambda>_. None)\<rparr>"

inductive tl_step :: "tl_system \<Rightarrow> tl_system \<Rightarrow> bool" where
  read: "sys_pending s t = None \<Longrightarrow> build_event now ty payload cid (sys_service s) = Some e \<Longrightarrow>
         tl_step s (s\<lparr>sys_pending := (sys_pending s)(t := Some e)\<rparr>)"
| append: "sys_pending s t = Some e \<Longrightarrow>
         tl_step s (s\<lparr>sys_service := append_event e (sys_service s),
                     sys_pending := (sys_pending s)(t := None)\<rparr>)"

inductive_cases tl_stepE: "tl_step s s'"

section \<open>Lemmas on one call\<close>

lemma build_event_fields:
  assumes "build_event now ty payload cid s = Some e"
  shows "te_sequence_number e = ts_event_count s" "te_timestamp e = now"
    "cid = VStr (te_correlation_id e)" "ty = VStr (te_event_type e)" "te_correlation_id e \<noteq> []"
  using assms by (auto simp: build_event_def split: pyval.splits if_splits)

lemma append_event_simps [simp]:
  "ts_event_count (append_event e s) = ts_event_count s + 1"
  "dget cid (ts_timelines (append_event e s)) [] =
     dget cid (ts_timelines s) [] @ (if cid = te_correlation_id e then [e] else [])"
  by (simp_all add: append_event_def Let_def)

lemma keys_append_event:
  "map fst (ts_timelines (append_event e s)) =
     (let ks = map fst (ts_timelines s) in
      if te_correlation_id e \<in> set ks then ks else ks @ [te_correlation_id e])"
  by (simp add: append_event_def Let_def update_keys)

lemma get_timeline_append:
  "get_timeline cid (append_event e s) =
     get_timeline cid s @
     (if cid = VStr (te_correlation_id e) \<and> te_correlation_id e \<noteq> [] then [e] else [])"
  by (auto simp: get_timeline_def split: pyval.splits)

text \<open>The number of stored events.\<close>

definition stored :: "(string \<times> tl_event list) list \<Rightarrow> int" where
  "stored ts = (\<Sum>p\<leftarrow>ts. int (length (snd p)))"

lemma stored_update:
  assumes "distinct (map fst ts)"
  shows "stored (AList.update k (dget k ts [] @ [e]) ts) = stored ts + 1"
  using assms
proof (induction ts)
  case Nil
  then show ?case by (simp add: stored_def dget_def)
next
  case (Cons p ts)
  obtain k' v' where p: "p = (k', v')" by fastforce
  show ?case
  proof (cases "k' = k")
    case True
    then show ?thesis by (simp add: p stored_def dget_def)
  next
    case False
    then have "dget k (p # ts) [] = dget k ts []" by (simp add: p dget_def)
    with Cons False show ?thesis by (simp add: p stored_def)
  qed
qed

definition tl_ok :: "timeline_service \<Rightarrow> bool" where
  "tl_ok s \<longleftrightarrow> distinct (map fst (ts_timelines s)) \<and> stored (ts_timelines s) = ts_event_count s \<and>
     0 \<le> ts_event_count s \<and>
     (\<forall>cid. \<forall>e\<in>set (dget cid (ts_timelines s) []).
        te_correlation_id e = cid \<and> 0 \<le> te_sequence_number e \<and> te_sequence_number e < ts_event_count s)"

lemma tl_ok_event:
  assumes "tl_ok s" "e \<in> set (dget cid (ts_timelines s) [])"
  shows "te_correlation_id e = cid" "0 \<le> te_sequence_number e" "te_sequence_number e < ts_event_count s"
  using assms unfolding tl_ok_def by blast+

lemma tl_ok_init: "tl_ok ts_init"
  by (simp add: tl_ok_def ts_init_def stored_def dget_def)

lemma tl_ok_append:
  assumes "tl_ok s" "0 \<le> te_sequence_number e" "te_sequence_number e \<le> ts_event_count s"
  shows "tl_ok (append_event e s)"
proof -
  have "distinct (map fst (ts_timelines (append_event e s)))"
    using assms(1) by (auto simp: tl_ok_def keys_append_event Let_def)
  moreover have "stored (ts_timelines (append_event e s)) = ts_event_count s + 1"
    using assms(1) by (simp add: tl_ok_def append_event_def Let_def stored_update)
  moreover have "\<forall>cid. \<forall>x\<in>set (dget cid (ts_timelines (append_event e s)) []).
      te_correlation_id x = cid \<and> 0 \<le> te_sequence_number x \<and> te_sequence_number x < ts_event_count s + 1"
  proof (intro allI ballI)
    fix cid x assume x: "x \<in> set (dget cid (ts_timelines (append_event e s)) [])"
    show "te_correlation_id x = cid \<and> 0 \<le> te_sequence_number x \<and> te_sequence_number x < ts_event_count s + 1"
    proof (cases "x \<in> set (dget cid (ts_timelines s) [])")
      case True
      have "te_correlation_id x = cid \<and> 0 \<le> te_sequence_number x \<and> te_sequence_number x < ts_event_count s"
        using tl_ok_event[OF assms(1) True] by simp
      then show ?thesis by linarith
    next
      case False
      then have "x = e" "te_correlation_id e = cid" using x by (auto split: if_splits)
      then show ?thesis using assms(2,3) by simp
    qed
  qed
  moreover have "0 \<le> ts_event_count s + 1" using assms(2,3) by linarith
  ultimately show ?thesis unfolding tl_ok_def append_event_simps(1) by blast
qed

lemma tl_ok_record:
  assumes "tl_ok s"
  shows "tl_ok (record_event_tl now ty p cid s)"
proof (cases "build_event now ty p cid s")
  case None
  then show ?thesis using assms by (simp add: record_event_tl_def)
next
  case (Some e)
  have "0 \<le> ts_event_count s" using assms unfolding tl_ok_def by blast
  then have "tl_ok (append_event e s)"
    using assms build_event_fields(1)[OF Some] by (intro tl_ok_append) simp_all
  then show ?thesis using Some by (simp add: record_event_tl_def)
qed

section \<open>Runs of one thread\<close>

type_synonym tl_call = "time \<times> pyval \<times> pyval \<times> pyval"

definition record_all :: "tl_call list \<Rightarrow> timeline_service \<Rightarrow> timeline_service" where
  "record_all calls s = fold (\<lambda>(now, ty, p, cid) s. record_event_tl now ty p cid s) calls s"

lemma record_all_simps [simp]:
  "record_all [] s = s"
  "record_all ((now, ty, p, cid) # cs) s = record_all cs (record_event_tl now ty p cid s)"
  by (simp_all add: record_all_def)

lemma record_all_snoc [simp]:
  "record_all (cs @ [(now, ty, p, cid)]) s = record_event_tl now ty p cid (record_all cs s)"
  by (simp add: record_all_def)

lemma tl_ok_record_all: "tl_ok s \<Longrightarrow> tl_ok (record_all cs s)"
  by (induction cs rule: rev_induct) (auto simp: tl_ok_record)

text \<open>
  The numbers in a timeline are strictly increasing, and with a monotone clock so are the times
  (weakly): both lists are ordered and lie below the next number and the latest time.
\<close>

lemma record_all_sorted:
  "sorted_wrt (<) (map te_sequence_number (get_timeline cid (record_all cs ts_init)))"
proof (induction cs rule: rev_induct)
  case Nil
  then show ?case by (simp add: get_timeline_def ts_init_def dget_def split: pyval.splits)
next
  case (snoc c cs)
  obtain now ty p cid' where c: "c = (now, ty, p, cid')" by (cases c) auto
  have ok: "tl_ok (record_all cs ts_init)" by (simp add: tl_ok_record_all tl_ok_init)
  have less: "\<forall>e\<in>set (get_timeline cid (record_all cs ts_init)).
      te_sequence_number e < ts_event_count (record_all cs ts_init)"
    using ok by (auto simp: tl_ok_def get_timeline_def split: pyval.splits if_splits)
  show ?case
  proof (cases "build_event now ty p cid' (record_all cs ts_init)")
    case None
    with snoc c show ?thesis by (simp add: record_event_tl_def)
  next
    case (Some e)
    with snoc c less show ?thesis
      by (auto simp: record_event_tl_def get_timeline_append build_event_fields sorted_wrt_append)
  qed
qed

lemma record_all_times:
  assumes "sorted (map fst cs)"
  shows "sorted (map te_timestamp (get_timeline cid (record_all cs ts_init))) \<and>
    set (map te_timestamp (get_timeline cid (record_all cs ts_init))) \<subseteq> set (map fst cs)"
  using assms
proof (induction cs rule: rev_induct)
  case Nil
  then show ?case by (simp add: get_timeline_def ts_init_def dget_def split: pyval.splits)
next
  case (snoc c cs)
  obtain now ty p cid' where c: "c = (now, ty, p, cid')" by (cases c) auto
  have IH: "sorted (map te_timestamp (get_timeline cid (record_all cs ts_init)))"
      "set (map te_timestamp (get_timeline cid (record_all cs ts_init))) \<subseteq> set (map fst cs)"
    using snoc by (auto simp: sorted_append)
  have le: "\<forall>t\<in>set (map fst cs). t \<le> now" using snoc.prems c by (auto simp: sorted_append)
  show ?case
  proof (cases "build_event now ty p cid' (record_all cs ts_init)")
    case None
    with IH c show ?thesis by (auto simp: record_event_tl_def)
  next
    case (Some e)
    have tm: "\<forall>t\<in>set (map te_timestamp (get_timeline cid (record_all cs ts_init))). t \<le> now"
      using IH(2) le by blast
    show ?thesis
    proof (cases "cid = VStr (te_correlation_id e) \<and> te_correlation_id e \<noteq> []")
      case True
      with Some IH c tm show ?thesis
        by (simp add: record_event_tl_def get_timeline_append build_event_fields(2)[OF Some] sorted_append)
           blast
    next
      case False
      with Some IH c show ?thesis
        by (auto simp: record_event_tl_def get_timeline_append)
    qed
  qed
qed

lemma sequence_issues_empty:
  "sequence_issues i prev es = [] \<longleftrightarrow> sorted (prev # map te_sequence_number es)"
  by (induction i prev es rule: sequence_issues.induct) (auto simp: not_less intro: order_trans)

lemma timestamp_issues_empty: "timestamp_issues i es = [] \<longleftrightarrow> sorted (map te_timestamp es)"
  by (induction i es rule: timestamp_issues.induct) (auto simp: not_less intro: order_trans)

lemma stored_sum: "get_event_count None s = stored (ts_timelines s)"
  by (simp add: stored_def get_event_count_def)

text \<open>The numbers of a single-threaded run are exactly those below the counter.\<close>

definition all_events :: "timeline_service \<Rightarrow> tl_event list" where
  "all_events s = concat (map snd (ts_timelines s))"

lemma set_concat_update:
  "set (concat (map snd (AList.update k (dget k ts [] @ [e]) ts))) =
    insert e (set (concat (map snd ts)))"
proof (induction ts)
  case Nil
  then show ?case by (simp add: dget_def)
next
  case (Cons p ts)
  obtain k' v' where p: "p = (k', v')" by fastforce
  show ?case
  proof (cases "k' = k")
    case True
    then show ?thesis by (simp add: p dget_def)
  next
    case False
    then have "dget k (p # ts) [] = dget k ts []" by (simp add: p dget_def)
    with Cons False show ?thesis by (auto simp: p)
  qed
qed

lemma all_events_append: "set (all_events (append_event e s)) = insert e (set (all_events s))"
proof -
  have "ts_timelines (append_event e s) =
      AList.update (te_correlation_id e) (dget (te_correlation_id e) (ts_timelines s) [] @ [e]) (ts_timelines s)"
    by (simp add: append_event_def Let_def)
  then show ?thesis unfolding all_events_def by (metis set_concat_update)
qed

lemma record_all_numbers:
  "te_sequence_number ` set (all_events (record_all cs ts_init)) = {0..<ts_event_count (record_all cs ts_init)}"
proof (induction cs rule: rev_induct)
  case Nil
  then show ?case by (simp add: all_events_def ts_init_def)
next
  case (snoc c cs)
  obtain now ty p cid where c: "c = (now, ty, p, cid)" by (cases c) auto
  have ok: "tl_ok (record_all cs ts_init)" by (simp add: tl_ok_record_all tl_ok_init)
  then have "0 \<le> ts_event_count (record_all cs ts_init)" unfolding tl_ok_def by blast
  then have "insert (ts_event_count (record_all cs ts_init)) {0..<ts_event_count (record_all cs ts_init)} =
      {0..<ts_event_count (record_all cs ts_init) + 1}" by auto
  then show ?case using snoc
    by (cases "build_event now ty p cid (record_all cs ts_init)")
       (simp_all add: c record_event_tl_def all_events_append build_event_fields(1))
qed

section \<open>Runs of several threads\<close>

definition sys_ok :: "tl_system \<Rightarrow> bool" where
  "sys_ok s \<longleftrightarrow> tl_ok (sys_service s) \<and>
     (\<forall>t e. sys_pending s t = Some e \<longrightarrow>
        0 \<le> te_sequence_number e \<and> te_sequence_number e \<le> ts_event_count (sys_service s))"

lemma sys_ok_init: "sys_ok sys_init"
  unfolding sys_ok_def sys_init_def by (simp add: tl_ok_init)

lemma sys_ok_step:
  assumes "tl_step s s'" "sys_ok s"
  shows "sys_ok s'"
  using assms
proof (induction rule: tl_step.induct)
  case (read s t now ty payload cid e)
  have "0 \<le> ts_event_count (sys_service s)" using read.prems unfolding sys_ok_def tl_ok_def by blast
  then show ?case using read.prems build_event_fields(1)[OF read.hyps(2)]
    unfolding sys_ok_def by (auto split: if_splits)
next
  case (append s t e)
  have e: "0 \<le> te_sequence_number e" "te_sequence_number e \<le> ts_event_count (sys_service s)"
    using append unfolding sys_ok_def by blast+
  have "tl_ok (append_event e (sys_service s))"
    using append.prems e unfolding sys_ok_def by (intro tl_ok_append) blast+
  then show ?case using append.prems unfolding sys_ok_def
    by (auto split: if_splits intro: order_trans[OF _ less_imp_le])
qed

lemma sys_ok_reachable: "tl_step\<^sup>*\<^sup>* sys_init s \<Longrightarrow> sys_ok s"
  by (induction rule: rtranclp_induct) (auto simp: sys_ok_init intro: sys_ok_step)

lemma tl_step_prefix:
  "tl_step s s' \<Longrightarrow> prefix (get_timeline cid (sys_service s)) (get_timeline cid (sys_service s'))"
  by (induction rule: tl_step.induct) (simp_all add: get_timeline_append)

lemma tl_steps_prefix:
  "tl_step\<^sup>*\<^sup>* s s' \<Longrightarrow> prefix (get_timeline cid (sys_service s)) (get_timeline cid (sys_service s'))"
  by (induction rule: rtranclp_induct) (auto dest: tl_step_prefix intro: prefix_order.trans)

section \<open>Properties\<close>

text \<open>When one thread records events, whatever the calls, the events
  that are stored carry each of the numbers from 0 up to the counter, the numbers of a timeline
  increase strictly, the counter is the number of stored events, and when the clock does not go
  back \<open>validate_timeline\<close> answers valid for every timeline that exists.\<close>

theorem timeline_sequential:
  assumes "sorted (map fst calls)"
  shows "te_sequence_number ` set (all_events (record_all calls ts_init)) =
      {0..<get_event_count None (record_all calls ts_init)} \<and>
    get_event_count None (record_all calls ts_init) = ts_event_count (record_all calls ts_init) \<and>
    sorted_wrt (<) (map te_sequence_number (get_timeline cid (record_all calls ts_init))) \<and>
    (tv_valid (validate_timeline now cid (record_all calls ts_init)) \<longleftrightarrow>
      get_timeline cid (record_all calls ts_init) \<noteq> [])"
proof -
  let ?s = "record_all calls ts_init"
  have ok: "tl_ok ?s" by (simp add: tl_ok_record_all tl_ok_init)
  then have count: "get_event_count None ?s = ts_event_count ?s"
    unfolding stored_sum tl_ok_def by blast
  have nonneg: "\<forall>e\<in>set (get_timeline cid ?s). -1 \<le> te_sequence_number e"
    using ok unfolding tl_ok_def get_timeline_def
    by (force split: pyval.splits if_splits)
  have "sorted (-1 # map te_sequence_number (get_timeline cid ?s))"
    using nonneg strict_sorted_imp_sorted[OF record_all_sorted] by auto
  then show ?thesis
    using record_all_sorted record_all_numbers record_all_times[OF assms] count
    by (simp add: validate_timeline_def Let_def sequence_issues_empty timestamp_issues_empty)
qed

definition demo_payload :: pyval where
  "demo_payload = VDict [(''symbol'', VStr ''EURUSD'')]"

theorem timeline_sequential_witness:
  "let calls = [(10, VStr ''SIGNAL_DETECTED'', demo_payload, VStr ''D1''),
                (20, VStr ''TRADE_EXECUTED'', demo_payload, VStr ''D2''),
                (20, VStr ''OUTCOME_RECORDED'', demo_payload, VStr ''D1'')];
       s = record_all calls ts_init in
   tv_valid (validate_timeline 30 (VStr ''D1'') s) \<and>
   map te_sequence_number (get_timeline (VStr ''D1'') s) = [0, 2] \<and> get_event_count None s = 3"
proof -
  let ?calls = "[(10, VStr ''SIGNAL_DETECTED'', demo_payload, VStr ''D1''),
                (20, VStr ''TRADE_EXECUTED'', demo_payload, VStr ''D2''),
                (20, VStr ''OUTCOME_RECORDED'', demo_payload, VStr ''D1'')]"
  have "map te_sequence_number (get_timeline (VStr ''D1'') (record_all ?calls ts_init)) = [0, 2]"
      "ts_event_count (record_all ?calls ts_init) = 3"
    by (simp_all add: record_event_tl_def build_event_def append_event_def ts_init_def
        demo_payload_def get_timeline_def dget_def Let_def)
  then show ?thesis
    using timeline_sequential[of ?calls "VStr ''D1''" 30] by (auto simp: Let_def)
qed

text \<open>However the calls of several threads interleave, a recorded event is
  never changed, moved or removed: the timeline of every id at one moment is a prefix of its
  timeline at any later moment, every event lies in the timeline of its own id with a number
  below the counter, and the counter is the number of stored events.\<close>

theorem timeline_append_only:
  assumes "tl_step\<^sup>*\<^sup>* sys_init s" "tl_step\<^sup>*\<^sup>* s s'"
  shows "prefix (get_timeline cid (sys_service s)) (get_timeline cid (sys_service s')) \<and>
    (\<forall>e. e \<in> set (get_timeline cid (sys_service s')) \<longrightarrow> cid = VStr (te_correlation_id e) \<and>
       0 \<le> te_sequence_number e \<and> te_sequence_number e < get_event_count None (sys_service s')) \<and>
    get_event_count None (sys_service s') = ts_event_count (sys_service s')"
proof -
  have ok: "tl_ok (sys_service s')"
    using sys_ok_reachable[OF rtranclp_trans[OF assms]] unfolding sys_ok_def by blast
  then have count: "get_event_count None (sys_service s') = ts_event_count (sys_service s')"
    unfolding stored_sum tl_ok_def by blast
  have "cid = VStr (te_correlation_id e) \<and>
      0 \<le> te_sequence_number e \<and> te_sequence_number e < ts_event_count (sys_service s')"
    if mem: "e \<in> set (get_timeline cid (sys_service s'))" for e
  proof -
    obtain c where c: "cid = VStr c" "e \<in> set (dget c (ts_timelines (sys_service s')) [])"
      using mem by (auto simp: get_timeline_def split: pyval.splits if_splits)
    show ?thesis using tl_ok_event[OF ok c(2)] c(1) by simp
  qed
  then show ?thesis
    unfolding count using tl_steps_prefix[OF assms(2)] by blast
qed

theorem timeline_append_only_witness:
  "\<exists>s s'. tl_step\<^sup>*\<^sup>* sys_init s \<and> tl_step\<^sup>*\<^sup>* s s' \<and> get_timeline (VStr ''D1'') (sys_service s') \<noteq> [] \<and>
     prefix (get_timeline (VStr ''D1'') (sys_service s)) (get_timeline (VStr ''D1'') (sys_service s')) \<and>
     get_event_count None (sys_service s') = ts_event_count (sys_service s')"
proof -
  let ?e = "\<lparr>te_event_type = ''TRADE_EXECUTED'', te_timestamp = 1, te_payload = [],
     te_correlation_id = ''D1'', te_sequence_number = 0\<rparr>"
  let ?s1 = "sys_init\<lparr>sys_pending := (sys_pending sys_init)(0 := Some ?e)\<rparr>"
  let ?s2 = "?s1\<lparr>sys_service := append_event ?e (sys_service ?s1), sys_pending := (sys_pending ?s1)(0 := None)\<rparr>"
  have "build_event 1 (VStr ''TRADE_EXECUTED'') (VDict []) (VStr ''D1'') (sys_service sys_init) = Some ?e"
    by (simp add: build_event_def sys_init_def ts_init_def)
  then have 1: "tl_step\<^sup>*\<^sup>* sys_init ?s1"
    by (intro r_into_rtranclp tl_step.read) (simp_all add: sys_init_def)
  have 2: "tl_step\<^sup>*\<^sup>* ?s1 ?s2" by (intro r_into_rtranclp tl_step.append) simp
  have "get_timeline (VStr ''D1'') (sys_service ?s2) \<noteq> []" by (simp add: get_timeline_append)
  then show ?thesis using timeline_append_only[OF 1 2, of "VStr ''D1''"] 1 2 by blast
qed

text \<open>The interleaving of two threads, 0 and 1: both read the counter at 0 before either appends.\<close>

definition raced_event :: "time \<Rightarrow> int \<Rightarrow> tl_event" where
  "raced_event t n = \<lparr>te_event_type = ''TRADE_EXECUTED'', te_timestamp = t, te_payload = [],
     te_correlation_id = ''D1'', te_sequence_number = n\<rparr>"

lemma read_raced:
  "build_event t (VStr ''TRADE_EXECUTED'') (VDict []) (VStr ''D1'') s = Some (raced_event t (ts_event_count s))"
  by (simp add: build_event_def raced_event_def)

lemma raced_simps [simp]:
  "te_correlation_id (raced_event t n) = ''D1''"
  "te_sequence_number (raced_event t n) = n"
  "te_timestamp (raced_event t n) = t"
  by (simp_all add: raced_event_def)

lemmas race_step = rtranclp.rtrancl_into_rtrancl[of tl_step sys_init]

lemma race_reachable:
  "\<exists>s. tl_step\<^sup>*\<^sup>* sys_init s \<and>
       sys_service s = append_event (raced_event 1 0) (append_event (raced_event 3 1)
         (append_event (raced_event 2 0) ts_init))"
proof -
  let ?a = "raced_event 1 0" and ?b = "raced_event 2 0" and ?c = "raced_event 3 1"
  define s1 where "s1 = sys_init\<lparr>sys_pending := (sys_pending sys_init)(0 := Some ?a)\<rparr>"
  define s2 where "s2 = s1\<lparr>sys_pending := (sys_pending s1)(1 := Some ?b)\<rparr>"
  define s3 where "s3 = s2\<lparr>sys_service := append_event ?b (sys_service s2), sys_pending := (sys_pending s2)(1 := None)\<rparr>"
  define s4 where "s4 = s3\<lparr>sys_pending := (sys_pending s3)(1 := Some ?c)\<rparr>"
  define s5 where "s5 = s4\<lparr>sys_service := append_event ?c (sys_service s4), sys_pending := (sys_pending s4)(1 := None)\<rparr>"
  define s6 where "s6 = s5\<lparr>sys_service := append_event ?a (sys_service s5), sys_pending := (sys_pending s5)(0 := None)\<rparr>"
  note defs = s1_def s2_def s3_def s4_def s5_def s6_def sys_init_def ts_init_def
  have "tl_step sys_init s1" unfolding s1_def
    by (rule tl_step.read[OF _ read_raced[THEN trans]]) (simp_all add: defs)
  moreover have "tl_step s1 s2" unfolding s2_def
    by (rule tl_step.read[OF _ read_raced[THEN trans]]) (simp_all add: defs)
  moreover have "tl_step s2 s3" unfolding s3_def
    by (rule tl_step.append) (simp add: defs)
  moreover have "tl_step s3 s4" unfolding s4_def
    by (rule tl_step.read[OF _ read_raced[THEN trans]]) (simp_all add: defs)
  moreover have "tl_step s4 s5" unfolding s5_def
    by (rule tl_step.append) (simp add: defs)
  moreover have "tl_step s5 s6" unfolding s6_def
    by (rule tl_step.append) (simp add: defs)
  ultimately have "tl_step\<^sup>*\<^sup>* sys_init s6"
    by (meson rtranclp.rtrancl_refl rtranclp.rtrancl_into_rtrancl)
  moreover have "sys_service s6 = append_event ?a (append_event ?c (append_event ?b ts_init))"
    by (simp add: defs)
  ultimately show ?thesis by blast
qed

text \<open>The counter is read outside the lock, so two threads that record
  events for the same decision can store two events with the same sequence number, in an order
  that \<open>validate_timeline\<close> itself rejects as not monotonic.\<close>

theorem timeline_sequence_race:
  "\<exists>s. tl_step\<^sup>*\<^sup>* sys_init s \<and>
     map te_sequence_number (get_timeline (VStr ''D1'') (sys_service s)) = [0, 1, 0] \<and>
     (\<forall>now. \<not> tv_valid (validate_timeline now (VStr ''D1'') (sys_service s)) \<and>
       [T ''Event '', I 2, T '': sequence number not monotonic'']
         \<in> set (tv_issues (validate_timeline now (VStr ''D1'') (sys_service s))))"
proof -
  obtain s where s: "tl_step\<^sup>*\<^sup>* sys_init s"
      "sys_service s = append_event (raced_event 1 0) (append_event (raced_event 3 1)
         (append_event (raced_event 2 0) ts_init))"
    using race_reachable by blast
  have tl: "get_timeline (VStr ''D1'') (sys_service s) = [raced_event 2 0, raced_event 3 1, raced_event 1 0]"
    by (simp add: s(2) get_timeline_append) (simp add: get_timeline_def ts_init_def dget_def)
  show ?thesis
    by (rule exI[of _ s]) (simp add: s(1) tl validate_timeline_def Let_def)
qed

end
