(* ===== verification/Outcome_Stats.thy ===== *)
theory Outcome_Stats
  imports Prelude "HOL-Library.Multiset"
begin

text \<open>
  \<open>reasoner_service/outcome_stats.py\<close>: win rate, average profit, loss streaks and grouped
  statistics over the table of closed trades.

  The service builds an SQL query and reads the rows the database answers. The query is a record
  here and the database a parameter, a function from queries to an error or a list of rows;
  \<open>db_answers\<close> states what SQL promises (the rows that match, each once, newest first when asked,
  cut at the limit), and \<open>sql_db\<close> is one database that keeps the promise. Of a row the model has
  the columns the service reads, none of which may be null. Every method catches every
  exception and answers \<open>None\<close> (the query helper: no rows); log messages are left out.
\<close>

section \<open>Rows, queries and the database\<close>

record outcome_row =
  or_symbol :: string
  or_timeframe :: string
  or_signal_type :: string
  or_pnl :: rat
  or_outcome :: string
  or_closed_at :: time

record outcome_query =
  oq_symbol :: "string option"
  oq_timeframe :: "string option"
  oq_signal_type :: "string option"
  oq_closed_from :: "time option"
  oq_closed_to :: "time option"
  oq_newest_first :: bool
  oq_limit :: "int option"

type_synonym database = "outcome_query \<Rightarrow> py_error + outcome_row list"

definition eq_filter :: "'a option \<Rightarrow> 'a \<Rightarrow> bool" where
  "eq_filter f x = (case f of None \<Rightarrow> True | Some y \<Rightarrow> x = y)"

definition matches :: "outcome_query \<Rightarrow> outcome_row \<Rightarrow> bool" where
  "matches q x \<longleftrightarrow>
     eq_filter (oq_symbol q) (or_symbol x) \<and> eq_filter (oq_timeframe q) (or_timeframe x) \<and>
     eq_filter (oq_signal_type q) (or_signal_type x) \<and>
     (case oq_closed_from q of None \<Rightarrow> True | Some t \<Rightarrow> t \<le> or_closed_at x) \<and>
     (case oq_closed_to q of None \<Rightarrow> True | Some t \<Rightarrow> or_closed_at x \<le> t)"

definition cut :: "int option \<Rightarrow> 'a list \<Rightarrow> 'a list" where
  "cut n xs = (case n of None \<Rightarrow> xs | Some k \<Rightarrow> take (nat k) xs)"

definition db_answers :: "outcome_row list \<Rightarrow> database \<Rightarrow> bool" where
  "db_answers rows db \<longleftrightarrow>
     (\<forall>q. \<exists>rs. mset rs = mset (filter (matches q) rows) \<and>
        (oq_newest_first q \<longrightarrow> sorted_wrt (\<lambda>x y. or_closed_at x \<ge> or_closed_at y) rs) \<and>
        db q = Inr (cut (oq_limit q) rs))"

definition sql_db :: "outcome_row list \<Rightarrow> database" where
  "sql_db rows q =
     Inr (cut (oq_limit q)
       (if oq_newest_first q then rev (sort_key or_closed_at (filter (matches q) rows))
        else filter (matches q) rows))"

lemma sql_db_answers: "db_answers rows (sql_db rows)"
proof -
  have "sorted_wrt (\<lambda>x y. or_closed_at x \<ge> or_closed_at y) (rev (sort_key or_closed_at xs))"
    for xs :: "outcome_row list"
    using sorted_sort_key[of or_closed_at xs] by (simp add: sorted_wrt_rev sorted_map)
  then show ?thesis
    unfolding db_answers_def sql_db_def
  proof (intro allI, goal_cases)
    case (1 q)
    let ?f = "filter (matches q) rows"
    show ?case
      by (rule exI[of _ "if oq_newest_first q then rev (sort_key or_closed_at ?f) else ?f"])
         (simp add: 1)
  qed
qed

section \<open>The query helper\<close>

definition nonzero :: "int option \<Rightarrow> int option" where
  "nonzero n = (case n of None \<Rightarrow> None | Some k \<Rightarrow> if k = 0 then None else Some k)"

definition nonempty :: "string option \<Rightarrow> string option" where
  "nonempty s = (if truthy_str s then s else None)"

definition filter_query ::
    "time \<Rightarrow> string option \<Rightarrow> string option \<Rightarrow> string option \<Rightarrow> int option \<Rightarrow> int option \<Rightarrow> outcome_query" where
  "filter_query now symbol timeframe signal_type last_n_trades last_n_days =
    \<lparr>oq_symbol = nonempty symbol, oq_timeframe = nonempty timeframe,
     oq_signal_type = nonempty signal_type,
     oq_closed_from = map_option (\<lambda>d. now - d * 86400000000) (nonzero last_n_days),
     oq_closed_to = None, oq_newest_first = True, oq_limit = nonzero last_n_trades\<rparr>"

definition get_filtered_outcomes ::
    "time \<Rightarrow> database \<Rightarrow> string option \<Rightarrow> string option \<Rightarrow> string option \<Rightarrow> int option \<Rightarrow> int option \<Rightarrow>
     outcome_row list" where
  "get_filtered_outcomes now db symbol timeframe signal_type last_n_trades last_n_days =
     (case db (filter_query now symbol timeframe signal_type last_n_trades last_n_days) of
        Inl _ \<Rightarrow> []
      | Inr rows \<Rightarrow> rows)"

section \<open>Rates and streaks\<close>

definition is_win :: "outcome_row \<Rightarrow> bool" where
  "is_win x \<longleftrightarrow> or_outcome x = ''win''"

definition is_loss :: "outcome_row \<Rightarrow> bool" where
  "is_loss x \<longleftrightarrow> or_outcome x = ''loss''"

definition count_if :: "('a \<Rightarrow> bool) \<Rightarrow> 'a list \<Rightarrow> int" where
  "count_if p xs = int (length (filter p xs))"

definition get_win_rate ::
    "time \<Rightarrow> database \<Rightarrow> string option \<Rightarrow> string option \<Rightarrow> string option \<Rightarrow> int option \<Rightarrow> int option \<Rightarrow> rat option" where
  "get_win_rate now db symbol timeframe signal_type last_n_trades last_n_days =
     (let outcomes = get_filtered_outcomes now db symbol timeframe signal_type last_n_trades last_n_days in
      if outcomes = [] then None
      else Some (of_int (count_if is_win outcomes) / of_nat (length outcomes)))"

definition get_avg_pnl ::
    "time \<Rightarrow> database \<Rightarrow> string option \<Rightarrow> string option \<Rightarrow> string option \<Rightarrow> int option \<Rightarrow> int option \<Rightarrow> rat option" where
  "get_avg_pnl now db symbol timeframe signal_type last_n_trades last_n_days =
     (let outcomes = get_filtered_outcomes now db symbol timeframe signal_type last_n_trades last_n_days in
      if outcomes = [] then None
      else Some (sum_list (map or_pnl outcomes) / of_nat (length outcomes)))"

text \<open>The first loop runs in chronological order, the second from the newest outcome on.\<close>

fun max_streak_loop :: "int \<Rightarrow> int \<Rightarrow> outcome_row list \<Rightarrow> int" where
  "max_streak_loop current_streak max_streak [] = max_streak"
| "max_streak_loop current_streak max_streak (x # xs) =
     (if is_loss x
      then max_streak_loop (current_streak + 1) (max max_streak (current_streak + 1)) xs
      else max_streak_loop 0 max_streak xs)"

fun current_streak_loop :: "int \<Rightarrow> outcome_row list \<Rightarrow> int" where
  "current_streak_loop n [] = n"
| "current_streak_loop n (x # xs) = (if is_loss x then current_streak_loop (n + 1) xs else n)"

record loss_streak =
  ls_current :: int
  ls_max :: int

definition get_loss_streak ::
    "time \<Rightarrow> database \<Rightarrow> string option \<Rightarrow> string option \<Rightarrow> string option \<Rightarrow> loss_streak option" where
  "get_loss_streak now db symbol timeframe signal_type =
     (let outcomes = get_filtered_outcomes now db symbol timeframe signal_type None None in
      if outcomes = [] then None
      else Some \<lparr>ls_current = current_streak_loop 0 outcomes,
                 ls_max = max_streak_loop 0 0 (rev outcomes)\<rparr>)"

section \<open>Grouped statistics\<close>

record group_stats =
  gs_count :: int
  gs_wins :: int
  gs_losses :: int
  gs_breakevens :: int
  gs_total_pnl :: rat
  gs_win_rate :: rat
  gs_avg_pnl :: rat

definition gs_empty :: group_stats where
  "gs_empty = \<lparr>gs_count = 0, gs_wins = 0, gs_losses = 0, gs_breakevens = 0, gs_total_pnl = 0,
     gs_win_rate = 0, gs_avg_pnl = 0\<rparr>"

definition gs_add :: "outcome_row \<Rightarrow> group_stats \<Rightarrow> group_stats" where
  "gs_add x g =
     (let g1 = g\<lparr>gs_count := gs_count g + 1, gs_total_pnl := gs_total_pnl g + or_pnl x\<rparr> in
      if or_outcome x = ''win'' then g1\<lparr>gs_wins := gs_wins g1 + 1\<rparr>
      else if or_outcome x = ''loss'' then g1\<lparr>gs_losses := gs_losses g1 + 1\<rparr>
      else g1\<lparr>gs_breakevens := gs_breakevens g1 + 1\<rparr>)"

definition gs_finish :: "group_stats \<Rightarrow> group_stats" where
  "gs_finish g =
     g\<lparr>gs_win_rate := (if gs_count g > 0 then of_int (gs_wins g) / of_int (gs_count g) else 0),
       gs_avg_pnl := (if gs_count g > 0 then gs_total_pnl g / of_int (gs_count g) else 0)\<rparr>"

definition group_rows ::
    "(outcome_row \<Rightarrow> string) \<Rightarrow> outcome_row list \<Rightarrow> (string \<times> group_stats) list \<Rightarrow> (string \<times> group_stats) list" where
  "group_rows key rows stats =
     fold (\<lambda>x st. AList.update (key x) (gs_add x (dget (key x) st gs_empty)) st) rows stats"

definition aggregate :: "(outcome_row \<Rightarrow> string) \<Rightarrow> outcome_row list \<Rightarrow> (string \<times> group_stats) list option" where
  "aggregate key outcomes =
     (if outcomes = [] then None
      else Some (map (\<lambda>(k, g). (k, gs_finish g)) (group_rows key outcomes [])))"

definition aggregate_by_signal_type ::
    "time \<Rightarrow> database \<Rightarrow> string option \<Rightarrow> string option \<Rightarrow> int option \<Rightarrow> int option \<Rightarrow>
     (string \<times> group_stats) list option" where
  "aggregate_by_signal_type now db symbol timeframe last_n_trades last_n_days =
     aggregate or_signal_type
       (get_filtered_outcomes now db symbol timeframe None last_n_trades last_n_days)"

definition aggregate_by_symbol ::
    "time \<Rightarrow> database \<Rightarrow> string option \<Rightarrow> string option \<Rightarrow> int option \<Rightarrow> int option \<Rightarrow>
     (string \<times> group_stats) list option" where
  "aggregate_by_symbol now db timeframe signal_type last_n_trades last_n_days =
     aggregate or_symbol
       (get_filtered_outcomes now db None timeframe signal_type last_n_trades last_n_days)"

definition aggregate_by_timeframe ::
    "time \<Rightarrow> database \<Rightarrow> string option \<Rightarrow> string option \<Rightarrow> int option \<Rightarrow> int option \<Rightarrow>
     (string \<times> group_stats) list option" where
  "aggregate_by_timeframe now db symbol signal_type last_n_trades last_n_days =
     aggregate or_timeframe
       (get_filtered_outcomes now db symbol None signal_type last_n_trades last_n_days)"

record session_metrics =
  sm_session_start :: time
  sm_session_end :: time
  sm_count :: int
  sm_wins :: int
  sm_losses :: int
  sm_breakevens :: int
  sm_win_rate :: rat
  sm_avg_pnl :: rat
  sm_total_pnl :: rat
  sm_max_loss :: rat
  sm_max_win :: rat

definition get_session_metrics ::
    "time \<Rightarrow> time \<Rightarrow> database \<Rightarrow> time option \<Rightarrow> time option \<Rightarrow> session_metrics option" where
  "get_session_metrics now1 now2 db session_start session_end =
     (let s = (case session_start of None \<Rightarrow> now1 - 86400000000 | Some t \<Rightarrow> t);
          e = (case session_end of None \<Rightarrow> now2 | Some t \<Rightarrow> t) in
      case db \<lparr>oq_symbol = None, oq_timeframe = None, oq_signal_type = None, oq_closed_from = Some s,
               oq_closed_to = Some e, oq_newest_first = False, oq_limit = None\<rparr> of
        Inl _ \<Rightarrow> None
      | Inr [] \<Rightarrow> None
      | Inr (x # xs) \<Rightarrow>
          (let outcomes = x # xs; pnls = map or_pnl outcomes; n = of_nat (length outcomes) in
           Some \<lparr>sm_session_start = s, sm_session_end = e, sm_count = int (length outcomes),
                 sm_wins = count_if is_win outcomes, sm_losses = count_if is_loss outcomes,
                 sm_breakevens = count_if (\<lambda>x. or_outcome x = ''breakeven'') outcomes,
                 sm_win_rate = of_int (count_if is_win outcomes) / n,
                 sm_avg_pnl = sum_list pnls / n, sm_total_pnl = sum_list pnls,
                 sm_max_loss = fold min (map or_pnl xs) (or_pnl x),
                 sm_max_win = fold max (map or_pnl xs) (or_pnl x)\<rparr>))"

section \<open>Lemmas on the database\<close>

lemma filter_query_matches:
  assumes "db_answers rows db"
  shows "mset (get_filtered_outcomes now db sy tf sg None None) =
      mset (filter (matches (filter_query now sy tf sg None None)) rows)"
    "sorted_wrt (\<lambda>x y. or_closed_at x \<ge> or_closed_at y) (get_filtered_outcomes now db sy tf sg None None)"
proof -
  let ?q = "filter_query now sy tf sg None None"
  obtain rs where rs: "mset rs = mset (filter (matches ?q) rows)"
      "oq_newest_first ?q \<longrightarrow> sorted_wrt (\<lambda>x y. or_closed_at x \<ge> or_closed_at y) rs"
      "db ?q = Inr (cut (oq_limit ?q) rs)"
    using assms unfolding db_answers_def by metis
  have "db ?q = Inr rs" using rs(3) by (simp add: filter_query_def nonzero_def cut_def)
  then show "mset (get_filtered_outcomes now db sy tf sg None None) = mset (filter (matches ?q) rows)"
      "sorted_wrt (\<lambda>x y. or_closed_at x \<ge> or_closed_at y) (get_filtered_outcomes now db sy tf sg None None)"
    using rs(1,2) by (simp_all add: get_filtered_outcomes_def filter_query_def)
qed

section \<open>Lemmas on grouping\<close>

text \<open>What the code means by the statistics of a group of rows.\<close>

definition stats_of :: "outcome_row list \<Rightarrow> group_stats" where
  "stats_of xs =
    \<lparr>gs_count = int (length xs), gs_wins = count_if is_win xs, gs_losses = count_if is_loss xs,
     gs_breakevens = count_if (\<lambda>x. \<not> is_win x \<and> \<not> is_loss x) xs, gs_total_pnl = sum_list (map or_pnl xs),
     gs_win_rate = of_int (count_if is_win xs) / of_nat (length xs),
     gs_avg_pnl = sum_list (map or_pnl xs) / of_nat (length xs)\<rparr>"

definition raw_stats :: "outcome_row list \<Rightarrow> group_stats" where
  "raw_stats xs = (stats_of xs)\<lparr>gs_win_rate := 0, gs_avg_pnl := 0\<rparr>"

lemma count_if_snoc [simp]: "count_if p (xs @ [x]) = count_if p xs + (if p x then 1 else 0)"
  by (simp add: count_if_def)

lemma gs_add_raw: "gs_add x (raw_stats xs) = raw_stats (xs @ [x])"
  by (simp add: gs_add_def raw_stats_def stats_of_def is_win_def is_loss_def Let_def)

lemma raw_stats_Nil: "raw_stats [] = gs_empty"
  by (simp add: raw_stats_def stats_of_def gs_empty_def count_if_def)

lemma finish_raw: "xs \<noteq> [] \<Longrightarrow> gs_finish (raw_stats xs) = stats_of xs"
  by (simp add: gs_finish_def raw_stats_def stats_of_def)

lemma group_rows_snoc:
  "group_rows key (xs @ [x]) st =
    (let st1 = group_rows key xs st in AList.update (key x) (gs_add x (dget (key x) st1 gs_empty)) st1)"
  by (simp add: group_rows_def Let_def)

lemma map_of_group_rows:
  "map_of (group_rows key xs []) k =
    (let ys = filter (\<lambda>x. key x = k) xs in if ys = [] then None else Some (raw_stats ys))"
proof (induction xs arbitrary: k rule: rev_induct)
  case Nil
  then show ?case by (simp add: group_rows_def)
next
  case (snoc x xs)
  have "dget (key x) (group_rows key xs []) gs_empty = raw_stats (filter (\<lambda>y. key y = key x) xs)"
    by (simp add: dget_def snoc Let_def raw_stats_Nil)
  then show ?case
    using snoc[of k] by (auto simp: group_rows_snoc Let_def update_conv' gs_add_raw)
qed

lemma map_of_map_snd: "map_of (map (\<lambda>(k, g). (k, f g)) xs) k = map_option f (map_of xs k)"
  by (induction xs) auto

lemma aggregate_exact:
  "aggregate key xs = None \<longleftrightarrow> xs = []"
  "aggregate key xs = Some st \<Longrightarrow>
     map_of st k = (let ys = filter (\<lambda>x. key x = k) xs in if ys = [] then None else Some (stats_of ys))"
  by (auto simp: aggregate_def map_of_map_snd map_of_group_rows finish_raw Let_def split: if_splits)

lemma stats_of_bounds:
  assumes "xs \<noteq> []"
  shows "gs_count (stats_of xs) = gs_wins (stats_of xs) + gs_losses (stats_of xs) + gs_breakevens (stats_of xs)"
    "0 \<le> gs_win_rate (stats_of xs)" "gs_win_rate (stats_of xs) \<le> 1"
proof -
  show "gs_count (stats_of xs) = gs_wins (stats_of xs) + gs_losses (stats_of xs) + gs_breakevens (stats_of xs)"
    by (induction xs rule: rev_induct) (auto simp: stats_of_def is_win_def is_loss_def count_if_def)
  show "0 \<le> gs_win_rate (stats_of xs)" by (simp add: stats_of_def count_if_def)
  have "length (filter is_win xs) \<le> length xs" by simp
  then show "gs_win_rate (stats_of xs) \<le> 1"
    using assms by (simp add: stats_of_def count_if_def divide_le_eq_1)
qed

section \<open>Lemmas on streaks\<close>

lemma current_streak_takeWhile:
  "current_streak_loop n xs = n + int (length (takeWhile is_loss xs))"
  by (induction n xs rule: current_streak_loop.induct) auto

text \<open>A block of a list: consecutive elements, all of them losses.\<close>

definition loss_block :: "outcome_row list \<Rightarrow> outcome_row list \<Rightarrow> bool" where
  "loss_block ys xs \<longleftrightarrow> sublist ys xs \<and> (\<forall>x\<in>set ys. is_loss x)"

lemma max_streak_ge: "m \<le> max_streak_loop c m xs"
  by (induction c m xs rule: max_streak_loop.induct) auto

lemma max_streak_snoc_pos:
  "0 \<le> c \<Longrightarrow> c \<le> m \<Longrightarrow> c + int (length (takeWhile is_loss xs)) \<le> max_streak_loop c m xs"
proof (induction c m xs rule: max_streak_loop.induct)
  case (2 c m x xs)
  then show ?case using max_streak_ge[of m 0 xs] by auto
qed simp

lemma max_streak_upper:
  assumes "0 \<le> c" "c \<le> m" "loss_block ys xs"
  shows "int (length ys) \<le> max_streak_loop c m xs"
  using assms
proof (induction c m xs rule: max_streak_loop.induct)
  case (1 c m)
  then show ?case by (simp add: loss_block_def)
next
  case (2 c m x xs)
  show ?case
  proof (cases "prefix ys (x # xs)")
    case True
    then obtain zs where "x # xs = ys @ zs" by (auto simp: prefix_def)
    then have "length ys \<le> length (takeWhile is_loss (x # xs))"
      using 2(5) by (simp add: loss_block_def takeWhile_append2)
    then show ?thesis using max_streak_snoc_pos[OF 2(3,4), of "x # xs"] 2(3) by linarith
  next
    case False
    then have "loss_block ys xs" using 2(5) by (auto simp: loss_block_def sublist_Cons_right)
    then show ?thesis using 2 by auto
  qed
qed

definition loss_prefix :: "outcome_row list \<Rightarrow> outcome_row list \<Rightarrow> bool" where
  "loss_prefix ys xs \<longleftrightarrow> prefix ys xs \<and> (\<forall>x\<in>set ys. is_loss x)"

lemma max_streak_attained:
  assumes "0 \<le> c" "c \<le> m"
  shows "max_streak_loop c m xs = m \<or>
    (\<exists>ys. loss_prefix ys xs \<and> max_streak_loop c m xs = c + int (length ys)) \<or>
    (\<exists>ys. loss_block ys xs \<and> max_streak_loop c m xs = int (length ys))"
  using assms
proof (induction c m xs rule: max_streak_loop.induct)
  case (1 c m)
  then show ?case by simp
next
  case (2 c m x xs)
  have block: "loss_block ys xs \<Longrightarrow> loss_block ys (x # xs)" for ys
    by (auto simp: loss_block_def sublist_Cons_right)
  show ?case
  proof (cases "is_loss x")
    case True
    let ?r = "max_streak_loop (c + 1) (max m (c + 1)) xs"
    have "?r = max m (c + 1) \<or> (\<exists>ys. loss_prefix ys xs \<and> ?r = (c + 1) + int (length ys)) \<or>
        (\<exists>ys. loss_block ys xs \<and> ?r = int (length ys))"
      using 2 True by simp
    then consider "?r = m" | "?r = c + 1" | ys where "loss_prefix ys xs" "?r = (c + 1) + int (length ys)" |
        ys where "loss_block ys xs" "?r = int (length ys)"
      by (auto simp: max_def split: if_splits)
    then show ?thesis
    proof cases
      case 1
      then show ?thesis using True by simp
    next
      case 2
      then have "loss_prefix [x] (x # xs) \<and> max_streak_loop c m (x # xs) = c + int (length [x])"
        using True by (simp add: loss_prefix_def)
      then show ?thesis by blast
    next
      case (3 ys)
      then have "loss_prefix (x # ys) (x # xs) \<and> max_streak_loop c m (x # xs) = c + int (length (x # ys))"
        using True by (simp add: loss_prefix_def)
      then show ?thesis by blast
    next
      case (4 ys)
      then show ?thesis using True block by auto
    qed
  next
    case False
    let ?r = "max_streak_loop 0 m xs"
    have "?r = m \<or> (\<exists>ys. loss_prefix ys xs \<and> ?r = 0 + int (length ys)) \<or>
        (\<exists>ys. loss_block ys xs \<and> ?r = int (length ys))"
      using 2 False by simp
    moreover have "loss_prefix ys xs \<Longrightarrow> loss_block ys xs" for ys
      by (simp add: loss_prefix_def loss_block_def)
    ultimately have "?r = m \<or> (\<exists>ys. loss_block ys (x # xs) \<and> ?r = int (length ys))"
      using block by force
    then show ?thesis using False by auto
  qed
qed

lemma max_streak_exact:
  "\<exists>ys. loss_block ys xs \<and> max_streak_loop 0 0 xs = int (length ys)"
proof -
  have "loss_block [] xs" by (simp add: loss_block_def)
  moreover have "loss_prefix ys xs \<Longrightarrow> loss_block ys xs" for ys
    by (simp add: loss_prefix_def loss_block_def)
  ultimately show ?thesis using max_streak_attained[of 0 0 xs] by force
qed

lemma loss_block_rev: "loss_block (rev ys) (rev xs) \<longleftrightarrow> loss_block ys xs"
  by (simp add: loss_block_def)

section \<open>Properties\<close>

definition gs_total :: "(string \<times> group_stats) list \<Rightarrow> int" where
  "gs_total st = sum_list (map (gs_count \<circ> snd) st)"

lemma gs_total_update:
  "gs_total (AList.update k (gs_add x (dget k st gs_empty)) st) = gs_total st + 1"
proof (induction st)
  case Nil
  then show ?case by (simp add: gs_total_def dget_def gs_add_def gs_empty_def Let_def)
next
  case (Cons p st)
  obtain k2 g where p: "p = (k2, g)" by fastforce
  show ?case
  proof (cases "k2 = k")
    case True
    then show ?thesis by (simp add: p gs_total_def dget_def gs_add_def Let_def)
  next
    case False
    then have "dget k (p # st) gs_empty = dget k st gs_empty" by (simp add: p dget_def)
    with Cons False show ?thesis by (simp add: p gs_total_def)
  qed
qed

lemma gs_total_group: "gs_total (group_rows key xs []) = int (length xs)"
proof (induction xs rule: rev_induct)
  case Nil
  then show ?case by (simp add: group_rows_def gs_total_def)
next
  case (snoc x xs)
  then show ?case by (simp add: group_rows_snoc Let_def gs_total_update)
qed

lemma gs_total_finish: "gs_total (map (\<lambda>(k, g). (k, gs_finish g)) st) = gs_total st"
  by (simp add: gs_total_def gs_finish_def split_def comp_def)

text \<open>What a grouped answer says of the rows it was computed from.\<close>

definition describes :: "(outcome_row \<Rightarrow> string) \<Rightarrow> outcome_row list \<Rightarrow> (string \<times> group_stats) list option \<Rightarrow> bool" where
  "describes key xs r \<longleftrightarrow>
     (case r of
        None \<Rightarrow> xs = []
      | Some st \<Rightarrow> xs \<noteq> [] \<and> gs_total st = int (length xs) \<and>
          (\<forall>k. map_of st k = (let ys = filter (\<lambda>x. key x = k) xs in
                              if ys = [] then None else Some (stats_of ys))))"

lemma aggregate_describes: "describes key xs (aggregate key xs)"
proof (cases "aggregate key xs")
  case None
  then have "xs = []" using aggregate_exact(1) by blast
  then show ?thesis unfolding describes_def None by simp
next
  case (Some st)
  moreover have "gs_total st = int (length xs)"
    using Some by (auto simp: aggregate_def gs_total_finish gs_total_group split: if_splits)
  moreover have "xs \<noteq> []" using Some aggregate_exact(1)[of key xs] by auto
  ultimately show ?thesis by (simp add: describes_def aggregate_exact(2))
qed

text \<open>The grouped statistics are those of the group's own rows. For each of the
  three groupings the answer is \<open>None\<close> exactly when no row was read, and otherwise the entry of
  a key holds the count, wins, losses, breakevens, total, win rate and average of the rows with
  that key (no entry when there is none), and the counts of all groups add up to the number of
  rows read. In an entry the three counts add up and the win rate lies between 0 and 1.\<close>

theorem aggregates_exact:
  "describes or_signal_type (get_filtered_outcomes now db sy tf None n d)
     (aggregate_by_signal_type now db sy tf n d) \<and>
   describes or_symbol (get_filtered_outcomes now db None tf sg n d)
     (aggregate_by_symbol now db tf sg n d) \<and>
   describes or_timeframe (get_filtered_outcomes now db sy None sg n d)
     (aggregate_by_timeframe now db sy sg n d) \<and>
   gs_count (stats_of (x # xs)) =
     gs_wins (stats_of (x # xs)) + gs_losses (stats_of (x # xs)) + gs_breakevens (stats_of (x # xs)) \<and>
   0 \<le> gs_win_rate (stats_of (x # xs)) \<and> gs_win_rate (stats_of (x # xs)) \<le> 1"
  unfolding aggregate_by_signal_type_def aggregate_by_symbol_def aggregate_by_timeframe_def
  by (intro conjI aggregate_describes stats_of_bounds) simp_all

text \<open>Over the matching rows of the table, ordered from the newest on, \<open>current\<close>
  is the number of losses before the first row that is not one, and \<open>max\<close> is the length of the
  longest run of consecutive losses: no run is longer and one has that length. \<open>current\<close> never
  exceeds \<open>max\<close>.\<close>

theorem loss_streak_exact:
  assumes "db_answers rows db" "get_loss_streak now db sy tf sg = Some r"
  shows "\<exists>xs. mset xs = mset (filter (matches (filter_query now sy tf sg None None)) rows) \<and>
     sorted_wrt (\<lambda>x y. or_closed_at x \<ge> or_closed_at y) xs \<and>
     ls_current r = int (length (takeWhile is_loss xs)) \<and>
     (\<forall>ys. loss_block ys xs \<longrightarrow> int (length ys) \<le> ls_max r) \<and>
     (\<exists>ys. loss_block ys xs \<and> int (length ys) = ls_max r) \<and> ls_current r \<le> ls_max r"
proof -
  let ?xs = "get_filtered_outcomes now db sy tf sg None None"
  have r: "ls_current r = int (length (takeWhile is_loss ?xs))" "ls_max r = max_streak_loop 0 0 (rev ?xs)"
    using assms(2) by (auto simp: get_loss_streak_def current_streak_takeWhile Let_def split: if_splits)
  have upper: "int (length ys) \<le> ls_max r" if "loss_block ys ?xs" for ys
    using max_streak_upper[of 0 0 "rev ys" "rev ?xs"] that by (simp add: r loss_block_rev)
  obtain ys where ys: "loss_block ys (rev ?xs)" "max_streak_loop 0 0 (rev ?xs) = int (length ys)"
    using max_streak_exact by blast
  have "loss_block (rev ys) ?xs" using ys(1) loss_block_rev[of "rev ys" "?xs"] by simp
  moreover have "loss_block (takeWhile is_loss ?xs) ?xs"
    by (auto simp: loss_block_def takeWhile_is_prefix prefix_imp_sublist dest: set_takeWhileD)
  ultimately show ?thesis
    using filter_query_matches[OF assms(1)] r upper ys(2) by (intro exI[of _ ?xs]) force
qed

definition trade_row :: "string \<Rightarrow> rat \<Rightarrow> time \<Rightarrow> outcome_row" where
  "trade_row result pnl t =
    \<lparr>or_symbol = ''EURUSD'', or_timeframe = ''4H'', or_signal_type = ''bos'', or_pnl = pnl,
     or_outcome = result, or_closed_at = t\<rparr>"

theorem loss_streak_exact_witness:
  "let rows = [trade_row ''loss'' (-1) 10, trade_row ''loss'' (-2) 20, trade_row ''win'' 5 30,
               trade_row ''loss'' (-1) 40];
       r = the (get_loss_streak 50 (sql_db rows) (Some ''EURUSD'') None None) in
   ls_current r = 1 \<and> ls_max r = 2 \<and>
   (\<exists>xs. mset xs = mset rows \<and> ls_current r = int (length (takeWhile is_loss xs)))"
proof -
  let ?rows = "[trade_row ''loss'' (-1) 10, trade_row ''loss'' (-2) 20, trade_row ''win'' 5 30,
               trade_row ''loss'' (-1) 40]"
  have r: "get_loss_streak 50 (sql_db ?rows) (Some ''EURUSD'') None None = Some \<lparr>ls_current = 1, ls_max = 2\<rparr>"
    by (simp add: get_loss_streak_def get_filtered_outcomes_def filter_query_def sql_db_def matches_def
        eq_filter_def nonempty_def nonzero_def cut_def trade_row_def is_loss_def sort_key_def)
  have "filter (matches (filter_query 50 (Some ''EURUSD'') None None None None)) ?rows = ?rows"
    by (simp add: filter_query_def matches_def eq_filter_def nonempty_def nonzero_def trade_row_def)
  then show ?thesis
    using loss_streak_exact[OF sql_db_answers r] by (force simp: r Let_def)
qed

end
