(* ===== verification/Py_Values.thy ===== *)
theory Py_Values
  imports Prelude
begin

text \<open>
  Python's view of a value: type tests, conversions, truth, iteration, slices and rounding.
\<close>

section \<open>Python's view of a value\<close>

fun as_int :: "pyval \<Rightarrow> int option" where
  "as_int (VInt n) = Some n"
| "as_int (VBool b) = Some (if b then 1 else 0)"
| "as_int _ = None"

fun as_number :: "pyval \<Rightarrow> rat option" where
  "as_number (VFloat x) = Some x"
| "as_number v = map_option of_int (as_int v)"

fun py_type_name :: "pyval \<Rightarrow> string" where
  "py_type_name VNone = ''NoneType''"
| "py_type_name (VBool _) = ''bool''"
| "py_type_name (VInt _) = ''int''"
| "py_type_name (VFloat _) = ''float''"
| "py_type_name (VStr _) = ''str''"
| "py_type_name (VIso _) = ''str''"
| "py_type_name (VList _) = ''list''"
| "py_type_name (VDict _) = ''dict''"

fun is_list :: "pyval \<Rightarrow> bool" where
  "is_list (VList _) = True"
| "is_list _ = False"

fun is_dict :: "pyval \<Rightarrow> bool" where
  "is_dict (VDict _) = True"
| "is_dict _ = False"

fun is_str :: "pyval \<Rightarrow> bool" where
  "is_str (VStr _) = True"
| "is_str _ = False"

fun list_of :: "pyval \<Rightarrow> pyval list" where
  "list_of (VList xs) = xs"
| "list_of _ = []"

fun str_of :: "pyval \<Rightarrow> string" where
  "str_of (VStr s) = s"
| "str_of _ = []"

text \<open>\<open>isinstance(v, int)\<close> and the comparison hold.\<close>

definition int_such :: "(int \<Rightarrow> bool) \<Rightarrow> pyval \<Rightarrow> bool" where
  "int_such p v = (case as_int v of None \<Rightarrow> False | Some n \<Rightarrow> p n)"

text \<open>Lists and dictionaries cannot be hashed: \<open>v in s\<close> raises for them when \<open>s\<close> is a set.\<close>

definition py_hashable :: "pyval \<Rightarrow> bool" where
  "py_hashable v \<longleftrightarrow> \<not> is_list v \<and> \<not> is_dict v"

text \<open>\<open>bool(v)\<close>.\<close>

fun truthy :: "pyval \<Rightarrow> bool" where
  "truthy VNone = False"
| "truthy (VBool b) = b"
| "truthy (VInt n) = (n \<noteq> 0)"
| "truthy (VFloat x) = (x \<noteq> 0)"
| "truthy (VStr s) = (s \<noteq> [])"
| "truthy (VIso _) = True"
| "truthy (VList xs) = (xs \<noteq> [])"
| "truthy (VDict d) = (d \<noteq> [])"

text \<open>What iteration yields: the elements of a list, the characters of a string, or the keys of a
  dictionary; anything else cannot be iterated over.\<close>

fun iterate :: "pyval \<Rightarrow> pyval list option" where
  "iterate (VList xs) = Some xs"
| "iterate (VStr s) = Some (map (\<lambda>c. VStr [c]) s)"
| "iterate (VDict d) = Some (map (VStr \<circ> fst) d)"
| "iterate _ = None"

fun dict_keys :: "pyval \<Rightarrow> string list" where
  "dict_keys (VDict d) = map fst d"
| "dict_keys _ = []"

text \<open>The keys of a dictionary, in the order of their first assignment.\<close>

definition first_seen :: "'k list \<Rightarrow> 'k list" where
  "first_seen ks = rev (remdups (rev ks))"

text \<open>\<open>xs[-n:]\<close>: for \<open>n = 0\<close> the whole list, for negative \<open>n\<close> all but the first elements.\<close>

definition slice_last :: "int \<Rightarrow> 'a list \<Rightarrow> 'a list" where
  "slice_last n xs = (if n > 0 then drop (length xs - nat n) xs else drop (nat (- n)) xs)"

text \<open>\<open>s.lower()\<close> and \<open>s.upper()\<close> on ASCII strings.\<close>

definition lower_char :: "char \<Rightarrow> char" where
  "lower_char c = (let n = (of_char c :: nat) in if 65 \<le> n \<and> n \<le> 90 then char_of (n + 32) else c)"

definition py_lower :: "string \<Rightarrow> string" where
  "py_lower s = map lower_char s"

definition upper_char :: "char \<Rightarrow> char" where
  "upper_char c = (let n = (of_char c :: nat) in if 97 \<le> n \<and> n \<le> 122 then char_of (n - 32) else c)"

definition py_upper :: "string \<Rightarrow> string" where
  "py_upper s = map upper_char s"

section \<open>Rounding\<close>

text \<open>\<open>round(x, n)\<close>: to the nearest multiple of \<open>10^(-n)\<close>, a tie to the even one.\<close>

definition round_half_even :: "'a::floor_ceiling \<Rightarrow> int" where
  "round_half_even x =
     (let f = floor x; d = x - of_int f in
      if d < 1/2 then f else if d > 1/2 then f + 1 else if even f then f else f + 1)"

definition py_round :: "nat \<Rightarrow> 'a::floor_ceiling \<Rightarrow> 'a" where
  "py_round n x = of_int (round_half_even (x * 10 ^ n)) / 10 ^ n"

text \<open>\<open>int(x)\<close> of a float: towards zero.\<close>

definition py_trunc :: "rat \<Rightarrow> int" where
  "py_trunc x = (if x \<ge> 0 then floor x else ceiling x)"

lemma round_half_even_mono_int:
  fixes x :: "'a::floor_ceiling"
  assumes "of_int a \<le> x"
  shows "a \<le> round_half_even x"
proof -
  have "a \<le> floor x" using assms by (simp add: le_floor_iff)
  then show ?thesis by (simp add: round_half_even_def Let_def)
qed

lemma round_half_even_upper:
  fixes x :: "'a::floor_ceiling"
  assumes x: "x \<le> of_int b"
  shows "round_half_even x \<le> b"
proof -
  show ?thesis
  proof (cases "x = of_int b")
    case True
    then show ?thesis by (simp add: round_half_even_def)
  next
    case False
    then have "floor x < b" using x by (simp add: floor_less_iff)
    then show ?thesis by (auto simp: round_half_even_def Let_def)
  qed
qed

lemma py_round_bounds:
  fixes x :: "'a::floor_ceiling"
  assumes "of_int a \<le> x" "x \<le> of_int b"
  shows "of_int a \<le> py_round n x" "py_round n x \<le> of_int b"
proof -
  have p: "(0::'a) < 10 ^ n" by simp
  have "of_int (a * 10 ^ n) \<le> x * 10 ^ n" using assms(1) by (simp add: mult_right_mono)
  then have "a * 10 ^ n \<le> round_half_even (x * 10 ^ n)" by (rule round_half_even_mono_int)
  then have "(of_int (a * 10 ^ n) ::'a) \<le> of_int (round_half_even (x * 10 ^ n))" by (simp only: of_int_le_iff)
  then show "of_int a \<le> py_round n x" using p by (simp add: py_round_def le_divide_eq)
  have "x * 10 ^ n \<le> of_int (b * 10 ^ n)" using assms(2) by (simp add: mult_right_mono)
  then have "round_half_even (x * 10 ^ n) \<le> b * 10 ^ n" by (rule round_half_even_upper)
  then have "(of_int (round_half_even (x * 10 ^ n)) ::'a) \<le> of_int (b * 10 ^ n)" by (simp only: of_int_le_iff)
  then show "py_round n x \<le> of_int b" using p by (simp add: py_round_def divide_le_eq)
qed

end
