(* ===== verification/Policy_Eval.thy ===== *)
theory Policy_Eval
  imports Outcome_Stats Contracts Py_Values
begin

text \<open>
  \<open>reasoner_service/outcome_policy_evaluator.py\<close> and \<open>reasoner_service/policy_shadow_mode.py\<close>: static
  rules over the outcome statistics that veto a signal, and the manager that evaluates them for
  every decision without enforcing the verdict.

  A rule is a constructor with the attributes of its class. A rule reads the database once, so an
  evaluation takes a sequence of databases, one per rule: the table may change between two
  awaits. Formatted numbers in the reasons are kept as values. A configuration is a dictionary
  from names to numbers.
\<close>

section \<open>Evaluations and rules\<close>

datatype policy_verdict = ALLOW | VETO

datatype snapshot = SnapGroup group_stats | SnapStreak loss_streak

record policy_evaluation =
  ev_decision :: policy_verdict
  ev_reason :: fstring
  ev_rule_name :: string
  ev_signal_type :: "string option"
  ev_symbol :: "string option"
  ev_timeframe :: "string option"
  ev_metrics_snapshot :: snapshot
  ev_timestamp :: time

datatype policy_rule =
    WinRateThresholdRule string rat rat
  | LossStreakRule string rat
  | AvgPnLThresholdRule string rat rat
  | SymbolDrawdownRule string rat rat

fun rule_name :: "policy_rule \<Rightarrow> string" where
  "rule_name (WinRateThresholdRule n _ _) = n"
| "rule_name (LossStreakRule n _) = n"
| "rule_name (AvgPnLThresholdRule n _ _) = n"
| "rule_name (SymbolDrawdownRule n _ _) = n"

text \<open>The constructors check their arguments.\<close>

definition win_rate_rule :: "rat \<Rightarrow> rat \<Rightarrow> py_error + policy_rule" where
  "win_rate_rule min_win_rate min_trades =
     (if \<not> (0 \<le> min_win_rate \<and> min_win_rate \<le> 1)
      then Inl (ValueError [T ''min_win_rate must be 0.0-1.0, got '', F min_win_rate])
      else Inr (WinRateThresholdRule ''win_rate_threshold'' min_win_rate min_trades))"

definition loss_streak_rule :: "rat \<Rightarrow> py_error + policy_rule" where
  "loss_streak_rule max_streak =
     (if max_streak < 1 then Inl (ValueError [T ''max_streak must be >= 1, got '', F max_streak])
      else Inr (LossStreakRule ''loss_streak'' max_streak))"

definition stats_entry :: "string option \<Rightarrow> (string \<times> group_stats) list option \<Rightarrow> group_stats option" where
  "stats_entry k stats =
     (case stats of None \<Rightarrow> None | Some st \<Rightarrow> (case k of None \<Rightarrow> None | Some s \<Rightarrow> map_of st s))"

definition veto ::
    "time \<Rightarrow> string \<Rightarrow> fstring \<Rightarrow> string option \<Rightarrow> string option \<Rightarrow> string option \<Rightarrow> snapshot \<Rightarrow> policy_evaluation" where
  "veto now name reason signal_type symbol timeframe snap =
    \<lparr>ev_decision = VETO, ev_reason = reason, ev_rule_name = name, ev_signal_type = signal_type,
     ev_symbol = symbol, ev_timeframe = timeframe, ev_metrics_snapshot = snap, ev_timestamp = now\<rparr>"

definition eval_win_rate ::
    "time \<Rightarrow> database \<Rightarrow> string option \<Rightarrow> string option \<Rightarrow> string option \<Rightarrow> string \<Rightarrow> rat \<Rightarrow> rat \<Rightarrow>
     policy_evaluation option" where
  "eval_win_rate now db signal_type symbol timeframe name min_win_rate min_trades =
     (case stats_entry signal_type (aggregate_by_signal_type now db symbol timeframe None None) of
        None \<Rightarrow> None
      | Some g \<Rightarrow>
          if of_int (gs_count g) < min_trades then None
          else if gs_win_rate g < min_win_rate then
            Some (veto now name
              [S signal_type, T '' win rate '', F (gs_win_rate g), T '' below minimum '', F min_win_rate,
               T '' ('', I (gs_count g), T '' trades)'']
              signal_type symbol timeframe (SnapGroup g))
          else None)"

definition eval_loss_streak ::
    "time \<Rightarrow> database \<Rightarrow> string option \<Rightarrow> string option \<Rightarrow> string option \<Rightarrow> string \<Rightarrow> rat \<Rightarrow>
     policy_evaluation option" where
  "eval_loss_streak now db signal_type symbol timeframe name max_streak =
     (case get_loss_streak now db symbol timeframe signal_type of
        None \<Rightarrow> None
      | Some r \<Rightarrow>
          if of_int (ls_current r) > max_streak then
            Some (veto now name
              [S signal_type, T '' loss streak '', I (ls_current r), T '' exceeds maximum '', F max_streak]
              signal_type symbol timeframe (SnapStreak r))
          else None)"

definition eval_avg_pnl ::
    "time \<Rightarrow> database \<Rightarrow> string option \<Rightarrow> string option \<Rightarrow> string option \<Rightarrow> string \<Rightarrow> rat \<Rightarrow> rat \<Rightarrow>
     policy_evaluation option" where
  "eval_avg_pnl now db signal_type symbol timeframe name min_avg_pnl min_trades =
     (case stats_entry signal_type (aggregate_by_signal_type now db symbol timeframe None None) of
        None \<Rightarrow> None
      | Some g \<Rightarrow>
          if of_int (gs_count g) < min_trades then None
          else if gs_avg_pnl g < min_avg_pnl then
            Some (veto now name
              [S signal_type, T '' avg PnL '', F (gs_avg_pnl g), T '' below minimum '', F min_avg_pnl,
               T '' ('', I (gs_count g), T '' trades)'']
              signal_type symbol timeframe (SnapGroup g))
          else None)"

definition eval_drawdown ::
    "time \<Rightarrow> database \<Rightarrow> string option \<Rightarrow> string option \<Rightarrow> string option \<Rightarrow> string \<Rightarrow> rat \<Rightarrow> rat \<Rightarrow>
     policy_evaluation option" where
  "eval_drawdown now db signal_type symbol timeframe name max_drawdown min_trades =
     (if \<not> truthy_str symbol then None
      else case stats_entry symbol (aggregate_by_symbol now db timeframe signal_type None None) of
        None \<Rightarrow> None
      | Some g \<Rightarrow>
          if of_int (gs_count g) < min_trades then None
          else if gs_total_pnl g < max_drawdown then
            Some (veto now name
              [S symbol, T '' total PnL '', F (gs_total_pnl g), T '' exceeds drawdown limit '', F max_drawdown,
               T '' ('', I (gs_count g), T '' trades)'']
              signal_type symbol timeframe (SnapGroup g))
          else None)"

fun eval_rule ::
    "time \<Rightarrow> database \<Rightarrow> string option \<Rightarrow> string option \<Rightarrow> string option \<Rightarrow> policy_rule \<Rightarrow>
     policy_evaluation option" where
  "eval_rule now db sg sy tf (WinRateThresholdRule n m k) = eval_win_rate now db sg sy tf n m k"
| "eval_rule now db sg sy tf (LossStreakRule n m) = eval_loss_streak now db sg sy tf n m"
| "eval_rule now db sg sy tf (AvgPnLThresholdRule n m k) = eval_avg_pnl now db sg sy tf n m k"
| "eval_rule now db sg sy tf (SymbolDrawdownRule n m k) = eval_drawdown now db sg sy tf n m k"

section \<open>The evaluator\<close>

record policy_evaluator =
  pe_rules :: "policy_rule list"
  pe_evaluation_log :: "policy_evaluation list"

definition pe_init :: policy_evaluator where
  "pe_init = \<lparr>pe_rules = [], pe_evaluation_log = []\<rparr>"

definition add_rule :: "policy_rule \<Rightarrow> policy_evaluator \<Rightarrow> py_error + policy_evaluator" where
  "add_rule r e =
     (if \<exists>x\<in>set (pe_rules e). rule_name x = rule_name r
      then Inl (ValueError [T ''Rule with name '', T (quoted (rule_name r)), T '' already exists''])
      else Inr (e\<lparr>pe_rules := pe_rules e @ [r]\<rparr>))"

definition remove_rule :: "string \<Rightarrow> policy_evaluator \<Rightarrow> policy_evaluator" where
  "remove_rule n e = e\<lparr>pe_rules := filter (\<lambda>r. rule_name r \<noteq> n) (pe_rules e)\<rparr>"

fun first_veto ::
    "(nat \<Rightarrow> database) \<Rightarrow> time \<Rightarrow> string option \<Rightarrow> string option \<Rightarrow> string option \<Rightarrow> nat \<Rightarrow> policy_rule list \<Rightarrow>
     policy_evaluation option" where
  "first_veto dbs now sg sy tf i [] = None"
| "first_veto dbs now sg sy tf i (r # rs) =
     (case eval_rule now (dbs i) sg sy tf r of
        Some v \<Rightarrow> if ev_decision v = VETO then Some v else first_veto dbs now sg sy tf (Suc i) rs
      | None \<Rightarrow> first_veto dbs now sg sy tf (Suc i) rs)"

definition evaluate ::
    "(nat \<Rightarrow> database) \<Rightarrow> time \<Rightarrow> string option \<Rightarrow> string option \<Rightarrow> string option \<Rightarrow> policy_evaluator \<Rightarrow>
     policy_evaluation option \<times> policy_evaluator" where
  "evaluate dbs now signal_type symbol timeframe e =
     (case first_veto dbs now signal_type symbol timeframe 0 (pe_rules e) of
        Some v \<Rightarrow> (Some v, e\<lparr>pe_evaluation_log := pe_evaluation_log e @ [v]\<rparr>)
      | None \<Rightarrow> (None, e))"

definition get_evaluation_history :: "int \<Rightarrow> policy_evaluator \<Rightarrow> policy_evaluation list" where
  "get_evaluation_history limit e = slice_last limit (pe_evaluation_log e)"

definition clear_history :: "policy_evaluator \<Rightarrow> policy_evaluator" where
  "clear_history e = e\<lparr>pe_evaluation_log := []\<rparr>"

definition create_policy_evaluator :: "(string \<times> rat) list \<Rightarrow> py_error + policy_evaluator" where
  "create_policy_evaluator config =
     (case win_rate_rule (dget ''win_rate_threshold'' config (9/20)) (dget ''min_win_rate_trades'' config 10) of
        Inl x \<Rightarrow> Inl x
      | Inr r1 \<Rightarrow>
     (case add_rule r1 pe_init of
        Inl x \<Rightarrow> Inl x
      | Inr e1 \<Rightarrow>
     (case loss_streak_rule (dget ''max_loss_streak'' config 5) of
        Inl x \<Rightarrow> Inl x
      | Inr r2 \<Rightarrow>
     (case add_rule r2 e1 of
        Inl x \<Rightarrow> Inl x
      | Inr e2 \<Rightarrow>
     (case add_rule (AvgPnLThresholdRule ''avg_pnl_threshold'' (dget ''min_avg_pnl'' config 0)
                       (dget ''min_avg_pnl_trades'' config 10)) e2 of
        Inl x \<Rightarrow> Inl x
      | Inr e3 \<Rightarrow>
          add_rule (SymbolDrawdownRule ''symbol_drawdown'' (dget ''symbol_max_drawdown'' config (-500))
                      (dget ''min_drawdown_trades'' config 5)) e3)))))"

section \<open>Shadow mode\<close>

record shadow_decision =
  sd_signal_type :: "string option"
  sd_symbol :: "string option"
  sd_timeframe :: "string option"
  sd_id :: pyval
  sd_recommendation :: pyval
  sd_confidence :: pyval

record shadow_entry =
  se_timestamp :: time
  se_decision :: string
  se_rule_name :: "string option"
  se_reason :: "fstring option"
  se_signal_type :: "string option"
  se_symbol :: "string option"
  se_timeframe :: "string option"
  se_decision_id :: pyval
  se_recommendation :: pyval
  se_confidence :: pyval

record shadow_manager =
  sm_evaluator :: "policy_evaluator option"
  sm_audit_trail :: "shadow_entry list"
  sm_initialized :: bool
  sm_init_error :: "py_error option"

definition sm_init :: shadow_manager where
  "sm_init = \<lparr>sm_evaluator = None, sm_audit_trail = [], sm_initialized = False, sm_init_error = None\<rparr>"

definition initialize :: "(string \<times> rat) list \<Rightarrow> shadow_manager \<Rightarrow> bool \<times> shadow_manager" where
  "initialize config m =
     (if sm_initialized m then (sm_evaluator m \<noteq> None, m)
      else case create_policy_evaluator config of
        Inr e \<Rightarrow> (True, m\<lparr>sm_evaluator := Some e, sm_initialized := True\<rparr>)
      | Inl x \<Rightarrow> (False, m\<lparr>sm_init_error := Some x, sm_initialized := True\<rparr>))"

record shadow_result =
  sr_evaluated :: bool
  sr_decision :: "string option"
  sr_rule_name :: "string option"
  sr_reason :: "fstring option"
  sr_metrics_snapshot :: "snapshot option"
  sr_timestamp :: time
  sr_error :: "string option"
  sr_audit_entry :: "shadow_entry option"

definition new_shadow_result :: "time \<Rightarrow> shadow_result" where
  "new_shadow_result now = \<lparr>sr_evaluated = False, sr_decision = None, sr_rule_name = None, sr_reason = None,
     sr_metrics_snapshot = None, sr_timestamp = now, sr_error = None, sr_audit_entry = None\<rparr>"

text \<open>\<open>x or y\<close> on optional strings.\<close>

definition opt_or :: "string option \<Rightarrow> string option \<Rightarrow> string option" where
  "opt_or x y = (if truthy_str x then x else y)"

text \<open>The first reading of the clock is the default time of the result, the second the one of the
  evaluation that vetoes.\<close>

definition evaluate_decision ::
    "(nat \<Rightarrow> database) \<Rightarrow> time \<Rightarrow> time \<Rightarrow> shadow_decision \<Rightarrow> string option \<Rightarrow> string option \<Rightarrow> string option \<Rightarrow>
     shadow_manager \<Rightarrow> shadow_result \<times> shadow_manager" where
  "evaluate_decision dbs now1 now2 decision signal_type symbol timeframe m =
     (let result = new_shadow_result now1 in
      case sm_evaluator m of
        None \<Rightarrow> (result\<lparr>sr_error := Some ''evaluator_not_initialized''\<rparr>, m)
      | Some ev \<Rightarrow>
          (let sig_type = opt_or signal_type (sd_signal_type decision);
               sym = opt_or symbol (sd_symbol decision);
               tf = opt_or timeframe (sd_timeframe decision);
               (eval_result, ev1) = evaluate dbs now2 sig_type sym tf ev;
               entry = \<lparr>se_timestamp = now1, se_decision = ''allow'', se_rule_name = None, se_reason = None,
                        se_signal_type = sig_type, se_symbol = sym, se_timeframe = tf,
                        se_decision_id = sd_id decision, se_recommendation = sd_recommendation decision,
                        se_confidence = sd_confidence decision\<rparr>;
               m1 = m\<lparr>sm_evaluator := Some ev1\<rparr>
           in case eval_result of
                Some v \<Rightarrow>
                  (let entry1 = entry\<lparr>se_timestamp := ev_timestamp v, se_decision := ''veto'',
                                      se_rule_name := Some (ev_rule_name v), se_reason := Some (ev_reason v)\<rparr>
                   in (result\<lparr>sr_evaluated := True, sr_decision := Some ''veto'',
                              sr_rule_name := Some (ev_rule_name v), sr_reason := Some (ev_reason v),
                              sr_metrics_snapshot := Some (ev_metrics_snapshot v),
                              sr_timestamp := ev_timestamp v, sr_audit_entry := Some entry1\<rparr>,
                       m1\<lparr>sm_audit_trail := sm_audit_trail m1 @ [entry1]\<rparr>))
              | None \<Rightarrow>
                  (result\<lparr>sr_evaluated := True, sr_decision := Some ''allow'', sr_audit_entry := Some entry\<rparr>,
                   m1\<lparr>sm_audit_trail := sm_audit_trail m1 @ [entry]\<rparr>)))"

definition sm_get_audit_trail :: "int option \<Rightarrow> shadow_manager \<Rightarrow> shadow_entry list" where
  "sm_get_audit_trail limit m =
     (case limit of
        None \<Rightarrow> rev (sm_audit_trail m)
      | Some n \<Rightarrow> rev (slice_last n (sm_audit_trail m)))"

definition clear_audit_trail :: "shadow_manager \<Rightarrow> int \<times> shadow_manager" where
  "clear_audit_trail m = (int (length (sm_audit_trail m)), m\<lparr>sm_audit_trail := []\<rparr>)"

record shadow_stats =
  ss_total_evaluations :: int
  ss_allow_count :: int
  ss_veto_count :: int
  ss_veto_by_rule :: "(string option \<times> int) list"
  ss_veto_by_signal_type :: "(string option \<times> int) list"
  ss_veto_rate :: "rat option"

fun shadow_counts ::
    "shadow_entry list \<Rightarrow> int \<times> (string option \<times> int) list \<times> (string option \<times> int) list \<Rightarrow>
     int \<times> (string option \<times> int) list \<times> (string option \<times> int) list" where
  "shadow_counts [] acc = acc"
| "shadow_counts (x # xs) (n, by_rule, by_signal) =
     (if se_decision x = ''veto''
      then shadow_counts xs (n + 1, bump (se_rule_name x) by_rule, bump (se_signal_type x) by_signal)
      else shadow_counts xs (n, by_rule, by_signal))"

definition get_stats :: "shadow_manager \<Rightarrow> shadow_stats" where
  "get_stats m =
     (if sm_audit_trail m = [] then
        \<lparr>ss_total_evaluations = 0, ss_allow_count = 0, ss_veto_count = 0, ss_veto_by_rule = [],
         ss_veto_by_signal_type = [], ss_veto_rate = None\<rparr>
      else
        (let (n, by_rule, by_signal) = shadow_counts (sm_audit_trail m) (0, [], []);
             len = int (length (sm_audit_trail m)) in
         \<lparr>ss_total_evaluations = len, ss_allow_count = len - n, ss_veto_count = n,
          ss_veto_by_rule = by_rule, ss_veto_by_signal_type = by_signal,
          ss_veto_rate = Some (of_int n / of_int len)\<rparr>))"

end
