(* ===== verification/Policy_Props.thy ===== *)
theory Policy_Props
  imports Policy_Eval
begin

text \<open>
  What the outcome policies and the shadow mode do: the verdict against the rules stated on the rows
  of the table, the log, failures of the database, and the counts of the shadow audit trail.
\<close>

section \<open>The rules on the rows of the table\<close>

text \<open>The rows a rule is about, and the newest-first list of them.\<close>

definition group_of :: "outcome_row list \<Rightarrow> string option \<Rightarrow> string option \<Rightarrow> string option \<Rightarrow> outcome_row list" where
  "group_of rows sg sy tf =
     filter (\<lambda>x. eq_filter (nonempty sg) (or_signal_type x) \<and> eq_filter (nonempty sy) (or_symbol x) \<and>
                 eq_filter (nonempty tf) (or_timeframe x)) rows"

definition newest_first :: "outcome_row list \<Rightarrow> outcome_row list" where
  "newest_first xs = rev (sort_key or_closed_at xs)"

fun violates :: "outcome_row list \<Rightarrow> string option \<Rightarrow> string option \<Rightarrow> string option \<Rightarrow> policy_rule \<Rightarrow> bool" where
  "violates rows sg sy tf (WinRateThresholdRule _ m k) =
     (let xs = filter (\<lambda>x. Some (or_signal_type x) = sg) (group_of rows None sy tf) in
      xs \<noteq> [] \<and> k \<le> of_nat (length xs) \<and> of_int (count_if is_win xs) / of_nat (length xs) < m)"
| "violates rows sg sy tf (LossStreakRule _ m) =
     (of_nat (length (takeWhile is_loss (newest_first (group_of rows sg sy tf)))) > m \<and>
      group_of rows sg sy tf \<noteq> [])"
| "violates rows sg sy tf (AvgPnLThresholdRule _ m k) =
     (let xs = filter (\<lambda>x. Some (or_signal_type x) = sg) (group_of rows None sy tf) in
      xs \<noteq> [] \<and> k \<le> of_nat (length xs) \<and> sum_list (map or_pnl xs) / of_nat (length xs) < m)"
| "violates rows sg sy tf (SymbolDrawdownRule _ m k) =
     (let xs = filter (\<lambda>x. Some (or_symbol x) = sy) (group_of rows sg None tf) in
      truthy_str sy \<and> xs \<noteq> [] \<and> k \<le> of_nat (length xs) \<and> sum_list (map or_pnl xs) < m)"

lemma stats_of_mset:
  assumes "mset xs = mset ys"
  shows "stats_of xs = stats_of ys"
proof -
  have len: "length xs = length ys" using assms by (rule mset_eq_length)
  have cnt: "count_if p xs = count_if p ys" for p
    using assms by (metis count_if_def mset_filter size_mset)
  have "sum_list (map or_pnl xs) = sum_list (map or_pnl ys)"
    using assms by (metis mset_map sum_mset_sum_list)
  then show ?thesis by (simp add: stats_of_def len cnt)
qed

lemma matches_filter_query:
  "filter (matches (filter_query now sy tf sg None None)) rows = group_of rows sg sy tf"
  by (auto simp: group_of_def matches_def filter_query_def nonzero_def intro!: filter_cong)

lemma filtered_mset:
  assumes "db_answers rows db"
  shows "mset (get_filtered_outcomes now db sy tf sg None None) = mset (group_of rows sg sy tf)"
  using filter_query_matches(1)[OF assms] by (simp add: matches_filter_query)

text \<open>What a rule reads in a grouped answer.\<close>

lemma stats_entry_exact:
  assumes "mset xs = mset ys"
  shows "stats_entry k (aggregate key xs) =
    (let zs = filter (\<lambda>x. Some (key x) = k) ys in if zs = [] then None else Some (stats_of zs))"
proof (cases k)
  case None
  then show ?thesis by (simp add: stats_entry_def split: option.splits)
next
  case (Some s)
  let ?fx = "filter (\<lambda>x. key x = s) xs" and ?fy = "filter (\<lambda>x. key x = s) ys"
  have m: "mset ?fx = mset ?fy" using assms by simp
  show ?thesis
  proof (cases "aggregate key xs")
    case None
    then have "xs = []" using aggregate_exact(1) by blast
    with assms have "ys = []" by simp
    then show ?thesis using None by (simp add: stats_entry_def)
  next
    case (Some st)
    have "map_of st s = (if ?fx = [] then None else Some (stats_of ?fx))"
      using aggregate_exact(2)[OF Some] by (simp add: Let_def)
    moreover have "?fx = [] \<longleftrightarrow> ?fy = []" using m by (metis mset_zero_iff)
    ultimately show ?thesis using Some \<open>k = Some s\<close> stats_of_mset[OF m]
      by (simp add: stats_entry_def Let_def)
  qed
qed

lemma newest_first_unique:
  assumes "mset xs = mset ys" "sorted_wrt (\<lambda>x y. or_closed_at x \<ge> or_closed_at y) xs"
    "distinct (map or_closed_at ys)"
  shows "xs = newest_first ys"
proof -
  have "sorted (map or_closed_at (rev xs))"
    using assms(2) by (simp add: sorted_map sorted_wrt_rev)
  then have "sort_key or_closed_at ys = rev xs"
    using assms(1,3) by (intro sort_key_inj_key_eq) (simp_all add: distinct_map)
  then show ?thesis by (simp add: newest_first_def)
qed

lemma distinct_group: "distinct (map or_closed_at rows) \<Longrightarrow> distinct (map or_closed_at (group_of rows sg sy tf))"
  by (simp add: group_of_def distinct_map_filter)

lemma streak_of_table:
  assumes "db_answers rows db" "distinct (map or_closed_at rows)"
  shows "get_loss_streak now db sy tf sg =
    (let xs = newest_first (group_of rows sg sy tf) in
     if xs = [] then None
     else Some \<lparr>ls_current = int (length (takeWhile is_loss xs)), ls_max = max_streak_loop 0 0 (rev xs)\<rparr>)"
proof -
  have "get_filtered_outcomes now db sy tf sg None None = newest_first (group_of rows sg sy tf)"
    by (rule newest_first_unique[OF filtered_mset[OF assms(1)] filter_query_matches(2)[OF assms(1)]
          distinct_group[OF assms(2)]])
  then show ?thesis by (simp add: get_loss_streak_def Let_def current_streak_takeWhile)
qed

lemma newest_first_Nil [simp]: "newest_first xs = [] \<longleftrightarrow> xs = []"
  by (metis newest_first_def mset_rev mset_sort mset_zero_iff)

lemmas eval_defs = eval_win_rate_def eval_loss_streak_def eval_avg_pnl_def eval_drawdown_def
  aggregate_by_signal_type_def aggregate_by_symbol_def

lemma stats_of_fields [simp]:
  "gs_count (stats_of xs) = int (length xs)"
  "gs_win_rate (stats_of xs) = of_int (count_if is_win xs) / of_nat (length xs)"
  "gs_avg_pnl (stats_of xs) = sum_list (map or_pnl xs) / of_nat (length xs)"
  "gs_total_pnl (stats_of xs) = sum_list (map or_pnl xs)"
  by (simp_all add: stats_of_def)

lemma eval_rule_exact:
  assumes "db_answers rows db" "distinct (map or_closed_at rows)"
  shows "eval_rule now db sg sy tf r \<noteq> None \<longleftrightarrow> violates rows sg sy tf r"
proof (cases r)
  case (WinRateThresholdRule n m k)
  then show ?thesis
    by (auto simp: eval_defs stats_entry_exact[OF filtered_mset[OF assms(1)]] Let_def not_less)
next
  case (LossStreakRule n m)
  then show ?thesis
    by (auto simp: eval_defs streak_of_table[OF assms] Let_def)
next
  case (AvgPnLThresholdRule n m k)
  then show ?thesis
    by (auto simp: eval_defs stats_entry_exact[OF filtered_mset[OF assms(1)]] Let_def not_less)
next
  case (SymbolDrawdownRule n m k)
  then show ?thesis
    by (auto simp: eval_defs stats_entry_exact[OF filtered_mset[OF assms(1)]] Let_def not_less)
qed

lemma eval_rule_veto:
  assumes "eval_rule now db sg sy tf r = Some v"
  shows "ev_decision v = VETO" "ev_rule_name v = rule_name r"
  using assms
  by (cases r; auto simp: eval_win_rate_def eval_loss_streak_def eval_avg_pnl_def eval_drawdown_def veto_def
      split: option.splits if_splits)+

lemma first_veto_exact:
  assumes "db_answers rows db" "distinct (map or_closed_at rows)"
  shows "map_option ev_rule_name (first_veto (\<lambda>_. db) now sg sy tf i rs) =
    map_option rule_name (find (violates rows sg sy tf) rs)"
proof (induction rs arbitrary: i)
  case Nil
  then show ?case by simp
next
  case (Cons r rs)
  then show ?case
    using eval_rule_exact[OF assms, of now sg sy tf r] eval_rule_veto[of now db sg sy tf r]
    by (cases "eval_rule now db sg sy tf r") auto
qed

lemma first_veto_is_veto: "first_veto dbs now sg sy tf i rs = Some v \<Longrightarrow> ev_decision v = VETO"
  by (induction rs arbitrary: i) (auto split: option.splits if_splits)

section \<open>Failures of the database\<close>

lemma no_rows:
  assumes "\<forall>q. \<exists>e. db q = Inl e"
  shows "get_filtered_outcomes now db sy tf sg n d = []"
  using assms by (metis get_filtered_outcomes_def old.sum.simps(5))

lemma eval_rule_no_rows:
  assumes "\<forall>q. \<exists>e. db q = Inl e"
  shows "eval_rule now db sg sy tf r = None"
  by (cases r)
     (simp_all add: eval_defs no_rows[OF assms] aggregate_def stats_entry_def get_loss_streak_def
        split: option.splits)

lemma first_veto_no_rows:
  assumes "\<forall>i q. \<exists>e. dbs i q = Inl e"
  shows "first_veto dbs now sg sy tf i rs = None"
  by (induction rs arbitrary: i) (use assms eval_rule_no_rows in \<open>simp_all\<close>)

section \<open>The shadow audit trail\<close>

lemma shadow_counts_exact:
  assumes "shadow_counts xs (n, br, bs) = (n1, br1, bs1)"
    "distinct (map fst br)" "distinct (map fst bs)"
  shows "n1 = n + count_if (\<lambda>x. se_decision x = ''veto'') xs \<and>
    total br1 = total br + (n1 - n) \<and> total bs1 = total bs + (n1 - n) \<and>
    (\<forall>k. dget k br1 0 = dget k br 0 + count_if (\<lambda>x. se_decision x = ''veto'' \<and> se_rule_name x = k) xs)"
  using assms
proof (induction xs "(n, br, bs)" arbitrary: n br bs rule: shadow_counts.induct)
  case 1
  then show ?case by (simp add: count_if_def)
next
  case (2 x xs n br bs)
  show ?case
  proof (cases "se_decision x = ''veto''")
    case True
    have "shadow_counts xs (n + 1, bump (se_rule_name x) br, bump (se_signal_type x) bs) = (n1, br1, bs1)"
      using 2(3) True by simp
    from 2(1)[OF True this distinct_bump[OF 2(4)] distinct_bump[OF 2(5)]]
    show ?thesis using 2(4,5) True
      by (auto simp: count_if_def total_bump dget_bump)
  next
    case False
    have "shadow_counts xs (n, br, bs) = (n1, br1, bs1)" using 2(3) False by simp
    from 2(2)[OF False this 2(4,5)] show ?thesis using False by (simp add: count_if_def)
  qed
qed

section \<open>Properties\<close>

text \<open>C26: on a table of trades that closed at different times, the evaluator answers
  with the first rule, in the order they were added, that the rows of the table violate, and with
  no veto when none is violated. A veto, and nothing else, is appended to the evaluation log.\<close>

theorem policy_veto_exact:
  assumes "db_answers rows db" "distinct (map or_closed_at rows)"
  shows "map_option ev_rule_name (fst (evaluate (\<lambda>_. db) now sg sy tf e)) =
      map_option rule_name (find (violates rows sg sy tf) (pe_rules e)) \<and>
    pe_evaluation_log (snd (evaluate (\<lambda>_. db) now sg sy tf e)) =
      pe_evaluation_log e @ (case fst (evaluate (\<lambda>_. db) now sg sy tf e) of None \<Rightarrow> [] | Some v \<Rightarrow> [v]) \<and>
    pe_rules (snd (evaluate (\<lambda>_. db) now sg sy tf e)) = pe_rules e"
  using first_veto_exact[OF assms, of now sg sy tf 0 "pe_rules e"]
  by (auto simp: evaluate_def split: option.splits)

definition losing_rows :: "outcome_row list" where
  "losing_rows = map (\<lambda>n. trade_row ''loss'' (-10) (int n)) [1..<11]"

definition default_rules :: "policy_rule list" where
  "default_rules =
     [WinRateThresholdRule ''win_rate_threshold'' (9/20) 10, LossStreakRule ''loss_streak'' 5,
      AvgPnLThresholdRule ''avg_pnl_threshold'' 0 10, SymbolDrawdownRule ''symbol_drawdown'' (-500) 5]"

lemma create_default: "create_policy_evaluator [] = Inr (pe_init\<lparr>pe_rules := default_rules\<rparr>)"
  by (simp add: create_policy_evaluator_def win_rate_rule_def loss_streak_rule_def add_rule_def
      pe_init_def dget_def default_rules_def)

lemma losing_rows_simps:
  "losing_rows = [trade_row ''loss'' (-10) 1, trade_row ''loss'' (-10) 2, trade_row ''loss'' (-10) 3,
     trade_row ''loss'' (-10) 4, trade_row ''loss'' (-10) 5, trade_row ''loss'' (-10) 6,
     trade_row ''loss'' (-10) 7, trade_row ''loss'' (-10) 8, trade_row ''loss'' (-10) 9,
     trade_row ''loss'' (-10) 10]"
  by (simp add: losing_rows_def upt_rec)

theorem policy_veto_exact_witness:
  "case create_policy_evaluator [] of
     Inl _ \<Rightarrow> False
   | Inr e \<Rightarrow> map_option ev_rule_name (fst (evaluate (\<lambda>_. sql_db losing_rows) 99 (Some ''bos'') None None e)) =
       Some ''win_rate_threshold''"
proof -
  have d: "distinct (map or_closed_at losing_rows)"
    by (simp add: losing_rows_simps trade_row_def)
  have g: "group_of losing_rows None None None = losing_rows"
    by (simp add: group_of_def eq_filter_def nonempty_def)
  have f: "filter (\<lambda>x. or_signal_type x = ''bos'') losing_rows = losing_rows"
    by (simp add: losing_rows_simps trade_row_def)
  have "length losing_rows = 10" "count_if is_win losing_rows = 0"
    by (simp_all add: losing_rows_simps trade_row_def count_if_def is_win_def)
  then have "violates losing_rows (Some ''bos'') None None
      (WinRateThresholdRule ''win_rate_threshold'' (9/20) 10)"
    by (auto simp: g f Let_def)
  then show ?thesis
    using policy_veto_exact[OF sql_db_answers d, of 99 "Some ''bos''" None None
        "pe_init\<lparr>pe_rules := default_rules\<rparr>"]
    by (simp add: create_default default_rules_def del: violates.simps)
qed

text \<open>When the database fails, a shadow evaluation is reported as performed with the
  decision "allow" and no error, and recorded in the audit trail as such, whatever the rules; it
  is told apart from a real "allow" by nothing. Only a manager without an evaluator reports an
  error, and then records nothing.\<close>

theorem shadow_fail_open:
  assumes "\<forall>i q. \<exists>x. dbs i q = Inl x"
  shows "case sm_evaluator m of
     None \<Rightarrow>
       \<not> sr_evaluated (fst (evaluate_decision dbs now1 now2 d sg sy tf m)) \<and>
       sr_error (fst (evaluate_decision dbs now1 now2 d sg sy tf m)) = Some ''evaluator_not_initialized'' \<and>
       snd (evaluate_decision dbs now1 now2 d sg sy tf m) = m
   | Some e \<Rightarrow>
       sr_evaluated (fst (evaluate_decision dbs now1 now2 d sg sy tf m)) \<and>
       sr_decision (fst (evaluate_decision dbs now1 now2 d sg sy tf m)) = Some ''allow'' \<and>
       sr_error (fst (evaluate_decision dbs now1 now2 d sg sy tf m)) = None \<and>
       map se_decision (sm_audit_trail (snd (evaluate_decision dbs now1 now2 d sg sy tf m))) =
         map se_decision (sm_audit_trail m) @ [''allow''] \<and>
       sm_evaluator (snd (evaluate_decision dbs now1 now2 d sg sy tf m)) = Some e"
proof (cases "sm_evaluator m")
  case None
  then show ?thesis by (simp add: evaluate_decision_def new_shadow_result_def Let_def)
next
  case (Some e)
  have "evaluate dbs now2 a b c e = (None, e)" for a b c
    by (simp add: evaluate_def first_veto_no_rows[OF assms])
  then show ?thesis
    by (simp add: Some evaluate_decision_def new_shadow_result_def Let_def)
qed

theorem shadow_fail_open_witness:
  "let m = snd (initialize [] sm_init);
       d = \<lparr>sd_signal_type = Some ''bos'', sd_symbol = None, sd_timeframe = None, sd_id = VInt 1,
            sd_recommendation = VStr ''enter'', sd_confidence = VFloat 1\<rparr>;
       r = fst (evaluate_decision (\<lambda>_ _. Inl OSError) 1 2 d None None None m) in
   sr_evaluated r \<and> sr_decision r = Some ''allow'' \<and> sr_error r = None"
proof -
  have "sm_evaluator (snd (initialize [] sm_init)) = Some (pe_init\<lparr>pe_rules := default_rules\<rparr>)"
    by (simp add: initialize_def sm_init_def create_default)
  then show ?thesis
    using shadow_fail_open[where dbs = "\<lambda>_ _. Inl OSError" and m = "snd (initialize [] sm_init)"]
    by (simp add: Let_def)
qed

text \<open>The statistics of the shadow mode add up. Allowed and vetoed evaluations
  make the total, the counts by rule and by signal type each add up to the number of vetoes, the
  count of a rule is the number of vetoes recorded for it, and the veto rate lies between 0 and
  1. A query of the trail for the last \<open>n\<close> entries gives the newest ones first; for \<open>n = 0\<close> it
  gives the whole trail.\<close>

theorem shadow_stats_exact:
  "ss_allow_count (get_stats m) + ss_veto_count (get_stats m) = int (length (sm_audit_trail m)) \<and>
   ss_veto_count (get_stats m) = count_if (\<lambda>x. se_decision x = ''veto'') (sm_audit_trail m) \<and>
   total (ss_veto_by_rule (get_stats m)) = ss_veto_count (get_stats m) \<and>
   total (ss_veto_by_signal_type (get_stats m)) = ss_veto_count (get_stats m) \<and>
   dget k (ss_veto_by_rule (get_stats m)) 0 =
     count_if (\<lambda>x. se_decision x = ''veto'' \<and> se_rule_name x = k) (sm_audit_trail m) \<and>
   (case ss_veto_rate (get_stats m) of None \<Rightarrow> sm_audit_trail m = [] | Some r \<Rightarrow> 0 \<le> r \<and> r \<le> 1) \<and>
   sm_get_audit_trail (Some (int (Suc n))) m = take (Suc n) (rev (sm_audit_trail m)) \<and>
   sm_get_audit_trail (Some 0) m = sm_get_audit_trail None m"
proof -
  let ?xs = "sm_audit_trail m"
  obtain c br bs where s: "shadow_counts ?xs (0, [], []) = (c, br, bs)" by (metis prod_cases3)
  have ex: "c = count_if (\<lambda>x. se_decision x = ''veto'') ?xs" "total br = c" "total bs = c"
      "dget k br 0 = count_if (\<lambda>x. se_decision x = ''veto'' \<and> se_rule_name x = k) ?xs"
    using shadow_counts_exact[OF s] by (simp_all add: total_def dget_def)
  have le: "length (filter (\<lambda>x. se_decision x = ''veto'') ?xs) \<le> length ?xs" by simp
  have last: "slice_last (int (Suc n)) ys = drop (length ys - Suc n) ys" for ys :: "shadow_entry list"
    unfolding slice_last_def by (simp del: of_nat_Suc)
  have take_min: "take (length ys - (length ys - Suc n)) (rev ys) = take (Suc n) (rev ys)" for ys :: "shadow_entry list"
    by (cases "Suc n \<le> length ys") simp_all
  have trail: "sm_get_audit_trail (Some (int (Suc n))) m = take (Suc n) (rev ?xs)"
      "sm_get_audit_trail (Some 0) m = sm_get_audit_trail None m"
    by (simp_all add: sm_get_audit_trail_def last rev_drop take_min del: of_nat_Suc)
       (simp add: slice_last_def)
  show ?thesis
  proof (cases "?xs = []")
    case True
    then show ?thesis using trail
      by (simp add: get_stats_def count_if_def total_def dget_def)
  next
    case False
    have "0 \<le> c" "c \<le> int (length ?xs)" unfolding ex(1) count_if_def using le by simp_all
    then have rate: "(of_int c :: rat) / of_int (int (length ?xs)) \<le> 1"
        "0 \<le> (of_int c :: rat) / of_int (int (length ?xs))"
      using False by (simp_all add: divide_le_eq_1)
    have gs: "get_stats m = \<lparr>ss_total_evaluations = int (length ?xs), ss_allow_count = int (length ?xs) - c,
        ss_veto_count = c, ss_veto_by_rule = br, ss_veto_by_signal_type = bs,
        ss_veto_rate = Some (of_int c / of_int (int (length ?xs)))\<rparr>"
      using False by (simp add: get_stats_def Let_def s)
    have "ss_veto_count (get_stats m) = count_if (\<lambda>x. se_decision x = ''veto'') ?xs"
      by (simp add: gs) (rule ex(1))
    moreover have "dget k (ss_veto_by_rule (get_stats m)) 0 =
        count_if (\<lambda>x. se_decision x = ''veto'' \<and> se_rule_name x = k) ?xs"
      by (simp add: gs) (rule ex(4))
    moreover have "case ss_veto_rate (get_stats m) of None \<Rightarrow> ?xs = [] | Some r \<Rightarrow> 0 \<le> r \<and> r \<le> 1"
      unfolding gs using rate by simp
    ultimately show ?thesis using trail
      by (intro conjI) (simp_all add: gs ex(2,3))
  qed
qed

end
