(* ===== verification/Plan_Contract.thy ===== *)
theory Plan_Contract
  imports Py_Values
begin

text \<open>
  \<open>reasoner_service/plan_execution_schemas.py\<close>: plans, their execution context and result, the
  validation of both, and the contract-boundary executor.

  The dataclasses of the source check nothing, so a field holds any Python value (\<open>pyval\<close>), and a
  place where an instance is expected holds an instance or another value (\<open>'a obj\<close>). A bool is an
  int, as in Python. Identifiers are ASCII strings. The severity enumeration is a string
  enumeration; in messages \<open>>=\<close> stands for the source's sign; \<open>cause\<close> and \<open>context\<close> of an error always keep their defaults and are left out.
\<close>

section \<open>Data\<close>

datatype error_severity = SevWarn | SevError | SevFatal

record retry_policy =
  rp_max_attempts :: pyval
  rp_backoff_ms :: pyval
  rp_backoff_multiplier :: pyval
  rp_max_backoff_ms :: pyval
  rp_retryable_error_codes :: pyval

record plan_step =
  ps_id :: pyval
  ps_action :: pyval
  ps_payload :: pyval
  ps_depends_on :: pyval
  ps_on_failure :: pyval
  ps_timeout_ms :: pyval

datatype 'a obj = Inst 'a | Other pyval

record plan =
  pl_id :: pyval
  pl_version :: pyval
  pl_created_at :: pyval
  pl_steps :: "(plan_step obj list) obj"
  pl_name :: pyval
  pl_context_requirements :: pyval
  pl_priority :: pyval
  pl_timeout_ms :: pyval
  pl_retry_policy :: "retry_policy obj"
  pl_metadata :: pyval
  pl_tags :: pyval
  pl_estimated_duration_ms :: pyval

record exec_context =
  cx_plan :: "plan obj"
  cx_execution_id :: pyval
  cx_started_at :: pyval
  cx_deadline_ms :: pyval
  cx_environment :: pyval
  cx_parent_execution_id :: pyval
  cx_user_id :: pyval
  cx_request_id :: pyval
  cx_correlation_context :: pyval

record execution_error =
  ee_error_code :: string
  ee_message :: fstring
  ee_step_id :: pyval
  ee_severity :: error_severity
  ee_recoverable :: bool

datatype exec_exn = ExecutionValidationError execution_error | PyError py_error

datatype plan_status = PSuccess | PPartial | PFailure

record plan_result =
  pr_plan_id :: pyval
  pr_execution_id :: pyval
  pr_status :: plan_status
  pr_completed_at :: int
  pr_duration_ms :: rat
  pr_steps_executed :: int
  pr_steps_total :: int
  pr_result_payload :: pydict
  pr_error :: "execution_error option"

section \<open>\<open>uuid.UUID(s, version=4)\<close>\<close>

text \<open>
  The constructor removes \<open>urn:\<close>, \<open>uuid:\<close>, surrounding braces and hyphens, wants 32 characters
  and parses them with \<open>int(_, 16)\<close>, which also accepts surrounding blanks, a sign, the prefix
  \<open>0x\<close> and single underscores. The argument \<open>version\<close> overwrites four bits of the result and
  checks nothing. (With 32 characters and no minus sign the value is always in range.)
\<close>

function remove_sub :: "string \<Rightarrow> string \<Rightarrow> string" where
  "remove_sub p s =
     (if s = [] then []
      else if p \<noteq> [] \<and> take (length p) s = p then remove_sub p (drop (length p) s)
      else hd s # remove_sub p (tl s))"
  by pat_completeness auto
termination by (relation "measure (\<lambda>(p, s). length s)") auto

declare remove_sub.simps [simp del]

definition strip_chars :: "(char \<Rightarrow> bool) \<Rightarrow> string \<Rightarrow> string" where
  "strip_chars p s = rev (dropWhile p (rev (dropWhile p s)))"

definition uuid_hex :: "string \<Rightarrow> string" where
  "uuid_hex s =
     remove_sub ''-'' (strip_chars (\<lambda>c. c = CHR ''{'' \<or> c = CHR ''}'')
       (remove_sub ''uuid:'' (remove_sub ''urn:'' s)))"

definition is_hex_digit :: "char \<Rightarrow> bool" where
  "is_hex_digit c \<longleftrightarrow> c \<in> set ''0123456789abcdefABCDEF''"

definition is_blank :: "char \<Rightarrow> bool" where
  "is_blank c \<longleftrightarrow> c \<in> set [CHR 0x20, CHR 0x09, CHR 0x0A, CHR 0x0B, CHR 0x0C, CHR 0x0D]"

text \<open>Digits with single underscores between them.\<close>

fun hex_digits :: "string \<Rightarrow> bool" where
  "hex_digits [] = False"
| "hex_digits [c] = is_hex_digit c"
| "hex_digits (c # d # cs) =
     (is_hex_digit c \<and> (if d = CHR ''_'' then hex_digits cs else hex_digits (d # cs)))"

definition int16_ok :: "string \<Rightarrow> bool" where
  "int16_ok s =
     (let s1 = strip_chars is_blank s;
          s2 = (if s1 \<noteq> [] \<and> (hd s1 = CHR ''+'' \<or> hd s1 = CHR ''-'') then tl s1 else s1)
      in if length s2 \<ge> 2 \<and> hd s2 = CHR ''0'' \<and> (s2 ! 1 = CHR ''x'' \<or> s2 ! 1 = CHR ''X'')
         then (let s3 = drop 2 s2 in hex_digits (if s3 \<noteq> [] \<and> hd s3 = CHR ''_'' then tl s3 else s3))
         else hex_digits s2)"

fun uuid_ok :: "pyval \<Rightarrow> bool" where
  "uuid_ok (VStr s) = (length (uuid_hex s) = 32 \<and> int16_ok (uuid_hex s))"
| "uuid_ok _ = False"

section \<open>Validation of a plan\<close>

definition fatal_error :: "string \<Rightarrow> fstring \<Rightarrow> execution_error" where
  "fatal_error code msg =
    \<lparr>ee_error_code = code, ee_message = msg, ee_step_id = VNone, ee_severity = SevFatal,
     ee_recoverable = False\<rparr>"

abbreviation invalid :: "fstring \<Rightarrow> execution_error" where
  "invalid msg \<equiv> fatal_error ''INVALID_PAYLOAD'' msg"

text \<open>A sequence of checks: the first condition that fails raises its error.\<close>

fun require_all :: "(bool \<times> execution_error) list \<Rightarrow> exec_exn + unit" where
  "require_all [] = Inr ()"
| "require_all ((c, e) # cs) = (if c then require_all cs else Inl (ExecutionValidationError e))"

fun and_also :: "'e + unit \<Rightarrow> 'e + 'a \<Rightarrow> 'e + 'a" where
  "and_also (Inl e) k = Inl e"
| "and_also (Inr _) k = k"

definition length_text :: "pyval \<Rightarrow> fstring" where
  "length_text v = (if is_str v then [I (int (length (str_of v)))] else [T ''non-string''])"

definition short_string :: "nat \<Rightarrow> pyval \<Rightarrow> bool" where
  "short_string n v \<longleftrightarrow> is_str v \<and> length (str_of v) \<noteq> 0 \<and> length (str_of v) \<le> n"

definition plan_header_checks :: "plan \<Rightarrow> (bool \<times> execution_error) list" where
  "plan_header_checks p =
    [(uuid_ok (pl_id p), invalid [T ''plan.id is not valid UUID v4: '', PV (pl_id p)]),
     (int_such (\<lambda>n. n \<ge> 1) (pl_version p), invalid [T ''plan.version must be >= 1, got '', PV (pl_version p)]),
     (int_such (\<lambda>n. n > 0) (pl_created_at p),
        invalid [T ''plan.created_at must be positive Unix ms timestamp, got '', PV (pl_created_at p)]),
     (short_string 255 (pl_name p),
        invalid (T ''plan.name must be non-empty string <= 255 chars, got length '' # length_text (pl_name p))),
     (is_list (pl_context_requirements p) \<and> length (list_of (pl_context_requirements p)) \<noteq> 0,
        invalid [T ''plan.context_requirements must be non-empty list''])]"

definition steps_error :: "plan_step obj list obj \<Rightarrow> execution_error" where
  "steps_error s =
     invalid [T ''plan.steps must be non-empty list <= 1024 items, got '',
       (case s of Inst xs \<Rightarrow> I (int (length xs)) | Other _ \<Rightarrow> T ''non-list'')]"

definition steps_at :: "nat \<Rightarrow> string" where
  "steps_at i = ''plan.steps['' @ show_int (int i) @ '']''"

definition step_checks :: "nat \<Rightarrow> plan_step \<Rightarrow> string list \<Rightarrow> (bool \<times> execution_error) list" where
  "step_checks idx st seen =
    [(uuid_ok (ps_id st), invalid [T (steps_at idx), T ''.id is not valid UUID v4: '', PV (ps_id st)]),
     (str_of (ps_id st) \<notin> set seen, invalid [T ''Duplicate step.id: '', PV (ps_id st)]),
     (short_string 100 (ps_action st),
        invalid ([T (steps_at idx), T ''.action must be non-empty string <= 100 chars, got length ''] @
                 length_text (ps_action st))),
     (is_dict (ps_payload st),
        invalid [T (steps_at idx), T ''.payload must be dict, got '', T (py_type_name (ps_payload st))]),
     (ps_on_failure st \<in> {VStr ''halt'', VStr ''skip'', VStr ''retry''},
        invalid [T (steps_at idx), T ''.on_failure must be one of (halt, skip, retry), got '', PV (ps_on_failure st)]),
     (is_list (ps_depends_on st),
        invalid [T (steps_at idx), T ''.depends_on must be list, got '', T (py_type_name (ps_depends_on st))])]"

definition step_timeout_checks :: "nat \<Rightarrow> plan_step \<Rightarrow> (bool \<times> execution_error) list" where
  "step_timeout_checks idx st =
    [(ps_timeout_ms st = VNone \<or> int_such (\<lambda>n. n > 0) (ps_timeout_ms st),
        invalid [T (steps_at idx), T ''.timeout_ms must be None or positive int, got '', PV (ps_timeout_ms st)])]"

definition unhashable :: "pyval list \<Rightarrow> exec_exn + unit" where
  "unhashable vs =
     (case find (\<lambda>v. \<not> py_hashable v) vs of
        None \<Rightarrow> Inr ()
      | Some v \<Rightarrow> Inl (PyError (TypeError [T ''unhashable type: '', T (quoted (py_type_name v))])))"

text \<open>
  The first loop over the steps. The inner loop over \<open>depends_on\<close> decides nothing, but its
  membership test hashes each entry (before the test against the step's own id).
\<close>

fun validate_steps :: "nat \<Rightarrow> plan_step obj list \<Rightarrow> string list \<Rightarrow> exec_exn + unit" where
  "validate_steps idx [] seen = Inr ()"
| "validate_steps idx (Other v # ss) seen =
     Inl (ExecutionValidationError (invalid [T (steps_at idx), T '' is not instance of PlanStep dataclass'']))"
| "validate_steps idx (Inst st # ss) seen =
     and_also (require_all (step_checks idx st seen))
       (and_also (unhashable (list_of (ps_depends_on st)))
         (and_also (require_all (step_timeout_checks idx st))
           (validate_steps (Suc idx) ss (seen @ [str_of (ps_id st)]))))"

text \<open>The second loop: \<open>ids\<close> are the ids of all steps in order.\<close>

fun index_of :: "string \<Rightarrow> string list \<Rightarrow> nat" where
  "index_of x [] = 0"
| "index_of x (y # ys) = (if x = y then 0 else Suc (index_of x ys))"

fun is_id :: "string list \<Rightarrow> pyval \<Rightarrow> bool" where
  "is_id ids (VStr s) = (s \<in> set ids)"
| "is_id ids _ = False"

definition dependency_checks :: "nat \<Rightarrow> plan_step \<Rightarrow> string list \<Rightarrow> pyval \<Rightarrow> (bool \<times> execution_error) list" where
  "dependency_checks idx st ids dep =
    [(is_id ids dep,
        fatal_error ''DEPENDENCY_UNRESOLVED'' [T (steps_at idx), T ''.depends_on references non-existent step: '', PV dep]),
     (dep \<noteq> ps_id st, invalid [T (steps_at idx), T '' has self-dependency: '', PV dep]),
     (index_of (str_of dep) ids \<le> idx,
        fatal_error ''DEPENDENCY_UNRESOLVED''
          [T (steps_at idx), T '' has forward dependency on later step: '', PV dep, T '' at index '',
           I (int (index_of (str_of dep) ids))])]"

fun validate_deps :: "nat \<Rightarrow> plan_step list \<Rightarrow> string list \<Rightarrow> exec_exn + unit" where
  "validate_deps idx [] ids = Inr ()"
| "validate_deps idx (st # ss) ids =
     and_also (require_all (concat (map (dependency_checks idx st ids) (list_of (ps_depends_on st)))))
       (validate_deps (Suc idx) ss ids)"

definition retry_checks :: "retry_policy \<Rightarrow> (bool \<times> execution_error) list" where
  "retry_checks r =
    [(int_such (\<lambda>n. n \<ge> 1) (rp_max_attempts r),
        invalid [T ''plan.retry_policy.max_attempts must be >= 1, got '', PV (rp_max_attempts r)]),
     (int_such (\<lambda>n. n \<ge> 0) (rp_backoff_ms r),
        invalid [T ''plan.retry_policy.backoff_ms must be >= 0, got '', PV (rp_backoff_ms r)]),
     ((case as_number (rp_backoff_multiplier r) of None \<Rightarrow> False | Some x \<Rightarrow> x \<ge> 1),
        invalid [T ''plan.retry_policy.backoff_multiplier must be >= 1.0, got '', PV (rp_backoff_multiplier r)]),
     (int_such (\<lambda>n. n \<ge> 0) (rp_max_backoff_ms r),
        invalid [T ''plan.retry_policy.max_backoff_ms must be >= 0, got '', PV (rp_max_backoff_ms r)]),
     (is_list (rp_retryable_error_codes r),
        invalid [T ''plan.retry_policy.retryable_error_codes must be list, got '',
                 T (py_type_name (rp_retryable_error_codes r))])]"

definition validate_retry :: "retry_policy obj \<Rightarrow> exec_exn + unit" where
  "validate_retry r =
     (case r of
        Other VNone \<Rightarrow> Inr ()
      | Other _ \<Rightarrow> Inl (ExecutionValidationError (invalid [T ''plan.retry_policy is not instance of RetryPolicy'']))
      | Inst rp \<Rightarrow> require_all (retry_checks rp))"

definition optional_checks :: "plan \<Rightarrow> (bool \<times> execution_error) list" where
  "optional_checks p =
    [(as_int (pl_priority p) \<noteq> None,
        invalid [T ''plan.priority must be int, got '', T (py_type_name (pl_priority p))]),
     (int_such (\<lambda>n. n > 0) (pl_timeout_ms p),
        invalid [T ''plan.timeout_ms must be positive int, got '', PV (pl_timeout_ms p)]),
     (is_dict (pl_metadata p), invalid [T ''plan.metadata must be dict, got '', T (py_type_name (pl_metadata p))]),
     (is_list (pl_tags p), invalid [T ''plan.tags must be list, got '', T (py_type_name (pl_tags p))]),
     (pl_estimated_duration_ms p = VNone \<or> int_such (\<lambda>n. n > 0) (pl_estimated_duration_ms p),
        invalid [T ''plan.estimated_duration_ms must be None or positive int, got '',
                 PV (pl_estimated_duration_ms p)])]"

fun step_of :: "plan_step obj \<Rightarrow> plan_step list" where
  "step_of (Inst st) = [st]"
| "step_of (Other _) = []"

definition steps_of :: "plan_step obj list \<Rightarrow> plan_step list" where
  "steps_of ss = concat (map step_of ss)"

definition step_ids :: "plan_step obj list \<Rightarrow> string list" where
  "step_ids ss = map (\<lambda>st. str_of (ps_id st)) (steps_of ss)"

definition validate_plan :: "plan obj \<Rightarrow> exec_exn + unit" where
  "validate_plan po =
     (case po of
        Other _ \<Rightarrow> Inl (ExecutionValidationError (invalid [T ''Plan object is not instance of Plan dataclass'']))
      | Inst p \<Rightarrow>
          and_also (require_all (plan_header_checks p))
            (case pl_steps p of
               Other _ \<Rightarrow> Inl (ExecutionValidationError (steps_error (pl_steps p)))
             | Inst ss \<Rightarrow>
                 if length ss = 0 \<or> length ss > 1024
                 then Inl (ExecutionValidationError (steps_error (pl_steps p)))
                 else and_also (validate_steps 0 ss [])
                   (and_also (validate_deps 0 (steps_of ss) (step_ids ss))
                     (and_also (validate_retry (pl_retry_policy p))
                       (require_all (optional_checks p))))))"

section \<open>Validation of a context\<close>

definition type_error :: "exec_exn + 'a" where
  "type_error = Inl (PyError (TypeError []))"

fun check_requirements :: "string list \<Rightarrow> pyval list \<Rightarrow> exec_exn + unit" where
  "check_requirements ks [] = Inr ()"
| "check_requirements ks (r # rs) =
     (if \<not> py_hashable r then type_error
      else if is_id ks r then check_requirements ks rs
      else Inl (ExecutionValidationError
             (fatal_error ''CONTEXT_MISSING'' [T ''Required context key not provided: '', PV r])))"

definition context_checks :: "exec_context \<Rightarrow> (bool \<times> execution_error) list" where
  "context_checks c =
    [(uuid_ok (cx_execution_id c), invalid [T ''ctx.execution_id is not valid UUID v4: '', PV (cx_execution_id c)]),
     (int_such (\<lambda>n. n > 0) (cx_started_at c),
        invalid [T ''ctx.started_at must be positive Unix ms timestamp, got '', PV (cx_started_at c)]),
     (int_such (\<lambda>n. n > 0) (cx_deadline_ms c),
        invalid [T ''ctx.deadline_ms must be positive Unix ms timestamp, got '', PV (cx_deadline_ms c)]),
     (the (as_int (cx_deadline_ms c)) > the (as_int (cx_started_at c)),
        fatal_error ''DEADLINE_EXCEEDED''
          [T ''ctx.deadline_ms ('', PV (cx_deadline_ms c), T '') must be > ctx.started_at ('',
           PV (cx_started_at c), T '')''])]"

definition check_window :: "exec_context \<Rightarrow> plan \<Rightarrow> exec_exn + unit" where
  "check_window c p =
     (let window = the (as_int (cx_deadline_ms c)) - the (as_int (cx_started_at c)) in
      case as_number (pl_timeout_ms p) of
        None \<Rightarrow> type_error
      | Some t \<Rightarrow>
          if of_int window < t
          then Inl (ExecutionValidationError (fatal_error ''DEADLINE_EXCEEDED''
                 [T ''Execution window ('', I window, T ''ms) insufficient for plan timeout ('',
                  PV (pl_timeout_ms p), T ''ms)'']))
          else Inr ())"

definition optional_context_checks :: "exec_context \<Rightarrow> (bool \<times> execution_error) list" where
  "optional_context_checks c =
    [(cx_parent_execution_id c = VNone \<or> is_str (cx_parent_execution_id c),
        invalid [T ''ctx.parent_execution_id must be str or None, got '', T (py_type_name (cx_parent_execution_id c))]),
     (cx_parent_execution_id c = VNone \<or> uuid_ok (cx_parent_execution_id c),
        invalid [T ''ctx.parent_execution_id is not valid UUID v4: '', PV (cx_parent_execution_id c)]),
     (cx_user_id c = VNone \<or> is_str (cx_user_id c),
        invalid [T ''ctx.user_id must be str or None, got '', T (py_type_name (cx_user_id c))]),
     (cx_request_id c = VNone \<or> is_str (cx_request_id c),
        invalid [T ''ctx.request_id must be str or None, got '', T (py_type_name (cx_request_id c))]),
     (cx_correlation_context c = VNone \<or> is_dict (cx_correlation_context c),
        invalid [T ''ctx.correlation_context must be dict or None, got '',
                 T (py_type_name (cx_correlation_context c))])]"

definition validate_context :: "exec_context obj \<Rightarrow> exec_exn + unit" where
  "validate_context co =
     (case co of
        Other _ \<Rightarrow> Inl (ExecutionValidationError
                    (invalid [T ''ExecutionContext is not instance of ExecutionContext dataclass'']))
      | Inst c \<Rightarrow>
         (case cx_plan c of
            Other _ \<Rightarrow> Inl (ExecutionValidationError (invalid [T ''ctx.plan is not instance of Plan dataclass'']))
          | Inst p \<Rightarrow>
              and_also (require_all (context_checks c))
                (and_also (check_window c p)
                  (and_also (require_all [(is_dict (cx_environment c),
                       invalid [T ''ctx.environment must be dict, got '', T (py_type_name (cx_environment c))])])
                    (case iterate (pl_context_requirements p) of
                       None \<Rightarrow> type_error
                     | Some rs \<Rightarrow>
                         and_also (check_requirements (dict_keys (cx_environment c)) rs)
                           (require_all (optional_context_checks c)))))))"

section \<open>The contract-boundary executor\<close>

definition step_error :: "string \<Rightarrow> fstring \<Rightarrow> pyval \<Rightarrow> error_severity \<Rightarrow> execution_error" where
  "step_error code msg sid sev =
    \<lparr>ee_error_code = code, ee_message = msg, ee_step_id = sid, ee_severity = sev, ee_recoverable = False\<rparr>"

text \<open>
  The loop over the dependencies of a step, on the ids of the completed steps: go on with the
  error set so far, skip the step, or end the run. The executor calls it on validated plans,
  where \<open>depends_on\<close> is a list and the ids are strings.
\<close>

datatype dep_outcome = DepDone bool "execution_error option" | DepReturn "execution_error option"

fun check_deps :: "plan_step \<Rightarrow> pyval list \<Rightarrow> pyval list \<Rightarrow> bool \<Rightarrow> execution_error option \<Rightarrow> dep_outcome" where
  "check_deps st completed [] sat err = DepDone sat err"
| "check_deps st completed (dep # deps) sat err =
     (if dep \<in> set completed then check_deps st completed deps sat err
      else (let err1 = step_error ''DEPENDENCY_UNRESOLVED''
                         [T ''Step '', PV (ps_id st), T '' dependency '', PV dep, T '' not completed'']
                         (ps_id st) SevError in
        if ps_on_failure st = VStr ''halt'' then DepReturn (Some err1)
        else if ps_on_failure st = VStr ''skip'' then
          DepDone False (Some (step_error ''STEP_SKIPPED''
            [T ''Step '', PV (ps_id st), T '' skipped due to dependency failure''] (ps_id st) SevWarn))
        else if ps_on_failure st = VStr ''retry'' then
          DepReturn (Some (step_error ''EXECUTION_HALTED''
            [T ''Step '', PV (ps_id st), T '' retry policy not implemented''] (ps_id st) SevFatal))
        else check_deps st completed deps False (Some err1)))"

fun execute_steps ::
    "plan_step list \<Rightarrow> pyval list \<Rightarrow> int \<Rightarrow> execution_error option \<Rightarrow> int \<times> execution_error option" where
  "execute_steps [] completed n err = (n, err)"
| "execute_steps (st # ss) completed n err =
     (case check_deps st completed (list_of (ps_depends_on st)) True err of
        DepReturn e \<Rightarrow> (n, e)
      | DepDone True e \<Rightarrow> execute_steps ss (completed @ [ps_id st]) (n + 1) e
      | DepDone False e \<Rightarrow> execute_steps ss completed n e)"

definition attribute_error :: "exec_exn + 'a" where
  "attribute_error = Inl (PyError (Raised ''AttributeError''))"

definition infer_status :: "execution_error option \<Rightarrow> int \<Rightarrow> int \<Rightarrow> plan_status" where
  "infer_status err executed steps =
     (case err of
        None \<Rightarrow> if executed = steps then PSuccess else PPartial
      | Some e \<Rightarrow> if ee_severity e \<noteq> SevFatal \<and> executed > 0 then PPartial else PFailure)"

text \<open>
  \<open>completed_at - ctx.started_at\<close> comes first, then the status and \<open>len(plan.steps)\<close>, which the
  status needs only when there is no error, then \<open>plan.id\<close>.
\<close>

fun steps_len :: "plan_step obj list obj \<Rightarrow> int option" where
  "steps_len (Inst ss) = Some (int (length ss))"
| "steps_len (Other (VStr s)) = Some (int (length s))"
| "steps_len (Other (VDict d)) = Some (int (length d))"
| "steps_len (Other _) = None"

definition build_plan_result ::
    "int \<Rightarrow> plan obj \<Rightarrow> exec_context obj \<Rightarrow> int \<Rightarrow> execution_error option \<Rightarrow> exec_exn + plan_result" where
  "build_plan_result completed_at po co executed err =
     (case co of
        Other _ \<Rightarrow> attribute_error
      | Inst c \<Rightarrow>
         (case as_number (cx_started_at c) of
            None \<Rightarrow> type_error
          | Some started \<Rightarrow>
             (case po of
                Other _ \<Rightarrow> attribute_error
              | Inst p \<Rightarrow>
                 (case steps_len (pl_steps p) of
                    None \<Rightarrow> type_error
                  | Some n \<Rightarrow>
                      Inr \<lparr>pr_plan_id = pl_id p, pr_execution_id = cx_execution_id c,
                           pr_status = infer_status err executed n,
                           pr_completed_at = completed_at, pr_duration_ms = of_int completed_at - started,
                           pr_steps_executed = executed, pr_steps_total = n,
                           pr_result_payload = [], pr_error = err\<rparr>))))"

text \<open>
  \<open>execute\<close>. Its second phase calls \<open>self._validate_context(plan, ctx)\<close>, but the method takes one
  argument besides \<open>self\<close>, so the call raises a \<open>TypeError\<close>, which is not an
  \<open>ExecutionValidationError\<close> and leaves the method. The rest of the body is kept as
  \<open>execute_after_validation\<close>.
\<close>

definition execute_after_validation ::
    "int \<Rightarrow> plan obj \<Rightarrow> exec_context obj \<Rightarrow> exec_exn + plan_result" where
  "execute_after_validation now po co =
     (case po of
        Inst p \<Rightarrow>
          (case pl_steps p of
             Inst ss \<Rightarrow> (let (n, err) = execute_steps (steps_of ss) [] 0 None in
                        build_plan_result now po co n err)
           | Other _ \<Rightarrow> type_error)
      | Other _ \<Rightarrow> attribute_error)"

definition call_validate_context :: "nat \<Rightarrow> exec_context obj \<Rightarrow> exec_exn + unit" where
  "call_validate_context args co =
     (if args = 1 then validate_context co
      else Inl (PyError (TypeError
             [T ''PlanExecutor._validate_context() takes 2 positional arguments but '', I (int args + 1),
              T '' were given''])))"

definition execute_plan_obj :: "int \<Rightarrow> plan obj \<Rightarrow> exec_context obj \<Rightarrow> exec_exn + plan_result" where
  "execute_plan_obj now po co =
     (case validate_plan po of
        Inl (ExecutionValidationError e) \<Rightarrow> build_plan_result now po co 0 (Some e)
      | Inl x \<Rightarrow> Inl x
      | Inr _ \<Rightarrow>
         (case call_validate_context 2 co of
            Inl (ExecutionValidationError e) \<Rightarrow> build_plan_result now po co 0 (Some e)
          | Inl x \<Rightarrow> Inl x
          | Inr _ \<Rightarrow> execute_after_validation now po co))"

definition execute_plan :: "int \<Rightarrow> exec_context obj \<Rightarrow> exec_exn + plan_result" where
  "execute_plan now co =
     (case co of Other _ \<Rightarrow> attribute_error | Inst c \<Rightarrow> execute_plan_obj now (cx_plan c) co)"

text \<open>
  \<open>execute_plan_if_enabled\<close> of the orchestrator. A plan given as a dictionary is first unpacked
  into the dataclass, a \<open>TypeError\<close> when a required key is missing or a key is unknown (the object
  itself is not used afterwards); the same for the context, whose object the constructor builds
  from the entries. Any exception but \<open>NotImplementedError\<close>, which nothing here raises, becomes
  the empty dictionary, so the answer is \<open>None\<close> (empty) or the result.
\<close>

datatype plan_arg = PlanKwargs "string list" | PlanObj "plan obj"
datatype ctx_arg = CtxKwargs "string list" exec_context | CtxObj "exec_context obj"

definition kwargs_ok :: "string list \<Rightarrow> string list \<Rightarrow> string list \<Rightarrow> bool" where
  "kwargs_ok required optional ks \<longleftrightarrow> set required \<subseteq> set ks \<and> set ks \<subseteq> set (required @ optional)"

definition plan_required :: "string list" where
  "plan_required = [''id'', ''version'', ''created_at'', ''steps'', ''name'', ''context_requirements'']"

definition plan_optional :: "string list" where
  "plan_optional = [''priority'', ''timeout_ms'', ''retry_policy'', ''metadata'', ''tags'', ''estimated_duration_ms'']"

definition ctx_required :: "string list" where
  "ctx_required = [''plan'', ''execution_id'', ''started_at'', ''deadline_ms'', ''environment'']"

definition ctx_optional :: "string list" where
  "ctx_optional = [''parent_execution_id'', ''user_id'', ''request_id'', ''correlation_context'']"

definition execute_plan_if_enabled :: "bool \<Rightarrow> int \<Rightarrow> plan_arg \<Rightarrow> ctx_arg \<Rightarrow> plan_result option" where
  "execute_plan_if_enabled enabled now parg carg =
     (if \<not> enabled then None
      else if (case parg of PlanKwargs ks \<Rightarrow> \<not> kwargs_ok plan_required plan_optional ks | PlanObj _ \<Rightarrow> False) then None
      else
        (case (case carg of
                 CtxKwargs ks c \<Rightarrow> if kwargs_ok ctx_required ctx_optional ks then Inr (Inst c) else type_error
               | CtxObj co \<Rightarrow> Inr co) of
           Inl _ \<Rightarrow> None
         | Inr co \<Rightarrow> (case execute_plan now co of Inl _ \<Rightarrow> None | Inr r \<Rightarrow> Some r)))"

text \<open>
  The branch of \<open>handle_event\<close> for an event of type "plan_execution", after the payload's two
  entries are looked up.
\<close>

record plan_event_result =
  pv_status :: string
  pv_reason :: "string option"
  pv_plan_result :: "plan_result option"

definition handle_plan_execution ::
    "bool \<Rightarrow> int \<Rightarrow> plan_arg option \<Rightarrow> ctx_arg option \<Rightarrow> plan_event_result" where
  "handle_plan_execution enabled now parg carg =
     (case (parg, carg) of
        (Some pa, Some ca) \<Rightarrow>
          (let r = execute_plan_if_enabled enabled now pa ca in
           if (case r of None \<Rightarrow> False | Some x \<Rightarrow> pr_status x = PFailure)
           then \<lparr>pv_status = ''rejected'', pv_reason = Some ''plan_execution_failed'', pv_plan_result = r\<rparr>
           else \<lparr>pv_status = ''accepted'', pv_reason = None, pv_plan_result = r\<rparr>)
      | _ \<Rightarrow> \<lparr>pv_status = ''error'', pv_reason = Some ''missing_plan_or_context'', pv_plan_result = None\<rparr>)"

end
