(* ===== verification/Plan_Props.thy ===== *)
theory Plan_Props
  imports Plan_Contract
begin

text \<open>
  What the plan validation accepts, stated as a schema; that a plan it accepts would run to
  completion; and what the executor does with it.
\<close>

section \<open>Checks\<close>

lemma require_all_ok: "require_all cs = Inr () \<longleftrightarrow> (\<forall>c\<in>set cs. fst c)"
  by (induction cs rule: require_all.induct) auto

lemma and_also_ok [simp]: "and_also a b = Inr x \<longleftrightarrow> a = Inr () \<and> b = Inr x"
  by (cases a) auto

lemma require_all_error: "require_all cs = Inl x \<Longrightarrow> \<exists>e. x = ExecutionValidationError e \<and> e \<in> snd ` set cs"
  by (induction cs rule: require_all.induct) (auto split: if_splits)

lemma unhashable_ok: "unhashable vs = Inr () \<longleftrightarrow> (\<forall>v\<in>set vs. py_hashable v)"
proof (cases "find (\<lambda>v. \<not> py_hashable v) vs")
  case None
  moreover have "\<forall>v\<in>set vs. py_hashable v" using None by (simp add: find_None_iff)
  ultimately show ?thesis by (simp add: unhashable_def)
next
  case (Some v)
  then show ?thesis using find_SomeD[OF Some] by (auto simp: unhashable_def)
qed

lemma uuid_ok_str: "uuid_ok v \<Longrightarrow> v = VStr (str_of v)"
  by (cases v) auto

section \<open>The schema of a plan\<close>

definition step_schema :: "plan_step \<Rightarrow> bool" where
  "step_schema st \<longleftrightarrow>
     uuid_ok (ps_id st) \<and> short_string 100 (ps_action st) \<and> is_dict (ps_payload st) \<and>
     ps_on_failure st \<in> {VStr ''halt'', VStr ''skip'', VStr ''retry''} \<and> is_list (ps_depends_on st) \<and>
     (ps_timeout_ms st = VNone \<or> int_such (\<lambda>n. n > 0) (ps_timeout_ms st))"

definition retry_schema :: "retry_policy \<Rightarrow> bool" where
  "retry_schema r \<longleftrightarrow>
     int_such (\<lambda>n. n \<ge> 1) (rp_max_attempts r) \<and> int_such (\<lambda>n. n \<ge> 0) (rp_backoff_ms r) \<and>
     (\<exists>x\<ge>1. as_number (rp_backoff_multiplier r) = Some x) \<and>
     int_such (\<lambda>n. n \<ge> 0) (rp_max_backoff_ms r) \<and> is_list (rp_retryable_error_codes r)"

text \<open>The dependencies of a step are ids of earlier steps.\<close>

definition deps_earlier :: "plan_step list \<Rightarrow> bool" where
  "deps_earlier sts \<longleftrightarrow>
     (\<forall>i<length sts. \<forall>d\<in>set (list_of (ps_depends_on (sts ! i))). \<exists>j<i. d = ps_id (sts ! j))"

definition plan_schema :: "plan \<Rightarrow> plan_step list \<Rightarrow> bool" where
  "plan_schema p sts \<longleftrightarrow>
     uuid_ok (pl_id p) \<and> int_such (\<lambda>n. n \<ge> 1) (pl_version p) \<and> int_such (\<lambda>n. n > 0) (pl_created_at p) \<and>
     short_string 255 (pl_name p) \<and>
     is_list (pl_context_requirements p) \<and> list_of (pl_context_requirements p) \<noteq> [] \<and>
     pl_steps p = Inst (map Inst sts) \<and> sts \<noteq> [] \<and> length sts \<le> 1024 \<and>
     (\<forall>st\<in>set sts. step_schema st) \<and> distinct (map ps_id sts) \<and> deps_earlier sts \<and>
     (case pl_retry_policy p of Inst r \<Rightarrow> retry_schema r | Other v \<Rightarrow> v = VNone) \<and>
     as_int (pl_priority p) \<noteq> None \<and> int_such (\<lambda>n. n > 0) (pl_timeout_ms p) \<and> is_dict (pl_metadata p) \<and>
     is_list (pl_tags p) \<and>
     (pl_estimated_duration_ms p = VNone \<or> int_such (\<lambda>n. n > 0) (pl_estimated_duration_ms p))"

lemma steps_of_map [simp]: "steps_of (map Inst sts) = sts"
  by (induction sts) (simp_all add: steps_of_def)

lemma step_ids_map [simp]: "step_ids (map Inst sts) = map (\<lambda>st. str_of (ps_id st)) sts"
  by (simp add: step_ids_def)

lemma validate_steps_ok:
  "distinct seen \<Longrightarrow>
   validate_steps idx ss seen = Inr () \<longleftrightarrow>
   (\<exists>sts. ss = map Inst sts \<and> (\<forall>st\<in>set sts. step_schema st \<and> (\<forall>d\<in>set (list_of (ps_depends_on st)). py_hashable d)) \<and>
      distinct (seen @ map (\<lambda>st. str_of (ps_id st)) sts))"
proof (induction idx ss seen rule: validate_steps.induct)
  case (1 idx seen)
  then show ?case by simp
next
  case (2 idx v ss seen)
  then show ?case by (auto simp: Cons_eq_map_conv)
next
  case (3 idx st ss seen)
  let ?s = "str_of (ps_id st)"
  have head: "require_all (step_checks idx st seen) = Inr () \<and> require_all (step_timeout_checks idx st) = Inr () \<longleftrightarrow>
      step_schema st \<and> ?s \<notin> set seen"
    by (auto simp: require_all_ok step_checks_def step_timeout_checks_def step_schema_def)
  have ex: "(\<exists>sts. Inst st # ss = map Inst sts \<and> P sts) \<longleftrightarrow> (\<exists>sts. ss = map Inst sts \<and> P (st # sts))" for P
    by (auto simp: Cons_eq_map_conv)
  show ?case
  proof (cases "step_schema st \<and> ?s \<notin> set seen \<and> (\<forall>d\<in>set (list_of (ps_depends_on st)). py_hashable d)")
    case True
    then have "distinct (seen @ [?s])" using 3(2) by simp
    from 3(1)[OF this] True head show ?thesis
      unfolding ex by (simp add: unhashable_ok)
  next
    case False
    then show ?thesis unfolding ex using head by (auto simp: unhashable_ok)
  qed
qed

lemma index_of_nth: "distinct ids \<Longrightarrow> j < length ids \<Longrightarrow> index_of (ids ! j) ids = j"
proof (induction ids arbitrary: j)
  case (Cons y ys)
  then show ?case by (cases j) (auto simp: nth_mem)
qed simp

lemma validate_deps_ok:
  "validate_deps idx sts ids = Inr () \<longleftrightarrow>
   (\<forall>i<length sts. \<forall>d\<in>set (list_of (ps_depends_on (sts ! i))).
      is_id ids d \<and> d \<noteq> ps_id (sts ! i) \<and> index_of (str_of d) ids \<le> idx + i)"
proof (induction idx sts ids rule: validate_deps.induct)
  case (1 idx ids)
  then show ?case by simp
next
  case (2 idx st ss ids)
  have "require_all (concat (map (dependency_checks idx st ids) ds)) = Inr () \<longleftrightarrow>
      (\<forall>d\<in>set ds. is_id ids d \<and> d \<noteq> ps_id st \<and> index_of (str_of d) ids \<le> idx)" for ds
    by (auto simp: require_all_ok dependency_checks_def)
  with 2 show ?case by (simp add: All_less_Suc2)
qed

lemma deps_ok:
  assumes "\<forall>st\<in>set sts. uuid_ok (ps_id st)" "distinct (map (\<lambda>st. str_of (ps_id st)) sts)"
  shows "validate_deps 0 sts (map (\<lambda>st. str_of (ps_id st)) sts) = Inr () \<longleftrightarrow> deps_earlier sts"
proof -
  let ?ids = "map (\<lambda>st. str_of (ps_id st)) sts"
  have id: "ps_id (sts ! j) = VStr (?ids ! j)" if "j < length sts" for j
    using that assms(1) uuid_ok_str by (metis nth_map nth_mem)
  have "(is_id ?ids d \<and> d \<noteq> ps_id (sts ! i) \<and> index_of (str_of d) ?ids \<le> i) \<longleftrightarrow> (\<exists>j<i. d = ps_id (sts ! j))"
    if "i < length sts" for i d
  proof
    assume a: "is_id ?ids d \<and> d \<noteq> ps_id (sts ! i) \<and> index_of (str_of d) ?ids \<le> i"
    then obtain s where s: "d = VStr s" "s \<in> set ?ids" by (cases d) auto
    then obtain j where j: "j < length ?ids" "s = ?ids ! j" by (metis in_set_conv_nth)
    have "index_of s ?ids = j" using index_of_nth[OF assms(2) j(1)] j(2) by simp
    moreover have "d = ps_id (sts ! j)" using id j s by simp
    ultimately show "\<exists>j<i. d = ps_id (sts ! j)" using a s by (metis le_neq_implies_less str_of.simps(1))
  next
    assume "\<exists>j<i. d = ps_id (sts ! j)"
    then obtain j where j: "j < i" "d = ps_id (sts ! j)" by blast
    let ?s = "?ids ! j"
    have len: "j < length ?ids" "i < length ?ids" using j that by simp_all
    have d: "d = VStr ?s" using id j that by (simp del: nth_map)
    have ne: "?s \<noteq> ?ids ! i" using nth_eq_iff_index_eq[OF assms(2) len] j by blast
    have "?s \<in> set ?ids" using len(1) by (rule nth_mem)
    moreover have "VStr ?s \<noteq> ps_id (sts ! i)" using id[OF that] ne by (simp del: nth_map)
    moreover have "index_of ?s ?ids = j" by (rule index_of_nth[OF assms(2) len(1)])
    ultimately show "is_id ?ids d \<and> d \<noteq> ps_id (sts ! i) \<and> index_of (str_of d) ?ids \<le> i"
      unfolding d using j(1) by (simp only: is_id.simps str_of.simps) simp
  qed
  then show ?thesis by (auto simp: validate_deps_ok deps_earlier_def)
qed

lemma distinct_ids:
  assumes "\<forall>st\<in>set sts. uuid_ok (ps_id st)"
  shows "distinct (map (\<lambda>st. str_of (ps_id st)) sts) \<longleftrightarrow> distinct (map ps_id sts)"
proof -
  have "map ps_id sts = map VStr (map (\<lambda>st. str_of (ps_id st)) sts)"
    using assms uuid_ok_str by (simp cong: map_cong)
  then show ?thesis by (metis (no_types, lifting) distinct_map inj_onI pyval.inject(4))
qed

lemma deps_earlier_hashable:
  assumes "deps_earlier sts" "\<forall>st\<in>set sts. uuid_ok (ps_id st)" "st \<in> set sts" "d \<in> set (list_of (ps_depends_on st))"
  shows "py_hashable d"
proof -
  obtain i where "i < length sts" "st = sts ! i" using assms(3) by (metis in_set_conv_nth)
  then obtain j where "j < i" "d = ps_id (sts ! j)" using assms(1,4) by (auto simp: deps_earlier_def)
  then have "uuid_ok d" using assms(2) \<open>i < length sts\<close> by simp
  then show ?thesis by (cases d) (auto simp: py_hashable_def)
qed

lemma validate_retry_ok:
  "validate_retry r = Inr () \<longleftrightarrow> (case r of Inst x \<Rightarrow> retry_schema x | Other v \<Rightarrow> v = VNone)"
  by (cases r) (auto simp: validate_retry_def require_all_ok retry_checks_def retry_schema_def
      split: pyval.splits option.splits)

lemma steps_valid:
  "(validate_steps 0 ss [] = Inr () \<and> validate_deps 0 (steps_of ss) (step_ids ss) = Inr ()) \<longleftrightarrow>
   (\<exists>sts. ss = map Inst sts \<and> (\<forall>st\<in>set sts. step_schema st) \<and> distinct (map ps_id sts) \<and> deps_earlier sts)"
proof
  assume a: "validate_steps 0 ss [] = Inr () \<and> validate_deps 0 (steps_of ss) (step_ids ss) = Inr ()"
  then obtain sts where s: "ss = map Inst sts" "\<forall>st\<in>set sts. step_schema st"
      "distinct (map (\<lambda>st. str_of (ps_id st)) sts)"
    using validate_steps_ok[of "[]" 0 ss] by auto
  have u: "\<forall>st\<in>set sts. uuid_ok (ps_id st)" using s(2) by (simp add: step_schema_def)
  have "deps_earlier sts" using a s deps_ok[OF u s(3)] by simp
  then show "\<exists>sts. ss = map Inst sts \<and> (\<forall>st\<in>set sts. step_schema st) \<and> distinct (map ps_id sts) \<and> deps_earlier sts"
    using s distinct_ids[OF u] by blast
next
  assume "\<exists>sts. ss = map Inst sts \<and> (\<forall>st\<in>set sts. step_schema st) \<and> distinct (map ps_id sts) \<and> deps_earlier sts"
  then obtain sts where s: "ss = map Inst sts" "\<forall>st\<in>set sts. step_schema st"
      "distinct (map ps_id sts)" "deps_earlier sts" by blast
  have u: "\<forall>st\<in>set sts. uuid_ok (ps_id st)" using s(2) by (simp add: step_schema_def)
  have d: "distinct (map (\<lambda>st. str_of (ps_id st)) sts)" using s(3) distinct_ids[OF u] by blast
  have "validate_steps 0 ss [] = Inr ()"
    using validate_steps_ok[of "[]" 0 ss] s(1,2) d deps_earlier_hashable[OF s(4) u] by auto
  moreover have "validate_deps 0 (steps_of ss) (step_ids ss) = Inr ()"
    using deps_ok[OF u d] s(1,4) by simp
  ultimately show "validate_steps 0 ss [] = Inr () \<and> validate_deps 0 (steps_of ss) (step_ids ss) = Inr ()" by blast
qed

lemma validate_plan_schema: "validate_plan (Inst p) = Inr () \<longleftrightarrow> (\<exists>sts. plan_schema p sts)"
proof -
  have header: "require_all (plan_header_checks p) = Inr () \<longleftrightarrow>
      uuid_ok (pl_id p) \<and> int_such (\<lambda>n. n \<ge> 1) (pl_version p) \<and> int_such (\<lambda>n. n > 0) (pl_created_at p) \<and>
      short_string 255 (pl_name p) \<and>
      is_list (pl_context_requirements p) \<and> list_of (pl_context_requirements p) \<noteq> []"
    by (simp add: require_all_ok plan_header_checks_def)
  have opts: "require_all (optional_checks p) = Inr () \<longleftrightarrow>
      as_int (pl_priority p) \<noteq> None \<and> int_such (\<lambda>n. n > 0) (pl_timeout_ms p) \<and> is_dict (pl_metadata p) \<and>
      is_list (pl_tags p) \<and>
      (pl_estimated_duration_ms p = VNone \<or> int_such (\<lambda>n. n > 0) (pl_estimated_duration_ms p))"
    by (simp add: require_all_ok optional_checks_def)
  show ?thesis
  proof (cases "pl_steps p")
    case (Other v)
    then show ?thesis by (simp add: validate_plan_def plan_schema_def)
  next
    case (Inst ss)
    have "validate_plan (Inst p) = Inr () \<longleftrightarrow>
        require_all (plan_header_checks p) = Inr () \<and> 0 < length ss \<and> length ss \<le> 1024 \<and>
        (validate_steps 0 ss [] = Inr () \<and> validate_deps 0 (steps_of ss) (step_ids ss) = Inr ()) \<and>
        validate_retry (pl_retry_policy p) = Inr () \<and> require_all (optional_checks p) = Inr ()"
      using Inst by (auto simp: validate_plan_def)
    then show ?thesis
      unfolding steps_valid header opts validate_retry_ok plan_schema_def Inst by auto
  qed
qed

section \<open>Running the steps\<close>

lemma check_deps_met: "set deps \<subseteq> set completed \<Longrightarrow> check_deps st completed deps sat err = DepDone sat err"
  by (induction deps) auto

lemma execute_steps_all:
  "deps_earlier (pre @ ss) \<Longrightarrow>
   execute_steps ss (map ps_id pre) (int (length pre)) None = (int (length (pre @ ss)), None)"
proof (induction ss arbitrary: pre)
  case Nil
  then show ?case by simp
next
  case (Cons st ss)
  have "set (list_of (ps_depends_on st)) \<subseteq> set (map ps_id pre)"
  proof
    fix d assume "d \<in> set (list_of (ps_depends_on st))"
    moreover have "(pre @ st # ss) ! length pre = st" by simp
    ultimately obtain j where "j < length pre" "d = ps_id ((pre @ st # ss) ! j)"
      using Cons.prems unfolding deps_earlier_def by (metis length_append length_Cons less_add_Suc1 add_Suc_right)
    then show "d \<in> set (map ps_id pre)" by (simp add: nth_append)
  qed
  then show ?case using Cons.IH[of "pre @ [st]"] Cons.prems by (simp add: check_deps_met add.commute)
qed

lemma infer_status_error: "ee_severity e = SevFatal \<Longrightarrow> infer_status (Some e) n k = PFailure"
  by (simp add: infer_status_def)

lemma require_all_fatal:
  assumes "require_all cs = Inl (ExecutionValidationError e)" "\<forall>c\<in>set cs. ee_severity (snd c) = SevFatal"
  shows "ee_severity e = SevFatal"
  using require_all_error[OF assms(1)] assms(2) by auto

lemma and_also_Inl: "and_also a b = Inl x \<Longrightarrow> a = Inl x \<or> (a = Inr () \<and> b = Inl x)"
  by (cases a) auto

lemma fatal_severity [simp]: "ee_severity (fatal_error code msg) = SevFatal"
  by (simp add: fatal_error_def)

lemma validate_steps_fatal:
  "validate_steps idx ss seen = Inl (ExecutionValidationError e) \<Longrightarrow> ee_severity e = SevFatal"
proof (induction idx ss seen rule: validate_steps.induct)
  case (3 idx st ss seen)
  have "require_all (step_checks idx st seen) = Inl (ExecutionValidationError e) \<Longrightarrow> ee_severity e = SevFatal"
    by (erule require_all_fatal) (simp add: step_checks_def)
  moreover have "require_all (step_timeout_checks idx st) = Inl (ExecutionValidationError e) \<Longrightarrow> ee_severity e = SevFatal"
    by (erule require_all_fatal) (simp add: step_timeout_checks_def)
  moreover have "unhashable vs \<noteq> Inl (ExecutionValidationError e)" for vs
    by (simp add: unhashable_def split: option.splits)
  ultimately show ?case using 3 by (auto dest!: and_also_Inl)
qed auto

lemma validate_deps_fatal:
  "validate_deps idx ss ids = Inl (ExecutionValidationError e) \<Longrightarrow> ee_severity e = SevFatal"
proof (induction idx ss ids rule: validate_deps.induct)
  case (2 idx st ss ids)
  have "require_all (concat (map (dependency_checks idx st ids) (list_of (ps_depends_on st)))) =
      Inl (ExecutionValidationError e) \<Longrightarrow> ee_severity e = SevFatal"
    by (erule require_all_fatal) (auto simp: dependency_checks_def)
  then show ?case using 2 by (auto dest!: and_also_Inl)
qed simp

lemma validate_plan_fatal:
  assumes "validate_plan po = Inl (ExecutionValidationError e)"
  shows "ee_severity e = SevFatal"
proof -
  have "require_all (plan_header_checks p) = Inl (ExecutionValidationError e) \<Longrightarrow> ee_severity e = SevFatal" for p
    by (erule require_all_fatal) (simp add: plan_header_checks_def)
  moreover have "require_all (optional_checks p) = Inl (ExecutionValidationError e) \<Longrightarrow> ee_severity e = SevFatal" for p
    by (erule require_all_fatal) (simp add: optional_checks_def)
  moreover have "require_all (retry_checks rp) = Inl (ExecutionValidationError e) \<Longrightarrow> ee_severity e = SevFatal" for rp
    by (erule require_all_fatal) (simp add: retry_checks_def)
  then have "validate_retry r = Inl (ExecutionValidationError e) \<Longrightarrow> ee_severity e = SevFatal" for r
    by (cases r) (auto simp: validate_retry_def split: pyval.splits)
  ultimately show ?thesis using assms
    by (auto simp: validate_plan_def steps_error_def validate_steps_fatal validate_deps_fatal
        split: obj.splits if_splits dest!: and_also_Inl)
qed

section \<open>A plan\<close>

definition demo_step :: "string \<Rightarrow> pyval list \<Rightarrow> plan_step" where
  "demo_step i deps = \<lparr>ps_id = VStr i, ps_action = VStr ''notify'', ps_payload = VDict [],
     ps_depends_on = VList deps, ps_on_failure = VStr ''halt'', ps_timeout_ms = VNone\<rparr>"

definition id1 :: string where "id1 = ''11111111-1111-1111-8111-111111111111''"
definition id2 :: string where "id2 = ''22222222-2222-4222-8222-222222222222''"

definition demo_plan :: plan where
  "demo_plan = \<lparr>pl_id = VStr id1, pl_version = VInt 1, pl_created_at = VInt 5,
     pl_steps = Inst (map Inst [demo_step id1 [], demo_step id2 [VStr id1]]), pl_name = VStr ''demo'',
     pl_context_requirements = VList [VStr ''symbol''], pl_priority = VInt 0, pl_timeout_ms = VInt 300000,
     pl_retry_policy = Other VNone, pl_metadata = VDict [], pl_tags = VList [],
     pl_estimated_duration_ms = VNone\<rparr>"

definition demo_context :: exec_context where
  "demo_context = \<lparr>cx_plan = Inst demo_plan, cx_execution_id = VStr id2, cx_started_at = VInt 10,
     cx_deadline_ms = VInt 400000, cx_environment = VDict [(''symbol'', VStr ''EURUSD'')],
     cx_parent_execution_id = VNone, cx_user_id = VNone, cx_request_id = VNone,
     cx_correlation_context = VNone\<rparr>"

lemma demo_valid: "validate_plan (Inst demo_plan) = Inr ()"
  by code_simp

lemma demo_context_valid: "validate_context (Inst demo_context) = Inr ()"
  by code_simp

section \<open>Properties\<close>

text \<open>C24: the validation accepts exactly the plans of the schema: the typed and
  bounded fields of the contract, between 1 and 1024 steps with distinct ids, every dependency
  the id of an earlier step, and a well-formed or absent retry policy. (The ids must only parse
  as UUIDs: the id of the plan of the second part has version 1 and is accepted.)\<close>

theorem validate_plan_exact:
  "(validate_plan po = Inr () \<longleftrightarrow> (\<exists>p sts. po = Inst p \<and> plan_schema p sts)) \<and>
   validate_plan (Inst demo_plan) = Inr () \<and> uuid_hex (str_of (pl_id demo_plan)) ! 12 = CHR ''1''"
proof -
  have "uuid_hex (str_of (pl_id demo_plan)) ! 12 = CHR ''1''" by code_simp
  moreover have "validate_plan po = Inr () \<longleftrightarrow> (\<exists>p sts. po = Inst p \<and> plan_schema p sts)"
    by (cases po) (simp_all add: validate_plan_schema, simp add: validate_plan_def)
  ultimately show ?thesis using demo_valid by simp
qed

text \<open>On a plan that the validation accepts, the loop over the steps executes
  every step, for the dependencies of a step are complete when it is reached: no branch for an
  unmet dependency is taken, there is no error, and the result is a success with as many steps
  executed as the plan has.\<close>

theorem valid_plan_would_complete:
  assumes "validate_plan (Inst p) = Inr ()" "as_number (cx_started_at c) = Some t"
  shows "\<exists>r sts. pl_steps p = Inst (map Inst sts) \<and>
    execute_steps sts [] 0 None = (int (length sts), None) \<and>
    execute_after_validation now (Inst p) (Inst c) = Inr r \<and> pr_status r = PSuccess \<and>
    pr_steps_executed r = int (length sts) \<and> pr_steps_total r = int (length sts) \<and>
    pr_error r = None \<and> pr_duration_ms r = of_int now - t"
proof -
  obtain sts where s: "plan_schema p sts" using assms(1) validate_plan_schema by blast
  then have steps: "pl_steps p = Inst (map Inst sts)" and d: "deps_earlier sts"
    by (simp_all add: plan_schema_def)
  have run: "execute_steps sts [] 0 None = (int (length sts), None)"
    using execute_steps_all[of "[]" sts] d by simp
  let ?r = "\<lparr>pr_plan_id = pl_id p, pr_execution_id = cx_execution_id c, pr_status = PSuccess,
      pr_completed_at = now, pr_duration_ms = of_int now - t, pr_steps_executed = int (length sts),
      pr_steps_total = int (length sts), pr_result_payload = [], pr_error = None\<rparr>"
  have "execute_after_validation now (Inst p) (Inst c) = Inr ?r"
    by (simp add: steps execute_after_validation_def run build_plan_result_def assms(2) infer_status_def)
  then show ?thesis
    using steps run by (intro exI[of _ ?r] exI[of _ sts]) simp
qed

theorem valid_plan_would_complete_witness:
  "\<exists>r. execute_after_validation 60 (Inst demo_plan) (Inst demo_context) = Inr r \<and>
     pr_status r = PSuccess \<and> pr_steps_executed r = 2"
proof -
  have "as_number (cx_started_at demo_context) = Some 10" by (simp add: demo_context_def)
  from valid_plan_would_complete[OF demo_valid this, of 60]
  show ?thesis by (auto simp: demo_plan_def map_eq_Cons_conv)
qed

text \<open>C23: the executor calls the validation of the context with one argument too
  many, so a plan that passes its own validation is never executed: \<open>execute\<close> raises a \<open>TypeError\<close>
  whatever the context, the orchestrator answers the empty dictionary, and an event that asks for
  the plan is reported as accepted. Every result that does come back is a failure with no step
  executed.\<close>

theorem valid_plan_never_executes:
  assumes "validate_plan (cx_plan c) = Inr ()"
  shows "(\<exists>msg. execute_plan now (Inst c) = Inl (PyError (TypeError msg))) \<and>
    execute_plan_if_enabled True now pa (CtxObj (Inst c)) = None \<and>
    pv_status (handle_plan_execution True now (Some pa) (Some (CtxObj (Inst c)))) = ''accepted'' \<and>
    pv_plan_result (handle_plan_execution True now (Some pa) (Some (CtxObj (Inst c)))) = None \<and>
    (\<forall>enabled pa2 ca r. execute_plan_if_enabled enabled now pa2 ca = Some r \<longrightarrow>
       pr_status r = PFailure \<and> pr_steps_executed r = 0)"
proof -
  have raises: "\<exists>msg. execute_plan now (Inst c) = Inl (PyError (TypeError msg))"
    using assms by (simp add: execute_plan_def execute_plan_obj_def call_validate_context_def)
  then have none: "execute_plan_if_enabled True now pa (CtxObj (Inst c)) = None"
    by (auto simp: execute_plan_if_enabled_def)
  have fatal: "pr_status r = PFailure \<and> pr_steps_executed r = 0"
    if r: "execute_plan_obj now po co = Inr r" for po co r
  proof -
    obtain e where e: "build_plan_result now po co 0 (Some e) = Inr r" "validate_plan po = Inl (ExecutionValidationError e)"
      using r by (auto simp: execute_plan_obj_def call_validate_context_def split: sum.splits exec_exn.splits)
    have "ee_severity e = SevFatal" by (rule validate_plan_fatal[OF e(2)])
    then show ?thesis using e(1)
      by (auto simp: build_plan_result_def infer_status_error attribute_error_def type_error_def
          split: obj.splits option.splits)
  qed
  then have "pr_status r = PFailure \<and> pr_steps_executed r = 0"
    if "execute_plan_if_enabled enabled now pa2 ca = Some r" for enabled pa2 ca r
    using that
    by (auto simp: execute_plan_if_enabled_def execute_plan_def attribute_error_def
        split: if_splits sum.splits obj.splits)
  then show ?thesis using raises none by (simp add: handle_plan_execution_def)
qed

theorem valid_plan_never_executes_witness:
  "validate_context (Inst demo_context) = Inr () \<and>
   pv_status (handle_plan_execution True 60 (Some (PlanObj (Inst demo_plan))) (Some (CtxObj (Inst demo_context)))) =
     ''accepted'' \<and>
   execute_plan_if_enabled True 60 (PlanObj (Inst demo_plan)) (CtxObj (Inst demo_context)) = None"
proof -
  have "validate_plan (cx_plan demo_context) = Inr ()"
    using demo_valid by (simp add: demo_context_def)
  from valid_plan_never_executes[OF this, of 60 "PlanObj (Inst demo_plan)"] demo_context_valid
  show ?thesis by blast
qed

end
