(* ===== verification/Plan_Graph.thy ===== *)
theory Plan_Graph
  imports Plan_Contract
begin

text \<open>
  \<open>reasoner_service/plan_executor.py\<close>: the executor that walks a graph of steps, retries a failing
  step and follows its transition on success or failure.

  A plan is the string of its start and the dictionary of its steps. The entries of a step are
  those the executor reads; \<open>retries\<close> is an integer, absent entries have the source's defaults
  and the delays are numbers. What a step calls (the reasoner, \<open>eval\<close>, \<open>str.format\<close> and the
  notifier) is a parameter; calls are numbered, for two calls with the same arguments may answer
  differently. The loop may run forever: it is a partial function, \<open>None\<close> when it does not
  return.
\<close>

section \<open>Steps and the environment\<close>

record graph_step =
  gr_type :: pyval
  gr_spec :: pydict
  gr_retries :: int
  gr_on_success :: pyval
  gr_on_failure :: pyval

record graph_env =
  ge_call_ai :: "nat \<Rightarrow> pyval \<Rightarrow> py_error + pyval"
  ge_eval :: "string \<Rightarrow> (string \<times> pyval) list \<Rightarrow> py_error + pyval"
  ge_format :: "pyval \<Rightarrow> (string \<times> pyval) list \<Rightarrow> py_error + pyval"
  ge_notify :: "nat \<Rightarrow> pyval \<Rightarrow> pyval \<Rightarrow> py_error + unit"

record graph_state =
  gx_results :: "(string \<times> pyval) list"
  gx_attempts :: nat
  gx_dlq :: "(graph_step \<times> py_error) list"

section \<open>Flattened results\<close>

text \<open>\<open>s.replace('.', '][')\<close> and the two keys of a leaf.\<close>

definition bracketed :: "string \<Rightarrow> string" where
  "bracketed s = concat (map (\<lambda>c. if c = CHR ''.'' then '']['' else [c]) s)"

definition leaf_keys :: "string \<Rightarrow> string list" where
  "leaf_keys p =
    [if take 7 p = ''results'' then p else ''results.'' @ p, ''results['' @ bracketed p @ '']'']"

fun flatten_value :: "string \<Rightarrow> pyval \<Rightarrow> (string \<times> pyval) list \<Rightarrow> (string \<times> pyval) list"
and flatten_entries :: "string \<Rightarrow> (string \<times> pyval) list \<Rightarrow> (string \<times> pyval) list \<Rightarrow> (string \<times> pyval) list" where
  "flatten_value p (VDict d) flat = flatten_entries p d flat"
| "flatten_value p v flat = fold (\<lambda>k f. AList.update k v f) (leaf_keys p) flat"
| "flatten_entries p [] flat = flat"
| "flatten_entries p ((k, v) # d) flat =
     flatten_entries p d (flatten_value (if p = [] then k else p @ ''.'' @ k) v flat)"

definition flatten_results :: "(string \<times> pyval) list \<Rightarrow> (string \<times> pyval) list" where
  "flatten_results results =
     AList.update ''results'' (VDict results)
       (fold (\<lambda>(sid, v) flat. flatten_value sid v flat) results [])"

section \<open>One step\<close>

text \<open>The test before \<open>eval\<close>: no double underscore, and only the characters of the class.\<close>

fun has_dunder :: "string \<Rightarrow> bool" where
  "has_dunder (c # d # cs) = ((c = CHR ''_'' \<and> d = CHR ''_'') \<or> has_dunder (d # cs))"
| "has_dunder _ = False"

definition allowed_char :: "char \<Rightarrow> bool" where
  "allowed_char c \<longleftrightarrow>
     c \<in> set ''ABCDEFGHIJKLMNOPQRSTUVWXYZabcdefghijklmnopqrstuvwxyz0123456789_ .[]()<>=!&|''
     \<or> c = CHR 0x27 \<or> c = CHR 0x22"

definition expr_safe :: "string \<Rightarrow> bool" where
  "expr_safe expr \<longleftrightarrow> \<not> has_dunder expr \<and> (\<forall>c\<in>set expr. allowed_char c)"

definition lookup_spec :: "string \<Rightarrow> graph_step \<Rightarrow> py_error + pyval" where
  "lookup_spec k st = (case map_of (gr_spec st) k of None \<Rightarrow> Inl (KeyError k) | Some v \<Rightarrow> Inr v)"

definition run_step :: "graph_env \<Rightarrow> graph_step \<Rightarrow> graph_state \<Rightarrow> py_error + pyval" where
  "run_step env st s =
     (if gr_type st = VStr ''call_ai'' then
        (case lookup_spec ''prompt'' st of
           Inl e \<Rightarrow> Inl e
         | Inr prompt \<Rightarrow> ge_call_ai env (gx_attempts s) prompt)
      else if gr_type st = VStr ''eval'' then
        (case dget ''expr'' (gr_spec st) (VStr []) of
           VStr expr \<Rightarrow>
             if \<not> expr_safe expr then Inl (ValueError [T ''Unsafe eval expression''])
             else ge_eval env expr (gx_results s)
         | _ \<Rightarrow> Inl (TypeError []))
      else if gr_type st = VStr ''notify'' then
        (case lookup_spec ''channel'' st of
           Inl e \<Rightarrow> Inl e
         | Inr channel \<Rightarrow>
            (case lookup_spec ''payload'' st of
               Inl e \<Rightarrow> Inl e
             | Inr template \<Rightarrow>
                (case ge_format env template (flatten_results (gx_results s)) of
                   Inl _ \<Rightarrow> Inl (Raised ''RuntimeError'')
                 | Inr rendered \<Rightarrow>
                    (case ge_notify env (gx_attempts s) channel rendered of
                       Inl e \<Rightarrow> Inl e
                     | Inr _ \<Rightarrow> Inr (VDict [(''ok'', VBool True)])))))
      else if gr_type st = VStr ''wait'' then
        (case as_number (dget ''seconds'' (gr_spec st) (VInt 1)) of
           None \<Rightarrow> Inl (TypeError [])
         | Some _ \<Rightarrow> Inr (VDict [(''waited'', VBool True)]))
      else Inl (ValueError [T ''unknown step type: '', PV (gr_type st)]))"

text \<open>
  The inner loop, by the number of attempts left. The result is kept under the id of the step;
  the last failure ends the loop.
\<close>

datatype attempt_outcome = NotTried | Succeeded | Exhausted py_error

fun attempts :: "graph_env \<Rightarrow> graph_step \<Rightarrow> string \<Rightarrow> nat \<Rightarrow> graph_state \<Rightarrow> attempt_outcome \<times> graph_state" where
  "attempts env st sid 0 s = (NotTried, s)"
| "attempts env st sid (Suc n) s =
     (let s1 = s\<lparr>gx_attempts := gx_attempts s + 1\<rparr> in
      case run_step env st s of
        Inr v \<Rightarrow> (Succeeded, s1\<lparr>gx_results := AList.update sid v (gx_results s1)\<rparr>)
      | Inl e \<Rightarrow> if n > 0 then attempts env st sid n s1 else (Exhausted e, s1))"

section \<open>The walk\<close>

text \<open>\<open>_handle_failure_to_dlq\<close> publishes once and swallows every exception of the publisher.\<close>

definition handle_failure_to_dlq :: "graph_step \<Rightarrow> py_error \<Rightarrow> graph_state \<Rightarrow> graph_state" where
  "handle_failure_to_dlq st e s = s\<lparr>gx_dlq := gx_dlq s @ [(st, e)]\<rparr>"

partial_function (option) walk ::
    "graph_env \<Rightarrow> (string \<times> graph_step) list \<Rightarrow> pyval \<Rightarrow> graph_state \<Rightarrow> ((py_error + unit) \<times> graph_state) option" where
  "walk env steps current s =
     (if \<not> truthy current then Some (Inr (), s)
      else if \<not> py_hashable current then Some (Inl (TypeError [T ''unhashable type'']), s)
      else (case current of
              VStr sid \<Rightarrow>
                (case map_of steps sid of
                   None \<Rightarrow> Some (Inr (), s)
                 | Some st \<Rightarrow>
                    (case attempts env st sid (nat (gr_retries st)) s of
                       (NotTried, s1) \<Rightarrow> walk env steps current s1
                     | (Succeeded, s1) \<Rightarrow> walk env steps (gr_on_success st) s1
                     | (Exhausted e, s1) \<Rightarrow>
                         if truthy (gr_on_failure st) then walk env steps (gr_on_failure st) s1
                         else Some (Inr (), handle_failure_to_dlq st e s1)))
            | _ \<Rightarrow> Some (Inr (), s)))"

text \<open>\<open>run_plan\<close> first checks the shape of the plan: a start that is a string and a dictionary of
  steps.\<close>

datatype graph_plan = GraphPlan "pyval option" "(string \<times> graph_step) list option" | NotADict

definition run_plan :: "graph_env \<Rightarrow> graph_plan \<Rightarrow> graph_state \<Rightarrow> ((py_error + unit) \<times> graph_state) option" where
  "run_plan env plan s =
     (case plan of
        NotADict \<Rightarrow> Some (Inl (ValueError [T ''plan must be a dict'']), s)
      | GraphPlan start steps \<Rightarrow>
         (case start of
            Some (VStr sid) \<Rightarrow>
              (case steps of
                 None \<Rightarrow> Some (Inl (ValueError [T ''plan must contain a steps dict mapping step_id -> step'']), s)
               | Some ss \<Rightarrow> walk env ss (VStr sid) s)
          | _ \<Rightarrow> Some (Inl (ValueError [T ''plan must contain a start string'']), s)))"

definition graph_start :: graph_state where
  "graph_start = \<lparr>gx_results = [], gx_attempts = 0, gx_dlq = []\<rparr>"

section \<open>Lemmas on the attempts\<close>

lemma attempts_all:
  "attempts env st sid n s = (r, s1) \<Longrightarrow>
   gx_attempts s1 \<le> gx_attempts s + n \<and> gx_dlq s1 = gx_dlq s \<and> (n > 0 \<longrightarrow> r \<noteq> NotTried) \<and>
   set (map fst (gx_results s1)) \<subseteq> insert sid (set (map fst (gx_results s)))"
proof (induction n arbitrary: s)
  case 0
  then show ?case by auto
next
  case (Suc n)
  let ?s = "s\<lparr>gx_attempts := gx_attempts s + 1\<rparr>"
  show ?case
  proof (cases "run_step env st s")
    case (Inr v)
    have "set (map fst (AList.update sid v (gx_results s))) \<subseteq> insert sid (set (map fst (gx_results s)))"
      by (simp only: update_keys) auto
    moreover have "r = Succeeded" "s1 = ?s\<lparr>gx_results := AList.update sid v (gx_results s)\<rparr>"
      using Suc.prems Inr by (simp_all add: Let_def)
    ultimately show ?thesis by (simp del: set_map)
  next
    case (Inl e)
    show ?thesis
    proof (cases "n > 0")
      case True
      then have "attempts env st sid n ?s = (r, s1)" using Suc.prems Inl by (simp add: Let_def)
      from Suc.IH[OF this] True show ?thesis by simp
    next
      case False
      then show ?thesis using Suc.prems Inl by (auto simp: Let_def)
    qed
  qed
qed

lemma attempts_count:
  assumes "attempts env st sid n s = (r, s1)"
  shows "gx_attempts s1 \<le> gx_attempts s + n" "gx_dlq s1 = gx_dlq s" "n > 0 \<Longrightarrow> r \<noteq> NotTried"
    "set (map fst (gx_results s1)) \<subseteq> insert sid (set (map fst (gx_results s)))"
  using attempts_all[OF assms] by blast+

lemma walk_stop: "\<not> truthy current \<Longrightarrow> walk env steps current s = Some (Inr (), s)"
  by (subst walk.simps) simp

text \<open>
  A rank of the steps that every transition to a step decreases: then the walk returns, and it
  makes at most as many attempts as the longest way down allows.
\<close>

definition target :: "(string \<times> graph_step) list \<Rightarrow> pyval \<Rightarrow> string \<Rightarrow> bool" where
  "target steps v sid \<longleftrightarrow> v = VStr sid \<and> map_of steps sid \<noteq> None"

definition ranked :: "(string \<Rightarrow> nat) \<Rightarrow> (string \<times> graph_step) list \<Rightarrow> bool" where
  "ranked rank steps \<longleftrightarrow>
     (\<forall>sid st t. map_of steps sid = Some st \<and> (target steps (gr_on_success st) t \<or> target steps (gr_on_failure st) t)
        \<longrightarrow> rank t < rank sid)"

lemma walk_no_target:
  assumes "\<forall>sid. \<not> target steps v sid"
  shows "\<exists>r. walk env steps v s = Some (r, s)"
proof (cases v)
  case (VStr sid)
  then show ?thesis using assms
    by (subst walk.simps) (auto simp: target_def split: option.splits)
qed (subst walk.simps, simp)+

lemma walk_returns:
  assumes "ranked rank steps" "\<forall>sid st. map_of steps sid = Some st \<longrightarrow> 1 \<le> gr_retries st \<and> gr_retries st \<le> int m"
  shows "\<exists>r s1. walk env steps (VStr sid) s = Some (r, s1) \<and>
    gx_attempts s1 \<le> gx_attempts s + m * (rank sid + 1) \<and> length (gx_dlq s1) \<le> length (gx_dlq s) + 1"
proof (induction "rank sid" arbitrary: sid s rule: less_induct)
  case less
  show ?case
  proof (cases "map_of steps sid")
    case None
    then obtain r where "walk env steps (VStr sid) s = Some (r, s)"
      using walk_no_target[of steps "VStr sid"] by (auto simp: target_def)
    then show ?thesis by auto
  next
    case (Some st)
    show ?thesis
    proof (cases "sid = []")
      case True
      then show ?thesis by (simp add: walk_stop)
    next
      case nonempty: False
      obtain o1 s1 where a: "attempts env st sid (nat (gr_retries st)) s = (o1, s1)" by fastforce
      have pos: "nat (gr_retries st) > 0" "nat (gr_retries st) \<le> m" using assms(2) Some by force+
      have s1: "gx_attempts s1 \<le> gx_attempts s + m" "gx_dlq s1 = gx_dlq s" "o1 \<noteq> NotTried"
        using attempts_count(1-3)[OF a] pos by auto
      have next_step: "\<exists>r s2. walk env steps v s1 = Some (r, s2) \<and>
          gx_attempts s2 \<le> gx_attempts s + m * (rank sid + 1) \<and> length (gx_dlq s2) \<le> length (gx_dlq s) + 1"
        if v: "v = gr_on_success st \<or> v = gr_on_failure st" for v
      proof (cases "\<exists>t. target steps v t")
        case True
        then obtain t where t: "target steps v t" by blast
        have lt: "rank t < rank sid" using assms(1) Some v t unfolding ranked_def by blast
        then have le: "m * (rank t + 1) + m \<le> m * (rank sid + 1)"
          by (metis Suc_eq_plus1 Suc_le_mono add.commute less_eq_Suc_le mult_Suc_right mult_le_mono2)
        have "v = VStr t" using t by (simp add: target_def)
        with less[OF lt, of s1] s1 le show ?thesis by fastforce
      next
        case False
        then obtain r where "walk env steps v s1 = Some (r, s1)" using walk_no_target by blast
        then show ?thesis using s1 by auto
      qed
      have unfold: "walk env steps (VStr sid) s =
          (case (o1, s1) of
             (NotTried, s1) \<Rightarrow> walk env steps (VStr sid) s1
           | (Succeeded, s1) \<Rightarrow> walk env steps (gr_on_success st) s1
           | (Exhausted e, s1) \<Rightarrow>
               if truthy (gr_on_failure st) then walk env steps (gr_on_failure st) s1
               else Some (Inr (), handle_failure_to_dlq st e s1))"
        using nonempty Some a by (subst walk.simps) (simp add: py_hashable_def)
      show ?thesis
      proof (cases o1)
        case NotTried
        then show ?thesis using s1(3) by simp
      next
        case Succeeded
        then show ?thesis using next_step[of "gr_on_success st"] unfold by simp
      next
        case (Exhausted e)
        have "gx_attempts s1 \<le> gx_attempts s + m * (rank sid + 1)" using s1(1) by (simp add: trans_le_add1)
        then show ?thesis
          using Exhausted next_step[of "gr_on_failure st"] unfold s1(2)
          by (cases "truthy (gr_on_failure st)") (simp_all add: handle_failure_to_dlq_def)
      qed
    qed
  qed
qed

text \<open>A step without attempts is entered again and again.\<close>

lemma walk_stuck:
  assumes "map_of steps sid = Some st" "sid \<noteq> []" "gr_retries st \<le> 0"
  shows "walk env steps (VStr sid) s = None"
proof -
  have "ss = steps \<longrightarrow> current = VStr sid \<longrightarrow> False"
    if "walk env' ss current s = Some y" for env' ss current s y
  proof (rule walk.raw_induct
      [where P = "\<lambda>env' ss current s y. ss = steps \<longrightarrow> current = VStr sid \<longrightarrow> False", OF _ that])
    fix loop env' ss current s y
    assume IH: "\<And>env' ss current s y. loop env' ss current s = Some y \<Longrightarrow> ss = steps \<longrightarrow> current = VStr sid \<longrightarrow> False"
      and eq: "(if \<not> truthy current then Some (Inr (), s)
        else if \<not> py_hashable current then Some (Inl (TypeError [T ''unhashable type'']), s)
        else (case current of
              VStr sid \<Rightarrow>
                (case map_of ss sid of
                   None \<Rightarrow> Some (Inr (), s)
                 | Some st \<Rightarrow>
                    (case attempts env' st sid (nat (gr_retries st)) s of
                       (NotTried, s1) \<Rightarrow> loop env' ss current s1
                     | (Succeeded, s1) \<Rightarrow> loop env' ss (gr_on_success st) s1
                     | (Exhausted e, s1) \<Rightarrow>
                         if truthy (gr_on_failure st) then loop env' ss (gr_on_failure st) s1
                         else Some (Inr (), handle_failure_to_dlq st e s1)))
            | _ \<Rightarrow> Some (Inr (), s))) = Some y"
    show "ss = steps \<longrightarrow> current = VStr sid \<longrightarrow> False"
    proof (intro impI)
      assume c: "ss = steps" "current = VStr sid"
      have "loop env' ss current s = Some y"
        using eq assms c by (simp add: py_hashable_def)
      then show False using IH c by blast
    qed
  qed
  then show ?thesis by (metis not_None_eq)
qed

section \<open>Properties\<close>

text \<open>C25: when every step may be tried at least once and there is a rank that each
  transition to a step of the plan decreases, \<open>run_plan\<close> returns for every behaviour of the
  reasoner, the evaluator and the notifier; it makes at most \<open>m\<close> attempts per rank below the start,
  and publishes to the dead-letter queue at most once.\<close>

theorem run_plan_returns:
  assumes "ranked rank steps" "\<forall>sid st. map_of steps sid = Some st \<longrightarrow> 1 \<le> gr_retries st \<and> gr_retries st \<le> int m"
  shows "\<exists>r s1. run_plan env (GraphPlan (Some (VStr start)) (Some steps)) s = Some (r, s1) \<and>
    gx_attempts s1 \<le> gx_attempts s + m * (rank start + 1) \<and> length (gx_dlq s1) \<le> length (gx_dlq s) + 1"
  using walk_returns[OF assms] by (simp add: run_plan_def)

definition wait_step :: "int \<Rightarrow> pyval \<Rightarrow> pyval \<Rightarrow> graph_step" where
  "wait_step retries on_success on_failure =
    \<lparr>gr_type = VStr ''wait'', gr_spec = [], gr_retries = retries, gr_on_success = on_success,
     gr_on_failure = on_failure\<rparr>"

definition failing_env :: graph_env where
  "failing_env = \<lparr>ge_call_ai = (\<lambda>_ _. Inl OSError), ge_eval = (\<lambda>_ _. Inl OSError),
     ge_format = (\<lambda>_ _. Inl OSError), ge_notify = (\<lambda>_ _ _. Inl OSError)\<rparr>"

definition two_steps :: "(string \<times> graph_step) list" where
  "two_steps =
    [(''a'', wait_step 1 (VStr ''b'') VNone),
     (''b'', \<lparr>gr_type = VStr ''eval'', gr_spec = [(''expr'', VStr ''1 + 1'')], gr_retries = 2,
             gr_on_success = VNone, gr_on_failure = VNone\<rparr>)]"

theorem run_plan_returns_witness:
  "\<exists>r s1. run_plan failing_env (GraphPlan (Some (VStr ''a'')) (Some two_steps)) graph_start = Some (r, s1) \<and>
     gx_attempts s1 \<le> 4 \<and> length (gx_dlq s1) \<le> 1"
proof -
  let ?rank = "\<lambda>sid. if sid = ''a'' then 1 else (0::nat)"
  have "ranked ?rank two_steps"
    by (auto simp: ranked_def two_steps_def target_def wait_step_def split: if_splits)
  moreover have "\<forall>sid st. map_of two_steps sid = Some st \<longrightarrow> 1 \<le> gr_retries st \<and> gr_retries st \<le> int 2"
    by (simp add: two_steps_def wait_step_def)
  ultimately show ?thesis
    using run_plan_returns[of ?rank two_steps 2 failing_env "''a''" graph_start]
    by (simp add: graph_start_def)
qed

text \<open>A plan whose start is a step with \<open>retries\<close> 0 (or less) never returns: the
  step is neither tried nor failed, \<open>current\<close> stays where it is, and the outer loop goes on for
  ever, whatever the environment.\<close>

theorem zero_retries_diverge:
  assumes "map_of steps start = Some st" "start \<noteq> []" "gr_retries st \<le> 0"
  shows "run_plan env (GraphPlan (Some (VStr start)) (Some steps)) s = None"
  using walk_stuck[OF assms] by (simp add: run_plan_def)

theorem zero_retries_diverge_witness:
  "run_plan failing_env (GraphPlan (Some (VStr ''a'')) (Some [(''a'', wait_step 0 VNone VNone)])) graph_start = None"
  by (rule zero_retries_diverge[where st = "wait_step 0 VNone VNone"]) (simp_all add: wait_step_def)

end
