(* ===== verification/Counterfactual.thy ===== *)
theory Counterfactual
  imports Timeline Py_Values
begin

text \<open>
  \<open>reasoner_service/counterfactual_enforcement_simulator.py\<close>: what a decision's timeline would have
  earned had the governance rules been enforced.

  The simulator reads the timeline service (the model of \<open>Timeline\<close>) and nothing else; the
  governance and analytics services it is given are never called. Every method catches its
  exceptions: a simulation is a result or an error, the helpers fall back to neutral values.
  Numbers in the explanations are kept as values.
\<close>

section \<open>Results\<close>

record cf_scan =
  sc_trades :: "tl_event list"
  sc_outcomes :: "tl_event list"
  sc_pnl :: rat
  sc_allowed :: bool
  sc_violated :: "pyval list"

record cf_result =
  cf_correlation_id :: string
  cf_original_pnl :: rat
  cf_trades_executed :: int
  cf_outcomes_recorded :: int
  cf_allowed :: bool
  cf_violated_rules :: "pyval list"
  cf_counterfactual_pnl :: rat
  cf_pnl_difference :: rat
  cf_trades_blocked :: int
  cf_dd_original :: rat
  cf_dd_counterfactual :: rat
  cf_dd_improvement :: rat
  cf_rule_impact :: "(string \<times> int) list"
  cf_explanation :: fstring
  cf_simulated_at :: time

datatype simulation = SimOk cf_result | SimError py_error

definition empty_result :: "string \<Rightarrow> time \<Rightarrow> cf_result" where
  "empty_result cid now =
    \<lparr>cf_correlation_id = cid, cf_original_pnl = 0, cf_trades_executed = 0, cf_outcomes_recorded = 0,
     cf_allowed = True, cf_violated_rules = [], cf_counterfactual_pnl = 0, cf_pnl_difference = 0,
     cf_trades_blocked = 0, cf_dd_original = 0, cf_dd_counterfactual = 0, cf_dd_improvement = 0,
     cf_rule_impact = [], cf_explanation = [], cf_simulated_at = now\<rparr>"

section \<open>Helpers\<close>

definition cf_pnl :: "tl_event \<Rightarrow> pyval" where
  "cf_pnl e = dget ''pnl'' (te_payload e) (VFloat 0)"

definition pnl_number :: "tl_event \<Rightarrow> rat" where
  "pnl_number e = (case as_number (cf_pnl e) of None \<Rightarrow> 0 | Some x \<Rightarrow> x)"

text \<open>The sum of the losing profits: comparing a value that is not a number with 0 raises.\<close>

fun losing_pnl :: "tl_event list \<Rightarrow> rat option" where
  "losing_pnl [] = Some 0"
| "losing_pnl (e # es) =
     (case as_number (cf_pnl e) of
        None \<Rightarrow> None
      | Some x \<Rightarrow> map_option (\<lambda>s. (if x < 0 then x else 0) + s) (losing_pnl es))"

definition simulate_blocked_trades ::
    "tl_event list \<Rightarrow> tl_event list \<Rightarrow> rat \<Rightarrow> rat \<times> int" where
  "simulate_blocked_trades trade_events outcome_events original_pnl =
     (if trade_events = [] \<or> outcome_events = [] then (original_pnl, 0)
      else case losing_pnl outcome_events of
        None \<Rightarrow> (original_pnl, 0)
      | Some losing \<Rightarrow>
          (original_pnl - losing * (1/2),
           max 0 (py_trunc (of_nat (length outcome_events) * (3/10)))))"

text \<open>One round of the drawdown loops: the cumulated profit, its peak, the largest drawdown.\<close>

definition dd_step :: "rat \<Rightarrow> rat \<times> rat \<times> rat \<Rightarrow> rat \<times> rat \<times> rat" where
  "dd_step x st =
     (case st of (cumulative, peak, dd) \<Rightarrow>
       (let cumulative = cumulative + x;
            peak = (if cumulative > peak then cumulative else peak)
        in (cumulative, peak, max dd (peak - cumulative))))"

definition max_drawdown :: "rat list \<Rightarrow> rat" where
  "max_drawdown xs = (case fold dd_step xs (0, 0, 0) of (_, _, dd) \<Rightarrow> dd)"

definition simulate_drawdown :: "tl_event list \<Rightarrow> rat \<times> rat" where
  "simulate_drawdown outcome_events =
     (if outcome_events = [] then (0, 0)
      else (max_drawdown (map pnl_number outcome_events),
            max_drawdown (map (\<lambda>e. if pnl_number e > 0 then pnl_number e else 0) outcome_events)))"

definition rule_impact_frequency :: "pyval list \<Rightarrow> (string \<times> int) list" where
  "rule_impact_frequency rules =
     fold (\<lambda>r counts. case r of VStr s \<Rightarrow> bump s counts | _ \<Rightarrow> counts) rules []"

section \<open>One simulation\<close>

fun scan_events :: "tl_event list \<Rightarrow> cf_scan \<Rightarrow> py_error + cf_scan" where
  "scan_events [] s = Inr s"
| "scan_events (e # es) s =
     (if te_event_type e = ''TRADE_EXECUTED'' then
        scan_events es (s\<lparr>sc_trades := sc_trades s @ [e]\<rparr>)
      else if te_event_type e = ''OUTCOME_RECORDED'' then
        scan_events es (s\<lparr>sc_outcomes := sc_outcomes s @ [e], sc_pnl := sc_pnl s + pnl_number e\<rparr>)
      else if te_event_type e = ''GOVERNANCE_EVALUATED'' then
        (let violations = dget ''violations'' (te_payload e) (VList []) in
         if truthy violations then
           (case iterate violations of
              None \<Rightarrow> Inl (TypeError [T ''object is not iterable''])
            | Some vs \<Rightarrow> scan_events es (s\<lparr>sc_allowed := False, sc_violated := sc_violated s @ vs\<rparr>))
         else scan_events es s)
      else scan_events es s)"

text \<open>\<open>', '.join(rules)\<close> raises unless every element is a string.\<close>

definition join_rules :: "pyval list \<Rightarrow> py_error + fstring" where
  "join_rules rules =
     (if list_all is_str rules then Inr (join_parts [T '', ''] (map (\<lambda>r. [T (str_of r)]) rules))
      else Inl (TypeError [T ''sequence item: expected str instance'']))"

definition explain :: "cf_result \<Rightarrow> py_error + fstring" where
  "explain r =
     (let n = int (length (cf_violated_rules r));
          lead = [T ''Trade '', T (cf_correlation_id r), T '' violated '', I n] in
      if cf_allowed r then
        Inr [T ''Trade '', T (cf_correlation_id r),
             T '' would have been allowed under governance rules. Original PnL: '', F (cf_original_pnl r),
             T ''. No counterfactual blocking applied.'']
      else if cf_pnl_difference r > 0 then
        (case join_rules (cf_violated_rules r) of
           Inl x \<Rightarrow> Inl x
         | Inr rules \<Rightarrow>
             Inr (lead @ [T '' governance rule(s): ''] @ rules @
               [T ''. If enforced, would have improved PnL by '', F (cf_pnl_difference r),
                T '' (counterfactual: '', F (cf_counterfactual_pnl r), T '' vs actual: '', F (cf_original_pnl r),
                T ''). Drawdown would improve by '', F (cf_dd_improvement r), T ''.'']))
      else if cf_pnl_difference r < 0 then
        (case join_rules (cf_violated_rules r) of
           Inl x \<Rightarrow> Inl x
         | Inr rules \<Rightarrow>
             Inr (lead @ [T '' governance rule(s): ''] @ rules @
               [T ''. If enforced, would have worsened PnL by '', F \<bar>cf_pnl_difference r\<bar>,
                T ''. Trade was profitable despite violations.'']))
      else Inr (lead @ [T '' governance rule(s) but had neutral impact on PnL.'']))"

definition simulate :: "time \<Rightarrow> timeline_service \<Rightarrow> string \<Rightarrow> simulation" where
  "simulate now service cid =
     (let timeline = get_timeline (VStr cid) service; r0 = empty_result cid now in
      if timeline = [] then
        SimOk (r0\<lparr>cf_explanation := [T ''No timeline found for correlation_id: '', T cid]\<rparr>)
      else
        (case scan_events timeline \<lparr>sc_trades = [], sc_outcomes = [], sc_pnl = 0, sc_allowed = True, sc_violated = []\<rparr> of
           Inl x \<Rightarrow> SimError x
         | Inr s \<Rightarrow>
            (let (pnl, blocked) = simulate_blocked_trades (sc_trades s) (sc_outcomes s) (sc_pnl s);
                 (dd1, dd2) = simulate_drawdown (sc_outcomes s);
                 r1 = r0\<lparr>cf_original_pnl := sc_pnl s, cf_trades_executed := int (length (sc_trades s)),
                         cf_outcomes_recorded := int (length (sc_outcomes s)), cf_allowed := sc_allowed s,
                         cf_violated_rules := sc_violated s, cf_counterfactual_pnl := pnl,
                         cf_pnl_difference := pnl - sc_pnl s, cf_trades_blocked := blocked,
                         cf_dd_original := dd1, cf_dd_counterfactual := dd2, cf_dd_improvement := dd1 - dd2,
                         cf_rule_impact := rule_impact_frequency (sc_violated s)\<rparr>
             in case explain r1 of Inl x \<Rightarrow> SimError x | Inr m \<Rightarrow> SimOk (r1\<lparr>cf_explanation := m\<rparr>))))"

section \<open>Batches\<close>

record cf_summary =
  cs_total_simulations :: int
  cs_total_violations :: int
  cs_allowed_count :: int
  cs_blocked_count :: int
  cs_average_pnl_difference :: rat
  cs_total_pnl_difference :: rat
  cs_rule_violation_totals :: "(string \<times> int) list"
  cs_simulated_at :: time

definition add_counts :: "(string \<times> int) list \<Rightarrow> (string \<times> int) list \<Rightarrow> (string \<times> int) list" where
  "add_counts xs totals = fold (\<lambda>(k, n) t. AList.update k (dget k t 0 + n) t) xs totals"

fun ok_results :: "simulation list \<Rightarrow> cf_result list" where
  "ok_results [] = []"
| "ok_results (SimOk r # xs) = r # ok_results xs"
| "ok_results (SimError _ # xs) = ok_results xs"

definition batch_summary :: "time \<Rightarrow> simulation list \<Rightarrow> cf_summary" where
  "batch_summary now results =
     (let rs = ok_results results; diffs = map cf_pnl_difference rs;
          violated = filter (\<lambda>r. \<not> cf_allowed r) rs in
      \<lparr>cs_total_simulations = int (length rs),
       cs_total_violations = (\<Sum>r\<leftarrow>violated. int (length (cf_violated_rules r))),
       cs_allowed_count = int (length (filter cf_allowed rs)),
       cs_blocked_count = int (length violated),
       cs_average_pnl_difference = (if diffs = [] then 0 else sum_list diffs / of_nat (length diffs)),
       cs_total_pnl_difference = sum_list diffs,
       cs_rule_violation_totals = fold (\<lambda>r t. add_counts (cf_rule_impact r) t) rs [],
       cs_simulated_at = now\<rparr>)"

definition simulate_batch :: "time \<Rightarrow> timeline_service \<Rightarrow> pyval \<Rightarrow> simulation list \<times> cf_summary option" where
  "simulate_batch now service ids =
     (case ids of
        VList xs \<Rightarrow>
          (let results = map (\<lambda>v. simulate now service (str_of v)) (filter is_str xs) in
           (results, if results = [] then None else Some (batch_summary now results)))
      | _ \<Rightarrow> ([], None))"

section \<open>Lemmas on the drawdown\<close>

lemma fold_dd_snoc: "fold dd_step (xs @ [x]) st = dd_step x (fold dd_step xs st)"
  by simp

definition prefix_sum :: "rat list \<Rightarrow> nat \<Rightarrow> rat" where
  "prefix_sum xs i = sum_list (take i xs)"

lemma prefix_sum_snoc:
  "prefix_sum (xs @ [x]) i = (if i \<le> length xs then prefix_sum xs i else sum_list xs + x)"
  by (simp add: prefix_sum_def)

lemma fold_dd:
  "\<exists>p m. fold dd_step xs (0, 0, 0) = (sum_list xs, p, m) \<and>
     (\<forall>i\<le>length xs. prefix_sum xs i \<le> p) \<and> (\<exists>i\<le>length xs. p = prefix_sum xs i) \<and>
     (\<forall>i j. i \<le> j \<and> j \<le> length xs \<longrightarrow> prefix_sum xs i - prefix_sum xs j \<le> m) \<and>
     (\<exists>i j. i \<le> j \<and> j \<le> length xs \<and> m = prefix_sum xs i - prefix_sum xs j)"
proof (induction xs rule: rev_induct)
  case Nil
  show ?case by (simp add: prefix_sum_def)
next
  case (snoc x xs)
  obtain p m where f: "fold dd_step xs (0, 0, 0) = (sum_list xs, p, m)"
    and p: "\<forall>i\<le>length xs. prefix_sum xs i \<le> p" "\<exists>i\<le>length xs. p = prefix_sum xs i"
    and m: "\<forall>i j. i \<le> j \<and> j \<le> length xs \<longrightarrow> prefix_sum xs i - prefix_sum xs j \<le> m"
      "\<exists>i j. i \<le> j \<and> j \<le> length xs \<and> m = prefix_sum xs i - prefix_sum xs j"
    using snoc by blast
  let ?n = "length xs" and ?c = "sum_list xs + x"
  let ?p = "if ?c > p then ?c else p"
  let ?m = "max m (?p - ?c)"
  have fold: "fold dd_step (xs @ [x]) (0, 0, 0) = (sum_list (xs @ [x]), ?p, ?m)"
    by (simp add: f dd_step_def Let_def)
  have P1: "\<forall>i\<le>length (xs @ [x]). prefix_sum (xs @ [x]) i \<le> ?p"
    using p(1) by (auto simp: prefix_sum_snoc)
  have last: "prefix_sum (xs @ [x]) (Suc ?n) = ?c" by (simp add: prefix_sum_snoc)
  have P2: "\<exists>i\<le>length (xs @ [x]). ?p = prefix_sum (xs @ [x]) i"
  proof (cases "?c > p")
    case True
    then show ?thesis using last by (intro exI[of _ "Suc ?n"]) simp
  next
    case False
    obtain i where "i \<le> ?n" "p = prefix_sum xs i" using p(2) by blast
    then show ?thesis using False by (intro exI[of _ i]) (simp add: prefix_sum_snoc)
  qed
  have M1: "prefix_sum (xs @ [x]) i - prefix_sum (xs @ [x]) j \<le> ?m" if "i \<le> j" "j \<le> length (xs @ [x])" for i j
  proof (cases "j \<le> ?n")
    case True
    then have "prefix_sum xs i - prefix_sum xs j \<le> m" using m(1) that by blast
    then show ?thesis using True that by (simp add: prefix_sum_snoc max.coboundedI1)
  next
    case False
    then have "j = Suc ?n" using that by simp
    moreover have "prefix_sum (xs @ [x]) i \<le> ?p" using P1 that by simp
    ultimately show ?thesis using last by (metis diff_right_mono max.coboundedI2)
  qed
  have M2: "\<exists>i j. i \<le> j \<and> j \<le> length (xs @ [x]) \<and> ?m = prefix_sum (xs @ [x]) i - prefix_sum (xs @ [x]) j"
  proof (cases "?p - ?c \<le> m")
    case True
    obtain i j where "i \<le> j" "j \<le> ?n" "m = prefix_sum xs i - prefix_sum xs j" using m(2) by blast
    then show ?thesis using True
      by (intro exI[of _ i] exI[of _ j]) (simp add: prefix_sum_snoc max_absorb1)
  next
    case False
    obtain i where i: "i \<le> length (xs @ [x])" "?p = prefix_sum (xs @ [x]) i" using P2 by blast
    have "?m = ?p - ?c" using False by linarith
    then have "?m = prefix_sum (xs @ [x]) i - prefix_sum (xs @ [x]) (Suc ?n)" using i(2) last by simp
    then show ?thesis using i(1) by (intro exI[of _ i] exI[of _ "Suc ?n"]) simp
  qed
  show ?case using fold P1 P2 M1 M2 by blast
qed

lemma max_drawdown_upper: "i \<le> j \<Longrightarrow> j \<le> length xs \<Longrightarrow> prefix_sum xs i - prefix_sum xs j \<le> max_drawdown xs"
  using fold_dd[of xs] by (auto simp: max_drawdown_def)

lemma max_drawdown_attained:
  "\<exists>i j. i \<le> j \<and> j \<le> length xs \<and> max_drawdown xs = prefix_sum xs i - prefix_sum xs j"
proof -
  obtain p m where f: "fold dd_step xs (0, 0, 0) = (sum_list xs, p, m)"
    and m: "\<exists>i j. i \<le> j \<and> j \<le> length xs \<and> m = prefix_sum xs i - prefix_sum xs j"
    using fold_dd[of xs] by blast
  show ?thesis unfolding max_drawdown_def f using m by simp
qed

lemma max_drawdown_nonneg: "0 \<le> max_drawdown xs"
  using max_drawdown_upper[of 0 0 xs] by simp

lemma prefix_sum_mono:
  assumes "\<forall>x\<in>set xs. 0 \<le> x" "i \<le> j"
  shows "prefix_sum xs i \<le> prefix_sum xs j"
proof -
  have "prefix_sum xs j = prefix_sum xs i + sum_list (take (j - i) (drop i xs))"
    using assms(2) take_add[of i "j - i" xs] by (simp add: prefix_sum_def)
  moreover have "0 \<le> sum_list (take (j - i) (drop i xs))"
    using assms(1) by (intro sum_list_nonneg) (auto dest: in_set_takeD in_set_dropD)
  ultimately show ?thesis by simp
qed

lemma max_drawdown_gains: "\<forall>x\<in>set xs. 0 \<le> x \<Longrightarrow> max_drawdown xs = 0"
  using max_drawdown_attained[of xs] max_drawdown_nonneg[of xs] prefix_sum_mono[of xs] by force

lemma counterfactual_drawdown_zero: "snd (simulate_drawdown es) = 0"
  by (auto simp: simulate_drawdown_def intro!: max_drawdown_gains)

section \<open>Lemmas on the scan\<close>

lemma losing_pnl_nonpos: "losing_pnl es = Some x \<Longrightarrow> x \<le> 0"
  by (induction es arbitrary: x) (auto split: option.splits if_splits intro: add_nonpos_nonpos)

definition ungoverned :: "tl_event list \<Rightarrow> tl_event list" where
  "ungoverned es = filter (\<lambda>e. te_event_type e \<noteq> ''GOVERNANCE_EVALUATED'') es"

lemma scan_outcomes:
  "scan_events es s = Inr s1 \<Longrightarrow>
   sc_trades s1 = sc_trades s @ filter (\<lambda>e. te_event_type e = ''TRADE_EXECUTED'') (ungoverned es) \<and>
   sc_outcomes s1 = sc_outcomes s @ filter (\<lambda>e. te_event_type e = ''OUTCOME_RECORDED'') (ungoverned es) \<and>
   sc_pnl s1 = sc_pnl s +
     sum_list (map pnl_number (filter (\<lambda>e. te_event_type e = ''OUTCOME_RECORDED'') (ungoverned es)))"
proof (induction es arbitrary: s)
  case Nil
  then show ?case by (simp add: ungoverned_def)
next
  case (Cons e es)
  show ?case
  proof (cases "te_event_type e = ''GOVERNANCE_EVALUATED''")
    case True
    then obtain s2 where "scan_events es s2 = Inr s1" "sc_trades s2 = sc_trades s"
        "sc_outcomes s2 = sc_outcomes s" "sc_pnl s2 = sc_pnl s"
      using Cons.prems by (auto simp: Let_def split: if_splits option.splits)
    then show ?thesis using Cons.IH[of s2] True by (simp add: ungoverned_def)
  next
    case False
    then show ?thesis using Cons.prems
      by (auto simp: ungoverned_def dest!: Cons.IH split: if_splits)
  qed
qed

text \<open>The figures of a result and the scan they come from.\<close>

definition scanned :: "timeline_service \<Rightarrow> string \<Rightarrow> cf_result \<Rightarrow> cf_scan \<Rightarrow> bool" where
  "scanned s cid r sc \<longleftrightarrow>
     cf_original_pnl r = sc_pnl sc \<and>
     simulate_blocked_trades (sc_trades sc) (sc_outcomes sc) (sc_pnl sc) = (cf_counterfactual_pnl r, cf_trades_blocked r) \<and>
     simulate_drawdown (sc_outcomes sc) = (cf_dd_original r, cf_dd_counterfactual r) \<and>
     cf_dd_improvement r = cf_dd_original r - cf_dd_counterfactual r \<and>
     cf_pnl_difference r = cf_counterfactual_pnl r - cf_original_pnl r \<and>
     sc_trades sc = filter (\<lambda>e. te_event_type e = ''TRADE_EXECUTED'') (ungoverned (get_timeline (VStr cid) s)) \<and>
     sc_outcomes sc = filter (\<lambda>e. te_event_type e = ''OUTCOME_RECORDED'') (ungoverned (get_timeline (VStr cid) s)) \<and>
     sc_pnl sc = sum_list (map pnl_number (filter (\<lambda>e. te_event_type e = ''OUTCOME_RECORDED'')
       (ungoverned (get_timeline (VStr cid) s))))"

lemma simulate_scanned:
  assumes "simulate now s cid = SimOk r" "get_timeline (VStr cid) s \<noteq> []"
  shows "\<exists>sc. scanned s cid r sc"
proof -
  obtain sc where sc: "scan_events (get_timeline (VStr cid) s)
      \<lparr>sc_trades = [], sc_outcomes = [], sc_pnl = 0, sc_allowed = True, sc_violated = []\<rparr> = Inr sc"
    using assms by (auto simp: simulate_def Let_def split: sum.splits)
  obtain pnl blocked where bl: "simulate_blocked_trades (sc_trades sc) (sc_outcomes sc) (sc_pnl sc) = (pnl, blocked)"
    by fastforce
  obtain dd1 dd2 where dd: "simulate_drawdown (sc_outcomes sc) = (dd1, dd2)" by fastforce
  have "cf_original_pnl r = sc_pnl sc \<and> cf_counterfactual_pnl r = pnl \<and> cf_trades_blocked r = blocked \<and>
      cf_dd_original r = dd1 \<and> cf_dd_counterfactual r = dd2 \<and> cf_dd_improvement r = dd1 - dd2 \<and>
      cf_pnl_difference r = pnl - sc_pnl sc"
    using assms by (auto simp: simulate_def Let_def sc bl dd split: sum.splits)
  then show ?thesis
    using scan_outcomes[OF sc] bl dd by (intro exI[of _ sc]) (simp add: scanned_def)
qed

section \<open>Properties\<close>

text \<open>The drawdown loop computes the largest fall of the cumulated profit from an
  earlier (or the same) moment to a later one: every such fall is at most the result, and some
  fall attains it.\<close>

theorem drawdown_exact:
  "(\<forall>i j. prefix_sum xs (min i j) - prefix_sum xs (min (max i j) (length xs)) \<le> max_drawdown xs) \<and>
   (\<exists>i j. i \<le> j \<and> j \<le> length xs \<and> max_drawdown xs = prefix_sum xs i - prefix_sum xs j)"
proof -
  have "prefix_sum xs (min i j) - prefix_sum xs (min (max i j) (length xs)) \<le> max_drawdown xs" for i j
  proof (cases "min i j \<le> length xs")
    case True
    then show ?thesis by (intro max_drawdown_upper) auto
  next
    case False
    then have "prefix_sum xs (min i j) = prefix_sum xs (length xs)"
        "min (max i j) (length xs) = length xs"
      by (auto simp: prefix_sum_def min_def max_def)
    then show ?thesis using max_drawdown_nonneg[of xs] by simp
  qed
  then show ?thesis using max_drawdown_attained[of xs] by blast
qed

text \<open>The counterfactual figures do not depend on the governance
  rules. Two timelines that differ only in their governance events, one with violations and one
  without, have the same counterfactual profit, number of blocked trades and drawdowns. The
  counterfactual drawdown is always zero, and "enforcement" never makes the profit worse, so the
  branch that explains a worse profit is never taken; yet when no rule is violated the explanation
  says that no blocking was applied.\<close>

theorem counterfactual_ignores_violations:
  assumes "simulate now1 s1 cid1 = SimOk r1" "simulate now2 s2 cid2 = SimOk r2"
    "get_timeline (VStr cid1) s1 \<noteq> []" "get_timeline (VStr cid2) s2 \<noteq> []"
    "ungoverned (get_timeline (VStr cid1) s1) = ungoverned (get_timeline (VStr cid2) s2)"
  shows "cf_original_pnl r1 = cf_original_pnl r2 \<and> cf_counterfactual_pnl r1 = cf_counterfactual_pnl r2 \<and>
    cf_trades_blocked r1 = cf_trades_blocked r2 \<and> cf_dd_original r1 = cf_dd_original r2 \<and>
    cf_dd_counterfactual r1 = 0 \<and> cf_dd_improvement r1 = cf_dd_original r1 \<and> 0 \<le> cf_dd_original r1 \<and>
    0 \<le> cf_pnl_difference r1 \<and> cf_pnl_difference r1 = cf_pnl_difference r2"
proof -
  obtain a where a: "scanned s1 cid1 r1 a" using simulate_scanned[OF assms(1,3)] by blast
  obtain b where b: "scanned s2 cid2 r2 b" using simulate_scanned[OF assms(2,4)] by blast
  note a = a[unfolded scanned_def] and b = b[unfolded scanned_def]
  have same: "sc_trades a = sc_trades b" "sc_outcomes a = sc_outcomes b" "sc_pnl a = sc_pnl b"
    using a b assms(5) by simp_all
  have zero: "cf_dd_counterfactual r1 = 0" using counterfactual_drawdown_zero a by (metis snd_conv)
  have "sc_pnl a \<le> fst (simulate_blocked_trades (sc_trades a) (sc_outcomes a) (sc_pnl a))"
    using losing_pnl_nonpos by (auto simp: simulate_blocked_trades_def split: option.splits)
  then have le: "cf_original_pnl r1 \<le> cf_counterfactual_pnl r1" using a by (metis fst_conv)
  have dd: "0 \<le> fst (simulate_drawdown (sc_outcomes a))"
    by (simp add: simulate_drawdown_def max_drawdown_nonneg)
  moreover have "0 \<le> cf_dd_original r1" using dd a by (metis fst_conv)
  moreover have "cf_counterfactual_pnl r1 = cf_counterfactual_pnl r2 \<and> cf_trades_blocked r1 = cf_trades_blocked r2"
    using a b same by (metis prod.inject)
  moreover have "cf_dd_original r1 = cf_dd_original r2" using a b same by (metis prod.inject)
  moreover have "cf_original_pnl r1 = cf_original_pnl r2" using a b same by metis
  moreover have "cf_dd_improvement r1 = cf_dd_original r1" using a zero by (metis diff_0_right)
  moreover have "cf_pnl_difference r1 = cf_counterfactual_pnl r1 - cf_original_pnl r1"
      "cf_pnl_difference r2 = cf_counterfactual_pnl r2 - cf_original_pnl r2" using a b by blast+
  ultimately show ?thesis using zero le by simp
qed

text \<open>One decision with a loss; in the second timeline the governance found a violation.\<close>

definition cf_timeline :: "pyval list \<Rightarrow> timeline_service" where
  "cf_timeline violations = record_all
     [(1, VStr ''TRADE_EXECUTED'', VDict [], VStr ''D1''),
      (2, VStr ''GOVERNANCE_EVALUATED'', VDict [(''violations'', VList violations)], VStr ''D1''),
      (3, VStr ''OUTCOME_RECORDED'', VDict [(''pnl'', VInt (-10))], VStr ''D1'')] ts_init"

lemma cf_timeline_events:
  "get_timeline (VStr ''D1'') (cf_timeline vs) =
    [\<lparr>te_event_type = ''TRADE_EXECUTED'', te_timestamp = 1, te_payload = [], te_correlation_id = ''D1'',
      te_sequence_number = 0\<rparr>,
     \<lparr>te_event_type = ''GOVERNANCE_EVALUATED'', te_timestamp = 2, te_payload = [(''violations'', VList vs)],
      te_correlation_id = ''D1'', te_sequence_number = 1\<rparr>,
     \<lparr>te_event_type = ''OUTCOME_RECORDED'', te_timestamp = 3, te_payload = [(''pnl'', VInt (-10))],
      te_correlation_id = ''D1'', te_sequence_number = 2\<rparr>]"
  by (simp add: cf_timeline_def record_event_tl_def build_event_def append_event_def ts_init_def
      get_timeline_def dget_def Let_def)

lemma cf_demo_allowed:
  "\<exists>r. simulate 9 (cf_timeline []) ''D1'' = SimOk r \<and> cf_allowed r \<and> cf_pnl_difference r = 5"
  by (simp add: simulate_def cf_timeline_events Let_def empty_result_def pnl_number_def cf_pnl_def dget_def
      simulate_blocked_trades_def simulate_drawdown_def max_drawdown_def dd_step_def explain_def py_trunc_def)

lemma cf_demo_blocked:
  "\<exists>r. simulate 9 (cf_timeline [VStr ''max_trades'']) ''D1'' = SimOk r \<and> \<not> cf_allowed r"
  by (simp add: simulate_def cf_timeline_events Let_def empty_result_def pnl_number_def cf_pnl_def dget_def
      simulate_blocked_trades_def simulate_drawdown_def max_drawdown_def dd_step_def explain_def py_trunc_def
      join_rules_def)

theorem counterfactual_ignores_violations_witness:
  "\<exists>r1 r2. simulate 9 (cf_timeline []) ''D1'' = SimOk r1 \<and>
     simulate 9 (cf_timeline [VStr ''max_trades'']) ''D1'' = SimOk r2 \<and>
     cf_allowed r1 \<and> \<not> cf_allowed r2 \<and> cf_pnl_difference r1 = 5 \<and> cf_pnl_difference r2 = 5"
proof -
  obtain r1 where 1: "simulate 9 (cf_timeline []) ''D1'' = SimOk r1" "cf_allowed r1" "cf_pnl_difference r1 = 5"
    using cf_demo_allowed by blast
  obtain r2 where 2: "simulate 9 (cf_timeline [VStr ''max_trades'']) ''D1'' = SimOk r2" "\<not> cf_allowed r2"
    using cf_demo_blocked by blast
  have "cf_pnl_difference r1 = cf_pnl_difference r2"
    using counterfactual_ignores_violations[OF 1(1) 2(1)] by (simp add: cf_timeline_events ungoverned_def)
  then show ?thesis using 1 2 by auto
qed

end
