(* ===== verification/Paper_Adapter.thy ===== *)
theory Paper_Adapter
  imports Py_Values
begin

text \<open>
  \<open>reasoner_service/paper_execution_adapter.py\<close>: a simulated fill and exit for paper trading.

  The random generator is a parameter, the draws one execution makes: \<open>random.uniform(a, b)\<close>,
  \<open>random.randint(a, b)\<close> (which raises for an empty range) and \<open>random.random()\<close>. Prices may be
  absent; any exception leads to the fail-open result. The readings of the clock are arguments,
  in the order the code takes them. Identifiers that are only passed through are left out.
\<close>

record paper_config =
  pc_slippage_model :: string
  pc_slippage_fixed_pct :: rat
  pc_slippage_random_min_pct :: rat
  pc_slippage_random_max_pct :: rat
  pc_tpsl_model :: string
  pc_tpsl_random_bars_min :: int
  pc_tpsl_random_bars_max :: int
  pc_tpsl_random_hours_min :: int
  pc_tpsl_random_hours_max :: int
  pc_assume_fill_on_signal :: bool
  pc_fill_delay_seconds :: int

definition default_config :: paper_config where
  "default_config =
    \<lparr>pc_slippage_model = ''fixed_percent'', pc_slippage_fixed_pct = 5/100,
     pc_slippage_random_min_pct = 0, pc_slippage_random_max_pct = 1/10,
     pc_tpsl_model = ''random_bars'', pc_tpsl_random_bars_min = 5, pc_tpsl_random_bars_max = 100,
     pc_tpsl_random_hours_min = 1, pc_tpsl_random_hours_max = 24,
     pc_assume_fill_on_signal = True, pc_fill_delay_seconds = 2\<rparr>"

record draws =
  dr_uniform :: "rat \<Rightarrow> rat \<Rightarrow> rat"
  dr_randint :: "int \<Rightarrow> int \<Rightarrow> int"
  dr_random :: rat

text \<open>What the documentation of the generator says.\<close>

definition draws_ok :: "draws \<Rightarrow> bool" where
  "draws_ok d \<longleftrightarrow> 0 \<le> dr_random d \<and> dr_random d < 1 \<and>
     (\<forall>a b. a \<le> b \<longrightarrow> a \<le> dr_uniform d a b \<and> dr_uniform d a b \<le> b) \<and>
     (\<forall>a b. a \<le> b \<longrightarrow> a \<le> dr_randint d a b \<and> dr_randint d a b \<le> b)"

definition randint :: "draws \<Rightarrow> int \<Rightarrow> int \<Rightarrow> py_error + int" where
  "randint d a b = (if a > b then Inl (ValueError [T ''empty range for randint'']) else Inr (dr_randint d a b))"

record paper_result =
  pp_entry_price :: rat
  pp_fill_price :: rat
  pp_slippage_amount :: rat
  pp_fill_time :: time
  pp_exit_price :: rat
  pp_exit_time :: time
  pp_exit_reason :: string
  pp_pnl :: rat
  pp_outcome :: string
  pp_r_multiple :: "rat option"
  pp_stop_loss_price :: "rat option"
  pp_take_profit_price :: "rat option"

definition is_short :: "string \<Rightarrow> bool" where
  "is_short direction \<longleftrightarrow> py_lower direction = ''short''"

definition get_slippage_pct :: "paper_config \<Rightarrow> draws \<Rightarrow> rat" where
  "get_slippage_pct c d =
     (let model = py_lower (pc_slippage_model c) in
      if model = ''zero'' then 0
      else if model = ''fixed_percent'' then pc_slippage_fixed_pct c / 100
      else if model = ''random_bounded'' then
        dr_uniform d (pc_slippage_random_min_pct c / 100) (pc_slippage_random_max_pct c / 100)
      else pc_slippage_fixed_pct c / 100)"

definition simulate_entry_fill :: "paper_config \<Rightarrow> draws \<Rightarrow> rat \<Rightarrow> string \<Rightarrow> rat \<times> rat" where
  "simulate_entry_fill c d entry_price direction =
     (let slippage_pct = get_slippage_pct c d;
          slippage_amount = (if is_short direction then - entry_price * slippage_pct else entry_price * slippage_pct)
      in (entry_price + slippage_amount, slippage_amount))"

definition get_fill_time :: "paper_config \<Rightarrow> time \<Rightarrow> time" where
  "get_fill_time c now =
     (if pc_assume_fill_on_signal c then now else now + seconds (pc_fill_delay_seconds c))"

definition hours :: "int \<Rightarrow> int" where
  "hours n = n * 3600000000"

text \<open>The exit: the price that is hit, when, and why.\<close>

definition simulate_exit ::
    "paper_config \<Rightarrow> draws \<Rightarrow> time \<Rightarrow> rat option \<Rightarrow> rat option \<Rightarrow> py_error + (rat option \<times> time \<times> string)" where
  "simulate_exit c d now sl_price tp_price =
     (let model = py_lower (pc_tpsl_model c);
          hit = (\<lambda>t. if dr_random d < 7/10 then (tp_price, t, ''tp'') else (sl_price, t, ''sl''));
          instant = (if dr_random d < 7/10 then (tp_price, now + hours 1, ''tp'')
                     else (sl_price, now + 1800000000, ''sl''))
      in
      if model = ''instant'' then Inr instant
      else if model = ''random_bars'' then
        (case randint d (pc_tpsl_random_bars_min c) (pc_tpsl_random_bars_max c) of
           Inl e \<Rightarrow> Inl e
         | Inr n \<Rightarrow> Inr (hit (now + hours n)))
      else if model = ''random_hours'' then
        (case randint d (pc_tpsl_random_hours_min c) (pc_tpsl_random_hours_max c) of
           Inl e \<Rightarrow> Inl e
         | Inr n \<Rightarrow> Inr (hit (now + hours n)))
      else Inr instant)"

text \<open>An absent stop loss makes the subtraction raise, which is caught: no multiple.\<close>

definition compute_r_multiple :: "rat \<Rightarrow> rat \<Rightarrow> rat option \<Rightarrow> string \<Rightarrow> rat option" where
  "compute_r_multiple entry_price exit_price stop_loss_price direction =
     (case stop_loss_price of
        None \<Rightarrow> None
      | Some sl \<Rightarrow>
          if is_short direction then
            (let risk = sl - entry_price in
             if risk = 0 then None else Some (py_round 4 ((entry_price - exit_price) / risk)))
          else
            (let risk = entry_price - sl in
             if risk = 0 then None else Some (py_round 4 ((exit_price - entry_price) / risk))))"

definition float_or :: "rat option \<Rightarrow> rat \<Rightarrow> rat" where
  "float_or x y = (case x of None \<Rightarrow> y | Some v \<Rightarrow> if v = 0 then y else v)"

definition fail_open_result :: "time \<Rightarrow> rat option \<Rightarrow> rat option \<Rightarrow> rat option \<Rightarrow> paper_result" where
  "fail_open_result now entry_price sl_price tp_price =
    \<lparr>pp_entry_price = float_or entry_price 0, pp_fill_price = float_or entry_price 0,
     pp_slippage_amount = 0, pp_fill_time = now, pp_exit_price = float_or sl_price 0,
     pp_exit_time = now + hours 1, pp_exit_reason = ''manual'',
     pp_pnl = (case (entry_price, sl_price) of (Some e, Some s) \<Rightarrow> - \<bar>e - s\<bar> | _ \<Rightarrow> -100),
     pp_outcome = ''loss'', pp_r_multiple = Some (-1),
     pp_stop_loss_price = Some (float_or sl_price 0), pp_take_profit_price = Some (float_or tp_price 0)\<rparr>"

definition outcome_of :: "rat \<Rightarrow> string" where
  "outcome_of pnl = (if pnl > 0 then ''win'' else if pnl < 0 then ''loss'' else ''breakeven'')"

definition execute_entry ::
    "paper_config \<Rightarrow> draws \<Rightarrow> time \<Rightarrow> time \<Rightarrow> time \<Rightarrow> rat option \<Rightarrow> rat option \<Rightarrow> rat option \<Rightarrow> string \<Rightarrow> paper_result" where
  "execute_entry c d now1 now2 now3 entry_price sl_price tp_price direction =
     (case simulate_exit c d now2 sl_price tp_price of
        Inl _ \<Rightarrow> fail_open_result now3 entry_price sl_price tp_price
      | Inr (exit_price, exit_time, exit_reason) \<Rightarrow>
         (case (entry_price, exit_price) of
            (Some entry, Some ex) \<Rightarrow>
              (let (fill_price, slippage_amount) = simulate_entry_fill c d entry direction;
                   pnl = (if is_short direction then entry - ex else ex - entry)
               in \<lparr>pp_entry_price = entry, pp_fill_price = fill_price, pp_slippage_amount = slippage_amount,
                   pp_fill_time = get_fill_time c now1, pp_exit_price = ex, pp_exit_time = exit_time,
                   pp_exit_reason = exit_reason, pp_pnl = pnl, pp_outcome = outcome_of pnl,
                   pp_r_multiple = compute_r_multiple fill_price ex sl_price direction,
                   pp_stop_loss_price = sl_price, pp_take_profit_price = tp_price\<rparr>)
          | _ \<Rightarrow> fail_open_result now3 entry_price sl_price tp_price))"

definition sign_agrees :: "rat \<Rightarrow> rat \<Rightarrow> bool" where
  "sign_agrees pnl r \<longleftrightarrow> (pnl > 0 \<longrightarrow> r \<ge> 0) \<and> (pnl < 0 \<longrightarrow> r \<le> 0) \<and> (pnl = 0 \<longrightarrow> r = 0)"

section \<open>Lemmas\<close>

lemma py_round_sign:
  "0 \<le> x \<Longrightarrow> 0 \<le> py_round n x" "x \<le> 0 \<Longrightarrow> py_round n x \<le> 0" "py_round n 0 = 0"
  using py_round_bounds(1)[of 0 x "ceiling x" n] py_round_bounds(2)[of "floor x" x 0 n]
  by (simp_all add: py_round_def round_half_even_def)

lemma zero_fill: "py_lower (pc_slippage_model c) = ''zero'' \<Longrightarrow> simulate_entry_fill c d e dir = (e, 0)"
  by (simp add: simulate_entry_fill_def get_slippage_pct_def)

lemma r_multiple_sign:
  assumes "compute_r_multiple e x (Some sl) dir = Some r" "if is_short dir then sl > e else sl < e"
  shows "sign_agrees (if is_short dir then e - x else x - e) r"
  using assms py_round_sign(1)[of "(e - x) / (sl - e)" 4] py_round_sign(2)[of "(e - x) / (sl - e)" 4]
    py_round_sign(1)[of "(x - e) / (e - sl)" 4] py_round_sign(2)[of "(x - e) / (e - sl)" 4] py_round_sign(3)[of 4]
  by (auto simp: compute_r_multiple_def sign_agrees_def Let_def divide_nonneg_nonneg divide_nonpos_nonneg
      split: if_splits)

section \<open>Properties\<close>

text \<open>A paper fill is never better than the signal's price: with bounds between 0
  and 100 percent a long fill lies at or above it and a short fill at or below, by exactly the
  reported slippage and at most the configured bound; the exit takes the price that its reason
  names, at or after the reading of the clock.\<close>

theorem paper_fill_bounds:
  assumes "draws_ok d" "0 \<le> entry" "0 \<le> pc_slippage_fixed_pct c" "0 \<le> pc_slippage_random_min_pct c"
    "pc_slippage_random_min_pct c \<le> pc_slippage_random_max_pct c" "0 \<le> pc_tpsl_random_bars_min c"
    "0 \<le> pc_tpsl_random_hours_min c" "simulate_exit c d now2 (Some sl) (Some tp) = Inr ex"
    "r = execute_entry c d now1 now2 now3 (Some entry) (Some sl) (Some tp) direction"
  shows "pp_fill_price r = entry + pp_slippage_amount r \<and>
    (if is_short direction then pp_slippage_amount r \<le> 0 else 0 \<le> pp_slippage_amount r) \<and>
    \<bar>pp_slippage_amount r\<bar> \<le> entry * max (pc_slippage_fixed_pct c) (pc_slippage_random_max_pct c) / 100 \<and>
    (pp_exit_reason r, pp_exit_price r) \<in> {(''tp'', tp), (''sl'', sl)} \<and> now2 \<le> pp_exit_time r"
proof -
  let ?p = "get_slippage_pct c d" and ?m = "max (pc_slippage_fixed_pct c) (pc_slippage_random_max_pct c)"
  have p: "0 \<le> ?p" "?p \<le> ?m / 100"
  proof -
    have "pc_slippage_random_min_pct c / 100 \<le> pc_slippage_random_max_pct c / 100" using assms(5) by simp
    then have u: "pc_slippage_random_min_pct c / 100 \<le> dr_uniform d (pc_slippage_random_min_pct c / 100) (pc_slippage_random_max_pct c / 100)"
        "dr_uniform d (pc_slippage_random_min_pct c / 100) (pc_slippage_random_max_pct c / 100) \<le> pc_slippage_random_max_pct c / 100"
      using assms(1) unfolding draws_ok_def by blast+
    have "0 \<le> pc_slippage_random_max_pct c" using assms(4,5) by linarith
    then show "0 \<le> ?p" "?p \<le> ?m / 100"
      using u assms(3,4) by (auto simp: get_slippage_pct_def Let_def max_def)
  qed
  have "entry * ?p \<le> entry * (?m / 100)" using p(2) assms(2) by (rule mult_left_mono)
  then have slip: "0 \<le> entry * ?p" "entry * ?p \<le> entry * ?m / 100" using p(1) assms(2) by simp_all
  have ints: "pc_tpsl_random_bars_min c \<le> b \<Longrightarrow> 0 \<le> dr_randint d (pc_tpsl_random_bars_min c) b"
      "pc_tpsl_random_hours_min c \<le> b \<Longrightarrow> 0 \<le> dr_randint d (pc_tpsl_random_hours_min c) b" for b
    using assms(1,6,7) unfolding draws_ok_def by (meson order_trans)+
  have ex: "(case ex of (x, t, reason) \<Rightarrow> (reason, x) \<in> {(''tp'', Some tp), (''sl'', Some sl)} \<and> now2 \<le> t)"
    using assms(8) ints
    by (auto simp: simulate_exit_def Let_def randint_def hours_def split: if_splits)
  obtain x t reason where e: "ex = (Some x, t, reason)" "(reason, x) \<in> {(''tp'', tp), (''sl'', sl)}" "now2 \<le> t"
    using ex by (cases ex) auto
  have r: "pp_fill_price r = entry + pp_slippage_amount r"
      "pp_slippage_amount r = (if is_short direction then - (entry * ?p) else entry * ?p)"
      "pp_exit_reason r = reason" "pp_exit_price r = x" "pp_exit_time r = t"
    using assms(8,9) e(1) by (simp_all add: execute_entry_def simulate_entry_fill_def Let_def)
  show ?thesis using slip e(2,3) by (auto simp: r)
qed

definition mid_draws :: draws where
  "mid_draws = \<lparr>dr_uniform = (\<lambda>a b. a), dr_randint = (\<lambda>a b. a), dr_random = 1/2\<rparr>"

lemma mid_draws_ok: "draws_ok mid_draws"
  by (simp add: draws_ok_def mid_draws_def)

lemma long_not_short: "\<not> is_short ''long''"
  by (simp add: is_short_def py_lower_def lower_char_def)

lemma default_fill: "simulate_entry_fill default_config mid_draws 100 ''long'' = (2001/20, 1/20)"
  by (simp add: simulate_entry_fill_def get_slippage_pct_def Let_def default_config_def long_not_short
      py_lower_def lower_char_def)

theorem paper_fill_bounds_witness:
  "let r = execute_entry default_config mid_draws 0 0 0 (Some 100) (Some 99) (Some 102) ''long'' in
   pp_exit_reason r = ''tp'' \<and> pp_slippage_amount r = 1/20 \<and> \<bar>pp_slippage_amount r\<bar> \<le> 1/10"
proof -
  let ?r = "execute_entry default_config mid_draws 0 0 0 (Some 100) (Some 99) (Some 102) ''long''"
  have ex: "simulate_exit default_config mid_draws 0 (Some 99) (Some 102) = Inr (Some 102, 18000000000, ''tp'')"
    by (simp add: simulate_exit_def default_config_def mid_draws_def Let_def randint_def hours_def
        py_lower_def lower_char_def)
  have "pp_slippage_amount ?r = 1/20" "pp_exit_reason ?r = ''tp''"
    by (simp_all add: execute_entry_def ex default_fill)
  then show ?thesis
    using paper_fill_bounds[OF mid_draws_ok _ _ _ _ _ _ ex, of 100 ?r 0 0 "''long''"]
    by (simp add: default_config_def Let_def)
qed

text \<open>Without slippage the risk multiple and the profit of a paper trade agree in
  sign (the stop loss being on its side of the entry). With the default configuration they need
  not: the profit and the outcome are computed from the signal's price, the multiple from the
  fill, and a trade that is recorded as a win can have a negative multiple.\<close>

theorem paper_r_from_fill:
  assumes "py_lower (pc_slippage_model c) = ''zero''" "if is_short direction then entry < sl else sl < entry"
    "r = execute_entry c d now1 now2 now3 (Some entry) (Some sl) (Some tp) direction"
    "pp_exit_reason r \<noteq> ''manual''"
  shows "(case pp_r_multiple r of None \<Rightarrow> False | Some x \<Rightarrow> sign_agrees (pp_pnl r) x) \<and>
    pp_outcome r = outcome_of (pp_pnl r) \<and>
    (\<exists>e s t. pp_outcome (execute_entry default_config mid_draws 0 0 0 (Some e) (Some s) (Some t) ''long'') = ''win'' \<and>
       (\<exists>x<0. pp_r_multiple (execute_entry default_config mid_draws 0 0 0 (Some e) (Some s) (Some t) ''long'') = Some x))"
proof -
  have demo: "simulate_exit default_config mid_draws 0 (Some 99) (Some (5001/50)) = Inr (Some (5001/50), 18000000000, ''tp'')"
    by (simp add: simulate_exit_def default_config_def mid_draws_def Let_def randint_def hours_def
        py_lower_def lower_char_def)
  let ?w = "execute_entry default_config mid_draws 0 0 0 (Some 100) (Some 99) (Some (5001/50)) ''long''"
  have w: "pp_outcome ?w = ''win''" "pp_r_multiple ?w = Some (py_round 4 (-1/35))"
    by (simp_all add: execute_entry_def demo default_fill long_not_short outcome_of_def compute_r_multiple_def)
  have neg: "py_round 4 (-1/35 :: rat) < 0" by code_simp
  have second: "\<exists>e s t. pp_outcome (execute_entry default_config mid_draws 0 0 0 (Some e) (Some s) (Some t) ''long'') = ''win'' \<and>
       (\<exists>x<0. pp_r_multiple (execute_entry default_config mid_draws 0 0 0 (Some e) (Some s) (Some t) ''long'') = Some x)"
    using w neg by blast
  obtain ex where ex: "simulate_exit c d now2 (Some sl) (Some tp) = Inr ex"
    using assms(3,4) by (cases "simulate_exit c d now2 (Some sl) (Some tp)")
      (auto simp: execute_entry_def fail_open_result_def)
  obtain x t reason where e: "ex = (Some x, t, reason)"
    using ex by (auto simp: simulate_exit_def Let_def split: if_splits sum.splits)
  have r: "pp_pnl r = (if is_short direction then entry - x else x - entry)"
      "pp_outcome r = outcome_of (pp_pnl r)"
      "pp_r_multiple r = compute_r_multiple entry x (Some sl) direction"
    using assms(3) ex e by (simp_all add: execute_entry_def zero_fill[OF assms(1)] Let_def)
  have "compute_r_multiple entry x (Some sl) direction \<noteq> None"
    using assms(2) by (auto simp: compute_r_multiple_def Let_def split: if_splits)
  then obtain m where m: "compute_r_multiple entry x (Some sl) direction = Some m" by blast
  have "sign_agrees (pp_pnl r) m" unfolding r(1) by (rule r_multiple_sign[OF m assms(2)])
  then show ?thesis using r m second by simp
qed

theorem paper_r_from_fill_witness:
  "let c = default_config\<lparr>pc_slippage_model := ''zero''\<rparr>;
       r = execute_entry c mid_draws 0 0 0 (Some 100) (Some 99) (Some 102) ''long'' in
   pp_outcome r = ''win'' \<and> (case pp_r_multiple r of None \<Rightarrow> False | Some x \<Rightarrow> sign_agrees (pp_pnl r) x)"
proof -
  let ?c = "default_config\<lparr>pc_slippage_model := ''zero''\<rparr>"
  let ?r = "execute_entry ?c mid_draws 0 0 0 (Some 100) (Some 99) (Some 102) ''long''"
  have z: "py_lower (pc_slippage_model ?c) = ''zero''"
    by (simp add: py_lower_def lower_char_def)
  have ex: "simulate_exit ?c mid_draws 0 (Some 99) (Some 102) = Inr (Some 102, 18000000000, ''tp'')"
    by (simp add: simulate_exit_def default_config_def mid_draws_def Let_def randint_def hours_def
        py_lower_def lower_char_def)
  have "pp_exit_reason ?r = ''tp''" "pp_outcome ?r = ''win''"
    by (simp_all add: execute_entry_def ex zero_fill[OF z] long_not_short outcome_of_def)
  then show ?thesis
    using paper_r_from_fill[OF z _ refl, of "''long''" 100 99 mid_draws 0 0 0 102] long_not_short
    by (simp add: Let_def)
qed

end
