(* ===== verification/Outcome_Recorder.thy ===== *)
theory Outcome_Recorder
  imports Outcome_Stats Paper_Adapter
begin

text \<open>
  \<open>reasoner_service/outcome_recorder.py\<close> and the outcome functions of
  \<open>reasoner_service/storage.py\<close>: how a closed trade gets into the table of outcomes, and how it is
  read back. The rows extend those the statistics read.

  The table is the list of committed rows in the order of insertion. A select is a filter, a
  stable sort and a cut of it, as SQL promises; a commit may fail with an error, which is an
  argument, and fails when the primary key is taken. The generated id and the readings of the
  clock (the default of \<open>closed_at\<close>, the server's \<open>created_at\<close>) are arguments. The log messages
  are left out.
\<close>

section \<open>Rows and the table\<close>

record decision_outcome = outcome_row +
  do_id :: string
  do_decision_id :: string
  do_entry_price :: rat
  do_exit_price :: rat
  do_exit_reason :: string
  do_model :: "string option"
  do_session :: "string option"
  do_direction :: "string option"
  do_r_multiple :: "rat option"
  do_created_at :: time

type_synonym outcome_table = "decision_outcome list"

definition valid_outcomes :: "string list" where
  "valid_outcomes = [''win'', ''loss'', ''breakeven'']"

definition valid_exit_reasons :: "string list" where
  "valid_exit_reasons = [''tp'', ''sl'', ''manual'', ''timeout'']"

definition insert_decision_outcome ::
    "py_error option \<Rightarrow> decision_outcome \<Rightarrow> outcome_table \<Rightarrow> py_error + string \<times> outcome_table" where
  "insert_decision_outcome commit row table =
     (if or_outcome row \<notin> set valid_outcomes then
        Inl (ValueError [T ''Invalid outcome '', T (quoted (or_outcome row)),
                         T ''; must be 'win', 'loss', or '', T (quoted ''breakeven'')])
      else if do_exit_reason row \<notin> set valid_exit_reasons then
        Inl (ValueError [T ''Invalid exit_reason '', T (quoted (do_exit_reason row)),
                         T ''; must be 'tp', 'sl', 'manual', or '', T (quoted ''timeout'')])
      else if do_id row \<in> set (map do_id table) then Inl (Raised ''IntegrityError'')
      else (case commit of
              Some e \<Rightarrow> Inl e
            | None \<Rightarrow> Inr (do_id row, table @ [row])))"

definition get_decision_outcome_by_id :: "string \<Rightarrow> outcome_table \<Rightarrow> decision_outcome option" where
  "get_decision_outcome_by_id i table = find (\<lambda>r. do_id r = i) table"

definition newest_by :: "(decision_outcome \<Rightarrow> time) \<Rightarrow> outcome_table \<Rightarrow> outcome_table" where
  "newest_by f rows = sort_key (\<lambda>r. - f r) rows"

definition get_recent_decision_outcomes :: "int \<Rightarrow> string option \<Rightarrow> outcome_table \<Rightarrow> outcome_table" where
  "get_recent_decision_outcomes n symbol table =
     take (nat n) (newest_by do_created_at (filter (\<lambda>r. eq_filter (nonempty symbol) (or_symbol r)) table))"

definition get_outcomes_by_decision_id :: "string \<Rightarrow> outcome_table \<Rightarrow> outcome_table" where
  "get_outcomes_by_decision_id d table = sort_key do_created_at (filter (\<lambda>r. do_decision_id r = d) table)"

definition get_outcomes_by_symbol :: "string \<Rightarrow> int \<Rightarrow> outcome_table \<Rightarrow> outcome_table" where
  "get_outcomes_by_symbol symbol n table =
     take (nat n) (newest_by or_closed_at (filter (\<lambda>r. or_symbol r = symbol) table))"

definition opt_filter :: "'a option \<Rightarrow> 'a option \<Rightarrow> bool" where
  "opt_filter f x = (case f of None \<Rightarrow> True | Some y \<Rightarrow> x = Some y)"

definition get_outcomes_by_signal_type ::
    "string \<Rightarrow> string \<Rightarrow> int \<Rightarrow> string option \<Rightarrow> string option \<Rightarrow> string option \<Rightarrow> outcome_table \<Rightarrow> outcome_table" where
  "get_outcomes_by_signal_type symbol signal_type n model session direction table =
     take (nat n) (newest_by or_closed_at
       (filter (\<lambda>r. or_symbol r = symbol \<and> or_signal_type r = signal_type \<and> opt_filter model (do_model r) \<and>
                    opt_filter session (do_session r) \<and> opt_filter direction (do_direction r)) table))"

text \<open>The table as the database the statistics query.\<close>

definition table_db :: "outcome_table \<Rightarrow> database" where
  "table_db table = sql_db (map outcome_row.truncate table)"

section \<open>Recording\<close>

record outcome_args =
  oa_decision_id :: string
  oa_symbol :: string
  oa_timeframe :: string
  oa_signal_type :: string
  oa_entry_price :: rat
  oa_exit_price :: rat
  oa_pnl :: rat
  oa_exit_reason :: string
  oa_closed_at :: "time option"
  oa_model :: "string option"
  oa_session_id :: "string option"
  oa_direction :: "string option"
  oa_stop_loss_price :: "rat option"
  oa_r_multiple :: "rat option"

definition recorder_r_multiple :: "rat \<Rightarrow> rat \<Rightarrow> rat \<Rightarrow> string option \<Rightarrow> rat option" where
  "recorder_r_multiple entry_price exit_price stop_loss_price direction =
     (if truthy_str direction \<and> py_lower (the direction) = ''short'' then
        (let risk = stop_loss_price - entry_price in
         if risk = 0 then None else Some (py_round 4 ((entry_price - exit_price) / risk)))
      else
        (let risk = entry_price - stop_loss_price in
         if risk = 0 then None else Some (py_round 4 ((exit_price - entry_price) / risk))))"

definition row_r_multiple :: "outcome_args \<Rightarrow> rat option" where
  "row_r_multiple a =
     (case (oa_r_multiple a, oa_stop_loss_price a) of
        (None, Some sl) \<Rightarrow> recorder_r_multiple (oa_entry_price a) (oa_exit_price a) sl (oa_direction a)
      | (r, _) \<Rightarrow> r)"

definition outcome_label :: "rat \<Rightarrow> string" where
  "outcome_label pnl = (if pnl > 0 then ''win'' else if pnl < 0 then ''loss'' else ''breakeven'')"

definition row_of_args :: "string \<Rightarrow> time \<Rightarrow> time \<Rightarrow> outcome_args \<Rightarrow> decision_outcome" where
  "row_of_args new_id now created a =
    \<lparr>or_symbol = oa_symbol a, or_timeframe = oa_timeframe a, or_signal_type = oa_signal_type a,
     or_pnl = oa_pnl a, or_outcome = outcome_label (oa_pnl a),
     or_closed_at = (case oa_closed_at a of None \<Rightarrow> now | Some t \<Rightarrow> t),
     do_id = new_id, do_decision_id = oa_decision_id a, do_entry_price = oa_entry_price a,
     do_exit_price = oa_exit_price a, do_exit_reason = oa_exit_reason a, do_model = oa_model a,
     do_session = oa_session_id a, do_direction = oa_direction a,
     do_r_multiple = row_r_multiple a, do_created_at = created\<rparr>"

text \<open>A bad exit reason is raised; any other error is logged and answered with \<open>None\<close>.\<close>

definition record_trade_outcome ::
    "string \<Rightarrow> time \<Rightarrow> time \<Rightarrow> py_error option \<Rightarrow> outcome_args \<Rightarrow> outcome_table \<Rightarrow>
     py_error + string option \<times> outcome_table" where
  "record_trade_outcome new_id now created commit a table =
     (if oa_exit_reason a \<notin> set valid_exit_reasons then
        Inl (ValueError [T ''Invalid exit_reason '', T (quoted (oa_exit_reason a)),
                         T ''; must be one of ('tp', 'sl', 'manual', 'timeout')''])
      else
        (case insert_decision_outcome commit (row_of_args new_id now created a) table of
           Inr (i, table') \<Rightarrow> Inr (Some i, table')
         | Inl (ValueError m) \<Rightarrow> Inl (ValueError m)
         | Inl _ \<Rightarrow> Inr (None, table)))"

text \<open>The identifiers a paper execution passes through, and the arguments it records.\<close>

record trade_ids =
  pid_decision_id :: string
  pid_symbol :: string
  pid_timeframe :: string
  pid_signal_type :: string
  pid_direction :: string
  pid_model :: "string option"
  pid_session :: "string option"

definition to_outcome_recorder_args :: "trade_ids \<Rightarrow> paper_result \<Rightarrow> outcome_args" where
  "to_outcome_recorder_args ids r =
    \<lparr>oa_decision_id = pid_decision_id ids, oa_symbol = pid_symbol ids, oa_timeframe = pid_timeframe ids,
     oa_signal_type = pid_signal_type ids, oa_entry_price = pp_entry_price r,
     oa_exit_price = pp_exit_price r, oa_pnl = pp_pnl r, oa_exit_reason = pp_exit_reason r,
     oa_closed_at = Some (pp_exit_time r), oa_model = pid_model ids, oa_session_id = pid_session ids,
     oa_direction = Some (pid_direction ids), oa_stop_loss_price = pp_stop_loss_price r,
     oa_r_multiple = pp_r_multiple r\<rparr>"

section \<open>Lemmas\<close>

lemma label_valid: "outcome_label p \<in> set valid_outcomes"
  by (simp add: outcome_label_def valid_outcomes_def)

lemma row_simps [simp]:
  "do_id (row_of_args i now c a) = i"
  "or_outcome (row_of_args i now c a) = outcome_label (oa_pnl a)"
  "do_exit_reason (row_of_args i now c a) = oa_exit_reason a"
  by (simp_all add: row_of_args_def)

text \<open>Recording, without the layers.\<close>

lemma record_eq:
  "record_trade_outcome i now c commit a table =
     (if oa_exit_reason a \<notin> set valid_exit_reasons then
        Inl (ValueError [T ''Invalid exit_reason '', T (quoted (oa_exit_reason a)),
                         T ''; must be one of ('tp', 'sl', 'manual', 'timeout')''])
      else if i \<in> set (map do_id table) then Inr (None, table)
      else (case commit of
              None \<Rightarrow> Inr (Some i, table @ [row_of_args i now c a])
            | Some (ValueError m) \<Rightarrow> Inl (ValueError m)
            | Some _ \<Rightarrow> Inr (None, table)))"
  using label_valid
  by (auto simp: record_trade_outcome_def insert_decision_outcome_def split: option.splits py_error.splits)

lemma find_append_fresh:
  assumes "i \<notin> set (map do_id table)"
  shows "get_decision_outcome_by_id i (table @ [r]) = (if do_id r = i then Some r else None)"
proof -
  have "find (\<lambda>r. do_id r = i) table = None" using assms by (auto simp: find_None_iff)
  then show ?thesis by (induction table) (auto simp: get_decision_outcome_by_id_def split: if_splits)
qed

lemma find_append_other:
  "do_id r \<noteq> i \<Longrightarrow> get_decision_outcome_by_id i (table @ [r]) = get_decision_outcome_by_id i table"
  by (induction table) (auto simp: get_decision_outcome_by_id_def)

lemma paper_exit_reason_valid:
  "pp_exit_reason (execute_entry c d n1 n2 n3 e sl tp dir) \<in> set valid_exit_reasons"
  by (auto simp: execute_entry_def simulate_exit_def valid_exit_reasons_def fail_open_result_def Let_def
      split: sum.splits option.splits prod.splits if_splits)

lemma in_table_db:
  assumes "r \<in> set table" "matches (filter_query now symbol None None None None) (outcome_row.truncate r)"
  shows "outcome_row.truncate r \<in> set (get_filtered_outcomes now (table_db table) symbol None None None None)"
  using assms
  by (simp add: get_filtered_outcomes_def table_db_def sql_db_def cut_def filter_query_def nonzero_def)

section \<open>Properties\<close>

text \<open>C28: every result of a paper execution, also the fail-open one, is accepted
  by the recorder; when the commit succeeds under a fresh id, reading the id back gives the trade
  with its profit, its prices, its exit and the multiple of the paper result (one that is absent
  is computed again from the prices), the result derived from the profit, and the statistics see
  it under its symbol. Rows recorded before are read back as they were.\<close>

theorem paper_trade_recorded:
  assumes "r = execute_entry c d n1 n2 n3 e sl tp (pid_direction ids)" "i \<notin> set (map do_id table)"
  shows "\<exists>row table'. record_trade_outcome i now created None (to_outcome_recorder_args ids r) table = Inr (Some i, table') \<and>
    get_decision_outcome_by_id i table' = Some row \<and>
    or_pnl row = pp_pnl r \<and> do_entry_price row = pp_entry_price r \<and> do_exit_price row = pp_exit_price r \<and>
    do_exit_reason row = pp_exit_reason r \<and> or_closed_at row = pp_exit_time r \<and>
    do_decision_id row = pid_decision_id ids \<and> do_direction row = Some (pid_direction ids) \<and>
    or_outcome row = outcome_of (pp_pnl r) \<and>
    do_r_multiple row = (case (pp_r_multiple r, pp_stop_loss_price r) of
        (None, Some s) \<Rightarrow> recorder_r_multiple (pp_entry_price r) (pp_exit_price r) s (Some (pid_direction ids))
      | (m, _) \<Rightarrow> m) \<and>
    outcome_row.truncate row \<in> set (get_filtered_outcomes now (table_db table') (Some (pid_symbol ids)) None None None None) \<and>
    (\<forall>j. j = i \<or> get_decision_outcome_by_id j table' = get_decision_outcome_by_id j table)"
proof -
  let ?a = "to_outcome_recorder_args ids r"
  let ?row = "row_of_args i now created ?a"
  have "oa_exit_reason ?a \<in> set valid_exit_reasons"
    using paper_exit_reason_valid by (simp add: to_outcome_recorder_args_def assms(1))
  then have rec: "record_trade_outcome i now created None ?a table = Inr (Some i, table @ [?row])"
    using assms(2) by (simp add: record_eq)
  have "matches (filter_query now (Some (pid_symbol ids)) None None None None) (outcome_row.truncate ?row)"
    by (simp add: matches_def filter_query_def nonempty_def nonzero_def eq_filter_def outcome_row.defs
        row_of_args_def to_outcome_recorder_args_def)
  then have "outcome_row.truncate ?row \<in> set (get_filtered_outcomes now (table_db (table @ [?row])) (Some (pid_symbol ids)) None None None None)"
    by (intro in_table_db) simp_all
  moreover have "get_decision_outcome_by_id i (table @ [?row]) = Some ?row"
    by (simp add: find_append_fresh[OF assms(2)])
  moreover have "j = i \<or> get_decision_outcome_by_id j (table @ [?row]) = get_decision_outcome_by_id j table" for j
    using find_append_other[of ?row j] by auto
  moreover have "or_pnl ?row = pp_pnl r" "do_entry_price ?row = pp_entry_price r"
      "do_exit_price ?row = pp_exit_price r" "do_exit_reason ?row = pp_exit_reason r"
      "or_closed_at ?row = pp_exit_time r" "do_decision_id ?row = pid_decision_id ids"
      "do_direction ?row = Some (pid_direction ids)" "or_outcome ?row = outcome_of (pp_pnl r)"
      "do_r_multiple ?row = (case (pp_r_multiple r, pp_stop_loss_price r) of
        (None, Some s) \<Rightarrow> recorder_r_multiple (pp_entry_price r) (pp_exit_price r) s (Some (pid_direction ids))
      | (m, _) \<Rightarrow> m)"
    by (simp_all add: row_of_args_def to_outcome_recorder_args_def outcome_label_def outcome_of_def
        row_r_multiple_def split: option.splits)
  ultimately show ?thesis using rec by blast
qed

definition demo_ids :: trade_ids where
  "demo_ids = \<lparr>pid_decision_id = ''D1'', pid_symbol = ''EURUSD'', pid_timeframe = ''4H'',
     pid_signal_type = ''choch'', pid_direction = ''long'', pid_model = None, pid_session = None\<rparr>"

theorem paper_trade_recorded_witness:
  "\<exists>row table'. record_trade_outcome ''o1'' 0 0 None
       (to_outcome_recorder_args demo_ids (execute_entry default_config mid_draws 0 0 0 (Some 100) (Some 99) (Some 102) ''long''))
       [] = Inr (Some ''o1'', table') \<and>
     get_decision_outcome_by_id ''o1'' table' = Some row \<and>
     or_pnl row = pp_pnl (execute_entry default_config mid_draws 0 0 0 (Some 100) (Some 99) (Some 102) ''long'')"
proof -
  have d: "pid_direction demo_ids = ''long''" by (simp add: demo_ids_def)
  have n: "''o1'' \<notin> set (map do_id [])" by simp
  show ?thesis
    using paper_trade_recorded[of "execute_entry default_config mid_draws 0 0 0 (Some 100) (Some 99) (Some 102) ''long''"
        default_config mid_draws 0 0 0 "Some 100" "Some 99" "Some 102" demo_ids, unfolded d, OF refl n, of 0 0]
    by blast
qed

text \<open>Recording a trade raises exactly for a bad exit reason or an error of
  the commit that is a \<open>ValueError\<close>; otherwise it answers an id and the table has that one new row
  at its end, or it answers \<open>None\<close> and the table is as before.\<close>

theorem record_all_or_nothing:
  "(case record_trade_outcome i now created commit a table of
      Inl e \<Rightarrow> (\<exists>m. e = ValueError m) \<and>
        (oa_exit_reason a \<notin> set valid_exit_reasons \<or> (\<exists>m. commit = Some (ValueError m)))
    | Inr (Some j, table') \<Rightarrow> j = i \<and> commit = None \<and> i \<notin> set (map do_id table) \<and>
        table' = table @ [row_of_args i now created a] \<and> oa_exit_reason a \<in> set valid_exit_reasons \<and>
        or_outcome (List.last table') = outcome_label (oa_pnl a)
    | Inr (None, table') \<Rightarrow> table' = table \<and> (i \<in> set (map do_id table) \<or> commit \<noteq> None))"
  by (auto simp: record_eq split: option.splits py_error.splits)

end
