(* ===== verification/Analytics.thy ===== *)
theory Analytics
  imports Outcome_Stats Py_Values
begin

text \<open>
  \<open>reasoner_service/outcome_analytics_service.py\<close>: what the policies would have vetoed (precision,
  recall, a heatmap per signal and timeframe) and how the closed trades fall into market regimes.

  The analyses read dictionaries with \<open>get\<close>, so outcomes and shadow evaluations are dictionaries
  here; the values of the three key fields and of the result are strings or \<open>None\<close>, so comparing
  them as values and using them as keys agrees with Python. The reports other components read
  with \<open>get\<close> are dictionaries too. The standard deviation is a real number. Of an outcome the
  fields \<open>id\<close>, \<open>exit_reason\<close> and \<open>closed_at\<close>, which no analysis reads, are left out, as are the
  constant notes.
\<close>

section \<open>Reading the outcomes\<close>

definition outcome_dict :: "outcome_row \<Rightarrow> pydict" where
  "outcome_dict x =
     [(''symbol'', VStr (or_symbol x)), (''signal_type'', VStr (or_signal_type x)),
      (''timeframe'', VStr (or_timeframe x)), (''pnl'', VFloat (or_pnl x)),
      (''outcome'', VStr (or_outcome x))]"

definition analysis_query ::
    "time \<Rightarrow> string option \<Rightarrow> string option \<Rightarrow> string option \<Rightarrow> int option \<Rightarrow> outcome_query" where
  "analysis_query now symbol signal_type timeframe last_n_days =
    \<lparr>oq_symbol = nonempty symbol, oq_timeframe = nonempty timeframe,
     oq_signal_type = nonempty signal_type,
     oq_closed_from = map_option (\<lambda>d. now - d * 86400000000) (nonzero last_n_days),
     oq_closed_to = None, oq_newest_first = False, oq_limit = None\<rparr>"

text \<open>The ascending order the query asks for is a sort of the rows the database answers.\<close>

definition get_outcomes_for_analysis ::
    "time \<Rightarrow> database \<Rightarrow> string option \<Rightarrow> string option \<Rightarrow> string option \<Rightarrow> int option \<Rightarrow> pydict list" where
  "get_outcomes_for_analysis now db symbol signal_type timeframe last_n_days =
     (case db (analysis_query now symbol signal_type timeframe last_n_days) of
        Inl _ \<Rightarrow> []
      | Inr rows \<Rightarrow> map outcome_dict (sort_key or_closed_at rows))"

section \<open>The veto impact\<close>

type_synonym veto_tuple = "pyval \<times> pyval \<times> pyval"

definition veto_key :: "pydict \<Rightarrow> veto_tuple" where
  "veto_key d = (dget ''signal_type'' d VNone, dget ''symbol'' d VNone, dget ''timeframe'' d VNone)"

definition is_veto :: "pydict \<Rightarrow> bool" where
  "is_veto e \<longleftrightarrow> dget ''decision'' e VNone = VStr ''veto''"

definition veto_index :: "pydict list \<Rightarrow> veto_tuple list" where
  "veto_index shadow_evaluations = remdups (map veto_key (filter is_veto shadow_evaluations))"

definition result_is :: "string \<Rightarrow> pydict \<Rightarrow> bool" where
  "result_is r d \<longleftrightarrow> dget ''outcome'' d VNone = VStr r"

fun veto_loop :: "veto_tuple list \<Rightarrow> int \<Rightarrow> int \<Rightarrow> int \<Rightarrow> pydict list \<Rightarrow> int \<times> int \<times> int" where
  "veto_loop ix vetoed winners losers [] = (vetoed, winners, losers)"
| "veto_loop ix vetoed winners losers (x # xs) =
     (if veto_key x \<in> set ix then
        veto_loop ix (vetoed + 1) (if result_is ''win'' x then winners + 1 else winners)
          (if result_is ''loss'' x then losers + 1 else losers) xs
      else veto_loop ix vetoed winners losers xs)"

definition ratio :: "int \<Rightarrow> int \<Rightarrow> rat" where
  "ratio a b = (if b > 0 then of_int a / of_int b else 0)"

definition policy_veto_impact :: "time \<Rightarrow> pydict list option \<Rightarrow> pydict list option \<Rightarrow> pydict" where
  "policy_veto_impact now outcomes shadow_evaluations =
     (let os = case_option [] id outcomes;
          ix = veto_index (case_option [] id shadow_evaluations);
          (vetoed, winners, losers) = veto_loop ix 0 0 0 os;
          total_losers = count_if (result_is ''loss'') os
      in [(''total_trades'', VInt (int (length os))),
          (''would_have_been_vetoed'', VInt vetoed),
          (''vetoed_winners'', VInt winners),
          (''vetoed_losers'', VInt losers),
          (''veto_precision'', VFloat (py_round 4 (ratio losers vetoed))),
          (''veto_recall'', VFloat (py_round 4 (ratio losers total_losers))),
          (''veto_false_positives'', VInt winners),
          (''veto_false_negatives'', VInt (total_losers - losers)),
          (''analysis_period'', VIso now)])"

section \<open>The heatmap\<close>

record signal_stats =
  sg_total_trades :: int
  sg_vetoed_trades :: int
  sg_if_vetoed :: "(pyval \<times> int) list"
  sg_if_allowed :: "(pyval \<times> int) list"

definition fresh_performance :: "(pyval \<times> int) list" where
  "fresh_performance = [(VStr ''wins'', 0), (VStr ''losses'', 0), (VStr ''breakeven'', 0)]"

definition fresh_signal_stats :: signal_stats where
  "fresh_signal_stats = \<lparr>sg_total_trades = 0, sg_vetoed_trades = 0,
     sg_if_vetoed = fresh_performance, sg_if_allowed = fresh_performance\<rparr>"

definition signal_tf_key :: "pydict \<Rightarrow> pyval \<times> pyval" where
  "signal_tf_key d = (dget ''signal_type'' d VNone, dget ''timeframe'' d VNone)"

definition is_vetoed :: "pydict list \<Rightarrow> pydict \<Rightarrow> bool" where
  "is_vetoed evals x \<longleftrightarrow> veto_key x \<in> set (veto_index evals) \<or>
     (dget ''symbol'' x VNone = VNone \<and> signal_tf_key x \<in> signal_tf_key ` set (filter is_veto evals))"

definition count_signal :: "pydict list \<Rightarrow> pydict \<Rightarrow> signal_stats \<Rightarrow> signal_stats" where
  "count_signal evals x g =
     (let perf_key = dget ''outcome'' x (VStr ''breakeven'');
          g = g\<lparr>sg_total_trades := sg_total_trades g + 1\<rparr>
      in if is_vetoed evals x
         then g\<lparr>sg_vetoed_trades := sg_vetoed_trades g + 1, sg_if_vetoed := bump perf_key (sg_if_vetoed g)\<rparr>
         else g\<lparr>sg_if_allowed := bump perf_key (sg_if_allowed g)\<rparr>)"

definition signal_table :: "pydict list \<Rightarrow> pydict list \<Rightarrow> (pyval \<times> signal_stats) list" where
  "signal_table evals os =
     fold (\<lambda>x table. let s = dget ''signal_type'' x (VStr ''unknown'') in
             AList.update s (count_signal evals x (dget s table fresh_signal_stats)) table) os []"

definition timeframe_table :: "pydict list \<Rightarrow> pydict list \<Rightarrow> (pyval \<times> int \<times> int) list" where
  "timeframe_table evals os =
     fold (\<lambda>x table. let tf = dget ''timeframe'' x (VStr ''unknown'');
                         (n, v) = dget tf table (0, 0)
                     in AList.update tf (n + 1, if veto_key x \<in> set (veto_index evals) then v + 1 else v) table)
          os []"

record heatmap =
  hm_by_signal_type :: "(pyval \<times> signal_stats \<times> rat) list"
  hm_by_timeframe :: "(pyval \<times> int \<times> int \<times> rat) list"

definition signal_policy_heatmap :: "pydict list option \<Rightarrow> pydict list option \<Rightarrow> heatmap" where
  "signal_policy_heatmap outcomes shadow_evaluations =
     (let os = case_option [] id outcomes; evals = case_option [] id shadow_evaluations in
      \<lparr>hm_by_signal_type =
         map (\<lambda>(s, g). (s, g, py_round 4 (ratio (sg_vetoed_trades g) (sg_total_trades g)))) (signal_table evals os),
       hm_by_timeframe =
         map (\<lambda>(tf, n, v). (tf, n, v, py_round 4 (ratio v n))) (timeframe_table evals os)\<rparr>)"

section \<open>Market regimes\<close>

text \<open>A \<open>pnl\<close> that is not a number makes the arithmetic raise.\<close>

fun numbers :: "pyval list \<Rightarrow> rat list option" where
  "numbers [] = Some []"
| "numbers (v # vs) =
     (case as_number v of None \<Rightarrow> None | Some x \<Rightarrow> map_option ((#) x) (numbers vs))"

definition mean :: "rat list \<Rightarrow> rat" where
  "mean xs = sum_list xs / of_nat (length xs)"

definition variance :: "rat list \<Rightarrow> rat" where
  "variance xs = sum_list (map (\<lambda>p. (p - mean xs) ^ 2) xs) / of_nat (length xs)"

definition std_dev :: "rat list \<Rightarrow> real" where
  "std_dev xs = sqrt (of_rat (variance xs))"

definition regime_of :: "rat \<Rightarrow> real \<Rightarrow> rat \<Rightarrow> string option" where
  "regime_of mean_pnl std pnl =
     (let trending_threshold = of_rat mean_pnl + std;
          ranging_threshold = of_rat mean_pnl - std;
          volatility_threshold = std * (3/2)
      in if (of_rat \<bar>pnl\<bar> :: real) > volatility_threshold then Some ''high_volatility''
         else if (of_rat pnl :: real) > trending_threshold then Some ''trending_market''
         else if (of_rat pnl :: real) < ranging_threshold then Some ''ranging_market''
         else None)"

definition regime_names :: "string list" where
  "regime_names = [''trending_market'', ''ranging_market'', ''high_volatility'']"

definition regime_report :: "(rat \<times> pydict) list \<Rightarrow> pyval" where
  "regime_report members =
     (if members = [] then VDict [(''trades_in_regime'', VInt 0)]
      else
        (let n = int (length members);
             wins = count_if (result_is ''win'') (map snd members);
             losses = count_if (result_is ''loss'') (map snd members)
         in VDict
           [(''trades_in_regime'', VInt n),
            (''win_rate'', VFloat (py_round 4 (of_int wins / of_int n))),
            (''loss_rate'', VFloat (py_round 4 (of_int losses / of_int n))),
            (''avg_pnl'', VFloat (py_round 2 (mean (map fst members)))),
            (''total_pnl'', VFloat (py_round 2 (sum_list (map fst members))))]))"

definition regime_policy_performance :: "time \<Rightarrow> pydict list option \<Rightarrow> py_error + pydict" where
  "regime_policy_performance now outcomes =
     (let os = case_option [] id outcomes in
      if os = [] then
        Inr (map (\<lambda>r. (r, VDict [(''trades_in_regime'', VInt 0)])) regime_names @ [(''analysis_period'', VIso now)])
      else
        (case numbers (map (\<lambda>x. dget ''pnl'' x (VInt 0)) os) of
           None \<Rightarrow> Inl (TypeError [T ''unsupported operand type(s)''])
         | Some pnls \<Rightarrow>
             (let m = mean pnls; std = std_dev pnls; rows = zip pnls os in
              Inr (map (\<lambda>r. (r, regime_report (filter (\<lambda>(p, x). regime_of m std p = Some r) rows))) regime_names
                   @ [(''analysis_period'', VIso now)]))))"

section \<open>The full report\<close>

record analytics_report =
  ar_period_days :: "int option"
  ar_total_outcomes :: int
  ar_veto_impact :: pydict
  ar_heatmap :: heatmap
  ar_regimes :: pydict
  ar_generated_at :: time

text \<open>The shadow evaluations are an empty list in the code, too.\<close>

definition full_analytics_report :: "time \<Rightarrow> database \<Rightarrow> int option \<Rightarrow> py_error + analytics_report" where
  "full_analytics_report now db last_n_days =
     (let os = get_outcomes_for_analysis now db None None None last_n_days;
          shadow_evaluations = [] in
      case regime_policy_performance now (Some os) of
        Inl e \<Rightarrow> Inl e
      | Inr regimes \<Rightarrow>
          Inr \<lparr>ar_period_days = last_n_days, ar_total_outcomes = int (length os),
               ar_veto_impact = policy_veto_impact now (Some os) (Some shadow_evaluations),
               ar_heatmap = signal_policy_heatmap (Some os) (Some shadow_evaluations),
               ar_regimes = regimes, ar_generated_at = now\<rparr>)"

section \<open>Lemmas\<close>

lemma count_if_simps [simp]:
  "count_if p [] = 0"
  "count_if p (x # xs) = (if p x then 1 else 0) + count_if p xs"
  by (simp_all add: count_if_def)

lemma count_if_nonneg: "0 \<le> count_if p xs"
  by (simp add: count_if_def)

lemma count_if_mono: "(\<And>x. p x \<Longrightarrow> q x) \<Longrightarrow> count_if p xs \<le> count_if q xs"
  by (induction xs) auto

lemma count_if_perm: "mset xs = mset ys \<Longrightarrow> count_if p xs = count_if p ys"
  by (simp add: count_if_def) (metis mset_filter size_mset)

lemma veto_loop_eq:
  "veto_loop ix v w l xs =
     (v + count_if (\<lambda>x. veto_key x \<in> set ix) xs,
      w + count_if (\<lambda>x. veto_key x \<in> set ix \<and> result_is ''win'' x) xs,
      l + count_if (\<lambda>x. veto_key x \<in> set ix \<and> result_is ''loss'' x) xs)"
  by (induction xs arbitrary: v w l) (auto simp: result_is_def)

lemma veto_index_set: "set (veto_index evals) = veto_key ` {e \<in> set evals. is_veto e}"
  by (auto simp: veto_index_def)

lemma ratio_bounds: "0 \<le> a \<Longrightarrow> a \<le> b \<Longrightarrow> 0 \<le> ratio a b \<and> ratio a b \<le> 1"
  by (simp add: ratio_def divide_le_eq)

lemma numbers_length: "numbers vs = Some xs \<Longrightarrow> length xs = length vs"
  by (induction vs arbitrary: xs) (auto split: option.splits)

lemma regime_names_simps [simp]:
  "map_of (map (\<lambda>r. (r, f r)) regime_names @ ds) ''trending_market'' = Some (f ''trending_market'')"
  "map_of (map (\<lambda>r. (r, f r)) regime_names @ ds) ''ranging_market'' = Some (f ''ranging_market'')"
  "map_of (map (\<lambda>r. (r, f r)) regime_names @ ds) ''high_volatility'' = Some (f ''high_volatility'')"
  by (simp_all add: regime_names_def)

end
