(* ===== verification/Confidence.thy ===== *)
theory Confidence
  imports Analytics
begin

text \<open>
  \<open>reasoner_service/policy_confidence_evaluator.py\<close>: the score from 0 to 1 that says how far the
  analytics of a policy support enforcing it, and the verdict \<open>enforcement_ready\<close>.

  The registered analytics are the dictionaries that \<open>outcome_analytics_service.py\<close> produces; the
  heatmap is stored and never read. Numbers of any Python type are read as reals (the standard
  deviation is a square root). Every exception inside \<open>evaluate_policy\<close> becomes an error report,
  whose explanation here keeps the fixed part of the message. The pictograms are left out.
\<close>

section \<open>The evaluator and its reports\<close>

record evaluator =
  ce_min_sample_size :: real
  ce_min_confidence_threshold :: real
  ce_false_negative_penalty :: real
  ce_false_positive_penalty :: real
  ce_regime_instability_penalty :: real
  ce_min_net_pnl_delta :: real
  ce_policy_analytics :: "(string \<times> pydict \<times> heatmap \<times> pydict) list"

definition default_evaluator :: evaluator where
  "default_evaluator =
    \<lparr>ce_min_sample_size = 30, ce_min_confidence_threshold = 7/10, ce_false_negative_penalty = 3/10,
     ce_false_positive_penalty = 1/10, ce_regime_instability_penalty = 2/10,
     ce_min_net_pnl_delta = 100, ce_policy_analytics = []\<rparr>"

definition add_policy_analytics :: "string \<Rightarrow> pydict \<Rightarrow> heatmap \<Rightarrow> pydict \<Rightarrow> evaluator \<Rightarrow> evaluator" where
  "add_policy_analytics name veto_impact hm regimes e =
     e\<lparr>ce_policy_analytics := AList.update name (veto_impact, hm, regimes) (ce_policy_analytics e)\<rparr>"

text \<open>The lines of an explanation: text, and the numbers that are formatted into it.\<close>

datatype line = Line string | Policy string | Count string real | Percent string real | Dollars string real

record confidence_report =
  cr_policy_name :: string
  cr_sample_size :: real
  cr_false_positive_rate :: real
  cr_false_negative_rate :: real
  cr_net_pnl_delta :: real
  cr_regime_instability :: real
  cr_confidence_score :: real
  cr_enforcement_ready :: bool
  cr_explanation :: "line list"
  cr_evaluated_at :: time

definition confidence_error_report :: "time \<Rightarrow> string \<Rightarrow> string \<Rightarrow> confidence_report" where
  "confidence_error_report now name msg =
    \<lparr>cr_policy_name = name, cr_sample_size = 0, cr_false_positive_rate = 0, cr_false_negative_rate = 0,
     cr_net_pnl_delta = 0, cr_regime_instability = 0, cr_confidence_score = 0,
     cr_enforcement_ready = False, cr_explanation = [Line (''Evaluation failed: '' @ msg)],
     cr_evaluated_at = now\<rparr>"

section \<open>The metrics\<close>

text \<open>\<open>d.get(k, default)\<close> used as a number.\<close>

definition get_number :: "string \<Rightarrow> pydict \<Rightarrow> real \<Rightarrow> real option" where
  "get_number k d dflt =
     (case map_of d k of None \<Rightarrow> Some dflt | Some v \<Rightarrow> map_option of_rat (as_number v))"

definition calculate_net_pnl_delta :: "pydict \<Rightarrow> real option" where
  "calculate_net_pnl_delta veto_impact =
     (case (get_number ''vetoed_losers'' veto_impact 0, get_number ''vetoed_winners'' veto_impact 0) of
        (Some losers, Some winners) \<Rightarrow> Some (losers * \<bar>-75\<bar> + winners * - 100)
      | _ \<Rightarrow> None)"

text \<open>The win rate of one regime, if there are trades in it; \<open>None\<close> is an exception.\<close>

definition regime_win_rate :: "pyval \<Rightarrow> real list option" where
  "regime_win_rate regime_data =
     (case regime_data of
        VDict d \<Rightarrow>
          (case get_number ''trades_in_regime'' d 0 of
             None \<Rightarrow> None
           | Some trades \<Rightarrow>
               if trades > 0
               then map_option (\<lambda>wins. [wins / trades]) (get_number ''wins'' d 0)
               else Some [])
      | _ \<Rightarrow> None)"

definition regime_data :: "string \<Rightarrow> pydict \<Rightarrow> pyval" where
  "regime_data r regime_perf = dget r regime_perf (VDict [])"

fun win_rates :: "pyval list \<Rightarrow> real list option" where
  "win_rates [] = Some []"
| "win_rates (v # vs) =
     (case (regime_win_rate v, win_rates vs) of (Some a, Some b) \<Rightarrow> Some (a @ b) | _ \<Rightarrow> None)"

definition real_mean :: "real list \<Rightarrow> real" where
  "real_mean xs = sum_list xs / of_nat (length xs)"

definition coefficient_of_variation :: "real list \<Rightarrow> real" where
  "coefficient_of_variation xs =
     (let mean_wr = real_mean xs;
          var = sum_list (map (\<lambda>wr. (wr - mean_wr) ^ 2) xs) / of_nat (length xs);
          std = sqrt var
      in if mean_wr > 0 then std / mean_wr else 1)"

definition assess_regime_instability :: "pydict \<Rightarrow> real" where
  "assess_regime_instability regime_perf =
     (case win_rates (map (\<lambda>r. regime_data r regime_perf)
             [''trending_market'', ''ranging_market'', ''high_volatility'']) of
        None \<Rightarrow> 1/2
      | Some rates \<Rightarrow>
          if length rates < 2 then 0
          else if real_mean rates = 0 then 1
          else min (coefficient_of_variation rates) 1)"

text \<open>\<open>None\<close> is the division by a minimum sample size of zero.\<close>

definition compute_confidence_score :: "evaluator \<Rightarrow> real \<Rightarrow> real \<Rightarrow> real \<Rightarrow> real \<Rightarrow> real \<Rightarrow> real option" where
  "compute_confidence_score e sample_size fpr fnr instability net_pnl_delta =
     (if sample_size < ce_min_sample_size e \<and> ce_min_sample_size e = 0 then None
      else
        (let size_penalty = (if sample_size < ce_min_sample_size e
                             then (1 - sample_size / ce_min_sample_size e) * (1/2) else 0);
             score = 1 - size_penalty - fnr * ce_false_negative_penalty e
                     - fpr * ce_false_positive_penalty e - instability * ce_regime_instability_penalty e;
             bonus = (if net_pnl_delta > ce_min_net_pnl_delta e
                      then min (1/10) ((net_pnl_delta - ce_min_net_pnl_delta e) / 2000) else 0)
         in Some (max 0 (min 1 (score + bonus)))))"

definition confidence_explanation ::
    "evaluator \<Rightarrow> string \<Rightarrow> real \<Rightarrow> real \<Rightarrow> real \<Rightarrow> real \<Rightarrow> real \<Rightarrow> real \<Rightarrow> bool \<Rightarrow> line list" where
  "confidence_explanation e name sample_size fpr fnr delta instability score ready =
     [Policy name, Percent ''Confidence Score: '' score, Line [], Count ''Sample Size: '' sample_size] @
     (if sample_size < ce_min_sample_size e
      then [Count ''Below minimum'' (ce_min_sample_size e)] else [Line ''Sufficient historical data.'']) @
     [Line [], Percent ''False Positives (Vetoed Winners): '' fpr] @
     [if fpr > 3/10 then Line ''High false positive rate. Policy may be too aggressive.''
      else Line ''Acceptable false positive rate.''] @
     [Line [], Percent ''False Negatives (Allowed Losers): '' fnr] @
     [if fnr > 2/10 then Line ''High false negative rate. Policy is missing trades to veto.''
      else Line ''Good catch rate for losers.''] @
     [Line [], Dollars ''Net PnL Delta (if enforced): '' delta] @
     [if delta > ce_min_net_pnl_delta e then Line ''Policy would improve P&L.''
      else if delta > 0 then Line ''Modest improvement. Continue monitoring.''
      else Line ''Policy would reduce P&L.''] @
     [Line [], Percent ''Regime Instability: '' instability] @
     [if instability > 1/2 then Line ''Performance varies significantly across market conditions.''
      else Line ''Consistent performance across regimes.''] @
     [Line []] @
     [if ready then Line ''READY FOR FUTURE ENFORCEMENT CONSIDERATION (requires separate authorization)''
      else Line ''NOT READY for enforcement. Address issues above.''] @
     [Line [], Line ''Note: This is analytical evidence only. Enforcement is NOT automatic and requires human review.'']"

section \<open>Evaluation\<close>

definition evaluate_analytics ::
    "time \<Rightarrow> evaluator \<Rightarrow> string \<Rightarrow> pydict \<Rightarrow> pydict \<Rightarrow> confidence_report option" where
  "evaluate_analytics now e name veto_impact regime_perf =
     (case (get_number ''total_trades'' veto_impact 0, get_number ''veto_precision'' veto_impact 1,
            get_number ''veto_recall'' veto_impact 1, calculate_net_pnl_delta veto_impact) of
        (Some sample_size, Some precision, Some recall, Some delta) \<Rightarrow>
          (let fpr = 1 - precision; fnr = 1 - recall;
               instability = assess_regime_instability regime_perf in
           case compute_confidence_score e sample_size fpr fnr instability delta of
             None \<Rightarrow> None
           | Some score \<Rightarrow>
               (let ready = (score \<ge> ce_min_confidence_threshold e \<and> sample_size \<ge> ce_min_sample_size e) in
                Some \<lparr>cr_policy_name = name, cr_sample_size = sample_size,
                      cr_false_positive_rate = py_round 4 fpr, cr_false_negative_rate = py_round 4 fnr,
                      cr_net_pnl_delta = py_round 2 delta, cr_regime_instability = py_round 4 instability,
                      cr_confidence_score = py_round 4 score, cr_enforcement_ready = ready,
                      cr_explanation = confidence_explanation e name sample_size fpr fnr delta instability score ready,
                      cr_evaluated_at = now\<rparr>))
      | _ \<Rightarrow> None)"

definition evaluate_policy :: "time \<Rightarrow> evaluator \<Rightarrow> string \<Rightarrow> confidence_report" where
  "evaluate_policy now e name =
     (case map_of (ce_policy_analytics e) name of
        None \<Rightarrow> confidence_error_report now name ''Policy not found in evaluator. No analytics registered.''
      | Some (veto_impact, _, regime_perf) \<Rightarrow>
          (case evaluate_analytics now e name veto_impact regime_perf of
             None \<Rightarrow> confidence_error_report now name ''Error during evaluation: ''
           | Some r \<Rightarrow> r))"

definition evaluate_all_policies :: "time \<Rightarrow> evaluator \<Rightarrow> confidence_report list" where
  "evaluate_all_policies now e = map (evaluate_policy now e \<circ> fst) (ce_policy_analytics e)"

section \<open>Lemmas\<close>

lemma score_bounds: "compute_confidence_score e n a b c d = Some s \<Longrightarrow> 0 \<le> s \<and> s \<le> 1"
  by (auto simp: compute_confidence_score_def Let_def split: if_splits)

lemma py_round_unit: "0 \<le> (x::'a::floor_ceiling) \<Longrightarrow> x \<le> 1 \<Longrightarrow> 0 \<le> py_round n x \<and> py_round n x \<le> 1"
  using py_round_bounds[of 0 x 1 n] by simp

lemma instability_bounds:
  "0 \<le> assess_regime_instability rp" "assess_regime_instability rp \<le> 1"
proof -
  have "0 \<le> coefficient_of_variation xs" for xs
    by (auto simp: coefficient_of_variation_def Let_def intro!: divide_nonneg_nonneg sum_list_nonneg)
  then show "0 \<le> assess_regime_instability rp" "assess_regime_instability rp \<le> 1"
    by (auto simp: assess_regime_instability_def split: option.splits)
qed

text \<open>The reports of the analytics service carry no number of wins.\<close>

definition regime_trades :: "pyval \<Rightarrow> real" where
  "regime_trades v = (case v of VDict d \<Rightarrow> (case get_number ''trades_in_regime'' d 0 of None \<Rightarrow> 0 | Some n \<Rightarrow> n) | _ \<Rightarrow> 0)"

lemma regime_report_rate:
  "regime_win_rate (regime_report ms) = Some (if ms = [] then [] else [0])"
  by (simp add: regime_report_def regime_win_rate_def get_number_def Let_def)

lemma empty_regime_rate:
  "regime_win_rate (VDict [(''trades_in_regime'', VInt 0)]) = Some []"
  by (simp add: regime_win_rate_def get_number_def)

lemma regime_report_trades: "regime_trades (regime_report ms) > 0 \<longleftrightarrow> ms \<noteq> []"
  by (simp add: regime_report_def regime_trades_def get_number_def Let_def)

lemma regime_trades_empty: "regime_trades (VDict [(''trades_in_regime'', VInt 0)]) = 0"
  by (simp add: regime_trades_def get_number_def)

end
