(* ===== verification/Analytics_Props.thy ===== *)
theory Analytics_Props
  imports Confidence
begin

text \<open>
  What the analytics count, and what the confidence evaluator makes of them: the veto impact and
  the heatmap against the outcomes they summarise, and the composition of the two services.
\<close>

section \<open>The heatmap as counts\<close>

definition signal_of :: "pydict \<Rightarrow> pyval" where
  "signal_of x = dget ''signal_type'' x (VStr ''unknown'')"

definition perf_of :: "pydict \<Rightarrow> pyval" where
  "perf_of x = dget ''outcome'' x (VStr ''breakeven'')"

lemma dget_bump': "dget k (bump k' d) 0 = dget k d 0 + (if k = k' then 1 else 0)"
  by (simp add: dget_bump)

lemma count_if_append: "count_if p (xs @ ys) = count_if p xs + count_if p ys"
  by (induction xs) auto

lemma count_if_zero: "(\<And>x. x \<in> set xs \<Longrightarrow> \<not> p x) \<Longrightarrow> count_if p xs = 0"
  by (induction xs) auto

lemma fresh_performance_zero: "dget k fresh_performance 0 = 0"
  by (simp add: fresh_performance_def dget_def)

lemma signal_table_snoc:
  "signal_table evals (os @ [x]) =
     AList.update (signal_of x) (count_signal evals x (dget (signal_of x) (signal_table evals os) fresh_signal_stats))
       (signal_table evals os)"
  by (simp add: signal_table_def signal_of_def Let_def)

lemma signal_table_distinct: "distinct (map fst (signal_table evals os))"
  by (induction os rule: rev_induct)
     (auto simp: signal_table_snoc distinct_update, simp add: signal_table_def)

lemma count_signal_simps:
  "sg_total_trades (count_signal evals x g) = sg_total_trades g + 1"
  "sg_vetoed_trades (count_signal evals x g) = sg_vetoed_trades g + (if is_vetoed evals x then 1 else 0)"
  "dget k (sg_if_vetoed (count_signal evals x g)) 0 =
     dget k (sg_if_vetoed g) 0 + (if is_vetoed evals x \<and> k = perf_of x then 1 else 0)"
  "dget k (sg_if_allowed (count_signal evals x g)) 0 =
     dget k (sg_if_allowed g) 0 + (if \<not> is_vetoed evals x \<and> k = perf_of x then 1 else 0)"
  by (simp_all add: count_signal_def Let_def perf_of_def dget_bump')

definition heatmap_stats :: "pydict list \<Rightarrow> pydict list \<Rightarrow> pyval \<Rightarrow> signal_stats" where
  "heatmap_stats evals os s = dget s (signal_table evals os) fresh_signal_stats"

lemma heatmap_stats_counts:
  "sg_total_trades (heatmap_stats evals os s) = count_if (\<lambda>x. signal_of x = s) os"
  "sg_vetoed_trades (heatmap_stats evals os s) = count_if (\<lambda>x. signal_of x = s \<and> is_vetoed evals x) os"
  "dget k (sg_if_vetoed (heatmap_stats evals os s)) 0 =
     count_if (\<lambda>x. signal_of x = s \<and> is_vetoed evals x \<and> perf_of x = k) os"
  "dget k (sg_if_allowed (heatmap_stats evals os s)) 0 =
     count_if (\<lambda>x. signal_of x = s \<and> \<not> is_vetoed evals x \<and> perf_of x = k) os"
  by (induction os rule: rev_induct)
     (auto simp: heatmap_stats_def signal_table_snoc count_signal_simps count_if_append fresh_performance_zero,
      simp_all add: signal_table_def dget_def fresh_signal_stats_def fresh_performance_zero[unfolded dget_def])

lemma signal_table_entry: "(s, g) \<in> set (signal_table evals os) \<Longrightarrow> g = heatmap_stats evals os s"
  by (simp add: heatmap_stats_def dget_def map_of_is_SomeI[OF signal_table_distinct])

section \<open>Regimes and instability\<close>

lemma regime_data_found:
  "r \<in> set regime_names \<Longrightarrow> regime_data r (map (\<lambda>r. (r, f r)) regime_names @ ds) = f r"
  by (auto simp: regime_data_def dget_def regime_names_def)

lemma regimes_cases:
  assumes "regime_policy_performance now outcomes = Inr rp"
  obtains f ds where "rp = map (\<lambda>r. (r, f r)) regime_names @ ds"
    "\<And>r. f r = VDict [(''trades_in_regime'', VInt 0)] \<or> (\<exists>ms. f r = regime_report ms)"
proof -
  have "\<exists>f ds. rp = map (\<lambda>r. (r, f r)) regime_names @ ds \<and>
      (\<forall>r. f r = VDict [(''trades_in_regime'', VInt 0)] \<or> (\<exists>ms. f r = regime_report ms))"
    using assms
    by (auto simp: regime_policy_performance_def Let_def split: if_splits option.splits)
  then show ?thesis using that by blast
qed

definition active_regimes :: "pydict \<Rightarrow> nat" where
  "active_regimes rp = length (filter (\<lambda>v. regime_trades v > 0) (map (\<lambda>r. regime_data r rp) regime_names))"

lemma rate_of_report:
  assumes "v = VDict [(''trades_in_regime'', VInt 0)] \<or> (\<exists>ms. v = regime_report ms)"
  shows "regime_win_rate v = Some (if regime_trades v > 0 then [0] else [])"
  using assms
  by (auto simp: empty_regime_rate regime_trades_empty regime_report_rate regime_report_trades)

lemma win_rates_of_analytics:
  assumes "\<forall>v\<in>set vs. regime_win_rate v = Some (if regime_trades v > 0 then [0] else [])"
  shows "win_rates vs = Some (replicate (length (filter (\<lambda>v. regime_trades v > 0) vs)) 0)"
  using assms by (induction vs) auto

lemma mean_zeros: "real_mean (replicate n 0) = 0"
  by (simp add: real_mean_def sum_list_replicate)

lemma instability_of_analytics:
  assumes "regime_policy_performance now outcomes = Inr rp"
  shows "assess_regime_instability rp = (if active_regimes rp \<ge> 2 then 1 else 0)"
proof -
  obtain f ds where f: "rp = map (\<lambda>r. (r, f r)) regime_names @ ds"
      "\<And>r. f r = VDict [(''trades_in_regime'', VInt 0)] \<or> (\<exists>ms. f r = regime_report ms)"
    using regimes_cases[OF assms] by blast
  have data: "map (\<lambda>r. regime_data r rp) regime_names = map f regime_names"
    unfolding f(1) by (auto intro!: regime_data_found)
  have "\<forall>v\<in>set (map f regime_names). regime_win_rate v = Some (if regime_trades v > 0 then [0] else [])"
    using rate_of_report[OF f(2)] by auto
  from win_rates_of_analytics[OF this]
  have "win_rates (map (\<lambda>r. regime_data r rp) regime_names) = Some (replicate (active_regimes rp) 0)"
    unfolding active_regimes_def data .
  then show ?thesis
    by (simp add: assess_regime_instability_def regime_names_def[symmetric] mean_zeros)
qed

section \<open>Properties\<close>

definition vetoed_by :: "pydict list \<Rightarrow> pydict \<Rightarrow> bool" where
  "vetoed_by evals x \<longleftrightarrow> (\<exists>e\<in>set evals. is_veto e \<and> veto_key e = veto_key x)"

lemma in_veto_index: "veto_key x \<in> set (veto_index evals) \<longleftrightarrow> vetoed_by evals x"
  unfolding vetoed_by_def veto_index_set image_iff by auto

text \<open>The veto impact counts each outcome once whose signal type, symbol and
  timeframe some veto has. Precision is the share of losses among all vetoed trades, recall the
  share of vetoed losses among all losses, both rounded to four places and 0 when the divisor is.
  The documentation divides by the decided trades only: with a vetoed
  breakeven trade that quotient is a different one.\<close>

theorem veto_impact_exact:
  "let r = policy_veto_impact now (Some os) (Some evals);
       vetoed = count_if (vetoed_by evals) os;
       losers = count_if (\<lambda>x. vetoed_by evals x \<and> result_is ''loss'' x) os
   in dget ''total_trades'' r VNone = VInt (int (length os)) \<and>
      dget ''would_have_been_vetoed'' r VNone = VInt vetoed \<and>
      dget ''vetoed_winners'' r VNone = VInt (count_if (\<lambda>x. vetoed_by evals x \<and> result_is ''win'' x) os) \<and>
      dget ''vetoed_losers'' r VNone = VInt losers \<and>
      dget ''veto_false_negatives'' r VNone = VInt (count_if (\<lambda>x. \<not> vetoed_by evals x \<and> result_is ''loss'' x) os) \<and>
      dget ''veto_precision'' r VNone = VFloat (py_round 4 (of_int losers / of_int vetoed)) \<and>
      dget ''veto_recall'' r VNone = VFloat (py_round 4 (of_int losers / of_int (count_if (result_is ''loss'') os))) \<and>
      0 \<le> losers \<and> losers \<le> vetoed \<and> losers \<le> count_if (result_is ''loss'') os"
proof -
  let ?v = "count_if (vetoed_by evals) os" and ?t = "count_if (result_is ''loss'') os"
  let ?l = "count_if (\<lambda>x. vetoed_by evals x \<and> result_is ''loss'' x) os"
  let ?r = "policy_veto_impact now (Some os) (Some evals)"
  have le: "0 \<le> ?l" "?l \<le> ?v" "?l \<le> ?t" by (auto intro: count_if_nonneg count_if_mono)
  have split: "?t - ?l = count_if (\<lambda>x. \<not> vetoed_by evals x \<and> result_is ''loss'' x) os"
    by (induction os) auto
  have quot: "ratio ?l ?v = of_int ?l / of_int ?v" "ratio ?l ?t = of_int ?l / of_int ?t"
    using le by (auto simp: ratio_def)
  have r: "dget ''total_trades'' ?r VNone = VInt (int (length os))"
      "dget ''would_have_been_vetoed'' ?r VNone = VInt ?v"
      "dget ''vetoed_winners'' ?r VNone = VInt (count_if (\<lambda>x. vetoed_by evals x \<and> result_is ''win'' x) os)"
      "dget ''vetoed_losers'' ?r VNone = VInt ?l" "dget ''veto_false_negatives'' ?r VNone = VInt (?t - ?l)"
      "dget ''veto_precision'' ?r VNone = VFloat (py_round 4 (ratio ?l ?v))"
      "dget ''veto_recall'' ?r VNone = VFloat (py_round 4 (ratio ?l ?t))"
    by (simp_all add: policy_veto_impact_def veto_loop_eq in_veto_index dget_def Let_def)
  show ?thesis
    unfolding Let_def r split quot using le by blast
qed

text \<open>Every row of the heatmap counts its signal's trades exactly, per
  result and per verdict; but the counters it announces, "wins" and "losses", stay at 0 whatever
  the trades were, since a result is called "win" or "loss": those two counters are added beside
  them.\<close>

theorem heatmap_wins_always_zero:
  assumes "\<forall>x\<in>set os. perf_of x \<in> {VStr ''win'', VStr ''loss'', VStr ''breakeven''}"
    "(s, g, rate) \<in> set (hm_by_signal_type (signal_policy_heatmap (Some os) (Some evals)))"
  shows "sg_total_trades g = count_if (\<lambda>x. signal_of x = s) os \<and>
    sg_vetoed_trades g = count_if (\<lambda>x. signal_of x = s \<and> is_vetoed evals x) os \<and>
    dget (VStr ''win'') (sg_if_vetoed g) 0 =
      count_if (\<lambda>x. signal_of x = s \<and> is_vetoed evals x \<and> perf_of x = VStr ''win'') os \<and>
    dget (VStr ''loss'') (sg_if_allowed g) 0 =
      count_if (\<lambda>x. signal_of x = s \<and> \<not> is_vetoed evals x \<and> perf_of x = VStr ''loss'') os \<and>
    (\<forall>table\<in>{sg_if_vetoed g, sg_if_allowed g}. dget (VStr ''wins'') table 0 = 0 \<and> dget (VStr ''losses'') table 0 = 0)"
proof -
  have "(s, g) \<in> set (signal_table evals os)"
    using assms(2) by (auto simp: signal_policy_heatmap_def Let_def)
  then have g: "g = heatmap_stats evals os s" by (rule signal_table_entry)
  have no: "count_if (\<lambda>x. p x \<and> q x \<and> perf_of x = VStr k) os = 0" if "k \<in> {''wins'', ''losses''}" for p q k
    using assms(1) that by (intro count_if_zero) auto
  show ?thesis
    unfolding g heatmap_stats_counts by (simp add: heatmap_stats_counts no)
qed

definition demo_outcomes :: "pydict list" where
  "demo_outcomes = map outcome_dict
     [\<lparr>or_symbol = ''EURUSD'', or_timeframe = ''4H'', or_signal_type = ''choch'', or_pnl = 7, or_outcome = ''win'', or_closed_at = 1\<rparr>,
      \<lparr>or_symbol = ''EURUSD'', or_timeframe = ''4H'', or_signal_type = ''choch'', or_pnl = 1, or_outcome = ''win'', or_closed_at = 2\<rparr>,
      \<lparr>or_symbol = ''EURUSD'', or_timeframe = ''4H'', or_signal_type = ''bos'', or_pnl = -1, or_outcome = ''loss'', or_closed_at = 3\<rparr>,
      \<lparr>or_symbol = ''EURUSD'', or_timeframe = ''4H'', or_signal_type = ''bos'', or_pnl = -7, or_outcome = ''loss'', or_closed_at = 4\<rparr>]"

definition demo_vetoes :: "pydict list" where
  "demo_vetoes = [[(''decision'', VStr ''veto''), (''signal_type'', VStr ''choch''), (''symbol'', VStr ''EURUSD''), (''timeframe'', VStr ''4H'')]]"

lemma demo_table:
  "hm_by_signal_type (signal_policy_heatmap (Some demo_outcomes) (Some demo_vetoes)) =
   [(VStr ''choch'', \<lparr>sg_total_trades = 2, sg_vetoed_trades = 2,
       sg_if_vetoed = fresh_performance @ [(VStr ''win'', 2)], sg_if_allowed = fresh_performance\<rparr>, 1),
    (VStr ''bos'', \<lparr>sg_total_trades = 2, sg_vetoed_trades = 0,
       sg_if_vetoed = fresh_performance, sg_if_allowed = fresh_performance @ [(VStr ''loss'', 2)]\<rparr>, 0)]"
  by code_simp

theorem heatmap_wins_always_zero_witness:
  "\<exists>s g rate. (s, g, rate) \<in> set (hm_by_signal_type (signal_policy_heatmap (Some demo_outcomes) (Some demo_vetoes))) \<and>
     dget (VStr ''win'') (sg_if_vetoed g) 0 = 2 \<and> dget (VStr ''wins'') (sg_if_vetoed g) 0 = 0"
proof -
  let ?g = "\<lparr>sg_total_trades = 2, sg_vetoed_trades = 2,
       sg_if_vetoed = fresh_performance @ [(VStr ''win'', 2)], sg_if_allowed = fresh_performance\<rparr>"
  have ok: "\<forall>x\<in>set demo_outcomes. perf_of x \<in> {VStr ''win'', VStr ''loss'', VStr ''breakeven''}"
    by (simp add: demo_outcomes_def perf_of_def outcome_dict_def dget_def)
  have in_table: "(VStr ''choch'', ?g, 1) \<in> set (hm_by_signal_type (signal_policy_heatmap (Some demo_outcomes) (Some demo_vetoes)))"
    by (simp add: demo_table)
  have "dget (VStr ''win'') (sg_if_vetoed ?g) 0 = 2"
    by (simp add: fresh_performance_def dget_def)
  then show ?thesis
    using in_table heatmap_wins_always_zero[OF ok in_table] by blast
qed

text \<open>The instability the evaluator computes from a report of the
  analytics service says nothing about the results in it: it is 1 as soon as two regimes have
  trades and 0 otherwise, since the evaluator reads a number of wins that the service does not
  report and takes the win rate of every regime as 0.\<close>

theorem instability_ignores_results:
  assumes "regime_policy_performance now outcomes = Inr regimes"
  shows "assess_regime_instability regimes = (if active_regimes regimes \<ge> 2 then 1 else 0)"
  by (rule instability_of_analytics[OF assms])

lemma demo_std: "variance [7, 1, -1, -7] = 25" "mean [7, 1, -1, -7] = 0"
  by (simp_all add: variance_def mean_def)

lemma demo_regimes:
  "regime_policy_performance 9 (Some demo_outcomes) =
    Inr [(''trending_market'', regime_report [(7, demo_outcomes ! 0)]),
         (''ranging_market'', regime_report [(-7, demo_outcomes ! 3)]),
         (''high_volatility'', regime_report []), (''analysis_period'', VIso 9)]"
proof -
  have s: "std_dev [7, 1, -1, -7] = 5" by (simp add: std_dev_def demo_std)
  have n: "numbers (map (\<lambda>x. dget ''pnl'' x (VInt 0)) demo_outcomes) = Some [7, 1, -1, -7]"
    by (simp add: demo_outcomes_def outcome_dict_def dget_def)
  have r: "regime_of 0 5 7 = Some ''trending_market''" "regime_of 0 5 1 = None"
      "regime_of 0 5 (-1) = None" "regime_of 0 5 (-7) = Some ''ranging_market''"
    by (simp_all add: regime_of_def Let_def of_rat_minus)
  show ?thesis
    by (simp add: regime_policy_performance_def n s demo_std Let_def regime_names_def)
       (simp add: demo_outcomes_def r)
qed

theorem instability_ignores_results_witness:
  "\<exists>regimes. regime_policy_performance 9 (Some demo_outcomes) = Inr regimes \<and>
     assess_regime_instability regimes = 1"
proof -
  obtain rp where rp: "regime_policy_performance 9 (Some demo_outcomes) = Inr rp"
    using demo_regimes by blast
  have "active_regimes rp = 2"
    using rp by (auto simp: demo_regimes active_regimes_def regime_names_def regime_data_def dget_def
        regime_report_trades)
  then show ?thesis using rp instability_ignores_results[OF rp] by simp
qed

text \<open>No policy is ever ready for enforcement on the analytics of a full
  report. The report is computed without any shadow evaluation, so nothing counts as vetoed,
  precision and recall are 0 and, with the default settings, the score is at most 0.6.\<close>

lemma nothing_vetoed:
  "\<exists>n. policy_veto_impact now (Some os) (Some []) =
    [(''total_trades'', VInt (int (length os))), (''would_have_been_vetoed'', VInt 0),
     (''vetoed_winners'', VInt 0), (''vetoed_losers'', VInt 0), (''veto_precision'', VFloat 0),
     (''veto_recall'', VFloat 0), (''veto_false_positives'', VInt 0), (''veto_false_negatives'', VInt n),
     (''analysis_period'', VIso now)]"
proof -
  have "py_round 4 (0::rat) = 0" by (simp add: py_round_def round_half_even_def)
  moreover have "ratio 0 n = 0" for n by (simp add: ratio_def)
  moreover have "count_if (\<lambda>x. False) os = 0" by (induction os) auto
  ultimately show ?thesis
    by (simp add: policy_veto_impact_def veto_loop_eq veto_index_def Let_def)
qed

lemma py_round_le: "x \<le> of_int b / 10 ^ n \<Longrightarrow> py_round n (x::real) \<le> of_int b / 10 ^ n"
proof -
  assume "x \<le> of_int b / 10 ^ n"
  then have "x * 10 ^ n \<le> of_int b" by (simp add: le_divide_eq)
  then have "round_half_even (x * 10 ^ n) \<le> b" by (rule round_half_even_upper)
  then have "(of_int (round_half_even (x * 10 ^ n)) :: real) \<le> of_int b" by (simp only: of_int_le_iff)
  then show ?thesis by (simp add: py_round_def divide_right_mono)
qed

lemma default_score_without_vetoes:
  assumes "compute_confidence_score (default_evaluator\<lparr>ce_policy_analytics := ps\<rparr>) n 1 1 i 0 = Some s" "0 \<le> i"
  shows "s \<le> 6/10"
proof -
  define pen where "pen = (if n < 30 then (1 - n / 30) * (1/2) else 0)"
  have "0 \<le> pen" by (simp add: pen_def)
  moreover have "s = max 0 (min 1 (6/10 - pen - i * (2/10)))"
    using assms(1) by (simp add: compute_confidence_score_def default_evaluator_def Let_def pen_def split: if_splits)
  ultimately show ?thesis using assms(2) by (auto simp: max_def min_def)
qed

theorem report_never_ready:
  assumes "full_analytics_report now db days = Inr report"
    "e = default_evaluator\<lparr>ce_policy_analytics := registered\<rparr>"
    "e' = add_policy_analytics name (ar_veto_impact report) (ar_heatmap report) (ar_regimes report) e"
  shows "\<not> cr_enforcement_ready (evaluate_policy now' e' name) \<and>
    cr_confidence_score (evaluate_policy now' e' name) \<le> 6/10"
proof -
  obtain os where impact: "ar_veto_impact report = policy_veto_impact now (Some os) (Some [])"
    using assms(1) by (auto simp: full_analytics_report_def Let_def split: sum.splits)
  obtain n where vi: "ar_veto_impact report =
    [(''total_trades'', VInt (int (length os))), (''would_have_been_vetoed'', VInt 0),
     (''vetoed_winners'', VInt 0), (''vetoed_losers'', VInt 0), (''veto_precision'', VFloat 0),
     (''veto_recall'', VFloat 0), (''veto_false_positives'', VInt 0), (''veto_false_negatives'', VInt n),
     (''analysis_period'', VIso now)]"
    using nothing_vetoed[of now os] unfolding impact by blast
  have e': "e' = default_evaluator\<lparr>ce_policy_analytics := ce_policy_analytics e'\<rparr>"
    by (simp add: assms(2,3) add_policy_analytics_def default_evaluator_def)
  have found: "map_of (ce_policy_analytics e') name = Some (ar_veto_impact report, ar_heatmap report, ar_regimes report)"
    by (simp add: assms(3) add_policy_analytics_def update_conv')
  have nums: "get_number ''total_trades'' (ar_veto_impact report) 0 = Some (real (length os))"
      "get_number ''veto_precision'' (ar_veto_impact report) 1 = Some 0"
      "get_number ''veto_recall'' (ar_veto_impact report) 1 = Some 0"
      "calculate_net_pnl_delta (ar_veto_impact report) = Some 0"
    by (simp_all add: vi get_number_def calculate_net_pnl_delta_def)
  let ?i = "assess_regime_instability (ar_regimes report)"
  have score: "s \<le> 6/10" if "compute_confidence_score e' (real (length os)) 1 1 ?i 0 = Some s" for s
    using that default_score_without_vetoes[OF _ instability_bounds(1)] by (subst (asm) e') blast
  have round: "py_round 4 s \<le> 6/10" if "s \<le> 6/10" for s :: real
    using py_round_le[of s 6000 4] that by simp
  have t: "ce_min_confidence_threshold e' = 7/10"
    by (subst e') (simp add: default_evaluator_def)
  show ?thesis
  proof (cases "compute_confidence_score e' (real (length os)) 1 1 ?i 0")
    case None
    then show ?thesis
      by (simp add: evaluate_policy_def found evaluate_analytics_def nums Let_def confidence_error_report_def)
  next
    case (Some s)
    then show ?thesis
      using score[OF Some] round[OF score[OF Some]]
      by (simp add: evaluate_policy_def found evaluate_analytics_def nums Let_def t)
  qed
qed

theorem report_never_ready_witness:
  "\<exists>report. full_analytics_report 9 (sql_db []) (Some 30) = Inr report \<and>
     \<not> cr_enforcement_ready (evaluate_policy 9 (add_policy_analytics ''p'' (ar_veto_impact report)
          (ar_heatmap report) (ar_regimes report) default_evaluator) ''p'')"
proof -
  obtain report where r: "full_analytics_report 9 (sql_db []) (Some 30) = Inr report"
    by (simp add: full_analytics_report_def Let_def get_outcomes_for_analysis_def sql_db_def
        regime_policy_performance_def cut_def split: option.splits)
  have "default_evaluator = default_evaluator\<lparr>ce_policy_analytics := []\<rparr>"
    by (simp add: default_evaluator_def)
  from report_never_ready[OF r this refl, of 9 "''p''"] r show ?thesis by blast
qed

text \<open>The reported score and instability lie between 0 and 1, and a policy that is reported ready is
  registered and has at least the minimal number of trades.\<close>

lemma evaluated_report:
  assumes "evaluate_analytics now e name vi rp = Some r"
  shows "\<exists>s. 0 \<le> s \<and> s \<le> 1 \<and> cr_confidence_score r = py_round 4 s"
    "cr_regime_instability r = py_round 4 (assess_regime_instability rp)" "cr_policy_name r = name"
    "cr_enforcement_ready r \<Longrightarrow> ce_min_sample_size e \<le> cr_sample_size r"
  using assms score_bounds
  by (auto simp: evaluate_analytics_def Let_def split: option.splits) blast

theorem confidence_report_bounds:
  "(let r = evaluate_policy now e name in
    0 \<le> cr_confidence_score r \<and> cr_confidence_score r \<le> 1 \<and>
    0 \<le> cr_regime_instability r \<and> cr_regime_instability r \<le> 1 \<and> cr_policy_name r = name \<and>
    (\<not> cr_enforcement_ready r \<or>
      (name \<in> fst ` set (ce_policy_analytics e) \<and> ce_min_sample_size e \<le> cr_sample_size r)))"
proof -
  consider "evaluate_policy now e name = confidence_error_report now name ''Policy not found in evaluator. No analytics registered.''"
    | "evaluate_policy now e name = confidence_error_report now name ''Error during evaluation: ''"
    | vi hm rp r where "map_of (ce_policy_analytics e) name = Some (vi, hm, rp)"
        "evaluate_analytics now e name vi rp = Some r" "evaluate_policy now e name = r"
    by (cases "map_of (ce_policy_analytics e) name";
        cases "evaluate_analytics now e name (fst (the (map_of (ce_policy_analytics e) name)))
          (snd (snd (the (map_of (ce_policy_analytics e) name))))")
       (auto simp: evaluate_policy_def)
  then show ?thesis
  proof cases
    case 3
    obtain s where s: "0 \<le> s" "s \<le> 1" "cr_confidence_score r = py_round 4 s"
      using evaluated_report(1)[OF 3(2)] by blast
    have "name \<in> fst ` set (ce_policy_analytics e)" using map_of_SomeD[OF 3(1)] by force
    then show ?thesis
      using py_round_unit[OF s(1,2)] py_round_unit[OF instability_bounds] evaluated_report(2-4)[OF 3(2)] s(3)
      unfolding 3(3) Let_def by metis
  qed (simp_all add: confidence_error_report_def Let_def)
qed

end
