(* ===== verification/Human_Review.thy ===== *)
theory Human_Review
  imports Py_Values Contracts "HOL-Library.Multiset" "HOL-Library.Char_ord" "HOL-Library.List_Lexorder"
begin

text \<open>
  \<open>reasoner_service/decision_human_review_service.py\<close>: review sessions with human annotations and
  disagreements, a log of everything, a summary and an export.

  An id is the first 12 digits of the MD5 of a text that contains a reading of the clock; the
  digest is a parameter, and so is \<open>float(s)\<close> on a string. Each call takes its readings of the
  clock as arguments, in order: the one in the id, then the one in the record; the empty record a
  failed call answers with has the latest of them. Constant disclaimers, the indentation of the
  text export and the stdlib logger are left out. Times are kept as times: the order of their
  ISO strings, which the export sorts by, is the order of the times.
\<close>

section \<open>State\<close>

datatype review_status = SCreated | SInProgress | SCompleted | SArchived

fun review_status_value :: "review_status \<Rightarrow> string" where
  "review_status_value SCreated = ''created''"
| "review_status_value SInProgress = ''in_progress''"
| "review_status_value SCompleted = ''completed''"
| "review_status_value SArchived = ''archived''"

datatype severity = Minor | Moderate | Severe | Catastrophic

record review_session =
  rs_session_id :: string
  rs_correlation_id :: pyval
  rs_created_at :: time
  rs_created_by :: string
  rs_status :: review_status
  rs_context_snapshot :: pydict
  rs_annotation_count :: int
  rs_disagreement_count :: int

record annotation =
  an_annotation_id :: string
  an_session_id :: string
  an_attached_at :: time
  an_annotator :: pyval
  an_annotation_type :: pyval
  an_text :: pyval
  an_relevant_fields :: pyval
  an_confidence_in_view :: rat

record disagreement =
  di_disagreement_id :: string
  di_session_id :: string
  di_recorded_at :: time
  di_disagreer :: pyval
  di_severity :: severity
  di_reason :: pyval
  di_alternative_decision :: pyval
  di_pnl_impact :: rat

datatype review_data = SessionCreated review_session | AnnotationAttached annotation | DisagreementRecorded disagreement

record review_entry =
  re_session_id :: string
  re_timestamp :: time
  re_data :: review_data

record review_service =
  hr_review_sessions :: "(string \<times> review_session) list"
  hr_annotations :: "(string \<times> annotation list) list"
  hr_disagreements :: "(string \<times> disagreement list) list"
  hr_all_reviews :: "review_entry list"

definition hr_init :: review_service where
  "hr_init = \<lparr>hr_review_sessions = [], hr_annotations = [], hr_disagreements = [], hr_all_reviews = []\<rparr>"

record libs =
  lib_md5 :: "fstring \<Rightarrow> string"
  lib_parse_float :: "string \<Rightarrow> rat option"

section \<open>Identifiers and empty records\<close>

definition generate_session_id :: "libs \<Rightarrow> time \<Rightarrow> pyval \<Rightarrow> string" where
  "generate_session_id l now correlation_id =
     ''review_'' @ take 12 (lib_md5 l [PV correlation_id, T ''_'', At now])"

definition generate_annotation_id :: "libs \<Rightarrow> time \<Rightarrow> string \<Rightarrow> review_service \<Rightarrow> string" where
  "generate_annotation_id l now sid s =
     ''annotation_'' @ take 12 (lib_md5 l
        [T sid, T ''_'', I (int (length (dget sid (hr_annotations s) []))), T ''_'', At now])"

definition generate_disagreement_id :: "libs \<Rightarrow> time \<Rightarrow> string \<Rightarrow> review_service \<Rightarrow> string" where
  "generate_disagreement_id l now sid s =
     ''disagreement_'' @ take 12 (lib_md5 l
        [T sid, T ''_'', I (int (length (dget sid (hr_disagreements s) []))), T ''_'', At now])"

definition empty_session :: "time \<Rightarrow> review_session" where
  "empty_session now =
    \<lparr>rs_session_id = ''unknown'', rs_correlation_id = VStr ''unknown'', rs_created_at = now,
     rs_created_by = ''system'', rs_status = SCreated, rs_context_snapshot = [],
     rs_annotation_count = 0, rs_disagreement_count = 0\<rparr>"

definition empty_annotation :: "time \<Rightarrow> string \<Rightarrow> annotation" where
  "empty_annotation now sid =
    \<lparr>an_annotation_id = ''unknown'', an_session_id = sid, an_attached_at = now,
     an_annotator = VStr ''unknown'', an_annotation_type = VStr ''observation'', an_text = VStr [],
     an_relevant_fields = VList [], an_confidence_in_view = 0\<rparr>"

definition empty_disagreement :: "time \<Rightarrow> string \<Rightarrow> disagreement" where
  "empty_disagreement now sid =
    \<lparr>di_disagreement_id = ''unknown'', di_session_id = sid, di_recorded_at = now,
     di_disagreer = VStr ''unknown'', di_severity = Moderate, di_reason = VStr [],
     di_alternative_decision = VStr [], di_pnl_impact = 0\<rparr>"

section \<open>Operations\<close>

definition create_review_session ::
    "libs \<Rightarrow> time \<Rightarrow> time \<Rightarrow> pyval \<Rightarrow> review_service \<Rightarrow> review_session \<times> review_service" where
  "create_review_session l now1 now2 context_snapshot s =
     (case context_snapshot of
        VDict ctx \<Rightarrow>
          (let correlation_id = dget ''correlation_id'' ctx (VStr ''unknown'');
               sid = generate_session_id l now1 correlation_id;
               session = \<lparr>rs_session_id = sid, rs_correlation_id = correlation_id, rs_created_at = now2,
                          rs_created_by = ''system'', rs_status = SCreated, rs_context_snapshot = ctx,
                          rs_annotation_count = 0, rs_disagreement_count = 0\<rparr>
           in (session,
               s\<lparr>hr_review_sessions := AList.update sid session (hr_review_sessions s),
                 hr_annotations := AList.update sid [] (hr_annotations s),
                 hr_disagreements := AList.update sid [] (hr_disagreements s),
                 hr_all_reviews := hr_all_reviews s @
                   [\<lparr>re_session_id = sid, re_timestamp = now2, re_data = SessionCreated session\<rparr>]\<rparr>))
      | _ \<Rightarrow> (empty_session now1, s))"

text \<open>\<open>max(0.0, min(1.0, x))\<close>.\<close>

definition clamp :: "rat \<Rightarrow> rat" where
  "clamp x = max 0 (min 1 x)"

text \<open>The record of an annotation; \<open>None\<close> is the exception a confidence that is no number raises.\<close>

definition build_annotation :: "libs \<Rightarrow> time \<Rightarrow> time \<Rightarrow> string \<Rightarrow> pydict \<Rightarrow> review_service \<Rightarrow> annotation option" where
  "build_annotation l now1 now2 sid a s =
     (case as_number (dget ''confidence_in_view'' a (VFloat (1/2))) of
        None \<Rightarrow> None
      | Some c \<Rightarrow> Some
          \<lparr>an_annotation_id = generate_annotation_id l now1 sid s, an_session_id = sid, an_attached_at = now2,
           an_annotator = dget ''annotator'' a (VStr ''unknown''),
           an_annotation_type = dget ''annotation_type'' a (VStr ''observation''),
           an_text = dget ''text'' a (VStr []), an_relevant_fields = dget ''relevant_fields'' a (VList []),
           an_confidence_in_view = clamp c\<rparr>)"

definition attach_annotation ::
    "libs \<Rightarrow> time \<Rightarrow> time \<Rightarrow> string \<Rightarrow> pyval \<Rightarrow> review_service \<Rightarrow> annotation \<times> review_service" where
  "attach_annotation l now1 now2 sid annotation s =
     (case map_of (hr_review_sessions s) sid of
        None \<Rightarrow> (empty_annotation now1 sid, s)
      | Some session \<Rightarrow>
          (case annotation of
             VDict a \<Rightarrow>
               (case (build_annotation l now1 now2 sid a s, map_of (hr_annotations s) sid) of
                  (Some r, Some rs) \<Rightarrow>
                    (r, s\<lparr>hr_annotations := AList.update sid (rs @ [r]) (hr_annotations s),
                          hr_review_sessions := AList.update sid
                            (session\<lparr>rs_annotation_count := rs_annotation_count session + 1, rs_status := SInProgress\<rparr>)
                            (hr_review_sessions s),
                          hr_all_reviews := hr_all_reviews s @
                            [\<lparr>re_session_id = sid, re_timestamp = an_attached_at r, re_data = AnnotationAttached r\<rparr>]\<rparr>)
                | _ \<Rightarrow> (empty_annotation now2 sid, s))
           | _ \<Rightarrow> (empty_annotation now1 sid, s)))"

text \<open>\<open>DisagreementSeverity[s.upper()]\<close>, and MODERATE for every other value.\<close>

definition severity_of :: "pyval \<Rightarrow> severity" where
  "severity_of v =
     (case v of
        VStr x \<Rightarrow>
          (let u = py_upper x in
           if u = ''MINOR'' then Minor else if u = ''MODERATE'' then Moderate
           else if u = ''SEVERE'' then Severe else if u = ''CATASTROPHIC'' then Catastrophic
           else Moderate)
      | _ \<Rightarrow> Moderate)"

definition py_float :: "libs \<Rightarrow> pyval \<Rightarrow> rat option" where
  "py_float l v = (case v of VStr x \<Rightarrow> lib_parse_float l x | _ \<Rightarrow> as_number v)"

definition pnl_impact_of :: "libs \<Rightarrow> pydict \<Rightarrow> rat option" where
  "pnl_impact_of l d =
     (if truthy (dget ''pnl_impact'' d VNone) then py_float l (dget ''pnl_impact'' d (VFloat 0)) else Some 0)"

definition build_disagreement :: "libs \<Rightarrow> time \<Rightarrow> time \<Rightarrow> string \<Rightarrow> pydict \<Rightarrow> review_service \<Rightarrow> disagreement option" where
  "build_disagreement l now1 now2 sid d s =
     (case pnl_impact_of l d of
        None \<Rightarrow> None
      | Some x \<Rightarrow> Some
          \<lparr>di_disagreement_id = generate_disagreement_id l now1 sid s, di_session_id = sid, di_recorded_at = now2,
           di_disagreer = dget ''disagreer'' d (VStr ''unknown''),
           di_severity = severity_of (dget ''severity'' d (VStr ''moderate'')),
           di_reason = dget ''reason'' d (VStr []),
           di_alternative_decision = dget ''alternative_decision'' d (VStr []), di_pnl_impact = x\<rparr>)"

definition record_disagreement ::
    "libs \<Rightarrow> time \<Rightarrow> time \<Rightarrow> string \<Rightarrow> pyval \<Rightarrow> review_service \<Rightarrow> disagreement \<times> review_service" where
  "record_disagreement l now1 now2 sid disagreement s =
     (case map_of (hr_review_sessions s) sid of
        None \<Rightarrow> (empty_disagreement now1 sid, s)
      | Some session \<Rightarrow>
          (case disagreement of
             VDict d \<Rightarrow>
               (case (build_disagreement l now1 now2 sid d s, map_of (hr_disagreements s) sid) of
                  (Some r, Some rs) \<Rightarrow>
                    (r, s\<lparr>hr_disagreements := AList.update sid (rs @ [r]) (hr_disagreements s),
                          hr_review_sessions := AList.update sid
                            (session\<lparr>rs_disagreement_count := rs_disagreement_count session + 1, rs_status := SInProgress\<rparr>)
                            (hr_review_sessions s),
                          hr_all_reviews := hr_all_reviews s @
                            [\<lparr>re_session_id = sid, re_timestamp = di_recorded_at r, re_data = DisagreementRecorded r\<rparr>]\<rparr>)
                | _ \<Rightarrow> (empty_disagreement now2 sid, s))
           | _ \<Rightarrow> (empty_disagreement now1 sid, s)))"

section \<open>Summary and export\<close>

definition all_annotations :: "review_service \<Rightarrow> annotation list" where
  "all_annotations s = concat (map snd (hr_annotations s))"

definition all_disagreements :: "review_service \<Rightarrow> disagreement list" where
  "all_disagreements s = concat (map snd (hr_disagreements s))"

definition count_such :: "('a \<Rightarrow> bool) \<Rightarrow> 'a list \<Rightarrow> int" where
  "count_such p xs = int (length (filter p xs))"

record review_summary =
  su_generated_at :: time
  su_total_sessions :: int
  su_total_annotations :: int
  su_total_disagreements :: int
  su_sessions_by_status :: "(review_status \<times> int) list"
  su_severity_distribution :: "(severity \<times> int) list"
  su_annotation_types :: "(string \<times> int) list"
  su_average_confidence :: rat
  su_total_pnl_impact :: rat
  su_explanation :: fstring

definition empty_summary :: "time \<Rightarrow> review_summary" where
  "empty_summary now =
    \<lparr>su_generated_at = now, su_total_sessions = 0, su_total_annotations = 0, su_total_disagreements = 0,
     su_sessions_by_status = map (\<lambda>x. (x, 0)) [SCreated, SInProgress, SCompleted, SArchived],
     su_severity_distribution = map (\<lambda>x. (x, 0)) [Minor, Moderate, Severe, Catastrophic],
     su_annotation_types = map (\<lambda>x. (x, 0)) [''observation'', ''question'', ''concern'', ''praise''],
     su_average_confidence = 0, su_total_pnl_impact = 0, su_explanation = [T ''Empty summary.'']\<rparr>"

definition summary_explanation :: "int \<Rightarrow> int \<Rightarrow> int \<Rightarrow> rat \<Rightarrow> fstring" where
  "summary_explanation sessions annotations disagreements pnl =
     [T ''Review summary: '', I sessions, T '' sessions created with '', I annotations,
      T '' annotations and '', I disagreements, T '' disagreements recorded. '',
      T ''If all human disagreement decisions were taken, cumulative P&L impact would be '', F pnl, T ''. '',
      T ''This is informational analysis only and does not influence system behavior.'']"

text \<open>An annotation type that cannot be hashed makes the membership test raise.\<close>

definition summarize_reviews :: "time \<Rightarrow> review_service \<Rightarrow> review_summary" where
  "summarize_reviews now s =
     (let sessions = map snd (hr_review_sessions s);
          as = all_annotations s; ds = all_disagreements s;
          avg = (if as = [] then 0 else sum_list (map an_confidence_in_view as) / of_nat (length as));
          pnl = sum_list (map di_pnl_impact ds);
          n = int (length (hr_review_sessions s))
      in if \<not> list_all (\<lambda>a. py_hashable (an_annotation_type a)) as then empty_summary now
         else
          \<lparr>su_generated_at = now, su_total_sessions = n,
           su_total_annotations = int (length as), su_total_disagreements = int (length ds),
           su_sessions_by_status = map (\<lambda>x. (x, count_such (\<lambda>r. rs_status r = x) sessions))
             [SCreated, SInProgress, SCompleted, SArchived],
           su_severity_distribution = map (\<lambda>x. (x, count_such (\<lambda>d. di_severity d = x) ds))
             [Minor, Moderate, Severe, Catastrophic],
           su_annotation_types = map (\<lambda>x. (x, count_such (\<lambda>a. an_annotation_type a = VStr x) as))
             [''observation'', ''question'', ''concern'', ''praise''],
           su_average_confidence = py_round 4 avg, su_total_pnl_impact = py_round 2 pnl,
           su_explanation = summary_explanation n (int (length as)) (int (length ds)) pnl\<rparr>)"

record export_data =
  xd_export_timestamp :: time
  xd_export_format :: string
  xd_total_sessions :: int
  xd_total_reviews :: int
  xd_sessions :: "(string \<times> review_session \<times> annotation list \<times> disagreement list) list"
  xd_chronological :: "review_entry list"

definition build_export :: "time \<Rightarrow> string \<Rightarrow> review_service \<Rightarrow> export_data" where
  "build_export now fmt s =
    \<lparr>xd_export_timestamp = now, xd_export_format = fmt,
     xd_total_sessions = int (length (hr_review_sessions s)),
     xd_total_reviews = int (length (hr_all_reviews s)),
     xd_sessions = map (\<lambda>sid. (sid, the (map_of (hr_review_sessions s) sid),
          sort_key an_attached_at (dget sid (hr_annotations s) []),
          sort_key di_recorded_at (dget sid (hr_disagreements s) [])))
        (sort (map fst (hr_review_sessions s))),
     xd_chronological = sort_key re_timestamp (hr_all_reviews s)\<rparr>"

definition rule_line :: fstring where
  "rule_line = [T (replicate 80 CHR ''='')]"

definition format_as_text :: "export_data \<Rightarrow> fstring list" where
  "format_as_text x =
     [rule_line, [T ''DECISION HUMAN REVIEW LOG''], rule_line, [],
      [T ''Export Timestamp: '', At (xd_export_timestamp x)],
      [T ''Total Sessions: '', I (xd_total_sessions x)],
      [T ''Total Reviews: '', I (xd_total_reviews x)], [], [T ''SESSIONS:'']] @
     concat (map (\<lambda>(sid, session, as, ds).
       [[T ''Session: '', T sid],
        [T ''Correlation ID: '', PV (rs_correlation_id session)],
        [T ''Created: '', At (rs_created_at session)],
        [T ''Status: '', T (review_status_value (rs_status session))],
        [T ''Annotations: '', I (int (length as))],
        [T ''Disagreements: '', I (int (length ds))]]) (xd_sessions x)) @
     [[], [T ''DISCLAIMERS:''], [], rule_line]"

text \<open>JSON is a rendering of the export data, which the model keeps as it is.\<close>

datatype export = TextExport "fstring list" | JsonExport export_data

definition export_review_log :: "time \<Rightarrow> string \<Rightarrow> review_service \<Rightarrow> export" where
  "export_review_log now fmt s =
     (let x = build_export now fmt s in
      if py_lower fmt = ''text'' then TextExport (format_as_text x) else JsonExport x)"

section \<open>Runs\<close>

datatype review_call =
    Create time time pyval
  | Annotate time time string pyval
  | Disagree time time string pyval

fun do_call :: "libs \<Rightarrow> review_call \<Rightarrow> review_service \<Rightarrow> review_service" where
  "do_call l (Create t1 t2 ctx) s = snd (create_review_session l t1 t2 ctx s)"
| "do_call l (Annotate t1 t2 sid a) s = snd (attach_annotation l t1 t2 sid a s)"
| "do_call l (Disagree t1 t2 sid d) s = snd (record_disagreement l t1 t2 sid d s)"

definition run_reviews :: "libs \<Rightarrow> review_call list \<Rightarrow> review_service \<Rightarrow> review_service" where
  "run_reviews l calls s = fold (do_call l) calls s"

text \<open>The id a call would create a session under.\<close>

fun new_id :: "libs \<Rightarrow> review_call \<Rightarrow> string option" where
  "new_id l (Create t1 t2 (VDict ctx)) =
     Some (generate_session_id l t1 (dget ''correlation_id'' ctx (VStr ''unknown'')))"
| "new_id l _ = None"

text \<open>No call of a run creates a session under an id that is in use.\<close>

fun fresh_run :: "libs \<Rightarrow> review_call list \<Rightarrow> review_service \<Rightarrow> bool" where
  "fresh_run l [] s = True"
| "fresh_run l (c # cs) s =
     ((case new_id l c of None \<Rightarrow> True | Some sid \<Rightarrow> sid \<notin> fst ` set (hr_review_sessions s)) \<and>
      fresh_run l cs (do_call l c s))"

end
