(* ===== verification/Trust_Calibration.thy ===== *)
theory Trust_Calibration
  imports Human_Review "HOL-Library.Option_ord"
begin

text \<open>
  \<open>reasoner_service/decision_trust_calibration_service.py\<close>: descriptive metrics on signals,
  policies, reviewers and confidence values, with a log of the computations.

  Inputs are Python values, read as the code reads them; \<open>None\<close> is an exception, which every
  public method turns into the empty result. Standard deviations are reals. Ids and types that
  are compared or used as keys are strings or \<open>None\<close>. Timestamps that are sorted are all strings,
  all ISO times (or absent), or all numbers; anything else cannot be compared. The constant
  disclaimers, notes and explanations and the JSON and text renderings of a result are left out.
\<close>

section \<open>Reading values\<close>

fun as_dict :: "pyval \<Rightarrow> pydict option" where
  "as_dict (VDict d) = Some d"
| "as_dict _ = None"

fun all_some :: "'a option list \<Rightarrow> 'a list option" where
  "all_some [] = Some []"
| "all_some (x # xs) = (case (x, all_some xs) of (Some a, Some as) \<Rightarrow> Some (a # as) | _ \<Rightarrow> None)"

fun py_len :: "pyval \<Rightarrow> int option" where
  "py_len (VList xs) = Some (int (length xs))"
| "py_len (VStr s) = Some (int (length s))"
| "py_len (VDict d) = Some (int (length d))"
| "py_len _ = None"

definition or_empty :: "pyval \<Rightarrow> pyval" where
  "or_empty v = (if truthy v then v else VDict [])"

text \<open>The elements of an iterable on which \<open>get\<close> is called: all of them must be dictionaries.\<close>

definition dicts_of :: "pyval \<Rightarrow> pydict list option" where
  "dicts_of v = (case iterate v of None \<Rightarrow> None | Some xs \<Rightarrow> all_some (map as_dict xs))"

definition field :: "string \<Rightarrow> pyval \<Rightarrow> pyval option" where
  "field k v = map_option (\<lambda>d. dget k d (VList [])) (as_dict v)"

section \<open>State\<close>

datatype calibration_event =
    SignalCalibration time int int
  | PolicyCalibration time int int
  | ReviewerCalibration time int int
  | StabilityComputation time int

record calibration_service =
  tc_all_calibration_events :: "calibration_event list"

definition calibration_init :: calibration_service where
  "calibration_init = \<lparr>tc_all_calibration_events = []\<rparr>"

definition log_event :: "calibration_event \<Rightarrow> calibration_service \<Rightarrow> calibration_service" where
  "log_event e s = s\<lparr>tc_all_calibration_events := tc_all_calibration_events s @ [e]\<rparr>"

section \<open>Signals\<close>

record consistency =
  co_matched_pairs :: int
  co_total_signals :: int
  co_consistency_rate :: rat
  co_coverage_percentage :: rat

definition empty_consistency :: consistency where
  "empty_consistency = \<lparr>co_matched_pairs = 0, co_total_signals = 0, co_consistency_rate = 0, co_coverage_percentage = 0\<rparr>"

text \<open>The inner loop stops at the first outcome of the signal.\<close>

fun has_outcome :: "pyval \<Rightarrow> pyval list \<Rightarrow> bool option" where
  "has_outcome sid [] = Some False"
| "has_outcome sid (v # vs) =
     (case as_dict v of
        None \<Rightarrow> None
      | Some d \<Rightarrow> if dget ''signal_id'' d VNone = sid then Some True else has_outcome sid vs)"

fun matched_pairs :: "pyval list \<Rightarrow> pyval list \<Rightarrow> int option" where
  "matched_pairs [] os = Some 0"
| "matched_pairs (v # vs) os =
     (case as_dict v of
        None \<Rightarrow> None
      | Some d \<Rightarrow>
          (case has_outcome (dget ''id'' d (VStr [])) os of
             None \<Rightarrow> None
           | Some b \<Rightarrow> map_option ((+) (if b then 1 else 0)) (matched_pairs vs os)))"

definition compute_signal_consistency :: "pyval \<Rightarrow> pyval \<Rightarrow> consistency" where
  "compute_signal_consistency signals outcomes =
     (if \<not> truthy signals \<or> \<not> truthy outcomes then empty_consistency
      else
        (case (iterate signals, iterate outcomes) of
           (Some ss, Some os) \<Rightarrow>
             (case matched_pairs ss os of
                None \<Rightarrow> empty_consistency
              | Some m \<Rightarrow>
                  (let n = int (length ss); rate = (if n > 0 then of_int m / of_int n else 0) in
                   \<lparr>co_matched_pairs = m, co_total_signals = n, co_consistency_rate = py_round 4 rate,
                    co_coverage_percentage = py_round 2 (rate * 100)\<rparr>))
         | _ \<Rightarrow> empty_consistency))"

definition breakdown_by_type :: "pyval \<Rightarrow> (pyval \<times> int) list option" where
  "breakdown_by_type signals =
     (case dicts_of signals of
        None \<Rightarrow> None
      | Some ds \<Rightarrow>
          (let types = map (\<lambda>d. dget ''signal_type'' d (VStr ''unknown'')) ds in
           if list_all py_hashable types then Some (fold bump types []) else None))"

record signal_report =
  sr_total_signals :: int
  sr_total_outcomes :: int
  sr_signals_by_type :: "(pyval \<times> int) list"
  sr_consistency :: consistency
  sr_processed_at :: time

definition failed_signals :: "time \<Rightarrow> signal_report" where
  "failed_signals now = \<lparr>sr_total_signals = 0, sr_total_outcomes = 0, sr_signals_by_type = [],
     sr_consistency = empty_consistency, sr_processed_at = now\<rparr>"

definition calibrate_signals ::
    "time \<Rightarrow> pyval \<Rightarrow> calibration_service \<Rightarrow> signal_report \<times> calibration_service" where
  "calibrate_signals now memory_snapshot s =
     (let snapshot = or_empty memory_snapshot in
      case (field ''signal_records'' snapshot, field ''outcome_records'' snapshot) of
        (Some signals, Some outcomes) \<Rightarrow>
          (case (py_len signals, py_len outcomes) of
             (Some n, Some m) \<Rightarrow>
               if \<not> truthy signals \<or> \<not> truthy outcomes then
                 (\<lparr>sr_total_signals = n, sr_total_outcomes = m, sr_signals_by_type = [],
                   sr_consistency = empty_consistency, sr_processed_at = now\<rparr>, s)
               else
                 (case breakdown_by_type signals of
                    None \<Rightarrow> (failed_signals now, s)
                  | Some by_type \<Rightarrow>
                      (\<lparr>sr_total_signals = n, sr_total_outcomes = m, sr_signals_by_type = by_type,
                        sr_consistency = compute_signal_consistency signals outcomes, sr_processed_at = now\<rparr>,
                       log_event (SignalCalibration now n m) s))
           | _ \<Rightarrow> (failed_signals now, s))
      | _ \<Rightarrow> (failed_signals now, s))"

section \<open>Policies\<close>

record violation_summary =
  vs_total_events :: int
  vs_total_evaluations :: int
  vs_frequency :: rat
  vs_by_policy :: "(pyval \<times> int) list"

record regret_analysis =
  ra_events :: int
  ra_magnitude :: rat
  ra_average :: rat

definition empty_violations :: violation_summary where
  "empty_violations = \<lparr>vs_total_events = 0, vs_total_evaluations = 0, vs_frequency = 0, vs_by_policy = []\<rparr>"

definition empty_regret :: regret_analysis where
  "empty_regret = \<lparr>ra_events = 0, ra_magnitude = 0, ra_average = 0\<rparr>"

definition extract_unique_policies :: "pydict list \<Rightarrow> pyval list option" where
  "extract_unique_policies results =
     (let ids = filter truthy (map (\<lambda>d. dget ''policy_id'' d VNone) results) in
      if list_all py_hashable ids then Some (remdups ids) else None)"

definition compute_violation_patterns :: "pydict list \<Rightarrow> pydict list \<Rightarrow> violation_summary option" where
  "compute_violation_patterns results events =
     (let violated = map (\<lambda>d. dget ''policy_id'' d VNone) (filter (\<lambda>d. truthy (dget ''violated'' d VNone)) results);
          named = filter truthy (map (\<lambda>d. dget ''policy_id'' d VNone) events);
          counts = fold bump (violated @ named) [];
          n = int (length results)
      in if list_all py_hashable (violated @ named) then
           Some \<lparr>vs_total_events = total counts, vs_total_evaluations = n,
                 vs_frequency = py_round 4 (if n > 0 then of_int (total counts) / of_int n else 0),
                 vs_by_policy = counts\<rparr>
         else None)"

fun regret_loop :: "rat \<Rightarrow> int \<Rightarrow> pydict list \<Rightarrow> (rat \<times> int) option" where
  "regret_loop total_regret n [] = Some (total_regret, n)"
| "regret_loop total_regret n (d # ds) =
     (case as_number (dget ''regret'' d (VFloat 0)) of
        None \<Rightarrow> None
      | Some r \<Rightarrow> if r > 0 then regret_loop (total_regret + r) (n + 1) ds else regret_loop total_regret n ds)"

definition compute_regret_patterns :: "pydict list \<Rightarrow> regret_analysis option" where
  "compute_regret_patterns results =
     (case regret_loop 0 0 results of
        None \<Rightarrow> None
      | Some (t, n) \<Rightarrow> Some \<lparr>ra_events = n, ra_magnitude = py_round 4 t,
            ra_average = py_round 4 (if n > 0 then t / of_int n else 0)\<rparr>)"

record policy_report =
  pr_total_policies :: int
  pr_total_evaluations :: int
  pr_violations :: violation_summary
  pr_regret :: regret_analysis
  pr_processed_at :: time

definition failed_policies :: "time \<Rightarrow> policy_report" where
  "failed_policies now = \<lparr>pr_total_policies = 0, pr_total_evaluations = 0, pr_violations = empty_violations,
     pr_regret = empty_regret, pr_processed_at = now\<rparr>"

definition policy_inputs :: "pyval \<Rightarrow> (pyval \<times> pyval) option" where
  "policy_inputs evaluations =
     (if is_list evaluations then Some (evaluations, VList [])
      else (case (field ''policy_results'' evaluations, field ''violation_events'' evaluations) of
              (Some a, Some b) \<Rightarrow> Some (a, b)
            | _ \<Rightarrow> None))"

definition calibrate_policies ::
    "time \<Rightarrow> pyval \<Rightarrow> calibration_service \<Rightarrow> policy_report \<times> calibration_service" where
  "calibrate_policies now offline_evaluations s =
     (case policy_inputs (or_empty offline_evaluations) of
        None \<Rightarrow> (failed_policies now, s)
      | Some (results, events) \<Rightarrow>
          if \<not> truthy results \<and> \<not> truthy events then
            (case py_len results of
               None \<Rightarrow> (failed_policies now, s)
             | Some n \<Rightarrow> ((failed_policies now)\<lparr>pr_total_evaluations := n\<rparr>, s))
          else
            (case (dicts_of results, dicts_of events) of
               (Some rs, Some es) \<Rightarrow>
                 (case (extract_unique_policies rs, compute_violation_patterns rs es, compute_regret_patterns rs) of
                    (Some ps, Some v, Some r) \<Rightarrow>
                      (\<lparr>pr_total_policies = int (length ps), pr_total_evaluations = int (length rs),
                        pr_violations = v, pr_regret = r, pr_processed_at = now\<rparr>,
                       log_event (PolicyCalibration now (int (length ps)) (int (length rs))) s)
                  | _ \<Rightarrow> (failed_policies now, s))
             | _ \<Rightarrow> (failed_policies now, s)))"

section \<open>Reviewers\<close>

record alignment =
  al_matches :: int
  al_comparisons :: int
  al_rate :: rat
  al_percentage :: rat

record disagreement_patterns =
  dp_total :: int
  dp_reviews :: int
  dp_frequency :: rat
  dp_by_reviewer :: "(pyval \<times> int) list"

definition empty_alignment :: alignment where
  "empty_alignment = \<lparr>al_matches = 0, al_comparisons = 0, al_rate = 0, al_percentage = 0\<rparr>"

definition empty_patterns :: disagreement_patterns where
  "empty_patterns = \<lparr>dp_total = 0, dp_reviews = 0, dp_frequency = 0, dp_by_reviewer = []\<rparr>"

text \<open>\<open>a or b\<close>.\<close>

definition py_or :: "pyval \<Rightarrow> pyval \<Rightarrow> pyval" where
  "py_or a b = (if truthy a then a else b)"

definition reviewer_id :: "pydict \<Rightarrow> pyval" where
  "reviewer_id d =
     py_or (dget ''annotator'' d VNone) (py_or (dget ''disagreer'' d VNone) (dget ''reviewer_id'' d VNone))"

text \<open>Records that are no dictionaries are skipped here.\<close>

definition extract_unique_reviewers :: "pyval \<Rightarrow> pyval list option" where
  "extract_unique_reviewers records =
     (case iterate records of
        None \<Rightarrow> None
      | Some vs \<Rightarrow>
          (let ids = filter truthy (concat (map (\<lambda>v. case as_dict v of None \<Rightarrow> [] | Some d \<Rightarrow> [reviewer_id d]) vs)) in
           if list_all py_hashable ids then Some (remdups ids) else None))"

definition aligned :: "pydict \<Rightarrow> pydict \<Rightarrow> bool" where
  "aligned review counterfactual =
     (case (py_or (dget ''reason'' review VNone) (dget ''text'' review VNone), dget ''alternative_outcome'' counterfactual VNone) of
        (VStr a, VStr b) \<Rightarrow> a \<noteq> [] \<and> b \<noteq> [] \<and> sublist (py_lower a) (py_lower b)
      | _ \<Rightarrow> False)"

definition compute_alignment_patterns :: "pydict list \<Rightarrow> pydict list \<Rightarrow> alignment" where
  "compute_alignment_patterns reviews counterfactuals =
     (let pairs = List.product reviews counterfactuals;
          m = int (length (filter (\<lambda>(r, c). aligned r c) pairs));
          n = int (length pairs);
          rate = (if n > 0 then of_int m / of_int n else 0)
      in \<lparr>al_matches = m, al_comparisons = n, al_rate = py_round 4 rate, al_percentage = py_round 2 (rate * 100)\<rparr>)"

definition compute_disagreement_persistence :: "pydict list \<Rightarrow> disagreement_patterns option" where
  "compute_disagreement_persistence records =
     (let who = map (\<lambda>d. dget ''disagreer'' d (VStr ''unknown''))
            (filter (\<lambda>d. dget ''type'' d VNone = VStr ''disagreement'' \<or> truthy (dget ''disagreement_count'' d VNone)) records);
          counts = fold bump who [];
          n = int (length records)
      in if list_all py_hashable who then
           Some \<lparr>dp_total = total counts, dp_reviews = n,
                 dp_frequency = py_round 4 (if n > 0 then of_int (total counts) / of_int n else 0),
                 dp_by_reviewer = counts\<rparr>
         else None)"

record reviewer_report =
  rr_total_reviewers :: int
  rr_total_reviews :: int
  rr_alignment :: alignment
  rr_disagreements :: disagreement_patterns
  rr_processed_at :: time

definition failed_reviewers :: "time \<Rightarrow> reviewer_report" where
  "failed_reviewers now = \<lparr>rr_total_reviewers = 0, rr_total_reviews = 0, rr_alignment = empty_alignment,
     rr_disagreements = empty_patterns, rr_processed_at = now\<rparr>"

definition records_in :: "string \<Rightarrow> pyval \<Rightarrow> pyval option" where
  "records_in k v = (if is_list v then Some v else field k v)"

definition calibrate_reviewers ::
    "time \<Rightarrow> pyval \<Rightarrow> pyval \<Rightarrow> calibration_service \<Rightarrow> reviewer_report \<times> calibration_service" where
  "calibrate_reviewers now human_reviews counterfactual_results s =
     (case (records_in ''review_sessions'' (or_empty human_reviews),
            records_in ''counterfactual_outcomes'' (or_empty counterfactual_results)) of
        (Some reviews, Some counterfactuals) \<Rightarrow>
          (case (extract_unique_reviewers reviews, py_len reviews) of
             (Some who, Some n) \<Rightarrow>
               if \<not> truthy reviews \<or> \<not> truthy counterfactuals then
                 ((failed_reviewers now)\<lparr>rr_total_reviewers := int (length who), rr_total_reviews := n\<rparr>, s)
               else
                 (case (dicts_of reviews, dicts_of counterfactuals) of
                    (Some rs, Some cs) \<Rightarrow>
                      (case compute_disagreement_persistence rs of
                         None \<Rightarrow> (failed_reviewers now, s)
                       | Some p \<Rightarrow>
                           (\<lparr>rr_total_reviewers = int (length who), rr_total_reviews = n,
                             rr_alignment = compute_alignment_patterns rs cs, rr_disagreements = p,
                             rr_processed_at = now\<rparr>,
                            log_event (ReviewerCalibration now (int (length who)) n) s))
                  | _ \<Rightarrow> (failed_reviewers now, s))
           | _ \<Rightarrow> (failed_reviewers now, s))
      | _ \<Rightarrow> (failed_reviewers now, s))"

end
