(* ===== verification/Trust_Stability.thy ===== *)
theory Trust_Stability
  imports Trust_Calibration
begin

text \<open>
  \<open>compute_stability\<close> of \<open>reasoner_service/decision_trust_calibration_service.py\<close>: statistics,
  decay and variance of the recorded confidence values and the index made of them; and what is
  proved about the whole calibration service.
\<close>

section \<open>Statistics of confidence values\<close>

record confidence_statistics =
  st_mean :: real
  st_median :: real
  st_std_dev :: real
  st_min :: real
  st_max :: real
  st_count :: int

definition empty_statistics :: confidence_statistics where
  "empty_statistics = \<lparr>st_mean = 0, st_median = 0, st_std_dev = 0, st_min = 0, st_max = 0, st_count = 0\<rparr>"

record decay_analysis =
  dy_first_value :: real
  dy_last_value :: real
  dy_absolute_decay :: real
  dy_decay_rate :: real

definition empty_decay :: decay_analysis where
  "empty_decay = \<lparr>dy_first_value = 0, dy_last_value = 0, dy_absolute_decay = 0, dy_decay_rate = 0\<rparr>"

record variance_analysis =
  va_variance :: real
  va_std_dev :: real
  va_coefficient :: real
  va_range :: real

definition empty_variance :: variance_analysis where
  "empty_variance = \<lparr>va_variance = 0, va_std_dev = 0, va_coefficient = 0, va_range = 0\<rparr>"

text \<open>The values that are numbers.\<close>

definition numeric_values :: "pydict list \<Rightarrow> real list" where
  "numeric_values ds =
     map of_rat (concat (map (\<lambda>d. case as_number (dget ''confidence_value'' d VNone) of None \<Rightarrow> [] | Some x \<Rightarrow> [x]) ds))"

definition mean_of :: "real list \<Rightarrow> real" where
  "mean_of xs = sum_list xs / of_nat (length xs)"

definition variance_of :: "real list \<Rightarrow> real" where
  "variance_of xs = sum_list (map (\<lambda>x. (x - mean_of xs) ^ 2) xs) / of_nat (length xs)"

definition compute_confidence_statistics :: "pyval \<Rightarrow> confidence_statistics" where
  "compute_confidence_statistics records =
     (case dicts_of records of
        None \<Rightarrow> empty_statistics
      | Some ds \<Rightarrow>
          (let values = numeric_values ds in
           if values = [] then empty_statistics
           else
            \<lparr>st_mean = py_round 4 (mean_of values),
             st_median = py_round 4 (sort values ! (length values div 2)),
             st_std_dev = py_round 4 (sqrt (variance_of values)),
             st_min = py_round 4 (Min (set values)), st_max = py_round 4 (Max (set values)),
             st_count = int (length values)\<rparr>))"

definition timestamp_of :: "pydict \<Rightarrow> pyval" where
  "timestamp_of d = dget ''timestamp'' d (VStr [])"

fun iso_key :: "pyval \<Rightarrow> time option" where
  "iso_key (VIso t) = Some t"
| "iso_key _ = None"

definition sort_by_timestamp :: "pydict list \<Rightarrow> pydict list option" where
  "sort_by_timestamp ds =
     (if list_all (is_str \<circ> timestamp_of) ds then Some (sort_key (str_of \<circ> timestamp_of) ds)
      else if list_all (\<lambda>d. iso_key (timestamp_of d) \<noteq> None \<or> timestamp_of d = VStr []) ds
      then Some (sort_key (iso_key \<circ> timestamp_of) ds)
      else if list_all (\<lambda>d. as_number (timestamp_of d) \<noteq> None) ds
      then Some (sort_key (the \<circ> as_number \<circ> timestamp_of) ds)
      else None)"

text \<open>\<open>float(record.get('confidence_value', 0.5))\<close>.\<close>

definition confidence_float :: "libs \<Rightarrow> pydict \<Rightarrow> real option" where
  "confidence_float l d = map_option of_rat (py_float l (dget ''confidence_value'' d (VFloat (1/2))))"

definition compute_decay_pattern :: "libs \<Rightarrow> pyval \<Rightarrow> decay_analysis" where
  "compute_decay_pattern l records =
     (case dicts_of records of
        None \<Rightarrow> empty_decay
      | Some ds \<Rightarrow>
          if length ds < 2 then empty_decay
          else
            (case sort_by_timestamp ds of
               None \<Rightarrow> empty_decay
             | Some rs \<Rightarrow>
                 (case (confidence_float l (hd rs), confidence_float l (List.last rs)) of
                    (Some a, Some b) \<Rightarrow>
                      \<lparr>dy_first_value = py_round 4 a, dy_last_value = py_round 4 b,
                       dy_absolute_decay = py_round 4 (a - b),
                       dy_decay_rate = py_round 4 (if a > 0 then (a - b) / a else 0)\<rparr>
                  | _ \<Rightarrow> empty_decay)))"

definition compute_variance_analysis :: "pyval \<Rightarrow> variance_analysis" where
  "compute_variance_analysis records =
     (case dicts_of records of
        None \<Rightarrow> empty_variance
      | Some ds \<Rightarrow>
          (let values = numeric_values ds; m = mean_of values; v = variance_of values in
           if length values < 2 then empty_variance
           else
            \<lparr>va_variance = py_round 4 v, va_std_dev = py_round 4 (sqrt v),
             va_coefficient = py_round 4 (if m > 0 then sqrt v / m else 0),
             va_range = py_round 4 (Max (set values) - Min (set values))\<rparr>))"

definition compute_stability_index :: "confidence_statistics \<Rightarrow> decay_analysis \<Rightarrow> real" where
  "compute_stability_index stats decay =
     (let variance_component = min (st_std_dev stats / 1) 1;
          decay_component = \<bar>dy_decay_rate decay\<bar>;
          stability = 1 - (variance_component + decay_component) / 2
      in py_round 4 (max 0 (min 1 stability)))"

record stability_report =
  sb_total_records :: int
  sb_statistics :: confidence_statistics
  sb_decay :: decay_analysis
  sb_variance :: variance_analysis
  sb_stability_index :: real
  sb_processed_at :: time

definition failed_stability :: "time \<Rightarrow> stability_report" where
  "failed_stability now = \<lparr>sb_total_records = 0, sb_statistics = empty_statistics, sb_decay = empty_decay,
     sb_variance = empty_variance, sb_stability_index = 0, sb_processed_at = now\<rparr>"

definition compute_stability ::
    "libs \<Rightarrow> time \<Rightarrow> pyval \<Rightarrow> calibration_service \<Rightarrow> stability_report \<times> calibration_service" where
  "compute_stability l now memory_snapshot s =
     (case field ''confidence_records'' (or_empty memory_snapshot) of
        None \<Rightarrow> (failed_stability now, s)
      | Some records \<Rightarrow>
          if \<not> truthy records then (failed_stability now, s)
          else
            (let stats = compute_confidence_statistics records;
                 decay = compute_decay_pattern l records;
                 var = compute_variance_analysis records
             in case py_len records of
                  None \<Rightarrow> (failed_stability now, s)
                | Some n \<Rightarrow>
                    (\<lparr>sb_total_records = n, sb_statistics = stats, sb_decay = decay, sb_variance = var,
                      sb_stability_index = compute_stability_index stats decay, sb_processed_at = now\<rparr>,
                     log_event (StabilityComputation now n) s)))"

section \<open>Runs of the service\<close>

datatype calibration_call =
    CSignals time pyval | CPolicies time pyval | CReviewers time pyval pyval | CStability time pyval

fun calibrate :: "libs \<Rightarrow> calibration_call \<Rightarrow> calibration_service \<Rightarrow> calibration_service" where
  "calibrate l (CSignals t m) s = snd (calibrate_signals t m s)"
| "calibrate l (CPolicies t e) s = snd (calibrate_policies t e s)"
| "calibrate l (CReviewers t r c) s = snd (calibrate_reviewers t r c s)"
| "calibrate l (CStability t m) s = snd (compute_stability l t m s)"

lemma log_event_prefix [simp]:
  "prefix (tc_all_calibration_events s) (tc_all_calibration_events (log_event e s))"
  by (simp add: log_event_def)

lemma calibrate_prefix:
  "prefix (tc_all_calibration_events s) (tc_all_calibration_events (snd (calibrate_signals t m s)))"
  "prefix (tc_all_calibration_events s) (tc_all_calibration_events (snd (calibrate_policies t e s)))"
  "prefix (tc_all_calibration_events s) (tc_all_calibration_events (snd (calibrate_reviewers t r c s)))"
  "prefix (tc_all_calibration_events s) (tc_all_calibration_events (snd (compute_stability l t m s)))"
  subgoal unfolding calibrate_signals_def Let_def by (simp split: option.split)
  subgoal unfolding calibrate_policies_def by (simp split: option.split prod.split)
  subgoal unfolding calibrate_reviewers_def by (simp split: option.split)
  subgoal unfolding compute_stability_def Let_def by (simp split: option.split)
  done

interpretation calibration_log: append_only "calibrate l" tc_all_calibration_events for l
proof unfold_locales
  show "prefix (tc_all_calibration_events s) (tc_all_calibration_events (calibrate l c s))" for c s
    by (cases c) (simp_all only: calibrate.simps calibrate_prefix)
qed

section \<open>Lemmas\<close>

lemma variance_of_nonneg: "0 \<le> variance_of xs"
  by (auto simp: variance_of_def intro!: divide_nonneg_nonneg sum_list_nonneg)

lemma py_round_nonneg: "0 \<le> (x::'a::floor_ceiling) \<Longrightarrow> 0 \<le> py_round n x"
  using py_round_bounds(1)[of 0 x "ceiling x" n] by simp

lemma py_round_zero: "py_round n (0::'a::floor_ceiling) = 0" "py_round n (1::'a) = 1"
proof -
  show "py_round n (0::'a) = 0" by (simp add: py_round_def round_half_even_def)
  show "py_round n (1::'a) = 1"
    using py_round_bounds[of 1 "1::'a" 1 n] by simp
qed

lemma std_dev_nonneg: "0 \<le> st_std_dev (compute_confidence_statistics v)"
  by (auto simp: compute_confidence_statistics_def empty_statistics_def Let_def
      intro!: py_round_nonneg real_sqrt_ge_zero variance_of_nonneg split: option.splits)

lemma py_round_clamped:
  "0 \<le> py_round n (max 0 (min 1 x))" "py_round n (max 0 (min 1 x)) \<le> 1" for x :: real
  using py_round_bounds[of 0 "max 0 (min 1 x)" 1 n] by auto

lemma stability_index_unit: "0 \<le> compute_stability_index a b" "compute_stability_index a b \<le> 1"
  unfolding compute_stability_index_def Let_def by (rule py_round_clamped)+

lemma as_dict_Some: "as_dict v = Some d \<longleftrightarrow> v = VDict d"
  by (cases v) auto

lemma all_some_map: "all_some (map f xs) = Some ys \<longleftrightarrow> length ys = length xs \<and> (\<forall>i<length xs. f (xs ! i) = Some (ys ! i))"
proof (induction xs arbitrary: ys)
  case Nil
  show ?case by auto
next
  case (Cons x xs)
  show ?case
  proof (cases ys)
    case Nil
    then show ?thesis by (auto split: option.splits)
  next
    case (Cons y ys')
    then show ?thesis
      using Cons.IH[of ys'] by (auto simp: less_Suc_eq_0_disj split: option.splits)
  qed
qed

lemma dicts_of_list: "dicts_of (VList (map VDict ds)) = Some ds"
  by (simp add: dicts_of_def all_some_map)

end
