(* ===== verification/Human_Review_Props.thy ===== *)
theory Human_Review_Props
  imports Human_Review
begin

text \<open>
  What the review service keeps: counters, status and lists of a session agree; while no session
  id repeats, nothing recorded is lost and the summary counts the log. Ids do repeat: two sessions
  for one decision within one microsecond share an id.
\<close>

section \<open>The invariant\<close>

definition session_ok :: "string \<Rightarrow> review_session \<Rightarrow> annotation list \<Rightarrow> disagreement list \<Rightarrow> bool" where
  "session_ok sid r as ds \<longleftrightarrow>
     rs_session_id r = sid \<and> rs_created_by r = ''system'' \<and>
     rs_annotation_count r = int (length as) \<and> rs_disagreement_count r = int (length ds) \<and>
     rs_status r = (if as = [] \<and> ds = [] then SCreated else SInProgress) \<and>
     list_all (\<lambda>a. an_session_id a = sid \<and> 0 \<le> an_confidence_in_view a \<and> an_confidence_in_view a \<le> 1) as \<and>
     list_all (\<lambda>d. di_session_id d = sid) ds"

definition hr_ok :: "review_service \<Rightarrow> bool" where
  "hr_ok s \<longleftrightarrow>
     distinct (map fst (hr_review_sessions s)) \<and>
     map fst (hr_annotations s) = map fst (hr_review_sessions s) \<and>
     map fst (hr_disagreements s) = map fst (hr_review_sessions s) \<and>
     (\<forall>sid r. map_of (hr_review_sessions s) sid = Some r \<longrightarrow>
        session_ok sid r (dget sid (hr_annotations s) []) (dget sid (hr_disagreements s) []))"

lemma hr_ok_init: "hr_ok hr_init"
  by (simp add: hr_ok_def hr_init_def)

lemma session_ok_new: "session_ok sid \<lparr>rs_session_id = sid, rs_correlation_id = c, rs_created_at = t,
    rs_created_by = ''system'', rs_status = SCreated, rs_context_snapshot = ctx,
    rs_annotation_count = 0, rs_disagreement_count = 0\<rparr> [] []"
  by (simp add: session_ok_def)

lemma clamp_bounds: "0 \<le> clamp x" "clamp x \<le> 1"
  by (auto simp: clamp_def)

lemma build_annotation_ok:
  "build_annotation l t1 t2 sid a s = Some r \<Longrightarrow>
     an_session_id r = sid \<and> 0 \<le> an_confidence_in_view r \<and> an_confidence_in_view r \<le> 1"
  by (auto simp: build_annotation_def clamp_bounds split: option.splits)

lemma build_disagreement_ok:
  "build_disagreement l t1 t2 sid d s = Some r \<Longrightarrow> di_session_id r = sid"
  by (auto simp: build_disagreement_def split: option.splits)

lemma session_ok_annotate:
  assumes "session_ok sid r as ds" "an_session_id a = sid \<and> 0 \<le> an_confidence_in_view a \<and> an_confidence_in_view a \<le> 1"
  shows "session_ok sid (r\<lparr>rs_annotation_count := rs_annotation_count r + 1, rs_status := SInProgress\<rparr>) (as @ [a]) ds"
  using assms by (simp add: session_ok_def)

lemma session_ok_disagree:
  assumes "session_ok sid r as ds" "di_session_id d = sid"
  shows "session_ok sid (r\<lparr>rs_disagreement_count := rs_disagreement_count r + 1, rs_status := SInProgress\<rparr>) as (ds @ [d])"
  using assms by (simp add: session_ok_def)

text \<open>What a call does, by cases.\<close>

lemma create_cases:
  obtains (rejected) "snd (create_review_session l t1 t2 ctx s) = s" "new_id l (Create t1 t2 ctx) = None"
  | (created) sid r where "new_id l (Create t1 t2 ctx) = Some sid" "session_ok sid r [] []"
      "snd (create_review_session l t1 t2 ctx s) =
         s\<lparr>hr_review_sessions := AList.update sid r (hr_review_sessions s),
           hr_annotations := AList.update sid [] (hr_annotations s),
           hr_disagreements := AList.update sid [] (hr_disagreements s),
           hr_all_reviews := hr_all_reviews s @ [\<lparr>re_session_id = sid, re_timestamp = t2, re_data = SessionCreated r\<rparr>]\<rparr>"
proof (cases ctx)
  case (VDict d)
  show ?thesis
    by (rule created[OF _ session_ok_new]) (simp_all add: VDict create_review_session_def Let_def)
qed (auto intro: rejected simp: create_review_session_def)

lemma annotate_cases:
  obtains (rejected) "snd (attach_annotation l t1 t2 sid a s) = s"
  | (attached) d r x as where "a = VDict d" "map_of (hr_review_sessions s) sid = Some r"
      "map_of (hr_annotations s) sid = Some as" "build_annotation l t1 t2 sid d s = Some x"
      "snd (attach_annotation l t1 t2 sid a s) =
         s\<lparr>hr_annotations := AList.update sid (as @ [x]) (hr_annotations s),
           hr_review_sessions := AList.update sid
             (r\<lparr>rs_annotation_count := rs_annotation_count r + 1, rs_status := SInProgress\<rparr>) (hr_review_sessions s),
           hr_all_reviews := hr_all_reviews s @
             [\<lparr>re_session_id = sid, re_timestamp = an_attached_at x, re_data = AnnotationAttached x\<rparr>]\<rparr>"
proof (cases "\<exists>d r as x. a = VDict d \<and> map_of (hr_review_sessions s) sid = Some r \<and>
    map_of (hr_annotations s) sid = Some as \<and> build_annotation l t1 t2 sid d s = Some x")
  case True
  then show ?thesis by (elim exE conjE, intro attached) (assumption | simp add: attach_annotation_def)+
next
  case False
  then show ?thesis
    by (intro rejected) (auto simp: attach_annotation_def split: option.splits pyval.splits)
qed

lemma disagree_cases:
  obtains (rejected) "snd (record_disagreement l t1 t2 sid a s) = s"
  | (recorded) d r x ds where "a = VDict d" "map_of (hr_review_sessions s) sid = Some r"
      "map_of (hr_disagreements s) sid = Some ds" "build_disagreement l t1 t2 sid d s = Some x"
      "snd (record_disagreement l t1 t2 sid a s) =
         s\<lparr>hr_disagreements := AList.update sid (ds @ [x]) (hr_disagreements s),
           hr_review_sessions := AList.update sid
             (r\<lparr>rs_disagreement_count := rs_disagreement_count r + 1, rs_status := SInProgress\<rparr>) (hr_review_sessions s),
           hr_all_reviews := hr_all_reviews s @
             [\<lparr>re_session_id = sid, re_timestamp = di_recorded_at x, re_data = DisagreementRecorded x\<rparr>]\<rparr>"
proof (cases "\<exists>d r ds x. a = VDict d \<and> map_of (hr_review_sessions s) sid = Some r \<and>
    map_of (hr_disagreements s) sid = Some ds \<and> build_disagreement l t1 t2 sid d s = Some x")
  case True
  then show ?thesis by (elim exE conjE, intro recorded) (assumption | simp add: record_disagreement_def)+
next
  case False
  then show ?thesis
    by (intro rejected) (auto simp: record_disagreement_def split: option.splits pyval.splits)
qed

lemma keys_update_mem: "map_of xs k = Some v \<Longrightarrow> map fst (AList.update k w xs) = map fst xs"
  by (force simp: update_keys dest: map_of_SomeD)

lemma map_fst_update_eq:
  "map fst xs = map fst ys \<Longrightarrow> map fst (AList.update k v xs) = map fst (AList.update k w ys)"
  by (simp add: update_keys)

lemma dget_some: "map_of d k = Some v \<Longrightarrow> dget k d x = v"
  by (simp add: dget_def)

lemma hr_ok_sessions:
  assumes "hr_ok s" "map_of (hr_review_sessions s) sid = Some r"
  shows "session_ok sid r (dget sid (hr_annotations s) []) (dget sid (hr_disagreements s) [])"
  using assms unfolding hr_ok_def by blast

lemma hr_ok_step: "hr_ok s \<Longrightarrow> hr_ok (do_call l c s)"
proof (cases c)
  case (Create t1 t2 ctx)
  assume ok: "hr_ok s"
  show ?thesis
  proof (cases rule: create_cases[of l t1 t2 ctx s])
    case rejected
    then show ?thesis using Create ok by simp
  next
    case (created sid r)
    then show ?thesis
      using Create ok
      by (auto simp: hr_ok_def update_conv' intro: distinct_update intro!: map_fst_update_eq)
  qed
next
  case (Annotate t1 t2 sid a)
  assume ok: "hr_ok s"
  show ?thesis
  proof (cases rule: annotate_cases[of l t1 t2 sid a s])
    case rejected
    then show ?thesis using Annotate ok by simp
  next
    case (attached d r x as)
    have new: "session_ok sid (r\<lparr>rs_annotation_count := rs_annotation_count r + 1, rs_status := SInProgress\<rparr>)
        (as @ [x]) (dget sid (hr_disagreements s) [])"
      using session_ok_annotate[OF hr_ok_sessions[OF ok attached(2)] build_annotation_ok[OF attached(4)]]
      by (simp add: dget_some[OF attached(3)])
    show ?thesis
      using ok new attached(2,3)
      by (simp add: Annotate attached(5) hr_ok_def update_conv' keys_update_mem)
  qed
next
  case (Disagree t1 t2 sid a)
  assume ok: "hr_ok s"
  show ?thesis
  proof (cases rule: disagree_cases[of l t1 t2 sid a s])
    case rejected
    then show ?thesis using Disagree ok by simp
  next
    case (recorded d r x ds)
    have new: "session_ok sid (r\<lparr>rs_disagreement_count := rs_disagreement_count r + 1, rs_status := SInProgress\<rparr>)
        (dget sid (hr_annotations s) []) (ds @ [x])"
      using session_ok_disagree[OF hr_ok_sessions[OF ok recorded(2)] build_disagreement_ok[OF recorded(4)]]
      by (simp add: dget_some[OF recorded(3)])
    show ?thesis
      using ok new recorded(2,3)
      by (simp add: Disagree recorded(5) hr_ok_def update_conv' keys_update_mem)
  qed
qed

interpretation reviews: inv_machine "do_call l" hr_ok for l
  by unfold_locales (rule hr_ok_step)

interpretation review_log: append_only "do_call l" hr_all_reviews for l
proof unfold_locales
  show "prefix (hr_all_reviews s) (hr_all_reviews (do_call l c s))" for c s
  proof (cases c)
    case (Create t1 t2 ctx)
    then show ?thesis by (cases rule: create_cases[of l t1 t2 ctx s]) simp_all
  next
    case (Annotate t1 t2 sid a)
    then show ?thesis by (cases rule: annotate_cases[of l t1 t2 sid a s]) simp_all
  next
    case (Disagree t1 t2 sid a)
    then show ?thesis by (cases rule: disagree_cases[of l t1 t2 sid a s]) simp_all
  qed
qed

section \<open>Runs without a repeated id\<close>

lemma mset_concat_update:
  assumes "distinct (map fst d)"
  shows "mset (concat (map snd (AList.update k v d))) + mset (dget k d []) = mset (concat (map snd d)) + mset v"
  using assms
proof (induction d)
  case Nil
  then show ?case by (simp add: dget_def)
next
  case (Cons p d)
  obtain k' v' where p: "p = (k', v')" by fastforce
  show ?case
  proof (cases "k' = k")
    case True
    then show ?thesis by (simp add: p dget_def)
  next
    case False
    then have "dget k (p # d) [] = dget k d []" by (simp add: p dget_def)
    with Cons False show ?thesis by (simp add: p)
  qed
qed

definition logged_annotations :: "review_entry list \<Rightarrow> annotation list" where
  "logged_annotations es =
     concat (map (\<lambda>e. case re_data e of AnnotationAttached a \<Rightarrow> [a] | _ \<Rightarrow> []) es)"

definition logged_disagreements :: "review_entry list \<Rightarrow> disagreement list" where
  "logged_disagreements es =
     concat (map (\<lambda>e. case re_data e of DisagreementRecorded d \<Rightarrow> [d] | _ \<Rightarrow> []) es)"

definition fresh_call :: "libs \<Rightarrow> review_call \<Rightarrow> review_service \<Rightarrow> bool" where
  "fresh_call l c s \<longleftrightarrow> (case new_id l c of None \<Rightarrow> True | Some sid \<Rightarrow> sid \<notin> fst ` set (hr_review_sessions s))"

lemma fresh_run_Cons: "fresh_run l (c # cs) s \<longleftrightarrow> fresh_call l c s \<and> fresh_run l cs (do_call l c s)"
  by (simp add: fresh_call_def)

text \<open>What the log and the lists agree on.\<close>

definition log_agrees :: "review_service \<Rightarrow> bool" where
  "log_agrees s \<longleftrightarrow>
     mset (all_annotations s) = mset (logged_annotations (hr_all_reviews s)) \<and>
     mset (all_disagreements s) = mset (logged_disagreements (hr_all_reviews s))"

definition grows :: "review_service \<Rightarrow> review_service \<Rightarrow> bool" where
  "grows s s' \<longleftrightarrow>
     (\<forall>sid. prefix (dget sid (hr_annotations s) []) (dget sid (hr_annotations s') []) \<and>
            prefix (dget sid (hr_disagreements s) []) (dget sid (hr_disagreements s') []))"

lemma logged_append:
  "logged_annotations (es @ fs) = logged_annotations es @ logged_annotations fs"
  "logged_disagreements (es @ fs) = logged_disagreements es @ logged_disagreements fs"
  by (simp_all add: logged_annotations_def logged_disagreements_def)

lemma logged_single:
  "logged_annotations [\<lparr>re_session_id = x, re_timestamp = t, re_data = d\<rparr>] = (case d of AnnotationAttached a \<Rightarrow> [a] | _ \<Rightarrow> [])"
  "logged_disagreements [\<lparr>re_session_id = x, re_timestamp = t, re_data = d\<rparr>] = (case d of DisagreementRecorded a \<Rightarrow> [a] | _ \<Rightarrow> [])"
  by (simp_all add: logged_annotations_def logged_disagreements_def)

lemma hr_ok_distinct:
  assumes "hr_ok s"
  shows "distinct (map fst (hr_annotations s))" "distinct (map fst (hr_disagreements s))"
  using assms by (simp_all add: hr_ok_def)

lemma hr_ok_absent:
  assumes "hr_ok s" "sid \<notin> fst ` set (hr_review_sessions s)"
  shows "dget sid (hr_annotations s) [] = []" "dget sid (hr_disagreements s) [] = []"
proof -
  have "sid \<notin> set (map fst (hr_annotations s))" "sid \<notin> set (map fst (hr_disagreements s))"
    using assms by (simp_all add: hr_ok_def)
  then show "dget sid (hr_annotations s) [] = []" "dget sid (hr_disagreements s) [] = []"
    by (simp_all add: dget_def map_of_eq_None_iff[THEN iffD2])
qed

lemma fresh_step:
  assumes "hr_ok s" "fresh_call l c s"
  shows "grows s (do_call l c s)" "log_agrees s \<Longrightarrow> log_agrees (do_call l c s)"
proof -
  note d = mset_concat_update[OF hr_ok_distinct(1)[OF assms(1)]] mset_concat_update[OF hr_ok_distinct(2)[OF assms(1)]]
  note agree = log_agrees_def all_annotations_def all_disagreements_def logged_append logged_single
  have "grows s (do_call l c s) \<and> (log_agrees s \<longrightarrow> log_agrees (do_call l c s))"
  proof (cases c)
    case (Create t1 t2 ctx)
    show ?thesis
    proof (cases rule: create_cases[of l t1 t2 ctx s])
      case rejected
      then show ?thesis using Create by (simp add: grows_def)
    next
      case (created sid r)
      have "sid \<notin> fst ` set (hr_review_sessions s)"
        using assms(2) created(1) Create by (simp add: fresh_call_def)
      from hr_ok_absent[OF assms(1) this] show ?thesis
        using d[of sid "[]"] created(3) by (simp add: Create grows_def agree)
    qed
  next
    case (Annotate t1 t2 sid a)
    show ?thesis
    proof (cases rule: annotate_cases[of l t1 t2 sid a s])
      case rejected
      then show ?thesis using Annotate by (simp add: grows_def)
    next
      case (attached d' r x as)
      have "mset (concat (map snd (AList.update sid (as @ [x]) (hr_annotations s)))) =
          mset (concat (map snd (hr_annotations s))) + {#x#}"
        using d(1)[of sid "as @ [x]"] by (simp add: dget_some[OF attached(3)])
      then show ?thesis
        using attached(5) by (simp add: Annotate grows_def agree dget_some[OF attached(3)])
    qed
  next
    case (Disagree t1 t2 sid a)
    show ?thesis
    proof (cases rule: disagree_cases[of l t1 t2 sid a s])
      case rejected
      then show ?thesis using Disagree by (simp add: grows_def)
    next
      case (recorded d' r x ds)
      have "mset (concat (map snd (AList.update sid (ds @ [x]) (hr_disagreements s)))) =
          mset (concat (map snd (hr_disagreements s))) + {#x#}"
        using d(2)[of sid "ds @ [x]"] by (simp add: dget_some[OF recorded(3)])
      then show ?thesis
        using recorded(5) by (simp add: Disagree grows_def agree dget_some[OF recorded(3)])
    qed
  qed
  then show "grows s (do_call l c s)" "log_agrees s \<Longrightarrow> log_agrees (do_call l c s)" by blast+
qed

lemma grows_refl: "grows s s"
  by (simp add: grows_def)

lemma grows_trans: "grows s t \<Longrightarrow> grows t u \<Longrightarrow> grows s u"
  unfolding grows_def by (meson prefix_order.trans)

lemma run_Cons: "run_reviews l (c # cs) s = run_reviews l cs (do_call l c s)"
  by (simp add: run_reviews_def)

lemma fresh_run_grows:
  "hr_ok s \<Longrightarrow> fresh_run l cs s \<Longrightarrow> grows s (run_reviews l cs s)"
proof (induction cs arbitrary: s)
  case Nil
  show ?case by (simp add: run_reviews_def grows_refl)
next
  case (Cons c cs)
  have "fresh_call l c s" "fresh_run l cs (do_call l c s)" using Cons.prems(2) by (simp_all only: fresh_run_Cons)
  then show ?case
    unfolding run_Cons using grows_trans fresh_step(1) Cons.IH hr_ok_step Cons.prems(1) by blast
qed

lemma fresh_run_agrees:
  "hr_ok s \<Longrightarrow> log_agrees s \<Longrightarrow> fresh_run l cs s \<Longrightarrow> log_agrees (run_reviews l cs s)"
proof (induction cs arbitrary: s)
  case Nil
  then show ?case by (simp add: run_reviews_def)
next
  case (Cons c cs)
  have "fresh_call l c s" "fresh_run l cs (do_call l c s)" using Cons.prems(3) by (simp_all only: fresh_run_Cons)
  then show ?case
    unfolding run_Cons using fresh_step(2) Cons.IH hr_ok_step Cons.prems(1,2) by blast
qed

lemma log_agrees_init: "log_agrees hr_init"
  by (simp add: log_agrees_def hr_init_def all_annotations_def all_disagreements_def
      logged_annotations_def logged_disagreements_def)

lemma fresh_run_append: "fresh_run l (xs @ ys) s \<longleftrightarrow> fresh_run l xs s \<and> fresh_run l ys (run_reviews l xs s)"
  by (induction xs arbitrary: s) (simp_all add: run_reviews_def)

lemma run_append: "run_reviews l (xs @ ys) s = run_reviews l ys (run_reviews l xs s)"
  by (simp add: run_reviews_def)

section \<open>Properties\<close>

lemma in_all_annotations: "x \<in> set (dget sid (hr_annotations s) []) \<Longrightarrow> x \<in> set (all_annotations s)"
  by (cases "map_of (hr_annotations s) sid")
     (auto simp: all_annotations_def dget_def intro!: bexI[OF _ map_of_SomeD])

lemma hr_ok_run: "hr_ok (run_reviews l calls hr_init)"
  unfolding run_reviews_def by (rule reviews.run_inv[OF hr_ok_init])

definition demo_libs :: libs where
  "demo_libs =
    \<lparr>lib_md5 = (\<lambda>ps. concat (map (\<lambda>p. case p of At t \<Rightarrow> show_int t | T x \<Rightarrow> x | PV (VStr x) \<Rightarrow> x | _ \<Rightarrow> []) ps)),
     lib_parse_float = (\<lambda>_. None)\<rparr>"

definition demo_calls :: "review_call list" where
  "demo_calls =
    [Create 10 11 (VDict [(''correlation_id'', VStr ''D1'')]),
     Annotate 20 21 ''review_D1_10'' (VDict [(''text'', VStr ''late''), (''confidence_in_view'', VInt 3)]),
     Disagree 30 31 ''review_D1_10'' (VDict [(''severity'', VStr ''severe''), (''pnl_impact'', VInt (-20))])]"

text \<open>After any calls, also calls that are rejected and calls that
  reuse an id, a session's counters are the lengths of its lists, it is "in_progress" exactly when
  something is attached and "created" otherwise (it never becomes completed or archived), its
  records carry its id, and every stored confidence lies between 0 and 1.\<close>

theorem review_records_consistent:
  assumes "s = run_reviews l calls hr_init" "map_of (hr_review_sessions s) sid = Some r"
  shows "rs_session_id r = sid \<and> rs_created_by r = ''system'' \<and>
    rs_annotation_count r = int (length (dget sid (hr_annotations s) [])) \<and>
    rs_disagreement_count r = int (length (dget sid (hr_disagreements s) [])) \<and>
    rs_status r = (if rs_annotation_count r = 0 \<and> rs_disagreement_count r = 0 then SCreated else SInProgress) \<and>
    list_all (\<lambda>a. an_session_id a = sid \<and> 0 \<le> an_confidence_in_view a \<and> an_confidence_in_view a \<le> 1)
      (dget sid (hr_annotations s) []) \<and>
    list_all (\<lambda>d. di_session_id d = sid) (dget sid (hr_disagreements s) [])"
proof -
  have "session_ok sid r (dget sid (hr_annotations s) []) (dget sid (hr_disagreements s) [])"
    using hr_ok_sessions[OF _ assms(2)] hr_ok_run unfolding assms(1) by blast
  then show ?thesis unfolding session_ok_def by simp
qed

theorem review_records_consistent_witness:
  "\<exists>r. map_of (hr_review_sessions (run_reviews demo_libs demo_calls hr_init)) ''review_D1_10'' = Some r \<and>
     rs_annotation_count r = 1 \<and> rs_status r = SInProgress"
proof -
  let ?s = "run_reviews demo_libs demo_calls hr_init"
  have a: "length (dget ''review_D1_10'' (hr_annotations ?s) []) = 1" by code_simp
  have "map_of (hr_review_sessions ?s) ''review_D1_10'' \<noteq> None" by code_simp
  then obtain r where r: "map_of (hr_review_sessions ?s) ''review_D1_10'' = Some r" by blast
  show ?thesis using review_records_consistent[OF refl r] r a by auto
qed

text \<open>The log only grows; and as long as no session id repeats, so do the
  annotations and the disagreements of every session: nothing recorded is changed or removed.\<close>

theorem reviews_append_only:
  assumes "fresh_run l (earlier @ later) hr_init"
    "s = run_reviews l earlier hr_init" "s' = run_reviews l (earlier @ later) hr_init"
  shows "prefix (hr_all_reviews s) (hr_all_reviews s') \<and>
    prefix (dget sid (hr_annotations s) []) (dget sid (hr_annotations s') []) \<and>
    prefix (dget sid (hr_disagreements s) []) (dget sid (hr_disagreements s') [])"
proof -
  have fresh: "fresh_run l later s" using assms(1,2) by (simp add: fresh_run_append)
  have "grows s s'"
    unfolding assms(3) run_append assms(2)[symmetric]
    using fresh_run_grows[OF _ fresh] hr_ok_run assms(2) by blast
  moreover have "prefix (hr_all_reviews s) (hr_all_reviews s')"
    unfolding assms(3) run_append assms(2)[symmetric]
    unfolding run_reviews_def by (rule review_log.run_extends)
  ultimately show ?thesis unfolding grows_def by blast
qed

theorem reviews_append_only_witness:
  "fresh_run demo_libs demo_calls hr_init \<and>
   prefix (dget ''review_D1_10'' (hr_annotations (run_reviews demo_libs (take 2 demo_calls) hr_init)) [])
     (dget ''review_D1_10'' (hr_annotations (run_reviews demo_libs demo_calls hr_init)) [])"
proof -
  have f: "fresh_run demo_libs demo_calls hr_init" by code_simp
  have "fresh_run demo_libs (take 2 demo_calls @ drop 2 demo_calls) hr_init"
    unfolding append_take_drop_id by (rule f)
  from reviews_append_only[OF this refl refl] f show ?thesis unfolding append_take_drop_id by blast
qed

text \<open>The id of a session is the digest of the correlation id and the time,
  so a second session for the same decision at the same reading of the clock has the id of the
  first. It replaces it: whatever was annotated or disagreed in between disappears from the
  session and its counters, although the class promises that reviews are never deleted.\<close>

theorem same_instant_erases:
  "let s = run_reviews l calls (snd (create_review_session l t t1 (VDict ctx) start));
       (r, s') = create_review_session l t t2 (VDict ctx) s;
       sid = rs_session_id r
   in sid = rs_session_id (fst (create_review_session l t t1 (VDict ctx) start)) \<and>
      dget sid (hr_annotations s') [] = [] \<and> dget sid (hr_disagreements s') [] = [] \<and>
      map_of (hr_review_sessions s') sid = Some r \<and> rs_annotation_count r = 0 \<and> rs_status r = SCreated \<and>
      prefix (hr_all_reviews s) (hr_all_reviews s')"
  by (simp add: create_review_session_def Let_def update_conv')

text \<open>While no id repeats and all annotation types can be hashed, the summary
  is the count of the log: its totals, the mean confidence and the summed impact are those of
  the logged records, every session is counted under created or in progress, and every
  disagreement under one severity.\<close>

lemma count_such_sum:
  assumes "distinct ys" "\<forall>x\<in>set xs. f x \<in> set ys"
  shows "sum_list (map (\<lambda>y. count_such (\<lambda>x. f x = y) xs) ys) = int (length xs)"
  using assms
proof (induction xs)
  case Nil
  then show ?case by (simp add: count_such_def)
next
  case (Cons x xs)
  have "map (\<lambda>y. count_such (\<lambda>x. f x = y) (x # xs)) ys =
      map (\<lambda>y. (if y = f x then 1 else 0) + count_such (\<lambda>x. f x = y) xs) ys"
    by (simp add: count_such_def)
  moreover have "sum_list (map (\<lambda>y. if y = f x then (1::int) else 0) ys) = 1"
    using Cons.prems by (simp add: sum_list_map_eq_sum_count2 sum_list_distinct_conv_sum_set)
  moreover have "sum_list (map (\<lambda>y. count_such (\<lambda>x. f x = y) xs) ys) = int (length xs)"
    using Cons by simp
  ultimately show ?case by (simp only: sum_list_addf) simp
qed

lemma sum_list_mset: "mset xs = mset ys \<Longrightarrow> sum_list (map f xs) = sum_list (map f ys)" for f :: "'a \<Rightarrow> rat"
  by (metis mset_map sum_mset_sum_list)

theorem summary_counts_log:
  assumes "fresh_run l calls hr_init" "s = run_reviews l calls hr_init"
    "as = logged_annotations (hr_all_reviews s)" "ds = logged_disagreements (hr_all_reviews s)"
    "list_all (\<lambda>a. py_hashable (an_annotation_type a)) as"
  shows "su_total_annotations (summarize_reviews now s) = int (length as) \<and>
    su_total_disagreements (summarize_reviews now s) = int (length ds) \<and>
    su_average_confidence (summarize_reviews now s) =
      py_round 4 (sum_list (map an_confidence_in_view as) / of_nat (length as)) \<and>
    su_total_pnl_impact (summarize_reviews now s) = py_round 2 (sum_list (map di_pnl_impact ds)) \<and>
    sum_list (map snd (su_sessions_by_status (summarize_reviews now s))) = int (length (hr_review_sessions s)) \<and>
    map_of (su_sessions_by_status (summarize_reviews now s)) SCompleted = Some 0 \<and>
    map_of (su_sessions_by_status (summarize_reviews now s)) SArchived = Some 0 \<and>
    sum_list (map snd (su_severity_distribution (summarize_reviews now s))) = int (length ds)"
proof -
  have ok: "hr_ok s" unfolding assms(2) by (rule hr_ok_run)
  have agree: "mset (all_annotations s) = mset as" "mset (all_disagreements s) = mset ds"
    using fresh_run_agrees[OF hr_ok_init log_agrees_init assms(1)]
    unfolding log_agrees_def assms(2-4) by blast+
  have len: "length (all_annotations s) = length as" "length (all_disagreements s) = length ds"
    using agree by (metis size_mset)+
  have hash: "list_all (\<lambda>a. py_hashable (an_annotation_type a)) (all_annotations s)"
    using assms(5) agree(1) by (metis list_all_iff set_mset_mset)
  let ?rs = "map snd (hr_review_sessions s)"
  have status: "\<forall>r\<in>set ?rs. rs_status r \<in> {SCreated, SInProgress}"
  proof
    fix r assume "r \<in> set ?rs"
    then obtain sid where "(sid, r) \<in> set (hr_review_sessions s)" by auto
    then have "map_of (hr_review_sessions s) sid = Some r"
      using ok unfolding hr_ok_def by (simp add: map_of_is_SomeI)
    from hr_ok_sessions[OF ok this] show "rs_status r \<in> {SCreated, SInProgress}"
      by (simp add: session_ok_def)
  qed
  have none: "count_such (\<lambda>r. rs_status r = x) ?rs = 0" if "x \<in> {SCompleted, SArchived}" for x
    using status that by (auto simp: count_such_def filter_empty_conv)
  have "sum_list (map (\<lambda>x. count_such (\<lambda>r. rs_status r = x) ?rs) [SCreated, SInProgress, SCompleted, SArchived])
      = int (length ?rs)"
    by (rule count_such_sum) (use status in auto)
  moreover have sev: "di_severity d \<in> set [Minor, Moderate, Severe, Catastrophic]" for d :: disagreement
    by (cases "di_severity d") simp_all
  have "sum_list (map (\<lambda>x. count_such (\<lambda>d. di_severity d = x) (all_disagreements s)) [Minor, Moderate, Severe, Catastrophic])
      = int (length (all_disagreements s))"
    by (rule count_such_sum) (use sev in blast | simp)+
  ultimately show ?thesis
    using none hash len sum_list_mset[OF agree(1), of an_confidence_in_view] sum_list_mset[OF agree(2), of di_pnl_impact]
    by (auto simp: summarize_reviews_def Let_def)
qed

theorem summary_counts_log_witness:
  "fresh_run demo_libs demo_calls hr_init \<and>
   su_total_annotations (summarize_reviews 40 (run_reviews demo_libs demo_calls hr_init)) = 1 \<and>
   su_total_pnl_impact (summarize_reviews 40 (run_reviews demo_libs demo_calls hr_init)) = -20"
proof -
  let ?s = "run_reviews demo_libs demo_calls hr_init"
  have f: "fresh_run demo_libs demo_calls hr_init" by code_simp
  have h: "list_all (\<lambda>a. py_hashable (an_annotation_type a)) (logged_annotations (hr_all_reviews ?s))" by code_simp
  have "length (logged_annotations (hr_all_reviews ?s)) = 1" by code_simp
  moreover have "py_round 2 (sum_list (map di_pnl_impact (logged_disagreements (hr_all_reviews ?s)))) = -20" by code_simp
  ultimately show ?thesis using summary_counts_log[OF f refl refl refl h, of 40] f by simp
qed

text \<open>An annotation whose type is a list is accepted, and from then on
  every summary is the empty one, whatever else was or will be recorded (while no id repeats).\<close>

theorem bad_type_blanks_summary:
  assumes "fresh_run l (earlier @ Annotate t1 t2 sid (VDict a) # later) hr_init"
    "sid \<in> fst ` set (hr_review_sessions (run_reviews l earlier hr_init))"
    "dget ''annotation_type'' a VNone = VList vs" "as_number (dget ''confidence_in_view'' a (VFloat (1/2))) = Some c"
  shows "summarize_reviews now (run_reviews l (earlier @ Annotate t1 t2 sid (VDict a) # later) hr_init) = empty_summary now"
proof -
  let ?s = "run_reviews l earlier hr_init" and ?c = "Annotate t1 t2 sid (VDict a)"
  let ?s' = "run_reviews l (earlier @ ?c # later) hr_init"
  have ok: "hr_ok ?s" by (rule hr_ok_run)
  obtain r where r: "map_of (hr_review_sessions ?s) sid = Some r"
    using assms(2) by (metis map_of_eq_None_iff not_None_eq)
  obtain as where as: "map_of (hr_annotations ?s) sid = Some as"
    using ok assms(2) unfolding hr_ok_def by (metis list.set_map map_of_eq_None_iff not_None_eq)
  obtain x where x: "build_annotation l t1 t2 sid a ?s = Some x"
    using assms(4) by (simp add: build_annotation_def)
  have ty: "an_annotation_type x = VList vs"
    using x assms(3) by (auto simp: build_annotation_def dget_def split: option.splits)
  have mem: "x \<in> set (dget sid (hr_annotations (do_call l ?c ?s)) [])"
    by (simp add: attach_annotation_def r as x)
  have "fresh_run l later (do_call l ?c ?s)"
    using assms(1) by (simp add: fresh_run_append)
  from fresh_run_grows[OF hr_ok_step[OF ok] this] have "x \<in> set (dget sid (hr_annotations ?s') [])"
    using mem unfolding grows_def run_append run_Cons by (meson set_mono_prefix subsetD)
  then have "x \<in> set (all_annotations ?s')"
    by (rule in_all_annotations)
  moreover have "\<not> py_hashable (an_annotation_type x)"
    unfolding ty by (simp add: py_hashable_def)
  ultimately have "\<not> list_all (\<lambda>a. py_hashable (an_annotation_type a)) (all_annotations ?s')"
    unfolding list_all_iff by blast
  then show ?thesis unfolding summarize_reviews_def Let_def by simp
qed

theorem bad_type_blanks_summary_witness:
  "su_total_sessions (summarize_reviews 50 (run_reviews demo_libs
     (demo_calls @ [Annotate 40 41 ''review_D1_10'' (VDict [(''annotation_type'', VList [])])]) hr_init)) = 0"
proof -
  let ?a = "[(''annotation_type'', VList [])]"
  have f: "fresh_run demo_libs (demo_calls @ [Annotate 40 41 ''review_D1_10'' (VDict ?a)]) hr_init" by code_simp
  have m: "''review_D1_10'' \<in> fst ` set (hr_review_sessions (run_reviews demo_libs demo_calls hr_init))" by code_simp
  have "summarize_reviews 50 (run_reviews demo_libs
     (demo_calls @ [Annotate 40 41 ''review_D1_10'' (VDict ?a)]) hr_init) = empty_summary 50"
    by (rule bad_type_blanks_summary[OF f m, of "[]" "1/2"]) (simp_all add: dget_def)
  then show ?thesis by (simp add: empty_summary_def)
qed

text \<open>The export lists every entry of the log, in the order of time.\<close>

theorem export_sorted_permutation:
  "mset (xd_chronological (build_export now fmt s)) = mset (hr_all_reviews s) \<and>
   sorted (map re_timestamp (xd_chronological (build_export now fmt s))) \<and>
   sorted (map fst (xd_sessions (build_export now fmt s)))"
proof -
  have "map fst (xd_sessions (build_export now fmt s)) = sort (map fst (hr_review_sessions s))"
    by (simp add: build_export_def o_def)
  then show ?thesis by (simp add: build_export_def)
qed

end
