(* ===== verification/Trust_Props.thy ===== *)
theory Trust_Props
  imports Trust_Stability Human_Review_Props
begin

text \<open>
  What the calibration service measures: the consistency of signals, the stability index, and the
  reviewers it finds in the sessions of the human review service.
\<close>

section \<open>Signals and their outcomes\<close>

definition signal_ids :: "pydict list \<Rightarrow> pyval list" where
  "signal_ids os = map (\<lambda>d. dget ''signal_id'' d VNone) os"

lemma has_outcome_dicts: "has_outcome sid (map VDict os) = Some (sid \<in> set (signal_ids os))"
  by (induction os) (auto simp: signal_ids_def)

lemma matched_pairs_dicts:
  "matched_pairs (map VDict ss) (map VDict os) =
     Some (count_such (\<lambda>d. dget ''id'' d (VStr []) \<in> set (signal_ids os)) ss)"
  by (induction ss) (auto simp: has_outcome_dicts count_such_def)

text \<open>The consistency between signals and outcomes is the share of
  signals that have some outcome. What the outcome was does not enter: writing any one result into
  all outcomes, all wins or all losses, leaves the consistency as it is.\<close>

theorem consistency_ignores_results:
  "compute_signal_consistency (VList (map VDict (s # ss))) (VList (map VDict (x # xs))) =
     (let n = 1 + int (length ss);
          m = count_such (\<lambda>d. dget ''id'' d (VStr []) \<in> set (signal_ids (x # xs))) (s # ss)
      in \<lparr>co_matched_pairs = m, co_total_signals = n, co_consistency_rate = py_round 4 (of_int m / of_int n),
          co_coverage_percentage = py_round 2 (of_int m / of_int n * 100)\<rparr>) \<and>
   compute_signal_consistency (VList (map VDict (s # ss))) (VList (map VDict (map (AList.update ''outcome'' v) (x # xs)))) =
   compute_signal_consistency (VList (map VDict (s # ss))) (VList (map VDict (x # xs)))"
proof -
  have eq: "compute_signal_consistency (VList (map VDict (s # ss))) (VList (map VDict (z # zs))) =
     (let n = 1 + int (length ss);
          m = count_such (\<lambda>d. dget ''id'' d (VStr []) \<in> set (signal_ids (z # zs))) (s # ss)
      in \<lparr>co_matched_pairs = m, co_total_signals = n, co_consistency_rate = py_round 4 (of_int m / of_int n),
          co_coverage_percentage = py_round 2 (of_int m / of_int n * 100)\<rparr>)" for z zs
    using matched_pairs_dicts[of "s # ss" "z # zs"]
    by (simp add: compute_signal_consistency_def Let_def del: matched_pairs.simps has_outcome.simps)
  have same: "signal_ids (map (AList.update ''outcome'' v) os) = signal_ids os" for os
    by (simp add: signal_ids_def)
  have "compute_signal_consistency (VList (map VDict (s # ss))) (VList (map VDict (map (AList.update ''outcome'' v) (x # xs)))) =
      compute_signal_consistency (VList (map VDict (s # ss))) (VList (map VDict (x # xs)))"
    unfolding list.map(2)[of "AList.update _ _"] eq using same[of "x # xs"] by simp
  then show ?thesis using eq by blast
qed

section \<open>The stability index\<close>

lemma no_numbers: "list_all (\<lambda>d. as_number (dget ''confidence_value'' d VNone) = None) ds \<Longrightarrow> numeric_values ds = []"
  by (induction ds) (auto simp: numeric_values_def)

lemma no_value_decay:
  assumes "list_all (\<lambda>d. map_of d ''confidence_value'' = None) ds"
  shows "dy_decay_rate (compute_decay_pattern l (VList (map VDict ds))) = 0"
proof -
  have half: "confidence_float l d = Some (1/2)" if "d \<in> set ds" for d
  proof -
    have "map_of d ''confidence_value'' = None" using assms that by (simp add: list_all_iff)
    then show ?thesis by (simp add: confidence_float_def dget_def py_float_def of_rat_divide)
  qed
  have sub: "set rs = set ds" if "sort_by_timestamp ds = Some rs" for rs
    using that by (auto simp: sort_by_timestamp_def split: if_splits)
  show ?thesis
  proof (cases "length ds < 2")
    case True
    then show ?thesis by (simp add: compute_decay_pattern_def dicts_of_list empty_decay_def)
  next
    case False
    show ?thesis
    proof (cases "sort_by_timestamp ds")
      case None
      then show ?thesis using False by (simp add: compute_decay_pattern_def dicts_of_list empty_decay_def)
    next
      case (Some rs)
      have "rs \<noteq> []" using sub[OF Some] False by (cases rs) auto
      then have mem: "hd rs \<in> set ds" "List.last rs \<in> set ds" 
        using sub[OF Some] hd_in_set last_in_set by metis+
      note v = half[OF mem(1)] half[OF mem(2)]
      show ?thesis
        unfolding compute_decay_pattern_def dicts_of_list option.case Some v prod.case
        using False by (simp add: py_round_zero)
    qed
  qed
qed

text \<open>The stability index always lies between 0 and 1. Without records it is
  0, the value of complete instability; with records that carry no confidence value at all it is
  1, the value of perfect stability.\<close>

theorem stability_of_nothing:
  "(let index = (\<lambda>records. sb_stability_index (fst (compute_stability l now (VDict [(''confidence_records'', records)]) s))) in
    0 \<le> index v \<and> index v \<le> 1 \<and> index (VList []) = 0 \<and>
    (list_ex (\<lambda>d. map_of d ''confidence_value'' \<noteq> None) (d # ds) \<or> index (VList (map VDict (d # ds))) = 1))"
proof -
  let ?r = "\<lambda>v. fst (compute_stability l now (VDict [(''confidence_records'', v)]) s)"
  have f: "field ''confidence_records'' (or_empty (VDict [(''confidence_records'', v)])) = Some v" for v
    by (simp add: field_def or_empty_def dget_def)
  have bounds: "0 \<le> sb_stability_index (?r v)" "sb_stability_index (?r v) \<le> 1"
    by (simp_all add: compute_stability_def f Let_def stability_index_unit failed_stability_def split: option.split)
  have none: "sb_stability_index (?r (VList [])) = 0"
    by (simp add: compute_stability_def f failed_stability_def)
  have "sb_stability_index (?r (VList (map VDict (d # ds)))) = 1"
    if "list_all (\<lambda>d. map_of d ''confidence_value'' = None) (d # ds)"
  proof -
    have "list_all (\<lambda>d. as_number (dget ''confidence_value'' d VNone) = None) (d # ds)"
      using that by (auto simp: list_all_iff dget_def)
    then have nv: "numeric_values (d # ds) = []" by (rule no_numbers)
    have st: "compute_confidence_statistics (VList (map VDict (d # ds))) = empty_statistics"
      unfolding compute_confidence_statistics_def dicts_of_list by (simp add: nv)
    have "sb_stability_index (?r (VList (map VDict (d # ds)))) =
        compute_stability_index empty_statistics (compute_decay_pattern l (VList (map VDict (d # ds))))"
      unfolding compute_stability_def f Let_def using st by simp
    then show ?thesis
      unfolding compute_stability_index_def no_value_decay[OF that]
      by (simp add: empty_statistics_def py_round_zero)
  qed
  then have "list_ex (\<lambda>d. map_of d ''confidence_value'' \<noteq> None) (d # ds) \<or>
      sb_stability_index (?r (VList (map VDict (d # ds)))) = 1"
    unfolding list_all_iff list_ex_iff by blast
  then show ?thesis
    unfolding Let_def using bounds none by blast
qed

section \<open>The sessions of the review service\<close>

text \<open>A session as the dictionary it is in the code; its constant disclaimer is left out.\<close>

definition session_dict :: "review_session \<Rightarrow> pydict" where
  "session_dict r =
     [(''session_id'', VStr (rs_session_id r)), (''correlation_id'', rs_correlation_id r),
      (''created_at'', VIso (rs_created_at r)), (''created_by'', VStr (rs_created_by r)),
      (''status'', VStr (review_status_value (rs_status r))),
      (''context_snapshot'', VDict (rs_context_snapshot r)),
      (''annotation_count'', VInt (rs_annotation_count r)),
      (''disagreement_count'', VInt (rs_disagreement_count r))]"

definition exported_sessions :: "review_service \<Rightarrow> pydict list" where
  "exported_sessions s = map (session_dict \<circ> snd) (hr_review_sessions s)"

lemma session_fields:
  "reviewer_id (session_dict r) = VNone"
  "aligned (session_dict r) c = False"
  "dget ''disagreer'' (session_dict r) (VStr ''unknown'') = VStr ''unknown''"
  "(dget ''type'' (session_dict r) VNone = VStr ''disagreement'') = False"
  "truthy (dget ''disagreement_count'' (session_dict r) VNone) \<longleftrightarrow> rs_disagreement_count r \<noteq> 0"
  by (simp_all add: session_dict_def reviewer_id_def aligned_def py_or_def dget_def)

lemma no_reviewers: "extract_unique_reviewers (VList (map VDict (map (session_dict \<circ> snd) rs))) = Some []"
  by (induction rs) (simp_all add: extract_unique_reviewers_def session_fields)

lemma no_alignment: "al_matches (compute_alignment_patterns (map (session_dict \<circ> snd) rs) cs) = 0"
proof -
  have "filter (\<lambda>(r, c). aligned r c) (List.product (map (session_dict \<circ> snd) rs) cs) = []"
    by (auto simp: filter_empty_conv session_fields)
  then show ?thesis by (simp add: compute_alignment_patterns_def Let_def)
qed

lemma bump_again: "fold bump (replicate n k) [(k, m)] = [(k, m + int n)]"
  by (induction n arbitrary: m) (simp_all add: bump_def dget_def)

lemma bump_same: "fold bump (replicate n k) [] = (if n = 0 then [] else [(k, int n)])"
proof (cases n)
  case (Suc m)
  have "fold bump (replicate n k) [] = fold bump (replicate m k) [(k, 1)]"
    by (simp only: Suc replicate.simps fold.simps o_apply) (simp add: bump_def dget_def)
  then show ?thesis unfolding bump_again using Suc by simp
qed simp

lemma unknown_disagreers:
  "map (\<lambda>d. dget ''disagreer'' d (VStr ''unknown''))
     (filter (\<lambda>d. dget ''type'' d VNone = VStr ''disagreement'' \<or> truthy (dget ''disagreement_count'' d VNone))
       (map (session_dict \<circ> snd) rs)) =
   replicate (length (filter (\<lambda>p. rs_disagreement_count (snd p) \<noteq> 0) rs)) (VStr ''unknown'')"
  by (induction rs) (simp_all add: session_fields)

text \<open>Calibrating the sessions of the review service, which is what the
  documentation asks for, finds no reviewer and no alignment, whatever was reviewed: a session
  carries neither who annotated nor what was said. Every session with disagreements counts as
  one disagreement, of the reviewer "unknown".\<close>

theorem reviewers_never_identified:
  "let r = fst (calibrate_reviewers now
         (VDict [(''review_sessions'', VList (map VDict (exported_sessions s)))])
         (VList (map VDict (c # cs))) st);
       n = count_such (\<lambda>(sid, x). rs_disagreement_count x \<noteq> 0) (hr_review_sessions s)
   in rr_total_reviewers r = 0 \<and> al_matches (rr_alignment r) = 0 \<and>
      rr_total_reviews r = int (length (hr_review_sessions s)) \<and>
      dp_total (rr_disagreements r) = n \<and>
      dp_by_reviewer (rr_disagreements r) = (if n = 0 then [] else [(VStr ''unknown'', n)])"
proof -
  let ?rs = "hr_review_sessions s"
  let ?k = "length (filter (\<lambda>p. rs_disagreement_count (snd p) \<noteq> 0) ?rs)"
  have n: "count_such (\<lambda>(sid, x). rs_disagreement_count x \<noteq> 0) ?rs = int ?k"
    by (simp add: count_such_def case_prod_unfold)
  have in_r: "records_in ''review_sessions'' (or_empty (VDict [(''review_sessions'', v)])) = Some v" for v
    by (simp add: records_in_def or_empty_def field_def dget_def)
  have in_c: "records_in ''counterfactual_outcomes'' (or_empty (VList (VDict c # map VDict cs))) = Some (VList (VDict c # map VDict cs))"
    by (simp add: records_in_def or_empty_def)
  have who: "extract_unique_reviewers (VList (map VDict (exported_sessions s))) = Some []"
    unfolding exported_sessions_def by (rule no_reviewers)
  have pat: "compute_disagreement_persistence (exported_sessions s) = Some
      \<lparr>dp_total = int ?k, dp_reviews = int (length ?rs),
       dp_frequency = py_round 4 (if int (length ?rs) > 0 then of_int (int ?k) / of_int (int (length ?rs)) else 0),
       dp_by_reviewer = (if ?k = 0 then [] else [(VStr ''unknown'', int ?k)])\<rparr>"
    unfolding compute_disagreement_persistence_def exported_sessions_def unknown_disagreers bump_same Let_def
    by (auto simp: list_all_iff py_hashable_def total_def)
  show ?thesis
  proof (cases "?rs = []")
    case True
    then have "exported_sessions s = []" by (simp add: exported_sessions_def)
    then show ?thesis
      using who True
      by (simp add: calibrate_reviewers_def in_r in_c failed_reviewers_def empty_alignment_def empty_patterns_def count_such_def Let_def)
  next
    case False
    then have "truthy (VList (map VDict (exported_sessions s)))" by (simp add: exported_sessions_def)
    then show ?thesis
      by (simp add: calibrate_reviewers_def in_r in_c who dicts_of_list[of "c # cs", simplified] dicts_of_list pat no_alignment[of ?rs, folded exported_sessions_def] n Let_def)
         (simp add: exported_sessions_def)
  qed
qed

end
