(* ===== verification/Intelligence_Report.thy ===== *)
theory Intelligence_Report
  imports Counterfactual Confidence Governance
begin

text \<open>
  \<open>reasoner_service/decision_intelligence_report_service.py\<close> over the models of the services it
  asks (timeline, governance, counterfactual simulator, confidence evaluator), and
  \<open>reasoner_service/decision_intelligence_archive_service.py\<close>, which keeps its reports.

  A report is the dictionary the code builds, since the archive and the services behind it read it
  with \<open>get\<close>. Flags and explanations are f-strings; the rendering of an f-string is a parameter.
  Every helper of the report service catches its exceptions; with the services of the model none
  is raised outside of them, so the error report of \<open>generate_report\<close> is not reached.
  Constant disclaimers are left out, and the helper fields that nothing reads.
\<close>

section \<open>The report service\<close>

record report_env =
  re_timeline :: timeline_service
  re_governance :: governance
  re_evaluator :: evaluator
  re_render :: "fstring \<Rightarrow> string"

record timeline_data =
  td_events_count :: int
  td_outcome_pnl :: rat
  td_has_governance_eval :: bool
  td_has_policy_eval :: bool
  td_has_trade_executed :: bool

fun scan_timeline :: "tl_event list \<Rightarrow> timeline_data \<Rightarrow> timeline_data" where
  "scan_timeline [] d = d"
| "scan_timeline (e # es) d =
     scan_timeline es
       (if te_event_type e = ''OUTCOME_RECORDED'' then
          (case as_number (cf_pnl e) of None \<Rightarrow> d | Some x \<Rightarrow> d\<lparr>td_outcome_pnl := x\<rparr>)
        else if te_event_type e = ''GOVERNANCE_EVALUATED'' then d\<lparr>td_has_governance_eval := True\<rparr>
        else if te_event_type e = ''POLICY_EVALUATED'' then d\<lparr>td_has_policy_eval := True\<rparr>
        else if te_event_type e = ''TRADE_EXECUTED'' then d\<lparr>td_has_trade_executed := True\<rparr>
        else d)"

definition get_timeline_data :: "report_env \<Rightarrow> string \<Rightarrow> timeline_data" where
  "get_timeline_data env cid =
     (let timeline = get_timeline (VStr cid) (re_timeline env) in
      scan_timeline timeline
        \<lparr>td_events_count = int (length timeline), td_outcome_pnl = 0, td_has_governance_eval = False,
         td_has_policy_eval = False, td_has_trade_executed = False\<rparr>)"

text \<open>The context handed to the governance service holds the correlation id and nothing else.\<close>

definition correlation_context :: gov_context where
  "correlation_context = \<lparr>gx_symbol = None, gx_timeframe = None, gx_timestamp = No_Timestamp\<rparr>"

definition get_governance_data :: "report_env \<Rightarrow> time \<Rightarrow> string \<Rightarrow> fstring list" where
  "get_governance_data env now cid =
     gr_violations (evaluate_trade now (Some correlation_context) (re_governance env))"

record counterfactual_data =
  cd_allowed :: bool
  cd_violated_rules :: "pyval list"
  cd_pnl_difference :: rat

text \<open>A failed simulation has none of the fields, so each takes its default.\<close>

definition get_counterfactual_data :: "report_env \<Rightarrow> time \<Rightarrow> string \<Rightarrow> counterfactual_data" where
  "get_counterfactual_data env now cid =
     (case simulate now (re_timeline env) cid of
        SimOk r \<Rightarrow> \<lparr>cd_allowed = cf_allowed r, cd_violated_rules = cf_violated_rules r,
                   cd_pnl_difference = cf_pnl_difference r\<rparr>
      | SimError _ \<Rightarrow> \<lparr>cd_allowed = True, cd_violated_rules = [], cd_pnl_difference = 0\<rparr>)"

text \<open>The rational number that a real rounded to \<open>n\<close> places is.\<close>

definition decimal :: "nat \<Rightarrow> real \<Rightarrow> rat" where
  "decimal n x = of_int (round_half_even (x * 10 ^ n)) / 10 ^ n"

definition get_policy_data :: "report_env \<Rightarrow> time \<Rightarrow> rat" where
  "get_policy_data env now = decimal 4 (cr_confidence_score (evaluate_policy now (re_evaluator env) ''default''))"

definition calculate_confidence_score :: "timeline_data \<Rightarrow> int \<Rightarrow> counterfactual_data \<Rightarrow> rat \<Rightarrow> rat" where
  "calculate_confidence_score td violation_count cd policy_confidence =
     (let events = td_events_count td;
          pnl = td_outcome_pnl td;
          score = 50
            + (if events \<ge> 4 then 20 else if events \<ge> 3 then 15 else if events \<ge> 2 then 10 else 0)
            + (if violation_count = 0 then 20 else if violation_count = 1 then 10
               else if violation_count > 3 then -10 else 0)
            + (if cd_allowed cd then 20 else -10)
            + policy_confidence * 20
            + (if pnl > 0 then 10 else if pnl < -100 then -5 else 0)
      in py_round 1 (max 0 (min 100 score)))"

definition determine_governance_pressure :: "int \<Rightarrow> string" where
  "determine_governance_pressure violation_count =
     (if violation_count = 0 then ''none'' else if violation_count = 1 then ''low''
      else if violation_count \<le> 3 then ''medium'' else ''high'')"

definition calculate_counterfactual_regret :: "counterfactual_data \<Rightarrow> rat" where
  "calculate_counterfactual_regret cd = py_round 2 (cd_pnl_difference cd)"

definition identify_risk_flags :: "timeline_data \<Rightarrow> fstring list \<Rightarrow> counterfactual_data \<Rightarrow> fstring list" where
  "identify_risk_flags td violations cd =
     (if violations \<noteq> [] then [[T ''Governance violations detected: '', I (int (length violations)), T '' rule(s)'']] else []) @
     (if td_outcome_pnl td < -200 then [[T ''Large loss: '', F (td_outcome_pnl td)]] else []) @
     (if \<not> cd_allowed cd \<and> cd_violated_rules cd \<noteq> []
      then [[T ''Would have been blocked: '', PV (hd (cd_violated_rules cd))]] else []) @
     (if cd_pnl_difference cd > 150 then [[T ''High counterfactual opportunity cost'']] else []) @
     (if td_events_count td < 2 then [[T ''Limited event data for analysis'']] else [])"

definition report_explanation :: "string \<Rightarrow> rat \<Rightarrow> string \<Rightarrow> rat \<Rightarrow> fstring list \<Rightarrow> fstring" where
  "report_explanation cid confidence pressure regret flags =
     join_parts [T '' '']
       ([[T ''Trade '', T cid, T '' was analyzed with '',
          T (if confidence \<ge> 75 then ''high confidence'' else if confidence \<ge> 50 then ''moderate confidence''
             else ''low confidence''), T '' ('', F confidence, T ''/100).'']] @
        [[T (if pressure = ''none'' then ''No governance violations detected.''
             else if pressure = ''low'' then ''Light governance pressure from minimal violations.''
             else if pressure = ''medium'' then ''Moderate governance pressure from multiple violations.''
             else ''Significant governance pressure from numerous violations.'')]] @
        (if regret > 0 then
           [[T ''Counterfactual analysis suggests '', F regret,
             T '' in unrealized opportunity cost if rules were enforced.'']]
         else if regret < 0 then
           [[T ''Counterfactual analysis suggests '', F (- regret), T '' in avoided loss if rules were enforced.'']]
         else []) @
        (if flags \<noteq> [] then [T ''Key observations: '' # join_parts [T ''; ''] (take 2 flags)] else []) @
        [[T ''This analysis is provided for human review only. No enforcement or blocking occurs based on this report.'']])"

definition generate_report :: "report_env \<Rightarrow> time \<Rightarrow> string \<Rightarrow> pydict" where
  "generate_report env now cid =
     (let td = get_timeline_data env cid;
          violations = get_governance_data env now cid;
          cd = get_counterfactual_data env now cid;
          confidence = calculate_confidence_score td (int (length violations)) cd (get_policy_data env now);
          pressure = determine_governance_pressure (int (length violations));
          regret = calculate_counterfactual_regret cd;
          flags = identify_risk_flags td violations cd
      in [(''correlation_id'', VStr (if cid = [] then ''unknown'' else cid)),
          (''confidence_score'', VFloat confidence),
          (''governance_pressure'', VStr pressure),
          (''counterfactual_regret'', VFloat regret),
          (''risk_flags'', VList (map (VStr \<circ> re_render env) flags)),
          (''explanation'', VStr (re_render env (report_explanation cid confidence pressure regret flags))),
          (''evaluated_at'', VIso now)])"

section \<open>Batches\<close>

definition numeric_field :: "string \<Rightarrow> pydict \<Rightarrow> rat list" where
  "numeric_field k d = (case map_option as_number (map_of d k) of Some (Some x) \<Rightarrow> [x] | _ \<Rightarrow> [])"

definition flag_count :: "pydict \<Rightarrow> int" where
  "flag_count d = (case dget ''risk_flags'' d (VList []) of VList xs \<Rightarrow> int (length xs) | _ \<Rightarrow> 0)"

definition batch_report_summary :: "time \<Rightarrow> pydict list \<Rightarrow> pydict" where
  "batch_report_summary now reports =
     (let rs = filter (\<lambda>r. \<not> truthy (dget ''_batch_summary'' r VNone)) reports in
      if rs = [] then
        [(''_batch_summary'', VBool True), (''total_reports'', VInt 0), (''average_confidence'', VFloat 0),
         (''evaluated_at'', VIso now)]
      else
        (let scores = concat (map (numeric_field ''confidence_score'') rs);
             avg = (if scores = [] then 50 else mean scores);
             pressures = fold (\<lambda>r. bump (str_of (dget ''governance_pressure'' r (VStr ''none'')))) rs [];
             regret = sum_list (concat (map (numeric_field ''counterfactual_regret'') rs))
         in [(''_batch_summary'', VBool True), (''total_reports'', VInt (int (length rs))),
             (''average_confidence'', VFloat (py_round 1 avg)),
             (''governance_pressure_distribution'', VDict (map (\<lambda>(p, n). (p, VInt n)) pressures)),
             (''total_risk_flags'', VInt (sum_list (map flag_count rs))),
             (''average_regret'', VFloat (py_round 2 (regret / of_nat (length rs)))),
             (''evaluated_at'', VIso now)]))"

definition generate_batch :: "report_env \<Rightarrow> time \<Rightarrow> pyval \<Rightarrow> pydict list" where
  "generate_batch env now ids =
     (case ids of
        VList xs \<Rightarrow>
          (let reports = map (\<lambda>v. generate_report env now (str_of v)) (filter is_str xs) in
           if reports = [] then [] else reports @ [batch_report_summary now reports])
      | _ \<Rightarrow> [])"

section \<open>The archive\<close>

record archive_service =
  ia_archive :: "pydict list"

definition archive_init :: archive_service where
  "archive_init = \<lparr>ia_archive = []\<rparr>"

definition archive_report :: "pyval \<Rightarrow> archive_service \<Rightarrow> archive_service" where
  "archive_report report s =
     (case report of
        VDict d \<Rightarrow>
          if d = [] \<or> map_of d ''correlation_id'' = None then s
          else s\<lparr>ia_archive := ia_archive s @ [d]\<rparr>
      | _ \<Rightarrow> s)"

definition archive_batch :: "pyval \<Rightarrow> archive_service \<Rightarrow> archive_service" where
  "archive_batch reports s = (case reports of VList rs \<Rightarrow> fold archive_report rs s | _ \<Rightarrow> s)"

definition fetch_by_correlation_id :: "string option \<Rightarrow> archive_service \<Rightarrow> pydict list" where
  "fetch_by_correlation_id cid s =
     (case cid of
        None \<Rightarrow> []
      | Some c \<Rightarrow> filter (\<lambda>d. dget ''correlation_id'' d VNone = VStr c) (ia_archive s))"

definition fetch_all :: "archive_service \<Rightarrow> pydict list" where
  "fetch_all s = ia_archive s"

record trends =
  tr_total_archived :: int
  tr_average_confidence :: rat
  tr_confidence_min :: rat
  tr_confidence_max :: rat
  tr_pressure_distribution :: "(string \<times> int) list"

definition pressure_levels :: "string list" where
  "pressure_levels = [''none'', ''low'', ''medium'', ''high'']"

definition empty_trends :: trends where
  "empty_trends = \<lparr>tr_total_archived = 0, tr_average_confidence = 0, tr_confidence_min = 0,
     tr_confidence_max = 0, tr_pressure_distribution = map (\<lambda>p. (p, 0)) pressure_levels\<rparr>"

text \<open>A pressure that cannot be hashed makes the membership test raise.\<close>

definition compute_trends :: "archive_service \<Rightarrow> trends" where
  "compute_trends s =
     (let rs = ia_archive s;
          scores = concat (map (numeric_field ''confidence_score'') rs);
          pressures = map (\<lambda>r. dget ''governance_pressure'' r (VStr ''none'')) rs in
      if rs = [] \<or> \<not> list_all py_hashable pressures then empty_trends
      else
       \<lparr>tr_total_archived = int (length rs),
        tr_average_confidence = py_round 2 (if scores = [] then 0 else mean scores),
        tr_confidence_min = py_round 2 (if scores = [] then 0 else Min (set scores)),
        tr_confidence_max = py_round 2 (if scores = [] then 0 else Max (set scores)),
        tr_pressure_distribution =
          map (\<lambda>p. (p, int (length (filter (\<lambda>v. v = VStr p) pressures)))) pressure_levels\<rparr>)"

section \<open>Lemmas\<close>

text \<open>Without a timestamp the governance service answers an error report with one violation.\<close>

lemma governance_data_constant:
  "get_governance_data env now cid = [[T ''Trade timestamp is missing. Cannot evaluate timing rules.'']]"
  by (simp add: get_governance_data_def correlation_context_def evaluate_trade_def
      Governance.create_error_report_def)

lemma report_fields:
  "dget ''correlation_id'' (generate_report env now cid) VNone = VStr (if cid = [] then ''unknown'' else cid)"
  "dget ''governance_pressure'' (generate_report env now cid) v = VStr ''low''"
  "map_of (generate_report env now cid) ''correlation_id'' \<noteq> None"
  "dget ''confidence_score'' (generate_report env now cid) v =
     VFloat (calculate_confidence_score (get_timeline_data env cid) 1 (get_counterfactual_data env now cid) (get_policy_data env now))"
  by (simp_all add: generate_report_def dget_def Let_def governance_data_constant determine_governance_pressure_def)

lemma archive_prefix: "prefix (ia_archive s) (ia_archive (archive_report r s))"
  by (auto simp: archive_report_def split: pyval.splits)

interpretation archive_log: append_only archive_report ia_archive
  by unfold_locales (rule archive_prefix)

lemma archive_report_dict:
  "map_of d ''correlation_id'' \<noteq> None \<Longrightarrow> archive_report (VDict d) s = s\<lparr>ia_archive := ia_archive s @ [d]\<rparr>"
  by (auto simp: archive_report_def)

lemma archive_reports:
  assumes "\<forall>d\<in>set ds. map_of d ''correlation_id'' \<noteq> None"
  shows "fold archive_report (map VDict ds) s = s\<lparr>ia_archive := ia_archive s @ ds\<rparr>"
  using assms by (induction ds arbitrary: s) (auto simp: archive_report_dict)

lemma summary_not_archived: "archive_report (VDict (batch_report_summary now rs)) s = s"
  by (simp add: archive_report_def batch_report_summary_def Let_def)

definition reports_for :: "report_env \<Rightarrow> time \<Rightarrow> pyval \<Rightarrow> pydict list" where
  "reports_for env now ids = (case ids of VList xs \<Rightarrow> map (\<lambda>v. generate_report env now (str_of v)) (filter is_str xs) | _ \<Rightarrow> [])"

lemma archive_of_batch:
  "archive_batch (VList (map VDict (generate_batch env now ids))) s = s\<lparr>ia_archive := ia_archive s @ reports_for env now ids\<rparr>"
proof -
  have ok: "\<forall>d\<in>set (reports_for env now ids). map_of d ''correlation_id'' \<noteq> None"
    by (auto simp: reports_for_def report_fields(3)[simplified] split: pyval.splits)
  have gen: "generate_batch env now ids = (if reports_for env now ids = [] then []
      else reports_for env now ids @ [batch_report_summary now (reports_for env now ids)])"
    by (simp add: generate_batch_def reports_for_def Let_def split: pyval.splits)
  show ?thesis
    unfolding archive_batch_def gen
    by (simp add: archive_reports[OF ok] summary_not_archived)
qed

lemma decimal_unit: "0 \<le> x \<Longrightarrow> x \<le> 1 \<Longrightarrow> 0 \<le> decimal 4 x \<and> decimal 4 x \<le> 1"
proof -
  assume x: "0 \<le> x" "x \<le> 1"
  have "0 \<le> round_half_even (x * 10 ^ 4)" by (rule round_half_even_mono_int) (use x in simp)
  moreover have "round_half_even (x * 10 ^ 4) \<le> 10 ^ 4" by (rule round_half_even_upper) (use x in simp)
  then have "(of_int (round_half_even (x * 10 ^ 4)) :: rat) \<le> of_int (10 ^ 4)" by (simp only: of_int_le_iff)
  ultimately show ?thesis by (simp add: decimal_def)
qed

end
