(* ===== verification/Offline_Evaluation.thy ===== *)
theory Offline_Evaluation
  imports Intelligence_Report Trust_Calibration
begin

text \<open>
  \<open>reasoner_service/decision_offline_evaluation_service.py\<close>: archived reports replayed under a
  hypothetical policy, scenarios compared, batches of scenarios.

  MD5 and the parser of ISO strings are parameters (an ISO string that the program wrote is kept
  as its time). Values compared with \<open><\<close> are numbers or strings. \<open>None\<close> is an exception inside a
  helper, which answers with its neutral value. Equality of values is equality of their constructors
  (no comparison of an int with a float). Sample standard deviations are reals. Constant
  disclaimers, the quotes around scenario names, the explanation of a batch and the JSON and text
  renderings of a result are left out.
\<close>

section \<open>Reading values\<close>

record eval_libs =
  el_md5 :: "fstring \<Rightarrow> string"
  el_parse_iso :: "string \<Rightarrow> time option"

text \<open>\<open>datetime.fromisoformat(v.replace('Z', '+00:00'))\<close>.\<close>

definition parse_time :: "eval_libs \<Rightarrow> pyval \<Rightarrow> time option" where
  "parse_time l v = (case v of VIso t \<Rightarrow> Some t | VStr s \<Rightarrow> el_parse_iso l s | _ \<Rightarrow> None)"

definition py_less :: "pyval \<Rightarrow> pyval \<Rightarrow> bool option" where
  "py_less a b =
     (case (a, b) of
        (VStr s, VStr t) \<Rightarrow> Some (s < t)
      | _ \<Rightarrow> (case (as_number a, as_number b) of (Some x, Some y) \<Rightarrow> Some (x < y) | _ \<Rightarrow> None))"

text \<open>\<open>x in c\<close> for a list, a string or a dictionary.\<close>

definition py_in :: "pyval \<Rightarrow> pyval \<Rightarrow> bool option" where
  "py_in x c =
     (case c of
        VList vs \<Rightarrow> Some (x \<in> set vs)
      | VDict d \<Rightarrow> if py_hashable x then Some (x \<in> set (map (VStr \<circ> fst) d)) else None
      | VStr s \<Rightarrow> (case x of VStr t \<Rightarrow> Some (sublist t s) | _ \<Rightarrow> None)
      | _ \<Rightarrow> None)"

definition py_set :: "pyval \<Rightarrow> pyval list option" where
  "py_set v = (case iterate v of None \<Rightarrow> None | Some vs \<Rightarrow> if list_all py_hashable vs then Some (remdups vs) else None)"

section \<open>Selecting reports\<close>

definition filter_by_window :: "eval_libs \<Rightarrow> pydict list \<Rightarrow> pyval \<Rightarrow> pydict list" where
  "filter_by_window l reports time_window =
     (if \<not> truthy time_window then reports
      else
        (case time_window of
           VDict w \<Rightarrow>
             (let start_str = dget ''start'' w VNone; end_str = dget ''end'' w VNone in
              if \<not> truthy start_str \<or> \<not> truthy end_str then reports
              else
                (case (parse_time l start_str, parse_time l end_str) of
                   (Some start_ts, Some end_ts) \<Rightarrow>
                     filter (\<lambda>r. case parse_time l (dget ''evaluated_at'' r (VStr [])) of
                                   None \<Rightarrow> False | Some t \<Rightarrow> start_ts \<le> t \<and> t \<le> end_ts) reports
                 | _ \<Rightarrow> reports))
         | _ \<Rightarrow> reports))"

section \<open>One report under a policy\<close>

record report_verdict =
  rv_would_block :: bool
  rv_violated :: "string list"
  rv_confidence :: pyval
  rv_pressure :: pyval

text \<open>One constraint: \<open>Some True\<close> when the report violates it, \<open>None\<close> when the check raises. The
  code first asks whether the key is in the constraints and then calls their \<open>get\<close>.\<close>

definition constraint :: "string \<Rightarrow> pyval \<Rightarrow> (pyval \<Rightarrow> bool option) \<Rightarrow> bool option" where
  "constraint k policy check =
     (case policy of
        VDict d \<Rightarrow> (case map_of d k of None \<Rightarrow> Some False | Some v \<Rightarrow> check v)
      | _ \<Rightarrow> (if py_in (VStr k) policy = Some False then Some False else None))"

definition constraint_checks :: "pyval \<Rightarrow> pydict \<Rightarrow> (string \<times> bool option) list" where
  "constraint_checks policy r =
     [(''max_exposure'', constraint ''max_exposure'' policy (\<lambda>m. py_less m (dget ''trade_volume'' r (VInt 0)))),
      (''max_drawdown'', constraint ''max_drawdown'' policy (\<lambda>m.
          case map_of r ''drawdown'' of None \<Rightarrow> Some False | Some d \<Rightarrow> py_less d m)),
      (''min_confidence'', constraint ''min_confidence'' policy (\<lambda>m. py_less (dget ''confidence_score'' r (VFloat 1)) m)),
      (''blocked_regimes'', constraint ''blocked_regimes'' policy (\<lambda>m. py_in (dget ''regime'' r (VStr [])) m)),
      (''required_governance'', constraint ''required_governance'' policy (\<lambda>m.
          case (py_set m, py_set (dget ''governance_markers'' r (VList []))) of
            (Some required, Some present) \<Rightarrow> Some (\<not> set required \<subseteq> set present)
          | _ \<Rightarrow> None))]"

definition evaluate_report :: "pyval \<Rightarrow> pydict \<Rightarrow> (pyval \<times> report_verdict) option" where
  "evaluate_report policy r =
     (let checks = constraint_checks policy r;
          violated = map fst (filter (\<lambda>(k, v). v = Some True) checks);
          report_id = dget ''correlation_id'' r (VStr ''unknown'')
      in if list_ex (\<lambda>(k, v). v = None) checks \<or> \<not> py_hashable report_id then None
         else Some (report_id,
           \<lparr>rv_would_block = (violated \<noteq> []), rv_violated = violated,
            rv_confidence = dget ''confidence_score'' r (VFloat 0),
            rv_pressure = dget ''governance_pressure'' r (VFloat 0)\<rparr>))"

text \<open>The verdicts are stored under the correlation id: a later report of a trade replaces an earlier one.\<close>

definition evaluate_reports :: "pydict list \<Rightarrow> pyval \<Rightarrow> (pyval \<times> report_verdict) list" where
  "evaluate_reports reports policy =
     fold (\<lambda>r results. case evaluate_report policy r of None \<Rightarrow> results | Some (i, v) \<Rightarrow> AList.update i v results)
       reports []"

section \<open>Statistics\<close>

record distribution =
  ds_min :: rat
  ds_max :: rat
  ds_mean :: rat
  ds_median :: rat

record volume_statistics =
  vl_total :: rat
  vl_average :: rat
  vl_max :: rat
  vl_min :: rat

record eval_statistics =
  es_total :: int
  es_allowed :: int
  es_would_block :: int
  es_average_confidence :: rat
  es_confidence :: "distribution option"
  es_confidence_stdev :: real
  es_pressure :: "distribution option"
  es_risk_flags :: "(pyval \<times> int) list"
  es_volume :: "volume_statistics option"

definition failed_statistics :: eval_statistics where
  "failed_statistics = \<lparr>es_total = 0, es_allowed = 0, es_would_block = 0, es_average_confidence = 0,
     es_confidence = None, es_confidence_stdev = 0, es_pressure = None, es_risk_flags = [], es_volume = None\<rparr>"

definition median :: "rat list \<Rightarrow> rat" where
  "median xs =
     (let s = sort xs; n = length xs in
      if odd n then s ! (n div 2) else (s ! (n div 2 - 1) + s ! (n div 2)) / 2)"

definition sample_stdev :: "rat list \<Rightarrow> real" where
  "sample_stdev xs =
     sqrt (of_rat (sum_list (map (\<lambda>x. (x - mean xs) ^ 2) xs) / of_nat (length xs - 1)))"

definition distribution_of :: "rat list \<Rightarrow> distribution" where
  "distribution_of xs =
     (if xs = [] then \<lparr>ds_min = 0, ds_max = 0, ds_mean = 0, ds_median = 0\<rparr>
      else \<lparr>ds_min = Min (set xs), ds_max = Max (set xs), ds_mean = mean xs, ds_median = median xs\<rparr>)"

definition all_flags :: "pydict list \<Rightarrow> pyval list option" where
  "all_flags reports = map_option concat (all_some (map (\<lambda>r. iterate (dget ''risk_flags'' r (VList []))) reports))"

text \<open>\<open>mean\<close> raises for a value that is no number.\<close>

definition compute_statistics :: "pydict list \<Rightarrow> (pyval \<times> report_verdict) list \<Rightarrow> eval_statistics option" where
  "compute_statistics reports results =
     (let verdicts = map snd results;
          blocked = int (length (filter rv_would_block verdicts))
      in case (all_some (map (as_number \<circ> rv_confidence) verdicts), all_some (map (as_number \<circ> rv_pressure) verdicts),
               all_flags reports, all_some (map (\<lambda>r. as_number (dget ''trade_volume'' r (VInt 0))) reports)) of
           (Some confidences, Some pressures, Some flags, Some volumes) \<Rightarrow>
             if list_all py_hashable flags then
               Some \<lparr>es_total = int (length results), es_allowed = int (length results) - blocked,
                     es_would_block = blocked,
                     es_average_confidence = (if confidences = [] then 0 else mean confidences),
                     es_confidence = Some (distribution_of confidences),
                     es_confidence_stdev = (if length confidences > 1 then sample_stdev confidences else 0),
                     es_pressure = Some (distribution_of pressures),
                     es_risk_flags = fold bump flags [],
                     es_volume = Some \<lparr>vl_total = sum_list volumes,
                        vl_average = (if volumes = [] then 0 else mean volumes),
                        vl_max = (if volumes = [] then 0 else Max (set volumes)),
                        vl_min = (if volumes = [] then 0 else Min (set volumes))\<rparr>\<rparr>
             else None
         | _ \<Rightarrow> None)"

definition evaluation_statistics :: "pydict list \<Rightarrow> (pyval \<times> report_verdict) list \<Rightarrow> eval_statistics" where
  "evaluation_statistics reports results =
     (case compute_statistics reports results of None \<Rightarrow> failed_statistics | Some s \<Rightarrow> s)"

record impact_analysis =
  im_blocked_percentage :: rat
  im_allowed_percentage :: rat
  im_average_blocked_confidence :: rat
  im_average_allowed_confidence :: rat

definition no_impact :: impact_analysis where
  "no_impact = \<lparr>im_blocked_percentage = 0, im_allowed_percentage = 100,
     im_average_blocked_confidence = 0, im_average_allowed_confidence = 0\<rparr>"

definition compute_impact_analysis :: "(pyval \<times> report_verdict) list \<Rightarrow> eval_statistics \<Rightarrow> impact_analysis" where
  "compute_impact_analysis results st =
     (let n = es_total st;
          pct = (\<lambda>k. if n > 0 then of_int k / of_int n * 100 else 0);
          conf = (\<lambda>p. all_some (map (as_number \<circ> rv_confidence) (filter p (map snd results))));
          avg = (\<lambda>xs. if xs = [] then 0 else mean xs)
      in case (conf rv_would_block, conf (\<lambda>v. \<not> rv_would_block v)) of
           (Some blocked, Some allowed) \<Rightarrow>
             \<lparr>im_blocked_percentage = pct (es_would_block st), im_allowed_percentage = pct (es_allowed st),
              im_average_blocked_confidence = avg blocked, im_average_allowed_confidence = avg allowed\<rparr>
         | _ \<Rightarrow> no_impact)"

section \<open>Scenarios\<close>

record scenario =
  osc_scenario_name :: pyval
  osc_scenario_id :: string
  osc_timestamp :: time
  osc_policy_constraints :: pyval
  osc_statistics :: eval_statistics
  osc_impact :: impact_analysis
  osc_explanation :: fstring

record offline_service =
  off_archive :: archive_service
  off_cache :: "(string \<times> scenario) list"

definition scenario_id :: "eval_libs \<Rightarrow> time \<Rightarrow> pyval \<Rightarrow> string" where
  "scenario_id l now name = ''scenario_'' @ take 8 (el_md5 l [PV name, T ''_'', At now])"

definition batch_id :: "eval_libs \<Rightarrow> time \<Rightarrow> string" where
  "batch_id l now = ''batch_'' @ take 8 (el_md5 l [At now])"

definition scenario_explanation :: "pyval \<Rightarrow> eval_statistics \<Rightarrow> impact_analysis \<Rightarrow> fstring" where
  "scenario_explanation name st im =
     [T ''Scenario '', PV name, T '' evaluated '', I (es_total st), T '' historical trades. '',
      T ''Under the hypothetical policy constraints, '', I (es_would_block st), T '' trades ('',
      F (im_blocked_percentage im), T ''%) would have been blocked, and '', I (es_allowed st), T '' ('',
      F (100 - im_blocked_percentage im), T ''%) would have been allowed. '',
      T ''Average confidence score across all trades was '', F (es_average_confidence st),
      T ''. This is informational analysis only and does not influence live decisions.'']"

definition empty_evaluation :: "time \<Rightarrow> pyval \<Rightarrow> string \<Rightarrow> pydict \<Rightarrow> scenario" where
  "empty_evaluation now name sid config =
    \<lparr>osc_scenario_name = name, osc_scenario_id = sid, osc_timestamp = now,
     osc_policy_constraints = dget ''policy_constraints'' config (VDict []),
     osc_statistics = failed_statistics, osc_impact = no_impact,
     osc_explanation = [T ''Evaluation resulted in empty dataset.'']\<rparr>"

definition evaluate_policy_scenario ::
    "eval_libs \<Rightarrow> time \<Rightarrow> time \<Rightarrow> pyval \<Rightarrow> offline_service \<Rightarrow> scenario \<times> offline_service" where
  "evaluate_policy_scenario l now1 now2 config s =
     (let cfg = (case config of VDict d \<Rightarrow> d | _ \<Rightarrow> []);
          name = dget ''scenario_name'' cfg (VStr ''unnamed_scenario'');
          sid = scenario_id l now1 name;
          reports = ia_archive (off_archive s);
          selected = filter_by_window l reports (dget ''evaluation_window'' cfg VNone)
      in if reports = [] \<or> selected = [] then (empty_evaluation now2 name sid cfg, s)
         else
           (let policy = dget ''policy_constraints'' cfg (VDict []);
                results = evaluate_reports selected policy;
                st = evaluation_statistics selected results;
                im = compute_impact_analysis results st;
                r = \<lparr>osc_scenario_name = name, osc_scenario_id = sid, osc_timestamp = now2,
                     osc_policy_constraints = policy, osc_statistics = st, osc_impact = im,
                     osc_explanation = scenario_explanation name st im\<rparr>
            in (r, s\<lparr>off_cache := AList.update sid r (off_cache s)\<rparr>)))"

section \<open>Comparing scenarios\<close>

record difference =
  df_a :: rat
  df_b :: rat
  df_direction :: string
  df_delta :: rat

definition difference_of :: "rat \<Rightarrow> rat \<Rightarrow> difference" where
  "difference_of a b =
    \<lparr>df_a = a, df_b = b,
     df_direction = (if a > b then ''A_higher'' else if b > a then ''B_higher'' else ''same''),
     df_delta = b - a\<rparr>"

definition total_volume :: "scenario \<Rightarrow> rat" where
  "total_volume r = (case es_volume (osc_statistics r) of None \<Rightarrow> 0 | Some v \<Rightarrow> vl_total v)"

text \<open>The change of the governance pressure is the constant 0.\<close>

definition directional_differences :: "scenario \<Rightarrow> scenario \<Rightarrow> (string \<times> difference) list" where
  "directional_differences a b =
     [(''blocked_percentage'', difference_of (im_blocked_percentage (osc_impact a)) (im_blocked_percentage (osc_impact b))),
      (''average_confidence'', difference_of (im_average_blocked_confidence (osc_impact a)) (im_average_blocked_confidence (osc_impact b))),
      (''governance_pressure'', difference_of 0 0),
      (''trade_volume'', difference_of (total_volume a) (total_volume b))]"

record isolation =
  is_a_unique :: "string list"
  is_b_unique :: "string list"
  is_shared :: "string list"

text \<open>The lists come out of sets; the model has them in the order of the first dictionary.\<close>

definition constraint_isolation :: "scenario \<Rightarrow> scenario \<Rightarrow> isolation" where
  "constraint_isolation a b =
     (case (osc_policy_constraints a, osc_policy_constraints b) of
        (VDict p, VDict q) \<Rightarrow>
          \<lparr>is_a_unique = filter (\<lambda>k. k \<notin> fst ` set q) (map fst p),
           is_b_unique = filter (\<lambda>k. k \<notin> fst ` set p) (map fst q),
           is_shared = filter (\<lambda>k. k \<in> fst ` set q) (map fst p)\<rparr>
      | _ \<Rightarrow> \<lparr>is_a_unique = [], is_b_unique = [], is_shared = []\<rparr>)"

record comparison =
  cp_a_name :: pyval
  cp_b_name :: pyval
  cp_timestamp :: time
  cp_differences :: "(string \<times> difference) list"
  cp_isolation :: isolation
  cp_explanation :: fstring

definition compare_scenarios :: "time \<Rightarrow> scenario \<Rightarrow> scenario \<Rightarrow> comparison" where
  "compare_scenarios now a b =
    \<lparr>cp_a_name = osc_scenario_name a, cp_b_name = osc_scenario_name b, cp_timestamp = now,
     cp_differences = directional_differences a b, cp_isolation = constraint_isolation a b,
     cp_explanation =
       [T ''Comparing '', PV (osc_scenario_name a), T '' and '', PV (osc_scenario_name b), T '': '',
        PV (osc_scenario_name a), T '' would block '', F (im_blocked_percentage (osc_impact a)),
        T ''% of trades, while '', PV (osc_scenario_name b), T '' would block '',
        F (im_blocked_percentage (osc_impact b)),
        T ''%. This comparison is directional only and does not rank scenarios. No actual enforcement occurs.'']\<rparr>"

section \<open>Batches\<close>

record batch_summary_stats =
  bs_average :: rat
  bs_min :: rat
  bs_max :: rat
  bs_consistency :: real

definition offline_batch_summary :: "scenario list \<Rightarrow> batch_summary_stats" where
  "offline_batch_summary results =
     (let pcts = map (im_blocked_percentage \<circ> osc_impact) results in
      if pcts = [] then \<lparr>bs_average = 0, bs_min = 0, bs_max = 0, bs_consistency = 0\<rparr>
      else
       \<lparr>bs_average = mean pcts, bs_min = Min (set pcts), bs_max = Max (set pcts),
        bs_consistency = max 0 (min 1
          (if length pcts > 1 \<and> Max (set pcts) > 0 then 1 - sample_stdev pcts / 100 else 1))\<rparr>)"

text \<open>The entries of a batch: a configuration that is no dictionary is an error of its own.\<close>

datatype batch_entry = BatchOk pyval scenario | BatchError string fstring

definition entry_name :: "nat \<Rightarrow> string" where
  "entry_name i = ''scenario_'' @ show_nat i"

fun batch_entries :: "eval_libs \<Rightarrow> time \<Rightarrow> nat \<Rightarrow> pyval list \<Rightarrow> offline_service \<Rightarrow> batch_entry list \<times> offline_service" where
  "batch_entries l now i [] s = ([], s)"
| "batch_entries l now i (c # cs) s =
     (case c of
        VDict d \<Rightarrow>
          (let (r, s1) = evaluate_policy_scenario l now now c s;
               (es, s2) = batch_entries l now (Suc i) cs s1
           in (BatchOk (dget ''scenario_name'' d (VStr (entry_name i))) r # es, s2))
      | _ \<Rightarrow>
          (let (es, s2) = batch_entries l now (Suc i) cs s
           in (BatchError (entry_name i) [T ''Invalid config: not a dict''] # es, s2)))"

fun batch_results :: "batch_entry list \<Rightarrow> scenario list" where
  "batch_results [] = []"
| "batch_results (BatchOk _ r # es) = r # batch_results es"
| "batch_results (BatchError _ _ # es) = batch_results es"

record batch_report =
  br_batch_id :: string
  br_timestamp :: time
  br_total :: int
  br_successful :: int
  br_failed :: int
  br_scenarios :: "batch_entry list"
  br_summary :: batch_summary_stats

text \<open>A value that cannot be enumerated, or has no length, gives the empty batch.\<close>

definition run_batch_evaluation :: "eval_libs \<Rightarrow> time \<Rightarrow> pyval \<Rightarrow> offline_service \<Rightarrow> batch_report \<times> offline_service" where
  "run_batch_evaluation l now configs s =
     (case iterate configs of
        None \<Rightarrow> (\<lparr>br_batch_id = batch_id l now, br_timestamp = now, br_total = 0, br_successful = 0, br_failed = 0,
                 br_scenarios = [], br_summary = \<lparr>bs_average = 0, bs_min = 0, bs_max = 0, bs_consistency = 0\<rparr>\<rparr>, s)
      | Some cs \<Rightarrow>
          (let (es, s') = batch_entries l now 0 cs s; ok = batch_results es in
           (\<lparr>br_batch_id = batch_id l now, br_timestamp = now, br_total = int (length cs),
             br_successful = int (length ok), br_failed = int (length cs) - int (length ok),
             br_scenarios = es, br_summary = offline_batch_summary ok\<rparr>, s')))"

end
