(* ===== verification/Intelligence_Props.thy ===== *)
theory Intelligence_Props
  imports Offline_Evaluation
begin

text \<open>
  The chain from a recorded trade to the evaluation of a policy: timeline, governance, simulator
  and confidence evaluator feed the report, reports feed the archive, the archive feeds the offline
  evaluation. What each link promises, and what comes out at the end.
\<close>

section \<open>Verdicts and statistics\<close>

lemma all_some_set: "all_some xs = Some ys \<Longrightarrow> set xs = Some ` set ys \<and> length ys = length xs"
  by (induction xs arbitrary: ys) (auto split: option.splits)

lemma all_some_complete: "list_all (\<lambda>x. x \<noteq> None) xs \<Longrightarrow> all_some xs \<noteq> None"
  by (induction xs) auto

lemma all_some_none: "None \<in> set xs \<Longrightarrow> all_some xs = None"
  by (induction xs) (auto split: option.splits)

lemma evaluate_report_fields:
  assumes "evaluate_report policy r = Some (i, v)"
  shows "rv_pressure v = dget ''governance_pressure'' r (VFloat 0)" "i = dget ''correlation_id'' r (VStr ''unknown'')"
    "rv_would_block v \<longleftrightarrow> rv_violated v \<noteq> []"
  using assms by (auto simp: evaluate_report_def Let_def split: if_splits)

lemma snd_update: "(k, v) \<in> set (AList.update i w xs) \<Longrightarrow> (k, v) \<in> set xs \<or> (k = i \<and> v = w)"
  by (induction xs) (auto split: if_splits)

lemma evaluate_reports_snoc:
  "evaluate_reports (rs @ [r]) policy =
     (case evaluate_report policy r of None \<Rightarrow> evaluate_reports rs policy
      | Some (i, v) \<Rightarrow> AList.update i v (evaluate_reports rs policy))"
  by (simp add: evaluate_reports_def split: option.split prod.split)

lemma evaluate_reports_from:
  "(i, v) \<in> set (evaluate_reports rs policy) \<Longrightarrow> \<exists>r\<in>set rs. evaluate_report policy r = Some (i, v)"
proof (induction rs rule: rev_induct)
  case Nil
  then show ?case by (simp add: evaluate_reports_def)
next
  case (snoc r rs)
  then show ?case
    by (auto simp: evaluate_reports_snoc dest!: snd_update split: option.splits)
qed

lemma evaluate_reports_distinct: "distinct (map fst (evaluate_reports rs policy))"
  by (induction rs rule: rev_induct)
     (auto simp: evaluate_reports_snoc distinct_update split: option.splits, simp add: evaluate_reports_def)

lemma evaluate_reports_length: "length (evaluate_reports rs policy) \<le> card (set (map (\<lambda>r. dget ''correlation_id'' r (VStr ''unknown'')) rs))"
proof -
  let ?ids = "set (map (\<lambda>r. dget ''correlation_id'' r (VStr ''unknown'')) rs)"
  have "set (map fst (evaluate_reports rs policy)) \<subseteq> ?ids"
    using evaluate_reports_from evaluate_report_fields(2) by fastforce
  then have "card (set (map fst (evaluate_reports rs policy))) \<le> card ?ids" by (rule card_mono[rotated]) simp
  then show ?thesis by (simp only: distinct_card[OF evaluate_reports_distinct] length_map)
qed

definition stats_ok :: "eval_statistics \<Rightarrow> nat \<Rightarrow> bool" where
  "stats_ok st n \<longleftrightarrow> es_total st = es_allowed st + es_would_block st \<and> 0 \<le> es_allowed st \<and> 0 \<le> es_would_block st \<and>
     es_total st \<le> int n"

lemma statistics_ok: "length results \<le> n \<Longrightarrow> stats_ok (evaluation_statistics reports results) n"
proof -
  assume n: "length results \<le> n"
  have "length (filter rv_would_block (map snd results)) \<le> length results"
    using length_filter_le[of rv_would_block "map snd results"] by simp
  then show ?thesis
    using n by (auto simp: evaluation_statistics_def compute_statistics_def failed_statistics_def stats_ok_def Let_def
        split: option.splits)
qed

lemma percentage_bounds:
  assumes "0 \<le> k" "k \<le> n"
  shows "0 \<le> (if n > 0 then of_int k / of_int n * 100 else 0 :: rat)" "(if n > 0 then of_int k / of_int n * 100 else 0 :: rat) \<le> 100"
  using assms by (auto simp: divide_le_eq)

definition share :: "int \<Rightarrow> int \<Rightarrow> rat" where
  "share k n = (if n > 0 then of_int k / of_int n * 100 else 0)"

lemma share_bounds: "0 \<le> k \<Longrightarrow> k \<le> n \<Longrightarrow> 0 \<le> share k n \<and> share k n \<le> 100"
  using percentage_bounds[of k n] unfolding share_def by blast

lemma share_sum: "n > 0 \<Longrightarrow> n = j + k \<Longrightarrow> share k n + share j n = 100"
proof -
  assume n: "n > 0" "n = j + k"
  have "share k n + share j n = of_int (k + j) / of_int n * 100"
    using n(1) by (simp add: share_def add_divide_distrib distrib_right)
  then show ?thesis using n by (simp add: add.commute)
qed

lemma impact_shares:
  "compute_impact_analysis results st = no_impact \<or>
   im_blocked_percentage (compute_impact_analysis results st) = share (es_would_block st) (es_total st) \<and>
   im_allowed_percentage (compute_impact_analysis results st) = share (es_allowed st) (es_total st)"
  unfolding compute_impact_analysis_def Let_def share_def by (simp split: option.splits)

lemma impact_ok:
  assumes "stats_ok st n" "im = compute_impact_analysis results st"
  shows "0 \<le> im_blocked_percentage im" "im_blocked_percentage im \<le> 100"
    "0 \<le> im_allowed_percentage im" "im_allowed_percentage im \<le> 100"
    "es_total st > 0 \<Longrightarrow> im_blocked_percentage im + im_allowed_percentage im = 100"
proof -
  have st: "es_total st = es_allowed st + es_would_block st" "0 \<le> es_allowed st" "0 \<le> es_would_block st"
    using assms(1) by (simp_all add: stats_ok_def)
  have le: "es_would_block st \<le> es_total st" "es_allowed st \<le> es_total st" using st by linarith+
  consider "im = no_impact" | "im_blocked_percentage im = share (es_would_block st) (es_total st)"
      "im_allowed_percentage im = share (es_allowed st) (es_total st)"
    using impact_shares[of results st] assms(2) by blast
  note cases = this
  show "0 \<le> im_blocked_percentage im" "im_blocked_percentage im \<le> 100"
    using share_bounds[OF st(3) le(1)] by (cases rule: cases; simp add: no_impact_def)+
  show "0 \<le> im_allowed_percentage im" "im_allowed_percentage im \<le> 100"
    using share_bounds[OF st(2) le(2)] by (cases rule: cases; simp add: no_impact_def)+
  show "im_blocked_percentage im + im_allowed_percentage im = 100" if "es_total st > 0"
    using share_sum[OF that st(1)] by (cases rule: cases; simp add: no_impact_def)
qed

section \<open>Properties of a report\<close>

text \<open>The governance a report shows does not depend on the trade or on
  what the governance service knows. The service is asked with a context that has no timestamp,
  answers every time that it cannot evaluate, and the report counts that answer as one
  violation: the pressure is "low" and the violation flag is raised for every trade.\<close>

theorem report_ignores_governance:
  "generate_report (env\<lparr>re_governance := g\<rparr>) now cid = generate_report env now cid \<and>
   dget ''governance_pressure'' (generate_report env now cid) VNone = VStr ''low'' \<and>
   (\<exists>vs. dget ''risk_flags'' (generate_report env now cid) VNone =
      VList (VStr (re_render env [T ''Governance violations detected: '', I 1, T '' rule(s)'']) # vs))"
proof -
  have "get_governance_data (env\<lparr>re_governance := g\<rparr>) now cid = get_governance_data env now cid"
    by (simp only: governance_data_constant)
  then have "generate_report (env\<lparr>re_governance := g\<rparr>) now cid = generate_report env now cid"
    by (simp add: generate_report_def get_timeline_data_def get_counterfactual_data_def get_policy_data_def)
  then show ?thesis
    by (simp add: report_fields) (simp add: generate_report_def dget_def Let_def governance_data_constant identify_risk_flags_def)
qed

lemma policy_data_unit: "0 \<le> get_policy_data env now \<and> get_policy_data env now \<le> 1"
proof -
  let ?r = "evaluate_policy now (re_evaluator env) ''default''"
  have "0 \<le> cr_confidence_score ?r \<and> cr_confidence_score ?r \<le> 1"
  proof (cases "map_of (ce_policy_analytics (re_evaluator env)) ''default''")
    case None
    then show ?thesis by (simp add: evaluate_policy_def confidence_error_report_def)
  next
    case (Some a)
    then show ?thesis
      using py_round_unit[of _ 4] score_bounds
      by (fastforce simp: evaluate_policy_def confidence_error_report_def evaluate_analytics_def Let_def
          split: prod.splits option.splits)
  qed
  then show ?thesis unfolding get_policy_data_def by (intro decimal_unit) auto
qed

lemma py_round_ge: "of_int b / 10 ^ n \<le> x \<Longrightarrow> of_int b / 10 ^ n \<le> py_round n (x::rat)"
proof -
  assume "of_int b / 10 ^ n \<le> x"
  then have "of_int b \<le> x * 10 ^ n" by (simp add: divide_le_eq)
  then have "b \<le> round_half_even (x * 10 ^ n)" by (rule round_half_even_mono_int)
  then have "(of_int b :: rat) \<le> of_int (round_half_even (x * 10 ^ n))" by (simp only: of_int_le_iff)
  then show ?thesis by (simp add: py_round_def divide_right_mono)
qed

lemma clamp_range: "0 \<le> py_round n (max 0 (min 100 x) :: rat) \<and> py_round n (max 0 (min 100 x) :: rat) \<le> 100"
proof -
  have y: "0 \<le> max 0 (min 100 x)" "max 0 (min 100 x) \<le> 100" by simp_all
  show ?thesis using py_round_bounds[of 0 "max 0 (min 100 x)" 100 n] y by simp
qed

lemma confidence_range: "0 \<le> calculate_confidence_score td n cd p" "calculate_confidence_score td n cd p \<le> 100"
  unfolding calculate_confidence_score_def Let_def using clamp_range by blast+

text \<open>The confidence score lies between 0 and 100; and a trade nobody has
  heard of, an id without a single event, scores at least 80, "high confidence".\<close>

theorem unknown_trade_is_trusted:
  assumes "get_timeline (VStr cid) (re_timeline env) = []"
    "c = calculate_confidence_score (get_timeline_data env cid) 1 (get_counterfactual_data env now cid) (get_policy_data env now)"
  shows "dget ''confidence_score'' (generate_report env now cid) VNone = VFloat c \<and> 80 \<le> c \<and> c \<le> 100"
proof -
  have td: "td_events_count (get_timeline_data env cid) = 0" "td_outcome_pnl (get_timeline_data env cid) = 0"
    using assms(1) by (simp_all add: get_timeline_data_def)
  have cd: "cd_allowed (get_counterfactual_data env now cid)"
    using assms(1) by (simp add: get_counterfactual_data_def simulate_def empty_result_def)
  have p: "0 \<le> get_policy_data env now" using policy_data_unit by blast
  have c: "c = py_round 1 (max 0 (min 100 (80 + get_policy_data env now * 20)))"
    unfolding assms(2) calculate_confidence_score_def Let_def td using cd by simp
  have "of_int 800 / 10 ^ 1 \<le> max 0 (min 100 (80 + get_policy_data env now * 20))" using p by simp
  then have "of_int 800 / 10 ^ 1 \<le> c" unfolding c by (rule py_round_ge)
  then show ?thesis using confidence_range(2) assms(2) report_fields(4) by simp
qed

definition report_demo_env :: report_env where
  "report_demo_env = \<lparr>re_timeline = ts_init, re_governance = gv_default, re_evaluator = default_evaluator,
     re_render = (\<lambda>fs. concat (map (\<lambda>p. case p of T s \<Rightarrow> s | _ \<Rightarrow> ''?'') fs))\<rparr>"

theorem unknown_trade_is_trusted_witness:
  "\<exists>c. dget ''confidence_score'' (generate_report report_demo_env 5 ''nobody'') VNone = VFloat c \<and> 80 \<le> c"
proof -
  have "get_timeline (VStr ''nobody'') (re_timeline report_demo_env) = []"
    by (simp add: report_demo_env_def get_timeline_def ts_init_def dget_def)
  from unknown_trade_is_trusted[OF this refl, of 5] show ?thesis by blast
qed

section \<open>Properties of the archive\<close>

text \<open>Archiving a batch of reports keeps everything archived before and adds
  the report of every id in the batch, in order, without the batch summary; fetching an id
  afterwards gives what it gave before followed by that report, once for each time the id was in
  the batch.\<close>

theorem archive_keeps_reports:
  assumes "cid \<noteq> []" "cid \<noteq> ''unknown''"
    "s' = archive_batch (VList (map VDict (generate_batch env now (VList ids)))) s"
  shows "fetch_by_correlation_id (Some cid) s' =
      fetch_by_correlation_id (Some cid) s @
      replicate (length (filter (\<lambda>v. v = VStr cid) ids)) (generate_report env now cid) \<and>
    fetch_all s' = fetch_all s @ map (\<lambda>v. generate_report env now (str_of v)) (filter is_str ids)"
proof -
  have s': "ia_archive s' = ia_archive s @ map (\<lambda>v. generate_report env now (str_of v)) (filter is_str ids)"
    unfolding assms(3) archive_of_batch by (simp add: reports_for_def)
  have "filter (\<lambda>d. dget ''correlation_id'' d VNone = VStr cid)
      (map (\<lambda>v. generate_report env now (str_of v)) (filter is_str ids)) =
    replicate (length (filter (\<lambda>v. v = VStr cid) ids)) (generate_report env now cid)"
  proof (induction ids)
    case Nil
    show ?case by simp
  next
    case (Cons v vs)
    then show ?case using assms(1,2) by (cases v) (auto simp: report_fields)
  qed
  then show ?thesis by (simp add: fetch_by_correlation_id_def fetch_all_def s')
qed

theorem archive_keeps_reports_witness:
  "length (fetch_by_correlation_id (Some ''D1'')
     (archive_batch (VList (map VDict (generate_batch report_demo_env 5 (VList [VStr ''D1'', VStr ''D2'', VInt 3, VStr ''D1''])))) archive_init)) = 2"
  using archive_keeps_reports[of "''D1''" _ report_demo_env 5 "[VStr ''D1'', VStr ''D2'', VInt 3, VStr ''D1'']" archive_init, OF _ _ refl]
  by (simp add: fetch_by_correlation_id_def archive_init_def)

section \<open>Properties of the offline evaluation\<close>

text \<open>An evaluation counts every trade once, as allowed or as
  blocked, and at most one per correlation id of the archive; both percentages lie between 0 and
  100, and they add up to 100 unless no trade was counted.\<close>

theorem evaluation_accounts_for_trades:
  "let (r, s') = evaluate_policy_scenario l now1 now2 config s; st = osc_statistics r; im = osc_impact r in
   es_total st = es_allowed st + es_would_block st \<and> 0 \<le> es_allowed st \<and> 0 \<le> es_would_block st \<and>
   es_total st \<le> int (card (set (map (\<lambda>r. dget ''correlation_id'' r (VStr ''unknown'')) (ia_archive (off_archive s))))) \<and>
   0 \<le> im_blocked_percentage im \<and> im_blocked_percentage im \<le> 100 \<and>
   0 \<le> im_allowed_percentage im \<and> im_allowed_percentage im \<le> 100 \<and>
   (es_total st = 0 \<or> im_blocked_percentage im + im_allowed_percentage im = 100) \<and>
   off_archive s' = off_archive s"
proof -
  let ?arch = "ia_archive (off_archive s)"
  let ?ids = "\<lambda>rs. card (set (map (\<lambda>r. dget ''correlation_id'' r (VStr ''unknown'')) rs))"
  define cfg where "cfg = (case config of VDict d \<Rightarrow> d | _ \<Rightarrow> [])"
  define sel where "sel = filter_by_window l ?arch (dget ''evaluation_window'' cfg VNone)"
  define results where "results = evaluate_reports sel (dget ''policy_constraints'' cfg (VDict []))"
  define st where "st = evaluation_statistics sel results"
  have sub: "set sel \<subseteq> set ?arch"
    by (auto simp: sel_def filter_by_window_def Let_def split: if_splits pyval.splits option.splits)
  have "?ids sel \<le> ?ids ?arch" by (rule card_mono) (use sub in auto)
  then have "length results \<le> ?ids ?arch"
    using evaluate_reports_length[of sel "dget ''policy_constraints'' cfg (VDict [])"] by (simp add: results_def)
  then have ok: "stats_ok st (?ids ?arch)" unfolding st_def by (rule statistics_ok)
  have sum: "es_total st = 0 \<or> im_blocked_percentage (compute_impact_analysis results st) +
      im_allowed_percentage (compute_impact_analysis results st) = 100"
    using impact_ok(5)[OF ok refl] ok by (force simp: stats_ok_def)
  show ?thesis
    using ok impact_ok(1-4)[OF ok refl, of results] sum
    unfolding evaluate_policy_scenario_def Let_def cfg_def[symmetric] sel_def[symmetric] results_def[symmetric] st_def[symmetric]
    by (auto simp: empty_evaluation_def failed_statistics_def no_impact_def stats_ok_def)
qed

text \<open>On the reports the report service writes, no policy ever blocks
  anything: whatever trades were reported and whatever constraints a scenario sets, the evaluation
  counts 0 trades, 0 blocked and 0 percent. The reports carry the governance pressure as a word,
  the statistics take the mean of the pressures, and the exception turns all counts into zeros.\<close>

lemma blind_statistics:
  assumes "\<forall>r\<in>set rs. dget ''governance_pressure'' r (VFloat 0) = VStr ''low''"
  shows "es_total (evaluation_statistics rs (evaluate_reports rs policy)) = 0"
    "es_would_block (evaluation_statistics rs (evaluate_reports rs policy)) = 0"
proof -
  let ?res = "evaluate_reports rs policy"
  have "?res = [] \<or> compute_statistics rs ?res = None"
  proof (cases ?res)
    case (Cons a as)
    obtain i v where a: "a = (i, v)" by fastforce
    then have "(i, v) \<in> set ?res" using Cons by simp
    from evaluate_reports_from[OF this] obtain r where r: "r \<in> set rs" "evaluate_report policy r = Some (i, v)" by blast
    have "rv_pressure v = VStr ''low''" using evaluate_report_fields(1)[OF r(2)] assms r(1) by simp
    then have "None \<in> set (map (as_number \<circ> rv_pressure) (map snd ?res))" using Cons a by simp
    from all_some_none[OF this] show ?thesis
      by (simp add: compute_statistics_def Let_def split: option.split)
  qed simp
  then show "es_total (evaluation_statistics rs ?res) = 0" "es_would_block (evaluation_statistics rs ?res) = 0"
    by (auto simp: evaluation_statistics_def compute_statistics_def failed_statistics_def Let_def split: option.splits)
qed

theorem offline_evaluation_blind:
  "let archive = archive_batch (VList (map VDict (generate_batch env now ids))) archive_init;
       (r, s') = evaluate_policy_scenario l now1 now2 config \<lparr>off_archive = archive, off_cache = cache\<rparr>
   in es_total (osc_statistics r) = 0 \<and> es_would_block (osc_statistics r) = 0 \<and>
      im_blocked_percentage (osc_impact r) = 0"
proof -
  let ?arch = "archive_batch (VList (map VDict (generate_batch env now ids))) archive_init"
  have arch: "ia_archive ?arch = reports_for env now ids"
    by (simp add: archive_of_batch archive_init_def)
  define cfg where "cfg = (case config of VDict d \<Rightarrow> d | _ \<Rightarrow> [])"
  define sel where "sel = filter_by_window l (reports_for env now ids) (dget ''evaluation_window'' cfg VNone)"
  have "set sel \<subseteq> set (reports_for env now ids)"
    by (auto simp: sel_def filter_by_window_def Let_def split: if_splits pyval.splits option.splits)
  moreover have "dget ''governance_pressure'' r (VFloat 0) = VStr ''low''" if "r \<in> set (reports_for env now ids)" for r
    using that by (auto simp: reports_for_def report_fields split: pyval.splits)
  ultimately have low: "\<forall>r\<in>set sel. dget ''governance_pressure'' r (VFloat 0) = VStr ''low''" by blast
  define results where "results = evaluate_reports sel (dget ''policy_constraints'' cfg (VDict []))"
  have zero: "es_total (evaluation_statistics sel results) = 0" "es_would_block (evaluation_statistics sel results) = 0"
    unfolding results_def using blind_statistics[OF low] by blast+
  then have "im_blocked_percentage (compute_impact_analysis results (evaluation_statistics sel results)) = 0"
    by (simp add: compute_impact_analysis_def no_impact_def Let_def split: option.split)
  then show ?thesis
    using zero
    unfolding evaluate_policy_scenario_def Let_def cfg_def[symmetric] offline_service.simps arch
      sel_def[symmetric] results_def[symmetric]
    by (auto simp: empty_evaluation_def failed_statistics_def no_impact_def)
qed

text \<open>Comparing two scenarios the other way round swaps the values and turns the differences.\<close>

theorem compare_antisymmetric:
  "map (\<lambda>(k, d). (k, df_b d, df_a d, - df_delta d)) (cp_differences (compare_scenarios now a b)) =
   map (\<lambda>(k, d). (k, df_a d, df_b d, df_delta d)) (cp_differences (compare_scenarios now b a))"
  by (simp add: compare_scenarios_def directional_differences_def difference_of_def)

end
