(* ===== verification/Intelligence_Memory.thy ===== *)
theory Intelligence_Memory
  imports Offline_Evaluation
begin

text \<open>
  \<open>reasoner_service/decision_intelligence_memory_service.py\<close>: trends, patterns, the comparison of two
  windows and the snapshot of the reports loaded from the archive.

  The cached reports are arbitrary values, since \<open>load_from_archive\<close> checks only that it gets a
  list. The text of an ISO time is a parameter; other values compared with \<open><=\<close> are strings or
  numbers. \<open>None\<close> is an exception. Constant disclaimers and observations are left out.
\<close>

section \<open>State\<close>

record memory_service =
  me_reports :: "pyval list"

definition memory_init :: memory_service where
  "memory_init = \<lparr>me_reports = []\<rparr>"

definition load_from_archive :: "pyval \<Rightarrow> memory_service \<Rightarrow> memory_service" where
  "load_from_archive reports s = (case reports of VList rs \<Rightarrow> s\<lparr>me_reports := rs\<rparr> | _ \<Rightarrow> s)"

section \<open>Comparing values\<close>

fun text_of :: "(time \<Rightarrow> string) \<Rightarrow> pyval \<Rightarrow> string option" where
  "text_of isotext (VStr s) = Some s"
| "text_of isotext (VIso t) = Some (isotext t)"
| "text_of isotext _ = None"

definition py_le :: "(time \<Rightarrow> string) \<Rightarrow> pyval \<Rightarrow> pyval \<Rightarrow> bool option" where
  "py_le isotext a b =
     (case (text_of isotext a, text_of isotext b) of
        (Some s, Some t) \<Rightarrow> Some (s \<le> t)
      | _ \<Rightarrow> (case (as_number a, as_number b) of (Some x, Some y) \<Rightarrow> Some (x \<le> y) | _ \<Rightarrow> None))"

text \<open>\<open>min\<close> and \<open>max\<close>: the first of several equal values.\<close>

fun least_by :: "('a \<Rightarrow> 'k::linorder) \<Rightarrow> 'a \<Rightarrow> 'a list \<Rightarrow> 'a" where
  "least_by f m [] = m"
| "least_by f m (x # xs) = least_by f (if f x < f m then x else m) xs"

fun greatest_by :: "('a \<Rightarrow> 'k::linorder) \<Rightarrow> 'a \<Rightarrow> 'a list \<Rightarrow> 'a" where
  "greatest_by f m [] = m"
| "greatest_by f m (x # xs) = greatest_by f (if f m < f x then x else m) xs"

definition py_extremes :: "(time \<Rightarrow> string) \<Rightarrow> pyval list \<Rightarrow> (pyval \<times> pyval) option" where
  "py_extremes isotext vs =
     (if vs = [] then None
      else if list_all (\<lambda>v. text_of isotext v \<noteq> None) vs
           then Some (least_by (the \<circ> text_of isotext) (hd vs) (tl vs), greatest_by (the \<circ> text_of isotext) (hd vs) (tl vs))
      else if list_all (\<lambda>v. as_number v \<noteq> None) vs
           then Some (least_by (the \<circ> as_number) (hd vs) (tl vs), greatest_by (the \<circ> as_number) (hd vs) (tl vs))
      else None)"

fun dicts_in :: "pyval list \<Rightarrow> pydict list" where
  "dicts_in [] = []"
| "dicts_in (VDict d # vs) = d # dicts_in vs"
| "dicts_in (_ # vs) = dicts_in vs"

section \<open>Trends\<close>

record value_statistics =
  va_count :: int
  va_avg :: "rat option"
  va_min :: "rat option"
  va_max :: "rat option"

definition no_values :: value_statistics where
  "no_values = \<lparr>va_count = 0, va_avg = None, va_min = None, va_max = None\<rparr>"

definition value_statistics_of :: "rat list \<Rightarrow> value_statistics" where
  "value_statistics_of xs =
     (if xs = [] then no_values
      else \<lparr>va_count = int (length xs), va_avg = Some (mean xs), va_min = Some (Min (set xs)),
            va_max = Some (Max (set xs))\<rparr>)"

definition filter_by_time_window :: "(time \<Rightarrow> string) \<Rightarrow> pyval list \<Rightarrow> pyval \<Rightarrow> pyval list" where
  "filter_by_time_window isotext reports time_window =
     (case time_window of
        VDict w \<Rightarrow>
          (let start = dget ''start'' w VNone; stop = dget ''end'' w VNone in
           if w = [] \<or> \<not> truthy start \<or> \<not> truthy stop then reports
           else
             (let filtered = filter (\<lambda>r. case r of
                     VDict d \<Rightarrow> py_le isotext start (dget ''timestamp'' d VNone) = Some True \<and>
                               py_le isotext (dget ''timestamp'' d VNone) stop = Some True
                   | _ \<Rightarrow> False) reports
              in if filtered \<noteq> [] then filtered else reports))
      | _ \<Rightarrow> reports)"

record memory_trends =
  mt_report_count :: int
  mt_confidence :: value_statistics
  mt_governance_pressure :: value_statistics
  mt_risk_flag_frequency :: "(string \<times> int) list"
  mt_trade_volume :: value_statistics

definition empty_trends_structure :: memory_trends where
  "empty_trends_structure = \<lparr>mt_report_count = 0, mt_confidence = no_values, mt_governance_pressure = no_values,
     mt_risk_flag_frequency = [], mt_trade_volume = no_values\<rparr>"

definition in_unit :: "rat \<Rightarrow> bool" where
  "in_unit x \<longleftrightarrow> 0 \<le> x \<and> x \<le> 1"

definition values_where :: "(rat \<Rightarrow> bool) \<Rightarrow> string \<Rightarrow> pydict list \<Rightarrow> rat list" where
  "values_where p k ds = filter p (concat (map (numeric_field k) ds))"

definition string_flags :: "pydict \<Rightarrow> string list" where
  "string_flags d = map str_of (filter is_str (list_of (dget ''risk_flags'' d (VList []))))"

definition memory_compute_trends :: "(time \<Rightarrow> string) \<Rightarrow> pyval \<Rightarrow> memory_service \<Rightarrow> memory_trends" where
  "memory_compute_trends isotext time_window s =
     (let sel = filter_by_time_window isotext (me_reports s) time_window; ds = dicts_in sel in
      if me_reports s = [] \<or> sel = [] then empty_trends_structure
      else
       \<lparr>mt_report_count = int (length sel),
        mt_confidence = value_statistics_of (values_where in_unit ''confidence_score'' ds),
        mt_governance_pressure = value_statistics_of (values_where in_unit ''governance_pressure'' ds),
        mt_risk_flag_frequency = fold bump (concat (map string_flags ds)) [],
        mt_trade_volume = value_statistics_of (values_where (\<lambda>x. x \<ge> 0) ''trade_volume'' ds)\<rparr>)"

section \<open>Patterns\<close>

record decay_sequence =
  dq_start_index :: nat
  dq_correlation_ids :: "pyval list"
  dq_confidence_values :: "rat list"

record regret_cluster =
  rg_count :: int
  rg_average_regret :: rat
  rg_members :: "(pyval \<times> rat) list"

record memory_patterns =
  mp_report_count :: int
  mp_repeated_violations :: "(pyval \<times> int) list"
  mp_decay_sequences :: "decay_sequence list"
  mp_regret_clusters :: "regret_cluster list"

definition empty_patterns_structure :: "memory_service \<Rightarrow> memory_patterns" where
  "empty_patterns_structure s = \<lparr>mp_report_count = int (length (me_reports s)), mp_repeated_violations = [],
     mp_decay_sequences = [], mp_regret_clusters = []\<rparr>"

definition violation_id :: "pydict \<Rightarrow> pyval list option" where
  "violation_id d =
     (let cid = dget ''correlation_id'' d VNone in
      case py_in (VStr ''REPEATED_VIOLATION'') (dget ''risk_flags'' d (VList [])) of
        None \<Rightarrow> None
      | Some False \<Rightarrow> Some []
      | Some True \<Rightarrow> if \<not> truthy cid then Some [] else if py_hashable cid then Some [cid] else None)"

definition violation_counts :: "pydict list \<Rightarrow> (pyval \<times> int) list option" where
  "violation_counts ds = map_option (\<lambda>cs. fold bump (concat cs) []) (all_some (map violation_id ds))"

definition with_id :: "string \<Rightarrow> pydict list \<Rightarrow> (pyval \<times> rat) list" where
  "with_id k ds = concat (map (\<lambda>d. map (\<lambda>x. (dget ''correlation_id'' d VNone, x)) (numeric_field k d)) ds)"

definition decay_sequences :: "(pyval \<times> rat) list \<Rightarrow> decay_sequence list" where
  "decay_sequences cs =
     map (\<lambda>i. let seq = take 3 (drop i cs) in
            \<lparr>dq_start_index = i, dq_correlation_ids = map fst seq, dq_confidence_values = map snd seq\<rparr>)
       (filter (\<lambda>i. snd (cs ! i) > snd (cs ! (i + 1)) \<and> snd (cs ! (i + 1)) > snd (cs ! (i + 2)))
         [0..<length cs - 2])"

definition regret_threshold :: "rat list \<Rightarrow> real" where
  "regret_threshold xs =
     (let avg = mean xs; sd = sample_stdev xs in
      if sd > 0 then of_rat avg + sd else if avg > 0 then of_rat (avg * (3/2)) else 1/2)"

definition regret_clusters :: "(pyval \<times> rat) list \<Rightarrow> regret_cluster list" where
  "regret_clusters rs =
     (if length rs \<ge> 3 then
        (let high = filter (\<lambda>(c, x). of_rat x \<ge> regret_threshold (map snd rs)) rs in
         if high = [] then []
         else [\<lparr>rg_count = int (length high), rg_average_regret = mean (map snd rs), rg_members = high\<rparr>])
      else [])"

text \<open>A report that is no dictionary makes the whole detection fail.\<close>

definition detect_patterns :: "memory_service \<Rightarrow> memory_patterns" where
  "detect_patterns s =
     (let ds = dicts_in (me_reports s) in
      if length (me_reports s) < 2 \<or> \<not> list_all is_dict (me_reports s) then empty_patterns_structure s
      else
        (case violation_counts ds of
           None \<Rightarrow> empty_patterns_structure s
         | Some counts \<Rightarrow>
            \<lparr>mp_report_count = int (length (me_reports s)),
             mp_repeated_violations = counts,
             mp_decay_sequences = decay_sequences (with_id ''confidence_score'' ds),
             mp_regret_clusters = regret_clusters (filter (in_unit \<circ> snd) (with_id ''counterfactual_regret'' ds))\<rparr>))"

section \<open>Comparing windows\<close>

datatype direction = Improving | Degrading | Stable | Unknown

definition determine_direction :: "rat option \<Rightarrow> rat option \<Rightarrow> direction" where
  "determine_direction a b =
     (case (a, b) of
        (Some x, Some y) \<Rightarrow>
          if abs (y - x) < 1/100 then Stable else if y > x then Improving else Degrading
      | _ \<Rightarrow> Unknown)"

record window_statistics =
  ws_confidence_avg :: "rat option"
  ws_governance_avg :: "rat option"
  ws_risk_count :: int

definition average_of :: "rat list \<Rightarrow> rat option" where
  "average_of xs = (if xs = [] then None else Some (mean xs))"

definition compute_window_statistics :: "pyval list \<Rightarrow> window_statistics" where
  "compute_window_statistics window =
     (let ds = dicts_in window in
      \<lparr>ws_confidence_avg = average_of (values_where (\<lambda>_. True) ''confidence_score'' ds),
       ws_governance_avg = average_of (values_where (\<lambda>_. True) ''governance_pressure'' ds),
       ws_risk_count = sum_list (map flag_count ds)\<rparr>)"

record window_comparison =
  wc_a_count :: int
  wc_b_count :: int
  wc_confidence_direction :: direction
  wc_governance_direction :: direction
  wc_risk_flag_trend :: direction
  wc_a_metrics :: window_statistics
  wc_b_metrics :: window_statistics

text \<open>\<open>None\<close>: insufficient data.\<close>

definition compare_windows :: "pyval list \<Rightarrow> pyval list \<Rightarrow> window_comparison option" where
  "compare_windows window_a window_b =
     (if window_a = [] \<or> window_b = [] then None
      else
        (let a = compute_window_statistics window_a; b = compute_window_statistics window_b in
         Some \<lparr>wc_a_count = int (length window_a), wc_b_count = int (length window_b),
               wc_confidence_direction = determine_direction (ws_confidence_avg a) (ws_confidence_avg b),
               wc_governance_direction = determine_direction (ws_governance_avg a) (ws_governance_avg b),
               wc_risk_flag_trend =
                 determine_direction (Some (of_int (ws_risk_count a))) (Some (of_int (ws_risk_count b))),
               wc_a_metrics = a, wc_b_metrics = b\<rparr>))"

section \<open>The snapshot\<close>

definition compute_time_span :: "(time \<Rightarrow> string) \<Rightarrow> memory_service \<Rightarrow> fstring" where
  "compute_time_span isotext s =
     (if me_reports s = [] then [T ''No data'']
      else if \<not> list_all is_dict (me_reports s) then [T ''Unable to determine'']
      else
        (case filter truthy (map (\<lambda>d. dget ''timestamp'' d VNone) (dicts_in (me_reports s))) of
           [] \<Rightarrow> [T ''No timestamps'']
         | [t] \<Rightarrow> [T ''Single timestamp: '', PV t]
         | ts \<Rightarrow> (case py_extremes isotext ts of
                   None \<Rightarrow> [T ''Unable to determine'']
                 | Some (a, b) \<Rightarrow> [T ''From '', PV a, T '' to '', PV b])))"

definition is_complete :: "pyval \<Rightarrow> bool option" where
  "is_complete v = map_option (list_all id)
     (all_some (map (\<lambda>k. py_in (VStr k) v) [''correlation_id'', ''confidence_score'', ''governance_pressure'']))"

definition assess_completeness :: "memory_service \<Rightarrow> rat" where
  "assess_completeness s =
     (if me_reports s = [] then 0
      else
        (case all_some (map is_complete (me_reports s)) of
           None \<Rightarrow> 0
         | Some bs \<Rightarrow> of_nat (length (filter id bs)) / of_nat (length (me_reports s))))"

record memory_snapshot =
  sn_total_reports :: int
  sn_time_span :: fstring
  sn_data_completeness :: rat
  sn_trends :: memory_trends
  sn_patterns :: memory_patterns

definition export_memory_snapshot :: "(time \<Rightarrow> string) \<Rightarrow> memory_service \<Rightarrow> memory_snapshot" where
  "export_memory_snapshot isotext s =
    \<lparr>sn_total_reports = int (length (me_reports s)), sn_time_span = compute_time_span isotext s,
     sn_data_completeness = assess_completeness s,
     sn_trends = memory_compute_trends isotext VNone s, sn_patterns = detect_patterns s\<rparr>"

end
