(* ===== verification/Intelligence_Memory_Props.thy ===== *)
theory Intelligence_Memory_Props
  imports Intelligence_Props Intelligence_Memory
begin

text \<open>
  What the memory service finds in the reports of the report service, and what its comparisons,
  patterns and completeness figures mean.
\<close>

section \<open>The memory of archived reports\<close>

lemma dicts_in_dicts [simp]: "dicts_in (map VDict ds) = ds"
  by (induction ds) auto

lemma window_without_timestamps:
  assumes "\<forall>d\<in>set ds. dget ''timestamp'' d VNone = VNone"
  shows "filter_by_time_window isotext (map VDict ds) w = map VDict ds"
proof -
  have "py_le isotext x VNone = None" for x
    by (simp add: py_le_def split: option.splits)
  then have "filter (\<lambda>r. case r of
        VDict d \<Rightarrow> py_le isotext a (dget ''timestamp'' d VNone) = Some True \<and> py_le isotext (dget ''timestamp'' d VNone) b = Some True
      | _ \<Rightarrow> False) (map VDict ds) = []" for a b
    using assms by (auto simp: filter_empty_conv)
  then show ?thesis by (simp add: filter_by_time_window_def Let_def split: pyval.split)
qed

lemma clamped_sum:
  "0 \<le> a \<Longrightarrow> 10 \<le> d \<Longrightarrow> -10 \<le> b \<Longrightarrow> -5 \<le> c \<Longrightarrow> 0 \<le> p \<Longrightarrow>
     45 \<le> py_round 1 (max 0 (min 100 (50 + a + d + b + p * 20 + c)) :: rat)"
  using py_round_ge[of 450 1 "max 0 (min 100 (50 + a + d + b + p * 20 + c))"] by simp

lemma confidence_at_least: "0 \<le> p \<Longrightarrow> 45 \<le> calculate_confidence_score td 1 cd p"
  unfolding calculate_confidence_score_def Let_def
  by (rule clamped_sum) simp_all

lemma report_score:
  "map_of (generate_report env now cid) ''confidence_score'' =
     Some (VFloat (calculate_confidence_score (get_timeline_data env cid) 1 (get_counterfactual_data env now cid) (get_policy_data env now)))"
  by (simp add: generate_report_def Let_def governance_data_constant)

lemma report_values:
  "dget ''timestamp'' (generate_report env now cid) VNone = VNone"
  "filter p (numeric_field ''trade_volume'' (generate_report env now cid)) = []"
  "filter p (numeric_field ''governance_pressure'' (generate_report env now cid)) = []"
  "filter in_unit (numeric_field ''confidence_score'' (generate_report env now cid)) = []"
proof -
  let ?c = "calculate_confidence_score (get_timeline_data env cid) 1 (get_counterfactual_data env now cid) (get_policy_data env now)"
  have "0 \<le> get_policy_data env now" using policy_data_unit by blast
  from confidence_at_least[OF this] have "45 \<le> ?c" .
  then have "\<not> in_unit ?c" unfolding in_unit_def by linarith
  then show "filter in_unit (numeric_field ''confidence_score'' (generate_report env now cid)) = []"
    by (simp add: numeric_field_def report_score)
qed (simp_all add: numeric_field_def generate_report_def Let_def dget_def)

lemma reports_for_all: "d \<in> set (reports_for env now ids) \<Longrightarrow> \<exists>cid. d = generate_report env now cid"
  by (auto simp: reports_for_def split: pyval.splits)

lemma values_where_none: "\<forall>d\<in>set ds. filter p (numeric_field k d) = [] \<Longrightarrow> values_where p k ds = []"
  by (simp add: values_where_def filter_concat)

text \<open>The memory of the reports the report service writes holds no confidence, no
  governance pressure and no volume: the confidence scores run to 100 (and never fall below 45) while
  only values up to 1 are taken, the pressure is a word and the volume is not written. A time window
  selects every report, since none has the field it filters by.\<close>

theorem memory_blind:
  "let archive = archive_batch (VList (map VDict (generate_batch env now ids))) archive_init;
       t = memory_compute_trends isotext time_window (load_from_archive (VList (map VDict (fetch_all archive))) s)
   in mt_confidence t = no_values \<and> mt_governance_pressure t = no_values \<and> mt_trade_volume t = no_values \<and>
      mt_report_count t = int (length (fetch_all archive))"
proof -
  let ?rs = "reports_for env now ids"
  have arch: "fetch_all (archive_batch (VList (map VDict (generate_batch env now ids))) archive_init) = ?rs"
    by (simp add: fetch_all_def archive_of_batch archive_init_def)
  have "\<forall>d\<in>set ?rs. dget ''timestamp'' d VNone = VNone"
    using reports_for_all report_values(1) by blast
  note sel = window_without_timestamps[OF this, of isotext time_window]
  have none: "values_where in_unit ''confidence_score'' ?rs = []"
    "values_where in_unit ''governance_pressure'' ?rs = []" "values_where (\<lambda>x. x \<ge> 0) ''trade_volume'' ?rs = []"
    by (rule values_where_none, metis reports_for_all report_values(2-4))+
  show ?thesis
    unfolding Let_def arch
    by (simp add: memory_compute_trends_def load_from_archive_def sel none value_statistics_of_def
        empty_trends_structure_def Let_def)
qed

section \<open>Patterns\<close>

text \<open>A decay is reported at an index exactly when the confidences at this and
  the next two indices fall strictly; a strictly falling run therefore shows up once for each of its
  triples.\<close>

theorem decay_sequences_exact:
  "set (map dq_start_index (decay_sequences cs)) =
     {i. i + 2 < length cs \<and> snd (cs ! i) > snd (cs ! (i + 1)) \<and> snd (cs ! (i + 1)) > snd (cs ! (i + 2))} \<and>
   (sorted_wrt (>) (map snd cs) \<longrightarrow> length (decay_sequences cs) = length cs - 2) \<and>
   (sorted (map snd cs) \<longrightarrow> decay_sequences cs = [])"
proof (intro conjI impI)
  show "set (map dq_start_index (decay_sequences cs)) =
     {i. i + 2 < length cs \<and> snd (cs ! i) > snd (cs ! (i + 1)) \<and> snd (cs ! (i + 1)) > snd (cs ! (i + 2))}"
    by (auto simp: decay_sequences_def Let_def image_iff less_diff_conv)
next
  assume "sorted_wrt (>) (map snd cs)"
  then have "snd (cs ! j) < snd (cs ! i)" if "i < j" "j < length cs" for i j
    using that by (force simp: sorted_wrt_iff_nth_less)
  then have "filter (\<lambda>i. snd (cs ! i) > snd (cs ! (i + 1)) \<and> snd (cs ! (i + 1)) > snd (cs ! (i + 2))) [0..<length cs - 2] =
      [0..<length cs - 2]"
    by (auto simp: filter_id_conv less_diff_conv)
  then show "length (decay_sequences cs) = length cs - 2" by (simp add: decay_sequences_def)
next
  assume "sorted (map snd cs)"
  then have "snd (cs ! i) \<le> snd (cs ! j)" if "i \<le> j" "j < length cs" for i j
    using that sorted_nth_mono[of "map snd cs" i j] by simp
  then have "filter (\<lambda>i. snd (cs ! i) > snd (cs ! (i + 1)) \<and> snd (cs ! (i + 1)) > snd (cs ! (i + 2))) [0..<length cs - 2] = []"
    by (fastforce simp: filter_empty_conv less_diff_conv not_less)
  then show "decay_sequences cs = []" by (simp add: decay_sequences_def)
qed

theorem decay_sequences_exact_witness:
  "length (decay_sequences (map (\<lambda>n. (VNone, n)) [4, 3, 2, 1])) = 2"
proof -
  have "sorted_wrt (>) (map snd (map (\<lambda>n. (VNone, n)) [4, 3, 2, 1 :: rat]))" by simp
  then show ?thesis using decay_sequences_exact[of "map (\<lambda>n. (VNone, n)) [4, 3, 2, 1]"] by simp
qed

section \<open>Comparing windows\<close>

lemma direction_of_counts:
  "determine_direction (Some (of_int a)) (Some (of_int b)) =
     (if a = b then Stable else if a < b then Improving else Degrading)"
proof -
  have "1 \<le> abs (of_int b - of_int a :: rat)" if "a \<noteq> b"
  proof -
    have "1 \<le> abs (b - a)" using that by simp
    then have "(1::rat) \<le> of_int (abs (b - a))" by linarith
    then show ?thesis by simp
  qed
  then show ?thesis by (auto simp: determine_direction_def)
qed

text \<open>The trend of the risk flags is "improving" exactly when the later window
  has more of them, "degrading" when it has fewer; governance pressure that rises by at least 0.01
  is "improving" as well.\<close>

theorem more_flags_improve:
  assumes "compare_windows a b = Some c"
  shows "wc_risk_flag_trend c =
      (if ws_risk_count (wc_a_metrics c) = ws_risk_count (wc_b_metrics c) then Stable
       else if ws_risk_count (wc_a_metrics c) < ws_risk_count (wc_b_metrics c) then Improving else Degrading) \<and>
    (\<forall>x y. ws_governance_avg (wc_a_metrics c) = Some x \<longrightarrow> ws_governance_avg (wc_b_metrics c) = Some y \<longrightarrow>
      y - x \<ge> 1/100 \<longrightarrow> wc_governance_direction c = Improving)"
proof -
  have c: "wc_risk_flag_trend c = determine_direction (Some (of_int (ws_risk_count (wc_a_metrics c))))
        (Some (of_int (ws_risk_count (wc_b_metrics c))))"
    "wc_governance_direction c = determine_direction (ws_governance_avg (wc_a_metrics c)) (ws_governance_avg (wc_b_metrics c))"
    using assms by (auto simp: compare_windows_def Let_def split: if_splits)
  show ?thesis
    unfolding c direction_of_counts by (auto simp: determine_direction_def)
qed

definition flagged_report :: pyval where
  "flagged_report = VDict [(''risk_flags'', VList [VStr ''LARGE_LOSS'']), (''governance_pressure'', VFloat (1/2))]"

theorem more_flags_improve_witness:
  "\<exists>c. compare_windows [VDict []] [flagged_report, flagged_report] = Some c \<and> wc_risk_flag_trend c = Improving"
proof -
  obtain c where c: "compare_windows [VDict []] [flagged_report, flagged_report] = Some c"
    by (simp add: compare_windows_def Let_def)
  have "ws_risk_count (wc_a_metrics c) = 0" "ws_risk_count (wc_b_metrics c) = 2"
    using c by (auto simp: compare_windows_def Let_def compute_window_statistics_def flagged_report_def
        flag_count_def dget_def)
  then show ?thesis using more_flags_improve[OF c] c by simp
qed

text \<open>Swapping the windows turns every direction round.\<close>

definition opposite :: "direction \<Rightarrow> direction" where
  "opposite d = (case d of Improving \<Rightarrow> Degrading | Degrading \<Rightarrow> Improving | _ \<Rightarrow> d)"

lemma direction_opposite: "determine_direction b a = opposite (determine_direction a b)"
  by (auto simp: determine_direction_def opposite_def abs_minus_commute split: option.splits)

theorem compare_windows_swapped:
  "compare_windows b a = map_option (\<lambda>c. \<lparr>wc_a_count = wc_b_count c, wc_b_count = wc_a_count c,
      wc_confidence_direction = opposite (wc_confidence_direction c),
      wc_governance_direction = opposite (wc_governance_direction c),
      wc_risk_flag_trend = opposite (wc_risk_flag_trend c),
      wc_a_metrics = wc_b_metrics c, wc_b_metrics = wc_a_metrics c\<rparr>) (compare_windows a b)"
  by (simp add: compare_windows_def Let_def
      direction_opposite[of "ws_confidence_avg (compute_window_statistics b)" "ws_confidence_avg (compute_window_statistics a)"]
      direction_opposite[of "ws_governance_avg (compute_window_statistics b)" "ws_governance_avg (compute_window_statistics a)"]
      direction_opposite[of "Some (of_int (ws_risk_count (compute_window_statistics b)))" "Some (of_int (ws_risk_count (compute_window_statistics a)))"])

section \<open>Completeness\<close>

lemma filter_all_or_less: "(\<forall>b\<in>set bs. b) \<and> length (filter id bs) = length bs \<or> \<not> (\<forall>b\<in>set bs. b) \<and> length (filter id bs) < length bs"
  by (induction bs) auto

text \<open>The completeness lies between 0 and 1, and is 1 exactly when there is a report and every report
  has the three fields.\<close>

theorem completeness_exact:
  "0 \<le> assess_completeness s \<and> assess_completeness s \<le> 1 \<and>
   (assess_completeness s = 1 \<longleftrightarrow> me_reports s \<noteq> [] \<and> (\<forall>r\<in>set (me_reports s). is_complete r = Some True))"
proof (cases "me_reports s = [] \<or> all_some (map is_complete (me_reports s)) = None")
  case True
  then have "assess_completeness s = 0" by (auto simp: assess_completeness_def)
  moreover have "\<not> (me_reports s \<noteq> [] \<and> (\<forall>r\<in>set (me_reports s). is_complete r = Some True))"
  proof
    assume *: "me_reports s \<noteq> [] \<and> (\<forall>r\<in>set (me_reports s). is_complete r = Some True)"
    then have "list_all (\<lambda>x. x \<noteq> None) (map is_complete (me_reports s))" by (auto simp: list_all_iff)
    from all_some_complete[OF this] True * show False by simp
  qed
  ultimately show ?thesis by simp
next
  case False
  then obtain bs where bs: "all_some (map is_complete (me_reports s)) = Some bs" by blast
  from all_some_set[OF bs] have set: "is_complete ` set (me_reports s) = Some ` set bs" "length bs = length (me_reports s)"
    by simp_all
  have le: "length (filter id bs) \<le> length bs" by simp
  have all: "length (filter id bs) = length bs \<longleftrightarrow> (\<forall>r\<in>set (me_reports s). is_complete r = Some True)"
  proof -
    have bools: "length (filter id bs) = length bs \<longleftrightarrow> (\<forall>b\<in>set bs. b)"
      using filter_all_or_less[of bs] by auto
    have somes: "(\<forall>b\<in>set bs. b) \<longleftrightarrow> Some ` set bs \<subseteq> {Some True}" by auto
    have "Some ` set bs \<subseteq> {Some True} \<longleftrightarrow> (\<forall>r\<in>set (me_reports s). is_complete r = Some True)" unfolding set(1)[symmetric] by auto
    with bools somes show ?thesis by blast
  qed
  have ratio: "assess_completeness s = of_nat (length (filter id bs)) / of_nat (length bs)"
    using False bs set(2) by (simp add: assess_completeness_def)
  have pos: "(0::rat) < of_nat (length bs)" using False set(2) by simp
  have "(of_nat (length (filter id bs)) :: rat) \<le> of_nat (length bs)" using le by (simp only: of_nat_le_iff)
  then have "assess_completeness s \<le> 1" unfolding ratio using pos by (simp only: divide_le_eq_1_pos)
  moreover have "assess_completeness s = 1 \<longleftrightarrow> length (filter id bs) = length bs"
  proof -
    have "assess_completeness s = 1 \<longleftrightarrow> (of_nat (length (filter id bs)) :: rat) = of_nat (length bs)"
      unfolding ratio using pos by (simp only: divide_eq_1_iff) auto
    then show ?thesis by (simp only: of_nat_eq_iff)
  qed
  moreover have "0 \<le> assess_completeness s" unfolding ratio by simp
  ultimately show ?thesis using all False by blast
qed

end
