(* ===== verification/Orch_Policy.thy ===== *)
theory Orch_Policy
  imports Outcome_Recorder Contracts "HOL-Library.Monad_Syntax"
begin

text \<open>
  The policy gates of \<open>reasoner_service/orchestrator.py\<close> with the parts they consult:
  \<open>policy_backends.py\<close> (the chain of the default policy store), \<open>policy/outcome_policy.py\<close>,
  \<open>policy/memory_policy.py\<close> and \<open>allowlist_loader.py\<close>.

  A gate is a check that computes a verdict and the effect of the verdict on the orchestrator:
  counters, audit trail, dead letter queue. An exception is \<open>None\<close>; every gate catches its own and
  goes on. \<open>int(s)\<close>, \<open>float(s)\<close> and \<open>str(v)\<close> and the files of the allowlist are parameters, the
  clock has one reading (milliseconds) per run of the gates. A query for a symbol or signal type
  that is no string fails. Log messages are left out.
\<close>

section \<open>State\<close>

record orch_libs =
  ol_parse_int :: "string \<Rightarrow> int option"
  ol_parse_float :: "string \<Rightarrow> rat option"
  ol_str :: "pyval \<Rightarrow> string"
  ol_json_file :: "string \<Rightarrow> pyval option"

definition to_int :: "orch_libs \<Rightarrow> pyval \<Rightarrow> int option" where
  "to_int l v = (case v of VStr s \<Rightarrow> ol_parse_int l s | VFloat x \<Rightarrow> Some (py_trunc x) | _ \<Rightarrow> as_int v)"

definition to_float :: "orch_libs \<Rightarrow> pyval \<Rightarrow> rat option" where
  "to_float l v = (case v of VStr s \<Rightarrow> ol_parse_float l s | _ \<Rightarrow> as_number v)"

definition py_str :: "orch_libs \<Rightarrow> pyval \<Rightarrow> string" where
  "py_str l v = (case v of VStr s \<Rightarrow> s | _ \<Rightarrow> ol_str l v)"

text \<open>\<open>v or d\<close>, and \<open>v.get(k, d)\<close> on a value that need not be a dictionary.\<close>

definition or_else :: "pyval \<Rightarrow> pyval \<Rightarrow> pyval" where
  "or_else v d = (if truthy v then v else d)"

definition vget :: "string \<Rightarrow> pyval \<Rightarrow> pyval \<Rightarrow> pyval option" where
  "vget k v d = (case v of VDict m \<Rightarrow> Some (dget k m d) | _ \<Rightarrow> None)"

record allowlist =
  al_allowed_keys :: "string list"
  al_loaded :: bool

record policy_counters =
  pc_pass :: int
  pc_veto :: int
  pc_defer :: int

text \<open>An entry of the queue is an object: two places of the queue with the same reference hold the
  same object.\<close>

record dlq_entry =
  dl_ref :: nat
  dl_decision :: pydict
  dl_error :: string
  dl_ts :: int
  dl_attempts :: int
  dl_next_attempt_ts :: rat

datatype outcome_db = No_Db | Db_Fails | Db outcome_table

record orchestrator =
  oc_permissive :: bool
  oc_constraints :: pydict
  oc_policy_config :: pydict
  oc_counters :: policy_counters
  oc_policy_audit :: "pydict list"
  oc_persist_dlq :: "dlq_entry list"
  oc_next_ref :: nat
  oc_metrics_snapshot :: "((pyval \<times> pyval \<times> pyval) \<times> pyval) list"
  oc_allowlist :: allowlist
  oc_db :: outcome_db

definition orch_init :: "bool \<Rightarrow> orchestrator" where
  "orch_init permissive = \<lparr>oc_permissive = permissive, oc_constraints = [], oc_policy_config = [],
     oc_counters = \<lparr>pc_pass = 0, pc_veto = 0, pc_defer = 0\<rparr>, oc_policy_audit = [], oc_persist_dlq = [], oc_next_ref = 0,
     oc_metrics_snapshot = [], oc_allowlist = \<lparr>al_allowed_keys = [], al_loaded = False\<rparr>, oc_db = No_Db\<rparr>"

definition load_config :: "string \<Rightarrow> orchestrator \<Rightarrow> pyval" where
  "load_config k o1 = dget k (oc_constraints o1) (VDict [])"

section \<open>The policy store\<close>

definition config_backend :: "pydict \<Rightarrow> string \<Rightarrow> pyval" where
  "config_backend cfg name = or_else (dget name cfg VNone) (VDict [])"

definition default_backend :: "orch_libs \<Rightarrow> string \<Rightarrow> pydict \<Rightarrow> pyval option" where
  "default_backend l name ctx =
     (if name = ''killzone'' then Some (VDict [(''active'', VBool (truthy (dget ''killzone'' ctx (VBool False))))])
      else if name = ''regime'' then Some (VDict [(''regime'', dget ''regime'' ctx VNone)])
      else if name = ''cooldown'' then
        map_option (\<lambda>n. VDict [(''cooldown_until'', VInt n)]) (to_int l (or_else (dget ''cooldown_until'' ctx (VInt 0)) (VInt 0)))
      else if name = ''exposure'' then
        do { x \<leftarrow> to_float l (or_else (dget ''exposure'' ctx (VInt 0)) (VInt 0));
             y \<leftarrow> to_float l (or_else (dget ''max_exposure'' ctx (VInt 0)) (VInt 0));
             Some (VDict [(''exposure'', VFloat x), (''max_exposure'', VFloat y)]) }
      else if name = ''confidence_threshold'' then Some (VDict [(''min_confidence'', VFloat (1/2))])
      else Some (VDict []))"

fun first_policy :: "pyval option list \<Rightarrow> pyval" where
  "first_policy [] = VDict []"
| "first_policy (None # rs) = first_policy rs"
| "first_policy (Some r # rs) = (if truthy r then r else first_policy rs)"

definition get_policy :: "orch_libs \<Rightarrow> pydict \<Rightarrow> string \<Rightarrow> pydict \<Rightarrow> pyval" where
  "get_policy l cfg name ctx = first_policy [Some (config_backend cfg name), default_backend l name ctx]"

section \<open>Verdicts\<close>

datatype verdict =
    Go
  | Veto pydict pydict
  | Defer pydict pydict dlq_entry
  | Answer pydict

definition count_veto :: "orchestrator \<Rightarrow> orchestrator" where
  "count_veto o1 = o1\<lparr>oc_counters := (oc_counters o1)\<lparr>pc_veto := pc_veto (oc_counters o1) + 1\<rparr>\<rparr>"

definition count_defer :: "orchestrator \<Rightarrow> orchestrator" where
  "count_defer o1 = o1\<lparr>oc_counters := (oc_counters o1)\<lparr>pc_defer := pc_defer (oc_counters o1) + 1\<rparr>\<rparr>"

definition count_pass :: "orchestrator \<Rightarrow> orchestrator" where
  "count_pass o1 = o1\<lparr>oc_counters := (oc_counters o1)\<lparr>pc_pass := pc_pass (oc_counters o1) + 1\<rparr>\<rparr>"

definition audit :: "pydict \<Rightarrow> orchestrator \<Rightarrow> orchestrator" where
  "audit e o1 = o1\<lparr>oc_policy_audit := oc_policy_audit o1 @ [e]\<rparr>"

definition enqueue :: "dlq_entry \<Rightarrow> orchestrator \<Rightarrow> orchestrator" where
  "enqueue d o1 = o1\<lparr>oc_persist_dlq := oc_persist_dlq o1 @ [d\<lparr>dl_ref := oc_next_ref o1\<rparr>],
     oc_next_ref := oc_next_ref o1 + 1\<rparr>"

fun apply_verdict :: "verdict \<Rightarrow> orchestrator \<Rightarrow> pydict option \<times> orchestrator" where
  "apply_verdict Go o1 = (None, o1)"
| "apply_verdict (Veto r e) o1 = (Some r, audit e (count_veto o1))"
| "apply_verdict (Defer r e d) o1 =
     (Some r, enqueue d (audit e (count_defer o1)))"
| "apply_verdict (Answer r) o1 = (Some r, o1)"

definition result_of :: "string \<Rightarrow> pydict" where
  "result_of r = [(''result'', VStr r)]"

definition veto_result :: "string \<Rightarrow> pydict" where
  "veto_result reason = [(''result'', VStr ''veto''), (''reason'', VStr reason)]"

definition veto_entry :: "int \<Rightarrow> string \<Rightarrow> pydict \<Rightarrow> pydict \<Rightarrow> pydict" where
  "veto_entry now reason extra snap =
     [(''ts'', VInt now), (''action'', VStr ''veto''), (''reason'', VStr reason)] @ extra @
     [(''id'', dget ''id'' snap VNone)]"

section \<open>The allowlist\<close>

definition make_key :: "orch_libs \<Rightarrow> pydict \<Rightarrow> string option" where
  "make_key l d =
     (let vs = map (\<lambda>k. dget k d VNone) [''symbol'', ''timeframe'', ''session'', ''signal_type'', ''direction''] in
      if list_all truthy vs
      then Some (concat (map (\<lambda>v. py_str l v @ ''|'') (butlast vs)) @ py_str l (last vs)) else None)"

text \<open>The keys read so far stay when a group is no dictionary, but the list does not count as loaded.\<close>

fun load_groups :: "orch_libs \<Rightarrow> pyval list \<Rightarrow> string list \<Rightarrow> bool \<times> string list" where
  "load_groups l [] ks = (True, ks)"
| "load_groups l (g # gs) ks =
     (case g of
        VDict d \<Rightarrow> load_groups l gs (case make_key l d of None \<Rightarrow> ks | Some k \<Rightarrow> List.insert k ks)
      | _ \<Rightarrow> (False, ks))"

definition load_allowlist :: "orch_libs \<Rightarrow> string \<Rightarrow> allowlist \<Rightarrow> bool \<times> allowlist" where
  "load_allowlist l path a =
     (case ol_json_file l path of
        Some (VDict data) \<Rightarrow>
          (case iterate (dget ''allowed_groups'' data (VList [])) of
             None \<Rightarrow> (False, \<lparr>al_allowed_keys = [], al_loaded = False\<rparr>)
           | Some gs \<Rightarrow>
              (let (ok, ks) = load_groups l gs [] in (ok, \<lparr>al_allowed_keys = ks, al_loaded = ok\<rparr>)))
      | _ \<Rightarrow> (False, a\<lparr>al_loaded := False\<rparr>))"

definition is_allowed :: "string \<Rightarrow> allowlist \<Rightarrow> bool" where
  "is_allowed k a \<longleftrightarrow> k \<in> set (al_allowed_keys a)"

text \<open>The state of the loader changes also when the gate lets the snapshot pass.\<close>

definition consult_allowlist :: "orch_libs \<Rightarrow> orchestrator \<Rightarrow> allowlist" where
  "consult_allowlist l o1 =
     (let cfg = load_config ''allowlist'' o1; a = oc_allowlist o1 in
      case (vget ''enabled'' cfg (VBool False), vget ''path'' cfg VNone) of
        (Some e, Some (VStr p)) \<Rightarrow> if truthy e \<and> p \<noteq> [] \<and> \<not> al_loaded a then snd (load_allowlist l p a) else a
      | _ \<Rightarrow> a)"

definition allowlist_check :: "orch_libs \<Rightarrow> int \<Rightarrow> pydict \<Rightarrow> orchestrator \<Rightarrow> verdict" where
  "allowlist_check l now snap o1 =
     (case vget ''enabled'' (load_config ''allowlist'' o1) (VBool False) of
        None \<Rightarrow> Go
      | Some e \<Rightarrow>
          (if truthy e \<and> al_loaded (oc_allowlist o1) then
             (case make_key l snap of
                None \<Rightarrow> Go
              | Some k \<Rightarrow>
                 if is_allowed k (oc_allowlist o1) then Go
                 else Veto (veto_result ''not_in_allowlist'' @ [(''group_key'', VStr k)])
                        (veto_entry now ''not_in_allowlist'' [(''group_key'', VStr k)] snap))
           else Go))"

section \<open>Killzone, regime, cooldown, exposure\<close>

definition killzone_check :: "orch_libs \<Rightarrow> int \<Rightarrow> pydict \<Rightarrow> orchestrator \<Rightarrow> verdict" where
  "killzone_check l now snap o1 =
     (let active = (case vget ''active'' (get_policy l (oc_policy_config o1) ''killzone'' snap) VNone of
                      Some v \<Rightarrow> truthy v
                    | None \<Rightarrow> truthy (dget ''killzone'' snap VNone))
      in if active then Veto (veto_result ''killzone'') (veto_entry now ''killzone'' [] snap) else Go)"

definition regime_check :: "orch_libs \<Rightarrow> int \<Rightarrow> pydict \<Rightarrow> orchestrator \<Rightarrow> verdict" where
  "regime_check l now snap o1 =
     (let regime = (case vget ''regime'' (get_policy l (oc_policy_config o1) ''regime'' snap) VNone of
                      Some v \<Rightarrow> v
                    | None \<Rightarrow> dget ''regime'' snap VNone)
      in if regime = VStr ''restricted''
         then Veto (veto_result ''regime_restricted'') (veto_entry now ''regime_restricted'' [] snap) else Go)"

definition cooldown_of :: "orch_libs \<Rightarrow> pyval \<Rightarrow> int option" where
  "cooldown_of l p = do { v \<leftarrow> vget ''cooldown_until'' p (VInt 0); to_int l (or_else v (VInt 0)) }"

definition cooldown_check :: "orch_libs \<Rightarrow> int \<Rightarrow> pydict \<Rightarrow> orchestrator \<Rightarrow> verdict" where
  "cooldown_check l now snap o1 =
     (let cooldown = (case cooldown_of l (get_policy l (oc_policy_config o1) ''cooldown'' snap) of
                        Some n \<Rightarrow> Some n
                      | None \<Rightarrow> cooldown_of l (VDict snap))
      in case cooldown of
           None \<Rightarrow> Go
         | Some n \<Rightarrow>
             if n \<noteq> 0 \<and> n > now then
               Defer [(''result'', VStr ''defer''), (''reason'', VStr ''cooldown''), (''next_attempt_ts'', VInt n)]
                 [(''ts'', VInt now), (''action'', VStr ''defer''), (''reason'', VStr ''cooldown''),
                  (''next_attempt_ts'', VInt n), (''id'', dget ''id'' snap VNone)]
                 \<lparr>dl_ref = 0, dl_decision = snap, dl_error = ''policy_defer'', dl_ts = now, dl_attempts = 0,
                  dl_next_attempt_ts = of_int n\<rparr>
             else Go)"

definition exposure_of :: "orch_libs \<Rightarrow> pyval \<Rightarrow> (rat \<times> rat) option" where
  "exposure_of l p =
     do { e \<leftarrow> vget ''exposure'' p (VInt 0); x \<leftarrow> to_float l (or_else e (VInt 0));
          m \<leftarrow> vget ''max_exposure'' p (VInt 0); y \<leftarrow> to_float l (or_else m (VInt 0));
          Some (x, y) }"

definition exposure_check :: "orch_libs \<Rightarrow> int \<Rightarrow> pydict \<Rightarrow> orchestrator \<Rightarrow> verdict" where
  "exposure_check l now snap o1 =
     (let limits = (case exposure_of l (get_policy l (oc_policy_config o1) ''exposure'' snap) of
                      Some p \<Rightarrow> Some p
                    | None \<Rightarrow> exposure_of l (VDict snap))
      in case limits of
           None \<Rightarrow> Go
         | Some (x, y) \<Rightarrow>
             (let extra = [(''exposure'', VFloat x), (''max_exposure'', VFloat y)] in
              if y \<noteq> 0 \<and> x > y
              then Veto (veto_result ''risk_limit_exceeded'' @ extra) (veto_entry now ''risk_limit_exceeded'' extra snap)
              else Go))"

section \<open>Outcomes, memory and recall\<close>

definition snapshot_key :: "pydict \<Rightarrow> pyval \<times> pyval \<times> pyval" where
  "snapshot_key snap = (dget ''symbol'' snap VNone, dget ''model'' snap VNone, dget ''session'' snap VNone)"

text \<open>\<open>check_performance\<close>: the figures of an underperforming group.\<close>

definition check_performance ::
    "orch_libs \<Rightarrow> pyval \<times> pyval \<times> pyval \<Rightarrow> ((pyval \<times> pyval \<times> pyval) \<times> pyval) list \<Rightarrow> int \<Rightarrow> rat \<Rightarrow> rat \<Rightarrow>
     (int \<times> rat \<times> rat) option option" where
  "check_performance l key metrics min_sample exp_threshold wr_threshold =
     (let (a, b, c) = key; stats = (case map_of metrics key of None \<Rightarrow> VNone | Some v \<Rightarrow> v) in
      if \<not> (py_hashable a \<and> py_hashable b \<and> py_hashable c) then None
      else if \<not> truthy stats then Some None
      else
        do { n \<leftarrow> vget ''count'' stats (VInt 0); cnt \<leftarrow> to_int l (or_else n (VInt 0));
             e \<leftarrow> vget ''expectancy'' stats (VFloat 0); expectancy \<leftarrow> to_float l (or_else e (VFloat 0));
             w \<leftarrow> vget ''win_rate'' stats (VFloat 0); win_rate \<leftarrow> to_float l (or_else w (VFloat 0));
             Some (if cnt < min_sample then None
                   else if expectancy < exp_threshold \<or> win_rate < wr_threshold
                        then Some (cnt, expectancy, win_rate) else None) })"

definition outcome_verdict :: "orch_libs \<Rightarrow> pydict \<Rightarrow> orchestrator \<Rightarrow> verdict option" where
  "outcome_verdict l snap o1 =
     (let cfg = load_config ''outcome_veto'' o1 in
      do { n \<leftarrow> vget ''min_sample_size'' cfg (VInt 20); min_sample \<leftarrow> to_int l n;
           e \<leftarrow> vget ''expectancy_threshold'' cfg (VFloat (-1/20)); exp_threshold \<leftarrow> to_float l e;
           w \<leftarrow> vget ''win_rate_threshold'' cfg (VFloat (45/100)); wr_threshold \<leftarrow> to_float l w;
           r \<leftarrow> check_performance l (snapshot_key snap) (oc_metrics_snapshot o1) min_sample exp_threshold wr_threshold;
           Some (case r of
             None \<Rightarrow> Go
           | Some (cnt, expectancy, win_rate) \<Rightarrow>
               Veto (veto_result ''outcome_underperformance'')
                 ([(''type'', VStr ''outcome'')] @ veto_result ''outcome_underperformance'' @
                  [(''count'', VInt cnt), (''expectancy'', VFloat expectancy), (''win_rate'', VFloat win_rate),
                   (''decision_id'', dget ''id'' snap VNone)])) })"

definition gate_of :: "verdict option \<Rightarrow> verdict" where
  "gate_of v = (case v of None \<Rightarrow> Go | Some x \<Rightarrow> x)"

definition opt_text :: "pyval \<Rightarrow> string option option" where
  "opt_text v = (case v of VNone \<Rightarrow> Some None | VStr s \<Rightarrow> Some (Some s) | _ \<Rightarrow> None)"

definition query_outcomes ::
    "pyval \<Rightarrow> pyval \<Rightarrow> int \<Rightarrow> pyval \<Rightarrow> pyval \<Rightarrow> pyval \<Rightarrow> outcome_db \<Rightarrow> outcome_table option" where
  "query_outcomes symbol signal_type n model session direction db =
     (case (db, symbol, signal_type, opt_text model, opt_text session, opt_text direction) of
        (Db table, VStr s, VStr t, Some m, Some ss, Some dr) \<Rightarrow>
          Some (get_outcomes_by_signal_type s t n m ss dr table)
      | _ \<Rightarrow> None)"

definition similar_r :: "decision_outcome \<Rightarrow> rat" where
  "similar_r r =
     (let outcome = py_lower (or_outcome r) in
      if outcome = ''win'' then max 1 (or_pnl r / 10)
      else if outcome = ''loss'' then min (-1) (or_pnl r / 10) else 0)"

definition lookup_similar_signals :: "pyval \<times> pyval \<times> pyval \<Rightarrow> int \<Rightarrow> outcome_db \<Rightarrow> rat list" where
  "lookup_similar_signals key top_n db =
     (let (symbol, signal_type, session) = key in
      case query_outcomes symbol signal_type top_n VNone VNone VNone db of
        None \<Rightarrow> []
      | Some rows \<Rightarrow> map similar_r rows)"

datatype similarity = Sim_Pass | Sim_Veto rat int | Sim_Promote

definition check_similarity :: "rat list \<Rightarrow> rat \<Rightarrow> rat \<Rightarrow> similarity" where
  "check_similarity rs negative positive =
     (let expectancy = sum_list rs / of_nat (length rs) in
      if rs = [] then Sim_Pass
      else if expectancy < negative then Sim_Veto expectancy (int (length rs))
      else if expectancy > positive then Sim_Promote else Sim_Pass)"

definition memory_result :: "orch_libs \<Rightarrow> pydict \<Rightarrow> orchestrator \<Rightarrow> similarity option" where
  "memory_result l snap o1 =
     (let cfg = load_config ''memory_veto'' o1 in
      do { n \<leftarrow> vget ''memory_top_n'' cfg (VInt 10); top_n \<leftarrow> to_int l n;
           a \<leftarrow> vget ''negative_threshold'' cfg (VFloat (-1/20)); negative \<leftarrow> to_float l a;
           b \<leftarrow> vget ''positive_threshold'' cfg (VFloat (1/10)); positive \<leftarrow> to_float l b;
           Some (check_similarity (lookup_similar_signals (snapshot_key snap) top_n (oc_db o1)) negative positive) })"

definition memory_verdict :: "pydict \<Rightarrow> similarity \<Rightarrow> verdict" where
  "memory_verdict snap m =
     (case m of
        Sim_Veto x n \<Rightarrow>
          Veto (veto_result ''memory_underperformance'')
            ([(''type'', VStr ''memory'')] @ veto_result ''memory_underperformance'' @
             [(''expectancy'', VFloat x), (''sample_size'', VInt n), (''decision_id'', dget ''id'' snap VNone)])
      | _ \<Rightarrow> Go)"

definition promote :: "pydict \<Rightarrow> pydict" where
  "promote snap =
     (case map_of snap ''context'' of
        None \<Rightarrow> AList.update ''context'' (VDict [(''memory_promoted'', VBool True)]) snap
      | Some (VDict c) \<Rightarrow> AList.update ''context'' (VDict (AList.update ''memory_promoted'' (VBool True) c)) snap
      | Some _ \<Rightarrow> snap)"

definition compute_expectancy_and_win_rate :: "(rat \<times> string) list \<Rightarrow> rat \<times> rat \<times> int" where
  "compute_expectancy_and_win_rate xs =
     (if xs = [] then (0, 0, 0)
      else (sum_list (map fst xs) / of_nat (length xs),
            of_nat (length (filter (\<lambda>(r, t). py_lower t = ''win'') xs)) / of_nat (length xs),
            int (length xs)))"

definition valid_outcomes_of :: "outcome_table \<Rightarrow> (rat \<times> string) list" where
  "valid_outcomes_of rows =
     concat (map (\<lambda>r. case do_r_multiple r of None \<Rightarrow> [] | Some x \<Rightarrow> [(x, py_lower (or_outcome r))]) rows)"

definition recall_details :: "rat \<Rightarrow> rat \<Rightarrow> int \<Rightarrow> rat \<Rightarrow> rat \<Rightarrow> pydict" where
  "recall_details expectancy win_rate n exp_threshold wr_threshold =
     [(''expectancy'', VFloat expectancy), (''win_rate'', VFloat win_rate), (''sample_size'', VInt n),
      (''thresholds'', VDict [(''expectancy_threshold'', VFloat exp_threshold),
                             (''win_rate_threshold'', VFloat wr_threshold)])]"

definition recall_judgement :: "pydict \<Rightarrow> int \<Rightarrow> rat \<Rightarrow> rat \<Rightarrow> outcome_table \<Rightarrow> verdict" where
  "recall_judgement snap min_sample exp_threshold wr_threshold rows =
     (if rows = [] then Go
      else
        (let (e, w, n) = compute_expectancy_and_win_rate (valid_outcomes_of rows);
             details = recall_details e w n exp_threshold wr_threshold
         in if n \<ge> min_sample \<and> (e < exp_threshold \<or> w < wr_threshold)
            then Veto (veto_result ''memory_underperformance'' @ [(''details'', VDict details)])
                   ([(''type'', VStr ''memory_recall''), (''reason'', VStr ''memory_underperformance''),
                     (''decision_id'', dget ''id'' snap VNone)] @ details)
            else Answer (result_of ''pass'' @ [(''details'', VDict details)])))"

definition recall_verdict :: "orch_libs \<Rightarrow> pydict \<Rightarrow> orchestrator \<Rightarrow> verdict option" where
  "recall_verdict l snap o1 =
     (let cfg = load_config ''outcome_adaptation'' o1; symbol = dget ''symbol'' snap VNone;
          signal_type = dget ''signal_type'' snap VNone
      in do { e \<leftarrow> vget ''enabled'' cfg (VBool False);
              if truthy e \<and> truthy symbol \<and> truthy signal_type \<and> oc_db o1 \<noteq> No_Db then
                do { a \<leftarrow> vget ''window_last_n_trades'' cfg (VInt 50); window_n \<leftarrow> to_int l a;
                     b \<leftarrow> vget ''min_sample_size'' cfg (VInt 20); min_sample \<leftarrow> to_int l b;
                     s \<leftarrow> vget ''suppress_if'' cfg (VDict []);
                     c \<leftarrow> vget ''expectancy_r'' s (VFloat (-1/20)); exp_threshold \<leftarrow> to_float l c;
                     d \<leftarrow> vget ''win_rate'' s (VFloat (45/100)); wr_threshold \<leftarrow> to_float l d;
                     rows \<leftarrow> query_outcomes symbol signal_type window_n (dget ''model'' snap VNone)
                       (dget ''session'' snap VNone) (dget ''direction'' snap VNone) (oc_db o1);
                     Some (recall_judgement snap min_sample exp_threshold wr_threshold rows) }
              else Some Go })"

section \<open>The two gates\<close>

text \<open>The checks that only compute a verdict, in the order of the code; the first answer counts.\<close>

definition static_checks :: "(orch_libs \<Rightarrow> int \<Rightarrow> pydict \<Rightarrow> orchestrator \<Rightarrow> verdict) list" where
  "static_checks = [allowlist_check, killzone_check, regime_check, cooldown_check, exposure_check,
     \<lambda>l now snap o1. gate_of (outcome_verdict l snap o1)]"

fun first_verdict :: "verdict list \<Rightarrow> verdict" where
  "first_verdict [] = Go"
| "first_verdict (Go # vs) = first_verdict vs"
| "first_verdict (v # vs) = v"

definition pass_details :: pydict where
  "pass_details = [(''sample_size'', VInt 0), (''expectancy'', VFloat 0), (''win_rate'', VFloat 0)]"

definition memory_gates :: "orch_libs \<Rightarrow> pydict \<Rightarrow> orchestrator \<Rightarrow> verdict \<times> pydict" where
  "memory_gates l snap o1 =
     (let m = (case memory_result l snap o1 of None \<Rightarrow> Sim_Pass | Some x \<Rightarrow> x);
          snap' = (if m = Sim_Promote then promote snap else snap)
      in (first_verdict [memory_verdict snap m, gate_of (recall_verdict l snap' o1)], snap'))"

definition pre_reasoning_policy_check ::
    "orch_libs \<Rightarrow> int \<Rightarrow> pydict \<Rightarrow> orchestrator \<Rightarrow> pydict \<times> pydict \<times> orchestrator" where
  "pre_reasoning_policy_check l now snap o1 =
     (if oc_permissive o1 then (result_of ''pass'', snap, o1)
      else
        (let o2 = o1\<lparr>oc_allowlist := consult_allowlist l o1\<rparr>;
             v = first_verdict (map (\<lambda>c. c l now snap o2) static_checks);
             (m, snap') = (if v = Go then memory_gates l snap o2 else (v, snap))
         in case apply_verdict m o2 of
              (Some r, o3) \<Rightarrow> (r, snap', o3)
            | (None, o3) \<Rightarrow> (result_of ''pass'' @ [(''details'', VDict pass_details)], snap', count_pass o3)))"

definition confidence_limit :: "orch_libs \<Rightarrow> pydict \<Rightarrow> orchestrator \<Rightarrow> rat" where
  "confidence_limit l out o1 =
     (case do { v \<leftarrow> vget ''min_confidence'' (get_policy l (oc_policy_config o1) ''confidence_threshold'' out) (VFloat (1/2));
                to_float l (or_else v (VFloat (1/2))) } of
        None \<Rightarrow> 1/2
      | Some x \<Rightarrow> x)"

definition post_reasoning_policy_check ::
    "orch_libs \<Rightarrow> int \<Rightarrow> pydict \<Rightarrow> orchestrator \<Rightarrow> pydict \<times> orchestrator" where
  "post_reasoning_policy_check l now out o1 =
     (if oc_permissive o1 then (result_of ''pass'', o1)
      else
        (let rec = py_lower (py_str l (dget ''recommendation'' out (VStr [])));
             confidence = (case to_float l (or_else (dget ''confidence'' out (VInt 0)) (VInt 0)) of None \<Rightarrow> 0 | Some x \<Rightarrow> x)
         in if rec = ''enter'' \<and> confidence < confidence_limit l out o1
            then (veto_result ''low_confidence'',
                  audit ([(''ts'', VInt now), (''action'', VStr ''veto''), (''reason'', VStr ''low_confidence''),
                          (''confidence'', VFloat confidence), (''id'', dget ''id'' out VNone)]) (count_veto o1))
            else (result_of ''pass'', count_pass o1)))"

end
