(* ===== verification/Orch_Decision.thy ===== *)
theory Orch_Decision
  imports Orch_Policy Plan_Contract
begin

text \<open>
  The path of a decision through \<open>reasoner_service/orchestrator.py\<close>: normalisation, the paper
  trade, the deduplication key, persistence with its dead letter, routing, quiet hours and the
  notification of channels, composed in \<open>process_decision\<close>.

  Parameters: the parser of ISO times, the Redis \<open>SET NX\<close> of a key (\<open>None\<close>: the operation failed), the
  insertion of a decision into the database (the id, or the text of the exception), the answer of
  each notifier, the result of the shadow evaluation, and what a paper trade draws and reads.
  The clock has one reading per call, in microseconds. The Redis queue, the log and the counters
  of the metrics server are left out.
\<close>

section \<open>Normalisation\<close>

definition ms_of :: "time \<Rightarrow> int" where
  "ms_of t = t div 1000"

definition split_at :: "char \<Rightarrow> string \<Rightarrow> string list" where
  "split_at c s =
     (let (parts, cur) = fold (\<lambda>x (ps, cur). if x = c then (ps @ [cur], []) else (ps, cur @ [x])) s ([], [])
      in parts @ [cur])"

definition py_strip :: "string \<Rightarrow> string" where
  "py_strip s = strip_chars is_blank s"

definition set_default :: "string \<Rightarrow> pyval \<Rightarrow> pydict \<Rightarrow> pydict" where
  "set_default k v d = (if map_of d k = None then d @ [(k, v)] else d)"

definition set_time :: "time \<Rightarrow> pydict \<Rightarrow> pydict" where
  "set_time t d = AList.update ''timestamp_ms'' (VInt (ms_of t)) (AList.update ''timestamp'' (VIso t) d)"

definition time_of :: "(string \<Rightarrow> time option) \<Rightarrow> time \<Rightarrow> pyval \<Rightarrow> time" where
  "time_of parse_iso now ts =
     (case ts of
        VStr s \<Rightarrow> (case parse_iso s of None \<Rightarrow> now | Some t \<Rightarrow> t)
      | VIso t \<Rightarrow> t
      | _ \<Rightarrow> now)"

definition clamp_confidence :: "orch_libs \<Rightarrow> pydict \<Rightarrow> rat" where
  "clamp_confidence l d =
     max 0 (min 1 (case to_float l (dget ''confidence'' d (VFloat 0)) of None \<Rightarrow> 0 | Some x \<Rightarrow> x))"

definition tags_of :: "pydict \<Rightarrow> pyval list option" where
  "tags_of d =
     (case or_else (dget ''tags'' d VNone) (VList []) of
        VStr s \<Rightarrow> Some (map VStr (filter (\<lambda>t. t \<noteq> []) (map py_strip (split_at (CHR '','') s))))
      | v \<Rightarrow> iterate v)"

text \<open>The fields every decision gets: symbol, confidence, time, recommendation and bias.\<close>

definition stamp_decision :: "orch_libs \<Rightarrow> (string \<Rightarrow> time option) \<Rightarrow> time \<Rightarrow> pydict \<Rightarrow> pydict" where
  "stamp_decision l parse_iso now decision =
     (let symbol = dget ''symbol'' decision VNone;
          d1 = AList.update ''symbol'' (VStr (if truthy symbol then py_upper (py_str l symbol) else ''UNKNOWN'')) decision;
          d2 = AList.update ''confidence'' (VFloat (clamp_confidence l d1)) d1;
          ts = or_else (dget ''timestamp'' d2 VNone) (dget ''timestamp_iso'' d2 VNone);
          d3 = set_time (if truthy ts then time_of parse_iso now ts else now) d2
      in set_default ''recommendation'' (VStr ''do_nothing'') (set_default ''bias'' (VStr ''neutral'') d3))"

text \<open>The defaults of what is left, and the list of tags.\<close>

definition fill_decision :: "orch_libs \<Rightarrow> int \<Rightarrow> pyval list \<Rightarrow> pydict \<Rightarrow> pydict" where
  "fill_decision l n tags d4 =
     (let d5 = set_default ''duration_ms'' (VInt n) d4;
          d6 = set_default ''summary'' (VStr (py_str l (dget ''summary'' d5 (VStr [])))) d5;
          d7 = set_default ''repair_used'' (VBool (truthy (dget ''repair_used'' d6 (VBool False)))) d6;
          d8 = set_default ''fallback_used'' (VBool (truthy (dget ''fallback_used'' d7 (VBool False)))) d7
      in AList.update ''tags'' (VList tags) d8)"

text \<open>\<open>None\<close>: a duration that is no number, or tags that cannot be listed, raise.\<close>

definition normalize_decision :: "orch_libs \<Rightarrow> (string \<Rightarrow> time option) \<Rightarrow> time \<Rightarrow> pydict \<Rightarrow> pydict option" where
  "normalize_decision l parse_iso now decision =
     (let d4 = stamp_decision l parse_iso now decision
      in do { n \<leftarrow> to_int l (or_else (dget ''duration_ms'' d4 (VInt 0)) (VInt 0));
              tags \<leftarrow> tags_of d4;
              Some (fill_decision l n tags d4) })"

section \<open>The deduplication key\<close>

definition first_true :: "pydict \<Rightarrow> string list \<Rightarrow> pyval" where
  "first_true d ks = (case filter (\<lambda>k. truthy (dget k d VNone)) ks of [] \<Rightarrow> VNone | k # _ \<Rightarrow> dget k d VNone)"

definition confidence_bucket :: "orch_libs \<Rightarrow> pydict \<Rightarrow> int" where
  "confidence_bucket l d =
     (case to_float l (dget ''confidence'' d (VFloat 0)) of None \<Rightarrow> 0 | Some x \<Rightarrow> round_half_even (x * 100))"

definition compute_dedup_key :: "orch_libs \<Rightarrow> int \<Rightarrow> time \<Rightarrow> pydict \<Rightarrow> string option" where
  "compute_dedup_key l window now d =
     (let idem = first_true d [''idempotency_key'', ''idempotency'', ''idempotencyKey''];
          sig = first_true d [''signal_id'', ''signalId''] in
      if truthy idem then Some (''idem:'' @ py_str l idem)
      else if truthy sig then Some (''sig:'' @ py_str l sig)
      else
        do { ts_ms \<leftarrow> to_int l (dget ''timestamp_ms'' d (VInt (ms_of now)));
             Some (''norm:'' @ py_upper (py_str l (dget ''symbol'' d (VStr ''UNKNOWN''))) @ '':'' @
                   py_lower (py_str l (dget ''recommendation'' d (VStr []))) @ '':'' @
                   show_int (confidence_bucket l d) @ '':'' @
                   show_int ((ts_ms div 1000) div max 1 window)) })"

section \<open>Hours of the day\<close>

definition time_of_day :: "time \<Rightarrow> time" where
  "time_of_day t = t mod 86400000000"

text \<open>\<open>map(int, s.split(":"))\<close> into two numbers, and \<open>time(h, m)\<close>, which checks the ranges.\<close>

definition parse_hm :: "orch_libs \<Rightarrow> string \<Rightarrow> time option" where
  "parse_hm l s =
     (case split_at (CHR '':'') s of
        [a, b] \<Rightarrow> do { h \<leftarrow> ol_parse_int l a; m \<leftarrow> ol_parse_int l b;
                      if 0 \<le> h \<and> h < 24 \<and> 0 \<le> m \<and> m < 60 then Some (hours h + minutes m) else None }
      | _ \<Rightarrow> None)"

definition in_hours :: "orch_libs \<Rightarrow> string \<Rightarrow> string \<Rightarrow> time \<Rightarrow> bool" where
  "in_hours l start stop now =
     (case do { s \<leftarrow> parse_hm l start; e \<leftarrow> parse_hm l stop; Some (s, e) } of
        None \<Rightarrow> False
      | Some (s, e) \<Rightarrow>
          (let t = time_of_day now in if s < e then s \<le> t \<and> t \<le> e else t \<ge> s \<or> t \<le> e))"

definition is_quiet_hours :: "orch_libs \<Rightarrow> string \<Rightarrow> time \<Rightarrow> bool" where
  "is_quiet_hours l quiet now =
     (if quiet = [] then False
      else case split_at (CHR ''-'') quiet of
             a # b # _ \<Rightarrow> in_hours l (py_strip a) (py_strip b) now
           | _ \<Rightarrow> False)"

definition in_override_window :: "orch_libs \<Rightarrow> pydict \<Rightarrow> time \<Rightarrow> bool" where
  "in_override_window l ov now =
     (case (dget ''start'' ov VNone, dget ''end'' ov VNone) of
        (VStr a, VStr b) \<Rightarrow> a \<noteq> [] \<and> b \<noteq> [] \<and> in_hours l a b now
      | _ \<Rightarrow> False)"

section \<open>Routing\<close>

definition all_channels :: "string list" where
  "all_channels = [''slack'', ''discord'', ''telegram'']"

definition override_channels :: "orch_libs \<Rightarrow> time \<Rightarrow> string \<Rightarrow> pydict \<Rightarrow> pyval list" where
  "override_channels l now symbol ov =
     (if dget ''symbol'' ov VNone = VStr symbol \<and> in_override_window l ov now
      then list_of (dget ''channels'' ov VNone) else [])"

definition required_tags :: "string \<Rightarrow> string list" where
  "required_tags key = filter (\<lambda>p. p \<noteq> []) (map py_strip (split_at (CHR ''|'') key))"

definition is_tag_rule :: "pyval list \<Rightarrow> string \<Rightarrow> bool" where
  "is_tag_rule tags key \<longleftrightarrow> CHR ''|'' \<in> set key \<and> required_tags key \<noteq> [] \<and> VStr ` set (required_tags key) \<subseteq> set tags"

definition is_wildcard :: "string \<Rightarrow> string \<Rightarrow> bool" where
  "is_wildcard symbol key \<longleftrightarrow> key \<noteq> [] \<and> last key = CHR ''*'' \<and> prefix (butlast key) symbol"

definition get_routing_for_decision ::
    "orch_libs \<Rightarrow> time \<Rightarrow> pydict list \<Rightarrow> (string \<times> string list) list \<Rightarrow> pydict \<Rightarrow> string list" where
  "get_routing_for_decision l now overrides rules d =
     (let symbol = str_of (dget ''symbol'' d (VStr [])); tags = list_of (dget ''tags'' d (VList []));
          overriding = filter (\<lambda>cs. cs \<noteq> []) (map (override_channels l now symbol) overrides);
          tagged = concat (map snd (filter (\<lambda>(k, cs). is_tag_rule tags k) rules))
      in if overriding \<noteq> [] then map str_of (hd overriding)
         else case map_of rules symbol of
                Some cs \<Rightarrow> cs
              | None \<Rightarrow>
                  if tagged \<noteq> [] then rev (remdups (rev tagged))
                  else case filter (\<lambda>(k, cs). is_wildcard symbol k) rules of
                         (k, cs) # _ \<Rightarrow> cs
                       | [] \<Rightarrow> all_channels)"

section \<open>The paper trade\<close>

record paper_env =
  pe_draws :: draws
  pe_now1 :: time
  pe_now2 :: time
  pe_now3 :: time
  pe_new_id :: string
  pe_recorded :: time
  pe_created :: time
  pe_commit :: "py_error option"

definition adapter_config :: "orch_libs \<Rightarrow> pydict \<Rightarrow> paper_config option" where
  "adapter_config l c =
     (case (dget ''slippage_model'' c (VStr ''fixed_percent''), dget ''tpsl_model'' c (VStr ''random_bars'')) of
        (VStr sm, VStr tm) \<Rightarrow>
          do { a \<leftarrow> to_float l (dget ''slippage_fixed_pct'' c (VFloat (5/100)));
               b \<leftarrow> to_float l (dget ''slippage_random_min_pct'' c (VFloat 0));
               m \<leftarrow> to_float l (dget ''slippage_random_max_pct'' c (VFloat (1/10)));
               b1 \<leftarrow> to_int l (dget ''tpsl_random_bars_min'' c (VInt 5));
               b2 \<leftarrow> to_int l (dget ''tpsl_random_bars_max'' c (VInt 100));
               h1 \<leftarrow> to_int l (dget ''tpsl_random_hours_min'' c (VInt 1));
               h2 \<leftarrow> to_int l (dget ''tpsl_random_hours_max'' c (VInt 24));
               f \<leftarrow> to_int l (dget ''fill_delay_seconds'' c (VInt 2));
               Some \<lparr>pc_slippage_model = sm, pc_slippage_fixed_pct = a, pc_slippage_random_min_pct = b,
                     pc_slippage_random_max_pct = m, pc_tpsl_model = tm, pc_tpsl_random_bars_min = b1,
                     pc_tpsl_random_bars_max = b2, pc_tpsl_random_hours_min = h1, pc_tpsl_random_hours_max = h2,
                     pc_assume_fill_on_signal = truthy (dget ''assume_fill_on_signal'' c (VBool True)),
                     pc_fill_delay_seconds = f\<rparr> }
      | _ \<Rightarrow> None)"

text \<open>The identifiers and prices of a trade: texts and numbers, all of them present. Other types of
  values are not modelled: they give no trade.\<close>

definition trade_of :: "pydict \<Rightarrow> (trade_ids \<times> rat \<times> rat \<times> rat) option" where
  "trade_of d =
     (let sl = or_else (dget ''stop_loss_price'' d VNone) (dget ''sl_price'' d VNone);
          tp = or_else (dget ''take_profit_price'' d VNone) (dget ''tp_price'' d VNone) in
      case (dget ''id'' d VNone, dget ''symbol'' d VNone, dget ''timeframe'' d VNone, dget ''signal_type'' d VNone,
            dget ''direction'' d (VStr ''long''), opt_text (dget ''model'' d VNone), opt_text (dget ''session'' d VNone)) of
        (VStr i, VStr s, VStr tf, VStr st, VStr dr, Some m, Some ss) \<Rightarrow>
          (if i \<noteq> [] \<and> s \<noteq> [] \<and> tf \<noteq> [] \<and> st \<noteq> [] \<and> truthy (dget ''entry_price'' d VNone) \<and> truthy sl \<and> truthy tp then
             do { e \<leftarrow> as_number (dget ''entry_price'' d VNone); x \<leftarrow> as_number sl; y \<leftarrow> as_number tp;
                  Some (\<lparr>pid_decision_id = i, pid_symbol = s, pid_timeframe = tf, pid_signal_type = st,
                         pid_direction = dr, pid_model = m, pid_session = ss\<rparr>, e, x, y) }
           else None)
      | _ \<Rightarrow> None)"

definition execute_paper_trade_if_enabled ::
    "orch_libs \<Rightarrow> paper_env \<Rightarrow> pydict \<Rightarrow> orchestrator \<Rightarrow> string option \<times> orchestrator" where
  "execute_paper_trade_if_enabled l pe d o1 =
     (case load_config ''paper_execution_adapter'' o1 of
        VDict c \<Rightarrow>
          (if \<not> truthy (dget ''enabled'' c (VBool False)) then (None, o1)
           else
             (case (trade_of d, adapter_config l c, oc_db o1) of
                (Some (ids, e, x, y), Some cfg, Db table) \<Rightarrow>
                  (let r = execute_entry cfg (pe_draws pe) (pe_now1 pe) (pe_now2 pe) (pe_now3 pe) (Some e) (Some x) (Some y)
                             (pid_direction ids)
                   in case record_trade_outcome (pe_new_id pe) (pe_recorded pe) (pe_created pe) (pe_commit pe)
                             (to_outcome_recorder_args ids r) table of
                        Inl _ \<Rightarrow> (None, o1)
                      | Inr (i, table') \<Rightarrow> (i, o1\<lparr>oc_db := Db table'\<rparr>))
              | _ \<Rightarrow> (None, o1)))
      | _ \<Rightarrow> (None, o1))"

section \<open>Processing a decision\<close>

record decision_env =
  de_libs :: orch_libs
  de_parse_iso :: "string \<Rightarrow> time option"
  de_dedup_enabled :: bool
  de_dedup_window :: int
  de_redis_set :: "(string \<Rightarrow> bool option) option"
  de_redis_prefix :: string
  de_insert :: "pydict \<Rightarrow> string + string"
  de_quiet_hours :: string
  de_routing_overrides :: "pydict list"
  de_routing_rules :: "(string \<times> string list) list"
  de_notifiers :: "string list"
  de_notify :: "string \<Rightarrow> pydict \<Rightarrow> string option \<Rightarrow> string + pyval"
  de_shadow :: "pydict \<Rightarrow> pyval option"
  de_paper :: paper_env

definition is_duplicate :: "decision_env \<Rightarrow> string \<Rightarrow> bool" where
  "is_duplicate env k \<longleftrightarrow>
     de_dedup_enabled env \<and>
     (case de_redis_set env of None \<Rightarrow> False | Some f \<Rightarrow> f (de_redis_prefix env @ k) = Some False)"

definition persist_entry :: "int \<Rightarrow> string \<Rightarrow> pydict \<Rightarrow> dlq_entry" where
  "persist_entry now_ms err d = \<lparr>dl_ref = 0, dl_decision = d, dl_error = err, dl_ts = now_ms, dl_attempts = 0,
     dl_next_attempt_ts = 0\<rparr>"

definition persist :: "decision_env \<Rightarrow> time \<Rightarrow> pydict \<Rightarrow> orchestrator \<Rightarrow> string option \<times> orchestrator" where
  "persist env now d o1 =
     (case de_insert env d of
        Inr i \<Rightarrow> (Some i, o1)
      | Inl err \<Rightarrow> (None, enqueue (persist_entry (ms_of now) err d) o1))"

definition not_ok :: "(string \<times> pyval) list \<Rightarrow> pyval" where
  "not_ok extra = VDict ((''ok'', VBool False) # extra)"

definition notify_answer :: "string + pyval \<Rightarrow> pyval" where
  "notify_answer r = (case r of Inl e \<Rightarrow> not_ok [(''error'', VStr e)] | Inr v \<Rightarrow> v)"

definition update_all :: "(string \<times> pyval) list \<Rightarrow> pydict \<Rightarrow> pydict" where
  "update_all ps d = fold (\<lambda>(k, v). AList.update k v) ps d"

text \<open>The answers of the notifiers that exist are paired with the routed channels in order.\<close>

definition notify_channels :: "decision_env \<Rightarrow> pydict \<Rightarrow> string option \<Rightarrow> bool \<Rightarrow> string list \<Rightarrow> pydict" where
  "notify_channels env d dec_id skipped routed =
     (let tasks = filter (\<lambda>c. c \<in> set (de_notifiers env)) routed in
      if tasks \<noteq> [] \<and> \<not> skipped
      then update_all (zip routed (map (\<lambda>c. notify_answer (de_notify env c d dec_id)) tasks)) []
      else update_all (map (\<lambda>c. (c, not_ok [(''skipped'', VBool True)])) routed) [])"

record decision_result =
  dr_id :: "string option"
  dr_skipped :: bool
  dr_notify_results :: pydict

definition process_decision ::
    "decision_env \<Rightarrow> time \<Rightarrow> pydict \<Rightarrow> bool \<Rightarrow> string list option \<Rightarrow> orchestrator \<Rightarrow> decision_result option \<times> orchestrator" where
  "process_decision env now decision persist_it channels o1 =
     (let l = de_libs env;
          (_, decision', o2) = pre_reasoning_policy_check l (ms_of now) decision o1 in
      case normalize_decision l (de_parse_iso env) now decision' of
        None \<Rightarrow> (None, o2)
      | Some d0 \<Rightarrow>
          (let (_, o3) = post_reasoning_policy_check l (ms_of now) d0 o2;
               (_, o4) = execute_paper_trade_if_enabled l (de_paper env) d0 o3;
               d = (case de_shadow env d0 of None \<Rightarrow> d0 | Some v \<Rightarrow> AList.update ''_shadow_policy_result'' v d0)
           in case compute_dedup_key l (de_dedup_window env) now d of
                None \<Rightarrow> (None, o4)
              | Some k \<Rightarrow>
                  (let skipped = is_duplicate env k;
                       (dec_id, o5) = (if persist_it then persist env now d o4 else (None, o4));
                       routed = (case channels of
                                   None \<Rightarrow> get_routing_for_decision l now (de_routing_overrides env) (de_routing_rules env) d
                                 | Some cs \<Rightarrow> cs);
                       unroutable = (channels = None \<and> \<not> list_all py_hashable (list_of (dget ''tags'' d VNone)));
                       quiet = is_quiet_hours l (de_quiet_hours env) now \<and> \<not> truthy (dget ''urgent'' d (VBool False));
                       results = (if quiet
                         then update_all (map (\<lambda>c. (c, not_ok [(''skipped'', VBool True), (''reason'', VStr ''quiet_hours'')])) routed) []
                         else notify_channels env d dec_id skipped routed)
                   in (if unroutable then None else Some \<lparr>dr_id = dec_id, dr_skipped = skipped, dr_notify_results = results\<rparr>, o5))))"

text \<open>Without given channels, a tag that cannot be hashed raises after the decision was stored.\<close>

text \<open>\<open>notify\<close>, the adapter for one channel.\<close>

definition notify_one :: "decision_env \<Rightarrow> string \<Rightarrow> pydict \<Rightarrow> string option \<Rightarrow> pyval" where
  "notify_one env channel payload dec_id =
     (if channel \<notin> set (de_notifiers env) then not_ok [(''error'', VStr ''unconfigured'')]
      else notify_answer (de_notify env channel payload dec_id))"

end
