(* ===== verification/Reasoning.thy ===== *)
theory Reasoning
  imports Orch_Policy
begin

text \<open>
  \<open>reasoner_service/reasoning_manager.py\<close>: one bounded call of a reasoning function and the
  conversion of what it returns into advisory signals.

  The registered functions are parameters. A call ends in one of three ways: it is cut off after
  the time limit, it raises, or it returns a value. The event payload is a dictionary; the
  telemetry of the optional logger, whose exceptions are swallowed, is left out.
\<close>

section \<open>Signals\<close>

record advisory_signal =
  adv_decision_id :: pyval
  adv_signal_type :: string
  adv_payload :: pydict
  adv_plan_id :: pyval
  adv_confidence :: "rat option"
  adv_reasoning_mode :: string
  adv_timestamp :: int
  adv_error :: "fstring option"
  adv_metadata :: pyval

datatype reasoning_outcome = RTimeout | RRaise string | RValue pyval

record reasoning_manager =
  rm_modes :: "(string \<times> (pydict \<Rightarrow> reasoning_outcome)) list"
  rm_timeout_ms :: int

definition failure_signal ::
    "int \<Rightarrow> pyval \<Rightarrow> string \<Rightarrow> pyval \<Rightarrow> string \<Rightarrow> pydict \<Rightarrow> fstring \<Rightarrow> advisory_signal" where
  "failure_signal now decision_id mode plan_id ty payload err =
    \<lparr>adv_decision_id = decision_id, adv_signal_type = ty, adv_payload = payload, adv_plan_id = plan_id,
     adv_confidence = None, adv_reasoning_mode = mode, adv_timestamp = now, adv_error = Some err,
     adv_metadata = VDict []\<rparr>"

definition signal_confidence :: "orch_libs \<Rightarrow> pyval \<Rightarrow> rat option" where
  "signal_confidence l v =
     (case to_float l v of
        Some x \<Rightarrow> if v \<noteq> VNone \<and> 0 \<le> x \<and> x \<le> 1 then Some x else None
      | None \<Rightarrow> None)"

definition convert_signal ::
    "orch_libs \<Rightarrow> int \<Rightarrow> pyval \<Rightarrow> string \<Rightarrow> pyval \<Rightarrow> nat \<Rightarrow> pyval \<Rightarrow> advisory_signal" where
  "convert_signal l now decision_id mode plan_id idx raw =
     (case raw of
        VDict d \<Rightarrow>
         \<lparr>adv_decision_id = decision_id,
          adv_signal_type = (case dget ''signal_type'' d (VStr ''unknown'') of VStr s \<Rightarrow> s | _ \<Rightarrow> ''unknown''),
          adv_payload = (case dget ''payload'' d (VDict []) of VDict p \<Rightarrow> p | _ \<Rightarrow> []),
          adv_plan_id = or_else plan_id (dget ''plan_id'' d VNone),
          adv_confidence = signal_confidence l (dget ''confidence'' d VNone),
          adv_reasoning_mode = mode, adv_timestamp = now, adv_error = None,
          adv_metadata = dget ''metadata'' d (VDict [])\<rparr>
      | _ \<Rightarrow> failure_signal now decision_id mode plan_id ''error'' [(''index'', VInt (int idx))]
              [T ''invalid_signal_type_in_list''])"

fun convert_signals ::
    "orch_libs \<Rightarrow> int \<Rightarrow> pyval \<Rightarrow> string \<Rightarrow> pyval \<Rightarrow> nat \<Rightarrow> pyval list \<Rightarrow> advisory_signal list" where
  "convert_signals l now decision_id mode plan_id idx [] = []"
| "convert_signals l now decision_id mode plan_id idx (r # rs) =
     convert_signal l now decision_id mode plan_id idx r #
     convert_signals l now decision_id mode plan_id (Suc idx) rs"

definition reason ::
    "orch_libs \<Rightarrow> int \<Rightarrow> reasoning_manager \<Rightarrow> pyval \<Rightarrow> pydict \<Rightarrow> string \<Rightarrow> pyval \<Rightarrow> advisory_signal list" where
  "reason l now m decision_id payload mode plan_id =
     (let failure = (\<lambda>ty p err. [failure_signal now decision_id mode plan_id ty p err]) in
      case map_of (rm_modes m) mode of
        None \<Rightarrow> failure ''error'' [] [T ''unknown_reasoning_mode: '', T mode]
      | Some f \<Rightarrow>
         (case f payload of
            RTimeout \<Rightarrow> failure ''timeout'' [(''timeout_ms'', VInt (rm_timeout_ms m))] [T ''reasoning_timeout_exceeded'']
          | RRaise e \<Rightarrow> failure ''error'' [] [T ''reasoning_exception: '', T e]
          | RValue (VList raws) \<Rightarrow> convert_signals l now decision_id mode plan_id 0 raws
          | RValue _ \<Rightarrow> failure ''error'' [] [T ''invalid_reasoning_output_type'']))"

section \<open>Properties\<close>

definition signal_ok :: "pyval \<Rightarrow> string \<Rightarrow> advisory_signal \<Rightarrow> bool" where
  "signal_ok decision_id mode s \<longleftrightarrow> adv_decision_id s = decision_id \<and> adv_reasoning_mode s = mode \<and>
     (adv_error s \<noteq> None \<longrightarrow> adv_confidence s = None) \<and>
     (case adv_confidence s of None \<Rightarrow> True | Some x \<Rightarrow> 0 \<le> x \<and> x \<le> 1)"

lemma failure_ok: "ty \<in> {''error'', ''timeout''} \<Longrightarrow> signal_ok i mode (failure_signal now i mode p ty d err)"
  by (auto simp: failure_signal_def signal_ok_def)

lemma convert_ok: "signal_ok i mode (convert_signal l now i mode p idx raw)"
  using failure_ok
  by (auto simp: convert_signal_def signal_ok_def signal_confidence_def failure_signal_def split: pyval.split option.split)

lemma convert_signals_ok:
  "list_all (signal_ok i mode) (convert_signals l now i mode p idx raws)"
  "length (convert_signals l now i mode p idx raws) = length raws"
  by (induction raws arbitrary: idx) (simp_all add: convert_ok)

text \<open>C22: whatever a reasoning function does, the call answers with signals of the
  decision and of the mode asked for, every confidence between 0 and 1; a function that
  returns a list gets one signal for each of its elements, anything else exactly one signal that
  carries an error.\<close>

theorem reasoning_signals_ok:
  "list_all (signal_ok decision_id mode) (reason l now m decision_id payload mode plan_id) \<and>
   (case map_option (\<lambda>f. f payload) (map_of (rm_modes m) mode) of
      Some (RValue (VList raws)) \<Rightarrow> length (reason l now m decision_id payload mode plan_id) = length raws
    | _ \<Rightarrow> \<exists>s. reason l now m decision_id payload mode plan_id = [s] \<and> adv_error s \<noteq> None)"
  using failure_ok
  by (auto simp: reason_def Let_def convert_signals_ok failure_signal_def split: option.split reasoning_outcome.split pyval.split)

end
