(* ===== verification/Orch_Events.thy ===== *)
theory Orch_Events
  imports Orch_Decision Reasoning Mode_Selector
begin

text \<open>
  \<open>handle_event\<close> of \<open>reasoner_service/orchestrator.py\<close>, the loop every event goes through: structure,
  global cooldown, quiet hours, the policy gate, the selection of the reasoning mode, the advisory
  reasoning, the plan, and the decision itself.

  What an event holds under "plan" and "execution_context" is kept beside its payload, as the
  arguments the plan executor gets. The exceptions that reach the outermost handler and the list
  it keeps of them are not modelled: with the operations of the model none does.
\<close>

record orch_event =
  oe_event_type :: string
  oe_payload :: pydict
  oe_correlation_id :: string
  oe_plan :: "plan_arg option"
  oe_execution_context :: "ctx_arg option"

record event_env =
  ee_decision :: decision_env
  ee_global_cooldown_until :: "int option"
  ee_reasoning_manager :: "reasoning_manager option"
  ee_plan_executor_enabled :: bool
  ee_plan_now :: int

record event_result =
  ert_status :: string
  ert_reason :: "string option"
  ert_decision_id :: pyval
  ert_policy_result :: "pydict option"
  ert_plan_result :: "plan_result option"
  ert_signals :: "advisory_signal list"
  ert_errors :: "fstring list"
  ert_next_attempt_ts :: "int option"

definition event_answer :: "string \<Rightarrow> string option \<Rightarrow> event_result" where
  "event_answer status reason_text =
    \<lparr>ert_status = status, ert_reason = reason_text, ert_decision_id = VNone, ert_policy_result = None,
     ert_plan_result = None, ert_signals = [], ert_errors = [], ert_next_attempt_ts = None\<rparr>"

section \<open>The reasoning mode\<close>

definition mode_failed :: "fstring \<Rightarrow> event_result" where
  "mode_failed err = (event_answer ''rejected'' (Some ''mode_selection_failed''))\<lparr>ert_errors := [err]\<rparr>"

fun position_value :: "pyval \<Rightarrow> mode_value" where
  "position_value (VBool b) = MBool b"
| "position_value (VStr s) = MStr s"
| "position_value v = MOther (py_type_name v)"

definition select_reasoning_mode :: "orch_libs \<Rightarrow> pydict \<Rightarrow> event_result + string" where
  "select_reasoning_mode l decision =
     (let htf = dget ''htf_bias_state'' decision VNone;
          position_open = position_value (dget ''position_open'' decision (VBool False)) in
      if htf = VNone then Inl (mode_failed [T ''htf_bias_state_missing''])
      else
        (case (case htf of VStr s \<Rightarrow> bias_of s | _ \<Rightarrow> None) of
           None \<Rightarrow> Inl (mode_failed [T ''invalid_htf_bias_state:'', T (py_str l htf)])
         | Some b \<Rightarrow>
            (case select_mode (MBias b) position_open of
               Inl (ModeSelectionError m) \<Rightarrow> Inl (mode_failed m)
             | Inl _ \<Rightarrow> Inl (mode_failed [])
             | Inr r \<Rightarrow>
                 (case mr_mode r of None \<Rightarrow> Inl (mode_failed []) | Some m \<Rightarrow> Inr m))))"

section \<open>The event\<close>

definition event_decision_id :: "orch_event \<Rightarrow> pydict \<Rightarrow> pyval" where
  "event_decision_id ev decision = dget ''id'' decision (VStr (oe_correlation_id ev))"

definition advisory_signals_for ::
    "event_env \<Rightarrow> int \<Rightarrow> orch_event \<Rightarrow> pydict \<Rightarrow> event_result + advisory_signal list" where
  "advisory_signals_for env now_ms ev decision =
     (case ee_reasoning_manager env of
        None \<Rightarrow> Inr []
      | Some m \<Rightarrow>
         (case select_reasoning_mode (de_libs (ee_decision env)) decision of
            Inl r \<Rightarrow> Inl r
          | Inr mode \<Rightarrow>
             (let plan_id = (case dget ''plan'' decision (VDict []) of VDict p \<Rightarrow> dget ''id'' p VNone | _ \<Rightarrow> VNone)
              in Inr (reason (de_libs (ee_decision env)) now_ms m (event_decision_id ev decision) decision mode plan_id))))"

definition event_plan_result :: "event_env \<Rightarrow> orch_event \<Rightarrow> plan_result option" where
  "event_plan_result env ev =
     (case (oe_plan ev, oe_execution_context ev) of
        (Some pa, Some ca) \<Rightarrow> execute_plan_if_enabled (ee_plan_executor_enabled env) (ee_plan_now env) pa ca
      | _ \<Rightarrow> None)"

definition plan_failed :: "plan_result option \<Rightarrow> bool" where
  "plan_failed r \<longleftrightarrow> (case r of None \<Rightarrow> False | Some x \<Rightarrow> pr_status x = PFailure)"

definition handle_decision_event ::
    "event_env \<Rightarrow> time \<Rightarrow> orch_event \<Rightarrow> orchestrator \<Rightarrow> event_result \<times> orchestrator" where
  "handle_decision_event env now ev o1 =
     (let (p, decision, o2) = pre_reasoning_policy_check (de_libs (ee_decision env)) (ms_of now) (oe_payload ev) o1;
          verdict_of = dget ''result'' p VNone;
          reason_of = (\<lambda>d. Some (str_of (dget ''reason'' p (VStr d)))) in
      if verdict_of = VStr ''veto'' then
        ((event_answer ''rejected'' (reason_of ''policy_veto''))\<lparr>ert_policy_result := Some p\<rparr>, o2)
      else if verdict_of = VStr ''defer'' then
        ((event_answer ''deferred'' (reason_of ''policy_defer''))\<lparr>ert_policy_result := Some p\<rparr>, o2)
      else
        (case advisory_signals_for env (ms_of now) ev decision of
           Inl r \<Rightarrow> (r, o2)
         | Inr signals \<Rightarrow>
            (let plan_result = event_plan_result env ev in
             if plan_failed plan_result then
               ((event_answer ''rejected'' (Some ''plan_execution_failed''))
                  \<lparr>ert_plan_result := plan_result, ert_signals := signals\<rparr>, o2)
             else
               (case process_decision (ee_decision env) now decision True None o2 of
                  (None, o3) \<Rightarrow> (event_answer ''error'' (Some ''decision_processing_error''), o3)
                | (Some _, o3) \<Rightarrow>
                    ((event_answer ''accepted'' None)
                       \<lparr>ert_decision_id := or_else (dget ''id'' decision VNone) (VStr (oe_correlation_id ev)),
                        ert_plan_result := plan_result, ert_signals := signals\<rparr>, o3)))))"

definition handle_plan_event :: "event_env \<Rightarrow> orch_event \<Rightarrow> event_result" where
  "handle_plan_event env ev =
     (let r = handle_plan_execution (ee_plan_executor_enabled env) (ee_plan_now env) (oe_plan ev) (oe_execution_context ev) in
      (event_answer (pv_status r) (pv_reason r))
        \<lparr>ert_plan_result := pv_plan_result r,
         ert_decision_id := (if pv_status r = ''accepted'' then VStr (oe_correlation_id ev) else VNone)\<rparr>)"

definition handle_event :: "event_env \<Rightarrow> time \<Rightarrow> orch_event \<Rightarrow> orchestrator \<Rightarrow> event_result \<times> orchestrator" where
  "handle_event env now ev o1 =
     (if oe_event_type ev = [] then (event_answer ''error'' (Some ''malformed_event''), o1)
      else if (case ee_global_cooldown_until env of None \<Rightarrow> False | Some t \<Rightarrow> t > ms_of now) then
        ((event_answer ''deferred'' (Some ''global_cooldown_active''))
           \<lparr>ert_next_attempt_ts := ee_global_cooldown_until env\<rparr>, o1)
      else if is_quiet_hours (de_libs (ee_decision env)) (de_quiet_hours (ee_decision env)) now then
        (event_answer ''deferred'' (Some ''quiet_hours_active''), o1)
      else if oe_event_type ev = ''decision'' then handle_decision_event env now ev o1
      else if oe_event_type ev = ''plan_execution'' then (handle_plan_event env ev, o1)
      else (event_answer ''rejected'' (Some ''unsupported_event_type''), o1))"

end
