(* ===== verification/Orch_Dlq.thy ===== *)
theory Orch_Dlq
  imports Orch_Policy
begin

text \<open>
  The in-memory dead letter queue of \<open>reasoner_service/orchestrator.py\<close>: \<open>publish_to_dlq\<close> and the
  retry of \<open>_dlq_retry_once\<close>, with the exponential backoff, and what happens to an entry.

  The queue is a list of references and a heap of entries, since the code changes an entry in place,
  finds its place again by identity or by its time stamp, and removes it by equality. The outcome
  of the \<open>n\<close>-th insertion of a retry is an argument: \<open>None\<close> when the decision was stored, the text of
  the exception otherwise. Nothing else runs during a retry. Times in the queue are seconds, as the
  code reads them; the Redis queue is not modelled.
\<close>

section \<open>The queue\<close>

record dlq_config =
  dc_base_delay :: rat
  dc_max_delay :: rat
  dc_max_retries :: int

definition default_dlq_config :: dlq_config where
  "default_dlq_config = \<lparr>dc_base_delay = 1, dc_max_delay = 60, dc_max_retries = 5\<rparr>"

definition publish_to_dlq :: "int \<Rightarrow> pydict \<Rightarrow> orchestrator \<Rightarrow> orchestrator" where
  "publish_to_dlq now payload o1 =
     enqueue \<lparr>dl_ref = 0, dl_decision = payload, dl_error = ''published_via_adapter'', dl_ts = now,
              dl_attempts = 0, dl_next_attempt_ts = 0\<rparr> o1"

type_synonym heap = "(nat \<times> dlq_entry) list"

definition heap_at :: "heap \<Rightarrow> nat \<Rightarrow> dlq_entry" where
  "heap_at h r = (case map_of h r of
     None \<Rightarrow> \<lparr>dl_ref = r, dl_decision = [], dl_error = [], dl_ts = 0, dl_attempts = 0, dl_next_attempt_ts = 0\<rparr>
   | Some e \<Rightarrow> e)"

text \<open>Dictionaries are equal when their items are.\<close>

definition same_content :: "dlq_entry \<Rightarrow> dlq_entry \<Rightarrow> bool" where
  "same_content e f \<longleftrightarrow> e\<lparr>dl_ref := 0\<rparr> = f\<lparr>dl_ref := 0\<rparr>"

text \<open>\<open>list.remove\<close>: the first equal element.\<close>

fun remove_equal :: "heap \<Rightarrow> dlq_entry \<Rightarrow> nat list \<Rightarrow> nat list" where
  "remove_equal h e [] = []"
| "remove_equal h e (r # rs) = (if same_content (heap_at h r) e then rs else r # remove_equal h e rs)"

text \<open>The first place that holds the entry itself or an entry of the same millisecond is overwritten.\<close>

fun store_again :: "heap \<Rightarrow> nat \<Rightarrow> nat list \<Rightarrow> nat list" where
  "store_again h r [] = []"
| "store_again h r (q # qs) =
     (if q = r \<or> dl_ts (heap_at h q) = dl_ts (heap_at h r) then r # qs else q # store_again h r qs)"

definition backoff :: "dlq_config \<Rightarrow> int \<Rightarrow> rat" where
  "backoff c attempts = min (dc_max_delay c) (dc_base_delay c * 2 ^ nat (attempts - 1))"

definition failed_entry :: "dlq_config \<Rightarrow> rat \<Rightarrow> string \<Rightarrow> dlq_entry \<Rightarrow> dlq_entry" where
  "failed_entry c now err e =
     e\<lparr>dl_attempts := dl_attempts e + 1, dl_error := err,
       dl_next_attempt_ts := now + backoff c (dl_attempts e + 1)\<rparr>"

definition is_due :: "rat \<Rightarrow> dlq_entry \<Rightarrow> bool" where
  "is_due now e \<longleftrightarrow> \<not> dl_next_attempt_ts e > now"

definition retry_entry ::
    "dlq_config \<Rightarrow> rat \<Rightarrow> string option \<Rightarrow> nat \<Rightarrow> nat list \<times> heap \<Rightarrow> nat list \<times> heap" where
  "retry_entry c now res r st =
     (let (rs, h) = st; e = heap_at h r in
      if \<not> is_due now e then st
      else
        (case res of
           None \<Rightarrow> (remove_equal h e rs, h)
         | Some err \<Rightarrow>
             (let e' = failed_entry c now err e;
                  h' = AList.update r e' h;
                  rs' = store_again h' r rs
              in if dl_attempts e' \<ge> dc_max_retries c then (remove_equal h' e' rs', h') else (rs', h'))))"

fun retry_entries ::
    "dlq_config \<Rightarrow> rat \<Rightarrow> (nat \<Rightarrow> string option) \<Rightarrow> nat \<Rightarrow> nat list \<Rightarrow> nat list \<times> heap \<Rightarrow> nat list \<times> heap" where
  "retry_entries c now res i [] st = st"
| "retry_entries c now res i (r # rs) st =
     retry_entries c now res (Suc i) rs (retry_entry c now (res i) r st)"

definition dlq_retry_once ::
    "dlq_config \<Rightarrow> rat \<Rightarrow> (nat \<Rightarrow> string option) \<Rightarrow> orchestrator \<Rightarrow> orchestrator" where
  "dlq_retry_once c now res o1 =
     (let q = oc_persist_dlq o1; refs = map dl_ref q;
          (rs, h) = retry_entries c now res 0 refs (refs, map (\<lambda>e. (dl_ref e, e)) q)
      in o1\<lparr>oc_persist_dlq := map (heap_at h) rs\<rparr>)"

section \<open>Lemmas\<close>

lemma at_update [simp]: "heap_at (AList.update r e h) q = (if q = r then e else heap_at h q)"
  by (simp add: heap_at_def update_conv')

lemma at_entry: "distinct (map dl_ref q) \<Longrightarrow> e \<in> set q \<Longrightarrow> heap_at (map (\<lambda>e. (dl_ref e, e)) q) (dl_ref e) = e"
proof -
  assume d: "distinct (map dl_ref q)" "e \<in> set q"
  have "distinct (map fst (map (\<lambda>e. (dl_ref e, e)) q))" using d(1) by (simp add: comp_def)
  moreover have "(dl_ref e, e) \<in> set (map (\<lambda>e. (dl_ref e, e)) q)" using d(2) by simp
  ultimately have "map_of (map (\<lambda>e. (dl_ref e, e)) q) (dl_ref e) = Some e" by (rule map_of_is_SomeI)
  then show ?thesis by (simp add: heap_at_def)
qed

lemma at_failed [simp]: "dl_ts (failed_entry c now err e) = dl_ts e" "dl_decision (failed_entry c now err e) = dl_decision e"
  "dl_ref (failed_entry c now err e) = dl_ref e" "dl_attempts (failed_entry c now err e) = dl_attempts e + 1"
  by (simp_all add: failed_entry_def)

lemma remove_equal_filter:
  assumes "inj_on (\<lambda>q. dl_ts (heap_at h q)) (set rs)" "distinct rs" "r \<in> set rs" "dl_ts e = dl_ts (heap_at h r)" "same_content (heap_at h r) e"
  shows "remove_equal h e rs = filter (\<lambda>q. q \<noteq> r) rs"
  using assms
proof (induction rs)
  case Nil
  then show ?case by simp
next
  case (Cons q qs)
  show ?case
  proof (cases "q = r")
    case True
    then have "r \<notin> set qs" using Cons.prems(2) by simp
    then have "filter (\<lambda>q. q \<noteq> r) qs = qs" by (metis (mono_tags, lifting) filter_True)
    then show ?thesis using True Cons.prems(5) by simp
  next
    case False
    then have "dl_ts (heap_at h q) \<noteq> dl_ts (heap_at h r)"
      using Cons.prems(1,3) by (metis inj_on_eq_iff list.set_intros(1))
    then have "\<not> same_content (heap_at h q) e" using Cons.prems(4) by (auto simp: same_content_def dest: arg_cong[where f = dl_ts])
    moreover have "inj_on (\<lambda>q. dl_ts (heap_at h q)) (set qs)" using Cons.prems(1) by (rule inj_on_subset) auto
    ultimately show ?thesis using False Cons by simp
  qed
qed

lemma store_again_id:
  assumes "inj_on (\<lambda>q. dl_ts (heap_at h q)) (set rs)" "r \<in> set rs"
  shows "store_again h r rs = rs"
  using assms
proof (induction rs)
  case Nil
  then show ?case by simp
next
  case (Cons q qs)
  show ?case
  proof (cases "q = r")
    case False
    then have "dl_ts (heap_at h q) \<noteq> dl_ts (heap_at h r)"
      using Cons.prems by (metis inj_on_eq_iff list.set_intros(1))
    moreover have "inj_on (\<lambda>q. dl_ts (heap_at h q)) (set qs)" using Cons.prems(1) by (rule inj_on_subset) auto
    ultimately show ?thesis using False Cons by simp
  qed simp
qed

lemma same_content_refl [simp]: "same_content e e"
  by (simp add: same_content_def)

end
