(* ===== verification/Orch_Dlq_Props.thy ===== *)
theory Orch_Dlq_Props
  imports Orch_Dlq
begin

text \<open>
  What a retry of the dead letter queue does: exact as long as no two entries carry the same
  millisecond, lossy when they do, and idle for the entries the cooldown gate puts there.
\<close>

section \<open>One retry\<close>

text \<open>What becomes of the entries of the queue, each for itself.\<close>

fun settled :: "dlq_config \<Rightarrow> rat \<Rightarrow> (nat \<Rightarrow> string option) \<Rightarrow> nat \<Rightarrow> dlq_entry list \<Rightarrow> dlq_entry list" where
  "settled c now res i [] = []"
| "settled c now res i (e # es) =
     (if \<not> is_due now e then [e]
      else case res i of
             None \<Rightarrow> []
           | Some err \<Rightarrow> (if dl_attempts e + 1 \<ge> dc_max_retries c then [] else [failed_entry c now err e]))
     @ settled c now res (Suc i) es"

definition separate :: "heap \<Rightarrow> nat list \<Rightarrow> bool" where
  "separate h rs \<longleftrightarrow> distinct rs \<and> inj_on (\<lambda>q. dl_ts (heap_at h q)) (set rs)"

lemma separate_drop: "separate h (ds @ r # ps) \<Longrightarrow> separate h (ds @ ps)"
  by (auto simp: separate_def intro: inj_on_subset)

lemma separate_update: "separate h rs \<Longrightarrow> dl_ts e = dl_ts (heap_at h r) \<Longrightarrow> separate (AList.update r e h) rs"
proof -
  assume sep: "separate h rs" and ts: "dl_ts e = dl_ts (heap_at h r)"
  have "(\<lambda>q. dl_ts (heap_at (AList.update r e h) q)) = (\<lambda>q. dl_ts (heap_at h q))"
    using ts by auto
  then show ?thesis using sep by (simp only: separate_def)
qed

lemma filter_out: "distinct (ds @ r # ps) \<Longrightarrow> filter (\<lambda>q. q \<noteq> r) (ds @ r # ps) = ds @ ps"
proof -
  assume d: "distinct (ds @ r # ps)"
  have "filter (\<lambda>q. q \<noteq> r) ds = ds" "filter (\<lambda>q. q \<noteq> r) ps = ps"
    using d by (auto simp: filter_id_conv)
  then show ?thesis by simp
qed

lemma remove_separate:
  assumes "separate h (ds @ r # ps)" "dl_ts e = dl_ts (heap_at h r)" "same_content (heap_at h r) e"
  shows "remove_equal h e (ds @ r # ps) = ds @ ps"
proof -
  have d: "distinct (ds @ r # ps)" and i: "inj_on (\<lambda>q. dl_ts (heap_at h q)) (set (ds @ r # ps))"
    using assms(1) by (simp_all only: separate_def)
  have "remove_equal h e (ds @ r # ps) = filter (\<lambda>q. q \<noteq> r) (ds @ r # ps)"
    by (rule remove_equal_filter[OF i d _ assms(2,3)]) simp
  then show ?thesis by (simp only: filter_out[OF d])
qed

lemma unchanged_elsewhere: "r \<notin> set rs \<Longrightarrow> map (heap_at (AList.update r e h)) rs = map (heap_at h) rs"
  by (rule map_cong) auto

lemma retry_entries_settled:
  assumes "separate h (ds @ ps)"
  shows "case retry_entries c now res i ps (ds @ ps, h) of (rs, h') \<Rightarrow>
    map (heap_at h') rs = map (heap_at h) ds @ settled c now res i (map (heap_at h) ps)"
  using assms
proof (induction ps arbitrary: i ds h)
  case Nil
  then show ?case by simp
next
  case (Cons r ps)
  let ?e = "heap_at h r"
  have sep: "separate h (ds @ ps)" using Cons.prems by (rule separate_drop)
  have out: "r \<notin> set ds" "r \<notin> set ps" using Cons.prems by (auto simp: separate_def)
  show ?case
  proof (cases "is_due now ?e")
    case False
    then show ?thesis using Cons.IH[of h "ds @ [r]" "Suc i"] Cons.prems by (simp add: retry_entry_def)
  next
    case due: True
    show ?thesis
    proof (cases "res i")
      case None
      then show ?thesis
        using due Cons.IH[OF sep, of "Suc i"] remove_separate[OF Cons.prems refl] by (simp add: retry_entry_def)
    next
      case (Some err)
      let ?e' = "failed_entry c now err ?e"
      let ?h' = "AList.update r ?e' h"
      have sep': "separate ?h' (ds @ r # ps)" using Cons.prems by (rule separate_update) simp
      have again: "store_again ?h' r (ds @ r # ps) = ds @ r # ps"
        using sep' unfolding separate_def by (elim conjE, intro store_again_id) simp_all
      have gone: "remove_equal ?h' ?e' (ds @ r # ps) = ds @ ps"
        using sep' by (rule remove_separate) simp_all
      have same: "map (heap_at ?h') ds = map (heap_at h) ds" "map (heap_at ?h') ps = map (heap_at h) ps"
        using out unchanged_elsewhere by blast+
      show ?thesis
      proof (cases "dl_attempts ?e + 1 \<ge> dc_max_retries c")
        case True
        then show ?thesis
          using due Some again gone Cons.IH[OF separate_drop[OF sep'], of "Suc i", unfolded same]
          by (simp add: retry_entry_def Let_def)
      next
        case False
        have "separate ?h' ((ds @ [r]) @ ps)" using sep' by (simp only: append.assoc append.simps)
        from Cons.IH[OF this, of "Suc i", unfolded map_append same] show ?thesis
          using False due Some again by (simp add: retry_entry_def Let_def)
      qed
    qed
  qed
qed

lemma retry_settled:
  assumes "distinct (map dl_ref (oc_persist_dlq s))" "distinct (map dl_ts (oc_persist_dlq s))"
  shows "oc_persist_dlq (dlq_retry_once c now res s) = settled c now res 0 (oc_persist_dlq s)"
proof -
  let ?q = "oc_persist_dlq s" let ?h = "map (\<lambda>e. (dl_ref e, e)) (oc_persist_dlq s)"
  have at_q: "map (heap_at ?h) (map dl_ref ?q) = ?q"
    using at_entry[OF assms(1)] by (simp add: map_idI)
  have "inj_on (\<lambda>r. dl_ts (heap_at ?h r)) (set (map dl_ref ?q))"
    using assms(2) at_entry[OF assms(1)] by (auto simp: inj_on_def distinct_map)
  then have "separate ?h ([] @ map dl_ref ?q)" using assms(1) by (simp add: separate_def)
  from retry_entries_settled[OF this, of c now res 0]
  have "case retry_entries c now res 0 (map dl_ref ?q) (map dl_ref ?q, ?h) of (rs, h') \<Rightarrow>
      map (heap_at h') rs = settled c now res 0 ?q"
    by (simp only: append_Nil at_q list.map)
  then show ?thesis by (simp add: dlq_retry_once_def Let_def split: prod.splits)
qed

lemma settled_entries:
  "e \<in> set (settled c now res i es) \<Longrightarrow> (\<exists>e0\<in>set es. e = e0 \<or> (\<exists>err. e = failed_entry c now err e0)) \<and>
     (e \<in> set es \<and> \<not> is_due now e \<or> dl_attempts e < dc_max_retries c)"
  by (induction es arbitrary: i) (auto split: if_splits option.splits)

text \<open>C20: when no two entries of the queue carry the same millisecond, a retry treats every
  entry for itself: an entry that is not due stays as it is, one whose decision is stored leaves, one
  that fails stays with one more attempt and a later time, and leaves at the last attempt. The
  order is kept, and an entry that stays is a decision that was there.\<close>

theorem dlq_retry_exact:
  assumes "distinct (map dl_ref (oc_persist_dlq s))" "distinct (map dl_ts (oc_persist_dlq s))"
  shows "oc_persist_dlq (dlq_retry_once c now res s) = settled c now res 0 (oc_persist_dlq s) \<and>
    dl_decision ` set (oc_persist_dlq (dlq_retry_once c now res s)) \<subseteq> dl_decision ` set (oc_persist_dlq s) \<and>
    ((\<forall>e\<in>set (oc_persist_dlq s). dl_attempts e < dc_max_retries c) \<longrightarrow>
     (\<forall>e\<in>set (oc_persist_dlq (dlq_retry_once c now res s)). dl_attempts e < dc_max_retries c))"
proof (intro conjI impI ballI subsetI)
  show "oc_persist_dlq (dlq_retry_once c now res s) = settled c now res 0 (oc_persist_dlq s)"
    by (rule retry_settled[OF assms])
next
  fix d assume "d \<in> dl_decision ` set (oc_persist_dlq (dlq_retry_once c now res s))"
  then obtain e where e: "e \<in> set (settled c now res 0 (oc_persist_dlq s))" "d = dl_decision e"
    unfolding retry_settled[OF assms] by blast
  from settled_entries[OF e(1)] obtain e0 err where "e0 \<in> set (oc_persist_dlq s)" "e = e0 \<or> e = failed_entry c now err e0"
    by blast
  then show "d \<in> dl_decision ` set (oc_persist_dlq s)" using e(2) by auto
next
  fix e assume "\<forall>e\<in>set (oc_persist_dlq s). dl_attempts e < dc_max_retries c"
    "e \<in> set (oc_persist_dlq (dlq_retry_once c now res s))"
  then show "dl_attempts e < dc_max_retries c" unfolding retry_settled[OF assms] using settled_entries by blast
qed

definition letter :: "nat \<Rightarrow> int \<Rightarrow> rat \<Rightarrow> string \<Rightarrow> dlq_entry" where
  "letter r ts next symbol = \<lparr>dl_ref = r, dl_decision = [(''symbol'', VStr symbol)], dl_error = ''db'', dl_ts = ts,
     dl_attempts = 0, dl_next_attempt_ts = next\<rparr>"

definition with_queue :: "dlq_entry list \<Rightarrow> orchestrator" where
  "with_queue q = (orch_init False)\<lparr>oc_persist_dlq := q, oc_next_ref := length q\<rparr>"

theorem dlq_retry_exact_witness:
  "map dl_attempts (oc_persist_dlq (dlq_retry_once default_dlq_config 10 (\<lambda>i. if i = 0 then None else Some ''down'')
     (with_queue [letter 0 1 0 ''EURUSD'', letter 1 2 0 ''GBPUSD'', letter 2 3 99 ''USDJPY'']))) = [1, 0]"
  using dlq_retry_exact[of "with_queue [letter 0 1 0 ''EURUSD'', letter 1 2 0 ''GBPUSD'', letter 2 3 99 ''USDJPY'']"
      default_dlq_config 10 "\<lambda>i. if i = 0 then None else Some ''down''"]
  by (simp add: with_queue_def letter_def default_dlq_config_def is_due_def failed_entry_def)

text \<open>Two entries of the same millisecond: when the retry of the second one fails,
  it is written over the first one as well, and the decision of the first is lost.\<close>

theorem dead_letter_lost:
  assumes "oc_persist_dlq s = [a, b]" "dl_ref a \<noteq> dl_ref b" "dl_ts a = dl_ts b"
    "\<not> is_due now a" "is_due now b" "res 1 = Some err" "dl_attempts b + 1 < dc_max_retries c"
  shows "oc_persist_dlq (dlq_retry_once c now res s) = [failed_entry c now err b, failed_entry c now err b]"
  using assms
  by (simp add: dlq_retry_once_def Let_def retry_entry_def heap_at_def map_of_eq_Some_iff)

theorem dead_letter_lost_witness:
  "map dl_decision (oc_persist_dlq (dlq_retry_once default_dlq_config 10 (\<lambda>i. Some ''down'')
     (with_queue [letter 0 1 99 ''EURUSD'', letter 1 1 0 ''GBPUSD'']))) =
   [[(''symbol'', VStr ''GBPUSD'')], [(''symbol'', VStr ''GBPUSD'')]]"
  using dead_letter_lost[of "with_queue [letter 0 1 99 ''EURUSD'', letter 1 1 0 ''GBPUSD'']"
      "letter 0 1 99 ''EURUSD''" "letter 1 1 0 ''GBPUSD''" 10 "\<lambda>i. Some ''down''" "''down''" default_dlq_config]
  by (simp add: with_queue_def letter_def default_dlq_config_def is_due_def failed_entry_def)

text \<open>The delay doubles with every attempt up to the maximum, and never shrinks.\<close>

theorem backoff_bounds:
  assumes "0 \<le> dc_base_delay c" "dc_base_delay c \<le> dc_max_delay c" "1 \<le> n" "n \<le> m"
  shows "dc_base_delay c \<le> backoff c n \<and> backoff c n \<le> backoff c m \<and> backoff c m \<le> dc_max_delay c"
proof -
  have p: "(1::rat) \<le> 2 ^ nat (n - 1)" "(2::rat) ^ nat (n - 1) \<le> 2 ^ nat (m - 1)"
    using assms(4) by (simp_all add: power_increasing)
  have "dc_base_delay c * 1 \<le> dc_base_delay c * 2 ^ nat (n - 1)"
    "dc_base_delay c * 2 ^ nat (n - 1) \<le> dc_base_delay c * 2 ^ nat (m - 1)"
    using p assms(1) by (simp_all only: mult_left_mono)
  then show ?thesis using assms(2) unfolding backoff_def by (simp add: min_def)
qed

section \<open>Deferred decisions\<close>

lemma skip_not_due:
  "\<forall>e\<in>set (map (heap_at h) ps). \<not> is_due now e \<Longrightarrow> retry_entries c now res i ps (rs, h) = (rs, h)"
  by (induction ps arbitrary: i) (simp_all add: retry_entry_def)

text \<open>An entry that the cooldown gate puts into the queue carries its time in
  milliseconds, the retry compares with seconds. Until the clock shows that number of seconds
  the retry leaves the queue as it is: at the moment the cooldown ends nothing happens.\<close>

theorem deferred_never_retried:
  assumes "distinct (map dl_ref (oc_persist_dlq s))"
    "\<forall>e\<in>set (oc_persist_dlq s). \<exists>l now snap o1 r a. cooldown_check l now snap o1 = Defer r a (e\<lparr>dl_ref := 0\<rparr>) \<and> now_s \<le> of_int now"
  shows "dlq_retry_once c now_s res s = s"
proof -
  let ?q = "oc_persist_dlq s"
  have late: "\<not> is_due now_s e" if e: "e \<in> set ?q" for e
  proof -
    obtain l now snap o1 r a where *: "cooldown_check l now snap o1 = Defer r a (e\<lparr>dl_ref := 0\<rparr>)" "now_s \<le> of_int now"
      using assms(2) e by blast
    obtain n where n: "n > now" "e\<lparr>dl_ref := 0\<rparr> = \<lparr>dl_ref = 0, dl_decision = snap, dl_error = ''policy_defer'', dl_ts = now,
        dl_attempts = 0, dl_next_attempt_ts = of_int n\<rparr>"
      using *(1) by (auto simp: cooldown_check_def Let_def split: option.splits if_splits)
    have "dl_next_attempt_ts e = of_int n" using arg_cong[OF n(2), of dl_next_attempt_ts] by simp
    moreover have "now_s < of_int n" using n(1) *(2) by (meson less_le_trans of_int_less_iff order_le_less_trans)
    ultimately show ?thesis by (simp add: is_due_def)
  qed
  have "map (heap_at (map (\<lambda>e. (dl_ref e, e)) ?q)) (map dl_ref ?q) = ?q"
    using at_entry[OF assms(1)] by (simp add: map_idI)
  then show ?thesis
    using skip_not_due[of "map (\<lambda>e. (dl_ref e, e)) ?q" "map dl_ref ?q" now_s c res 0 "map dl_ref ?q"] late
    by (simp add: dlq_retry_once_def Let_def)
qed

definition plain_libs :: orch_libs where
  "plain_libs = \<lparr>ol_parse_int = (\<lambda>_. None), ol_parse_float = (\<lambda>_. None), ol_str = (\<lambda>_. []), ol_json_file = (\<lambda>_. None)\<rparr>"

text \<open>A cooldown of one second from 1700000000000, and the queue two hours later.\<close>

definition cooled_snapshot :: pydict where
  "cooled_snapshot = [(''id'', VStr ''d1''), (''cooldown_until'', VInt 1700000001000)]"

theorem deferred_never_retried_witness:
  "\<exists>s. s = snd (snd (pre_reasoning_policy_check plain_libs 1700000000000 cooled_snapshot (orch_init False))) \<and>
     oc_persist_dlq s \<noteq> [] \<and> dlq_retry_once default_dlq_config 1700007200 (\<lambda>_. None) s = s"
proof -
  let ?s = "snd (snd (pre_reasoning_policy_check plain_libs 1700000000000 cooled_snapshot (orch_init False)))"
  have check: "cooldown_check plain_libs 1700000000000 cooled_snapshot (orch_init False) =
    Defer [(''result'', VStr ''defer''), (''reason'', VStr ''cooldown''), (''next_attempt_ts'', VInt 1700000001000)]
      [(''ts'', VInt 1700000000000), (''action'', VStr ''defer''), (''reason'', VStr ''cooldown''),
       (''next_attempt_ts'', VInt 1700000001000), (''id'', VStr ''d1'')]
      \<lparr>dl_ref = 0, dl_decision = cooled_snapshot, dl_error = ''policy_defer'', dl_ts = 1700000000000, dl_attempts = 0,
       dl_next_attempt_ts = 1700000001000\<rparr>" by code_simp
  have q: "oc_persist_dlq ?s = [\<lparr>dl_ref = 0, dl_decision = cooled_snapshot, dl_error = ''policy_defer'', dl_ts = 1700000000000,
      dl_attempts = 0, dl_next_attempt_ts = 1700000001000\<rparr>]" by code_simp
  have "dlq_retry_once default_dlq_config 1700007200 (\<lambda>_. None) ?s = ?s"
  proof (rule deferred_never_retried)
    show "distinct (map dl_ref (oc_persist_dlq ?s))" unfolding q by simp
    show "\<forall>e\<in>set (oc_persist_dlq ?s). \<exists>l now snap o1 r a.
        cooldown_check l now snap o1 = Defer r a (e\<lparr>dl_ref := 0\<rparr>) \<and> 1700007200 \<le> (of_int now :: rat)"
      unfolding q using check by (fastforce intro: exI[of _ plain_libs] exI[of _ 1700000000000])
  qed
  then show ?thesis using q by (metis list.distinct(1))
qed

end
