(* ===== verification/Orch_Props.thy ===== *)
theory Orch_Props
  imports Orch_Events Orch_Dlq_Props
begin

text \<open>
  What the policy gates, the processing of a decision and the event loop guarantee together: the
  books the gates keep, which verdicts have an effect, what normalisation means, and who gets
  which answer.
\<close>

section \<open>The books of the gates\<close>

text \<open>Every veto and every deferral is one entry of the audit trail, and the objects of the queue are
  different ones.\<close>

definition orch_ok :: "orchestrator \<Rightarrow> bool" where
  "orch_ok o1 \<longleftrightarrow> pc_veto (oc_counters o1) + pc_defer (oc_counters o1) = int (length (oc_policy_audit o1)) \<and>
     distinct (map dl_ref (oc_persist_dlq o1)) \<and> (\<forall>e\<in>set (oc_persist_dlq o1). dl_ref e < oc_next_ref o1)"

lemma orch_ok_init: "orch_ok (orch_init p)"
  by (simp add: orch_ok_def orch_init_def)

lemma enqueue_ok: "orch_ok o1 \<Longrightarrow> orch_ok (enqueue d o1)"
  by (auto simp: orch_ok_def enqueue_def)

lemma enqueue_frame [simp]:
  "oc_policy_audit (enqueue d o1) = oc_policy_audit o1" "oc_db (enqueue d o1) = oc_db o1"
  "oc_counters (enqueue d o1) = oc_counters o1"
  by (simp_all add: enqueue_def)

lemma verdict_ok: "orch_ok o1 \<Longrightarrow> orch_ok (snd (apply_verdict v o1))"
  by (cases v) (auto simp: orch_ok_def audit_def count_veto_def count_defer_def enqueue_def)

lemma verdict_audit: "prefix (oc_policy_audit o1) (oc_policy_audit (snd (apply_verdict v o1)))"
  by (cases v) (auto simp: audit_def count_veto_def count_defer_def enqueue_def)

lemma verdict_db [simp]: "oc_db (snd (apply_verdict v o1)) = oc_db o1"
  by (cases v) (auto simp: audit_def count_veto_def count_defer_def enqueue_def)

lemma ok_allowlist [simp]: "orch_ok (o1\<lparr>oc_allowlist := a\<rparr>) = orch_ok o1"
  by (simp add: orch_ok_def)

lemma ok_db [simp]: "orch_ok (o1\<lparr>oc_db := t\<rparr>) = orch_ok o1"
  by (simp add: orch_ok_def)

lemma count_pass_ok [simp]: "orch_ok (count_pass o1) = orch_ok o1"
  by (simp add: orch_ok_def count_pass_def)

lemma count_pass_frame [simp]: "oc_policy_audit (count_pass o1) = oc_policy_audit o1" "oc_db (count_pass o1) = oc_db o1"
  by (simp_all add: count_pass_def)

definition gate_step :: "orchestrator \<Rightarrow> orchestrator \<Rightarrow> bool" where
  "gate_step o1 o2 \<longleftrightarrow> (orch_ok o1 \<longrightarrow> orch_ok o2) \<and> prefix (oc_policy_audit o1) (oc_policy_audit o2)"

lemma gate_step_refl [simp]: "gate_step o1 o1"
  by (simp add: gate_step_def)

lemma gate_step_trans: "gate_step o1 o2 \<Longrightarrow> gate_step o2 o3 \<Longrightarrow> gate_step o1 o3"
  by (auto simp: gate_step_def intro: prefix_order.trans)

lemma pre_shape:
  assumes "pre_reasoning_policy_check l now snap o1 = (p, snap', o2)"
  obtains "o2 = o1" | v a where "o2 = snd (apply_verdict v (o1\<lparr>oc_allowlist := a\<rparr>))"
  | v a where "o2 = count_pass (snd (apply_verdict v (o1\<lparr>oc_allowlist := a\<rparr>)))"
proof (cases "oc_permissive o1")
  case True
  then show ?thesis using that(1) assms by (simp add: pre_reasoning_policy_check_def)
next
  case False
  define a where "a = consult_allowlist l o1"
  define o0 where "o0 = o1\<lparr>oc_allowlist := a\<rparr>"
  define v where "v = first_verdict (map (\<lambda>c. c l now snap o0) static_checks)"
  obtain m s where m: "(if v = Go then memory_gates l snap o0 else (v, snap)) = (m, s)" by fastforce
  obtain r o3 where r: "apply_verdict m o0 = (r, o3)" by fastforce
  have "pre_reasoning_policy_check l now snap o1 =
      (case r of Some x \<Rightarrow> (x, s, o3) | None \<Rightarrow> (result_of ''pass'' @ [(''details'', VDict pass_details)], s, count_pass o3))"
    using False m r unfolding pre_reasoning_policy_check_def Let_def a_def[symmetric] o0_def[symmetric] v_def[symmetric]
    by (simp split: option.split)
  moreover have "o3 = snd (apply_verdict m (o1\<lparr>oc_allowlist := a\<rparr>))" using r unfolding o0_def by simp
  ultimately show ?thesis using that(2,3) assms by (cases r) auto
qed

lemma verdict_step: "gate_step o1 (snd (apply_verdict v o1))"
  by (simp add: gate_step_def verdict_ok verdict_audit)

lemma allowlist_step: "gate_step o1 (o1\<lparr>oc_allowlist := a\<rparr>)"
  by (simp add: gate_step_def)

lemma count_pass_step: "gate_step o1 (count_pass o1)"
  by (simp add: gate_step_def)

lemma pre_step: "pre_reasoning_policy_check l now snap o1 = (p, snap', o2) \<Longrightarrow> gate_step o1 o2 \<and> oc_db o2 = oc_db o1"
  using gate_step_trans[OF allowlist_step verdict_step] gate_step_trans[OF gate_step_trans[OF allowlist_step verdict_step] count_pass_step]
  by (elim pre_shape) simp_all

lemma post_step: "post_reasoning_policy_check l now out o1 = (p, o2) \<Longrightarrow> gate_step o1 o2 \<and> oc_db o2 = oc_db o1"
  by (auto simp: post_reasoning_policy_check_def Let_def gate_step_def orch_ok_def audit_def count_veto_def count_pass_def
      split: if_splits)

lemma paper_step: "gate_step o1 (snd (execute_paper_trade_if_enabled l pe d o1))"
  by (auto simp: execute_paper_trade_if_enabled_def Let_def gate_step_def split: pyval.split option.split outcome_db.split sum.split prod.split)

lemma persist_step: "gate_step o1 (snd (persist env now d o1))"
  by (auto simp: persist_def gate_step_def enqueue_ok split: sum.split)

lemma process_step: "gate_step o1 (snd (process_decision env now d p cs o1))"
proof -
  obtain r d' o2 where pre: "pre_reasoning_policy_check (de_libs env) (ms_of now) d o1 = (r, d', o2)"
    using prod_cases3 by blast
  have 1: "gate_step o1 o2" using pre_step[OF pre] by simp
  show ?thesis
  proof (cases "normalize_decision (de_libs env) (de_parse_iso env) now d'")
    case None
    then show ?thesis using pre 1 by (simp add: process_decision_def)
  next
    case (Some d0)
    obtain r3 o3 where post: "post_reasoning_policy_check (de_libs env) (ms_of now) d0 o2 = (r3, o3)" by fastforce
    obtain r4 o4 where paper: "execute_paper_trade_if_enabled (de_libs env) (de_paper env) d0 o3 = (r4, o4)" by fastforce
    have 2: "gate_step o1 o4"
      using gate_step_trans[OF gate_step_trans[OF 1]] post_step[OF post] paper_step[of o3 "de_libs env" "de_paper env" d0] paper
      by auto
    then have "gate_step o1 (snd (persist env now x o4))" for x using persist_step gate_step_trans by blast
    then have "persist env now x o4 = (i, o5) \<Longrightarrow> gate_step o1 o5" for x i o5 by (metis snd_conv)
    then show ?thesis using pre Some post paper 2
      by (auto simp: process_decision_def Let_def split: option.split prod.split)
  qed
qed

lemma decision_event_step: "gate_step o1 (snd (handle_decision_event env now ev o1))"
proof -
  obtain p d o2 where pre: "pre_reasoning_policy_check (de_libs (ee_decision env)) (ms_of now) (oe_payload ev) o1 = (p, d, o2)"
    using prod_cases3 by blast
  have 1: "gate_step o1 o2" using pre_step[OF pre] by simp
  then have "gate_step o1 (snd (process_decision (ee_decision env) now d True None o2))"
    using process_step gate_step_trans by blast
  then show ?thesis using pre 1
    by (auto simp: handle_decision_event_def Let_def split: option.split sum.split prod.split)
qed

text \<open>C15: through any sequence of events, with any settings of the gates, databases
  and answers, every veto and every deferral of a gate leaves exactly one entry in the audit
  trail, no entry is changed or removed, and no two entries of the dead letter queue are the same
  object.\<close>

theorem policy_books_balance:
  "let s = fold (\<lambda>(env, now, ev) o1. snd (handle_event env now ev o1)) calls (orch_init permissive) in
   orch_ok s \<and> pc_veto (oc_counters s) + pc_defer (oc_counters s) = int (length (oc_policy_audit s)) \<and>
   (let s' = fold (\<lambda>(env, now, ev) o1. snd (handle_event env now ev o1)) later s in
    prefix (oc_policy_audit s) (oc_policy_audit s') \<and> orch_ok s')"
proof -
  have step: "gate_step o1 (snd (handle_event env now ev o1))" for env now ev o1
    using decision_event_step by (simp add: handle_event_def)
  have run: "gate_step o1 (fold (\<lambda>(env, now, ev) o1. snd (handle_event env now ev o1)) cs o1)" for cs o1
    by (induction cs arbitrary: o1) (auto intro: gate_step_trans step)
  show ?thesis
    using run[of "orch_init permissive" calls] run[of "fold (\<lambda>(env, now, ev) o1. snd (handle_event env now ev o1)) calls (orch_init permissive)" later]
    by (auto simp: Let_def gate_step_def orch_ok_init) (auto simp: orch_ok_def orch_ok_init)
qed

end
