(* ===== verification/Orch_Gate_Props.thy ===== *)
theory Orch_Gate_Props
  imports Orch_Props
begin

text \<open>
  Which verdicts of the policy gates have an effect, what the gates decide without any
  configuration, and three settings that do not do what they are for.
\<close>

section \<open>The gate without configuration\<close>

text \<open>The specification: the markers of a snapshot, in the order of the code. A marker that is no number
  counts as absent, and a malformed exposure switches the limit off.\<close>

definition marker_verdict :: "orch_libs \<Rightarrow> int \<Rightarrow> pydict \<Rightarrow> string \<times> string" where
  "marker_verdict l now snap =
     (if truthy (dget ''killzone'' snap VNone) then (''veto'', ''killzone'')
      else if dget ''regime'' snap VNone = VStr ''restricted'' then (''veto'', ''regime_restricted'')
      else if (case cooldown_of l (VDict snap) of None \<Rightarrow> False | Some n \<Rightarrow> n \<noteq> 0 \<and> n > now) then (''defer'', ''cooldown'')
      else if (case exposure_of l (VDict snap) of None \<Rightarrow> False | Some (x, y) \<Rightarrow> y \<noteq> 0 \<and> x > y)
           then (''veto'', ''risk_limit_exceeded'')
      else (''pass'', []))"

definition unconfigured :: "orchestrator \<Rightarrow> bool" where
  "unconfigured o1 \<longleftrightarrow> \<not> oc_permissive o1 \<and> oc_constraints o1 = [] \<and> oc_policy_config o1 = [] \<and>
     oc_metrics_snapshot o1 = [] \<and> oc_db o1 = No_Db"

lemma policy_default:
  "get_policy l [] name snap = (case default_backend l name snap of None \<Rightarrow> VDict [] | Some d \<Rightarrow> if truthy d then d else VDict [])"
  by (simp add: get_policy_def config_backend_def or_else_def dget_def split: option.split)

lemma dget_default: "truthy (dget k d (VBool False)) = truthy (dget k d VNone)"
  by (simp add: dget_def split: option.split)

lemma or_else_zero: "or_else (dget k d (VInt 0)) (VInt 0) = or_else (dget k d VNone) (VInt 0)"
  by (simp add: dget_def or_else_def split: option.split)

lemma to_int_or_zero: "to_int l (or_else (VInt n) (VInt 0)) = Some n"
  by (simp add: to_int_def or_else_def)

lemma to_float_or_zero: "to_float l (or_else (VFloat x) (VInt 0)) = Some x"
  by (simp add: to_float_def or_else_def)

lemma killzone_markers:
  "oc_policy_config o1 = [] \<Longrightarrow> killzone_check l now snap o1 =
     (if truthy (dget ''killzone'' snap VNone) then Veto (veto_result ''killzone'') (veto_entry now ''killzone'' [] snap) else Go)"
  by (simp add: killzone_check_def policy_default default_backend_def vget_def dget_default Let_def)
    (simp add: dget_def)

lemma regime_markers:
  "oc_policy_config o1 = [] \<Longrightarrow> regime_check l now snap o1 =
     (if dget ''regime'' snap VNone = VStr ''restricted''
      then Veto (veto_result ''regime_restricted'') (veto_entry now ''regime_restricted'' [] snap) else Go)"
  by (simp add: regime_check_def policy_default default_backend_def vget_def Let_def) (simp add: dget_def)

lemma cooldown_snapshot:
  "cooldown_of l (VDict snap) = to_int l (or_else (dget ''cooldown_until'' snap (VInt 0)) (VInt 0))"
  by (simp add: cooldown_of_def vget_def)

lemma cooldown_number: "cooldown_of l (VDict [(''cooldown_until'', VInt n)]) = Some n" "cooldown_of l (VDict []) = Some 0"
  by (simp_all add: cooldown_of_def vget_def dget_def to_int_def or_else_def)

lemma cooldown_markers:
  assumes "oc_policy_config o1 = []"
  shows "cooldown_of l (get_policy l (oc_policy_config o1) ''cooldown'' snap) =
    (case cooldown_of l (VDict snap) of None \<Rightarrow> Some 0 | Some n \<Rightarrow> Some n)"
proof -
  have "default_backend l ''cooldown'' snap = map_option (\<lambda>n. VDict [(''cooldown_until'', VInt n)]) (cooldown_of l (VDict snap))"
    by (simp add: default_backend_def cooldown_snapshot)
  then show ?thesis unfolding assms policy_default
    by (cases "cooldown_of l (VDict snap)") (simp_all add: cooldown_number)
qed

lemma exposure_snapshot:
  "exposure_of l (VDict snap) =
     do { x \<leftarrow> to_float l (or_else (dget ''exposure'' snap (VInt 0)) (VInt 0));
          y \<leftarrow> to_float l (or_else (dget ''max_exposure'' snap (VInt 0)) (VInt 0)); Some (x, y) }"
  by (simp add: exposure_of_def vget_def)

lemma exposure_number:
  "exposure_of l (VDict [(''exposure'', VFloat x), (''max_exposure'', VFloat y)]) = Some (x, y)"
  "exposure_of l (VDict []) = Some (0, 0)"
  by (simp_all add: exposure_of_def vget_def dget_def to_float_def or_else_def)

lemma exposure_markers:
  assumes "oc_policy_config o1 = []"
  shows "exposure_of l (get_policy l (oc_policy_config o1) ''exposure'' snap) =
    (case exposure_of l (VDict snap) of None \<Rightarrow> Some (0, 0) | Some p \<Rightarrow> Some p)"
proof -
  have "default_backend l ''exposure'' snap =
      map_option (\<lambda>(x, y). VDict [(''exposure'', VFloat x), (''max_exposure'', VFloat y)]) (exposure_of l (VDict snap))"
    by (simp add: default_backend_def exposure_snapshot split: bind_split)
  then show ?thesis unfolding assms policy_default
    by (cases "exposure_of l (VDict snap)") (auto simp: exposure_number)
qed

lemma memory_without_db:
  assumes "unconfigured o1"
  shows "memory_gates l snap o1 = (Go, snap)"
proof -
  have cfg: "load_config k o1 = VDict []" for k using assms by (simp add: unconfigured_def load_config_def dget_def)
  have "lookup_similar_signals k n (oc_db o1) = []" for k n
    using assms by (auto simp: lookup_similar_signals_def query_outcomes_def unconfigured_def)
  then have "memory_result l snap o1 = Some Sim_Pass"
    by (simp add: memory_result_def cfg vget_def dget_def to_int_def to_float_def check_similarity_def)
  moreover have "recall_verdict l snap o1 = Some Go"
    by (simp add: recall_verdict_def cfg vget_def dget_def Let_def)
  ultimately show ?thesis by (simp add: memory_gates_def memory_verdict_def gate_of_def)
qed

lemma outcome_without_metrics: "unconfigured o1 \<Longrightarrow> gate_of (outcome_verdict l snap o1) = Go"
  by (auto simp: unconfigured_def outcome_verdict_def load_config_def dget_def vget_def check_performance_def
      snapshot_key_def gate_of_def Let_def split: bind_split option.split)

text \<open>C18: without any configuration the gate of the strict mode answers by the markers
  of the snapshot, in this order: killzone, restricted regime, a cooldown in the future, an
  exposure above a maximum that is not 0; anything else passes.\<close>

theorem marker_gate_exact:
  assumes "unconfigured o1"
  shows "(let (r, snap', o2) = pre_reasoning_policy_check l now snap o1 in
     (str_of (dget ''result'' r VNone), str_of (dget ''reason'' r VNone)) = marker_verdict l now snap \<and> snap' = snap)"
proof -
  have cfg: "oc_policy_config o1 = []" "load_config ''allowlist'' o1 = VDict []" "\<not> oc_permissive o1"
    using assms by (simp_all add: unconfigured_def load_config_def dget_def)
  have allow: "consult_allowlist l o1 = oc_allowlist o1" "allowlist_check l now snap o1 = Go"
    by (simp_all add: consult_allowlist_def allowlist_check_def cfg vget_def dget_def)
  note simps = killzone_markers[OF cfg(1)] regime_markers[OF cfg(1)] allow(2) outcome_without_metrics[OF assms]
  have cool: "cooldown_check l now snap o1 =
      (case cooldown_of l (VDict snap) of None \<Rightarrow> Go | Some n \<Rightarrow>
         if n \<noteq> 0 \<and> n > now then cooldown_check l now snap o1 else Go)"
    by (simp add: cooldown_check_def cooldown_markers[OF cfg(1)] split: option.split)
  show ?thesis
    using cfg(3)
    by (auto simp: pre_reasoning_policy_check_def Let_def allow(1) static_checks_def simps memory_without_db[OF assms]
        marker_verdict_def cooldown_check_def exposure_check_def cooldown_markers[OF cfg(1)] exposure_markers[OF cfg(1)]
        veto_result_def result_of_def dget_def split: option.split)
qed

theorem marker_gate_exact_witness:
  "marker_verdict plain_libs 5 [(''max_exposure'', VInt 10), (''exposure'', VInt 11)] = (''veto'', ''risk_limit_exceeded'') \<and>
   str_of (dget ''reason'' (fst (pre_reasoning_policy_check plain_libs 5 [(''max_exposure'', VInt 10), (''exposure'', VInt 11)]
     (orch_init False))) VNone) = ''risk_limit_exceeded''"
proof -
  have "unconfigured (orch_init False)" by (simp add: unconfigured_def orch_init_def)
  note m = marker_gate_exact[OF this, of plain_libs 5 "[(''max_exposure'', VInt 10), (''exposure'', VInt 11)]"]
  have "marker_verdict plain_libs 5 [(''max_exposure'', VInt 10), (''exposure'', VInt 11)] = (''veto'', ''risk_limit_exceeded'')"
    by code_simp
  then show ?thesis using m by (auto simp: Let_def split: prod.splits)
qed

section \<open>Settings without effect\<close>

text \<open>A maximum exposure set in the configuration of the orchestrator
  vetoes nothing, whatever the exposure of the snapshot: the exposure it is compared with is read
  from the same configuration.\<close>

theorem configured_limit_never_vetoes:
  assumes "dget ''exposure'' (oc_policy_config o1) VNone = VDict [(''max_exposure'', VFloat m)]" "0 \<le> m"
  shows "exposure_check l now snap o1 = Go"
proof -
  have "get_policy l (oc_policy_config o1) ''exposure'' snap = VDict [(''max_exposure'', VFloat m)]"
    using assms(1) by (simp add: get_policy_def config_backend_def or_else_def)
  then have "exposure_of l (get_policy l (oc_policy_config o1) ''exposure'' snap) = Some (0, m)"
    by (simp add: exposure_of_def vget_def dget_def to_float_def or_else_def)
  then show ?thesis using assms(2) by (simp add: exposure_check_def Let_def)
qed

theorem configured_limit_never_vetoes_witness:
  "exposure_check plain_libs 5 [(''exposure'', VInt 1000000)]
     ((orch_init False)\<lparr>oc_policy_config := [(''exposure'', VDict [(''max_exposure'', VFloat 10)])]\<rparr>) = Go"
  by (rule configured_limit_never_vetoes[of _ 10]) (simp_all add: dget_def)

text \<open>The memory gate looks for trades whose signal type is the model of the
  snapshot. When no trade has such a signal type the gate lets everything pass, however the
  trades of the snapshot's own signal type ended.\<close>

theorem memory_asks_for_model:
  assumes "oc_db o1 = Db table" "\<forall>r\<in>set table. VStr (or_signal_type r) \<noteq> dget ''model'' snap VNone"
    "load_config ''memory_veto'' o1 = VDict []"
  shows "memory_result l snap o1 = Some Sim_Pass"
proof -
  have sub: "set (get_outcomes_by_signal_type s t n m ss dr table) \<subseteq> {r \<in> set table. or_signal_type r = t}" for s t n m ss dr
    by (auto simp: get_outcomes_by_signal_type_def newest_by_def dest: in_set_takeD)
  have "lookup_similar_signals (snapshot_key snap) n (oc_db o1) = []" for n
  proof (cases "dget ''model'' snap VNone")
    case (VStr t)
    have empty: "{r \<in> set table. or_signal_type r = t} = {}" using assms(2) unfolding VStr by auto
    have "get_outcomes_by_signal_type s t n m ss dr table = []" for s n m ss dr
      using sub[of s t n m ss dr] unfolding empty by simp
    then show ?thesis
      by (auto simp: lookup_similar_signals_def query_outcomes_def snapshot_key_def assms(1) VStr opt_text_def split: pyval.splits)
  qed (auto simp: lookup_similar_signals_def query_outcomes_def snapshot_key_def assms(1) split: pyval.splits)
  then show ?thesis
    by (simp add: memory_result_def assms(3) vget_def dget_def to_int_def to_float_def check_similarity_def)
qed

definition losing_trade :: decision_outcome where
  "losing_trade = \<lparr>or_symbol = ''EURUSD'', or_timeframe = ''1h'', or_signal_type = ''bos'', or_pnl = -50,
     or_outcome = ''loss'', or_closed_at = 0, do_id = ''o1'', do_decision_id = ''d0'', do_entry_price = 1,
     do_exit_price = 1, do_exit_reason = ''sl'', do_model = None, do_session = None, do_direction = None,
     do_r_multiple = Some (-1), do_created_at = 0\<rparr>"

theorem memory_asks_for_model_witness:
  "memory_result plain_libs [(''symbol'', VStr ''EURUSD''), (''signal_type'', VStr ''bos''), (''model'', VStr ''m'')]
     ((orch_init False)\<lparr>oc_db := Db [losing_trade]\<rparr>) = Some Sim_Pass"
  by (rule memory_asks_for_model[of _ "[losing_trade]"]) (auto simp: losing_trade_def dget_def load_config_def orch_init_def)

section \<open>Vetoes and the processing of a decision\<close>

definition keeps_snapshot :: "decision_env \<Rightarrow> time \<Rightarrow> pydict \<Rightarrow> orchestrator \<Rightarrow> bool" where
  "keeps_snapshot env now d o1 \<longleftrightarrow> fst (snd (pre_reasoning_policy_check (de_libs env) (ms_of now) d o1)) = d"

lemma process_result:
  "keeps_snapshot env now d o1 \<Longrightarrow> fst (process_decision env now d p cs o1) =
     (case normalize_decision (de_libs env) (de_parse_iso env) now d of
        None \<Rightarrow> None
      | Some d0 \<Rightarrow>
          (let d1 = (case de_shadow env d0 of None \<Rightarrow> d0 | Some v \<Rightarrow> AList.update ''_shadow_policy_result'' v d0) in
           case compute_dedup_key (de_libs env) (de_dedup_window env) now d1 of
             None \<Rightarrow> None
           | Some k \<Rightarrow>
              (let skipped = is_duplicate env k;
                   dec_id = (if p then (case de_insert env d1 of Inr i \<Rightarrow> Some i | Inl _ \<Rightarrow> None) else None);
                   routed = (case cs of
                     None \<Rightarrow> get_routing_for_decision (de_libs env) now (de_routing_overrides env) (de_routing_rules env) d1
                   | Some ch \<Rightarrow> ch) in
               if cs = None \<and> \<not> list_all py_hashable (list_of (dget ''tags'' d1 VNone)) then None
               else Some \<lparr>dr_id = dec_id, dr_skipped = skipped, dr_notify_results =
                 (if is_quiet_hours (de_libs env) (de_quiet_hours env) now \<and> \<not> truthy (dget ''urgent'' d1 (VBool False))
                  then update_all (map (\<lambda>c. (c, not_ok [(''skipped'', VBool True), (''reason'', VStr ''quiet_hours'')])) routed) []
                  else notify_channels env d1 dec_id skipped routed)\<rparr>)))"
proof -
  assume keep: "keeps_snapshot env now d o1"
  obtain r d' o2 where pre: "pre_reasoning_policy_check (de_libs env) (ms_of now) d o1 = (r, d', o2)"
    using prod_cases3 by blast
  have d': "d' = d" using keep pre by (simp add: keeps_snapshot_def)
  show ?thesis
  proof (cases "normalize_decision (de_libs env) (de_parse_iso env) now d")
    case None
    then show ?thesis using pre d' by (simp add: process_decision_def)
  next
    case (Some d0)
    obtain r3 o3 where post: "post_reasoning_policy_check (de_libs env) (ms_of now) d0 o2 = (r3, o3)" by fastforce
    obtain r4 o4 where paper: "execute_paper_trade_if_enabled (de_libs env) (de_paper env) d0 o3 = (r4, o4)" by fastforce
    define d1 where "d1 = (case de_shadow env d0 of None \<Rightarrow> d0 | Some v \<Rightarrow> AList.update ''_shadow_policy_result'' v d0)"
    have persist: "persist env now d1 o4 = (case de_insert env d1 of Inr i \<Rightarrow> Some i | Inl _ \<Rightarrow> None, snd (persist env now d1 o4))"
      by (simp add: persist_def split: sum.split)
    show ?thesis
    proof (cases "compute_dedup_key (de_libs env) (de_dedup_window env) now d1")
      case None
      then show ?thesis using pre d' Some post paper by (simp add: process_decision_def d1_def Let_def)
    next
      case k: (Some k)
      obtain i o5 where i: "(if p then persist env now d1 o4 else (None, o4)) = (i, o5)" by fastforce
      have "i = (if p then (case de_insert env d1 of Inr i \<Rightarrow> Some i | Inl _ \<Rightarrow> None) else None)"
        using i persist by (simp split: if_splits)
      then show ?thesis
        using pre d' Some post paper k i
        by (simp add: process_decision_def d1_def[symmetric] Let_def)
    qed
  qed
qed

text \<open>C19: the verdicts of the gates have no influence on what \<open>process_decision\<close>
  answers: the decision is stored, routed and notified in the same way by any two orchestrators,
  one that vetoes it and one whose gates are switched off alike (as long as the memory gate does
  not mark it).\<close>

theorem process_ignores_vetoes:
  assumes "keeps_snapshot env now d o1" "keeps_snapshot env now d o2"
  shows "fst (process_decision env now d p cs o1) = fst (process_decision env now d p cs o2)"
  by (simp only: process_result[OF assms(1)] process_result[OF assms(2)])

definition demo_decision_env :: decision_env where
  "demo_decision_env = \<lparr>de_libs = plain_libs, de_parse_iso = (\<lambda>_. None), de_dedup_enabled = True, de_dedup_window = 60,
     de_redis_set = None, de_redis_prefix = ''dedup:'', de_insert = (\<lambda>_. Inr ''row1''), de_quiet_hours = [],
     de_routing_overrides = [], de_routing_rules = [], de_notifiers = [''slack''],
     de_notify = (\<lambda>c d i. Inr (VDict [(''ok'', VBool True)])), de_shadow = (\<lambda>_. None),
     de_paper = \<lparr>pe_draws = \<lparr>dr_uniform = (\<lambda>a b. a), dr_randint = (\<lambda>a b. a), dr_random = 0\<rparr>, pe_now1 = 0, pe_now2 = 0,
       pe_now3 = 0, pe_new_id = ''o1'', pe_recorded = 0, pe_created = 0, pe_commit = None\<rparr>\<rparr>"

definition killzone_decision :: pydict where
  "killzone_decision = [(''id'', VStr ''d1''), (''symbol'', VStr ''EURUSD''), (''killzone'', VBool True)]"

theorem process_ignores_vetoes_witness:
  "pc_veto (oc_counters (snd (snd (pre_reasoning_policy_check plain_libs 0 killzone_decision (orch_init False))))) = 1 \<and>
   fst (process_decision demo_decision_env 5 killzone_decision True None (orch_init False)) =
   fst (process_decision demo_decision_env 5 killzone_decision True None (orch_init True))"
proof -
  have k: "keeps_snapshot demo_decision_env 5 killzone_decision (orch_init False)"
    "keeps_snapshot demo_decision_env 5 killzone_decision (orch_init True)"
    unfolding keeps_snapshot_def by code_simp+
  have "pc_veto (oc_counters (snd (snd (pre_reasoning_policy_check plain_libs 0 killzone_decision (orch_init False))))) = 1"
    by code_simp
  then show ?thesis using process_ignores_vetoes[OF k, of True None] by simp
qed

text \<open>Without Redis no decision is ever skipped as a duplicate, although
  deduplication is switched on: the dictionary of recent keys is not consulted.\<close>

theorem no_dedup_without_redis:
  "map_option dr_skipped (fst (process_decision (env\<lparr>de_redis_set := None, de_dedup_enabled := True\<rparr>) now d p cs o1)) \<noteq> Some True"
proof -
  have none: "\<not> is_duplicate (env\<lparr>de_redis_set := None, de_dedup_enabled := True\<rparr>) k" for k by (simp add: is_duplicate_def)
  show ?thesis
    unfolding process_decision_def Let_def
    by (simp add: none split: prod.split option.split)
qed

end
