(* ===== verification/Orch_Decision_Props.thy ===== *)
theory Orch_Decision_Props
  imports Orch_Gate_Props
begin

text \<open>
  Normalised decisions, the answers of the notifiers, and the events that stop before a decision is
  processed.
\<close>

section \<open>Normalised decisions\<close>

lemma upper_char_upper: "upper_char (upper_char c) = upper_char c"
proof (cases "97 \<le> (of_char c :: nat) \<and> (of_char c :: nat) \<le> 122")
  case True
  then have "((of_char c :: nat) - 32) mod 256 = of_char c - 32" by (intro mod_less) linarith
  then have "(of_char (upper_char c) :: nat) = of_char c - 32" using True by (simp add: upper_char_def Let_def)
  moreover have "(of_char c :: nat) - 32 < 97" using True by linarith
  ultimately show ?thesis by (simp add: upper_char_def[of "upper_char c"] Let_def)
next
  case False
  then have "upper_char c = c" by (auto simp: upper_char_def Let_def)
  then show ?thesis by simp
qed

lemma py_upper_upper [simp]: "py_upper (py_upper s) = py_upper s"
  by (simp add: py_upper_def upper_char_upper)

lemma py_upper_nonempty [simp]: "py_upper s = [] \<longleftrightarrow> s = []"
  by (simp add: py_upper_def)

lemma update_same: "map_of d k = Some v \<Longrightarrow> AList.update k v d = d"
  by (induction d) auto

lemma map_of_default [simp]:
  "map_of (set_default k v d) j = (if j = k \<and> map_of d k = None then Some v else map_of d j)"
  by (auto simp: set_default_def map_add_def split: option.split)

lemma default_same: "map_of d k \<noteq> None \<Longrightarrow> set_default k v d = d"
  by (simp add: set_default_def)

lemma map_of_updated [simp]: "map_of (AList.update k v d) j = (if j = k then Some v else map_of d j)"
  by (simp add: update_conv')

text \<open>What the rest of the path relies on.\<close>

definition normal :: "orch_libs \<Rightarrow> pydict \<Rightarrow> bool" where
  "normal l d \<longleftrightarrow>
     (\<exists>s x t. map_of d ''symbol'' = Some (VStr s) \<and> s \<noteq> [] \<and> py_upper s = s \<and>
        map_of d ''confidence'' = Some (VFloat x) \<and> 0 \<le> x \<and> x \<le> 1 \<and>
        map_of d ''timestamp'' = Some (VIso t) \<and> map_of d ''timestamp_ms'' = Some (VInt (ms_of t))) \<and>
     (\<exists>ts. map_of d ''tags'' = Some (VList ts)) \<and>
     (\<forall>k\<in>{''bias'', ''recommendation'', ''summary'', ''repair_used'', ''fallback_used'', ''duration_ms''}. map_of d k \<noteq> None) \<and>
     to_int l (or_else (dget ''duration_ms'' d (VInt 0)) (VInt 0)) \<noteq> None"

lemma clamp_confidence_bounds: "0 \<le> clamp_confidence l e" "clamp_confidence l e \<le> 1"
  by (simp_all add: clamp_confidence_def)

lemma stamped_fields:
  assumes "\<forall>v. ol_str l v \<noteq> []"
  shows "\<exists>s x t. map_of (stamp_decision l parse_iso now d) ''symbol'' = Some (VStr s) \<and> s \<noteq> [] \<and> py_upper s = s \<and>
     map_of (stamp_decision l parse_iso now d) ''confidence'' = Some (VFloat x) \<and> 0 \<le> x \<and> x \<le> 1 \<and>
     map_of (stamp_decision l parse_iso now d) ''timestamp'' = Some (VIso t) \<and>
     map_of (stamp_decision l parse_iso now d) ''timestamp_ms'' = Some (VInt (ms_of t))"
    "map_of (stamp_decision l parse_iso now d) ''bias'' \<noteq> None"
    "map_of (stamp_decision l parse_iso now d) ''recommendation'' \<noteq> None"
proof -
  have "py_str l v \<noteq> []" if "truthy v" for v using that assms by (cases v) (auto simp: py_str_def)
  moreover have "py_upper ''UNKNOWN'' = ''UNKNOWN''" by code_simp
  ultimately show "\<exists>s x t. map_of (stamp_decision l parse_iso now d) ''symbol'' = Some (VStr s) \<and> s \<noteq> [] \<and> py_upper s = s \<and>
     map_of (stamp_decision l parse_iso now d) ''confidence'' = Some (VFloat x) \<and> 0 \<le> x \<and> x \<le> 1 \<and>
     map_of (stamp_decision l parse_iso now d) ''timestamp'' = Some (VIso t) \<and>
     map_of (stamp_decision l parse_iso now d) ''timestamp_ms'' = Some (VInt (ms_of t))"
    by (simp add: stamp_decision_def Let_def set_time_def clamp_confidence_bounds)
qed (simp_all add: stamp_decision_def Let_def)

lemma filled_same:
  "j \<notin> {''duration_ms'', ''summary'', ''repair_used'', ''fallback_used'', ''tags''} \<Longrightarrow>
     map_of (fill_decision l n ts d) j = map_of d j"
  by (simp add: fill_decision_def Let_def)

lemma filled_fields:
  "map_of (fill_decision l n ts d) ''tags'' = Some (VList ts)"
  "\<exists>v. map_of (fill_decision l n ts d) ''summary'' = Some v"
  "\<exists>v. map_of (fill_decision l n ts d) ''repair_used'' = Some v"
  "\<exists>v. map_of (fill_decision l n ts d) ''fallback_used'' = Some v"
  "map_of (fill_decision l n ts d) ''duration_ms'' = Some (dget ''duration_ms'' d (VInt n))"
  by (auto simp: fill_decision_def Let_def dget_def split: option.split)

lemma normal_fields:
  assumes "normalize_decision l parse_iso now d = Some d'" "\<forall>v. ol_str l v \<noteq> []"
  shows "normal l d'"
proof -
  let ?d4 = "stamp_decision l parse_iso now d"
  obtain n ts where n: "to_int l (or_else (dget ''duration_ms'' ?d4 (VInt 0)) (VInt 0)) = Some n"
    and d': "d' = fill_decision l n ts ?d4"
    using assms(1) by (auto simp: normalize_decision_def Let_def split: bind_splits)
  have "to_int l (or_else (dget ''duration_ms'' d' (VInt 0)) (VInt 0)) \<noteq> None"
  proof (cases "map_of ?d4 ''duration_ms''")
    case None
    then have "dget ''duration_ms'' d' (VInt 0) = VInt n" by (simp add: d' dget_def filled_fields)
    then show ?thesis by (simp add: or_else_def to_int_def)
  next
    case (Some v)
    then have "dget ''duration_ms'' d' (VInt 0) = dget ''duration_ms'' ?d4 (VInt 0)" by (simp add: d' dget_def filled_fields)
    then show ?thesis using n by simp
  qed
  then show ?thesis
    using stamped_fields[OF assms(2), of parse_iso now d]
    unfolding normal_def by (simp add: d' filled_same filled_fields)
qed

lemma normal_stable:
  assumes "normal l d"
  shows "normalize_decision l parse_iso now d = Some d"
proof -
  obtain s x t ts n where d: "map_of d ''symbol'' = Some (VStr s)" "s \<noteq> []" "py_upper s = s"
    "map_of d ''confidence'' = Some (VFloat x)" "0 \<le> x" "x \<le> 1"
    "map_of d ''timestamp'' = Some (VIso t)" "map_of d ''timestamp_ms'' = Some (VInt (ms_of t))"
    "map_of d ''tags'' = Some (VList ts)" "to_int l (or_else (dget ''duration_ms'' d (VInt 0)) (VInt 0)) = Some n"
    using assms by (auto simp: normal_def)
  have present: "map_of d ''bias'' \<noteq> None" "map_of d ''recommendation'' \<noteq> None" "map_of d ''summary'' \<noteq> None"
    "map_of d ''repair_used'' \<noteq> None" "map_of d ''fallback_used'' \<noteq> None" "map_of d ''duration_ms'' \<noteq> None"
    using assms by (auto simp: normal_def)
  have sym: "AList.update ''symbol'' (VStr (if truthy (dget ''symbol'' d VNone) then py_upper (py_str l (dget ''symbol'' d VNone)) else ''UNKNOWN'')) d = d"
    using d(1-3) by (simp add: dget_def py_str_def update_same)
  have conf: "AList.update ''confidence'' (VFloat (clamp_confidence l d)) d = d"
    using d(4-6) by (simp add: clamp_confidence_def dget_def to_float_def update_same)
  have time: "set_time t d = d" using d(7,8) by (simp add: set_time_def update_same)
  have ts: "or_else (dget ''timestamp'' d VNone) (dget ''timestamp_iso'' d VNone) = VIso t"
    using d(7) by (simp add: dget_def or_else_def)
  have tags: "tags_of d = Some ts" "AList.update ''tags'' (VList ts) d = d"
    using d(9) by (simp_all add: tags_of_def dget_def or_else_def update_same)
  show ?thesis
    unfolding normalize_decision_def stamp_decision_def fill_decision_def Let_def sym conf ts
    by (simp add: time_of_def time default_same present d(10) tags)
qed

lemma normalize_succeeds:
  "to_int l (or_else (dget ''duration_ms'' (stamp_decision l p now d) (VInt 0)) (VInt 0)) \<noteq> None \<Longrightarrow>
   tags_of (stamp_decision l p now d) \<noteq> None \<Longrightarrow> normalize_decision l p now d \<noteq> None"
  by (auto simp: normalize_decision_def Let_def)

text \<open>C21: a normalised decision has a symbol in upper case, a confidence between 0
  and 1, a time with the matching number of milliseconds, a list of tags and every default, and
  normalising it again, at any later time, changes nothing.\<close>

theorem normalize_idempotent:
  assumes "\<forall>v. ol_str l v \<noteq> []" "normalize_decision l parse_iso now d = Some d'"
  shows "normal l d' \<and> normalize_decision l parse_iso later d' = Some d'"
  using normal_fields[OF assms(2,1)] normal_stable by blast

definition text_libs :: orch_libs where
  "text_libs = plain_libs\<lparr>ol_str := (\<lambda>_. ''?'')\<rparr>"

theorem normalize_idempotent_witness:
  "\<exists>d'. normalize_decision text_libs (\<lambda>_. None) 5 [(''symbol'', VStr ''eurusd''), (''confidence'', VInt 7), (''tags'', VStr ''a, b'')] = Some d' \<and>
     normal text_libs d' \<and> normalize_decision text_libs (\<lambda>_. None) 99 d' = Some d'"
proof -
  have "normalize_decision text_libs (\<lambda>_. None) 5 [(''symbol'', VStr ''eurusd''), (''confidence'', VInt 7), (''tags'', VStr ''a, b'')] \<noteq> None"
    by (rule normalize_succeeds)
      (simp_all add: stamp_decision_def Let_def set_time_def dget_def or_else_def to_int_def tags_of_def)
  then obtain d' where d': "normalize_decision text_libs (\<lambda>_. None) 5
      [(''symbol'', VStr ''eurusd''), (''confidence'', VInt 7), (''tags'', VStr ''a, b'')] = Some d'" by blast
  have "\<forall>v. ol_str text_libs v \<noteq> []" by (simp add: text_libs_def)
  from normalize_idempotent[OF this d', of 99] d' show ?thesis by blast
qed

section \<open>The answers of the notifiers\<close>

lemma update_all_fresh: "distinct (map fst (d @ ps)) \<Longrightarrow> update_all ps d = d @ ps"
proof (induction ps arbitrary: d)
  case Nil
  show ?case by (simp add: update_all_def)
next
  case (Cons p ps)
  obtain k v where p: "p = (k, v)" by fastforce
  have "k \<notin> set (map fst d)" using Cons.prems p by auto
  then have "AList.update k v d = d @ [(k, v)]" by (induction d) auto
  then show ?case using Cons.IH[of "d @ [(k, v)]"] Cons.prems p by (simp add: update_all_def)
qed

lemma zip_map_right: "zip xs (map f xs) = map (\<lambda>x. (x, f x)) xs"
  by (induction xs) auto

text \<open>When every routed channel has a notifier each channel gets its own answer.
  When a channel has none, the answers move up: the answer of the next channel is reported
  under it, and the last channel is missing from the results.\<close>

theorem notify_results_exact:
  assumes "distinct routed" "routed \<noteq> []"
  shows "(set routed \<subseteq> set (de_notifiers env) \<longrightarrow>
       notify_channels env d i False routed = map (\<lambda>c. (c, notify_answer (de_notify env c d i))) routed) \<and>
    (c \<notin> set (de_notifiers env) \<and> c \<notin> set routed \<and> set routed \<subseteq> set (de_notifiers env) \<longrightarrow>
       notify_channels env d i False (c # routed) =
         zip (c # routed) (map (\<lambda>c. notify_answer (de_notify env c d i)) routed) \<and>
       map fst (notify_channels env d i False (c # routed)) = c # butlast routed)"
proof (intro conjI impI)
  assume sub: "set routed \<subseteq> set (de_notifiers env)"
  then have f: "filter (\<lambda>c. c \<in> set (de_notifiers env)) routed = routed" by (auto simp: filter_id_conv)
  have "distinct (map fst ([] @ zip routed (map (\<lambda>c. notify_answer (de_notify env c d i)) routed)))"
    using assms(1) by (simp add: zip_map_right comp_def)
  from update_all_fresh[OF this]
  show "notify_channels env d i False routed = map (\<lambda>c. (c, notify_answer (de_notify env c d i))) routed"
    using assms(2) by (simp add: notify_channels_def Let_def f zip_map_right)
next
  assume c: "c \<notin> set (de_notifiers env) \<and> c \<notin> set routed \<and> set routed \<subseteq> set (de_notifiers env)"
  then have f: "filter (\<lambda>c. c \<in> set (de_notifiers env)) (c # routed) = routed" by (auto simp: filter_id_conv)
  let ?zs = "zip (c # routed) (map (\<lambda>c. notify_answer (de_notify env c d i)) routed)"
  have fst: "map fst ?zs = take (length routed) (c # routed)" by (simp add: map_fst_zip_take)
  then have "distinct (map fst ([] @ ?zs))" using assms(1) c by (metis append_Nil distinct.simps(2) distinct_take)
  from update_all_fresh[OF this]
  show eq: "notify_channels env d i False (c # routed) = ?zs"
    unfolding notify_channels_def Let_def f using assms(2) by simp
  have "take (length routed) (c # routed) = c # butlast routed"
    using assms(2) by (cases routed rule: rev_cases) simp_all
  then show "map fst (notify_channels env d i False (c # routed)) = c # butlast routed" unfolding eq fst .
qed

theorem notify_results_exact_witness:
  "map fst (notify_channels (demo_decision_env\<lparr>de_notifiers := [''discord'', ''telegram'']\<rparr>) [] None False all_channels) =
     [''slack'', ''discord'']"
  using notify_results_exact[of "[''discord'', ''telegram'']" "demo_decision_env\<lparr>de_notifiers := [''discord'', ''telegram'']\<rparr>" "[]" None "''slack''"]
  by (simp add: all_channels_def)

section \<open>Events\<close>

text \<open>The reasons of the gate. A verdict has one of them, the same in the answer and in the audit entry.\<close>

definition veto_reasons :: "string list" where
  "veto_reasons = [''not_in_allowlist'', ''killzone'', ''regime_restricted'', ''risk_limit_exceeded'',
     ''outcome_underperformance'', ''memory_underperformance'']"

definition states_reason :: "string \<Rightarrow> string list \<Rightarrow> pydict \<Rightarrow> pydict \<Rightarrow> bool" where
  "states_reason result reasons r e \<longleftrightarrow> dget ''result'' r VNone = VStr result \<and>
     (\<exists>s\<in>set reasons. map_of r ''reason'' = Some (VStr s) \<and> map_of e ''reason'' = Some (VStr s))"

fun reasoned :: "verdict \<Rightarrow> bool" where
  "reasoned Go = True"
| "reasoned (Veto r e) = states_reason ''veto'' veto_reasons r e"
| "reasoned (Defer r e d) = states_reason ''defer'' [''cooldown''] r e"
| "reasoned (Answer r) = (dget ''result'' r VNone = VStr ''pass'')"

lemmas reasoned_simps = states_reason_def veto_reasons_def veto_result_def veto_entry_def result_of_def dget_def

lemma reasoned_checks:
  "reasoned (allowlist_check l now snap o1)" "reasoned (killzone_check l now snap o1)"
  "reasoned (regime_check l now snap o1)" "reasoned (cooldown_check l now snap o1)"
  "reasoned (exposure_check l now snap o1)"
  by (simp_all add: allowlist_check_def killzone_check_def regime_check_def cooldown_check_def exposure_check_def
      Let_def reasoned_simps split: option.split prod.split)

lemma reasoned_outcome: "reasoned (gate_of (outcome_verdict l snap o1))"
  by (auto simp: outcome_verdict_def gate_of_def Let_def reasoned_simps split: option.splits bind_splits)

lemma reasoned_memory: "reasoned (memory_verdict snap m)"
  by (simp add: memory_verdict_def reasoned_simps split: similarity.split)

lemma reasoned_recall: "reasoned (gate_of (recall_verdict l snap o1))"
proof -
  have "reasoned (recall_judgement snap n e w rows)" for n e w rows
    by (simp add: recall_judgement_def Let_def reasoned_simps split: prod.split)
  then show ?thesis by (auto simp: recall_verdict_def gate_of_def Let_def split: option.splits bind_splits if_splits)
qed

lemma reasoned_first: "list_all reasoned vs \<Longrightarrow> reasoned (first_verdict vs)"
  by (induction vs rule: first_verdict.induct) auto

lemma reasoned_gates: "reasoned (fst (memory_gates l snap o1))"
  unfolding memory_gates_def Let_def fst_conv by (rule reasoned_first) (simp add: reasoned_memory reasoned_recall)

lemma pre_reasoned:
  assumes "pre_reasoning_policy_check l now snap o1 = (r, d, o2)" "dget ''result'' r VNone \<noteq> VStr ''pass''"
  shows "\<exists>e. oc_policy_audit o2 = oc_policy_audit o1 @ [e] \<and>
    (states_reason ''veto'' veto_reasons r e \<or> states_reason ''defer'' [''cooldown''] r e)"
proof -
  have permissive: "\<not> oc_permissive o1"
    using assms by (auto simp: pre_reasoning_policy_check_def result_of_def dget_def)
  define o0 where "o0 = o1\<lparr>oc_allowlist := consult_allowlist l o1\<rparr>"
  define v where "v = first_verdict (map (\<lambda>c. c l now snap o0) static_checks)"
  obtain m s where m: "(if v = Go then memory_gates l snap o0 else (v, snap)) = (m, s)" by fastforce
  have "reasoned v" unfolding v_def
    by (rule reasoned_first) (simp add: static_checks_def reasoned_checks reasoned_outcome)
  then have "reasoned m" using m reasoned_gates[of l snap o0] by (auto split: if_splits)
  moreover obtain x o3 where x: "apply_verdict m o0 = (x, o3)" by fastforce
  moreover have "(case x of Some p \<Rightarrow> (p, s, o3) | None \<Rightarrow> (result_of ''pass'' @ [(''details'', VDict pass_details)], s, count_pass o3))
      = (r, d, o2)"
    using assms(1) permissive m x
    unfolding pre_reasoning_policy_check_def Let_def o0_def[symmetric] v_def[symmetric] by (simp split: option.split)
  ultimately show ?thesis using assms(2)
    by (cases m) (auto simp: o0_def result_of_def dget_def audit_def count_veto_def count_defer_def enqueue_def)
qed

text \<open>C17: a "decision" event that a gate vetoes is rejected, one it defers is deferred, with
  the reason of the gate: one of its six for a veto, the cooldown for a deferral, the same as in the one entry the gate
  has written to the audit log. Only the gate has touched the orchestrator: no trade
  is recorded and the decision is not processed.\<close>

theorem vetoed_event_stops:
  assumes "oe_event_type ev = ''decision''" "ee_global_cooldown_until env = None"
    "\<not> is_quiet_hours (de_libs (ee_decision env)) (de_quiet_hours (ee_decision env)) now"
    "pre_reasoning_policy_check (de_libs (ee_decision env)) (ms_of now) (oe_payload ev) o1 = (r, d, o2)"
    "dget ''result'' r VNone \<in> {VStr ''veto'', VStr ''defer''}"
  shows "snd (handle_event env now ev o1) = o2 \<and> oc_db o2 = oc_db o1 \<and>
    ert_status (fst (handle_event env now ev o1)) = (if dget ''result'' r VNone = VStr ''veto'' then ''rejected'' else ''deferred'') \<and>
    ert_policy_result (fst (handle_event env now ev o1)) = Some r \<and>
    (\<exists>reason entry. ert_reason (fst (handle_event env now ev o1)) = Some reason \<and>
       reason \<in> set (if dget ''result'' r VNone = VStr ''veto'' then veto_reasons else [''cooldown'']) \<and>
       map_of r ''reason'' = Some (VStr reason) \<and>
       oc_policy_audit o2 = oc_policy_audit o1 @ [entry] \<and> map_of entry ''reason'' = Some (VStr reason))"
proof -
  have "dget ''result'' r VNone \<noteq> VStr ''pass''" using assms(5) by auto
  from pre_reasoned[OF assms(4) this] obtain entry where e: "oc_policy_audit o2 = oc_policy_audit o1 @ [entry]"
    "states_reason ''veto'' veto_reasons r entry \<or> states_reason ''defer'' [''cooldown''] r entry" by blast
  obtain reason where s: "reason \<in> set (if dget ''result'' r VNone = VStr ''veto'' then veto_reasons else [''cooldown''])"
    "map_of r ''reason'' = Some (VStr reason)" "map_of entry ''reason'' = Some (VStr reason)"
    using e(2) unfolding states_reason_def by fastforce
  then have "dget ''reason'' r x = VStr reason" for x by (simp add: dget_def)
  then have "ert_reason (fst (handle_event env now ev o1)) = Some reason"
    using assms by (auto simp: handle_event_def handle_decision_event_def Let_def event_answer_def)
  moreover have "snd (handle_event env now ev o1) = o2 \<and> oc_db o2 = oc_db o1 \<and>
    ert_status (fst (handle_event env now ev o1)) = (if dget ''result'' r VNone = VStr ''veto'' then ''rejected'' else ''deferred'') \<and>
    ert_policy_result (fst (handle_event env now ev o1)) = Some r"
    using assms pre_step[OF assms(4)]
    by (auto simp: handle_event_def handle_decision_event_def Let_def event_answer_def)
  ultimately show ?thesis using e(1) s by blast
qed

definition demo_event_env :: event_env where
  "demo_event_env = \<lparr>ee_decision = demo_decision_env, ee_global_cooldown_until = None, ee_reasoning_manager = None,
     ee_plan_executor_enabled = False, ee_plan_now = 0\<rparr>"

definition killzone_event :: orch_event where
  "killzone_event = \<lparr>oe_event_type = ''decision'', oe_payload = killzone_decision, oe_correlation_id = ''c1'',
     oe_plan = None, oe_execution_context = None\<rparr>"

theorem vetoed_event_stops_witness:
  "ert_status (fst (handle_event demo_event_env 5 killzone_event (orch_init False))) = ''rejected'' \<and>
   (\<exists>reason. ert_reason (fst (handle_event demo_event_env 5 killzone_event (orch_init False))) = Some reason \<and>
      reason \<in> set veto_reasons)"
proof -
  obtain r d o2 where pre: "pre_reasoning_policy_check (de_libs (ee_decision demo_event_env)) (ms_of 5)
      (oe_payload killzone_event) (orch_init False) = (r, d, o2)" using prod_cases3 by blast
  have "dget ''result'' (fst (pre_reasoning_policy_check (de_libs (ee_decision demo_event_env)) (ms_of 5)
      (oe_payload killzone_event) (orch_init False))) VNone = VStr ''veto''" by code_simp
  then have v: "dget ''result'' r VNone = VStr ''veto''" using pre by simp
  have q: "\<not> is_quiet_hours (de_libs (ee_decision demo_event_env)) (de_quiet_hours (ee_decision demo_event_env)) 5"
    by (simp add: demo_event_env_def demo_decision_env_def is_quiet_hours_def)
  have "oe_event_type killzone_event = ''decision''" "ee_global_cooldown_until demo_event_env = None"
    by (simp_all add: killzone_event_def demo_event_env_def)
  from vetoed_event_stops[OF this q pre] v show ?thesis by fastforce
qed

text \<open>Quiet hours that start when they end never end, and those of two different times hold on one side
  of the clock only.\<close>

theorem quiet_hours_never_end:
  assumes "parse_hm l a = Some t" "parse_hm l b = Some t"
  shows "in_hours l a b now"
  using assms by (auto simp: in_hours_def Let_def)

end
