(* ===== verification/Replay.thy ===== *)
theory Replay
  imports Orch_Decision
begin

text \<open>
  The historical replay: \<open>backtest_replay/signal_loader.py\<close>, \<open>candle_loader.py\<close>, \<open>outcome_tagger.py\<close>
  and \<open>metrics.py\<close> over the records of \<open>schemas.py\<close>, and the script
  \<open>scripts/run_historical_replay.py\<close> that chains them.

  Parameters: the lines of a file (\<open>None\<close> when it is missing), the decoder of JSON, the parser of time
  stamps, and the conversions of \<open>orch_libs\<close>. A row of a CSV file maps each column to its text, or to
  \<open>None\<close> in a row that is too short. Prices are numbers; printing and the command line are left
  out, as is the loader that reads decisions from a database.
\<close>

section \<open>Data\<close>

record replay_libs =
  rl_libs :: orch_libs
  rl_loads :: "string \<Rightarrow> pyval option"
  rl_strptime :: "string \<Rightarrow> time option"

record replay_signal =
  rsg_signal_id :: string
  rsg_timestamp :: time
  rsg_symbol :: string
  rsg_timeframe :: string
  rsg_direction :: string
  rsg_signal_type :: string
  rsg_entry :: rat
  rsg_sl :: rat
  rsg_tp :: rat
  rsg_session :: pyval
  rsg_meta :: pyval

record candle =
  cd_timestamp :: time
  cd_open :: rat
  cd_high :: rat
  cd_low :: rat
  cd_close :: rat
  cd_volume :: "rat option"

datatype replay_kind = R_WIN | R_LOSS | R_BE | R_UNKNOWN

record replay_outcome =
  ro_signal_id :: string
  ro_outcome :: replay_kind
  ro_r_multiple :: "rat option"
  ro_mae :: "rat option"
  ro_mfe :: "rat option"
  ro_exit_price :: "rat option"
  ro_exit_time :: "time option"

text \<open>A \<open>Bad_Line\<close> is the \<open>ValueError\<close> that names the line; \<open>Uncaught\<close> stands for the exceptions the loaders
  do not handle.\<close>

datatype load_error = File_Missing | No_Columns | Bad_Line nat | Uncaught | Nothing_Loaded

section \<open>Loading signals\<close>

definition float_field :: "orch_libs \<Rightarrow> nat \<Rightarrow> pyval \<Rightarrow> load_error + rat" where
  "float_field l n v =
     (case v of
        VStr s \<Rightarrow> (case ol_parse_float l s of None \<Rightarrow> Inl (Bad_Line n) | Some x \<Rightarrow> Inr x)
      | _ \<Rightarrow> (case as_number v of None \<Rightarrow> Inl Uncaught | Some x \<Rightarrow> Inr x))"

fun float_fields :: "orch_libs \<Rightarrow> nat \<Rightarrow> pyval list \<Rightarrow> load_error + rat list" where
  "float_fields l n [] = Inr []"
| "float_fields l n (v # vs) =
     (case float_field l n v of
        Inl e \<Rightarrow> Inl e
      | Inr x \<Rightarrow> (case float_fields l n vs of Inl e \<Rightarrow> Inl e | Inr xs \<Rightarrow> Inr (x # xs)))"

definition text_field :: "orch_libs \<Rightarrow> string \<Rightarrow> pydict \<Rightarrow> string \<Rightarrow> string" where
  "text_field l k d def = py_str l (dget k d (VStr def))"

definition signal_of_dict :: "orch_libs \<Rightarrow> nat \<Rightarrow> time \<Rightarrow> pydict \<Rightarrow> load_error + replay_signal" where
  "signal_of_dict l n ts d =
     (case float_fields l n (map (\<lambda>k. dget k d (VInt 0)) [''entry'', ''sl'', ''tp'']) of
        Inr [e, x, y] \<Rightarrow>
          Inr \<lparr>rsg_signal_id = text_field l ''signal_id'' d (''sig_'' @ show_int (int n)), rsg_timestamp = ts,
               rsg_symbol = text_field l ''symbol'' d [], rsg_timeframe = text_field l ''timeframe'' d [],
               rsg_direction = py_lower (text_field l ''direction'' d []),
               rsg_signal_type = text_field l ''signal_type'' d [], rsg_entry = e, rsg_sl = x, rsg_tp = y,
               rsg_session = dget ''session'' d VNone, rsg_meta = dget ''meta'' d (VDict [])\<rparr>
      | Inr _ \<Rightarrow> Inl Uncaught
      | Inl err \<Rightarrow> Inl err)"

definition parse_signal :: "replay_libs \<Rightarrow> nat \<Rightarrow> string \<Rightarrow> load_error + replay_signal" where
  "parse_signal lib n line =
     (case rl_loads lib line of
        None \<Rightarrow> Inl (Bad_Line n)
      | Some (VDict d) \<Rightarrow>
          (case dget ''timestamp'' d (VStr []) of
             VStr t \<Rightarrow> (case rl_strptime lib t of
                         None \<Rightarrow> Inl (Bad_Line n)
                       | Some ts \<Rightarrow> signal_of_dict (rl_libs lib) n ts d)
           | _ \<Rightarrow> Inl Uncaught)
      | Some _ \<Rightarrow> Inl Uncaught)"

fun parse_lines :: "replay_libs \<Rightarrow> nat \<Rightarrow> string list \<Rightarrow> replay_signal list \<Rightarrow> load_error + replay_signal list" where
  "parse_lines lib n [] acc = Inr acc"
| "parse_lines lib n (x # xs) acc =
     (if py_strip x = [] then parse_lines lib (Suc n) xs acc
      else case parse_signal lib n (py_strip x) of
             Inl e \<Rightarrow> Inl e
           | Inr s \<Rightarrow> parse_lines lib (Suc n) xs (acc @ [s]))"

definition load_jsonl :: "replay_libs \<Rightarrow> string list option \<Rightarrow> load_error + replay_signal list" where
  "load_jsonl lib file =
     (case file of
        None \<Rightarrow> Inl File_Missing
      | Some lines \<Rightarrow>
         (case parse_lines lib 1 lines [] of
            Inl e \<Rightarrow> Inl e
          | Inr [] \<Rightarrow> Inl Nothing_Loaded
          | Inr ss \<Rightarrow> Inr (sort_key rsg_timestamp ss)))"

section \<open>Loading candles\<close>

type_synonym csv_row = "(string \<times> string option) list"

definition csv_value :: "nat \<Rightarrow> string \<Rightarrow> csv_row \<Rightarrow> load_error + string" where
  "csv_value n k row =
     (case map_of row k of None \<Rightarrow> Inl (Bad_Line n) | Some None \<Rightarrow> Inl Uncaught | Some (Some s) \<Rightarrow> Inr s)"

definition csv_float :: "orch_libs \<Rightarrow> nat \<Rightarrow> string \<Rightarrow> csv_row \<Rightarrow> load_error + rat" where
  "csv_float l n k row =
     (case csv_value n k row of Inl e \<Rightarrow> Inl e | Inr s \<Rightarrow> float_field l n (VStr s))"

fun csv_floats :: "orch_libs \<Rightarrow> nat \<Rightarrow> string list \<Rightarrow> csv_row \<Rightarrow> load_error + rat list" where
  "csv_floats l n [] row = Inr []"
| "csv_floats l n (k # ks) row =
     (case csv_float l n k row of
        Inl e \<Rightarrow> Inl e
      | Inr x \<Rightarrow> (case csv_floats l n ks row of Inl e \<Rightarrow> Inl e | Inr xs \<Rightarrow> Inr (x # xs)))"

definition volume_column :: "csv_row \<Rightarrow> string list" where
  "volume_column row = (if map_of row ''volume'' = None then [] else [''volume''])"

definition candle_of_row :: "replay_libs \<Rightarrow> nat \<Rightarrow> csv_row \<Rightarrow> load_error + candle" where
  "candle_of_row lib n row =
     (case csv_value n ''timestamp'' row of
        Inl e \<Rightarrow> Inl e
      | Inr t \<Rightarrow>
         (case rl_strptime lib (py_strip t) of
            None \<Rightarrow> Inl (Bad_Line n)
          | Some ts \<Rightarrow>
             (case csv_floats (rl_libs lib) n ([''open'', ''high'', ''low'', ''close''] @ volume_column row) row of
                Inr (a # b # c # d # v) \<Rightarrow>
                  Inr \<lparr>cd_timestamp = ts, cd_open = a, cd_high = b, cd_low = c, cd_close = d,
                       cd_volume = (case v of [] \<Rightarrow> None | x # _ \<Rightarrow> Some x)\<rparr>
              | Inr _ \<Rightarrow> Inl Uncaught
              | Inl e \<Rightarrow> Inl e)))"

fun parse_rows :: "replay_libs \<Rightarrow> nat \<Rightarrow> csv_row list \<Rightarrow> candle list \<Rightarrow> load_error + candle list" where
  "parse_rows lib n [] acc = Inr acc"
| "parse_rows lib n (r # rs) acc =
     (case candle_of_row lib n r of Inl e \<Rightarrow> Inl e | Inr c \<Rightarrow> parse_rows lib (Suc n) rs (acc @ [c]))"

text \<open>\<open>CandleLoader.load_csv\<close>: the names of the columns and the rows.\<close>

definition load_csv :: "replay_libs \<Rightarrow> (string list \<times> csv_row list) option \<Rightarrow> load_error + candle list" where
  "load_csv lib file =
     (case file of
        None \<Rightarrow> Inl File_Missing
      | Some (names, rows) \<Rightarrow>
          (if \<not> {''timestamp'', ''open'', ''high'', ''low'', ''close''} \<subseteq> set names then Inl No_Columns
           else
             (case parse_rows lib 2 rows [] of
                Inl e \<Rightarrow> Inl e
              | Inr [] \<Rightarrow> Inl Nothing_Loaded
              | Inr cs \<Rightarrow> Inr (sort_key cd_timestamp cs))))"

text \<open>\<open>load_candles_csv\<close> of the scripts checks no columns and accepts an empty file.\<close>

definition load_candles_csv :: "replay_libs \<Rightarrow> csv_row list option \<Rightarrow> load_error + candle list" where
  "load_candles_csv lib file =
     (case file of
        None \<Rightarrow> Inl File_Missing
      | Some rows \<Rightarrow> (case parse_rows lib 2 rows [] of Inl e \<Rightarrow> Inl e | Inr cs \<Rightarrow> Inr (sort_key cd_timestamp cs)))"

section \<open>Tagging\<close>

definition is_long :: "replay_signal \<Rightarrow> bool" where
  "is_long s \<longleftrightarrow> rsg_direction s = ''LONG''"

definition replay_risk :: "replay_signal \<Rightarrow> rat" where
  "replay_risk s =
     (let risk = (if is_long s then rsg_entry s - rsg_sl s else rsg_sl s - rsg_entry s) in if risk \<le> 0 then 1 else risk)"

definition sl_hit :: "replay_signal \<Rightarrow> candle \<Rightarrow> bool" where
  "sl_hit s c \<longleftrightarrow> (if is_long s then cd_low c \<le> rsg_sl s else cd_high c \<ge> rsg_sl s)"

definition tp_hit :: "replay_signal \<Rightarrow> candle \<Rightarrow> bool" where
  "tp_hit s c \<longleftrightarrow> (if is_long s then cd_high c \<ge> rsg_tp s else cd_low c \<le> rsg_tp s)"

text \<open>How far a candle moves against the signal and in its favour, in multiples of the risk.\<close>

definition adverse :: "replay_signal \<Rightarrow> candle \<Rightarrow> rat" where
  "adverse s c = (if is_long s then rsg_entry s - cd_low c else cd_high c - rsg_entry s) / replay_risk s"

definition favourable :: "replay_signal \<Rightarrow> candle \<Rightarrow> rat" where
  "favourable s c = (if is_long s then cd_high c - rsg_entry s else rsg_entry s - cd_low c) / replay_risk s"

definition raise_to :: "rat \<Rightarrow> rat \<Rightarrow> rat" where
  "raise_to x m = (if x > 0 then if x > m then x else m else m)"

definition exit_at :: "rat \<Rightarrow> rat \<Rightarrow> replay_signal \<Rightarrow> replay_kind \<Rightarrow> rat option \<Rightarrow> rat option \<Rightarrow> time option \<Rightarrow> replay_outcome" where
  "exit_at mae mfe s kind r price t =
     \<lparr>ro_signal_id = rsg_signal_id s, ro_outcome = kind, ro_r_multiple = r,
      ro_mae = (if mae > 0 then Some mae else None), ro_mfe = (if mfe > 0 then Some mfe else None),
      ro_exit_price = price, ro_exit_time = t\<rparr>"

definition win_r :: "replay_signal \<Rightarrow> rat" where
  "win_r s = (if is_long s then rsg_tp s - rsg_entry s else rsg_entry s - rsg_tp s) / replay_risk s"

fun scan_candles :: "replay_signal \<Rightarrow> rat \<Rightarrow> rat \<Rightarrow> candle list \<Rightarrow> replay_outcome" where
  "scan_candles s mae mfe [] = exit_at mae mfe s R_UNKNOWN None None None"
| "scan_candles s mae mfe (c # cs) =
     (if cd_timestamp c \<le> rsg_timestamp s then scan_candles s mae mfe cs
      else
        (let mae' = raise_to (adverse s c) mae; mfe' = raise_to (favourable s c) mfe; t = Some (cd_timestamp c) in
         if sl_hit s c then exit_at mae' mfe' s R_LOSS (Some (-1)) (Some (rsg_sl s)) t
         else if tp_hit s c then exit_at mae' mfe' s R_WIN (Some (win_r s)) (Some (rsg_tp s)) t
         else scan_candles s mae' mfe' cs))"

text \<open>\<open>tie_break_on\<close> is an argument that the code does not read.\<close>

definition tag_from_candles :: "replay_signal list \<Rightarrow> candle list \<Rightarrow> replay_outcome list" where
  "tag_from_candles ss candles = map (\<lambda>s. scan_candles s 0 0 (sort_key cd_timestamp candles)) ss"

section \<open>Metrics\<close>

definition replay_distribution :: "replay_outcome list \<Rightarrow> rat list" where
  "replay_distribution os =
     concat (map (\<lambda>r. case ro_r_multiple r of None \<Rightarrow> [] | Some x \<Rightarrow> if ro_outcome r = R_UNKNOWN then [] else [x]) os)"

definition compute_expectancy :: "replay_outcome list \<Rightarrow> rat" where
  "compute_expectancy os =
     (let rs = replay_distribution os in if rs = [] then 0 else sum_list rs / of_nat (length rs))"

definition evaluable :: "replay_outcome list \<Rightarrow> replay_outcome list" where
  "evaluable os = filter (\<lambda>r. ro_outcome r \<in> {R_WIN, R_LOSS, R_BE} \<and> ro_r_multiple r \<noteq> None) os"

definition kind_rate :: "replay_kind \<Rightarrow> replay_outcome list \<Rightarrow> rat" where
  "kind_rate k os =
     (if evaluable os = [] then 0
      else of_nat (length (filter (\<lambda>r. ro_outcome r = k) (evaluable os))) / of_nat (length (evaluable os)))"

definition compute_win_rate :: "replay_outcome list \<Rightarrow> rat" where
  "compute_win_rate = kind_rate R_WIN"

definition compute_break_even_rate :: "replay_outcome list \<Rightarrow> rat" where
  "compute_break_even_rate = kind_rate R_BE"

record replay_metrics =
  rgm_count :: nat
  rgm_expectancy :: rat
  rgm_win_rate :: rat
  rgm_be_rate :: rat

definition metrics_of :: "replay_outcome list \<Rightarrow> replay_metrics" where
  "metrics_of os = \<lparr>rgm_count = length (replay_distribution os), rgm_expectancy = compute_expectancy os,
     rgm_win_rate = compute_win_rate os, rgm_be_rate = compute_break_even_rate os\<rparr>"

definition group_metrics :: "(replay_outcome \<Rightarrow> 'k) \<Rightarrow> replay_outcome list \<Rightarrow> ('k \<times> replay_metrics) list" where
  "group_metrics key os =
     map (\<lambda>k. (k, metrics_of (filter (\<lambda>r. key r = k) os))) (first_seen (map key os))"

section \<open>One replay\<close>

record replay_args =
  ra_symbol :: "string option"
  ra_signal_type :: "string option"
  ra_from :: "string option"
  ra_to :: "string option"

definition when_given :: "'a list option \<Rightarrow> ('a list \<Rightarrow> 's \<Rightarrow> bool) \<Rightarrow> 's list \<Rightarrow> 's list" where
  "when_given a p ss = (case a of None \<Rightarrow> ss | Some x \<Rightarrow> if x = [] then ss else filter (p x) ss)"

text \<open>\<open>None\<close>: a date that cannot be parsed raises.\<close>

definition date_bound :: "(string \<Rightarrow> time option) \<Rightarrow> string option \<Rightarrow> (time option) option" where
  "date_bound parse_iso a =
     (case a of None \<Rightarrow> Some None | Some s \<Rightarrow> if s = [] then Some None else map_option Some (parse_iso s))"

definition replay_filter :: "(string \<Rightarrow> time option) \<Rightarrow> replay_args \<Rightarrow> replay_signal list \<Rightarrow> replay_signal list option" where
  "replay_filter parse_iso a ss =
     (let by_text = when_given (ra_signal_type a) (\<lambda>x s. rsg_signal_type s = x)
          (when_given (ra_symbol a) (\<lambda>x s. rsg_symbol s = x) ss)
      in do { f \<leftarrow> date_bound parse_iso (ra_from a);
              t \<leftarrow> date_bound parse_iso (ra_to a);
              Some (filter (\<lambda>s. (case f of None \<Rightarrow> True | Some x \<Rightarrow> rsg_timestamp s \<ge> x) \<and>
                                (case t of None \<Rightarrow> True | Some x \<Rightarrow> rsg_timestamp s \<le> x)) by_text) })"

record replay_report =
  rr_sample_size :: nat
  rr_completed :: nat
  rr_unknown :: nat
  rr_wins :: nat
  rr_losses :: nat
  rr_bes :: nat
  rr_win_rate :: rat
  rr_be_rate :: rat
  rr_expectancy :: rat
  rr_outcomes :: "replay_outcome list"

definition of_kind :: "replay_kind \<Rightarrow> replay_outcome list \<Rightarrow> nat" where
  "of_kind k os = length (filter (\<lambda>r. ro_outcome r = k) os)"

definition report_of_outcomes :: "replay_outcome list \<Rightarrow> replay_report" where
  "report_of_outcomes os =
     \<lparr>rr_sample_size = length os, rr_completed = of_kind R_WIN os + of_kind R_LOSS os + of_kind R_BE os,
      rr_unknown = of_kind R_UNKNOWN os, rr_wins = of_kind R_WIN os, rr_losses = of_kind R_LOSS os,
      rr_bes = of_kind R_BE os, rr_win_rate = py_round 4 (compute_win_rate os),
      rr_be_rate = py_round 4 (compute_break_even_rate os), rr_expectancy = py_round 4 (compute_expectancy os),
      rr_outcomes = os\<rparr>"

text \<open>\<open>None\<close>: the script ends without a report.\<close>

definition run_historical_replay ::
    "replay_libs \<Rightarrow> (string \<Rightarrow> time option) \<Rightarrow> csv_row list option \<Rightarrow> string list option \<Rightarrow> replay_args \<Rightarrow> replay_report option" where
  "run_historical_replay lib parse_iso candles_csv signals_jsonl a =
     (case (load_candles_csv lib candles_csv, load_jsonl lib signals_jsonl) of
        (Inr candles, Inr signals) \<Rightarrow>
          (case replay_filter parse_iso a signals of
             None \<Rightarrow> None
           | Some [] \<Rightarrow> None
           | Some ss \<Rightarrow> Some (report_of_outcomes (tag_from_candles ss candles)))
      | _ \<Rightarrow> None)"

end
