(* ===== verification/Replay_Batch.thy ===== *)
theory Replay_Batch
  imports Replay "HOL-Library.List_Lexorder" "HOL-Library.Char_ord"
begin

text \<open>
  The figures of groups of replayed signals, \<open>scripts/run_replay_batch.py\<close>, and the list of groups
  that are allowed to trade, \<open>scripts/build_allowlist_from_replay.py\<close>, which the allowlist gate of the
  orchestrator reads. A file of JSON holds the dictionary that was written to it.
\<close>

section \<open>Groups\<close>

definition shown :: "orch_libs \<Rightarrow> pyval \<Rightarrow> string" where
  "shown l v = py_str l v"

definition signal_group_key :: "orch_libs \<Rightarrow> replay_signal \<Rightarrow> string" where
  "signal_group_key l s = rsg_symbol s @ ''|'' @ rsg_timeframe s @ ''|'' @ shown l (rsg_session s) @ ''|'' @
     rsg_signal_type s @ ''|'' @ rsg_direction s"

definition group_outcomes ::
    "orch_libs \<Rightarrow> replay_signal list \<Rightarrow> replay_outcome list \<Rightarrow> (string \<times> (replay_signal \<times> replay_outcome) list) list" where
  "group_outcomes l ss os =
     (let ps = zip ss os; key = (\<lambda>p. signal_group_key l (fst p)) in
      map (\<lambda>k. (k, filter (\<lambda>p. key p = k) ps)) (first_seen (map key ps)))"

text \<open>The loop over the results of a group: the running sum, its peak, the deepest fall from a peak, and
  the streaks.\<close>

record streak_state =
  rn_cumulative :: rat
  rn_peak :: rat
  rn_max_dd :: rat
  rn_losses :: nat
  rn_max_losses :: nat
  rn_wins :: nat
  rn_max_wins :: nat

definition run_start :: streak_state where
  "run_start = \<lparr>rn_cumulative = 0, rn_peak = 0, rn_max_dd = 0, rn_losses = 0, rn_max_losses = 0,
     rn_wins = 0, rn_max_wins = 0\<rparr>"

definition run_equity :: "rat \<Rightarrow> streak_state \<Rightarrow> streak_state" where
  "run_equity r st =
     (let cumulative = rn_cumulative st + r;
          peak = (if cumulative > rn_peak st then cumulative else rn_peak st);
          dd = peak - cumulative
      in st\<lparr>rn_cumulative := cumulative, rn_peak := peak, rn_max_dd := (if dd > rn_max_dd st then dd else rn_max_dd st)\<rparr>)"

definition run_streaks :: "rat \<Rightarrow> streak_state \<Rightarrow> streak_state" where
  "run_streaks r st =
     (if r < 0 then
        st\<lparr>rn_losses := rn_losses st + 1, rn_wins := 0,
           rn_max_losses := (if rn_losses st + 1 > rn_max_losses st then rn_losses st + 1 else rn_max_losses st)\<rparr>
      else if r > 0 then
        st\<lparr>rn_wins := rn_wins st + 1, rn_losses := 0,
           rn_max_wins := (if rn_wins st + 1 > rn_max_wins st then rn_wins st + 1 else rn_max_wins st)\<rparr>
      else st\<lparr>rn_losses := 0, rn_wins := 0\<rparr>)"

definition run_results :: "rat list \<Rightarrow> streak_state" where
  "run_results rs = fold (\<lambda>r st. run_streaks r (run_equity r st)) rs run_start"

definition results_of :: "replay_outcome list \<Rightarrow> rat list" where
  "results_of os = concat (map (\<lambda>r. case ro_r_multiple r of None \<Rightarrow> [] | Some x \<Rightarrow> [x]) os)"

definition rate_in :: "nat \<Rightarrow> nat \<Rightarrow> rat" where
  "rate_in n total_n = (if total_n > 0 then of_nat n / of_nat total_n else 0)"

definition group_expectancy :: "rat list \<Rightarrow> rat list \<Rightarrow> rat \<Rightarrow> rat" where
  "group_expectancy wins losses win_rate =
     (if wins \<noteq> [] \<and> losses \<noteq> []
      then (sum_list wins / of_nat (length wins) - sum_list (map abs losses) / of_nat (length losses)) * win_rate
      else 0)"

record replay_group =
  gp_symbol :: string
  gp_timeframe :: string
  gp_session :: pyval
  gp_signal_type :: string
  gp_direction :: string
  gp_sample_size :: nat
  gp_completed :: nat
  gp_cancelled :: nat
  gp_win_rate :: rat
  gp_loss_rate :: rat
  gp_be_rate :: rat
  gp_expectancy :: rat
  gp_max_drawdown_r :: rat
  gp_max_loss_streak :: nat
  gp_max_win_streak :: nat

text \<open>\<open>o.r_multiple and o.r_multiple == 0\<close> never holds: there are no breakevens.\<close>

definition compute_group_metrics :: "replay_signal \<Rightarrow> replay_outcome list \<Rightarrow> replay_group" where
  "compute_group_metrics s os =
     (let completed = of_kind R_WIN os + of_kind R_LOSS os; rs = results_of os;
          wins = filter (\<lambda>r. r \<noteq> 0 \<and> r > 0) rs; losses = filter (\<lambda>r. r \<noteq> 0 \<and> r < 0) rs;
          bes = filter (\<lambda>r. r \<noteq> 0 \<and> r = 0) rs; win_rate = rate_in (length wins) completed; st = run_results rs
      in \<lparr>gp_symbol = rsg_symbol s, gp_timeframe = rsg_timeframe s, gp_session = rsg_session s,
          gp_signal_type = rsg_signal_type s, gp_direction = rsg_direction s, gp_sample_size = length os,
          gp_completed = completed, gp_cancelled = of_kind R_UNKNOWN os, gp_win_rate = py_round 4 win_rate,
          gp_loss_rate = py_round 4 (rate_in (length losses) completed),
          gp_be_rate = py_round 4 (rate_in (length bes) completed),
          gp_expectancy = py_round 4 (group_expectancy wins losses win_rate),
          gp_max_drawdown_r = py_round 4 (rn_max_dd st), gp_max_loss_streak = rn_max_losses st,
          gp_max_win_streak = rn_max_wins st\<rparr>)"

definition group_to_dict :: "replay_group \<Rightarrow> pydict" where
  "group_to_dict g =
     [(''symbol'', VStr (gp_symbol g)), (''timeframe'', VStr (gp_timeframe g)), (''session'', gp_session g),
      (''signal_type'', VStr (gp_signal_type g)), (''direction'', VStr (gp_direction g)),
      (''sample_size'', VInt (int (gp_sample_size g))), (''completed_trades'', VInt (int (gp_completed g))),
      (''cancelled_trades'', VInt (int (gp_cancelled g))), (''win_rate'', VFloat (gp_win_rate g)),
      (''loss_rate'', VFloat (gp_loss_rate g)), (''be_rate'', VFloat (gp_be_rate g)),
      (''expectancy'', VFloat (gp_expectancy g)), (''max_drawdown_r'', VFloat (gp_max_drawdown_r g)),
      (''max_loss_streak'', VInt (int (gp_max_loss_streak g))), (''max_win_streak'', VInt (int (gp_max_win_streak g)))]"

definition json_summary :: "pyval \<Rightarrow> replay_group list \<Rightarrow> pydict" where
  "json_summary now gs =
     [(''timestamp'', now), (''total_groups'', VInt (int (length gs))), (''groups'', VList (map (VDict \<circ> group_to_dict) gs))]"

text \<open>The script: \<open>None\<close> when a file cannot be loaded.\<close>

definition run_replay_batch ::
    "replay_libs \<Rightarrow> pyval \<Rightarrow> csv_row list option \<Rightarrow> string list option \<Rightarrow> pydict option" where
  "run_replay_batch lib now candles_csv signals_jsonl =
     (case (load_candles_csv lib candles_csv, load_jsonl lib signals_jsonl) of
        (Inr candles, Inr ss) \<Rightarrow>
          Some (json_summary now
            (map (\<lambda>(k, ps). compute_group_metrics (fst (hd ps)) (map snd ps))
               (group_outcomes (rl_libs lib) ss (tag_from_candles ss candles))))
      | _ \<Rightarrow> None)"

section \<open>The allowlist\<close>

record allow_limits =
  lm_min_samples :: int
  lm_min_expectancy :: rat
  lm_max_dd :: rat
  lm_max_streak :: int

record allow_entry =
  ae_symbol :: pyval
  ae_timeframe :: pyval
  ae_session :: pyval
  ae_signal_type :: pyval
  ae_direction :: pyval

definition entry_values :: "allow_entry \<Rightarrow> pyval list" where
  "entry_values e = [ae_symbol e, ae_timeframe e, ae_session e, ae_signal_type e, ae_direction e]"

definition allow_entry_to_dict :: "allow_entry \<Rightarrow> pydict" where
  "allow_entry_to_dict e =
     [(''symbol'', ae_symbol e), (''timeframe'', ae_timeframe e), (''session'', ae_session e),
      (''signal_type'', ae_signal_type e), (''direction'', ae_direction e)]"

definition allow_entry_to_key :: "orch_libs \<Rightarrow> allow_entry \<Rightarrow> string" where
  "allow_entry_to_key l e =
     (let vs = entry_values e in concat (map (\<lambda>v. py_str l v @ ''|'') (butlast vs)) @ py_str l (last vs))"

text \<open>A comparison with something that is no number raises; a missing drawdown or streak is infinite. The
  comparisons stop at the first that fails.\<close>

definition at_least :: "string \<Rightarrow> rat \<Rightarrow> rat \<Rightarrow> pydict \<Rightarrow> bool option" where
  "at_least k def bound g = map_option (\<lambda>x. x \<ge> bound) (as_number (dget k g (VFloat def)))"

definition at_most :: "string \<Rightarrow> rat \<Rightarrow> pydict \<Rightarrow> bool option" where
  "at_most k bound g = (case map_of g k of None \<Rightarrow> Some False | Some v \<Rightarrow> map_option (\<lambda>x. x \<le> bound) (as_number v))"

fun all_in_order :: "bool option list \<Rightarrow> bool option" where
  "all_in_order [] = Some True"
| "all_in_order (None # bs) = None"
| "all_in_order (Some b # bs) = (if b then all_in_order bs else Some False)"

definition passes_limits :: "allow_limits \<Rightarrow> pydict \<Rightarrow> bool option" where
  "passes_limits lm g =
     all_in_order [at_least ''sample_size'' 0 (of_int (lm_min_samples lm)) g, at_least ''expectancy'' 0 (lm_min_expectancy lm) g,
       at_most ''max_drawdown_r'' (lm_max_dd lm) g, at_most ''max_loss_streak'' (of_int (lm_max_streak lm)) g]"

definition entry_of :: "pydict \<Rightarrow> allow_entry" where
  "entry_of g = (let f = (\<lambda>k. dget k g (VStr [])) in
     \<lparr>ae_symbol = f ''symbol'', ae_timeframe = f ''timeframe'', ae_session = f ''session'',
      ae_signal_type = f ''signal_type'', ae_direction = f ''direction''\<rparr>)"

fun select_groups :: "allow_limits \<Rightarrow> pyval list \<Rightarrow> allow_entry list option" where
  "select_groups lm [] = Some []"
| "select_groups lm (VDict g # gs) =
     do { b \<leftarrow> passes_limits lm g; es \<leftarrow> select_groups lm gs; Some (if b then entry_of g # es else es) }"
| "select_groups lm (v # gs) = None"

definition filter_groups :: "orch_libs \<Rightarrow> allow_limits \<Rightarrow> pyval list \<Rightarrow> allow_entry list option" where
  "filter_groups l lm gs = map_option (sort_key (allow_entry_to_key l)) (select_groups lm gs)"

definition build_allowlist :: "orch_libs \<Rightarrow> pyval \<Rightarrow> allow_limits \<Rightarrow> pydict \<Rightarrow> pydict option" where
  "build_allowlist l now lm summary =
     do { gs \<leftarrow> iterate (dget ''groups'' summary (VList []));
          es \<leftarrow> filter_groups l lm gs;
          Some [(''timestamp'', now), (''source_replay_summary'', dget ''timestamp'' summary (VStr [])),
                (''thresholds'', VDict [(''min_samples'', VInt (lm_min_samples lm)), (''min_expectancy'', VFloat (lm_min_expectancy lm)),
                   (''max_drawdown_r'', VFloat (lm_max_dd lm)), (''max_loss_streak'', VInt (lm_max_streak lm))]),
                (''total_allowed'', VInt (int (length es))), (''total_groups_evaluated'', VInt (int (length gs))),
                (''allowed_groups'', VList (map (VDict \<circ> allow_entry_to_dict) es))] }"

end
