(* ===== verification/Replay_Props.thy ===== *)
theory Replay_Props
  imports Replay_Batch
begin

text \<open>
  The replay: what a tagged outcome says about the candles, what the figures of a group are,
  and which snapshots the allowlist built from them lets pass.
\<close>

section \<open>Tagging\<close>

definition later_candles :: "replay_signal \<Rightarrow> candle list \<Rightarrow> candle list" where
  "later_candles s cs = filter (\<lambda>c. cd_timestamp c > rsg_timestamp s) (sort_key cd_timestamp cs)"

definition hit :: "replay_signal \<Rightarrow> candle \<Rightarrow> bool" where
  "hit s c \<longleftrightarrow> sl_hit s c \<or> tp_hit s c"

text \<open>The candles up to and including the first that reaches a level.\<close>

definition watched :: "replay_signal \<Rightarrow> candle list \<Rightarrow> candle list" where
  "watched s cs = takeWhile (\<lambda>c. \<not> hit s c) cs @ take 1 (dropWhile (\<lambda>c. \<not> hit s c) cs)"

definition worst :: "rat \<Rightarrow> (candle \<Rightarrow> rat) \<Rightarrow> candle list \<Rightarrow> rat" where
  "worst m f cs = Max (insert m (f ` set cs))"

definition tag_by_first_hit :: "replay_signal \<Rightarrow> rat \<Rightarrow> rat \<Rightarrow> candle list \<Rightarrow> replay_outcome" where
  "tag_by_first_hit s mae mfe cs =
     (let stop = (\<lambda>kind r price t. exit_at (worst mae (adverse s) (watched s cs)) (worst mfe (favourable s) (watched s cs)) s kind r price t) in
      case dropWhile (\<lambda>c. \<not> hit s c) cs of
        [] \<Rightarrow> stop R_UNKNOWN None None None
      | c # _ \<Rightarrow> (if sl_hit s c then stop R_LOSS (Some (-1)) (Some (rsg_sl s)) (Some (cd_timestamp c))
                 else stop R_WIN (Some (win_r s)) (Some (rsg_tp s)) (Some (cd_timestamp c))))"

lemma raise_is_max: "0 \<le> m \<Longrightarrow> raise_to x m = max x m"
  by (auto simp: raise_to_def max_def)

lemma worst_Nil [simp]: "worst m f [] = m"
  by (simp add: worst_def)

lemma worst_Cons [simp]: "worst m f (c # cs) = worst (max (f c) m) f cs"
proof -
  have "insert m (f ` set (c # cs)) = insert m (insert (f c) (f ` set cs))" by auto
  then show ?thesis
    by (cases cs) (simp_all add: worst_def max.commute max.left_commute max.assoc)
qed

lemma watched_hit: "hit s c \<Longrightarrow> watched s (c # cs) = [c]"
  by (simp add: watched_def)

lemma watched_quiet: "\<not> hit s c \<Longrightarrow> watched s (c # cs) = c # watched s cs"
  by (simp add: watched_def)

lemma scan_by_first_hit:
  assumes "0 \<le> mae" "0 \<le> mfe"
  shows "scan_candles s mae mfe cs = tag_by_first_hit s mae mfe (filter (\<lambda>c. cd_timestamp c > rsg_timestamp s) cs)"
  using assms
proof (induction s mae mfe cs rule: scan_candles.induct)
  case (1 s mae mfe)
  then show ?case by (simp add: tag_by_first_hit_def watched_def)
next
  case (2 s mae mfe c cs)
  show ?case
  proof (cases "cd_timestamp c \<le> rsg_timestamp s")
    case True
    then show ?thesis using 2 by simp
  next
    case False
    have m: "raise_to (adverse s c) mae = max (adverse s c) mae" "raise_to (favourable s c) mfe = max (favourable s c) mfe"
      using 2(3,4) by (simp_all add: raise_is_max)
    have pos: "0 \<le> max (adverse s c) mae" "0 \<le> max (favourable s c) mfe" using 2(3,4) by simp_all
    show ?thesis
    proof (cases "hit s c")
      case True
      then show ?thesis using False
        by (auto simp: tag_by_first_hit_def Let_def m watched_hit hit_def)
    next
      case quiet: False
      then have none: "\<not> sl_hit s c" "\<not> tp_hit s c" by (simp_all add: hit_def)
      have "scan_candles s mae mfe (c # cs) = scan_candles s (max (adverse s c) mae) (max (favourable s c) mfe) cs"
        using False none by (simp add: Let_def m)
      also have "\<dots> = tag_by_first_hit s (max (adverse s c) mae) (max (favourable s c) mfe) (filter (\<lambda>c. cd_timestamp c > rsg_timestamp s) cs)"
        using 2(2)[OF False refl refl refl none] pos unfolding m by simp
      also have "\<dots> = tag_by_first_hit s mae mfe (filter (\<lambda>c. cd_timestamp c > rsg_timestamp s) (c # cs))"
        using False quiet by (simp add: tag_by_first_hit_def watched_quiet)
      finally show ?thesis .
    qed
  qed
qed

text \<open>C31: the outcome of a signal is decided by the first candle after it that reaches its
  stop or its target, in the order of time: a loss when the stop is reached, also together with the
  target, else a win, and unknown when there is no such candle. The excursions are the largest over
  the candles up to that one.\<close>

theorem tag_exact:
  "tag_from_candles ss cs = map (\<lambda>s. tag_by_first_hit s 0 0 (later_candles s cs)) ss"
  by (simp add: tag_from_candles_def later_candles_def scan_by_first_hit)

text \<open>The stop on one side of the entry, the target on the other.\<close>

definition well_placed :: "replay_signal \<Rightarrow> bool" where
  "well_placed s \<longleftrightarrow> (if is_long s then rsg_sl s < rsg_entry s \<and> rsg_entry s < rsg_tp s
                    else rsg_tp s < rsg_entry s \<and> rsg_entry s < rsg_sl s)"

lemma levels_by_excursion:
  assumes "well_placed s"
  shows "sl_hit s c \<longleftrightarrow> adverse s c \<ge> 1" "tp_hit s c \<longleftrightarrow> favourable s c \<ge> win_r s" "0 < win_r s"
  using assms
  by (auto simp: well_placed_def sl_hit_def tp_hit_def adverse_def favourable_def win_r_def replay_risk_def Let_def
      divide_le_cancel pos_le_divide_eq split: if_splits)

definition outcome_sound :: "replay_signal \<Rightarrow> replay_outcome \<Rightarrow> bool" where
  "outcome_sound s x \<longleftrightarrow>
     (let mae = (case ro_mae x of None \<Rightarrow> 0 | Some m \<Rightarrow> m); mfe = (case ro_mfe x of None \<Rightarrow> 0 | Some m \<Rightarrow> m) in
      case ro_outcome x of
        R_LOSS \<Rightarrow> ro_r_multiple x = Some (-1) \<and> ro_exit_price x = Some (rsg_sl s) \<and> mae \<ge> 1
      | R_WIN \<Rightarrow> ro_r_multiple x = Some (win_r s) \<and> 0 < win_r s \<and> ro_exit_price x = Some (rsg_tp s) \<and> mae < 1 \<and> mfe \<ge> win_r s
      | R_UNKNOWN \<Rightarrow> ro_r_multiple x = None \<and> ro_exit_price x = None \<and> mae < 1 \<and> mfe < win_r s
      | R_BE \<Rightarrow> False)"

lemma exit_fields:
  "0 \<le> m \<Longrightarrow> (case if m > 0 then Some m else None of None \<Rightarrow> 0 | Some x \<Rightarrow> x) = (m :: rat)"
  by auto

lemma scan_sound:
  assumes "well_placed s" "0 \<le> mae" "mae < 1" "0 \<le> mfe" "mfe < win_r s"
  shows "outcome_sound s (scan_candles s mae mfe cs)"
  using assms
proof (induction s mae mfe cs rule: scan_candles.induct)
  case (1 s mae mfe)
  then show ?case by (simp add: outcome_sound_def exit_at_def Let_def)
next
  case (2 s mae mfe c cs)
  note level = levels_by_excursion[OF 2(3)]
  have m: "raise_to (adverse s c) mae = max (adverse s c) mae" "raise_to (favourable s c) mfe = max (favourable s c) mfe"
    using 2(4,6) by (simp_all add: raise_is_max)
  show ?case
  proof (cases "cd_timestamp c \<le> rsg_timestamp s")
    case True
    then show ?thesis using 2 by simp
  next
    case False
    show ?thesis
    proof (cases "hit s c")
      case True
      then show ?thesis using False 2(4-7) level
        by (auto simp: Let_def m hit_def outcome_sound_def exit_at_def)
    next
      case quiet: False
      then have none: "\<not> sl_hit s c" "\<not> tp_hit s c" by (simp_all add: hit_def)
      have "outcome_sound s (scan_candles s (raise_to (adverse s c) mae) (raise_to (favourable s c) mfe) cs)"
        by (rule 2(2)[OF False refl refl refl none 2(3)]) (use 2(4-7) none level in \<open>auto simp: m\<close>)
      then show ?thesis using False none by (simp add: Let_def)
    qed
  qed
qed

text \<open>C32: for a signal with its stop and its target on the two sides of the entry: a loss
  is -1 R and has moved against the trade by at least 1 R, a win is the distance of the target in
  multiples of the risk, positive, with less than 1 R against it, and an unknown outcome has reached
  neither.\<close>

theorem tagging_sound:
  assumes "well_placed s"
  shows "list_all (outcome_sound s) (tag_from_candles [s] cs)"
  using scan_sound[OF assms] levels_by_excursion(3)[OF assms] by (simp add: tag_from_candles_def)

definition demo_signal :: "string \<Rightarrow> rat \<Rightarrow> rat \<Rightarrow> replay_signal" where
  "demo_signal d x y = \<lparr>rsg_signal_id = ''s1'', rsg_timestamp = 10, rsg_symbol = ''EURUSD'', rsg_timeframe = ''1h'',
     rsg_direction = d, rsg_signal_type = ''bos'', rsg_entry = 100, rsg_sl = x, rsg_tp = y, rsg_session = VStr ''london'',
     rsg_meta = VDict []\<rparr>"

definition demo_candle :: "time \<Rightarrow> rat \<Rightarrow> rat \<Rightarrow> candle" where
  "demo_candle t a b = \<lparr>cd_timestamp = t, cd_open = a, cd_high = b, cd_low = a, cd_close = b, cd_volume = None\<rparr>"

theorem tagging_sound_witness:
  "outcome_sound (demo_signal ''LONG'' 90 120)
     (hd (tag_from_candles [demo_signal ''LONG'' 90 120] [demo_candle 30 95 125, demo_candle 20 92 110])) \<and>
   map ro_outcome (tag_from_candles [demo_signal ''LONG'' 90 120] [demo_candle 30 95 125, demo_candle 20 92 110]) = [R_WIN]"
proof -
  have "well_placed (demo_signal ''LONG'' 90 120)" by (simp add: well_placed_def is_long_def demo_signal_def)
  from tagging_sound[OF this, of "[demo_candle 30 95 125, demo_candle 20 92 110]"]
  have "outcome_sound (demo_signal ''LONG'' 90 120)
     (hd (tag_from_candles [demo_signal ''LONG'' 90 120] [demo_candle 30 95 125, demo_candle 20 92 110]))"
    by (simp add: tag_from_candles_def)
  moreover have "map ro_outcome (tag_from_candles [demo_signal ''LONG'' 90 120] [demo_candle 30 95 125, demo_candle 20 92 110]) = [R_WIN]"
    by code_simp
  ultimately show ?thesis by blast
qed

text \<open>The loader writes directions in lower case, the tagger compares them with upper case.\<close>

lemma lower_no_L: "lower_char c \<noteq> CHR ''L''"
proof
  assume eq: "lower_char c = CHR ''L''"
  then have n: "(of_char (lower_char c) :: nat) = 76" by simp
  show False
  proof (cases "65 \<le> (of_char c :: nat) \<and> (of_char c :: nat) \<le> 90")
    case True
    then have "((of_char c :: nat) + 32) mod 256 = of_char c + 32" by (intro mod_less) linarith
    then have "(of_char (lower_char c) :: nat) = of_char c + 32" using True by (simp add: lower_char_def Let_def)
    then show False using n True by simp
  next
    case False
    then have "lower_char c = c" by (auto simp: lower_char_def Let_def)
    then show False using n False by simp
  qed
qed

lemma lower_not_LONG: "py_lower t \<noteq> ''LONG''"
  by (cases t) (simp_all add: py_lower_def lower_no_L)

lemma parsed_direction: "parse_signal lib n line = Inr s \<Longrightarrow> \<exists>t. rsg_direction s = py_lower t"
  by (auto simp: parse_signal_def signal_of_dict_def split: option.splits pyval.splits sum.splits list.splits)

lemma parsed_directions:
  "parse_lines lib n xs acc = Inr ss \<Longrightarrow> \<forall>s\<in>set acc. \<exists>t. rsg_direction s = py_lower t \<Longrightarrow> s \<in> set ss \<Longrightarrow>
     \<exists>t. rsg_direction s = py_lower t"
proof (induction lib n xs acc rule: parse_lines.induct)
  case (2 lib n x xs acc)
  then show ?case
    by (cases "py_strip x = []"; cases "parse_signal lib n (py_strip x)") (auto dest: parsed_direction)
qed simp

lemma loaded_short:
  assumes "load_jsonl lib file = Inr ss" "s \<in> set ss"
  shows "\<not> is_long s"
proof -
  obtain lines ps where "parse_lines lib 1 lines [] = Inr ps" "s \<in> set ps"
    using assms by (auto simp: load_jsonl_def simp del: sort_key_simps split: option.splits sum.splits list.splits)
  from parsed_directions[OF this(1) _ this(2)] obtain t where "rsg_direction s = py_lower t" by auto
  then show ?thesis using lower_not_LONG by (simp add: is_long_def)
qed

text \<open>No signal that the loader reads counts as a long one. A long signal with its
  stop below the entry is tagged as a loss at its stop as soon as the next candle reaches up to the
  stop, wherever the target is.\<close>

theorem loaded_longs_lose:
  assumes "load_jsonl lib file = Inr ss" "s \<in> set ss" "later_candles s cs = c # rest" "rsg_sl s \<le> cd_high c"
  shows "map ro_outcome (tag_from_candles [s] cs) = [R_LOSS] \<and>
    map ro_exit_time (tag_from_candles [s] cs) = [Some (cd_timestamp c)]"
proof -
  have "sl_hit s c" using loaded_short[OF assms(1,2)] assms(4) by (simp add: sl_hit_def)
  then show ?thesis unfolding tag_exact using assms(3) by (simp add: tag_by_first_hit_def hit_def exit_at_def)
qed

definition plain_replay :: orch_libs where
  "plain_replay = \<lparr>ol_parse_int = (\<lambda>_. None), ol_parse_float = (\<lambda>_. None), ol_str = (\<lambda>_. ''?''), ol_json_file = (\<lambda>_. None)\<rparr>"

definition demo_replay :: "string \<Rightarrow> replay_libs" where
  "demo_replay d = \<lparr>rl_libs = plain_replay,
     rl_loads = (\<lambda>_. Some (VDict [(''signal_id'', VStr ''s1''), (''timestamp'', VStr ''t''), (''direction'', VStr d),
        (''entry'', VInt 100), (''sl'', VInt 90), (''tp'', VInt 120)])),
     rl_strptime = (\<lambda>_. Some 10)\<rparr>"

theorem loaded_longs_lose_witness:
  "\<exists>s. load_jsonl (demo_replay ''LONG'') (Some [''{}'']) = Inr [s] \<and> rsg_sl s < rsg_entry s \<and>
     map ro_outcome (tag_from_candles [s] [demo_candle 20 99 130]) = [R_LOSS]"
proof -
  let ?s = "\<lparr>rsg_signal_id = ''s1'', rsg_timestamp = 10, rsg_symbol = [], rsg_timeframe = [], rsg_direction = ''long'',
     rsg_signal_type = [], rsg_entry = 100, rsg_sl = 90, rsg_tp = 120, rsg_session = VNone, rsg_meta = VDict []\<rparr>"
  have "py_strip ''{}'' \<noteq> []" "py_lower ''LONG'' = ''long''" by code_simp+
  then have l: "load_jsonl (demo_replay ''LONG'') (Some [''{}'']) = Inr [?s]"
    by (simp add: load_jsonl_def parse_signal_def demo_replay_def plain_replay_def signal_of_dict_def float_field_def dget_def text_field_def py_str_def)
  have "later_candles ?s [demo_candle 20 99 130] = [demo_candle 20 99 130]" by (simp add: later_candles_def demo_candle_def)
  from loaded_longs_lose[OF l _ this] l show ?thesis by (simp add: demo_candle_def)
qed

section \<open>The figures of a group\<close>

text \<open>The largest value over the stretches of consecutive results.\<close>

definition stretches :: "(rat list \<Rightarrow> bool) \<Rightarrow> rat list \<Rightarrow> rat list set" where
  "stretches p rs = {ys. sublist ys rs \<and> p ys}"

definition ends :: "(rat list \<Rightarrow> bool) \<Rightarrow> rat list \<Rightarrow> rat list set" where
  "ends p rs = {ys. suffix ys rs \<and> p ys}"

definition over_stretches :: "(rat list \<Rightarrow> 'b::linorder) \<Rightarrow> (rat list \<Rightarrow> bool) \<Rightarrow> rat list \<Rightarrow> 'b" where
  "over_stretches f p rs = Max (f ` stretches p rs)"

definition over_ends :: "(rat list \<Rightarrow> 'b::linorder) \<Rightarrow> (rat list \<Rightarrow> bool) \<Rightarrow> rat list \<Rightarrow> 'b" where
  "over_ends f p rs = Max (f ` ends p rs)"

lemma finite_stretches [simp]: "finite (stretches p rs)" "finite (ends p rs)"
proof -
  have "stretches p rs \<subseteq> set (sublists rs)" by (auto simp: stretches_def)
  then show "finite (stretches p rs)" by (rule finite_subset) simp
  have "ends p rs \<subseteq> set (suffixes rs)" by (auto simp: ends_def)
  then show "finite (ends p rs)" by (rule finite_subset) simp
qed

lemma stretches_Nil [simp]: "p [] \<Longrightarrow> stretches p [] = {[]}" "p [] \<Longrightarrow> ends p [] = {[]}"
  by (auto simp: stretches_def ends_def)

lemma nonempty_stretches:
  assumes "p []"
  shows "stretches p rs \<noteq> {}" "ends p rs \<noteq> {}"
proof -
  have "[] \<in> stretches p rs" "[] \<in> ends p rs" using assms by (simp_all add: stretches_def ends_def)
  then show "stretches p rs \<noteq> {}" "ends p rs \<noteq> {}" by blast+
qed

lemma stretches_snoc:
  assumes "p []"
  shows "over_stretches f p (rs @ [r]) = max (over_stretches f p rs) (over_ends f p (rs @ [r]))"
proof -
  have "f ` stretches p (rs @ [r]) = f ` stretches p rs \<union> f ` ends p (rs @ [r])"
    by (auto simp: stretches_def ends_def sublist_snoc)
  then show ?thesis
    unfolding over_stretches_def over_ends_def using nonempty_stretches[where p = p, OF assms] by (simp add: Max_Un)
qed

lemma ends_snoc: "ends p (rs @ [r]) = (if p [] then {[]} else {}) \<union> (\<lambda>ys. ys @ [r]) ` ends (\<lambda>ys. p (ys @ [r])) rs"
  by (auto simp: ends_def suffix_snoc)

lemma Max_shift:
  fixes f :: "'c \<Rightarrow> rat"
  assumes "finite A" "A \<noteq> {}"
  shows "Max ((\<lambda>x. f x - r) ` A) = Max (f ` A) - r"
proof -
  have "Max ((\<lambda>x. x - r) ` f ` A) = Max (f ` A) - r"
    by (rule mono_Max_commute[symmetric]) (use assms in \<open>auto simp: mono_def\<close>)
  then show ?thesis by (simp add: image_image)
qed

lemma fall_snoc: "over_ends (\<lambda>ys. - sum_list ys) (\<lambda>_. True) (rs @ [r]) = max 0 (over_ends (\<lambda>ys. - sum_list ys) (\<lambda>_. True) rs - r)"
proof -
  have "(\<lambda>ys. - sum_list ys) ` ends (\<lambda>_. True) (rs @ [r]) = insert 0 ((\<lambda>ys. - sum_list ys - r) ` ends (\<lambda>_. True) rs)"
    by (simp add: ends_snoc image_image)
  then show ?thesis
    unfolding over_ends_def using nonempty_stretches(2)[of "\<lambda>_. True" rs] by (simp add: Max_shift)
qed

lemma streak_snoc:
  "over_ends length (list_all q) (rs @ [r]) = (if q r then Suc (over_ends length (list_all q) rs) else 0)"
proof (cases "q r")
  case True
  have "Max (Suc ` length ` ends (list_all q) rs) = Suc (Max (length ` ends (list_all q) rs))"
    by (rule mono_Max_commute[symmetric]) (use nonempty_stretches(2)[of "list_all q" rs] in \<open>auto simp: mono_def\<close>)
  moreover have "length ` ends (list_all q) (rs @ [r]) = insert 0 (Suc ` length ` ends (list_all q) rs)"
    using True by (simp add: ends_snoc image_image)
  ultimately show ?thesis
    unfolding over_ends_def using True nonempty_stretches(2)[of "list_all q" rs] by simp
next
  case False
  then have "ends (list_all q) (rs @ [r]) = {[]}" by (simp add: ends_snoc) (auto simp: ends_def)
  then show ?thesis using False by (simp add: over_ends_def)
qed

lemma streaks_snoc:
  "over_stretches length (list_all q) (rs @ [r]) = max (over_stretches length (list_all q) rs) (over_ends length (list_all q) (rs @ [r]))"
  by (rule stretches_snoc) simp

lemma equity_step:
  "rn_cumulative (run_streaks r (run_equity r st)) = rn_cumulative st + r"
  "rn_peak (run_streaks r (run_equity r st)) = max (rn_peak st) (rn_cumulative st + r)"
  "rn_max_dd (run_streaks r (run_equity r st)) =
     max (rn_max_dd st) (max (rn_peak st) (rn_cumulative st + r) - (rn_cumulative st + r))"
  by (simp_all add: run_streaks_def run_equity_def Let_def max_def)

lemma streak_step:
  "rn_losses (run_streaks r (run_equity r st)) = (if r < 0 then Suc (rn_losses st) else 0)"
  "rn_wins (run_streaks r (run_equity r st)) = (if r > 0 then Suc (rn_wins st) else 0)"
  "rn_max_losses (run_streaks r (run_equity r st)) = (if r < 0 then max (rn_max_losses st) (Suc (rn_losses st)) else rn_max_losses st)"
  "rn_max_wins (run_streaks r (run_equity r st)) = (if r > 0 then max (rn_max_wins st) (Suc (rn_wins st)) else rn_max_wins st)"
  by (simp_all add: run_streaks_def run_equity_def Let_def max_def)

lemma results_snoc: "run_results (rs @ [r]) = run_streaks r (run_equity r (run_results rs))"
  by (simp add: run_results_def)

lemma equity_exact:
  "rn_cumulative (run_results rs) = sum_list rs"
  "rn_peak (run_results rs) = sum_list rs + over_ends (\<lambda>ys. - sum_list ys) (\<lambda>_. True) rs"
  "rn_max_dd (run_results rs) = over_stretches (\<lambda>ys. - sum_list ys) (\<lambda>_. True) rs"
proof (induction rs rule: rev_induct)
  case Nil
  { case 1 show ?case by (simp add: run_results_def run_start_def) }
  { case 2 show ?case by (simp add: run_results_def run_start_def over_ends_def) }
  { case 3 show ?case by (simp add: run_results_def run_start_def over_stretches_def) }
next
  case (snoc r rs)
  let ?e = "over_ends (\<lambda>ys. - sum_list ys) (\<lambda>_. True) rs"
  have peak: "max (sum_list rs + ?e) (sum_list rs + r) = sum_list rs + r + max 0 (?e - r)" by (simp add: max_def)
  { case 1 show ?case by (simp add: results_snoc equity_step snoc) }
  { case 2 show ?case by (simp add: results_snoc equity_step snoc fall_snoc peak) }
  { case 3 show ?case
      by (simp add: results_snoc equity_step snoc peak stretches_snoc[where p = "\<lambda>_. True", OF TrueI] fall_snoc) }
qed

lemma streaks_exact:
  "rn_losses (run_results rs) = over_ends length (list_all (\<lambda>r. r < 0)) rs"
  "rn_wins (run_results rs) = over_ends length (list_all (\<lambda>r. r > 0)) rs"
  "rn_max_losses (run_results rs) = over_stretches length (list_all (\<lambda>r. r < 0)) rs"
  "rn_max_wins (run_results rs) = over_stretches length (list_all (\<lambda>r. r > 0)) rs"
proof (induction rs rule: rev_induct)
  case Nil
  { case 1 show ?case by (simp add: run_results_def run_start_def over_ends_def) }
  { case 2 show ?case by (simp add: run_results_def run_start_def over_ends_def) }
  { case 3 show ?case by (simp add: run_results_def run_start_def over_stretches_def) }
  { case 4 show ?case by (simp add: run_results_def run_start_def over_stretches_def) }
next
  case (snoc r rs)
  { case 1 show ?case by (simp add: results_snoc streak_step snoc streak_snoc) }
  { case 2 show ?case by (simp add: results_snoc streak_step snoc streak_snoc) }
  { case 3 show ?case by (simp add: results_snoc streak_step snoc streaks_snoc streak_snoc) }
  { case 4 show ?case by (simp add: results_snoc streak_step snoc streaks_snoc streak_snoc) }
qed

text \<open>C33: the drawdown of a group is the largest loss over any stretch of consecutive
  results, and its streaks are the lengths of the longest stretches of losing and of winning results.\<close>

theorem group_run_exact:
  "gp_max_drawdown_r (compute_group_metrics s os) = py_round 4 (over_stretches (\<lambda>ys. - sum_list ys) (\<lambda>_. True) (results_of os)) \<and>
   gp_max_loss_streak (compute_group_metrics s os) = over_stretches length (list_all (\<lambda>r. r < 0)) (results_of os) \<and>
   gp_max_win_streak (compute_group_metrics s os) = over_stretches length (list_all (\<lambda>r. r > 0)) (results_of os)"
  by (simp add: compute_group_metrics_def Let_def equity_exact streaks_exact)

text \<open>The outcomes the tagger produces for well placed signals.\<close>

definition decided :: "replay_outcome \<Rightarrow> bool" where
  "decided r = (case ro_outcome r of
      R_WIN \<Rightarrow> (case ro_r_multiple r of None \<Rightarrow> False | Some x \<Rightarrow> x > 0)
    | R_LOSS \<Rightarrow> (case ro_r_multiple r of None \<Rightarrow> False | Some x \<Rightarrow> x < 0)
    | R_UNKNOWN \<Rightarrow> ro_r_multiple r = None
    | R_BE \<Rightarrow> False)"

definition gains :: "replay_outcome list \<Rightarrow> rat list" where
  "gains os = filter (\<lambda>r. r > 0) (results_of os)"

definition costs :: "replay_outcome list \<Rightarrow> rat list" where
  "costs os = filter (\<lambda>r. r < 0) (results_of os)"

lemma decided_cases:
  assumes "decided r"
  obtains x where "ro_outcome r = R_WIN" "ro_r_multiple r = Some x" "x > 0"
  | x where "ro_outcome r = R_LOSS" "ro_r_multiple r = Some x" "x < 0"
  | "ro_outcome r = R_UNKNOWN" "ro_r_multiple r = None"
  using assms by (auto simp: decided_def split: replay_kind.splits option.splits)

lemma results_Cons [simp]:
  "results_of (r # os) = (case ro_r_multiple r of None \<Rightarrow> [] | Some x \<Rightarrow> [x]) @ results_of os"
  "replay_distribution (r # os) =
     (case ro_r_multiple r of None \<Rightarrow> [] | Some x \<Rightarrow> if ro_outcome r = R_UNKNOWN then [] else [x]) @ replay_distribution os"
  "of_kind k (r # os) = (if ro_outcome r = k then 1 else 0) + of_kind k os"
  by (simp_all add: results_of_def replay_distribution_def of_kind_def)

lemma decided_counts:
  assumes "list_all decided os"
  shows "of_kind R_WIN os = length (gains os)" "of_kind R_LOSS os = length (costs os)"
    "replay_distribution os = results_of os" "sum_list (results_of os) = sum_list (gains os) - sum_list (map abs (costs os))"
    "length (results_of os) = length (gains os) + length (costs os)"
proof -
  have "of_kind R_WIN os = length (gains os) \<and> of_kind R_LOSS os = length (costs os) \<and>
    replay_distribution os = results_of os \<and> sum_list (results_of os) = sum_list (gains os) - sum_list (map abs (costs os)) \<and>
    length (results_of os) = length (gains os) + length (costs os)"
    using assms
  proof (induction os)
    case Nil
    show ?case by (simp add: of_kind_def gains_def costs_def results_of_def replay_distribution_def)
  next
    case (Cons r os)
    then have "decided r" by simp
    then show ?case using Cons by (cases rule: decided_cases) (simp_all add: gains_def costs_def)
  qed
  then show "of_kind R_WIN os = length (gains os)" "of_kind R_LOSS os = length (costs os)"
    "replay_distribution os = results_of os" "sum_list (results_of os) = sum_list (gains os) - sum_list (map abs (costs os))"
    "length (results_of os) = length (gains os) + length (costs os)" by blast+
qed

text \<open>The expectancy of a group with wins and losses is not the mean of its results:
  it is too high by the mean loss times 1 minus twice the win rate, so a group that loses more
  often than it wins looks better than it is.\<close>

theorem group_expectancy_bias:
  assumes "list_all decided os" "gains os \<noteq> []" "costs os \<noteq> []"
  shows "(let w = of_nat (length (gains os)) / of_nat (length (gains os) + length (costs os)) in
     gp_expectancy (compute_group_metrics s os) =
       py_round 4 (compute_expectancy os + (1 - 2 * w) * (sum_list (map abs (costs os)) / of_nat (length (costs os)))))"
proof -
  note n = decided_counts[OF assms(1)]
  define a b p q where v: "a = sum_list (gains os)" "b = sum_list (map abs (costs os))"
    "p = (of_nat (length (gains os)) :: rat)" "q = (of_nat (length (costs os)) :: rat)"
  have pos: "0 < p" "0 < q" using assms(2,3) by (simp_all add: v)
  have wins: "filter (\<lambda>r. r \<noteq> 0 \<and> r > 0) (results_of os) = gains os" "filter (\<lambda>r. r \<noteq> 0 \<and> r < 0) (results_of os) = costs os"
    unfolding gains_def costs_def by (rule filter_cong; auto)+
  have mean: "compute_expectancy os = (a - b) / (p + q)"
    using assms(2) n(3-5) by (auto simp: compute_expectancy_def Let_def v)
  have "(a / p - b / q) * (p / (p + q)) = (a - b) / (p + q) + (1 - 2 * (p / (p + q))) * (b / q)"
  proof -
    have "(a / p - b / q) * p = a - b * p / q" using pos by (simp add: left_diff_distrib)
    then have "(a / p - b / q) * (p / (p + q)) = (a - b * p / q) / (p + q)" by (metis times_divide_eq_right)
    also have "\<dots> = (a - b) / (p + q) + (b - b * p / q) / (p + q)" by (simp add: diff_divide_distrib add_divide_distrib)
    also have "(b - b * p / q) / (p + q) = (1 - 2 * (p / (p + q))) * (b / q)"
      using pos by (simp add: field_simps)
    finally show ?thesis .
  qed
  then show ?thesis
    using assms(2,3) n(1,2) pos unfolding Let_def
    by (simp add: compute_group_metrics_def Let_def wins group_expectancy_def rate_in_def mean v)
qed

text \<open>One win of 2 R and three losses: a mean of -1/4 R, reported as 1/4 R.\<close>

definition losing_group :: "replay_outcome list" where
  "losing_group = map (\<lambda>(k, r). \<lparr>ro_signal_id = ''s'', ro_outcome = k, ro_r_multiple = Some r, ro_mae = None, ro_mfe = None,
     ro_exit_price = None, ro_exit_time = None\<rparr>) [(R_LOSS, -1), (R_WIN, 2), (R_LOSS, -1), (R_LOSS, -1)]"

definition default_limits :: allow_limits where
  "default_limits = \<lparr>lm_min_samples = 4, lm_min_expectancy = 1/5, lm_max_dd = 10, lm_max_streak = 7\<rparr>"

lemma losing_group_mean: "compute_expectancy losing_group = -1/4"
  by code_simp

theorem group_expectancy_bias_witness:
  "gp_expectancy (compute_group_metrics (demo_signal ''long'' 90 120) losing_group) = 1/4 \<and>
   compute_expectancy losing_group < 0 \<and>
   passes_limits default_limits (group_to_dict (compute_group_metrics (demo_signal ''long'' 90 120) losing_group)) = Some True"
proof -
  have d: "list_all decided losing_group" "gains losing_group = [2]" "costs losing_group = [-1, -1, -1]" by code_simp+
  have "py_round 4 (1/4 :: rat) = 1/4" by (simp add: py_round_def round_half_even_def)
  then have e: "gp_expectancy (compute_group_metrics (demo_signal ''long'' 90 120) losing_group) = 1/4"
    using group_expectancy_bias[OF d(1), of "demo_signal ''long'' 90 120"] by (simp add: d Let_def losing_group_mean)
  moreover have "passes_limits default_limits (group_to_dict (compute_group_metrics (demo_signal ''long'' 90 120) losing_group)) = Some True"
  proof -
    let ?g = "compute_group_metrics (demo_signal ''long'' 90 120) losing_group"
    have r: "results_of losing_group = [-1, 2, -1, -1]" by code_simp
    have "rn_max_dd (run_results [-1, 2, -1, -1]) = 2" "rn_max_losses (run_results [-1, 2, -1, -1]) = 2"
      by (simp_all add: run_results_def equity_step streak_step run_start_def)
    moreover have "py_round 4 (2 :: rat) = 2" by (simp add: py_round_def round_half_even_def)
    ultimately have "gp_max_drawdown_r ?g = 2" "gp_max_loss_streak ?g = 2" "gp_sample_size ?g = 4"
      by (simp_all add: compute_group_metrics_def Let_def r) (simp add: losing_group_def)
    then show ?thesis
      by (simp add: passes_limits_def at_least_def at_most_def group_to_dict_def dget_def default_limits_def e)
  qed
  ultimately show ?thesis by (simp add: losing_group_mean)
qed

section \<open>The allowlist\<close>

text \<open>All four figures are numbers within their limits; a missing drawdown or streak is not.\<close>

definition within_limits :: "allow_limits \<Rightarrow> pydict \<Rightarrow> bool" where
  "within_limits lm d \<longleftrightarrow>
     (case (as_number (dget ''sample_size'' d (VFloat 0)), as_number (dget ''expectancy'' d (VFloat 0)),
            as_number (dget ''max_drawdown_r'' d VNone), as_number (dget ''max_loss_streak'' d VNone)) of
        (Some n, Some e, Some dd, Some streak) \<Rightarrow>
          of_int (lm_min_samples lm) \<le> n \<and> lm_min_expectancy lm \<le> e \<and> dd \<le> lm_max_dd lm \<and> streak \<le> of_int (lm_max_streak lm)
      | _ \<Rightarrow> False)"

lemma passes_iff: "passes_limits lm d = Some True \<longleftrightarrow> within_limits lm d"
  by (auto simp: passes_limits_def within_limits_def at_least_def at_most_def dget_def split: option.splits if_splits)

text \<open>A snapshot or a group belongs to the group of its five fields; it has no group when one is missing.\<close>

definition allowed_by :: "orch_libs \<Rightarrow> allow_limits \<Rightarrow> pyval list \<Rightarrow> string \<Rightarrow> bool" where
  "allowed_by l lm gs k \<longleftrightarrow> (\<exists>g\<in>set gs. case g of VDict d \<Rightarrow> within_limits lm d \<and> make_key l d = Some k | _ \<Rightarrow> False)"

lemma loaded_groups:
  "load_groups l (map VDict ds) ks = (True, fold (\<lambda>d ks. case make_key l d of None \<Rightarrow> ks | Some k \<Rightarrow> List.insert k ks) ds ks)"
  by (induction ds arbitrary: ks) simp_all

lemma loaded_keys:
  "set (fold (\<lambda>d ks. case make_key l d of None \<Rightarrow> ks | Some k \<Rightarrow> List.insert k ks) ds ks) = set ks \<union> {k. \<exists>d\<in>set ds. make_key l d = Some k}"
  by (induction ds arbitrary: ks) (auto split: option.splits)

lemma entry_key: "make_key l (allow_entry_to_dict (entry_of g)) = make_key l g"
proof -
  have t: "truthy (dget k g (VStr [])) = truthy (dget k g VNone)" for k
    by (cases "map_of g k") (simp_all add: dget_def)
  have v: "dget k g (VStr []) = dget k g VNone" if "truthy (dget k g VNone)" for k
    using that by (cases "map_of g k") (simp_all add: dget_def)
  have f: "dget k (allow_entry_to_dict (entry_of g)) VNone = dget k g (VStr [])"
    if "k \<in> {''symbol'', ''timeframe'', ''session'', ''signal_type'', ''direction''}" for k
    using that by (auto simp: allow_entry_to_dict_def entry_of_def Let_def dget_def)
  show ?thesis
    by (simp add: make_key_def Let_def f t) (auto simp: v)
qed

lemma selected_keys:
  "select_groups lm gs = Some es \<Longrightarrow> (\<exists>e\<in>set es. make_key l (allow_entry_to_dict e) = Some k) \<longleftrightarrow> allowed_by l lm gs k"
proof (induction lm gs arbitrary: es rule: select_groups.induct)
  case (2 lm g gs)
  then obtain b fs where "passes_limits lm g = Some b" "select_groups lm gs = Some fs"
    "es = (if b then entry_of g # fs else fs)"
    by (auto split: bind_splits)
  then show ?case using 2(1)[of b fs] passes_iff[of lm g] by (auto simp: allowed_by_def entry_key)
qed (simp_all add: allowed_by_def)

lemma built_allowlist:
  assumes "build_allowlist l now lm summary = Some a" "iterate (dget ''groups'' summary (VList [])) = Some gs"
    "ol_json_file l path = Some (VDict a)"
  shows "\<exists>ks. load_allowlist l path al = (True, \<lparr>al_allowed_keys = ks, al_loaded = True\<rparr>) \<and> (\<forall>k. k \<in> set ks \<longleftrightarrow> allowed_by l lm gs k)"
proof -
  obtain es where es: "select_groups lm gs = Some es" and a: "dget ''allowed_groups'' a (VList []) =
      VList (map VDict (map allow_entry_to_dict (sort_key (allow_entry_to_key l) es)))"
    using assms(1,2) by (auto simp: build_allowlist_def filter_groups_def dget_def split: bind_splits)
  let ?ds = "map allow_entry_to_dict (sort_key (allow_entry_to_key l) es)"
  let ?ks = "fold (\<lambda>d ks. case make_key l d of None \<Rightarrow> ks | Some k \<Rightarrow> List.insert k ks) ?ds []"
  have "load_allowlist l path al = (True, \<lparr>al_allowed_keys = ?ks, al_loaded = True\<rparr>)"
    using assms(3) by (simp only: load_allowlist_def option.case pyval.case a iterate.simps loaded_groups prod.case Let_def)
  moreover have "k \<in> set ?ks \<longleftrightarrow> allowed_by l lm gs k" for k
    using selected_keys[OF es, of l k] by (simp add: loaded_keys)
  ultimately show ?thesis by blast
qed

text \<open>C30: an orchestrator that is told to read the allowlist built from a summary
  lets a snapshot pass its first gate exactly when one of the five fields of its group is missing
  or the summary has that group within all limits; otherwise the whole check answers with the veto
  "not_in_allowlist".\<close>

theorem allowlist_gate_exact:
  assumes "build_allowlist l now lm summary = Some a" "iterate (dget ''groups'' summary (VList [])) = Some gs"
    "ol_json_file l path = Some (VDict a)" "path \<noteq> []" "\<not> oc_permissive o1" "\<not> al_loaded (oc_allowlist o1)"
    "load_config ''allowlist'' o1 = VDict [(''enabled'', VBool True), (''path'', VStr path)]"
  shows "case make_key l snap of
      None \<Rightarrow> allowlist_check l t snap (o1\<lparr>oc_allowlist := consult_allowlist l o1\<rparr>) = Go
    | Some k \<Rightarrow> if allowed_by l lm gs k then allowlist_check l t snap (o1\<lparr>oc_allowlist := consult_allowlist l o1\<rparr>) = Go
        else fst (pre_reasoning_policy_check l t snap o1) = veto_result ''not_in_allowlist'' @ [(''group_key'', VStr k)]"
proof -
  obtain ks where ks: "load_allowlist l path (oc_allowlist o1) = (True, \<lparr>al_allowed_keys = ks, al_loaded = True\<rparr>)"
      "k \<in> set ks \<longleftrightarrow> allowed_by l lm gs k" for k
    using built_allowlist[OF assms(1-3)] by blast
  let ?o = "o1\<lparr>oc_allowlist := consult_allowlist l o1\<rparr>"
  have read: "oc_allowlist ?o = \<lparr>al_allowed_keys = ks, al_loaded = True\<rparr>" "load_config ''allowlist'' ?o = load_config ''allowlist'' o1"
    using assms(4,6,7) ks(1) by (simp_all add: consult_allowlist_def vget_def dget_def Let_def load_config_def)
  have check: "allowlist_check l t snap ?o = (case make_key l snap of None \<Rightarrow> Go
      | Some k \<Rightarrow> if allowed_by l lm gs k then Go
          else Veto (veto_result ''not_in_allowlist'' @ [(''group_key'', VStr k)])
             (veto_entry t ''not_in_allowlist'' [(''group_key'', VStr k)] snap))"
    unfolding allowlist_check_def read assms(7) by (simp add: vget_def dget_def is_allowed_def ks(2) split: option.split)
  show ?thesis
    using assms(5)
    by (auto simp: check pre_reasoning_policy_check_def Let_def static_checks_def split: option.split)
qed

text \<open>A summary of two groups, one of them within the limits, and a file that holds the list built
  from it.\<close>

definition summary_group :: "string \<Rightarrow> rat \<Rightarrow> pydict" where
  "summary_group d x = [(''symbol'', VStr ''EURUSD''), (''timeframe'', VStr ''1h''), (''session'', VStr ''london''),
     (''signal_type'', VStr ''bos''), (''direction'', VStr d), (''sample_size'', VInt 4), (''expectancy'', VFloat x),
     (''max_drawdown_r'', VFloat 2), (''max_loss_streak'', VInt 2)]"

definition demo_summary :: pydict where
  "demo_summary = [(''timestamp'', VStr ''now''), (''groups'', VList [VDict (summary_group ''long'' (1/4)), VDict (summary_group ''short'' 0)])]"

definition demo_list :: pydict where
  "demo_list = the (build_allowlist plain_replay (VStr ''now'') default_limits demo_summary)"

definition list_libs :: orch_libs where
  "list_libs = plain_replay\<lparr>ol_json_file := (\<lambda>_. Some (VDict demo_list))\<rparr>"

definition listening :: orchestrator where
  "listening = (orch_init False)\<lparr>oc_constraints := [(''allowlist'', VDict [(''enabled'', VBool True), (''path'', VStr ''allowlist.json'')])]\<rparr>"

definition snapshot_of :: "string \<Rightarrow> pydict" where
  "snapshot_of d = [(''symbol'', VStr ''EURUSD''), (''timeframe'', VStr ''1h''), (''session'', VStr ''london''),
     (''signal_type'', VStr ''bos''), (''direction'', VStr d)]"

theorem allowlist_gate_exact_witness:
  "allowlist_check list_libs 5 (snapshot_of ''long'') (listening\<lparr>oc_allowlist := consult_allowlist list_libs listening\<rparr>) = Go \<and>
   fst (pre_reasoning_policy_check list_libs 5 (snapshot_of ''short'') listening) =
     veto_result ''not_in_allowlist'' @ [(''group_key'', VStr ''EURUSD|1h|london|bos|short'')]"
proof -
  let ?gs = "[VDict (summary_group ''long'' (1/4)), VDict (summary_group ''short'' 0)]"
  have gs: "iterate (dget ''groups'' demo_summary (VList [])) = Some ?gs"
    by (simp add: demo_summary_def dget_def)
  have sel: "select_groups default_limits ?gs = Some [entry_of (summary_group ''long'' (1/4))]" by code_simp
  have show_same: "py_str list_libs = py_str plain_replay" by (simp add: fun_eq_iff py_str_def list_libs_def split: pyval.split)
  have same: "build_allowlist list_libs = build_allowlist plain_replay"
    unfolding build_allowlist_def filter_groups_def allow_entry_to_key_def show_same by simp
  have built: "build_allowlist list_libs (VStr ''now'') default_limits demo_summary = Some demo_list"
    unfolding same demo_list_def
  proof -
    have "filter_groups plain_replay default_limits ?gs = Some [entry_of (summary_group ''long'' (1/4))]"
      unfolding filter_groups_def sel by simp
    then show "build_allowlist plain_replay (VStr ''now'') default_limits demo_summary =
        Some (the (build_allowlist plain_replay (VStr ''now'') default_limits demo_summary))"
      by (simp add: build_allowlist_def gs)
  qed
  have same_keys: "make_key list_libs = make_key plain_replay" unfolding make_key_def show_same by (rule refl)
  have same_groups: "allowed_by list_libs = allowed_by plain_replay" unfolding allowed_by_def same_keys by (rule refl)
  have content: "ol_json_file list_libs ''allowlist.json'' = Some (VDict demo_list)" by (simp add: list_libs_def)
  have cfg: "load_config ''allowlist'' listening = VDict [(''enabled'', VBool True), (''path'', VStr ''allowlist.json'')]"
    "\<not> oc_permissive listening" "\<not> al_loaded (oc_allowlist listening)"
    by (simp_all add: listening_def load_config_def dget_def orch_init_def)
  note gate = allowlist_gate_exact[OF built gs content _ cfg(2,3,1)]
  have keys: "make_key list_libs (snapshot_of ''long'') = Some ''EURUSD|1h|london|bos|long''"
    "make_key list_libs (snapshot_of ''short'') = Some ''EURUSD|1h|london|bos|short''" unfolding same_keys by code_simp+
  have "allowed_by list_libs default_limits ?gs ''EURUSD|1h|london|bos|long''"
    "\<not> allowed_by list_libs default_limits ?gs ''EURUSD|1h|london|bos|short''" unfolding same_groups by code_simp+
  then show ?thesis
    using gate[where snap = "snapshot_of ''long''" and t = 5] gate[where snap = "snapshot_of ''short''" and t = 5] by (simp add: keys)
qed

end
