(* ===== verification/Alert_Memory.thy ===== *)
theory Alert_Memory
  imports Orch_Policy
begin

text \<open>
  The alert memory of \<open>ict_trading_system/backend/memory_service.py\<close>: validation and normalisation of
  alerts, the script that writes a window of alerts atomically, reading a window, the summary of a
  timeframe, the alignment and cohesion of the timeframes, the analytics, the fused snapshot and
  the handling of a new alert.

  The Redis client is a parameter: the record of the commands the code uses, over a state it does
  not look into. So are the JSON encodings of alerts, snapshots and history entries, \<open>tanh\<close>, and
  whether the lock of a snapshot is free. The expiry of keys, the registry of symbols, the counters
  and a Redis that fails are left out; symbols and timeframes are texts.
\<close>

section \<open>Alerts\<close>

record alert =
  at_symbol :: string
  at_tf :: string
  at_ts :: int
  at_close :: rat
  at_bias_local :: pyval
  at_regime :: pyval
  at_bos :: pyval
  at_sweep :: pyval
  at_ob_count :: nat
  at_imbalance_count :: nat

definition TF_ORDER :: "string list" where
  "TF_ORDER = [''D'', ''H4'', ''H1'', ''M15'', ''M5'', ''M3'']"

definition WINDOW_CAPS :: "(string \<times> nat) list" where
  "WINDOW_CAPS = [(''D'', 8), (''H4'', 12), (''H1'', 24), (''M15'', 48), (''M5'', 80), (''M3'', 120)]"

definition TF_WEIGHTS :: "(string \<times> rat) list" where
  "TF_WEIGHTS = [(''D'', 3), (''H4'', 2), (''H1'', 3/2), (''M15'', 1), (''M5'', 4/5), (''M3'', 3/5)]"

fun safe_get :: "pyval \<Rightarrow> string list \<Rightarrow> pyval \<Rightarrow> pyval" where
  "safe_get cur [] dflt = cur"
| "safe_get (VDict d) (p # ps) dflt =
     (if dget p d VNone = VNone then dflt else safe_get (dget p d VNone) ps dflt)"
| "safe_get cur (p # ps) dflt = dflt"

text \<open>The text of the error, or \<open>None\<close> for a payload that passes.\<close>

definition validate_payload_schema :: "pyval \<Rightarrow> string option" where
  "validate_payload_schema payload =
     (case payload of
        VDict d \<Rightarrow>
          (if \<not> truthy (dget ''symbol'' d VNone) then Some ''missing required field: symbol''
           else if \<not> (truthy (dget ''timeframe'' d VNone) \<or> truthy (dget ''tf'' d VNone)) then
             Some ''missing required field: timeframe/tf''
           else if \<not> (truthy (dget ''timestamp_ms'' d VNone) \<or> truthy (dget ''ts'' d VNone)) then
             Some ''missing required field: timestamp_ms/ts''
           else if safe_get payload [''candle'', ''c''] VNone = VNone \<and> dget ''close'' d VNone = VNone then
             Some ''missing required field: candle.c or close''
           else None)
      | _ \<Rightarrow> Some ''payload must be a JSON object'')"

definition list_length :: "pyval \<Rightarrow> nat" where
  "list_length v = (case v of VList xs \<Rightarrow> length xs | _ \<Rightarrow> 0)"

text \<open>\<open>None\<close>: the conversion raises, or the symbol or the timeframe is no text.\<close>

definition normalize_alert :: "orch_libs \<Rightarrow> int \<Rightarrow> pydict \<Rightarrow> alert option" where
  "normalize_alert l now d =
     (let c = safe_get (VDict d) [''candle'', ''c''] VNone in
      case (or_else (dget ''structure'' d (VDict [])) (VDict []), dget ''symbol'' d VNone,
            or_else (or_else (dget ''timeframe'' d VNone) (dget ''tf'' d VNone)) (VStr ''M5'')) of
        (VDict s, VStr symbol, VStr tf) \<Rightarrow>
          do { ts \<leftarrow> to_int l (or_else (or_else (dget ''timestamp_ms'' d VNone) (dget ''ts'' d VNone)) (VInt now));
               close \<leftarrow> to_float l (if c = VNone then dget ''close'' d (VFloat 0) else c);
               Some \<lparr>at_symbol = symbol, at_tf = tf, at_ts = ts, at_close = close,
                     at_bias_local = dget ''bias_local'' d (VStr ''neutral''),
                     at_regime = dget ''regime'' d (VStr ''unknown''),
                     at_bos = safe_get (VDict s) [''bos'', ''direction''] (VStr ''none''),
                     at_sweep = safe_get (VDict s) [''sweep'', ''side''] (VStr ''none''),
                     at_ob_count = list_length (dget ''order_blocks'' s VNone),
                     at_imbalance_count = list_length (dget ''imbalance'' s VNone)\<rparr> }
      | _ \<Rightarrow> None)"

section \<open>The window of alerts\<close>

text \<open>GET, SET, LPUSH, LTRIM key 0 (n - 1), and LRANGE key 0 (n - 1).\<close>

record 's redis =
  rd_get :: "string \<Rightarrow> 's \<Rightarrow> string option"
  rd_set :: "string \<Rightarrow> string \<Rightarrow> 's \<Rightarrow> 's"
  rd_lpush :: "string \<Rightarrow> string \<Rightarrow> 's \<Rightarrow> 's"
  rd_ltrim :: "string \<Rightarrow> nat \<Rightarrow> 's \<Rightarrow> 's"
  rd_lrange :: "string \<Rightarrow> nat \<Rightarrow> 's \<Rightarrow> string list"

text \<open>Lua's \<open>tonumber\<close> on the decimal numerals the code writes.\<close>

definition digit_value :: "char \<Rightarrow> int" where
  "digit_value c = int (of_char c) - 48"

definition lua_number :: "string \<Rightarrow> int" where
  "lua_number s =
     (let natural = foldl (\<lambda>n c. 10 * n + digit_value c) 0 in
      case s of [] \<Rightarrow> 0 | c # cs \<Rightarrow> if c = CHR ''-'' then - natural cs else natural s)"

definition store_script :: "'s redis \<Rightarrow> string \<Rightarrow> string \<Rightarrow> int \<Rightarrow> string \<Rightarrow> nat \<Rightarrow> 's \<Rightarrow> bool \<times> 's" where
  "store_script r head_key rb_key new_ts payload cap s =
     (if (case rd_get r head_key s of None \<Rightarrow> False | Some h \<Rightarrow> lua_number h \<ge> new_ts) then (False, s)
      else (True, rd_set r head_key (show_int new_ts) (rd_ltrim r rb_key cap (rd_lpush r rb_key payload s))))"

record memory_libs =
  ml_orch :: orch_libs
  ml_dump_alert :: "alert \<Rightarrow> string"
  ml_load_alert :: "string \<Rightarrow> alert option"
  ml_tanh :: "rat \<Rightarrow> rat"

definition head_key :: "string \<Rightarrow> string \<Rightarrow> string" where
  "head_key symbol tf = ''head:'' @ symbol @ '':'' @ tf"

definition rb_key :: "string \<Rightarrow> string \<Rightarrow> string" where
  "rb_key symbol tf = ''rb:'' @ symbol @ '':'' @ tf"

definition window_cap :: "string \<Rightarrow> nat" where
  "window_cap tf = dget tf WINDOW_CAPS 50"

definition store_alert :: "'s redis \<Rightarrow> memory_libs \<Rightarrow> alert \<Rightarrow> nat option \<Rightarrow> 's \<Rightarrow> bool \<times> 's" where
  "store_alert r ml a cap s =
     (if at_symbol a = [] \<or> at_tf a = [] then (False, s)
      else store_script r (head_key (at_symbol a) (at_tf a)) (rb_key (at_symbol a) (at_tf a)) (at_ts a) (ml_dump_alert ml a)
             (case cap of None \<Rightarrow> window_cap (at_tf a) | Some n \<Rightarrow> if n = 0 then window_cap (at_tf a) else n) s)"

fun distinct_ts :: "int set \<Rightarrow> alert list \<Rightarrow> alert list" where
  "distinct_ts seen [] = []"
| "distinct_ts seen (a # as) =
     (if at_ts a \<in> seen then distinct_ts seen as else a # distinct_ts (insert (at_ts a) seen) as)"

definition fetch_window :: "'s redis \<Rightarrow> memory_libs \<Rightarrow> string \<Rightarrow> string \<Rightarrow> nat option \<Rightarrow> 's \<Rightarrow> alert list" where
  "fetch_window r ml symbol tf n s =
     (let cap = (case n of None \<Rightarrow> window_cap tf | Some n \<Rightarrow> if n = 0 then window_cap tf else n) in
      distinct_ts {} (List.map_filter (ml_load_alert ml) (rd_lrange r (rb_key symbol tf) cap s)))"

section \<open>The summary of a timeframe\<close>

text \<open>\<open>Counter.most_common\<close> keeps the order of first occurrence among equal counts.\<close>

definition majority :: "pyval list \<Rightarrow> pyval" where
  "majority items =
     (case rev (sort_key (\<lambda>x. count_list items x) (rev (first_seen items))) of
        [] \<Rightarrow> VStr ''neutral''
      | [x] \<Rightarrow> x
      | x # y # _ \<Rightarrow> if count_list items x = count_list items y then hd items else x)"

definition neighbour_ranges :: "nat \<Rightarrow> rat list \<Rightarrow> rat list" where
  "neighbour_ranges n closes = map (\<lambda>i. \<bar>closes ! i - closes ! Suc i\<bar>) [0..<min n (length closes - 1)]"

record window_stats =
  ws_range_avg :: rat
  ws_range_p95 :: rat
  ws_sweep_rate :: rat

record tf_summary =
  tf_tf :: string
  tf_last_ts :: int
  tf_last_close :: rat
  tf_bias_local :: pyval
  tf_bos :: pyval
  tf_sweep :: pyval
  tf_ob_count :: nat
  tf_imbalance_count :: nat
  tf_regime :: pyval
  tf_window_stats :: window_stats

definition avg_of :: "rat list \<Rightarrow> rat" where
  "avg_of xs = (if xs = [] then 0 else sum_list xs / of_nat (length xs))"

definition p95_index :: "nat \<Rightarrow> nat" where
  "p95_index n = max 0 (min (n - 1) (95 * n div 100 - 1))"

definition range_p95 :: "rat list \<Rightarrow> rat" where
  "range_p95 rs = (if length rs \<ge> 2 then sort rs ! p95_index (length rs) else avg_of rs)"

definition summary_bos :: "pyval list \<Rightarrow> pyval" where
  "summary_bos seq =
     (case seq of
        [] \<Rightarrow> VStr ''none''
      | b # bs \<Rightarrow> if list_ex (\<lambda>x. x \<noteq> b \<and> x \<noteq> VStr ''none'') bs then VStr ''none'' else b)"

definition summarize_tf :: "alert list \<Rightarrow> string \<Rightarrow> tf_summary option" where
  "summarize_tf alerts tf =
     (case alerts of
        [] \<Rightarrow> None
      | latest # _ \<Rightarrow>
          (let rs = neighbour_ranges 20 (map at_close alerts);
               sweeps = length (filter (\<lambda>a. at_sweep a \<noteq> VStr ''none'') alerts)
           in Some \<lparr>tf_tf = tf, tf_last_ts = at_ts latest, tf_last_close = at_close latest,
                    tf_bias_local = majority (map at_bias_local (take 5 alerts)),
                    tf_bos = summary_bos (map at_bos (take 3 alerts)), tf_sweep = at_sweep latest,
                    tf_ob_count = at_ob_count latest, tf_imbalance_count = at_imbalance_count latest,
                    tf_regime = at_regime latest,
                    tf_window_stats = \<lparr>ws_range_avg = py_round 6 (avg_of rs), ws_range_p95 = py_round 6 (range_p95 rs),
                      ws_sweep_rate = py_round 4 (of_nat sweeps / of_nat (max 1 (length alerts)))\<rparr>\<rparr>))"

section \<open>Alignment and cohesion\<close>

definition bias_sign :: "pyval \<Rightarrow> rat" where
  "bias_sign b = (if b = VStr ''bullish'' then 1 else if b = VStr ''bearish'' then -1 else 0)"

definition tf_weight :: "string \<Rightarrow> rat" where
  "tf_weight tf = dget tf TF_WEIGHTS 1"

text \<open>The last summary of a timeframe counts, in the order of the timeframes.\<close>

definition ordered_tfs :: "tf_summary list \<Rightarrow> tf_summary list" where
  "ordered_tfs ss = List.map_filter (\<lambda>t. find (\<lambda>s. tf_tf s = t) (rev ss)) TF_ORDER"

definition opposed :: "pyval \<Rightarrow> pyval \<Rightarrow> bool" where
  "opposed a b \<longleftrightarrow> (a = VStr ''bullish'' \<and> b = VStr ''bearish'') \<or> (a = VStr ''bearish'' \<and> b = VStr ''bullish'')"

definition conflicts_of :: "tf_summary list \<Rightarrow> (tf_summary \<times> tf_summary) list" where
  "conflicts_of ss = filter (\<lambda>(a, b). opposed (tf_bias_local a) (tf_bias_local b)) (zip ss (tl ss))"

definition weighted_sign :: "tf_summary list \<Rightarrow> rat" where
  "weighted_sign ss = sum_list (map (\<lambda>s. tf_weight (tf_tf s) * bias_sign (tf_bias_local s)) ss)"

definition weight_sum :: "tf_summary list \<Rightarrow> rat" where
  "weight_sum ss = sum_list (map (\<lambda>s. tf_weight (tf_tf s)) ss)"

text \<open>A conflict is the text of the two neighbours; here, the neighbours.\<close>

definition align_score :: "tf_summary list \<Rightarrow> rat \<times> (tf_summary \<times> tf_summary) list" where
  "align_score ss =
     (let ordered = ordered_tfs ss; den = weight_sum ordered;
          base = (if den = 0 then 0 else \<bar>weighted_sign ordered\<bar> / den);
          conflicts = conflicts_of ordered; penalty = 1/10 * of_nat (length conflicts)
      in if ss = [] then (0, []) else (max 0 (py_round 4 (base - penalty)), conflicts))"

definition pvariance :: "rat list \<Rightarrow> rat" where
  "pvariance xs = avg_of (map (\<lambda>x. (x - avg_of xs) ^ 2) xs)"

definition compute_timeframe_cohesion :: "tf_summary list \<Rightarrow> rat" where
  "compute_timeframe_cohesion ss =
     (let signs = map (\<lambda>s. bias_sign (tf_bias_local s)) ss in
      if ss = [] then 0
      else if weight_sum ss = 0 then 0
      else if length signs \<le> 1 then 1
      else py_round 4 (max 0 (1 - pvariance signs)))"

section \<open>Analytics\<close>

definition tf_volatility :: "alert list \<Rightarrow> rat option" where
  "tf_volatility as =
     (let rs = neighbour_ranges 19 (map at_close as) in
      if rs = [] then None
      else Some (if length rs \<ge> 2 then sort rs ! max 0 (95 * length rs div 100 - 1) else avg_of rs))"

definition compute_volatility_index :: "memory_libs \<Rightarrow> (string \<times> alert list) list \<Rightarrow> rat" where
  "compute_volatility_index ml by_tf =
     (let vals = concat (map (\<lambda>(tf, as). case tf_volatility as of None \<Rightarrow> [] | Some v \<Rightarrow> [(tf, v)]) by_tf);
          wsum = sum_list (map (\<lambda>(tf, v). tf_weight tf) vals);
          weighted = sum_list (map (\<lambda>(tf, v). tf_weight tf * v) vals)
      in if vals = [] then 0 else py_round 4 (ml_tanh ml ((if wsum = 0 then 0 else weighted / wsum) / 10)))"

definition differences :: "rat list \<Rightarrow> rat list" where
  "differences xs = map (\<lambda>(a, b). b - a) (zip xs (tl xs))"

definition trend_acceleration :: "alert list \<Rightarrow> nat \<Rightarrow> rat" where
  "trend_acceleration as lookback =
     (let closes = map at_close (take lookback (rev as)); m = avg_of closes in
      if length as < 3 \<or> length closes < 3 then 0
      else avg_of (differences (differences closes)) / (if m = 0 then 1 else m))"

section \<open>The fused snapshot\<close>

record fused =
  fu_symbol :: string
  fu_snapshot_ts :: int
  fu_tfs :: "tf_summary list"
  fu_alignment_score :: rat
  fu_conflicts :: "(tf_summary \<times> tf_summary) list"
  fu_cohesion :: rat
  fu_volatility_index :: rat
  fu_accel_M5 :: rat

definition fuse_windows :: "memory_libs \<Rightarrow> int \<Rightarrow> string \<Rightarrow> (string \<times> alert list) list \<Rightarrow> fused option" where
  "fuse_windows ml now symbol by_tf =
     (let ss = List.map_filter (\<lambda>(tf, as). summarize_tf as tf) by_tf;
          last_ts = fold (\<lambda>s t. if tf_last_ts s \<noteq> 0 then max t (tf_last_ts s) else t) ss 0;
          (score, conflicts) = align_score ss
      in if ss = [] then None
         else Some \<lparr>fu_symbol = symbol, fu_snapshot_ts = (if last_ts = 0 then now else last_ts), fu_tfs = ss,
                    fu_alignment_score = score, fu_conflicts = conflicts, fu_cohesion = compute_timeframe_cohesion ss,
                    fu_volatility_index = compute_volatility_index ml by_tf,
                    fu_accel_M5 = trend_acceleration (dget ''M5'' by_tf []) 20\<rparr>)"

record snapshot_json =
  sj_dump :: "fused \<Rightarrow> string"
  sj_load :: "string \<Rightarrow> fused option"
  sj_dump_bias :: "int \<Rightarrow> pyval \<Rightarrow> rat \<Rightarrow> string"

definition fuse ::
    "'s redis \<Rightarrow> memory_libs \<Rightarrow> snapshot_json \<Rightarrow> bool \<Rightarrow> int \<Rightarrow> string \<Rightarrow> 's \<Rightarrow> fused option \<times> 's" where
  "fuse r ml js lock_free now symbol s =
     (let key = ''fuse:'' @ symbol in
      if \<not> lock_free then (case rd_get r key s of None \<Rightarrow> (None, s) | Some raw \<Rightarrow> (if raw = [] then None else sj_load js raw, s))
      else
        (case fuse_windows ml now symbol (map (\<lambda>tf. (tf, fetch_window r ml symbol tf None s)) TF_ORDER) of
           None \<Rightarrow> (None, s)
         | Some f \<Rightarrow> (Some f, rd_set r key (sj_dump js f) s)))"

datatype alert_result = Invalid string | Not_Normal | Duplicate | Accepted "fused option"

definition push_bias :: "'s redis \<Rightarrow> snapshot_json \<Rightarrow> string \<Rightarrow> fused \<Rightarrow> 's \<Rightarrow> 's" where
  "push_bias r js symbol f s =
     (let key = ''bias_hist:'' @ symbol in
      rd_ltrim r key 100 (rd_lpush r key (sj_dump_bias js (fu_snapshot_ts f) (tf_bias_local (last (fu_tfs f))) (fu_alignment_score f)) s))"

definition on_new_alert ::
    "'s redis \<Rightarrow> memory_libs \<Rightarrow> snapshot_json \<Rightarrow> bool \<Rightarrow> int \<Rightarrow> pydict \<Rightarrow> 's \<Rightarrow> alert_result \<times> 's" where
  "on_new_alert r ml js lock_free now payload s =
     (case validate_payload_schema (VDict payload) of
        Some err \<Rightarrow> (Invalid err, s)
      | None \<Rightarrow>
         (case normalize_alert (ml_orch ml) now payload of
            None \<Rightarrow> (Not_Normal, s)
          | Some a \<Rightarrow>
             (let (stored, s1) = store_alert r ml a None s in
              if \<not> stored then (Duplicate, s1)
              else
                (let (snap, s2) = fuse r ml js lock_free now (at_symbol a) s1
                 in (Accepted snap, case snap of None \<Rightarrow> s2 | Some f \<Rightarrow> push_bias r js (at_symbol a) f s2)))))"

definition bias_shift_rate :: "pyval list \<Rightarrow> rat" where
  "bias_shift_rate biases =
     (if length biases < 2 then 0
      else of_nat (length (filter (\<lambda>(a, b). a \<noteq> b) (zip biases (tl biases)))) / of_nat (max 1 (length biases - 1)))"

end
