(* ===== verification/Alert_Memory_Props.thy ===== *)
theory Alert_Memory_Props
  imports Alert_Memory
begin

text \<open>
  The alert memory: the window of a timeframe holds the newest alerts that were accepted, the scores lie
  in their ranges, and what the summaries look at.
\<close>

section \<open>Decimal numerals\<close>

lemma digit_value_digit: "d < 10 \<Longrightarrow> digit_value (digit d) = int d"
proof -
  assume "d < 10"
  then have "d \<in> {0, 1, 2, 3, 4, 5, 6, 7, 8, 9}" by auto
  then show ?thesis by (elim insertE) (simp_all add: digit_def digit_value_def)
qed

lemma digit_no_minus: "d < 10 \<Longrightarrow> digit d \<noteq> CHR ''-''"
proof -
  assume "d < 10"
  then have "d \<in> {0, 1, 2, 3, 4, 5, 6, 7, 8, 9}" by auto
  then show ?thesis by (elim insertE) (simp_all add: digit_def)
qed

lemma natural_show_nat: "foldl (\<lambda>n c. 10 * n + digit_value c) 0 (show_nat n) = int n"
proof (induction n rule: show_nat.induct)
  case (1 n)
  show ?case
  proof (cases "n < 10")
    case True
    then show ?thesis by (subst show_nat.simps) (simp add: digit_value_digit)
  next
    case False
    then have "foldl (\<lambda>n c. 10 * n + digit_value c) 0 (show_nat n) = 10 * int (n div 10) + int (n mod 10)"
      using 1 by (subst show_nat.simps) (simp add: digit_value_digit)
    then show ?thesis by (metis mult_div_mod_eq of_nat_add of_nat_mult of_nat_numeral)
  qed
qed

lemma show_nat_start: "\<exists>c cs. show_nat n = c # cs \<and> c \<noteq> CHR ''-''"
proof (induction n rule: show_nat.induct)
  case (1 n)
  then show ?case by (subst show_nat.simps) (cases "n < 10"; force simp: digit_no_minus)
qed

lemma lua_number_show_int [simp]: "lua_number (show_int z) = z"
proof (cases "z < 0")
  case True
  then show ?thesis by (simp add: lua_number_def show_int_def natural_show_nat Let_def)
next
  case False
  obtain c cs where c: "show_nat (nat z) = c # cs" "c \<noteq> CHR ''-''" using show_nat_start by blast
  from natural_show_nat[of "nat z"] False show ?thesis
    by (simp add: lua_number_def show_int_def Let_def c)
qed

section \<open>Keys\<close>

definition plain_tf :: "string \<Rightarrow> bool" where
  "plain_tf tf \<longleftrightarrow> CHR '':'' \<notin> set tf"

lemma last_colon:
  assumes "s @ '':'' @ t = s' @ '':'' @ t'" "plain_tf t" "plain_tf t'"
  shows "s = s' \<and> t = t'"
proof -
  have split: "takeWhile (\<lambda>c. c \<noteq> CHR '':'') (rev (u @ '':'' @ v)) = rev v" if "plain_tf v" for u v
  proof -
    have "takeWhile (\<lambda>c. c \<noteq> CHR '':'') (rev v @ CHR '':'' # rev u) = rev v"
      using that by (subst takeWhile_append2) (auto simp: plain_tf_def)
    then show ?thesis by simp
  qed
  from split[OF assms(2), of s] split[OF assms(3), of s'] have "rev t = rev t'" unfolding assms(1) by simp
  then show ?thesis using assms(1) by simp
qed

lemma key_inject [simp]:
  assumes "plain_tf t" "plain_tf t'"
  shows "head_key s t = head_key s' t' \<longleftrightarrow> s = s' \<and> t = t'" "rb_key s t = rb_key s' t' \<longleftrightarrow> s = s' \<and> t = t'"
  using last_colon[OF _ assms, of s s'] by (auto simp: head_key_def rb_key_def)

lemma key_kinds [simp]: "head_key s t \<noteq> rb_key s' t'" "rb_key s' t' \<noteq> head_key s t"
  by (simp_all add: head_key_def rb_key_def)

section \<open>The window\<close>

text \<open>What the code relies on: the documented effect of the commands on strings and lists, and an
  encoding of alerts that can be read back.\<close>

definition redis_ok :: "'s redis \<Rightarrow> ('s \<Rightarrow> string \<Rightarrow> string list) \<Rightarrow> bool" where
  "redis_ok r items \<longleftrightarrow>
     (\<forall>k n s. rd_lrange r k n s = take n (items s k)) \<and>
     (\<forall>k j v s. rd_get r j (rd_set r k v s) = (if j = k then Some v else rd_get r j s)) \<and>
     (\<forall>k j v s. j \<noteq> k \<longrightarrow> items (rd_set r k v s) j = items s j) \<and>
     (\<forall>k j v s. rd_get r j (rd_lpush r k v s) = rd_get r j s) \<and>
     (\<forall>k j v s. rd_get r k s = None \<longrightarrow> items (rd_lpush r k v s) j = (if j = k then v # items s k else items s j)) \<and>
     (\<forall>k j n s. rd_get r j (rd_ltrim r k n s) = rd_get r j s) \<and>
     (\<forall>k j n s. items (rd_ltrim r k n s) j = (if j = k then take n (items s k) else items s j))"

definition storable :: "memory_libs \<Rightarrow> alert \<Rightarrow> bool" where
  "storable ml a \<longleftrightarrow> at_symbol a \<noteq> [] \<and> at_tf a \<noteq> [] \<and> plain_tf (at_tf a) \<and> ml_load_alert ml (ml_dump_alert ml a) = Some a"

text \<open>The accepted alerts of a symbol and a timeframe, newest first: those newer than all before.\<close>

definition newer :: "alert \<Rightarrow> alert list \<Rightarrow> bool" where
  "newer a as \<longleftrightarrow> (case as of [] \<Rightarrow> True | b # _ \<Rightarrow> at_ts b < at_ts a)"

definition newest :: "string \<Rightarrow> string \<Rightarrow> alert list \<Rightarrow> alert list" where
  "newest symbol tf as =
     fold (\<lambda>a acc. if at_symbol a = symbol \<and> at_tf a = tf \<and> newer a acc then a # acc else acc) as []"

definition stored_as :: "'s redis \<Rightarrow> ('s \<Rightarrow> string \<Rightarrow> string list) \<Rightarrow> memory_libs \<Rightarrow> alert list \<Rightarrow> 's \<Rightarrow> bool" where
  "stored_as r items ml as s \<longleftrightarrow>
     (\<forall>symbol tf. plain_tf tf \<longrightarrow>
        items s (rb_key symbol tf) = map (ml_dump_alert ml) (take (window_cap tf) (newest symbol tf as)) \<and>
        rd_get r (head_key symbol tf) s = (case newest symbol tf as of [] \<Rightarrow> None | a # _ \<Rightarrow> Some (show_int (at_ts a))) \<and>
        rd_get r (rb_key symbol tf) s = None)"

lemma newest_snoc:
  "newest symbol tf (as @ [a]) =
     (if at_symbol a = symbol \<and> at_tf a = tf \<and> newer a (newest symbol tf as) then a # newest symbol tf as else newest symbol tf as)"
  by (simp add: newest_def)

lemma newest_sorted: "sorted_wrt (\<lambda>a b. at_ts b < at_ts a) (newest symbol tf as)"
proof (induction as rule: rev_induct)
  case (snoc a as)
  then show ?case
    by (cases "newest symbol tf as") (auto simp: newest_snoc newer_def)
qed (simp add: newest_def)

lemma newest_subset: "set (newest symbol tf as) \<subseteq> set as"
  by (induction as rule: rev_induct) (auto simp: newest_snoc newest_def[of _ _ "[]"])

lemma cap_pos: "0 < window_cap tf"
  by (simp add: window_cap_def WINDOW_CAPS_def dget_def)

lemma take_take_Cons: "0 < n \<Longrightarrow> take n (x # take n xs) = take n (x # xs)"
  by (cases n) (simp_all add: min_def)

lemma store_step:
  assumes r: "redis_ok r items" and a: "storable ml a" and inv: "stored_as r items ml as s"
  shows "fst (store_alert r ml a None s) = newer a (newest (at_symbol a) (at_tf a) as)"
    "stored_as r items ml (as @ [a]) (snd (store_alert r ml a None s))"
proof -
  let ?h = "head_key (at_symbol a) (at_tf a)" and ?k = "rb_key (at_symbol a) (at_tf a)" and ?w = "newest (at_symbol a) (at_tf a) as"
  have plain: "plain_tf (at_tf a)" using a by (simp add: storable_def)
  have here: "items s ?k = map (ml_dump_alert ml) (take (window_cap (at_tf a)) ?w)"
    "rd_get r ?h s = (case ?w of [] \<Rightarrow> None | b # _ \<Rightarrow> Some (show_int (at_ts b)))" "rd_get r ?k s = None"
    using inv plain by (simp_all add: stored_as_def)
  have script: "store_alert r ml a None s = store_script r ?h ?k (at_ts a) (ml_dump_alert ml a) (window_cap (at_tf a)) s"
    using a by (simp add: store_alert_def storable_def)
  have old: "(case rd_get r ?h s of None \<Rightarrow> False | Some h \<Rightarrow> lua_number h \<ge> at_ts a) \<longleftrightarrow> \<not> newer a ?w"
    by (auto simp: here(2) newer_def split: list.split)
  show "fst (store_alert r ml a None s) = newer a ?w"
    by (simp add: script store_script_def old)
  let ?s' = "rd_set r ?h (show_int (at_ts a)) (rd_ltrim r ?k (window_cap (at_tf a)) (rd_lpush r ?k (ml_dump_alert ml a) s))"
  show "stored_as r items ml (as @ [a]) (snd (store_alert r ml a None s))"
  proof (cases "newer a ?w")
    case False
    then have "newest symbol tf (as @ [a]) = newest symbol tf as" for symbol tf by (auto simp: newest_snoc)
    then show ?thesis using inv False by (simp add: script store_script_def old stored_as_def)
  next
    case True
    have items': "items ?s' j = (if j = ?k then take (window_cap (at_tf a)) (ml_dump_alert ml a # items s ?k) else items s j)"
      if "j \<noteq> ?h" for j using r that here(3) by (simp add: redis_ok_def)
    have get': "rd_get r j ?s' = (if j = ?h then Some (show_int (at_ts a)) else rd_get r j s)" for j
      using r by (simp add: redis_ok_def)
    have "stored_as r items ml (as @ [a]) ?s'"
      unfolding stored_as_def
    proof (intro allI impI)
      fix symbol tf
      assume tf: "plain_tf tf"
      show "items ?s' (rb_key symbol tf) = map (ml_dump_alert ml) (take (window_cap tf) (newest symbol tf (as @ [a]))) \<and>
        rd_get r (head_key symbol tf) ?s' = (case newest symbol tf (as @ [a]) of [] \<Rightarrow> None | a # _ \<Rightarrow> Some (show_int (at_ts a))) \<and>
        rd_get r (rb_key symbol tf) ?s' = None"
      proof (cases "symbol = at_symbol a \<and> tf = at_tf a")
        case here': True
        have "take (window_cap (at_tf a)) (ml_dump_alert ml a # map (ml_dump_alert ml) (take (window_cap (at_tf a)) ?w)) =
            map (ml_dump_alert ml) (take (window_cap (at_tf a)) (a # ?w))"
          using cap_pos[of "at_tf a"] by (cases "window_cap (at_tf a)") (simp_all add: take_map min_def)
        then show ?thesis using here' True here by (simp add: items' get' newest_snoc)
      next
        case False
        then have "newest symbol tf (as @ [a]) = newest symbol tf as" by (auto simp: newest_snoc)
        moreover have "rb_key symbol tf \<noteq> ?k" "head_key symbol tf \<noteq> ?h" using False tf plain by auto
        ultimately show ?thesis using inv tf by (simp add: items' get' stored_as_def)
      qed
    qed
    then show ?thesis using True by (simp add: script store_script_def old)
  qed
qed

lemma store_run:
  assumes "redis_ok r items" "\<forall>a\<in>set as. storable ml a" "\<forall>k. rd_get r k s0 = None \<and> items s0 k = []"
  shows "stored_as r items ml as (fold (\<lambda>a s. snd (store_alert r ml a None s)) as s0)"
  using assms(2)
proof (induction as rule: rev_induct)
  case Nil
  then show ?case using assms(3) by (simp add: stored_as_def newest_def)
next
  case (snoc a as)
  then show ?case using store_step(2)[OF assms(1)] by simp
qed

lemma distinct_sorted:
  "sorted_wrt (\<lambda>a b. at_ts b < at_ts a) as \<Longrightarrow> \<forall>t\<in>seen. \<forall>a\<in>set as. at_ts a < t \<Longrightarrow> distinct_ts seen as = as"
  by (induction as arbitrary: seen) (auto simp: less_le)

lemma map_filter_loads:
  "\<forall>a\<in>set as. ml_load_alert ml (ml_dump_alert ml a) = Some a \<Longrightarrow> List.map_filter (ml_load_alert ml) (map (ml_dump_alert ml) as) = as"
  by (induction as) (simp_all add: List.map_filter_simps)

text \<open>C29: whatever alerts arrive at an empty memory, of any symbols and timeframes, the
  window of a timeframe is the newest accepted alerts of its symbol and timeframe, as many as the
  window holds, in strictly falling order of time; and an alert is accepted exactly when it is
  newer than all accepted before.\<close>

theorem alert_window_exact:
  assumes "redis_ok r items" "list_all (storable ml) (b # as)" "\<forall>k. rd_get r k s0 = None \<and> items s0 k = []" "plain_tf tf"
  shows "(let s = fold (\<lambda>a s. snd (store_alert r ml a None s)) as s0 in
     fetch_window r ml symbol tf None s = take (window_cap tf) (newest symbol tf as) \<and>
     sorted_wrt (\<lambda>a b. at_ts b < at_ts a) (newest symbol tf as) \<and>
     fst (store_alert r ml b None s) = newer b (newest (at_symbol b) (at_tf b) as))"
proof -
  let ?s = "fold (\<lambda>a s. snd (store_alert r ml a None s)) as s0" and ?w = "take (window_cap tf) (newest symbol tf as)"
  have all: "\<forall>a\<in>set as. storable ml a" "storable ml b" using assms(2) by (simp_all add: list_all_iff)
  have run: "stored_as r items ml as ?s" by (rule store_run[OF assms(1) all(1) assms(3)])
  have "rd_lrange r (rb_key symbol tf) (window_cap tf) ?s = map (ml_dump_alert ml) ?w"
    using run assms(1,4) by (simp add: stored_as_def redis_ok_def take_map)
  moreover have "\<forall>a\<in>set ?w. ml_load_alert ml (ml_dump_alert ml a) = Some a"
    using all(1) newest_subset[of symbol tf as] by (auto simp: storable_def dest!: in_set_takeD)
  moreover have "distinct_ts {} ?w = ?w" using newest_sorted[of symbol tf as] by (intro distinct_sorted) (simp_all add: sorted_wrt_take)
  ultimately have "fetch_window r ml symbol tf None ?s = ?w"
    by (simp add: fetch_window_def Let_def map_filter_loads)
  then show ?thesis using newest_sorted store_step(1)[OF assms(1) all(2) run] by (simp add: Let_def)
qed

text \<open>A Redis of two tables, and alerts that are written as their time.\<close>

definition table_redis :: "((string \<Rightarrow> string option) \<times> (string \<Rightarrow> string list)) redis" where
  "table_redis = \<lparr>rd_get = (\<lambda>k s. fst s k), rd_set = (\<lambda>k v s. ((fst s)(k := Some v), snd s)),
     rd_lpush = (\<lambda>k v s. (fst s, (snd s)(k := v # snd s k))), rd_ltrim = (\<lambda>k n s. (fst s, (snd s)(k := take n (snd s k)))),
     rd_lrange = (\<lambda>k n s. take n (snd s k))\<rparr>"

definition tick :: "int \<Rightarrow> alert" where
  "tick t = \<lparr>at_symbol = ''EURUSD'', at_tf = ''M5'', at_ts = t, at_close = of_int t, at_bias_local = VStr ''neutral'',
     at_regime = VStr ''unknown'', at_bos = VStr ''none'', at_sweep = VStr ''none'', at_ob_count = 0, at_imbalance_count = 0\<rparr>"

definition tick_libs :: memory_libs where
  "tick_libs = \<lparr>ml_orch = \<lparr>ol_parse_int = (\<lambda>_. None), ol_parse_float = (\<lambda>_. None), ol_str = (\<lambda>_. ''?''), ol_json_file = (\<lambda>_. None)\<rparr>,
     ml_dump_alert = (\<lambda>a. show_int (at_ts a)), ml_load_alert = (\<lambda>s. Some (tick (lua_number s))), ml_tanh = id\<rparr>"

theorem alert_window_exact_witness:
  "(let s = fold (\<lambda>a s. snd (store_alert table_redis tick_libs a None s)) [tick 3, tick 5, tick 4, tick 9] (\<lambda>_. None, \<lambda>_. []) in
     fetch_window table_redis tick_libs ''EURUSD'' ''M5'' None s = [tick 9, tick 5, tick 3] \<and>
     \<not> fst (store_alert table_redis tick_libs (tick 9) None s))"
proof -
  have r: "redis_ok table_redis snd" by (simp add: redis_ok_def table_redis_def)
  have a: "storable tick_libs (tick t)" for t by (simp add: storable_def tick_libs_def tick_def plain_tf_def)
  have p: "plain_tf ''M5''" by (simp add: plain_tf_def)
  have w: "newest ''EURUSD'' ''M5'' [tick 3, tick 5, tick 4, tick 9] = [tick 9, tick 5, tick 3]"
    "at_symbol (tick 9) = ''EURUSD''" "at_tf (tick 9) = ''M5''"
    by (simp_all add: newest_def newer_def tick_def)
  have n: "window_cap ''M5'' = 80" by (simp add: window_cap_def WINDOW_CAPS_def dget_def)
  from alert_window_exact[OF r, of tick_libs "tick 9" "[tick 3, tick 5, tick 4, tick 9]" "(\<lambda>_. None, \<lambda>_. [])" "''M5''" "''EURUSD''"]
  show ?thesis using a p by (simp add: Let_def w n newer_def table_redis_def)
qed

section \<open>Scores\<close>

lemma weight_pos: "0 < tf_weight tf"
  by (simp add: tf_weight_def TF_WEIGHTS_def dget_def)

lemma sign_bounds: "\<bar>bias_sign b\<bar> \<le> 1"
  by (simp add: bias_sign_def)

lemma weighted_le: "\<bar>weighted_sign ss\<bar> \<le> weight_sum ss" "0 \<le> weight_sum ss"
proof -
  have "\<bar>tf_weight t * bias_sign b\<bar> \<le> tf_weight t" for t b
    using weight_pos[of t] sign_bounds[of b] by (simp add: abs_mult mult_left_le)
  then show "\<bar>weighted_sign ss\<bar> \<le> weight_sum ss"
    by (induction ss) (auto simp: weighted_sign_def weight_sum_def intro: order_trans[OF abs_triangle_ineq add_mono])
  show "0 \<le> weight_sum ss"
    using weight_pos by (induction ss) (auto simp: weight_sum_def intro: add_nonneg_nonneg less_imp_le)
qed

lemma round_le_one: "x \<le> 1 \<Longrightarrow> py_round 4 (x :: rat) \<le> 1"
  using py_round_bounds(2)[of "floor x" x 1 4] by simp

lemma round_nonneg: "0 \<le> x \<Longrightarrow> 0 \<le> py_round 4 (x :: rat)"
  using py_round_bounds(1)[of 0 x "ceiling x" 4] by simp

lemma pvariance_nonneg: "0 \<le> pvariance xs"
  by (auto simp: pvariance_def avg_of_def intro!: divide_nonneg_nonneg sum_list_nonneg)

lemma weight_sum_pos: "ss \<noteq> [] \<Longrightarrow> 0 < weight_sum ss"
  using weight_pos weighted_le(2) by (cases ss) (simp_all add: weight_sum_def add_pos_nonneg)

text \<open>The alignment score and the cohesion of any summaries lie between 0 and 1.\<close>

theorem alignment_bounds:
  "0 \<le> fst (align_score ss) \<and> fst (align_score ss) \<le> 1 \<and>
   0 \<le> compute_timeframe_cohesion ss \<and> compute_timeframe_cohesion ss \<le> 1"
proof -
  let ?o = "ordered_tfs ss"
  have "(if weight_sum ?o = 0 then 0 else \<bar>weighted_sign ?o\<bar> / weight_sum ?o) \<le> 1"
    using weighted_le[of ?o] by (simp add: divide_le_eq)
  moreover have "0 \<le> 1/10 * (of_nat (length (conflicts_of ?o)) :: rat)" by simp
  ultimately have "py_round 4 ((if weight_sum ?o = 0 then 0 else \<bar>weighted_sign ?o\<bar> / weight_sum ?o) - 1/10 * of_nat (length (conflicts_of ?o))) \<le> 1"
    by (intro round_le_one) linarith
  moreover have "py_round 4 (max 0 (1 - pvariance xs)) \<le> 1" "0 \<le> py_round 4 (max 0 (1 - pvariance xs))" for xs
    using pvariance_nonneg[of xs] by (auto intro!: round_le_one round_nonneg)
  ultimately show ?thesis
    by (simp add: align_score_def Let_def compute_timeframe_cohesion_def)
qed

text \<open>The cohesion looks at the biases only: the weights of the timeframes do not count.\<close>

theorem cohesion_ignores_weights:
  assumes "map tf_bias_local ss = map tf_bias_local ts"
  shows "compute_timeframe_cohesion ss = compute_timeframe_cohesion ts"
proof -
  have signs: "map (\<lambda>s. bias_sign (tf_bias_local s)) ss = map (\<lambda>s. bias_sign (tf_bias_local s)) ts"
    using arg_cong[OF assms, of "map bias_sign"] by (simp add: comp_def)
  have "ss = [] \<longleftrightarrow> ts = []" using assms by (cases ss; cases ts) auto
  then show ?thesis
    using weight_sum_pos[of ss] weight_sum_pos[of ts]
    by (cases "ts = []") (simp_all add: compute_timeframe_cohesion_def Let_def signs)
qed

text \<open>The acceleration looks at the oldest alerts of the window: newer ones change nothing.\<close>

theorem acceleration_of_oldest:
  assumes "n \<le> length as"
  shows "trend_acceleration (newer_ones @ as) n = trend_acceleration as n"
  using assms by (auto simp: trend_acceleration_def Let_def)

text \<open>Two words that are equally frequent make room for the newest one, even if it occurs only once.\<close>

lemma majority_tie:
  "majority (map VStr [''neutral'', ''bullish'', ''bearish'', ''bullish'', ''bearish'']) = VStr ''neutral''"
  by code_simp

end
