(* ===== verification/Deadletter.thy ===== *)
theory Deadletter
  imports Orch_Decision
begin

text \<open>
  The dead letters of the notifiers, \<open>reasoner_service/deadletter.py\<close>: a Redis stream of failed
  notifications, the processing of an entry with its backoff, the polling loop, and the retries on
  demand.

  Parameters: the stream commands XADD, XDEL and XRANGE over a state that is not looked into, where
  XADD may raise; the decoder and encoder of JSON, the parser of ISO times, and the notifiers, which
  answer and may write to the stream themselves. Identifiers of entries are numbers. The log of
  notifications in the database is kept as a list, without the status of the web service; a database,
  an XDEL or an XRANGE that fails, the metrics and the semaphore are left out.
\<close>

section \<open>Entries\<close>

type_synonym stream_fields = "(string \<times> string) list"

record 's stream =
  sx_add :: "stream_fields \<Rightarrow> 's \<Rightarrow> (int \<times> 's) option"
  sx_del :: "int \<Rightarrow> 's \<Rightarrow> 's"
  sx_range :: "int \<Rightarrow> nat \<Rightarrow> 's \<Rightarrow> (int \<times> stream_fields) list"

record stream_libs =
  sl_libs :: orch_libs
  sl_loads :: "string \<Rightarrow> pyval option"
  sl_dumps :: "pyval \<Rightarrow> string"
  sl_parse_iso :: "string \<Rightarrow> time option"
  sl_iso :: "time \<Rightarrow> string"

definition parse_iso_or_epoch :: "stream_libs \<Rightarrow> string \<Rightarrow> time option" where
  "parse_iso_or_epoch l s =
     (if s = [] then None
      else case sl_parse_iso l s of
             Some t \<Rightarrow> Some t
           | None \<Rightarrow> map_option (\<lambda>x. round_half_even (x * 1000000)) (ol_parse_float (sl_libs l) s))"

record dead_letter =
  de_letter_id :: string
  de_channel :: string
  de_payload :: pyval
  de_error :: string
  de_timestamp :: time
  de_retry_meta :: pyval

text \<open>A field that is missing or empty takes its default.\<close>

definition field_or :: "string \<Rightarrow> stream_fields \<Rightarrow> string \<Rightarrow> string" where
  "field_or k fs d = (let v = dget k fs [] in if v = [] then d else v)"

definition reconstruct_entry :: "stream_libs \<Rightarrow> time \<Rightarrow> stream_fields \<Rightarrow> dead_letter" where
  "reconstruct_entry l now fs =
     (let payload_s = field_or ''payload'' fs ''{}''; meta_s = field_or ''retry_meta'' fs ''{}'' in
      \<lparr>de_letter_id = dget ''decision_id'' fs [], de_channel = field_or ''channel'' fs [],
       de_payload = (case sl_loads l payload_s of None \<Rightarrow> VDict [(''raw'', VStr payload_s)] | Some v \<Rightarrow> v),
       de_error = field_or ''error'' fs [],
       de_timestamp = (case parse_iso_or_epoch l (dget ''timestamp_utc'' fs []) of None \<Rightarrow> now | Some t \<Rightarrow> t),
       de_retry_meta = (case sl_loads l meta_s of None \<Rightarrow> VDict [] | Some v \<Rightarrow> v)\<rparr>)"

definition retry_meta :: "stream_libs \<Rightarrow> int \<Rightarrow> rat \<Rightarrow> time \<Rightarrow> pyval" where
  "retry_meta l attempts base next_retry =
     VDict [(''attempts'', VInt attempts), (''base_backoff_seconds'', VFloat base), (''next_retry_utc'', VStr (sl_iso l next_retry))]"

text \<open>\<open>2 ** n\<close>, which is a fraction for negative \<open>n\<close>.\<close>

definition two_to :: "int \<Rightarrow> rat" where
  "two_to n = (if n < 0 then 1 / 2 ^ nat (- n) else 2 ^ nat n)"

definition backoff_time :: "rat \<Rightarrow> int \<Rightarrow> time" where
  "backoff_time base attempts = round_half_even (base * two_to (attempts - 1) * 1000000)"

definition letter_fields :: "stream_libs \<Rightarrow> time \<Rightarrow> string \<Rightarrow> string \<Rightarrow> pyval \<Rightarrow> string \<Rightarrow> pyval \<Rightarrow> stream_fields" where
  "letter_fields l now decision_id channel payload err meta =
     [(''decision_id'', decision_id), (''channel'', channel), (''payload'', sl_dumps l payload), (''error'', err),
      (''timestamp_utc'', sl_iso l now), (''retry_meta'', sl_dumps l meta)]"

definition publish_deadletter ::
    "stream_libs \<Rightarrow> 's stream \<Rightarrow> time \<Rightarrow> string option \<Rightarrow> string \<Rightarrow> pyval \<Rightarrow> string \<Rightarrow> int \<Rightarrow> rat \<Rightarrow> time option \<Rightarrow> 's \<Rightarrow> (int \<times> 's) option" where
  "publish_deadletter l x now decision_id channel payload err attempts base next_retry s =
     (let due = (case next_retry of None \<Rightarrow> now + backoff_time base attempts | Some t \<Rightarrow> t) in
      sx_add x (letter_fields l now (case decision_id of None \<Rightarrow> [] | Some i \<Rightarrow> i) channel payload err
        (retry_meta l attempts base due)) s)"

section \<open>Processing an entry\<close>

record notify_log =
  nl_decision_id :: string
  nl_channel :: string
  nl_status :: string
  nl_error :: "string option"

text \<open>A notifier answers a dictionary, anything else, or raises; it may have written to the stream.\<close>

datatype dispatch = Sent pydict | Strange | Raised string

definition dispatch_result :: "dispatch \<Rightarrow> pydict" where
  "dispatch_result r =
     (case r of
        Sent d \<Rightarrow> d
      | Strange \<Rightarrow> [(''ok'', VBool False), (''error'', VStr ''invalid_notifier_response''), (''status'', VNone)]
      | Raised e \<Rightarrow> [(''ok'', VBool False), (''error'', VStr e), (''status'', VNone)])"

text \<open>\<open>le_make\<close> says whether the class of a channel can be called with only an engine; a call that
  misses an argument raises.\<close>

record 's letter_env =
  le_libs :: stream_libs
  le_make :: "string \<Rightarrow> bool"
  le_stream :: "'s stream"
  le_dispatch :: "string \<Rightarrow> pyval \<Rightarrow> string \<Rightarrow> 's \<Rightarrow> dispatch \<times> 's"
  le_max_retries :: int

datatype letter_outcome = Skipped_Early | Unknown_Channel | Delivered | Gave_Up | Rescheduled | Broken

text \<open>\<open>attempts\<close>, \<open>base_backoff_seconds\<close> and \<open>next_retry_utc\<close> of an entry; \<open>None\<close> when reading them raises.\<close>

definition letter_meta :: "stream_libs \<Rightarrow> pyval \<Rightarrow> (int \<times> rat \<times> time option) option" where
  "letter_meta l meta =
     do { a \<leftarrow> vget ''attempts'' meta (VInt 1); attempts \<leftarrow> to_int (sl_libs l) a;
          b \<leftarrow> vget ''base_backoff_seconds'' meta (VFloat 10); base \<leftarrow> to_float (sl_libs l) b;
          t \<leftarrow> vget ''next_retry_utc'' meta VNone;
          (case t of
             VStr s \<Rightarrow> Some (attempts, base, parse_iso_or_epoch l s)
           | v \<Rightarrow> Some (attempts, base, if truthy v then map_option (\<lambda>x. round_half_even (x * 1000000)) (as_number v) else None)) }"

definition result_error :: "stream_libs \<Rightarrow> pydict \<Rightarrow> string \<Rightarrow> string" where
  "result_error l res orig = py_str (sl_libs l) (or_else (dget ''error'' res VNone) (VStr orig))"

definition log_letter :: "dead_letter \<Rightarrow> string \<Rightarrow> string option \<Rightarrow> notify_log list \<Rightarrow> notify_log list" where
  "log_letter e status err lg =
     lg @ [\<lparr>nl_decision_id = de_letter_id e, nl_channel = de_channel e, nl_status = status, nl_error = err\<rparr>]"

text \<open>The entry is written again with its new attempt, then the old one is removed; when writing raises,
  the old one stays as it is.\<close>

definition reschedule_letter ::
    "'s letter_env \<Rightarrow> time \<Rightarrow> int \<Rightarrow> dead_letter \<Rightarrow> int \<Rightarrow> rat \<Rightarrow> string \<Rightarrow> 's \<Rightarrow> 's" where
  "reschedule_letter env now sid e attempts base err s =
     (case sx_add (le_stream env)
             (letter_fields (le_libs env) now (de_letter_id e) (de_channel e) (de_payload e) err
                (retry_meta (le_libs env) attempts base (now + backoff_time base attempts))) s of
        None \<Rightarrow> s
      | Some (_, s') \<Rightarrow> sx_del (le_stream env) sid s')"

text \<open>The text of a failed answer as it is logged for an entry that is written again.\<close>

definition answer_error :: "stream_libs \<Rightarrow> pydict \<Rightarrow> string option" where
  "answer_error l res = (case dget ''error'' res VNone of VNone \<Rightarrow> None | v \<Rightarrow> Some (py_str (sl_libs l) v))"

text \<open>An entry that is due: dispatch it, then remove it, give it up, or write it again.\<close>

definition deliver_letter ::
    "'s letter_env \<Rightarrow> time \<Rightarrow> int \<Rightarrow> dead_letter \<Rightarrow> int \<Rightarrow> rat \<Rightarrow> 's \<times> notify_log list \<Rightarrow> letter_outcome \<times> 's \<times> notify_log list" where
  "deliver_letter env now sid e attempts base st =
     (let (s0, lg) = st; (r, s) = le_dispatch env (de_channel e) (de_payload e) (de_letter_id e) s0;
          res = dispatch_result r; err = result_error (le_libs env) res (de_error e)
      in if truthy (dget ''ok'' res VNone) then (Delivered, sx_del (le_stream env) sid s, log_letter e ''success'' None lg)
         else if attempts + 1 > le_max_retries env then
           (Gave_Up, sx_del (le_stream env) sid s, log_letter e ''failure'' (Some err) lg)
         else (Rescheduled, reschedule_letter env now sid e (attempts + 1) base err s,
               log_letter e ''failure'' (answer_error (le_libs env) res) lg))"

definition process_letter ::
    "'s letter_env \<Rightarrow> time \<Rightarrow> int \<Rightarrow> stream_fields \<Rightarrow> 's \<times> notify_log list \<Rightarrow> letter_outcome \<times> 's \<times> notify_log list" where
  "process_letter env now sid fs st =
     (let e = reconstruct_entry (le_libs env) now fs in
      case letter_meta (le_libs env) (de_retry_meta e) of
        None \<Rightarrow> (Broken, st)
      | Some (attempts, base, due) \<Rightarrow>
          (if (case due of None \<Rightarrow> False | Some t \<Rightarrow> t > now) then (Skipped_Early, st)
           else if de_channel e \<notin> set all_channels then
             (Unknown_Channel, fst st, log_letter e ''failure'' (Some (''unknown_channel:'' @ de_channel e)) (snd st))
           else if \<not> le_make env (de_channel e) then (Broken, st)
           else deliver_letter env now sid e attempts base st))"

section \<open>The polling loop\<close>

record 's poll_state =
  pl_last_id :: int
  pl_stream :: 's
  pl_log :: "notify_log list"
  pl_seen :: "(int \<times> letter_outcome) list"

definition poll_entry :: "'s letter_env \<Rightarrow> time \<Rightarrow> int \<times> stream_fields \<Rightarrow> 's poll_state \<Rightarrow> 's poll_state" where
  "poll_entry env now entry st =
     (let (sid, fs) = entry; (r, s, lg) = process_letter env now sid fs (pl_stream st, pl_log st) in
      \<lparr>pl_last_id = sid, pl_stream = s, pl_log = lg, pl_seen = pl_seen st @ [(sid, r)]\<rparr>)"

text \<open>One turn of the loop: the entries from the last seen identifier on, at most \<open>max_batch\<close>.\<close>

definition poll_once :: "'s letter_env \<Rightarrow> nat \<Rightarrow> time \<Rightarrow> 's poll_state \<Rightarrow> 's poll_state" where
  "poll_once env max_batch now st =
     fold (poll_entry env now) (sx_range (le_stream env) (pl_last_id st) max_batch (pl_stream st)) st"

definition poll_run :: "'s letter_env \<Rightarrow> nat \<Rightarrow> time list \<Rightarrow> 's poll_state \<Rightarrow> 's poll_state" where
  "poll_run env max_batch turns st = fold (poll_once env max_batch) turns st"

section \<open>Retries on demand\<close>

definition retry_all ::
    "'s letter_env \<Rightarrow> time \<Rightarrow> (stream_fields \<Rightarrow> bool) \<Rightarrow> nat \<Rightarrow> 's \<times> notify_log list \<Rightarrow> nat \<times> 's \<times> notify_log list" where
  "retry_all env now wanted len st =
     fold (\<lambda>(sid, fs) (n, st).
             if \<not> wanted fs then (n, st)
             else (let (r, st') = process_letter env now sid fs st in (if r = Broken then n else n + 1, st')))
       (sx_range (le_stream env) 0 len (fst st)) (0, st)"

definition retry_deadletter_by_decision_id ::
    "'s letter_env \<Rightarrow> time \<Rightarrow> string \<Rightarrow> nat \<Rightarrow> 's \<times> notify_log list \<Rightarrow> nat \<times> 's \<times> notify_log list" where
  "retry_deadletter_by_decision_id env now i len st = retry_all env now (\<lambda>fs. dget ''decision_id'' fs [] = i) len st"

definition retry_deadletter_by_timerange ::
    "'s letter_env \<Rightarrow> time \<Rightarrow> time \<Rightarrow> time \<Rightarrow> nat \<Rightarrow> 's \<times> notify_log list \<Rightarrow> nat \<times> 's \<times> notify_log list" where
  "retry_deadletter_by_timerange env now since until_t len st =
     retry_all env now (\<lambda>fs. (let t = de_timestamp (reconstruct_entry (le_libs env) now fs) in since \<le> t \<and> t < until_t)) len st"

section \<open>What the loop sees\<close>

text \<open>The documented behaviour of a range: entries from the given identifier on, in rising order.\<close>

definition stream_ok :: "'s stream \<Rightarrow> bool" where
  "stream_ok x \<longleftrightarrow> (\<forall>i n s. (\<forall>e\<in>set (sx_range x i n s). i \<le> fst e) \<and> sorted_wrt (\<lambda>e f. fst e < fst f) (sx_range x i n s))"

lemma poll_entry_fields [simp]:
  "pl_last_id (poll_entry env now e st) = fst e"
  "\<exists>r. pl_seen (poll_entry env now e st) = pl_seen st @ [(fst e, r)]"
  by (simp_all add: poll_entry_def split: prod.split)

lemma poll_entries:
  "(es \<noteq> [] \<longrightarrow> pl_last_id (fold (poll_entry env now) es st) = fst (last es)) \<and>
   (es = [] \<longrightarrow> pl_last_id (fold (poll_entry env now) es st) = pl_last_id st) \<and>
   (\<exists>rs. pl_seen (fold (poll_entry env now) es st) = pl_seen st @ rs \<and> map fst rs = map fst es)"
proof (induction es arbitrary: st)
  case (Cons e es)
  obtain r where r: "pl_seen (poll_entry env now e st) = pl_seen st @ [(fst e, r)]" using poll_entry_fields(2) by blast
  obtain rs where "pl_seen (fold (poll_entry env now) es (poll_entry env now e st)) = pl_seen (poll_entry env now e st) @ rs"
    "map fst rs = map fst es" using Cons.IH by blast
  then have "\<exists>rs. pl_seen (fold (poll_entry env now) (e # es) st) = pl_seen st @ rs \<and> map fst rs = map fst (e # es)"
    using r by (intro exI[of _ "(fst e, r) # rs"]) simp
  then show ?case using Cons.IH[of "poll_entry env now e st"] by (cases es) simp_all
qed simp

text \<open>A turn only sees entries from the last identifier on, and only moves it forward.\<close>

lemma poll_forward:
  assumes "stream_ok (le_stream env)"
  shows "pl_last_id st \<le> pl_last_id (poll_once env n now st)"
    "\<exists>rs. pl_seen (poll_once env n now st) = pl_seen st @ rs \<and> (\<forall>r\<in>set rs. pl_last_id st \<le> fst r)"
proof -
  let ?es = "sx_range (le_stream env) (pl_last_id st) n (pl_stream st)"
  have above: "\<forall>e\<in>set ?es. pl_last_id st \<le> fst e" using assms by (simp add: stream_ok_def)
  note p = poll_entries[of ?es env now st]
  show "pl_last_id st \<le> pl_last_id (poll_once env n now st)"
    using p above by (cases "?es = []") (simp_all add: poll_once_def)
  obtain rs where rs: "pl_seen (poll_once env n now st) = pl_seen st @ rs" "map fst rs = map fst ?es"
    using p by (auto simp: poll_once_def)
  have "set (map fst rs) = set (map fst ?es)" by (simp only: rs(2))
  then have "\<forall>r\<in>set rs. pl_last_id st \<le> fst r" using above by force
  then show "\<exists>rs. pl_seen (poll_once env n now st) = pl_seen st @ rs \<and> (\<forall>r\<in>set rs. pl_last_id st \<le> fst r)" using rs by blast
qed

lemma run_forward:
  assumes "stream_ok (le_stream env)"
  shows "\<exists>rs. pl_seen (poll_run env n turns st) = pl_seen st @ rs \<and> (\<forall>r\<in>set rs. pl_last_id st \<le> fst r)"
proof (induction turns arbitrary: st)
  case Nil
  show ?case by (simp add: poll_run_def)
next
  case (Cons t turns)
  obtain rs where 1: "pl_seen (poll_once env n t st) = pl_seen st @ rs" "\<forall>r\<in>set rs. pl_last_id st \<le> fst r"
    using poll_forward(2)[OF assms] by blast
  obtain qs where 2: "pl_seen (poll_run env n turns (poll_once env n t st)) = pl_seen (poll_once env n t st) @ qs"
    "\<forall>r\<in>set qs. pl_last_id (poll_once env n t st) \<le> fst r"
    using Cons.IH by blast
  have "\<forall>r\<in>set qs. pl_last_id st \<le> fst r" using 2(2) poll_forward(1)[OF assms, of st n t] by force
  then show ?case using 1 2(1) by (intro exI[of _ "rs @ qs"]) (auto simp: poll_run_def)
qed

definition not_due :: "stream_libs \<Rightarrow> time \<Rightarrow> stream_fields \<Rightarrow> bool" where
  "not_due l now fs \<longleftrightarrow>
     (case letter_meta l (de_retry_meta (reconstruct_entry l now fs)) of Some (_, _, Some t) \<Rightarrow> t > now | _ \<Rightarrow> False)"

lemma early_skipped:
  "not_due (le_libs env) now fs \<Longrightarrow> process_letter env now sid fs st = (Skipped_Early, st)"
proof -
  assume "not_due (le_libs env) now fs"
  then obtain a b t where "letter_meta (le_libs env) (de_retry_meta (reconstruct_entry (le_libs env) now fs)) = Some (a, b, Some t)" "t > now"
    by (auto simp: not_due_def split: option.splits)
  then show ?thesis by (simp add: process_letter_def)
qed

lemma seen_of_batch:
  assumes "sorted_wrt (\<lambda>e f. fst e < fst f) es" "(i, fs) \<in> set es" "not_due (le_libs env) now fs"
  shows "filter (\<lambda>r. fst r = i) (pl_seen (fold (poll_entry env now) es st)) = filter (\<lambda>r. fst r = i) (pl_seen st) @ [(i, Skipped_Early)]"
  using assms(1,2)
proof (induction es arbitrary: st)
  case (Cons e es)
  obtain r where r: "pl_seen (poll_entry env now e st) = pl_seen st @ [(fst e, r)]" using poll_entry_fields(2) by blast
  show ?case
  proof (cases "e = (i, fs)")
    case True
    have "pl_seen (poll_entry env now e st) = pl_seen st @ [(i, Skipped_Early)]"
      by (simp add: poll_entry_def True early_skipped[OF assms(3)])
    moreover obtain rs where rs: "pl_seen (fold (poll_entry env now) es (poll_entry env now e st)) = pl_seen (poll_entry env now e st) @ rs"
      "map fst rs = map fst es" using poll_entries by blast
    moreover have "filter (\<lambda>r. fst r = i) rs = []"
    proof -
      have "set (map fst rs) = set (map fst es)" by (simp only: rs(2))
      moreover have "\<forall>f\<in>set es. i < fst f" using Cons.prems(1) True by simp
      ultimately have "\<forall>r\<in>set rs. fst r \<noteq> i" by force
      then show ?thesis by (simp add: filter_empty_conv)
    qed
    ultimately show ?thesis by simp
  next
    case False
    then have "(i, fs) \<in> set es" using Cons.prems(2) by simp
    moreover from this have "fst e \<noteq> i" using Cons.prems(1) by auto
    ultimately show ?thesis using Cons.IH[of "poll_entry env now e st"] Cons.prems(1) r by simp
  qed
qed simp

text \<open>An entry that is not due when the loop reads it, and is not the last one it
  reads, is skipped and never looked at again, in any number of later turns, although it stays in
  the stream.\<close>

theorem early_entry_lost:
  assumes "stream_ok (le_stream env)" "(i, fs) \<in> set (butlast (sx_range (le_stream env) (pl_last_id st) n (pl_stream st)))"
    "not_due (le_libs env) now fs"
  shows "filter (\<lambda>r. fst r = i) (pl_seen (poll_run env n (now # turns) st)) = filter (\<lambda>r. fst r = i) (pl_seen st) @ [(i, Skipped_Early)]"
proof -
  let ?es = "sx_range (le_stream env) (pl_last_id st) n (pl_stream st)"
  have sorted: "sorted_wrt (\<lambda>e f. fst e < fst f) ?es" using assms(1) by (simp add: stream_ok_def)
  have mem: "(i, fs) \<in> set ?es" using assms(2) by (rule in_set_butlastD)
  have ne: "?es \<noteq> []" using mem by auto
  have less: "i < fst (last ?es)"
  proof -
    have "sorted_wrt (\<lambda>e f. fst e < fst f) (butlast ?es @ [last ?es])" using sorted ne by simp
    then show ?thesis using assms(2) by (auto simp: sorted_wrt_append)
  qed
  have last: "pl_last_id (poll_once env n now st) = fst (last ?es)" using poll_entries[of ?es env now st] ne by (simp add: poll_once_def)
  obtain rs where rs: "pl_seen (poll_run env n turns (poll_once env n now st)) = pl_seen (poll_once env n now st) @ rs"
    "\<forall>r\<in>set rs. pl_last_id (poll_once env n now st) \<le> fst r" using run_forward[OF assms(1)] by blast
  then have "filter (\<lambda>r. fst r = i) rs = []" using less unfolding last by (auto simp: filter_empty_conv)
  moreover have "filter (\<lambda>r. fst r = i) (pl_seen (poll_once env n now st)) = filter (\<lambda>r. fst r = i) (pl_seen st) @ [(i, Skipped_Early)]"
    unfolding poll_once_def by (rule seen_of_batch[OF sorted mem assms(3)])
  moreover have "poll_run env n (now # turns) st = poll_run env n turns (poll_once env n now st)" by (simp add: poll_run_def)
  ultimately show ?thesis using rs(1) by simp
qed

text \<open>A retry on demand of entries that are not due sends nothing, although it counts them.\<close>

theorem forced_retry_waits:
  assumes "\<forall>e\<in>set (sx_range (le_stream env) 0 len (fst st)). dget ''decision_id'' (snd e) [] = i \<longrightarrow> not_due (le_libs env) now (snd e)"
  shows "retry_deadletter_by_decision_id env now i len st =
    (length (filter (\<lambda>e. dget ''decision_id'' (snd e) [] = i) (sx_range (le_stream env) 0 len (fst st))), st)"
proof -
  let ?step = "\<lambda>(sid, fs) (n, st). if \<not> dget ''decision_id'' fs [] = i then (n, st)
     else (let (r, st') = process_letter env now sid fs st in (if r = Broken then n else n + 1, st'))"
  have "fold ?step es (n, st) = (n + length (filter (\<lambda>e. dget ''decision_id'' (snd e) [] = i) es), st)"
    if "\<forall>e\<in>set es. dget ''decision_id'' (snd e) [] = i \<longrightarrow> not_due (le_libs env) now (snd e)" for es n
    using that by (induction es arbitrary: n) (auto simp: early_skipped)
  from this[OF assms, of 0] show ?thesis by (simp add: retry_deadletter_by_decision_id_def retry_all_def)
qed

text \<open>A stream that is a list, and two entries, the first of which is due at time 90.\<close>

definition list_stream :: "(int \<times> stream_fields) list stream" where
  "list_stream = \<lparr>sx_add = (\<lambda>f s. let i = fold max (map fst s) 0 + 1 in Some (i, s @ [(i, f)])), sx_del = (\<lambda>i s. takeWhile (\<lambda>e. fst e \<noteq> i) s @ tl (dropWhile (\<lambda>e. fst e \<noteq> i) s)),
     sx_range = (\<lambda>i n s. take n (map (\<lambda>k. (k, dget k s [])) (filter (\<lambda>k. i \<le> k) (sort (remdups (map fst s))))))\<rparr>"

lemma list_stream_ok: "stream_ok list_stream"
proof -
  have "sorted_wrt (<) (sort (remdups (map fst s)))" for s :: "(int \<times> stream_fields) list"
    by (simp add: strict_sorted_iff)
  then have "sorted_wrt (\<lambda>e f. fst e < fst f) (map (\<lambda>k. (k, dget k s [])) (filter (\<lambda>k. i \<le> k) (sort (remdups (map fst s)))))"
    for i and s :: "(int \<times> stream_fields) list"
    by (simp add: sorted_wrt_map sorted_wrt_filter)
  then show ?thesis
    by (auto simp: stream_ok_def list_stream_def sorted_wrt_take dest!: in_set_takeD)
qed

definition demo_stream_libs :: stream_libs where
  "demo_stream_libs = \<lparr>sl_libs = \<lparr>ol_parse_int = (\<lambda>_. None), ol_parse_float = (\<lambda>_. None), ol_str = (\<lambda>_. ''?''), ol_json_file = (\<lambda>_. None)\<rparr>,
     sl_loads = (\<lambda>s. if s = ''late'' then Some (VDict [(''next_retry_utc'', VStr ''90'')]) else Some (VDict [])),
     sl_dumps = (\<lambda>_. []), sl_parse_iso = (\<lambda>s. if s = ''90'' then Some 90 else None), sl_iso = (\<lambda>_. [])\<rparr>"

definition demo_letter_env :: "(int \<times> stream_fields) list letter_env" where
  "demo_letter_env = \<lparr>le_libs = demo_stream_libs, le_make = (\<lambda>_. True), le_stream = list_stream, le_dispatch = (\<lambda>_ _ _ s. (Sent [(''ok'', VBool True)], s)), le_max_retries = 5\<rparr>"

definition two_letters :: "(int \<times> stream_fields) list" where
  "two_letters = [(1, [(''channel'', ''slack''), (''retry_meta'', ''late'')]), (2, [(''channel'', ''slack'')])]"

theorem early_entry_lost_witness:
  "filter (\<lambda>r. fst r = 1) (pl_seen (poll_run demo_letter_env 50 [10, 100, 200]
     \<lparr>pl_last_id = 0, pl_stream = two_letters, pl_log = [], pl_seen = []\<rparr>)) = [(1, Skipped_Early)]"
proof -
  let ?st = "\<lparr>pl_last_id = 0, pl_stream = two_letters, pl_log = [], pl_seen = []\<rparr>"
  have ok: "stream_ok (le_stream demo_letter_env)" by (simp add: demo_letter_env_def list_stream_ok)
  have mem: "(1, [(''channel'', ''slack''), (''retry_meta'', ''late'')]) \<in>
      set (butlast (sx_range (le_stream demo_letter_env) (pl_last_id ?st) 50 (pl_stream ?st)))"
    by (simp add: demo_letter_env_def list_stream_def two_letters_def dget_def)
  have early: "not_due (le_libs demo_letter_env) 10 [(''channel'', ''slack''), (''retry_meta'', ''late'')]" by code_simp
  from early_entry_lost[OF ok mem early, of "[100, 200]"] show ?thesis by simp
qed

end
