(* ===== verification/Notifiers.thy ===== *)
theory Notifiers
  imports Deadletter
begin

text \<open>
  The notifiers of the module \<open>reasoner_service/alerts.py\<close> (with the same texts and escaping in
  \<open>notifier_alerts.py\<close>), which the package \<open>reasoner_service/alerts\<close> hides from imports: the error budget, the texts of Slack, Telegram and Discord, and the course of
  one notification with its dead letter; their use by the dead letter poller; and
  \<open>utils/redis_wrapper.py\<close>, the Redis operation with one reconnection.

  Parameters: the answers of the web services, a status or an exception, in the order of the requests;
  the configuration of the channels; the symbols outside ASCII and the format of two decimals; the
  stream of dead letters. Times are in microseconds. The lock of the error budget, the latencies and
  the metrics beside the two counters are left out.
\<close>

section \<open>The error budget\<close>

record error_budget =
  eb_window :: time
  eb_max_fail_pct :: rat
  eb_events :: "(time \<times> bool) list"
  eb_breached :: bool
  eb_actions :: nat

definition budget_init :: error_budget where
  "budget_init = \<lparr>eb_window = 3600000000, eb_max_fail_pct = 1/100, eb_events = [], eb_breached = False, eb_actions = 0\<rparr>"

definition fail_pct :: "(time \<times> bool) list \<Rightarrow> rat" where
  "fail_pct es = (if es = [] then 0 else of_nat (length (filter (\<lambda>e. \<not> snd e) es)) / of_nat (length es))"

definition register :: "time \<Rightarrow> bool \<Rightarrow> error_budget \<Rightarrow> error_budget" where
  "register now ok b =
     (let es = filter (\<lambda>e. now - fst e < eb_window b) (eb_events b @ [(now, ok)]); b1 = b\<lparr>eb_events := es\<rparr> in
      if fail_pct es > eb_max_fail_pct b \<and> \<not> eb_breached b then b1\<lparr>eb_breached := True, eb_actions := eb_actions b + 1\<rparr>
      else if fail_pct es \<le> eb_max_fail_pct b then b1\<lparr>eb_breached := False\<rparr>
      else b1)"

section \<open>Texts\<close>

text \<open>\<open>text.replace(c, by)\<close> for one character.\<close>

definition replace_char :: "char \<Rightarrow> string \<Rightarrow> string \<Rightarrow> string" where
  "replace_char c by_text s = concat (map (\<lambda>x. if x = c then by_text else [x]) s)"

definition escape_slack :: "string \<Rightarrow> string" where
  "escape_slack s =
     replace_char (CHR ''>'') ''&gt;'' (replace_char (CHR ''<'') ''&lt;'' (replace_char (CHR ''&'') ''&amp;'' s))"

definition backslash :: char where
  "backslash = CHR 0x5C"

definition telegram_specials :: string where
  "telegram_specials = ''_[]()~`>#+-=|{}.!''"

definition escape_telegram_md :: "string \<Rightarrow> string" where
  "escape_telegram_md s = fold (\<lambda>c. replace_char c [backslash, c]) telegram_specials s"

record notify_texts =
  tx_libs :: orch_libs
  tx_emoji :: "string \<Rightarrow> string"
  tx_dash :: string
  tx_bullet :: string
  tx_two_decimals :: "rat \<Rightarrow> string"

definition new_line :: string where
  "new_line = [CHR 0x0A]"

definition format_tp_sl :: "notify_texts \<Rightarrow> pydict \<Rightarrow> string \<Rightarrow> string" where
  "format_tp_sl l payload platform =
     (let tp = dget ''tp'' payload VNone; sl = dget ''sl'' payload VNone;
          part = (\<lambda>name v. ''*'' @ name @ ''*: '' @ (if v = VNone then ''_not provided_'' else py_str (tx_libs l) v))
      in if tp \<noteq> VNone \<or> sl \<noteq> VNone
         then part ''TP'' tp @ (if platform \<noteq> ''telegram'' then '' | '' else new_line) @ part ''SL'' sl
         else ''*TP/SL*: _not provided_'')"

text \<open>The first line: recommendation, symbol, entry and confidence between marks of bold type.\<close>

definition headline :: "notify_texts \<Rightarrow> string \<Rightarrow> string \<Rightarrow> string \<Rightarrow> pydict \<Rightarrow> string option" where
  "headline l bold close rec payload =
     (let entry = dget ''entry'' payload VNone; conf = dget ''confidence'' payload VNone;
          start = tx_emoji l rec @ '' '' @ bold @ py_upper rec @ bold @ '' '' @ tx_dash l @ '' '' @
            bold @ py_str (tx_libs l) (dget ''symbol'' payload (VStr ''?'')) @ bold @
            (if truthy entry then '' @ '' @ bold @ py_str (tx_libs l) entry @ bold else [])
      in if conf = VNone then Some start
         else map_option (\<lambda>x. start @ '' (conf: '' @ bold @ tx_two_decimals l x @ bold @ close) (as_number conf))"

text \<open>The line of the summary, if there is one; \<open>None\<close> when Slack's escaping is given no text.\<close>

definition summary_line :: "notify_texts \<Rightarrow> string \<Rightarrow> pydict \<Rightarrow> string option" where
  "summary_line l platform payload =
     (let v = dget ''summary'' payload (VStr []); s = py_str (tx_libs l) v in
      if \<not> truthy v then Some []
      else if platform = ''slack'' then
        (case v of VStr x \<Rightarrow> Some (new_line @ ''_'' @ escape_slack x @ ''_'') | _ \<Rightarrow> None)
      else if platform = ''telegram'' then Some (new_line @ ''_'' @ s @ ''_'')
      else if platform = ''discord'' then Some (new_line @ ''*'' @ s @ ''*'')
      else Some (new_line @ s))"

definition platform_marks :: "string \<Rightarrow> string \<times> string" where
  "platform_marks platform =
     (if platform = ''slack'' \<or> platform = ''telegram'' then (''*'', '')'')
      else if platform = ''discord'' then (''**'', '' )'') else ([], '')''))"

definition escape_for :: "string \<Rightarrow> string \<Rightarrow> string" where
  "escape_for platform s =
     (if platform = ''slack'' then escape_slack s else if platform = ''telegram'' then escape_telegram_md s else s)"

definition format_payload_markdown :: "notify_texts \<Rightarrow> pydict \<Rightarrow> string \<Rightarrow> string option" where
  "format_payload_markdown l payload platform =
     (case dget ''recommendation'' payload (VStr []) of
        VStr rec \<Rightarrow>
          do { h \<leftarrow> headline l (fst (platform_marks platform)) (snd (platform_marks platform)) rec payload;
               s \<leftarrow> summary_line l platform payload;
               Some (escape_for platform
                 (h @ new_line @ (if platform \<in> set all_channels then tx_bullet l @ '' '' else []) @
                  format_tp_sl l payload platform @ s)) }
      | _ \<Rightarrow> None)"

definition discord_color_for_confidence :: "rat \<Rightarrow> int" where
  "discord_color_for_confidence conf =
     (if conf \<ge> 4/5 then 0x2ecc40 else if conf \<ge> 1/2 then 0xffc300 else 0xe74c3c)"

section \<open>One notification\<close>

datatype http_answer = Status int string | No_Answer string

record 's notify_env =
  ne_texts :: notify_texts
  ne_letters :: stream_libs
  ne_stream :: "'s stream"
  ne_configured :: "string \<Rightarrow> bool"
  ne_post :: "nat \<Rightarrow> http_answer"
  ne_raised :: string

record 's notify_state =
  ns_budget :: error_budget
  ns_failures :: nat
  ns_successes :: nat
  ns_posts :: nat
  ns_stream :: 's

definition count_request :: "bool \<Rightarrow> 's notify_state \<Rightarrow> 's notify_state" where
  "count_request ok s = (if ok then s\<lparr>ns_successes := ns_successes s + 1\<rparr> else s\<lparr>ns_failures := ns_failures s + 1\<rparr>)"

definition register_in :: "time \<Rightarrow> bool \<Rightarrow> 's notify_state \<Rightarrow> 's notify_state" where
  "register_in now ok s = s\<lparr>ns_budget := register now ok (ns_budget s)\<rparr>"

definition notify_failed :: "string \<Rightarrow> pydict" where
  "notify_failed err = [(''ok'', VBool False), (''error'', VStr err), (''status'', VNone)]"

definition notify_ok :: "int \<Rightarrow> pydict" where
  "notify_ok status = [(''ok'', VBool True), (''status'', VInt status)]"

text \<open>The handler of every exception: a dead letter with one attempt, unless writing it raises; the error
  budget; the counter.\<close>

definition after_failure ::
    "'s notify_env \<Rightarrow> time \<Rightarrow> string \<Rightarrow> pyval \<Rightarrow> string option \<Rightarrow> string \<Rightarrow> 's notify_state \<Rightarrow> dispatch \<times> 's notify_state" where
  "after_failure env now channel payload decision_id err s =
     (let s1 = (case publish_deadletter (ne_letters env) (ne_stream env) now decision_id channel payload err 1 10 None (ns_stream s) of
                  None \<Rightarrow> s | Some (_, t) \<Rightarrow> s\<lparr>ns_stream := t\<rparr>)
      in (Sent (notify_failed err), count_request False (register_in now False s1)))"

definition accepted_status :: "string \<Rightarrow> int \<Rightarrow> bool" where
  "accepted_status channel status = (if channel = ''slack'' then status = 200 else 200 \<le> status \<and> status < 300)"

definition missing_config :: "string \<Rightarrow> string" where
  "missing_config channel = (if channel = ''telegram'' then ''no_token_or_chat_id'' else ''no_webhook_url'')"

definition display_name :: "string \<Rightarrow> string" where
  "display_name channel = (if channel = ''slack'' then ''Slack'' else if channel = ''discord'' then ''Discord'' else ''Telegram'')"

definition http_error :: "string \<Rightarrow> string \<Rightarrow> int \<Rightarrow> string \<Rightarrow> string" where
  "http_error name extra status body = name @ '' error'' @ extra @ '': '' @ show_int status @ '' '' @ body"

text \<open>The request: its answer, and one request more.\<close>

definition post_request :: "'s notify_env \<Rightarrow> 's notify_state \<Rightarrow> http_answer \<times> 's notify_state" where
  "post_request env s = (ne_post env (ns_posts s), s\<lparr>ns_posts := ns_posts s + 1\<rparr>)"

text \<open>What the request is answered with; Telegram is asked a second time, in plain text, after a status 400.\<close>

definition send_text ::
    "'s notify_env \<Rightarrow> time \<Rightarrow> string \<Rightarrow> pyval \<Rightarrow> string option \<Rightarrow> 's notify_state \<Rightarrow> dispatch \<times> 's notify_state" where
  "send_text env now channel payload decision_id s =
     (let failed = after_failure env now channel payload decision_id; (answer, s1) = post_request env s in
      case answer of
        No_Answer err \<Rightarrow> failed err s1
      | Status status body \<Rightarrow>
         (let ok = accepted_status channel status; s2 = register_in now ok (count_request ok s1) in
          if ok then (Sent (notify_ok status), s2)
          else if channel = ''telegram'' \<and> status = 400 then
            (let (plain, s3) = post_request env s2 in
             case plain of
               No_Answer err \<Rightarrow> failed err s3
             | Status status2 body2 \<Rightarrow>
                 if accepted_status channel status2 then (Sent (notify_ok status2), s3)
                 else failed (http_error ''Telegram'' '' (plain)'' status2 body2) s3)
          else failed (http_error (display_name channel) [] status body) s2))"

text \<open>What the text needs before the request: a payload that can be written, for Discord also a confidence
  that is a number. Outside the handler of exceptions, so that a failure here is raised.\<close>

definition writable :: "'s notify_env \<Rightarrow> string \<Rightarrow> pyval \<Rightarrow> bool" where
  "writable env channel payload =
     (case payload of
        VDict d \<Rightarrow> format_payload_markdown (ne_texts env) d channel \<noteq> None \<and>
          (channel = ''discord'' \<longrightarrow> to_float (tx_libs (ne_texts env)) (dget ''confidence'' d (VFloat 0)) \<noteq> None)
      | _ \<Rightarrow> False)"

definition notify ::
    "'s notify_env \<Rightarrow> time \<Rightarrow> string \<Rightarrow> pyval \<Rightarrow> string option \<Rightarrow> 's notify_state \<Rightarrow> dispatch \<times> 's notify_state" where
  "notify env now channel payload decision_id s =
     (if \<not> ne_configured env channel then (Sent (notify_failed (missing_config channel)), s)
      else if \<not> writable env channel payload then (Raised (ne_raised env), s)
      else send_text env now channel payload decision_id s)"

text \<open>The notifiers as the poller of dead letters sees them: it works on the state of the notifiers, whose
  stream it shares.\<close>

definition lift_stream :: "'s stream \<Rightarrow> 's notify_state stream" where
  "lift_stream x = \<lparr>sx_add = (\<lambda>f s. map_option (\<lambda>(i, t). (i, s\<lparr>ns_stream := t\<rparr>)) (sx_add x f (ns_stream s))),
     sx_del = (\<lambda>i s. s\<lparr>ns_stream := sx_del x i (ns_stream s)\<rparr>), sx_range = (\<lambda>i n s. sx_range x i n (ns_stream s))\<rparr>"

definition notifier_letter_env :: "'s notify_env \<Rightarrow> time \<Rightarrow> int \<Rightarrow> 's notify_state letter_env" where
  "notifier_letter_env env now max_retries =
     \<lparr>le_libs = ne_letters env, le_make = (\<lambda>_. True), le_stream = lift_stream (ne_stream env),
      le_dispatch = (\<lambda>channel payload i s. notify env now channel payload (Some i) s), le_max_retries = max_retries\<rparr>"

section \<open>A Redis operation\<close>

datatype 'v redis_answer = Redis_Value 'v | Redis_Unavailable string | Redis_Op_Failed string

record redis_ctx =
  rc_connected :: bool
  rc_circuit_open_until :: rat
  rc_attempts :: nat
  rc_reconnects :: nat

text \<open>The attempts of the operation and the success of each reconnection are given; an attempt answers a
  value or the text of its exception.\<close>

definition ensure_redis :: "(nat \<Rightarrow> bool) \<Rightarrow> redis_ctx \<Rightarrow> redis_ctx" where
  "ensure_redis reconnect c = c\<lparr>rc_connected := reconnect (rc_reconnects c), rc_reconnects := rc_reconnects c + 1\<rparr>"

fun redis_attempts :: "(nat \<Rightarrow> string + 'v) \<Rightarrow> (nat \<Rightarrow> bool) \<Rightarrow> nat \<Rightarrow> redis_ctx \<Rightarrow> 'v redis_answer \<times> redis_ctx" where
  "redis_attempts op reconnect retries c =
     (let c1 = c\<lparr>rc_attempts := rc_attempts c + 1\<rparr> in
      case op (rc_attempts c) of
        Inr v \<Rightarrow> (Redis_Value v, c1)
      | Inl err \<Rightarrow>
          (case retries of
             0 \<Rightarrow> (Redis_Op_Failed err, c1)
           | Suc n \<Rightarrow>
              (let c2 = ensure_redis reconnect c1 in
               if \<not> rc_connected c2 then (Redis_Unavailable ''redis unavailable after reconnect'', c2)
               else redis_attempts op reconnect n c2)))"

declare redis_attempts.simps [simp del]

definition redis_op :: "(nat \<Rightarrow> string + 'v) \<Rightarrow> (nat \<Rightarrow> bool) \<Rightarrow> nat \<Rightarrow> redis_ctx \<Rightarrow> 'v redis_answer \<times> redis_ctx" where
  "redis_op op reconnect retries c =
     (if rc_circuit_open_until c > 0 then (Redis_Unavailable ''redis circuit open'', c)
      else
        (let c1 = (if rc_connected c then c else ensure_redis reconnect c) in
         if \<not> rc_connected c1 then (Redis_Unavailable ''no redis available after ensure'', c1)
         else redis_attempts op reconnect retries c1))"

section \<open>Properties of the texts\<close>

lemma concat_map_compose: "concat (map f (concat (map g xs))) = concat (map (\<lambda>x. concat (map f (g x))) xs)"
  by (induction xs) simp_all

lemma escape_step:
  assumes "c \<notin> set cs" "backslash \<notin> set (c # cs)"
  shows "replace_char c [backslash, c] (concat (map (\<lambda>x. if x \<in> set cs then [backslash, x] else [x]) s)) =
    concat (map (\<lambda>x. if x \<in> set (c # cs) then [backslash, x] else [x]) s)"
  using assms unfolding replace_char_def by (induction s) auto

text \<open>The replacements one after the other escape every special character once.\<close>

lemma escape_fold:
  "distinct (cs @ ds) \<Longrightarrow> backslash \<notin> set (cs @ ds) \<Longrightarrow>
   fold (\<lambda>c. replace_char c [backslash, c]) ds (concat (map (\<lambda>x. if x \<in> set cs then [backslash, x] else [x]) s)) =
   concat (map (\<lambda>x. if x \<in> set (cs @ ds) then [backslash, x] else [x]) s)"
proof (induction ds arbitrary: cs)
  case (Cons d ds)
  have "replace_char d [backslash, d] (concat (map (\<lambda>x. if x \<in> set cs then [backslash, x] else [x]) s)) =
      concat (map (\<lambda>x. if x \<in> set (d # cs) then [backslash, x] else [x]) s)"
    using Cons.prems by (intro escape_step) auto
  moreover have "set ((d # cs) @ ds) = set (cs @ d # ds)" by auto
  ultimately show ?case using Cons.IH[of "d # cs"] Cons.prems by (auto simp del: map_eq_conv)
qed simp

lemma telegram_escape_exact:
  "escape_telegram_md s = concat (map (\<lambda>x. if x \<in> set telegram_specials then [backslash, x] else [x]) s)"
  using escape_fold[of "[]" telegram_specials s]
  by (simp add: escape_telegram_md_def telegram_specials_def backslash_def)

lemma set_replace_char: "set (replace_char c t s) = (if c \<in> set s then set t else {}) \<union> (set s - {c})"
  unfolding replace_char_def by (induction s) auto

text \<open>No text for Slack has a mark of markup; a summary is escaped twice.\<close>

lemma slack_text_clean: "CHR ''<'' \<notin> set (escape_slack s)" "CHR ''>'' \<notin> set (escape_slack s)"
  by (simp_all add: escape_slack_def set_replace_char)

lemma slack_summary_twice: "escape_slack (escape_slack ''&'') = ''&amp;amp;''"
  by (simp add: escape_slack_def replace_char_def)

section \<open>The error budget over a run\<close>

definition register_all :: "(time \<times> bool) list \<Rightarrow> error_budget \<Rightarrow> error_budget" where
  "register_all es b = fold (\<lambda>(t, ok). register t ok) es b"

lemma register_fields [simp]:
  "eb_window (register now ok b) = eb_window b" "eb_max_fail_pct (register now ok b) = eb_max_fail_pct b"
  "eb_events (register now ok b) = filter (\<lambda>e. now - fst e < eb_window b) (eb_events b @ [(now, ok)])"
  "eb_breached (register now ok b) \<longleftrightarrow> fail_pct (eb_events (register now ok b)) > eb_max_fail_pct b"
  by (auto simp: register_def Let_def)

lemma register_all_fields [simp]:
  "eb_window (register_all es b) = eb_window b" "eb_max_fail_pct (register_all es b) = eb_max_fail_pct b"
  by (induction es arbitrary: b) (auto simp: register_all_def)

lemma register_all_snoc: "register_all (es @ [(t, ok)]) b = register t ok (register_all es b)"
  by (simp add: register_all_def)

lemma filter_window:
  assumes "\<forall>e\<in>set es. fst e \<le> t" "t \<le> (u :: int)"
  shows "filter (\<lambda>e. u - fst e < w) (filter (\<lambda>e. t - fst e < w) es) = filter (\<lambda>e. u - fst e < w) es"
  using assms by (induction es) auto

text \<open>After registrations whose times do not go back, the budget holds exactly the
  results of the last window, and it is breached exactly when the share of failures among them is
  above the limit.\<close>

theorem error_budget_exact:
  assumes "sorted (map fst (es @ [(now, ok)]))" "eb_events b = []"
  shows "eb_events (register_all (es @ [(now, ok)]) b) = filter (\<lambda>e. now - fst e < eb_window b) (es @ [(now, ok)])"
    and "eb_breached (register_all (es @ [(now, ok)]) b) \<longleftrightarrow>
      fail_pct (filter (\<lambda>e. now - fst e < eb_window b) (es @ [(now, ok)])) > eb_max_fail_pct b"
proof -
  have "sorted (map fst (es @ [(now, ok)])) \<Longrightarrow>
      eb_events (register_all (es @ [(now, ok)]) b) = filter (\<lambda>e. now - fst e < eb_window b) (es @ [(now, ok)])" for now ok
  proof (induction es arbitrary: now ok rule: rev_induct)
    case Nil
    then show ?case using assms(2) by (simp add: register_all_def)
  next
    case (snoc e es)
    obtain t o' where e: "e = (t, o')" by force
    have before: "\<forall>e\<in>set (es @ [(t, o')]). fst e \<le> t" "t \<le> now" using snoc.prems by (auto simp: e sorted_append)
    have "sorted (map fst (es @ [(t, o')]))" using snoc.prems by (simp add: e sorted_append)
    from snoc.IH[OF this] show ?case
      by (simp only: e register_all_snoc[of "es @ [(t, o')]"] register_fields register_all_fields filter_append[of _ "es @ [(t, o')]"]
          filter_append[of _ "filter _ _"] filter_window[OF before])
  qed
  then show 1: "eb_events (register_all (es @ [(now, ok)]) b) = filter (\<lambda>e. now - fst e < eb_window b) (es @ [(now, ok)])"
    using assms(1) by blast
  show "eb_breached (register_all (es @ [(now, ok)]) b) \<longleftrightarrow>
      fail_pct (filter (\<lambda>e. now - fst e < eb_window b) (es @ [(now, ok)])) > eb_max_fail_pct b"
    using 1 by (simp add: register_all_snoc)
qed

theorem error_budget_exact_witness:
  "eb_breached (register_all [(0, False), (3000000000, True), (3600000000, True)] budget_init) =
     (fail_pct [(3000000000, True), (3600000000, True)] > 1/100)"
  using error_budget_exact(2)[of "[(0, False), (3000000000, True)]" 3600000000 True budget_init] by (simp add: budget_init_def)

section \<open>A failing service and the dead letters\<close>

text \<open>A stream that counts its entries: adding puts one more, removing takes at most one.\<close>

definition counts_letters :: "'s stream \<Rightarrow> ('s \<Rightarrow> nat) \<Rightarrow> bool" where
  "counts_letters x sz \<longleftrightarrow>
     (\<forall>f s. \<exists>i t. sx_add x f s = Some (i, t) \<and> sz t = Suc (sz s)) \<and> (\<forall>i s. sz s \<le> Suc (sz (sx_del x i s)))"

definition refuses :: "string \<Rightarrow> http_answer \<Rightarrow> bool" where
  "refuses channel a = (case a of No_Answer _ \<Rightarrow> True | Status n _ \<Rightarrow> \<not> accepted_status channel n)"

lemma count_request_fields [simp]: "ns_stream (count_request ok s) = ns_stream s" "ns_stream (register_in now ok s) = ns_stream s"
  by (simp_all add: count_request_def register_in_def)

lemma after_failure_adds:
  assumes "counts_letters (ne_stream env) sz"
  shows "\<exists>s'. after_failure env now channel payload i err s = (Sent (notify_failed err), s') \<and>
    sz (ns_stream s') = Suc (sz (ns_stream s))"
proof -
  obtain j t where "publish_deadletter (ne_letters env) (ne_stream env) now i channel payload err 1 10 None (ns_stream s) = Some (j, t)"
    "sz t = Suc (sz (ns_stream s))"
    using assms by (auto simp: counts_letters_def publish_deadletter_def Let_def) blast
  then show ?thesis by (simp add: after_failure_def Let_def)
qed

lemma send_refused:
  assumes "\<forall>n. refuses channel (ne_post env n)"
  shows "\<exists>err s1. send_text env now channel payload i s = after_failure env now channel payload i err s1 \<and> ns_stream s1 = ns_stream s"
proof (cases "ne_post env (ns_posts s)")
  case (No_Answer err)
  then show ?thesis by (intro exI[of _ err] exI[of _ "s\<lparr>ns_posts := ns_posts s + 1\<rparr>"]) (simp add: send_text_def post_request_def)
next
  case (Status st body)
  have no: "\<not> accepted_status channel m" if "ne_post env n = Status m x" for n m x
    using assms that by (auto simp: refuses_def split: http_answer.splits)
  let ?s2 = "register_in now False (count_request False (s\<lparr>ns_posts := ns_posts s + 1\<rparr>))"
  let ?s3 = "?s2\<lparr>ns_posts := ns_posts ?s2 + 1\<rparr>"
  have keep: "ns_stream ?s2 = ns_stream s" "ns_stream ?s3 = ns_stream s" by simp_all
  show ?thesis
  proof (cases "channel = ''telegram'' \<and> st = 400")
    case True
    show ?thesis
    proof (cases "ne_post env (ns_posts ?s2)")
      case (Status m x)
      have "send_text env now channel payload i s = after_failure env now channel payload i (http_error ''Telegram'' '' (plain)'' m x) ?s3"
        using True no[OF Status] no[OF \<open>ne_post env (ns_posts s) = Status st body\<close>] Status
          \<open>ne_post env (ns_posts s) = Status st body\<close>
        by (simp add: send_text_def post_request_def Let_def)
      then show ?thesis using keep(2) by blast
    next
      case (No_Answer x)
      have "send_text env now channel payload i s = after_failure env now channel payload i x ?s3"
        using True No_Answer no[OF Status] Status by (simp add: send_text_def post_request_def Let_def)
      then show ?thesis using keep(2) by blast
    qed
  next
    case False
    have "send_text env now channel payload i s = after_failure env now channel payload i (http_error (display_name channel) [] st body) ?s2"
      using False no[OF Status] Status by (auto simp: send_text_def post_request_def Let_def)
    then show ?thesis using keep(1) by blast
  qed
qed

lemma refused_adds:
  assumes "counts_letters (ne_stream env) sz" "\<forall>n. refuses channel (ne_post env n)"
  shows "\<exists>err s'. send_text env now channel payload i s = (Sent (notify_failed err), s') \<and>
    sz (ns_stream s') = Suc (sz (ns_stream s))"
proof -
  obtain err s1 where "send_text env now channel payload i s = after_failure env now channel payload i err s1" "ns_stream s1 = ns_stream s"
    using send_refused[OF assms(2)] by blast
  then show ?thesis using after_failure_adds[OF assms(1), of now channel payload i err s1] by auto
qed

lemma lift_counts:
  assumes "counts_letters x sz"
  shows "counts_letters (lift_stream x) (\<lambda>s. sz (ns_stream s))"
proof -
  have "\<exists>i t. sx_add (lift_stream x) f s = Some (i, t) \<and> sz (ns_stream t) = Suc (sz (ns_stream s))" for f s
  proof -
    obtain i t where "sx_add x f (ns_stream s) = Some (i, t)" "sz t = Suc (sz (ns_stream s))"
      using assms unfolding counts_letters_def by blast
    then show ?thesis by (simp add: lift_stream_def)
  qed
  moreover have "sz (ns_stream s) \<le> Suc (sz (ns_stream (sx_del (lift_stream x) i s)))" for i s
    using assms by (simp add: counts_letters_def lift_stream_def)
  ultimately show ?thesis unfolding counts_letters_def by blast
qed

text \<open>These notifiers write a dead letter for every failure, also for the retry
  of a dead letter. So while the service refuses, a retry that is not the last leaves one letter more in
  the stream, and even the letter that is given up is replaced by a new one with all its attempts.\<close>

theorem failed_retry_grows_stream:
  assumes "counts_letters (ne_stream env) sz" "\<forall>n. refuses (de_channel e) (ne_post env n)"
    and "ne_configured env (de_channel e)" "writable env (de_channel e) (de_payload e)"
    and "deliver_letter (notifier_letter_env env now max_retries) now sid e attempts base (s, lg) = (r, s', lg')"
  shows "r = (if attempts + 1 > max_retries then Gave_Up else Rescheduled)"
    and "sz (ns_stream s') \<ge> (if attempts + 1 > max_retries then 0 else 1) + sz (ns_stream s)"
proof -
  let ?env = "notifier_letter_env env now max_retries"
  obtain err s1 where sent: "notify env now (de_channel e) (de_payload e) (Some (de_letter_id e)) s = (Sent (notify_failed err), s1)"
    and more: "sz (ns_stream s1) = Suc (sz (ns_stream s))"
    using refused_adds[OF assms(1,2), of now "de_payload e" "Some (de_letter_id e)" s] assms(3,4) by (auto simp: notify_def)
  note lifted = lift_counts[OF assms(1), unfolded counts_letters_def]
  have ends: "le_max_retries ?env = max_retries" "le_stream ?env = lift_stream (ne_stream env)"
    by (simp_all add: notifier_letter_env_def)
  have del: "sz (ns_stream t) \<le> Suc (sz (ns_stream (sx_del (lift_stream (ne_stream env)) sid t)))" for t
    using lifted by blast
  have again: "Suc (sz (ns_stream s)) \<le> sz (ns_stream (reschedule_letter ?env now sid e n base x s1))" for n x
  proof -
    obtain i t where t: "sx_add (lift_stream (ne_stream env)) (letter_fields (le_libs ?env) now (de_letter_id e) (de_channel e)
          (de_payload e) x (retry_meta (le_libs ?env) n base (now + backoff_time base n))) s1 = Some (i, t)"
      "sz (ns_stream t) = Suc (sz (ns_stream s1))"
      using lifted by blast
    then have "reschedule_letter ?env now sid e n base x s1 = sx_del (lift_stream (ne_stream env)) sid t"
      by (simp only: reschedule_letter_def ends option.case prod.case)
    then show ?thesis using del[of t] t(2) more by simp
  qed
  have le: "le_dispatch ?env (de_channel e) (de_payload e) (de_letter_id e) s = (Sent (notify_failed err), s1)"
    by (simp add: notifier_letter_env_def sent)
  have not_ok: "\<not> truthy (dget ''ok'' (dispatch_result (Sent (notify_failed err))) VNone)"
    by (simp add: dispatch_result_def notify_failed_def dget_def)
  let ?x = "result_error (le_libs ?env) (dispatch_result (Sent (notify_failed err))) (de_error e)"
  have out: "r = (if attempts + 1 > max_retries then Gave_Up else Rescheduled)"
    "s' = (if attempts + 1 > max_retries then sx_del (lift_stream (ne_stream env)) sid s1
           else reschedule_letter ?env now sid e (attempts + 1) base ?x s1)"
    using assms(5) unfolding deliver_letter_def prod.case le Let_def if_not_P[OF not_ok] ends
    by (simp_all split: if_splits)
  show "r = (if attempts + 1 > max_retries then Gave_Up else Rescheduled)" by (rule out)
  show "sz (ns_stream s') \<ge> (if attempts + 1 > max_retries then 0 else 1) + sz (ns_stream s)"
    using out(2) del[of s1] more again[of "attempts + 1" ?x] by (auto split: if_splits)
qed

definition refused_env :: "(int \<times> stream_fields) list notify_env" where
  "refused_env = \<lparr>ne_texts = \<lparr>tx_libs = sl_libs demo_stream_libs, tx_emoji = (\<lambda>_. []), tx_dash = ''-'', tx_bullet = ''-'',
       tx_two_decimals = (\<lambda>_. [])\<rparr>, ne_letters = demo_stream_libs, ne_stream = list_stream, ne_configured = (\<lambda>_. True),
     ne_post = (\<lambda>_. Status 503 ''busy''), ne_raised = []\<rparr>"

lemma list_stream_counts: "counts_letters list_stream length"
proof -
  have "length s \<le> Suc (length (takeWhile P s @ tl (dropWhile P s)))" for P and s :: "(int \<times> stream_fields) list"
  proof -
    have "length s = length (takeWhile P s) + length (dropWhile P s)"
      by (metis length_append takeWhile_dropWhile_id)
    then show ?thesis by simp
  qed
  then show ?thesis by (simp add: counts_letters_def list_stream_def Let_def)
qed

theorem failed_retry_grows_stream_witness:
  "length (ns_stream (fst (snd (deliver_letter (notifier_letter_env refused_env 200 5) 200 1
     (reconstruct_entry demo_stream_libs 200 [(''channel'', ''slack'')]) 1 10
     (\<lparr>ns_budget = budget_init, ns_failures = 0, ns_successes = 0, ns_posts = 0,
       ns_stream = [(1, [(''channel'', ''slack'')])]\<rparr>, []))))) \<ge> 2"
proof -
  let ?e = "reconstruct_entry demo_stream_libs 200 [(''channel'', ''slack'')]"
  let ?s = "\<lparr>ns_budget = budget_init, ns_failures = 0, ns_successes = 0, ns_posts = 0,
       ns_stream = [(1, [(''channel'', ''slack'')])]\<rparr> :: (int \<times> stream_fields) list notify_state"
  let ?d = "deliver_letter (notifier_letter_env refused_env 200 5) 200 1 ?e 1 10 (?s, [])"
  have e: "de_channel ?e = ''slack''" "de_payload ?e = VDict []" by code_simp+
  have 1: "counts_letters (ne_stream refused_env) length" by (simp add: refused_env_def list_stream_counts)
  have 2: "\<forall>n. refuses (de_channel ?e) (ne_post refused_env n)"
    by (simp add: e refuses_def refused_env_def accepted_status_def)
  have 3: "ne_configured refused_env (de_channel ?e)" by (simp add: refused_env_def)
  have 4: "writable refused_env (de_channel ?e) (de_payload ?e)" unfolding e by code_simp
  have "?d = (fst ?d, fst (snd ?d), snd (snd ?d))" by simp
  from failed_retry_grows_stream(2)[OF 1 2 3 4 this] show ?thesis by simp
qed

section \<open>The Redis operation\<close>

text \<open>An operation is tried at most once more than its retries, and a value is the answer of its last try.\<close>

lemma redis_attempts_bound:
  "rc_attempts c < rc_attempts (snd (redis_attempts op reconnect retries c)) \<and>
   rc_attempts (snd (redis_attempts op reconnect retries c)) \<le> rc_attempts c + retries + 1 \<and>
   (\<forall>v. fst (redis_attempts op reconnect retries c) = Redis_Value v \<longrightarrow>
      op (rc_attempts (snd (redis_attempts op reconnect retries c)) - 1) = Inr v)"
proof (induction retries arbitrary: c)
  case 0
  show ?case by (subst (1 2 3 4) redis_attempts.simps) (auto simp: Let_def split: sum.split)
next
  case (Suc n)
  let ?c1 = "c\<lparr>rc_attempts := rc_attempts c + 1\<rparr>"
  let ?c2 = "ensure_redis reconnect ?c1"
  have same: "rc_attempts ?c2 = rc_attempts c + 1" by (simp add: ensure_redis_def)
  show ?case
  proof (cases "op (rc_attempts c)")
    case (Inl e)
    show ?thesis
    proof (cases "rc_connected ?c2")
      case True
      then have "redis_attempts op reconnect (Suc n) c = redis_attempts op reconnect n ?c2"
        using Inl by (subst redis_attempts.simps) (simp add: Let_def)
      then show ?thesis using Suc.IH[of ?c2] same by simp
    next
      case False
      then have "redis_attempts op reconnect (Suc n) c = (Redis_Unavailable ''redis unavailable after reconnect'', ?c2)"
        using Inl by (subst redis_attempts.simps) (simp add: Let_def)
      then show ?thesis using same by simp
    qed
  next
    case (Inr v)
    then have "redis_attempts op reconnect (Suc n) c = (Redis_Value v, ?c1)"
      by (subst redis_attempts.simps) (simp add: Let_def)
    then show ?thesis using Inr by simp
  qed
qed

end
