(* ===== verification/Alert_Package.thy ===== *)
theory Alert_Package
  imports Notifiers
begin

text \<open>
  The notifiers that an import of \<open>reasoner_service.alerts\<close> gives: the package
  \<open>reasoner_service/alerts\<close>, with its routing. Slack and Discord only log and answer yes; Telegram sends
  the message to every chat, with retries. A poller of dead letters with these classes.

  Parameters: the answers of Telegram, in the order of the requests, and the text of a whole decision.
  The pauses between the attempts are left out.
\<close>

section \<open>Slack, Discord and the routing\<close>

definition route_channels_for_symbol :: "string \<Rightarrow> string list" where
  "route_channels_for_symbol symbol = [''slack'', ''discord'', ''telegram'']"

definition slack_notify :: "pyval \<Rightarrow> pydict" where
  "slack_notify decision = [(''ok'', VBool True), (''sent'', VBool True)]"

definition discord_notify :: "pyval \<Rightarrow> pydict" where
  "discord_notify decision = [(''ok'', VBool True), (''sent'', VBool True)]"

section \<open>Telegram\<close>

definition markdown_v2_chars :: string where
  "markdown_v2_chars = ''_*[]()~`>#+-=|{}.!''"

definition escape_markdown_v2 :: "string \<Rightarrow> string" where
  "escape_markdown_v2 s = concat (map (\<lambda>c. if c \<in> set markdown_v2_chars then [backslash, c] else [c]) s)"

text \<open>A request ends with the limit of the rate, an error of the transport or of the status, any other
  exception, or the "ok" and "description" of the answer.\<close>

datatype telegram_answer = Rate_Limited | Http_Error string | Other_Error string | Answered bool string

definition chat_failed :: "string \<Rightarrow> pydict" where
  "chat_failed err = [(''ok'', VBool False), (''error'', VStr err)]"

definition chat_gave_up :: pydict where
  "chat_gave_up = [(''ok'', VBool False), (''skipped'', VBool True), (''error'', VStr ''Max retries exceeded'')]"

text \<open>One chat, with the number of attempts that are left after this one; the number of requests made so
  far picks the answer.\<close>

primrec send_chat :: "(nat \<Rightarrow> telegram_answer) \<Rightarrow> nat \<Rightarrow> nat \<Rightarrow> pydict \<times> nat" where
  "send_chat answers 0 n =
     (case answers n of
        Rate_Limited \<Rightarrow> (chat_gave_up, n + 1)
      | Http_Error err \<Rightarrow> (chat_failed err, n + 1)
      | Other_Error err \<Rightarrow> (chat_failed err, n + 1)
      | Answered ok desc \<Rightarrow> (if ok then [(''ok'', VBool True)] else chat_failed desc, n + 1))"
| "send_chat answers (Suc left) n =
     (case answers n of
        Rate_Limited \<Rightarrow> send_chat answers left (n + 1)
      | Http_Error err \<Rightarrow> send_chat answers left (n + 1)
      | Other_Error err \<Rightarrow> (chat_failed err, n + 1)
      | Answered ok desc \<Rightarrow> (if ok then [(''ok'', VBool True)] else chat_failed desc, n + 1))"

definition max_chat_retries :: nat where
  "max_chat_retries = 3"

text \<open>The answer is a dictionary from chats to results.\<close>

definition telegram_notify :: "(nat \<Rightarrow> telegram_answer) \<Rightarrow> string list \<Rightarrow> nat \<Rightarrow> pydict \<times> nat" where
  "telegram_notify answers chats n =
     fold (\<lambda>chat (results, n). let (r, m) = send_chat answers max_chat_retries n in (AList.update chat (VDict r) results, m))
       chats ([], n)"

text \<open>The text that is sent: the summary, or the text of the whole decision.\<close>

definition telegram_message :: "(pydict \<Rightarrow> string) \<Rightarrow> orch_libs \<Rightarrow> pydict \<Rightarrow> string" where
  "telegram_message whole l decision =
     (let v = dget ''summary'' decision VNone in escape_markdown_v2 (if truthy v then py_str l v else whole decision))"

section \<open>The classes as the poller of dead letters calls them\<close>

text \<open>\<open>SlackNotifier(engine=engine)\<close>: the classes of the package have parameters without default (the
  address; the token and the chat), so that the call raises for every channel.\<close>

definition required_arguments :: "string \<Rightarrow> string list" where
  "required_arguments channel =
     (if channel = ''telegram'' then [''token'', ''chat_id''] else [''webhook_url''])"

definition callable_with :: "string list \<Rightarrow> string \<Rightarrow> bool" where
  "callable_with given channel \<longleftrightarrow> set (required_arguments channel) \<subseteq> set given"

definition package_letter_env ::
    "stream_libs \<Rightarrow> 's stream \<Rightarrow> (string \<Rightarrow> pyval \<Rightarrow> string \<Rightarrow> 's \<Rightarrow> dispatch \<times> 's) \<Rightarrow> int \<Rightarrow> 's letter_env" where
  "package_letter_env l x send max_retries =
     \<lparr>le_libs = l, le_make = callable_with [''engine''], le_stream = x, le_dispatch = send, le_max_retries = max_retries\<rparr>"

section \<open>Properties\<close>

lemma never_made: "\<not> le_make (package_letter_env l x send n) channel"
  by (simp add: package_letter_env_def callable_with_def required_arguments_def)

lemma package_process_keeps:
  "\<exists>r lg'. process_letter (package_letter_env l x send n) now sid fs (s, lg) = (r, s, lg') \<and> r \<in> {Skipped_Early, Unknown_Channel, Broken}"
  by (auto simp: process_letter_def never_made Let_def split: option.split)

lemma package_poll_keeps:
  "pl_stream (fold (poll_entry (package_letter_env l x send n) now) es st) = pl_stream st \<and>
   set (map snd (pl_seen (fold (poll_entry (package_letter_env l x send n) now) es st))) \<subseteq>
     set (map snd (pl_seen st)) \<union> {Skipped_Early, Unknown_Channel, Broken}"
proof (induction es arbitrary: st)
  case (Cons e es)
  obtain r lg' where r: "process_letter (package_letter_env l x send n) now (fst e) (snd e) (pl_stream st, pl_log st) = (r, pl_stream st, lg')"
    "r \<in> {Skipped_Early, Unknown_Channel, Broken}"
    using package_process_keeps[of l x send n now "fst e" "snd e" "pl_stream st" "pl_log st"] by (elim exE conjE)
  have "poll_entry (package_letter_env l x send n) now e st =
      \<lparr>pl_last_id = fst e, pl_stream = pl_stream st, pl_log = lg', pl_seen = pl_seen st @ [(fst e, r)]\<rparr>"
    using r(1) by (cases e) (simp add: poll_entry_def)
  then show ?case using Cons.IH[of "poll_entry (package_letter_env l x send n) now e st"] r(2) by auto
qed auto

text \<open>C34: with the classes that the import gives, the polling loop never delivers,
  reschedules or gives up a dead letter: it leaves the stream as it is, however often it runs and
  whatever the notifiers would answer.\<close>

theorem dead_letters_stay:
  "pl_stream (poll_run (package_letter_env l x send n) batch turns st) = pl_stream st \<and>
   set (map snd (pl_seen (poll_run (package_letter_env l x send n) batch turns st))) \<subseteq>
     set (map snd (pl_seen st)) \<union> {Skipped_Early, Unknown_Channel, Broken}"
proof (induction turns arbitrary: st)
  case Nil
  show ?case by (auto simp: poll_run_def)
next
  case (Cons t turns)
  let ?st = "poll_once (package_letter_env l x send n) batch t st"
  have "poll_run (package_letter_env l x send n) batch (t # turns) st = poll_run (package_letter_env l x send n) batch turns ?st"
    by (simp add: poll_run_def)
  moreover have "pl_stream ?st = pl_stream st"
    and seen: "set (map snd (pl_seen ?st)) \<subseteq> set (map snd (pl_seen st)) \<union> {Skipped_Early, Unknown_Channel, Broken}"
    using package_poll_keeps[of l x send n t "sx_range (le_stream (package_letter_env l x send n)) (pl_last_id st) batch (pl_stream st)" st]
    unfolding poll_once_def by blast+
  moreover have "set (map snd (pl_seen (poll_run (package_letter_env l x send n) batch turns ?st))) \<subseteq>
      set (map snd (pl_seen st)) \<union> {Skipped_Early, Unknown_Channel, Broken}"
    using Un_mono[OF seen order_refl, of "{Skipped_Early, Unknown_Channel, Broken}"] Cons.IH[of ?st] by blast
  ultimately show ?case using Cons.IH[of ?st] by simp
qed

text \<open>A chat is asked at most four times.\<close>

lemma send_chat_bound: "n < snd (send_chat answers left n) \<and> snd (send_chat answers left n) \<le> n + left + 1"
proof (induction left arbitrary: n)
  case (Suc left)
  show ?case using Suc.IH[of "n + 1"] by (simp split: telegram_answer.split)
qed (simp split: telegram_answer.split)

text \<open>The answer of Telegram has a result for every chat and nothing else, so its "ok", which the poller
  and the orchestrator look for, is missing however the requests ended.\<close>

lemma telegram_keys:
  "set (map fst (fst (fold (\<lambda>chat (results, n). let (r, m) = send_chat answers max_chat_retries n in (AList.update chat (VDict r) results, m))
      chats (rs, n)))) = set chats \<union> set (map fst rs)"
proof (induction chats arbitrary: rs n)
  case (Cons c cs)
  obtain r m where "send_chat answers max_chat_retries n = (r, m)" by fastforce
  then show ?case using Cons.IH[of "AList.update c (VDict r) rs" m] by (auto simp: update_keys)
qed simp

lemma telegram_never_ok:
  assumes "''ok'' \<notin> set chats"
  shows "dget ''ok'' (fst (telegram_notify answers chats n)) VNone = VNone"
proof -
  have "''ok'' \<notin> fst ` set (fst (telegram_notify answers chats n))"
    using telegram_keys[of answers chats "[]" n] assms by (simp add: telegram_notify_def)
  then have "map_of (fst (telegram_notify answers chats n)) ''ok'' = None" by (simp add: map_of_eq_None_iff)
  then show ?thesis by (simp add: dget_def)
qed

text \<open>The two escapes of the repository agree on texts without an asterisk.\<close>

lemma escapes_agree: "CHR ''*'' \<notin> set s \<Longrightarrow> escape_markdown_v2 s = escape_telegram_md s"
proof -
  assume a: "CHR ''*'' \<notin> set s"
  have "set markdown_v2_chars = insert (CHR ''*'') (set telegram_specials)"
    by (auto simp: markdown_v2_chars_def telegram_specials_def)
  then have "\<forall>c\<in>set s. c \<in> set markdown_v2_chars \<longleftrightarrow> c \<in> set telegram_specials" using a by auto
  then show ?thesis unfolding escape_markdown_v2_def telegram_escape_exact by (intro arg_cong[of _ _ concat] map_cong) auto
qed

end
