(* ===== verification/Candle_Merge.thy ===== *)
theory Candle_Merge
  imports Replay "HOL-Library.Char_ord" "HOL-Library.List_Lexorder" "HOL-Library.Sublist"
begin

text \<open>
  The scripts that put files of candles together: \<open>scripts/merge_twelvedata_csvs.py\<close>,
  \<open>scripts/merge_chunk_csvs.py\<close> and \<open>scripts/merge_m1_candles.py\<close>; and the filter of signals,
  \<open>scripts/filter_real_signals.py\<close>.

  Parameters: the first line of a file, its columns and rows as the CSV reader of the library gives them
  for a delimiter, the names a pattern matches, the parser and the printer of time stamps for a format,
  and \<open>float\<close> of a text. A row is not longer than the header. Printing, the command line and errors
  while writing are left out.
\<close>

section \<open>Files\<close>

type_synonym csv_table = "string list \<times> csv_row list"

record file_libs =
  fl_first_line :: "string \<Rightarrow> string option"
  fl_read :: "string \<Rightarrow> string \<Rightarrow> csv_table"
  fl_glob :: "string \<Rightarrow> string list"
  fl_strptime :: "string \<Rightarrow> string \<Rightarrow> time option"
  fl_strftime :: "time \<Rightarrow> string"
  fl_float :: "string \<Rightarrow> rat option"

definition plain_format :: string where
  "plain_format = ''%Y-%m-%d %H:%M:%S''"

definition z_format :: string where
  "z_format = ''%Y-%m-%dT%H:%M:%SZ''"

text \<open>The errors of the scripts; \<open>Unhandled\<close> stands for the exceptions of other classes than \<open>ValueError\<close>.\<close>

datatype file_error =
    Missing_File string
  | No_Match string
  | No_Inputs
  | No_Delimiter string
  | Empty_File string
  | Missing_Columns string
  | No_Time_Column
  | Bad_Time nat
  | Bad_Number nat string
  | Empty_Value nat
  | Duplicate_Times
  | Header_Mismatch nat
  | No_Rows
  | Unhandled

text \<open>All results, or the first error.\<close>

fun collect_all :: "('a \<Rightarrow> file_error + 'b) \<Rightarrow> 'a list \<Rightarrow> file_error + 'b list" where
  "collect_all f [] = Inr []"
| "collect_all f (x # xs) =
     (case f x of
        Inl e \<Rightarrow> Inl e
      | Inr y \<Rightarrow> (case collect_all f xs of Inl e \<Rightarrow> Inl e | Inr ys \<Rightarrow> Inr (y # ys)))"

text \<open>Keeping the first element of every key, with the number of the elements left out.\<close>

definition dedupe_step :: "('a \<Rightarrow> 'k) \<Rightarrow> 'a \<Rightarrow> 'a list \<times> 'k list \<times> nat \<Rightarrow> 'a list \<times> 'k list \<times> nat" where
  "dedupe_step key x st =
     (let (kept, seen, removed) = st in
      if key x \<in> set seen then (kept, seen, removed + 1) else (kept @ [x], key x # seen, removed))"

definition deduplicate_by_key :: "('a \<Rightarrow> 'k) \<Rightarrow> 'a list \<Rightarrow> 'a list \<times> nat" where
  "deduplicate_by_key key xs = (let (kept, _, removed) = fold (dedupe_step key) xs ([], [], 0) in (kept, removed))"

section \<open>The merger of TwelveData files\<close>

definition is_pattern :: "string \<Rightarrow> bool" where
  "is_pattern s \<longleftrightarrow> (\<exists>c\<in>set s. c \<in> set ''*?['')"

definition expand_token :: "file_libs \<Rightarrow> string \<Rightarrow> file_error + string list" where
  "expand_token l token =
     (if token = [] then Inr []
      else if is_pattern token then (if fl_glob l token = [] then Inl (No_Match token) else Inr (fl_glob l token))
      else if fl_first_line l token = None then Inl (Missing_File token)
      else Inr [token])"

definition expand_inputs :: "file_libs \<Rightarrow> string \<Rightarrow> file_error + string list" where
  "expand_inputs l inputs =
     (case collect_all (expand_token l) (map py_strip (split_at (CHR '','') inputs)) of
        Inl e \<Rightarrow> Inl e
      | Inr parts \<Rightarrow> (if concat parts = [] then Inl No_Inputs else Inr (sort (remdups (concat parts)))))"

definition detect_delimiter :: "file_libs \<Rightarrow> string \<Rightarrow> file_error + string" where
  "detect_delimiter l path =
     (case fl_first_line l path of
        None \<Rightarrow> Inl (Missing_File path)
      | Some line \<Rightarrow>
          (if CHR '';'' \<in> set line then Inr '';''
           else if CHR '','' \<in> set line then Inr '',''
           else Inl (No_Delimiter path)))"

definition required_cols :: "string list" where
  "required_cols = [''datetime'', ''open'', ''high'', ''low'', ''close'']"

definition price_cols :: "string list" where
  "price_cols = [''open'', ''high'', ''low'', ''close'']"

text \<open>The row with its keys and values stripped.\<close>

definition strip_row :: "csv_row \<Rightarrow> csv_row" where
  "strip_row row = fold (\<lambda>(k, v) r. AList.update (py_strip k) (map_option py_strip v) r) row []"

definition check_number :: "file_libs \<Rightarrow> nat \<Rightarrow> csv_row \<Rightarrow> string \<Rightarrow> file_error + rat" where
  "check_number l n row col =
     (case map_of row col of
        None \<Rightarrow> Inl (Bad_Number n col)
      | Some None \<Rightarrow> Inl Unhandled
      | Some (Some s) \<Rightarrow> (case fl_float l s of None \<Rightarrow> Inl (Bad_Number n col) | Some x \<Rightarrow> Inr x))"

definition check_row :: "file_libs \<Rightarrow> nat \<times> csv_row \<Rightarrow> file_error + csv_row" where
  "check_row l nrow =
     (let (n, raw) = nrow; row = strip_row raw in
      case dget ''datetime'' row (Some []) of
        None \<Rightarrow> Inl Unhandled
      | Some s \<Rightarrow>
         (if fl_strptime l plain_format s = None then Inl (Bad_Time n)
          else case collect_all (check_number l n row) price_cols of Inl e \<Rightarrow> Inl e | Inr _ \<Rightarrow> Inr row))"

definition numbered :: "'a list \<Rightarrow> (nat \<times> 'a) list" where
  "numbered xs = zip [2..<length xs + 2] xs"

definition read_file :: "file_libs \<Rightarrow> string \<Rightarrow> file_error + csv_row list" where
  "read_file l path =
     (case detect_delimiter l path of
        Inl e \<Rightarrow> Inl e
      | Inr d \<Rightarrow>
         (let (names, rows) = fl_read l path d in
          if names = [] then Inl (Empty_File path)
          else if \<not> set required_cols \<subseteq> set (map py_strip names) then Inl (Missing_Columns path)
          else collect_all (check_row l) (numbered rows)))"

definition row_datetime :: "csv_row \<Rightarrow> string" where
  "row_datetime row = (case dget ''datetime'' row (Some []) of None \<Rightarrow> [] | Some s \<Rightarrow> s)"

definition row_time :: "file_libs \<Rightarrow> csv_row \<Rightarrow> time" where
  "row_time l row = (case fl_strptime l plain_format (row_datetime row) of None \<Rightarrow> 0 | Some t \<Rightarrow> t)"

record merge_audit =
  ma_files :: "string list"
  ma_rows_read :: nat
  ma_rows_kept :: nat
  ma_duplicates :: nat
  ma_sorted :: bool
  ma_first :: string
  ma_last :: string

definition merge :: "file_libs \<Rightarrow> string \<Rightarrow> file_error + csv_row list \<times> merge_audit" where
  "merge l inputs =
     (case expand_inputs l inputs of
        Inl e \<Rightarrow> Inl e
      | Inr files \<Rightarrow>
         (case collect_all (read_file l) files of
            Inl e \<Rightarrow> Inl e
          | Inr tables \<Rightarrow>
             (let (kept, removed) = deduplicate_by_key row_datetime (concat tables);
                  rows = sort_key (row_time l) kept
              in if rows = [] then Inl No_Rows
                 else Inr (rows, \<lparr>ma_files = files, ma_rows_read = length (concat tables), ma_rows_kept = length kept,
                                  ma_duplicates = removed, ma_sorted = (map row_datetime kept \<noteq> map row_datetime rows),
                                  ma_first = row_datetime (hd rows), ma_last = row_datetime (last rows)\<rparr>))))"

text \<open>What the file that is written reads as: the required columns of every row.\<close>

definition raw_header :: "string list" where
  "raw_header = [''datetime'', ''open'', ''high'', ''low'', ''close'']"

definition written_table :: "csv_row list \<Rightarrow> csv_table" where
  "written_table rows = (raw_header, map (\<lambda>row. map (\<lambda>k. (k, Some (case dget k row None of None \<Rightarrow> [] | Some s \<Rightarrow> s))) raw_header) rows)"

section \<open>The merger of chunks\<close>

definition load_csv_with_header :: "file_libs \<Rightarrow> string \<Rightarrow> file_error + csv_table" where
  "load_csv_with_header l path =
     (if fl_first_line l path = None then Inl (Missing_File path)
      else (let (names, rows) = fl_read l path '','' in if names = [] then Inl (Empty_File path) else Inr (names, rows)))"

fun validate_header_consistency :: "nat \<Rightarrow> string list \<Rightarrow> string list list \<Rightarrow> file_error + unit" where
  "validate_header_consistency i h [] = Inr ()"
| "validate_header_consistency i h (x # xs) =
     (if x \<noteq> h then Inl (Header_Mismatch i) else validate_header_consistency (Suc i) h xs)"

definition datetime_column :: "string list \<Rightarrow> string option" where
  "datetime_column header = find (\<lambda>c. c \<in> set header) [''datetime'', ''time'', ''timestamp'']"

definition flexible_formats :: "string list" where
  "flexible_formats = [plain_format, z_format, ''%Y-%m-%d %H:%M'']"

fun first_parse :: "file_libs \<Rightarrow> string list \<Rightarrow> string \<Rightarrow> time option" where
  "first_parse l [] s = None"
| "first_parse l (f # fs) s = (case fl_strptime l f s of None \<Rightarrow> first_parse l fs s | Some t \<Rightarrow> Some t)"

definition parse_datetime_flexible :: "file_libs \<Rightarrow> string \<Rightarrow> time option" where
  "parse_datetime_flexible l s = first_parse l flexible_formats (py_strip s)"

definition chunk_key :: "string \<Rightarrow> csv_row \<Rightarrow> string option" where
  "chunk_key col row = dget col row (Some [])"

text \<open>A time sorts by itself, an unreadable one by a pair with its text. Comparing the two kinds raises, and
  so does stripping a missing value.\<close>

definition sort_rows_by_datetime :: "file_libs \<Rightarrow> string \<Rightarrow> csv_row list \<Rightarrow> file_error + csv_row list" where
  "sort_rows_by_datetime l col rows =
     (let readable = (\<lambda>r. case chunk_key col r of None \<Rightarrow> False | Some s \<Rightarrow> parse_datetime_flexible l s \<noteq> None) in
      if (\<exists>r\<in>set rows. chunk_key col r = None) then Inl Unhandled
      else if \<forall>r\<in>set rows. readable r then Inr (sort_key (\<lambda>r. the (parse_datetime_flexible l (the (chunk_key col r)))) rows)
      else if \<exists>r\<in>set rows. readable r then Inl Unhandled
      else Inr (sort_key (\<lambda>r. the (chunk_key col r)) rows))"

definition merge_chunk_csvs :: "file_libs \<Rightarrow> string list \<Rightarrow> file_error + string list \<times> csv_row list \<times> nat" where
  "merge_chunk_csvs l paths =
     (if paths = [] then Inl No_Inputs
      else case collect_all (load_csv_with_header l) paths of
        Inl e \<Rightarrow> Inl e
      | Inr tables \<Rightarrow>
         (let headers = map fst tables; header = hd headers in
          case validate_header_consistency 2 header (tl headers) of
            Inl e \<Rightarrow> Inl e
          | Inr _ \<Rightarrow>
             (case datetime_column header of
                None \<Rightarrow> Inl No_Time_Column
              | Some col \<Rightarrow>
                 (let (kept, removed) = deduplicate_by_key (chunk_key col) (concat (map snd tables)) in
                  case sort_rows_by_datetime l col kept of
                    Inl e \<Rightarrow> Inl e
                  | Inr rows \<Rightarrow> Inr (header, rows, removed)))))"

section \<open>The merger of minute candles\<close>

definition m1_header :: "string list" where
  "m1_header = [''timestamp'', ''open'', ''high'', ''low'', ''close'', ''volume'']"

definition check_m1_row :: "file_libs \<Rightarrow> nat \<times> csv_row \<Rightarrow> file_error + csv_row" where
  "check_m1_row l nrow =
     (let (n, row) = nrow in
      case dget ''timestamp'' row None of
        None \<Rightarrow> Inl Unhandled
      | Some s \<Rightarrow> (if fl_strptime l plain_format s = None then Inl (Bad_Time n) else Inr row))"

definition validate_candle_csv :: "file_libs \<Rightarrow> string \<Rightarrow> file_error + csv_row list" where
  "validate_candle_csv l path =
     (if fl_first_line l path = None then Inl (Missing_File path)
      else (let (names, rows) = fl_read l path '','' in
            if names \<noteq> m1_header then Inl (Missing_Columns path) else collect_all (check_m1_row l) (numbered rows)))"

definition row_timestamp :: "csv_row \<Rightarrow> string" where
  "row_timestamp row = (case dget ''timestamp'' row None of None \<Rightarrow> [] | Some s \<Rightarrow> s)"

definition merge_candles :: "file_libs \<Rightarrow> string list \<Rightarrow> file_error + csv_row list" where
  "merge_candles l paths =
     (case collect_all (validate_candle_csv l) paths of
        Inl e \<Rightarrow> Inl e
      | Inr tables \<Rightarrow> Inr (fst (deduplicate_by_key row_timestamp (sort_key row_timestamp (concat tables)))))"

section \<open>The filter of signals\<close>

record signal_filter =
  sf_kept :: "pydict list"
  sf_total :: nat
  sf_malformed :: nat

text \<open>\<open>None\<close> when the file is missing, or a line holds a value in which \<open>symbol\<close> cannot be looked up.\<close>

definition filter_line :: "(string \<Rightarrow> pyval option) \<Rightarrow> string \<Rightarrow> string \<Rightarrow> signal_filter option \<Rightarrow> signal_filter option" where
  "filter_line loads symbol line acc =
     (case acc of
        None \<Rightarrow> None
      | Some f0 \<Rightarrow>
         (let f = f0\<lparr>sf_total := sf_total f0 + 1\<rparr>; bad = Some (f\<lparr>sf_malformed := sf_malformed f + 1\<rparr>) in
          if py_strip line = [] then Some f
          else case loads (py_strip line) of
                 None \<Rightarrow> bad
               | Some (VDict d) \<Rightarrow>
                  (case map_of d ''symbol'' of
                     None \<Rightarrow> bad
                   | Some v \<Rightarrow> Some (if v = VStr symbol then f\<lparr>sf_kept := sf_kept f @ [d]\<rparr> else f))
               | Some (VList vs) \<Rightarrow> (if VStr ''symbol'' \<in> set vs then None else bad)
               | Some (VStr s) \<Rightarrow> (if sublist ''symbol'' s then None else bad)
               | Some _ \<Rightarrow> None))"

definition filter_symbol_lines :: "(string \<Rightarrow> pyval option) \<Rightarrow> string list option \<Rightarrow> string \<Rightarrow> signal_filter option" where
  "filter_symbol_lines loads file symbol =
     (case file of
        None \<Rightarrow> None
      | Some lines \<Rightarrow> fold (filter_line loads symbol) lines (Some \<lparr>sf_kept = [], sf_total = 0, sf_malformed = 0\<rparr>))"

end
