(* ===== verification/Candle_Convert.thy ===== *)
theory Candle_Convert
  imports Candle_Merge
begin

text \<open>
  The scripts that turn files into candles and signals for the replay:
  \<open>scripts/convert_twelvedata_to_replay_csv.py\<close>, \<open>scripts/convert_twelvedata_to_m1.py\<close>,
  \<open>scripts/convert_truefx_ticks_to_m1.py\<close> and \<open>scripts/export_signals_to_jsonl.py\<close>.

  Times are in microseconds, so a minute is 60000000. The text of a price with five decimals is a
  parameter. Printing, the command line and errors while writing are left out; a row is not longer
  than the header.
\<close>

section \<open>TwelveData to replay format\<close>

record replay_row =
  rw_timestamp :: string
  rw_open :: rat
  rw_high :: rat
  rw_low :: rat
  rw_close :: rat
  rw_volume :: rat

definition occurrences :: "char \<Rightarrow> string \<Rightarrow> nat" where
  "occurrences c s = length (filter (\<lambda>x. x = c) s)"

definition detect_replay_delimiter :: "file_libs \<Rightarrow> string \<Rightarrow> file_error + string" where
  "detect_replay_delimiter l path =
     (case fl_first_line l path of
        None \<Rightarrow> Inl (Missing_File path)
      | Some line \<Rightarrow>
          (if line = [] then Inl (Empty_File path)
           else if occurrences (CHR '';'') line > occurrences (CHR '','') line then Inr '';''
           else if occurrences (CHR '','') line > 0 then Inr '',''
           else Inl (No_Delimiter path)))"

definition replay_formats :: "string list" where
  "replay_formats = [plain_format, z_format, ''%Y-%m-%dT%H:%M:%S'']"

definition normalize_timestamp :: "file_libs \<Rightarrow> string \<Rightarrow> string option" where
  "normalize_timestamp l s = map_option (fl_strftime l) (first_parse l replay_formats (py_strip s))"

definition plain_name :: "string \<Rightarrow> string" where
  "plain_name h = py_strip (py_lower h)"

text \<open>\<open>available_lower\<close>: from the plain names of the columns to the columns, where the last one counts.\<close>

definition column_for :: "string list \<Rightarrow> string \<Rightarrow> string option" where
  "column_for header name = map_of (rev (map (\<lambda>h. (plain_name h, h)) header)) name"

definition time_column :: "string list \<Rightarrow> string option" where
  "time_column header = find (\<lambda>h. plain_name h \<in> set [''datetime'', ''timestamp'', ''time'']) header"

text \<open>\<open>row.get(col, '').strip()\<close>; \<open>None\<close> when the value is missing in a short row.\<close>

definition field_text :: "csv_row \<Rightarrow> string \<Rightarrow> string option" where
  "field_text row col = map_option py_strip (dget col row (Some []))"

definition check_price :: "file_libs \<Rightarrow> nat \<Rightarrow> csv_row \<Rightarrow> string \<Rightarrow> file_error + rat" where
  "check_price l n row col =
     (case field_text row col of
        None \<Rightarrow> Inl Unhandled
      | Some [] \<Rightarrow> Inl (Empty_Value n)
      | Some s \<Rightarrow> (case fl_float l s of None \<Rightarrow> Inl (Bad_Number n col) | Some x \<Rightarrow> Inr x))"

text \<open>The required columns form a set in the code, so that the order of its checks is not determined; here
  it is that of a candle.\<close>

definition check_replay_row :: "file_libs \<Rightarrow> string \<Rightarrow> string list \<Rightarrow> nat \<times> csv_row \<Rightarrow> file_error + csv_row" where
  "check_replay_row l dt_col cols nrow =
     (let (n, row) = nrow in
      case field_text row dt_col of
        None \<Rightarrow> Inl Unhandled
      | Some [] \<Rightarrow> Inl (Empty_Value n)
      | Some _ \<Rightarrow> (case collect_all (check_price l n row) cols of Inl e \<Rightarrow> Inl e | Inr _ \<Rightarrow> Inr row))"

definition validate_and_load :: "file_libs \<Rightarrow> string \<Rightarrow> csv_table \<Rightarrow> file_error + csv_row list \<times> string \<times> string list" where
  "validate_and_load l path table =
     (let (header, rows) = table in
      if header = [] then Inl (Empty_File path)
      else case time_column header of
        None \<Rightarrow> Inl No_Time_Column
      | Some dt_col \<Rightarrow>
         (if \<exists>c\<in>set price_cols. column_for header c = None then Inl (Missing_Columns path)
          else (let cols = map (\<lambda>c. the (column_for header c)) price_cols in
                case collect_all (check_replay_row l dt_col cols) (numbered rows) of
                  Inl e \<Rightarrow> Inl e
                | Inr [] \<Rightarrow> Inl No_Rows
                | Inr rs \<Rightarrow> Inr (rs, dt_col, cols))))"

definition time_text :: "string \<Rightarrow> csv_row \<Rightarrow> string" where
  "time_text dt_col row = (case field_text row dt_col of None \<Rightarrow> [] | Some s \<Rightarrow> s)"

text \<open>\<open>float(row.get(col, d))\<close>; a missing value raises an exception that is not handled, and so does a
  default that is not a text only when it is no number.\<close>

definition float_of :: "file_libs \<Rightarrow> nat \<Rightarrow> csv_row \<Rightarrow> string \<Rightarrow> rat \<Rightarrow> file_error + rat" where
  "float_of l n row col d =
     (case map_of row col of
        None \<Rightarrow> Inr d
      | Some None \<Rightarrow> Inl Unhandled
      | Some (Some s) \<Rightarrow> (case fl_float l s of None \<Rightarrow> Inl (Bad_Number n col) | Some x \<Rightarrow> Inr x))"

definition convert_replay_row ::
    "file_libs \<Rightarrow> string \<Rightarrow> string list \<Rightarrow> string option \<Rightarrow> rat \<Rightarrow> nat \<times> csv_row \<Rightarrow> file_error + replay_row" where
  "convert_replay_row l dt_col cols vol_col default_volume nrow =
     (let (n, row) = nrow in
      case normalize_timestamp l (time_text dt_col row) of
        None \<Rightarrow> Inl (Bad_Time n)
      | Some ts \<Rightarrow>
         (case collect_all (\<lambda>c. float_of l n row c 0) cols of
            Inr [a, b, c, d] \<Rightarrow>
              (case (case vol_col of None \<Rightarrow> Inr default_volume | Some v \<Rightarrow> float_of l n row v default_volume) of
                 Inl e \<Rightarrow> Inl e
               | Inr v \<Rightarrow> Inr \<lparr>rw_timestamp = ts, rw_open = a, rw_high = b, rw_low = c, rw_close = d, rw_volume = v\<rparr>)
          | Inr _ \<Rightarrow> Inl Unhandled
          | Inl e \<Rightarrow> Inl e))"

text \<open>The gaps between neighbours, for times in the order of the file.\<close>

fun detect_gaps :: "int \<Rightarrow> time list \<Rightarrow> (time \<times> time \<times> int) list" where
  "detect_gaps interval (t # u # ts) =
     (let expected = t + minutes interval in
      (if u > expected then [(t, u, ((u - expected) div minutes 1) div interval)] else []) @ detect_gaps interval (u # ts))"
| "detect_gaps interval _ = []"

record convert_audit =
  ca_input_rows :: nat
  ca_sorted :: bool
  ca_volume_injected :: bool
  ca_gaps :: "(time \<times> time \<times> int) list"

definition convert_table :: "file_libs \<Rightarrow> string \<Rightarrow> rat \<Rightarrow> csv_table \<Rightarrow> file_error + replay_row list \<times> convert_audit" where
  "convert_table l path default_volume table =
     (case validate_and_load l path table of
        Inl e \<Rightarrow> Inl e
      | Inr (rows, dt_col, cols) \<Rightarrow>
         (if \<not> distinct (map (time_text dt_col) rows) then Inl Duplicate_Times
          else (let vol_col = column_for (fst table) ''volume'' in
            case collect_all (convert_replay_row l dt_col cols vol_col default_volume) (numbered rows) of
              Inl e \<Rightarrow> Inl e
            | Inr converted \<Rightarrow>
               (let sorted_rows = sort_key rw_timestamp converted;
                    times = map (\<lambda>r. the (fl_strptime l plain_format (rw_timestamp r))) sorted_rows
                in Inr (sorted_rows, \<lparr>ca_input_rows = length rows, ca_sorted = (sorted_rows \<noteq> converted),
                     ca_volume_injected = (vol_col = None), ca_gaps = detect_gaps 5 times\<rparr>)))))"

definition convert_to_replay :: "file_libs \<Rightarrow> rat \<Rightarrow> string \<Rightarrow> file_error + replay_row list \<times> convert_audit" where
  "convert_to_replay l default_volume path =
     (case detect_replay_delimiter l path of
        Inl e \<Rightarrow> Inl e
      | Inr d \<Rightarrow> convert_table l path default_volume (fl_read l path d))"

section \<open>TwelveData to minute candles\<close>

definition m1_time_column :: "string list \<Rightarrow> string option" where
  "m1_time_column header =
     find (\<lambda>h. True) (concat (map (\<lambda>name. filter (\<lambda>h. sublist name (plain_name h)) header) [''datetime'', ''timestamp'', ''time'']))"

definition validate_schema :: "string list \<Rightarrow> file_error + string \<times> string list" where
  "validate_schema header =
     (case m1_time_column header of
        None \<Rightarrow> Inl No_Time_Column
      | Some dt_col \<Rightarrow>
         (let names = price_cols @ [''volume''] in
          if \<exists>c\<in>set names. column_for header c = None then Inl (Missing_Columns [])
          else Inr (dt_col, map (\<lambda>c. the (column_for header c)) names)))"

text \<open>A row is skipped on a \<open>KeyError\<close> or \<open>ValueError\<close>; a missing value ends the script.\<close>

datatype m1_row = Converted replay_row | Row_Skipped | Row_Aborts

definition parse_m1_row :: "file_libs \<Rightarrow> string \<Rightarrow> string list \<Rightarrow> csv_row \<Rightarrow> m1_row" where
  "parse_m1_row l dt_col cols row =
     (case map_of row dt_col of
        None \<Rightarrow> Row_Skipped
      | Some None \<Rightarrow> Row_Aborts
      | Some (Some s) \<Rightarrow>
         (case first_parse l [plain_format, z_format] (py_strip s) of
            None \<Rightarrow> Row_Skipped
          | Some t \<Rightarrow>
             (case collect_all (check_number l 0 row) cols of
                Inr [a, b, c, d, v] \<Rightarrow> Converted \<lparr>rw_timestamp = fl_strftime l t, rw_open = a, rw_high = b, rw_low = c,
                                          rw_close = d, rw_volume = of_int (py_trunc v)\<rparr>
              | Inl Unhandled \<Rightarrow> Row_Aborts
              | _ \<Rightarrow> Row_Skipped)))"

definition m1_rows :: "m1_row list \<Rightarrow> replay_row list" where
  "m1_rows rs = List.map_filter (\<lambda>r. case r of Converted x \<Rightarrow> Some x | _ \<Rightarrow> None) rs"

definition convert_to_m1 :: "file_libs \<Rightarrow> string \<Rightarrow> file_error + replay_row list \<times> nat" where
  "convert_to_m1 l path =
     (case fl_first_line l path of
        None \<Rightarrow> Inl (Missing_File path)
      | Some line \<Rightarrow>
         (let (header, rows) = fl_read l path (if occurrences (CHR '';'') line > occurrences (CHR '','') line then '';'' else '','') in
          if header = [] then Inl (Empty_File path)
          else case validate_schema header of
            Inl e \<Rightarrow> Inl e
          | Inr (dt_col, cols) \<Rightarrow>
             (let rs = map (parse_m1_row l dt_col cols) rows in
              if Row_Aborts \<in> set rs then Inl Unhandled
              else if m1_rows rs = [] then Inl No_Rows
              else Inr (sort_key rw_timestamp (m1_rows rs), length (filter (\<lambda>r. r = Row_Skipped) rs)))))"

section \<open>TrueFX ticks to minute candles\<close>

record m1_candle =
  mc_timestamp :: time
  mc_open :: rat
  mc_high :: rat
  mc_low :: rat
  mc_close :: rat
  mc_volume :: nat

definition new_candle :: "time \<Rightarrow> rat \<Rightarrow> m1_candle" where
  "new_candle t p = \<lparr>mc_timestamp = t, mc_open = p, mc_high = p, mc_low = p, mc_close = p, mc_volume = 1\<rparr>"

definition update_candle :: "rat \<Rightarrow> m1_candle \<Rightarrow> m1_candle" where
  "update_candle bid c = c\<lparr>mc_high := max (mc_high c) bid, mc_low := min (mc_low c) bid, mc_close := bid, mc_volume := mc_volume c + 1\<rparr>"

definition minute_bucket :: "time \<Rightarrow> time" where
  "minute_bucket t = t - t mod minutes 1"

text \<open>A tick of the file: symbol, time, bid and ask; shorter lines and unreadable fields are skipped.\<close>

definition parse_tick :: "file_libs \<Rightarrow> string list \<Rightarrow> (time \<times> rat) option" where
  "parse_tick l row =
     (case row of
        _ # ts # bid # _ # _ \<Rightarrow>
          (case fl_strptime l ''%Y%m%d %H:%M:%S.%f'' ts of
             None \<Rightarrow> None
           | Some t \<Rightarrow> (case fl_float l bid of None \<Rightarrow> None | Some p \<Rightarrow> Some (t, p)))
      | _ \<Rightarrow> None)"

definition add_tick :: "time \<times> rat \<Rightarrow> (time \<times> m1_candle) list \<Rightarrow> (time \<times> m1_candle) list" where
  "add_tick tick cs =
     (let (t, p) = tick; b = minute_bucket t in
      case map_of cs b of
        None \<Rightarrow> AList.update b (new_candle b p) cs
      | Some c \<Rightarrow> AList.update b (update_candle p c) cs)"

record tick_result =
  tr_candles :: "m1_candle list"
  tr_read :: nat
  tr_skipped :: nat

definition convert_truefx_to_m1 :: "file_libs \<Rightarrow> string list list \<Rightarrow> tick_result" where
  "convert_truefx_to_m1 l rows =
     (let ticks = List.map_filter (parse_tick l) rows; cs = fold add_tick ticks [] in
      \<lparr>tr_candles = map (\<lambda>b. the (map_of cs b)) (sort (map fst cs)), tr_read = length rows,
       tr_skipped = length (filter (\<lambda>r. parse_tick l r = None) rows)\<rparr>)"

definition to_csv_row :: "file_libs \<Rightarrow> (rat \<Rightarrow> string) \<Rightarrow> m1_candle \<Rightarrow> string list" where
  "to_csv_row l five c =
     [fl_strftime l (mc_timestamp c), five (mc_open c), five (mc_high c), five (mc_low c), five (mc_close c), show_nat (mc_volume c)]"

section \<open>Synthetic signals\<close>

definition get_session_from_hour :: "int \<Rightarrow> string" where
  "get_session_from_hour hour =
     (if 0 \<le> hour \<and> hour < 8 then ''asian'' else if 8 \<le> hour \<and> hour < 16 then ''london'' else ''new_york'')"

definition hour_of_day :: "time \<Rightarrow> int" where
  "hour_of_day t = (t div minutes 60) mod 24"

text \<open>\<open>f"syn_{n:03d}"\<close>.\<close>

definition padded :: "nat \<Rightarrow> nat \<Rightarrow> string" where
  "padded w n = (let s = show_nat n in replicate (w - length s) (CHR ''0'') @ s)"

definition five_decimals :: "rat \<Rightarrow> rat" where
  "five_decimals x = py_round 5 x"

record export_state =
  ex_signals :: "replay_signal list"
  ex_last_risk :: rat

definition export_risk :: "rat \<Rightarrow> candle \<Rightarrow> rat" where
  "export_risk last_risk c =
     (let risk = cd_high c - cd_low c in if risk = 0 then (if last_risk > 0 then last_risk else 1/10000) else risk)"

definition export_signal :: "nat \<Rightarrow> nat \<Rightarrow> rat \<Rightarrow> candle \<Rightarrow> replay_signal" where
  "export_signal n idx risk c =
     (let up = (n mod 2 = 0); entry = cd_close c;
          sl = (if up then entry - risk else entry + risk); tp = (if up then entry + 2 * risk else entry - 2 * risk)
      in \<lparr>rsg_signal_id = ''syn_'' @ padded 3 (n + 1), rsg_timestamp = cd_timestamp c, rsg_symbol = ''EURUSD'',
          rsg_timeframe = ''1m'', rsg_direction = (if up then ''long'' else ''short''),
          rsg_signal_type = (if up then ''bullish_choch'' else ''bearish_bos''),
          rsg_entry = five_decimals entry, rsg_sl = five_decimals sl, rsg_tp = five_decimals tp,
          rsg_session = VStr (get_session_from_hour (hour_of_day (cd_timestamp c))),
          rsg_meta = VDict [(''generated_from_candle_index'', VInt (int idx)), (''generation_method'', VStr ''synthetic_deterministic'')]\<rparr>)"

definition export_step :: "nat \<Rightarrow> nat \<times> candle \<Rightarrow> export_state \<Rightarrow> export_state" where
  "export_step max_signals ic st =
     (let (i, c) = ic; n = length (ex_signals st); risk = export_risk (ex_last_risk st) c in
      if n \<ge> max_signals then st
      else \<lparr>ex_signals = ex_signals st @ [export_signal n i risk c],
            ex_last_risk = (if cd_high c - cd_low c = 0 then ex_last_risk st else cd_high c - cd_low c)\<rparr>)"

text \<open>Every \<open>stride\<close>-th candle with its index; \<open>range\<close> refuses a stride of 0, and for no candle or no
  allowed signal the script raises.\<close>

definition every_nth :: "nat \<Rightarrow> candle list \<Rightarrow> (nat \<times> candle) list" where
  "every_nth stride cs = filter (\<lambda>(i, c). i mod stride = 0) (zip [0..<length cs] cs)"

definition generate_signals :: "candle list \<Rightarrow> nat \<Rightarrow> nat \<Rightarrow> replay_signal list option" where
  "generate_signals cs stride max_signals =
     (if stride = 0 then None
      else (let ss = ex_signals (fold (export_step max_signals) (every_nth stride cs) \<lparr>ex_signals = [], ex_last_risk = 0\<rparr>) in
            if ss = [] then None else Some ss))"

end
