(* ===== verification/Candle_Props.thy ===== *)
theory Candle_Props
  imports Candle_Convert
begin

text \<open>
  The files of candles: what the mergers keep, that a merged file converts, what the gaps count, and the
  candles of the ticks.
\<close>

section \<open>Keeping the first\<close>

fun first_occurrences :: "('a \<Rightarrow> 'k) \<Rightarrow> 'a list \<Rightarrow> 'a list" where
  "first_occurrences key [] = []"
| "first_occurrences key (x # xs) = x # filter (\<lambda>y. key y \<noteq> key x) (first_occurrences key xs)"

lemma dedupe_fold:
  "\<exists>seen' n'. fold (dedupe_step key) xs (kept, seen, n) = (kept @ filter (\<lambda>y. key y \<notin> set seen) (first_occurrences key xs), seen', n') \<and>
     n' + length (filter (\<lambda>y. key y \<notin> set seen) (first_occurrences key xs)) = n + length xs"
proof (induction xs arbitrary: kept seen n)
  case (Cons x xs)
  show ?case
  proof (cases "key x \<in> set seen")
    case True
    then have "filter (\<lambda>y. key y \<notin> set seen) (first_occurrences key (x # xs)) = filter (\<lambda>y. key y \<notin> set seen) (first_occurrences key xs)"
      by (auto intro!: filter_cong)
    then show ?thesis using Cons.IH[of kept seen "n + 1"] True by (auto simp: dedupe_step_def)
  next
    case False
    have "filter (\<lambda>y. key y \<notin> set seen) (first_occurrences key (x # xs)) =
        x # filter (\<lambda>y. key y \<notin> set (key x # seen)) (first_occurrences key xs)"
      using False by (auto intro!: filter_cong)
    then show ?thesis using Cons.IH[of "kept @ [x]" "key x # seen" n] False by (auto simp: dedupe_step_def)
  qed
qed simp

lemma dedupe_exact:
  "fst (deduplicate_by_key key xs) = first_occurrences key xs"
  "snd (deduplicate_by_key key xs) + length (first_occurrences key xs) = length xs"
  using dedupe_fold[of key xs "[]" "[]" 0] by (auto simp: deduplicate_by_key_def)

lemma first_keys_set: "key ` set (first_occurrences key xs) = key ` set xs"
proof (induction xs)
  case (Cons x xs)
  have "key ` set (first_occurrences key (x # xs)) = insert (key x) (key ` set (first_occurrences key xs))" by auto
  then show ?case using Cons.IH by simp
qed simp

lemma first_keys_distinct: "distinct (map key (first_occurrences key xs))"
  by (induction xs) (auto simp: distinct_map_filter)

lemmas first_keys = first_keys_distinct first_keys_set

lemma first_iff: "y \<in> set (first_occurrences key xs) \<longleftrightarrow> find (\<lambda>x. key x = key y) xs = Some y"
  by (induction xs) auto

text \<open>Sorting by the key and keeping the first may be done in either order.\<close>

lemma find_sorted: "find (\<lambda>x. key x = k) (sort_key key xs) = find (\<lambda>x. key x = k) xs"
proof -
  have *: "find P ys = (case filter P ys of [] \<Rightarrow> None | y # _ \<Rightarrow> Some y)" for P and ys :: "'a list"
    by (induction ys) auto
  have "filter (\<lambda>x. key x = k) (sort_key key xs) = filter (\<lambda>x. key x = k) xs"
    using sort_key_stable[of key k xs] by (simp add: eq_commute)
  then show ?thesis by (simp add: *)
qed

lemma dedupe_sort_commute:
  "fst (deduplicate_by_key key (sort_key key xs)) = sort_key key (fst (deduplicate_by_key key xs))"
proof -
  let ?a = "first_occurrences key (sort_key key xs)" and ?b = "sort_key key (first_occurrences key xs)"
  have set: "set ?a = set ?b"
  proof -
    have "y \<in> set ?a \<longleftrightarrow> y \<in> set ?b" for y by (simp only: first_iff find_sorted set_sort)
    then show ?thesis by blast
  qed
  have sorted_first: "sorted (map key ys) \<Longrightarrow> sorted (map key (first_occurrences key ys))" for ys
  proof (induction ys)
    case (Cons y ys)
    then have "\<forall>z\<in>set (first_occurrences key ys). key y \<le> key z" using first_keys(2)[of key ys] by (auto simp: image_iff) force
    then show ?case using Cons by (auto simp: sorted_filter)
  qed simp
  have "inj_on key (set ?a \<union> set ?b)" using first_keys(1)[of key "sort_key key xs"] set by (simp add: distinct_map)
  moreover have "sorted (map key ?a)" by (rule sorted_first) simp
  moreover have "distinct (map key ?a)" by (rule first_keys)
  moreover have "sorted (map key ?b)" by simp
  moreover have "distinct (map key ?b)"
    using first_keys(1)[of key xs] by (simp add: distinct_map)
  ultimately have "?a = ?b" using set by (intro map_sorted_distinct_set_unique)
  then show ?thesis by (simp only: dedupe_exact(1))
qed

section \<open>The merged file\<close>

lemma merge_exact_aux:
  assumes "merge l inputs = Inr (rows, a)"
  shows "\<exists>files tables. expand_inputs l inputs = Inr files \<and> collect_all (read_file l) files = Inr tables \<and>
    sorted (map (row_time l) rows) \<and> distinct (map row_datetime rows) \<and>
    (\<forall>row. row \<in> set rows \<longleftrightarrow> find (\<lambda>r. row_datetime r = row_datetime row) (concat tables) = Some row) \<and>
    ma_rows_kept a = length rows \<and> ma_rows_kept a + ma_duplicates a = length (concat tables)"
proof -
  obtain files where files: "expand_inputs l inputs = Inr files" using assms by (auto simp: merge_def split: sum.splits)
  obtain tables where tables: "collect_all (read_file l) files = Inr tables" using assms files by (auto simp: merge_def split: sum.splits)
  obtain kept removed where kept: "deduplicate_by_key row_datetime (concat tables) = (kept, removed)" by fastforce
  have first: "kept = first_occurrences row_datetime (concat tables)" and "removed + length kept = length (concat tables)"
    using dedupe_exact[of row_datetime "concat tables"] kept by simp_all
  moreover have "rows = sort_key (row_time l) kept" "ma_rows_kept a = length kept" "ma_duplicates a = removed"
    using assms by (auto simp: merge_def files tables kept Let_def split: if_splits)
  moreover have "distinct (map row_datetime kept)" unfolding first by (rule first_keys)
  ultimately show ?thesis using files tables by (auto simp: distinct_map first_iff)
qed

text \<open>C27: a merge that succeeds has the rows of the files, read in the order of their names, in the
  order of time; every text of a time occurs once, with the first row that carries it; and the audit
  accounts for every row.\<close>

theorem merge_exact:
  assumes "merge l inputs = Inr (rows, a)"
  shows "\<exists>files tables. expand_inputs l inputs = Inr files \<and> collect_all (read_file l) files = Inr tables \<and>
    sorted (map (row_time l) rows) \<and> distinct (map row_datetime rows) \<and>
    (\<forall>row. row \<in> set rows \<longleftrightarrow> find (\<lambda>r. row_datetime r = row_datetime row) (concat tables) = Some row) \<and>
    ma_rows_kept a = length rows \<and> ma_rows_kept a + ma_duplicates a = length (concat tables)"
  using merge_exact_aux[OF assms] .

section \<open>Gaps\<close>

definition missing_total :: "(time \<times> time \<times> int) list \<Rightarrow> int" where
  "missing_total gaps = sum_list (map (\<lambda>(_, _, m). m) gaps)"

text \<open>For candles on the grid of the interval, the candles of the file and the ones that the gaps
  report as missing fill the time between the first and the last.\<close>

theorem gaps_account:
  assumes "ts \<noteq> []" "interval > 0" "successively (\<lambda>t u. \<exists>k\<ge>1. u = t + k * minutes interval) ts"
  shows "missing_total (detect_gaps interval ts) + int (length ts) = (last ts - hd ts) div minutes interval + 1"
  using assms
proof (induction interval ts rule: detect_gaps.induct)
  case (1 interval t u ts)
  then obtain k where k: "k \<ge> 1" "u = t + k * minutes interval" by auto
  have pos: "minutes interval > 0" using "1.prems"(2) by (simp add: minutes_def)
  have tail: "missing_total (detect_gaps interval (u # ts)) + int (length (u # ts)) = (last (u # ts) - u) div minutes interval + 1"
    using "1.IH"[of "t + minutes interval"] "1.prems" by (simp split: if_splits)
  have gap: "((u - (t + minutes interval)) div minutes 1) div interval = k - 1"
  proof -
    have "u - (t + minutes interval) = (k - 1) * interval * minutes 1" using k by (simp add: minutes_def algebra_simps)
    then have "(u - (t + minutes interval)) div minutes 1 = (k - 1) * interval" by (simp add: minutes_def)
    then show ?thesis using "1.prems"(2) by simp
  qed
  have head: "missing_total (detect_gaps interval (t # u # ts)) = k - 1 + missing_total (detect_gaps interval (u # ts))"
  proof (cases "k = 1")
    case True
    then show ?thesis using k by (simp add: missing_total_def)
  next
    case False
    then have "u > t + minutes interval" using k pos by (simp add: mult_strict_right_mono[of 1 k, simplified])
    then show ?thesis using gap by (simp add: missing_total_def Let_def)
  qed
  have "(x - t) div minutes interval = k + (x - u) div minutes interval" for x
  proof -
    have "x - t = (x - u) + k * minutes interval" using k by simp
    then show ?thesis using pos by (simp only: div_mult_self1 less_irrefl)
  qed
  from this[of "last (u # ts)"]
  have "(last (u # ts) - t) div minutes interval = k + (last (u # ts) - u) div minutes interval" .
  then show ?case using head tail by simp
qed (simp_all add: missing_total_def)

theorem gaps_account_witness:
  "missing_total (detect_gaps 5 [0, 300000000, 1200000000]) + 3 = 1200000000 div minutes 5 + 1"
proof -
  have "successively (\<lambda>t u. \<exists>k\<ge>1. u = t + k * minutes 5) [0, 300000000, 1200000000]"
    by (simp add: minutes_def)
  from gaps_account[OF _ _ this] show ?thesis by simp
qed

section \<open>Candles of ticks\<close>

definition bids_of :: "time \<Rightarrow> (time \<times> rat) list \<Rightarrow> rat list" where
  "bids_of b ticks = map snd (filter (\<lambda>tick. minute_bucket (fst tick) = b) ticks)"

definition candle_of_bids :: "time \<Rightarrow> rat list \<Rightarrow> m1_candle" where
  "candle_of_bids b ps = \<lparr>mc_timestamp = b, mc_open = hd ps, mc_high = Max (set ps), mc_low = Min (set ps),
     mc_close = last ps, mc_volume = length ps\<rparr>"

lemma candle_snoc: "ps \<noteq> [] \<Longrightarrow> update_candle p (candle_of_bids b ps) = candle_of_bids b (ps @ [p])"
  by (simp add: update_candle_def candle_of_bids_def max.commute min.commute)

lemma bids_snoc: "bids_of b (ticks @ [(t, p)]) = bids_of b ticks @ (if minute_bucket t = b then [p] else [])"
  by (simp add: bids_of_def)

lemma bids_empty: "bids_of b ticks = [] \<longleftrightarrow> b \<notin> (\<lambda>tick. minute_bucket (fst tick)) ` set ticks"
  by (auto simp: bids_of_def filter_empty_conv)

lemma add_tick_bids:
  assumes "map_of cs (minute_bucket t) = (if ps = [] then None else Some (candle_of_bids (minute_bucket t) ps))"
  shows "add_tick (t, p) cs = AList.update (minute_bucket t) (candle_of_bids (minute_bucket t) (ps @ [p])) cs"
proof -
  have "new_candle (minute_bucket t) p = candle_of_bids (minute_bucket t) [p]" by (simp add: new_candle_def candle_of_bids_def)
  then show ?thesis using assms by (cases "ps = []") (simp_all add: add_tick_def candle_snoc Let_def)
qed

lemma ticks_table:
  "distinct (map fst (fold add_tick ticks [])) \<and>
   map_of (fold add_tick ticks []) b = (if bids_of b ticks = [] then None else Some (candle_of_bids b (bids_of b ticks)))"
proof (induction ticks arbitrary: b rule: rev_induct)
  case (snoc tick ticks)
  obtain t p where tick: "tick = (t, p)" by force
  have "fold add_tick (ticks @ [tick]) [] = AList.update (minute_bucket t)
      (candle_of_bids (minute_bucket t) (bids_of (minute_bucket t) ticks @ [p])) (fold add_tick ticks [])"
    using add_tick_bids[OF conjunct2[OF snoc.IH[of "minute_bucket t"]]] by (simp add: tick)
  then show ?case using snoc.IH by (simp add: tick bids_snoc update_conv distinct_update)
qed (simp add: bids_of_def)

text \<open>C35: the candles of a file of ticks are one per minute in which a tick was read, in the order
  of time; each opens with the first bid of its minute, closes with the last, spans the highest and the
  lowest, and counts them.\<close>

theorem tick_candles_exact:
  "tr_candles (convert_truefx_to_m1 l rows) =
     (let ticks = List.map_filter (parse_tick l) rows in
      map (\<lambda>b. candle_of_bids b (bids_of b ticks)) (sorted_list_of_set ((\<lambda>tick. minute_bucket (fst tick)) ` set ticks)))"
proof -
  let ?ticks = "List.map_filter (parse_tick l) rows" and ?cs = "fold add_tick (List.map_filter (parse_tick l) rows) []"
  have keys: "set (map fst ?cs) = (\<lambda>tick. minute_bucket (fst tick)) ` set ?ticks"
  proof -
    have "b \<in> set (map fst ?cs) \<longleftrightarrow> b \<in> (\<lambda>tick. minute_bucket (fst tick)) ` set ?ticks" for b
    proof -
      have "b \<in> set (map fst ?cs) \<longleftrightarrow> map_of ?cs b \<noteq> None" by (simp only: map_of_eq_None_iff set_map not_not)
      also have "\<dots> \<longleftrightarrow> bids_of b ?ticks \<noteq> []" using conjunct2[OF ticks_table[of ?ticks b]] by simp
      finally show ?thesis by (simp only: bids_empty not_not)
    qed
    then show ?thesis by blast
  qed
  have "sort (map fst ?cs) = sorted_list_of_set (set (map fst ?cs))"
    using conjunct1[OF ticks_table[of ?ticks undefined]]
    by (simp only: sorted_list_of_set_sort_remdups distinct_remdups_id)
  moreover have "the (map_of ?cs b) = candle_of_bids b (bids_of b ?ticks)" if "b \<in> set (map fst ?cs)" for b
    using ticks_table[of ?ticks b] that unfolding keys by (simp add: bids_empty)
  ultimately show ?thesis
    unfolding convert_truefx_to_m1_def Let_def tick_result.select_convs keys[symmetric]
    by (metis (no_types, lifting) map_cong set_sort)
qed

section \<open>A merged file converts\<close>

lemma strip_idem [simp]: "py_strip (py_strip s) = py_strip s"
proof -
  have hd: "dropWhile p (rev (dropWhile p (rev (dropWhile p xs)))) = rev (dropWhile p (rev (dropWhile p xs)))" for p and xs :: string
  proof (cases "rev (dropWhile p (rev (dropWhile p xs)))")
    case (Cons y ys)
    have "\<exists>zs. dropWhile p xs = rev (dropWhile p (rev (dropWhile p xs))) @ zs"
    proof -
      have "rev (dropWhile p xs) = takeWhile p (rev (dropWhile p xs)) @ dropWhile p (rev (dropWhile p xs))" by simp
      then have "dropWhile p xs = rev (dropWhile p (rev (dropWhile p xs))) @ rev (takeWhile p (rev (dropWhile p xs)))"
        by (metis rev_append rev_rev_ident)
      then show ?thesis by blast
    qed
    then obtain zs where "dropWhile p xs = y # ys @ zs" using Cons by auto
    then have "\<not> p y" using hd_dropWhile[of p xs] by (metis list.distinct(1) list.sel(1))
    then show ?thesis by (simp add: Cons)
  next
    case Nil
    show ?thesis by (simp only: Nil dropWhile.simps)
  qed
  show ?thesis by (simp add: py_strip_def strip_chars_def hd)
qed

lemma collect_Inr: "collect_all f xs = Inr ys \<longleftrightarrow> list_all2 (\<lambda>x y. f x = Inr y) xs ys"
proof (induction xs arbitrary: ys)
  case (Cons x xs)
  show ?case
  proof (cases "f x")
    case (Inr y)
    show ?thesis by (cases "collect_all f xs"; cases ys) (auto simp: Inr Cons.IH[symmetric])
  qed (simp add: list_all2_Cons1)
qed auto

lemma collect_map: "(\<And>x. x \<in> set xs \<Longrightarrow> f x = Inr (g x)) \<Longrightarrow> collect_all f xs = Inr (map g xs)"
  by (simp add: collect_Inr list_all2_conv_all_nth)

lemma collect_mem:
  assumes "collect_all f xs = Inr ys" "y \<in> set ys"
  obtains x where "x \<in> set xs" "f x = Inr y"
  using assms by (auto simp: collect_Inr list_all2_conv_all_nth in_set_conv_nth) metis

lemma collect_out: "collect_all f xs = Inr ys \<Longrightarrow> x \<in> set xs \<Longrightarrow> \<exists>y. f x = Inr y"
  by (auto simp: collect_Inr list_all2_conv_all_nth in_set_conv_nth)

text \<open>A row as the merger leaves it: stripped texts, a readable time and readable prices.\<close>

definition stripped_row :: "csv_row \<Rightarrow> bool" where
  "stripped_row row \<longleftrightarrow> (\<forall>k s. map_of row k = Some (Some s) \<longrightarrow> py_strip s = s)"

definition good_row :: "file_libs \<Rightarrow> csv_row \<Rightarrow> bool" where
  "good_row l row \<longleftrightarrow> stripped_row row \<and>
     (\<exists>s. map_of row ''datetime'' = Some (Some s) \<and> fl_strptime l plain_format s \<noteq> None) \<and>
     (\<forall>c\<in>set price_cols. \<exists>s x. map_of row c = Some (Some s) \<and> fl_float l s = Some x)"

lemma strip_row_stripped: "stripped_row (strip_row row)"
proof -
  have "stripped_row r \<Longrightarrow> stripped_row (fold (\<lambda>(k, v) r. AList.update (py_strip k) (map_option py_strip v) r) row r)" for r
  proof (induction row arbitrary: r)
    case (Cons kv row)
    obtain k v where kv: "kv = (k, v)" by force
    have "stripped_row (AList.update (py_strip k) (map_option py_strip v) r)"
      using Cons.prems by (auto simp: stripped_row_def update_conv')
    then show ?case using Cons.IH by (simp add: kv)
  qed simp
  moreover have "stripped_row []" by (simp add: stripped_row_def)
  ultimately show ?thesis by (simp add: strip_row_def)
qed

text \<open>What is relied on of the library: no time and no number in an empty text, a printed time reads back,
  and the order of the printed times is that of the times.\<close>

definition times_print :: "file_libs \<Rightarrow> bool" where
  "times_print l \<longleftrightarrow>
     fl_strptime l plain_format [] = None \<and> fl_float l [] = None \<and>
     (\<forall>s t u v. fl_strptime l plain_format s = Some t \<longrightarrow> fl_strptime l plain_format u = Some v \<longrightarrow>
        fl_strptime l plain_format (fl_strftime l t) = Some t \<and> (fl_strftime l t \<le> fl_strftime l v \<longleftrightarrow> t \<le> v))"

lemma checked_row_good:
  assumes "times_print l" "check_row l nrow = Inr row"
  shows "good_row l row"
proof -
  obtain n raw where nrow: "nrow = (n, raw)" by force
  obtain s where s: "dget ''datetime'' (strip_row raw) (Some []) = Some s" "fl_strptime l plain_format s \<noteq> None"
    "row = strip_row raw" and ok: "\<exists>xs. collect_all (check_number l n row) price_cols = Inr xs"
    using assms(2) by (auto simp: check_row_def nrow Let_def split: option.splits if_splits sum.splits)
  have "map_of row ''datetime'' = Some (Some s)"
  proof (cases "map_of row ''datetime''")
    case None
    then have "s = []" using s by (simp add: dget_def)
    then show ?thesis using s(2) assms(1) by (simp add: times_print_def)
  next
    case (Some v)
    then show ?thesis using s by (simp add: dget_def)
  qed
  moreover have "\<exists>s x. map_of row c = Some (Some s) \<and> fl_float l s = Some x" if c: "c \<in> set price_cols" for c
  proof -
    obtain xs where xs: "collect_all (check_number l n row) price_cols = Inr xs" using ok by blast
    obtain x where "check_number l n row c = Inr x" using collect_out[OF xs c] by blast
    then show ?thesis by (auto simp: check_number_def split: option.splits)
  qed
  ultimately show ?thesis using s(2) strip_row_stripped by (auto simp: good_row_def s(3))
qed

lemma read_rows_good:
  assumes "times_print l" "read_file l path = Inr rows" "row \<in> set rows"
  shows "good_row l row"
proof -
  obtain d where "detect_delimiter l path = Inr d" using assms(2) by (auto simp: read_file_def split: sum.splits)
  then obtain names raw where "collect_all (check_row l) (numbered raw) = Inr rows"
    using assms(2) by (auto simp: read_file_def Let_def split: prod.splits if_splits)
  then show ?thesis using assms(3) checked_row_good[OF assms(1)] by (auto elim: collect_mem)
qed

lemma merged_rows_good:
  assumes "times_print l" "merge l inputs = Inr (rows, a)" "row \<in> set rows"
  shows "good_row l row"
proof -
  obtain files tables where tables: "collect_all (read_file l) files = Inr tables"
    and first: "find (\<lambda>r. row_datetime r = row_datetime row) (concat tables) = Some row"
    using merge_exact_aux[OF assms(2)] assms(3) by blast
  then obtain t where "t \<in> set tables" "row \<in> set t" using find_SomeD[OF first] by auto
  then show ?thesis using tables read_rows_good[OF assms(1)] by (auto elim: collect_mem)
qed

definition row_text :: "string \<Rightarrow> csv_row \<Rightarrow> string" where
  "row_text k row = (case dget k row None of None \<Rightarrow> [] | Some s \<Rightarrow> s)"

definition written_row :: "csv_row \<Rightarrow> csv_row" where
  "written_row row = map (\<lambda>k. (k, Some (row_text k row))) raw_header"

lemma written_table_rows: "written_table rows = (raw_header, map written_row rows)"
  by (simp add: written_table_def written_row_def row_text_def)

definition row_price :: "file_libs \<Rightarrow> string \<Rightarrow> csv_row \<Rightarrow> rat" where
  "row_price l c row = the (fl_float l (row_text c row))"

definition candle_row :: "file_libs \<Rightarrow> rat \<Rightarrow> csv_row \<Rightarrow> replay_row" where
  "candle_row l v row = \<lparr>rw_timestamp = fl_strftime l (row_time l row), rw_open = row_price l ''open'' row,
     rw_high = row_price l ''high'' row, rw_low = row_price l ''low'' row, rw_close = row_price l ''close'' row, rw_volume = v\<rparr>"

lemma raw_columns: "time_column raw_header = Some ''datetime''" "map (column_for raw_header) price_cols = map Some price_cols"
  "column_for raw_header ''volume'' = None" "raw_header \<noteq> []"
  by code_simp+

lemma raw_price_columns: "map (\<lambda>c. the (column_for raw_header c)) price_cols = price_cols" "\<not> (\<exists>c\<in>set price_cols. column_for raw_header c = None)"
  by code_simp+

lemma written_value: "k \<in> set raw_header \<Longrightarrow> map_of (written_row row) k = Some (Some (row_text k row))"
  by (auto simp: written_row_def raw_header_def)

lemma price_cols_raw: "set price_cols \<subseteq> set raw_header" "''datetime'' \<in> set raw_header"
  by (auto simp: price_cols_def raw_header_def)

lemma good_texts:
  assumes "times_print l" "good_row l row"
  shows "row_text ''datetime'' row = row_datetime row" "py_strip (row_datetime row) = row_datetime row" "row_datetime row \<noteq> []"
    "fl_strptime l plain_format (row_datetime row) = Some (row_time l row)"
    "c \<in> set price_cols \<Longrightarrow> py_strip (row_text c row) = row_text c row"
    "c \<in> set price_cols \<Longrightarrow> fl_float l (row_text c row) = Some (row_price l c row) \<and> row_text c row \<noteq> []"
proof -
  obtain s where s: "map_of row ''datetime'' = Some (Some s)" "fl_strptime l plain_format s \<noteq> None"
    using assms(2) by (auto simp: good_row_def)
  have st: "stripped_row row" using assms(2) by (simp add: good_row_def)
  have d: "row_datetime row = s" using s by (simp add: row_datetime_def dget_def)
  show "row_text ''datetime'' row = row_datetime row" using s d by (simp add: row_text_def dget_def)
  show "py_strip (row_datetime row) = row_datetime row" using st s(1) d unfolding stripped_row_def by blast
  show "row_datetime row \<noteq> []" using s d assms(1) by (auto simp: times_print_def)
  show "fl_strptime l plain_format (row_datetime row) = Some (row_time l row)" using s(2) d by (auto simp: row_time_def)
  assume "c \<in> set price_cols"
  then obtain u x where u: "map_of row c = Some (Some u)" "fl_float l u = Some x" using assms(2) unfolding good_row_def by blast
  have t: "row_text c row = u" using u by (simp add: row_text_def dget_def)
  show "py_strip (row_text c row) = row_text c row" using st u(1) t unfolding stripped_row_def by blast
  show "fl_float l (row_text c row) = Some (row_price l c row) \<and> row_text c row \<noteq> []"
    using u t assms(1) by (auto simp: row_price_def times_print_def)
qed

lemma written_fields:
  assumes "times_print l" "good_row l row"
  shows "field_text (written_row row) ''datetime'' = Some (row_datetime row)"
    "c \<in> set price_cols \<Longrightarrow> check_price l n (written_row row) c = Inr (row_price l c row)"
    "c \<in> set price_cols \<Longrightarrow> float_of l n (written_row row) c d = Inr (row_price l c row)"
proof -
  note g = good_texts[OF assms]
  show "field_text (written_row row) ''datetime'' = Some (row_datetime row)"
    using g(1,2) by (simp add: field_text_def dget_def written_value price_cols_raw)
  assume c: "c \<in> set price_cols"
  then have v: "map_of (written_row row) c = Some (Some (row_text c row))" using price_cols_raw(1) by (blast intro: written_value)
  show "check_price l n (written_row row) c = Inr (row_price l c row)"
    using g(5,6)[OF c] v by (cases "row_text c row") (auto simp: check_price_def field_text_def dget_def)
  show "float_of l n (written_row row) c d = Inr (row_price l c row)" using g(6)[OF c] v by (simp add: float_of_def)
qed

lemma written_checks:
  assumes "times_print l" "good_row l row"
  shows "check_replay_row l ''datetime'' price_cols (n, written_row row) = Inr (written_row row)"
proof -
  have "collect_all (check_price l n (written_row row)) price_cols = Inr (map (\<lambda>c. row_price l c row) price_cols)"
    by (intro collect_map written_fields(2)[OF assms])
  then show ?thesis using written_fields(1)[OF assms] good_texts(3)[OF assms]
    by (simp add: check_replay_row_def split: list.split)
qed

lemma written_converts:
  assumes "times_print l" "good_row l row"
  shows "convert_replay_row l ''datetime'' price_cols None v (n, written_row row) = Inr (candle_row l v row)"
proof -
  have "collect_all (\<lambda>c. float_of l n (written_row row) c 0) price_cols = Inr (map (\<lambda>c. row_price l c row) price_cols)"
    by (intro collect_map written_fields(3)[OF assms])
  moreover have "normalize_timestamp l (time_text ''datetime'' (written_row row)) = Some (fl_strftime l (row_time l row))"
    using written_fields(1)[OF assms] good_texts(2,4)[OF assms]
    by (simp add: normalize_timestamp_def time_text_def replay_formats_def)
  ultimately show ?thesis by (simp add: convert_replay_row_def candle_row_def price_cols_def)
qed

lemma collect_numbered:
  assumes "\<And>n x. x \<in> set xs \<Longrightarrow> f (n, h x) = Inr (g x)"
  shows "collect_all f (numbered (map h xs)) = Inr (map g xs)"
proof -
  have "length [2..<length xs + 2] = length xs" by (simp only: length_upt add_diff_cancel_right')
  then have "list_all2 (\<lambda>x y. f x = Inr y) (numbered (map h xs)) (map g xs)"
    using assms unfolding numbered_def length_map by (intro list_all2_all_nthI) (simp_all del: length_upt)
  then show ?thesis by (simp add: collect_Inr)
qed

text \<open>C36: the file that a merge writes is accepted by the converter, which turns every row into a
  candle at its time and finds nothing to sort.\<close>

theorem merge_then_convert:
  assumes "times_print l" "merge l inputs = Inr (rows, a)"
  shows "\<exists>audit. convert_table l path v (written_table rows) = Inr (map (candle_row l v) rows, audit) \<and>
    ca_input_rows audit = length rows \<and> \<not> ca_sorted audit \<and> ca_volume_injected audit"
proof -
  have good: "good_row l row" if "row \<in> set rows" for row by (rule merged_rows_good[OF assms that])
  have ne: "rows \<noteq> []" using assms(2) by (auto simp: merge_def Let_def split: sum.splits prod.splits if_splits)
  have times: "sorted (map (row_time l) rows)" "distinct (map row_datetime rows)" using merge_exact_aux[OF assms(2)] by blast+
  have load: "validate_and_load l path (written_table rows) = Inr (map written_row rows, ''datetime'', price_cols)"
  proof -
    have "collect_all (check_replay_row l ''datetime'' price_cols) (numbered (map written_row rows)) = Inr (map written_row rows)"
      using good written_checks[OF assms(1)] by (intro collect_numbered) blast
    then show ?thesis using ne raw_columns raw_price_columns
      by (simp add: validate_and_load_def written_table_rows Let_def split: list.split)
  qed
  have "map (time_text ''datetime'') (map written_row rows) = map row_datetime rows"
    using good written_fields(1)[OF assms(1)] by (simp add: time_text_def)
  then have texts: "distinct (map (time_text ''datetime'') (map written_row rows))" by (simp only: times(2))
  have conv: "collect_all (convert_replay_row l ''datetime'' price_cols None v) (numbered (map written_row rows)) = Inr (map (candle_row l v) rows)"
    using good written_converts[OF assms(1)] by (intro collect_numbered) blast
  have "fl_strftime l (row_time l x) \<le> fl_strftime l (row_time l y) \<longleftrightarrow> row_time l x \<le> row_time l y"
    if "x \<in> set rows" "y \<in> set rows" for x y
    using assms(1) good_texts(4)[OF assms(1) good[OF that(1)]] good_texts(4)[OF assms(1) good[OF that(2)]]
    unfolding times_print_def by blast
  then have "sorted (map (\<lambda>r. fl_strftime l (row_time l r)) rows)"
    using times(1) by (auto simp: sorted_wrt_map sorted_map elim: sorted_wrt_mono_rel[rotated])
  then have "sort_key rw_timestamp (map (candle_row l v) rows) = map (candle_row l v) rows"
    by (intro sort_key_id_if_sorted) (simp add: candle_row_def comp_def)
  then show ?thesis using load texts conv raw_columns(3)
    by (simp add: convert_table_def written_table_rows Let_def del: map_map)
qed

section \<open>Two small files\<close>

text \<open>Times are single characters, with a leading ''z'' in the other format; every text is the number 1.\<close>

definition demo_row :: "string \<Rightarrow> string \<Rightarrow> csv_row" where
  "demo_row t close = [(''datetime'', Some t), (''open'', Some ''1''), (''high'', Some ''1''), (''low'', Some ''1''), (''close'', Some close)]"

definition demo_files :: file_libs where
  "demo_files = \<lparr>fl_first_line = (\<lambda>p. if p \<in> {''a'', ''b''} then Some ''datetime;open;high;low;close'' else None),
     fl_read = (\<lambda>p d. (raw_header, if p = ''a'' then [demo_row ''7'' ''1'', demo_row ''5'' ''1''] else [demo_row ''7'' ''2''])),
     fl_glob = (\<lambda>_. []),
     fl_strptime = (\<lambda>f s. case s of [c] \<Rightarrow> (if f = plain_format then Some (of_char c) else None)
                                  | [z, c] \<Rightarrow> (if f = z_format then Some (of_char c) else None)
                                  | _ \<Rightarrow> None),
     fl_strftime = (\<lambda>t. [char_of t]), fl_float = (\<lambda>s. if s = [] then None else Some 1)\<rparr>"

lemma demo_times_print: "times_print demo_files"
proof -
  have parse: "fl_strptime demo_files plain_format s = Some t \<longleftrightarrow> (\<exists>c. s = [c] \<and> t = of_char c)" for s t
    by (auto simp: demo_files_def plain_format_def z_format_def split: list.split)
  have "fl_strftime demo_files (of_char c) = [c]" for c by (simp add: demo_files_def)
  moreover have "(of_char c :: int) \<le> of_char d \<longleftrightarrow> c \<le> d" for c d
  proof -
    have "(of_char c :: int) = int (of_char c)" "(of_char d :: int) = int (of_char d)" by (simp_all only: of_nat_of_char)
    then show ?thesis by (simp only: less_eq_char_def of_nat_le_iff)
  qed
  moreover have "fl_float demo_files [] = None" "fl_strptime demo_files plain_format [] = None" by (simp_all add: demo_files_def)
  ultimately show ?thesis unfolding times_print_def by (auto simp: parse)
qed

definition demo_merged :: "csv_row list" where
  "demo_merged = [demo_row ''5'' ''1'', demo_row ''7'' ''1'']"

lemma demo_merge: "merge demo_files ''b,a'' = Inr (demo_merged, \<lparr>ma_files = [''a'', ''b''], ma_rows_read = 3, ma_rows_kept = 2,
  ma_duplicates = 1, ma_sorted = True, ma_first = ''5'', ma_last = ''7''\<rparr>)"
  by code_simp

theorem merge_exact_witness: "sorted (map (row_time demo_files) demo_merged) \<and> distinct (map row_datetime demo_merged)"
  using merge_exact[OF demo_merge] by blast

theorem merge_then_convert_witness:
  "\<exists>audit. convert_table demo_files ''m'' 0 (written_table demo_merged) = Inr (map (candle_row demo_files 0) demo_merged, audit)"
  using merge_then_convert[OF demo_times_print demo_merge, of "''m''" 0] by blast

text \<open>The converter compares the texts of the times: a time written in both formats passes as two, and the
  file that is written has it twice.\<close>

theorem hidden_duplicate:
  "case convert_table demo_files ''m'' 0 (raw_header, [demo_row ''7'' ''1'', demo_row ''z7'' ''2'']) of
     Inl _ \<Rightarrow> False | Inr (rows, _) \<Rightarrow> map rw_timestamp rows = [''7'', ''7'']"
  by code_simp

text \<open>The order of the chunks decides which of two rows with the same time is kept.\<close>

theorem chunk_order_matters: "merge_chunk_csvs demo_files [''a'', ''b''] \<noteq> merge_chunk_csvs demo_files [''b'', ''a'']"
  by code_simp

section \<open>Exported signals\<close>

text \<open>For candles whose high is not below their low every exported signal risks a positive amount.\<close>

lemma export_risk_pos: "cd_low c \<le> cd_high c \<Longrightarrow> export_risk r c > 0"
  by (auto simp: export_risk_def Let_def)

end
