(* ===== verification/Signal_Service.thy ===== *)
theory Signal_Service
  imports Orch_Decision "HOL-Library.Sublist"
begin

text \<open>
  The alert system of \<open>ict_trading_system/src\<close>: the webhook (\<open>api/webhooks.py\<close>, \<open>utils/helpers.py\<close>), the
  worker that checks, scores, stores, analyses and announces a signal
  (\<open>services/signal_processor.py\<close>), the reading of the answer of the language model and the limit of its
  requests (\<open>services/openai_service.py\<close>), and the sending of alerts (\<open>services/telegram_service.py\<close>).

  Texts are ASCII. Parameters: the conversions of \<open>orch_libs\<close>, the hour of an ISO time, the decoder of JSON, the answers of
  the language model and of Telegram, and for each signal what the session, both commits, the refresh, the
  rollback, the store of memories and the alert do (\<open>signal_env\<close>). The execution of a plan changes nothing unless a feature flag is set, and
  is left out, as are the logs.
\<close>

section \<open>The webhook\<close>

definition word_char :: "char \<Rightarrow> bool" where
  "word_char c \<longleftrightarrow> (let n = (of_char c :: nat) in 48 \<le> n \<and> n \<le> 57 \<or> 65 \<le> n \<and> n \<le> 90 \<or> n = 95 \<or> 97 \<le> n \<and> n \<le> 122)"

definition sanitize_string :: "string \<Rightarrow> string" where
  "sanitize_string s = filter (\<lambda>c. word_char c \<or> c \<in> set ''-.@:, '') s"

fun sanitize_value :: "pyval \<Rightarrow> pyval" where
  "sanitize_value (VStr s) = VStr (sanitize_string s)"
| "sanitize_value (VDict d) = VDict (map (\<lambda>kv. (fst kv, sanitize_value (snd kv))) d)"
| "sanitize_value v = v"

definition sanitize_payload :: "pydict \<Rightarrow> pydict" where
  "sanitize_payload d = map (\<lambda>kv. (fst kv, sanitize_value (snd kv))) d"

datatype webhook_answer = Forbidden | Ignored_Low | Bad_Payload | Accepted pydict

definition allowed_fields :: "string list" where
  "allowed_fields = [''symbol'', ''timeframe'', ''signal_type'', ''confidence'', ''raw_data'', ''timestamp'', ''price_data'', ''sl'', ''tp'',
     ''multi_tf'', ''confluences'']"

definition receive_webhook ::
    "string \<Rightarrow> int \<Rightarrow> string option \<Rightarrow> string option \<Rightarrow> pyval option \<Rightarrow> webhook_answer" where
  "receive_webhook webhook_secret min_confidence header query body =
     (let secret = (if header = None \<or> header = Some [] then query else header) in
      if secret \<noteq> Some webhook_secret then Forbidden
      else case body of
             Some (VDict raw) \<Rightarrow>
               (let d = sanitize_payload raw in
                case as_number (dget ''confidence'' d (VInt 0)) of
                  None \<Rightarrow> Bad_Payload
                | Some x \<Rightarrow>
                    (if x < of_int min_confidence then Ignored_Low
                     else if \<not> set (map fst d) \<subseteq> set allowed_fields then Bad_Payload
                     else Accepted d))
           | _ \<Rightarrow> Bad_Payload)"

section \<open>Checks of a signal\<close>

text \<open>An exception is \<open>None\<close>.\<close>

record signal_libs =
  sg_libs :: orch_libs
  sg_iso_hour :: "string \<Rightarrow> int option"
  sg_loads :: "string \<Rightarrow> pyval option"

definition required_fields :: "string list" where
  "required_fields = [''symbol'', ''timeframe'', ''signal_type'', ''confidence'', ''timestamp'', ''price_data'', ''sl'', ''tp'', ''multi_tf'', ''confluences'']"

text \<open>\<open>k in v\<close> for a text \<open>k\<close>.\<close>

definition contains_key :: "string \<Rightarrow> pyval \<Rightarrow> bool option" where
  "contains_key k v =
     (case v of
        VDict d \<Rightarrow> Some (k \<in> set (map fst d))
      | VList xs \<Rightarrow> Some (VStr k \<in> set xs)
      | VStr s \<Rightarrow> Some (sublist k s)
      | _ \<Rightarrow> None)"

fun has_prices :: "string list \<Rightarrow> pyval \<Rightarrow> bool option" where
  "has_prices [] v = Some True"
| "has_prices (k # ks) v = (case contains_key k v of None \<Rightarrow> None | Some b \<Rightarrow> if b then has_prices ks v else Some False)"

text \<open>Whether the signal is valid; \<open>None\<close> when looking up a price raises.\<close>

definition validate_signal :: "signal_libs \<Rightarrow> pydict \<Rightarrow> bool option" where
  "validate_signal l d =
     (if \<not> set required_fields \<subseteq> set (map fst d) then Some False
      else case has_prices [''open'', ''high'', ''low'', ''close''] (dget ''price_data'' d VNone) of
             None \<Rightarrow> None
           | Some False \<Rightarrow> Some False
           | Some True \<Rightarrow> Some (case to_int (sg_libs l) (dget ''confidence'' d VNone) of None \<Rightarrow> False | Some c \<Rightarrow> 0 \<le> c \<and> c \<le> 100))"

text \<open>\<open>datetime.utcfromtimestamp\<close>: rounded to microseconds, \<open>None\<close> outside the years 1 to 9999.\<close>

definition hour_of_seconds :: "rat \<Rightarrow> int option" where
  "hour_of_seconds x =
     (let s = \<lfloor>py_round 6 x\<rfloor> in
      if -62135596800 \<le> s \<and> s \<le> 253402300799 then Some ((s div 3600) mod 24) else None)"

definition drop_z :: "string \<Rightarrow> string" where
  "drop_z s = (if s \<noteq> [] \<and> last s = CHR ''Z'' then butlast s else s)"

text \<open>The hour: of a text as it is written, else of seconds; of a number of milliseconds. \<open>Some None\<close> when a text
  is neither.\<close>

definition signal_hour :: "signal_libs \<Rightarrow> pyval \<Rightarrow> int option option" where
  "signal_hour l ts =
     (case ts of
        VStr s \<Rightarrow>
          (case sg_iso_hour l (drop_z s) of
             Some h \<Rightarrow> Some (Some h)
           | None \<Rightarrow> Some (Option.bind (ol_parse_float (sg_libs l) (drop_z s)) hour_of_seconds))
      | _ \<Rightarrow> map_option Some (Option.bind (as_number ts) (\<lambda>x. hour_of_seconds (of_int \<lfloor>x / 1000\<rfloor>))))"

definition killzone_hour :: "int \<Rightarrow> bool" where
  "killzone_hour h \<longleftrightarrow> 7 \<le> h \<and> h < 10 \<or> 12 \<le> h \<and> h < 15"

definition signal_in_killzone :: "signal_libs \<Rightarrow> pyval \<Rightarrow> bool option" where
  "signal_in_killzone l ts =
     map_option (\<lambda>h. case h of None \<Rightarrow> False | Some h \<Rightarrow> killzone_hour h) (signal_hour l ts)"

definition value_len :: "pyval \<Rightarrow> nat option" where
  "value_len v = map_option length (iterate v)"

definition passes_confluence :: "pydict \<Rightarrow> bool option" where
  "passes_confluence d = map_option (\<lambda>n. n \<ge> 2) (value_len (dget ''confluences'' d (VList [])))"

definition score_signal :: "signal_libs \<Rightarrow> pydict \<Rightarrow> int option" where
  "score_signal l d =
     do { n \<leftarrow> value_len (dget ''confluences'' d (VList []));
          zone \<leftarrow> signal_in_killzone l (dget ''timestamp'' d VNone);
          Some (min 100 (60 + int n * 10 + (if zone then 10 else 0) +
            (if dget ''signal_type'' d VNone \<in> {VStr ''CHoCH'', VStr ''BoS''} then 10 else 0))) }"

section \<open>The answer of the language model\<close>

text \<open>From the first opening brace to the last closing one.\<close>

definition braces :: "string \<Rightarrow> string option" where
  "braces s =
     (let t = dropWhile (\<lambda>c. c \<noteq> CHR ''{'') s; u = rev (dropWhile (\<lambda>c. c \<noteq> CHR ''}'') (rev t)) in
      if u = [] then None else Some u)"

definition with_content :: "string \<Rightarrow> pyval \<Rightarrow> pyval" where
  "with_content content v =
     (case v of VDict d \<Rightarrow> VDict (if map_of d ''content'' = None then d @ [(''content'', VStr content)] else d) | _ \<Rightarrow> v)"

definition no_analysis :: "string \<Rightarrow> pyval" where
  "no_analysis content = VDict [(''content'', VStr content), (''score'', VInt 0), (''risk'', VStr ''unknown''), (''entry'', VStr ''N/A''),
     (''exit'', VStr ''N/A''), (''explanation'', VStr content)]"

definition read_analysis :: "(string \<Rightarrow> pyval option) \<Rightarrow> string \<Rightarrow> pyval" where
  "read_analysis loads content =
     (case loads content of
        Some v \<Rightarrow> with_content content v
      | None \<Rightarrow>
         (case braces content of
            None \<Rightarrow> no_analysis content
          | Some s \<Rightarrow> (case loads s of None \<Rightarrow> no_analysis content | Some v \<Rightarrow> with_content content v)))"

text \<open>At most \<open>rate_limit\<close> requests in the last \<open>rate_window\<close> seconds.\<close>

definition rate_limit :: nat where "rate_limit = 60"

definition rate_window :: rat where "rate_window = 60"

definition rate_limited :: "rat \<Rightarrow> rat list \<Rightarrow> bool \<times> rat list" where
  "rate_limited now ts =
     (let recent = dropWhile (\<lambda>t. now - t > rate_window) ts in
      if length recent \<ge> rate_limit then (True, recent) else (False, recent @ [now]))"

text \<open>The analysis behind \<open>lru_cache\<close>: what was answered to a prompt is answered again, and the limit and the
  service are not asked. The newest use comes first.\<close>

record gpt_state =
  gp_cache :: "(string \<times> string) list"
  gp_times :: "rat list"
  gp_requests :: nat
  gp_tokens :: int

definition ask_gpt :: "(nat \<Rightarrow> (string \<times> int) option) \<Rightarrow> rat \<Rightarrow> gpt_state \<Rightarrow> string \<times> gpt_state" where
  "ask_gpt service now g =
     (let (limited, ts) = rate_limited now (gp_times g) in
      if limited then (''Rate limit reached. Try again later.'', g\<lparr>gp_times := ts\<rparr>)
      else case service (gp_requests g) of
             None \<Rightarrow> (''AI analysis unavailable.'', g\<lparr>gp_times := ts, gp_requests := gp_requests g + 1\<rparr>)
           | Some (content, usage) \<Rightarrow>
               (content, g\<lparr>gp_times := ts, gp_requests := gp_requests g + 1, gp_tokens := gp_tokens g + usage\<rparr>))"

definition cached_gpt_analysis :: "(nat \<Rightarrow> (string \<times> int) option) \<Rightarrow> rat \<Rightarrow> string \<Rightarrow> gpt_state \<Rightarrow> string \<times> gpt_state" where
  "cached_gpt_analysis service now prompt g =
     (case map_of (gp_cache g) prompt of
        Some c \<Rightarrow> (c, g\<lparr>gp_cache := (prompt, c) # filter (\<lambda>e. fst e \<noteq> prompt) (gp_cache g)\<rparr>)
      | None \<Rightarrow> (let (c, g') = ask_gpt service now g in (c, g'\<lparr>gp_cache := take 256 ((prompt, c) # gp_cache g')\<rparr>)))"

section \<open>Alerts\<close>

text \<open>One chat: at most \<open>n\<close> requests, until one succeeds; the requests so far pick the answers.\<close>

primrec send_to_chat :: "(nat \<Rightarrow> bool) \<Rightarrow> nat \<Rightarrow> nat \<Rightarrow> bool \<times> nat" where
  "send_to_chat ok 0 i = (False, i)"
| "send_to_chat ok (Suc n) i = (if ok i then (True, i + 1) else send_to_chat ok n (i + 1))"

text \<open>The chats of the setting, which are separated by commas; a blank one raises (\<open>None\<close>).\<close>

primrec send_to_chats :: "(nat \<Rightarrow> bool) \<Rightarrow> nat \<Rightarrow> string list \<Rightarrow> bool \<Rightarrow> nat \<Rightarrow> bool option \<times> nat" where
  "send_to_chats ok n [] all_sent i = (Some all_sent, i)"
| "send_to_chats ok n (chat # chats) all_sent i =
     (if py_strip chat = [] then (None, i)
      else (let (sent, j) = send_to_chat ok n i in send_to_chats ok n chats (all_sent \<and> sent) j))"

definition send_telegram_alert :: "(nat \<Rightarrow> bool) \<Rightarrow> nat \<Rightarrow> string list \<Rightarrow> bool option \<times> nat" where
  "send_telegram_alert ok max_retries chats = send_to_chats ok max_retries chats True 0"

section \<open>The worker\<close>

text \<open>What the outside does for one signal. A commit that raises says whether its exception is one of SQLAlchemy, and
  whether the row is in the table nonetheless; the refresh raises such an exception or another one, or not
  at all. The analysis is \<open>None\<close> when its call raises, and the id is the primary key the database has given.
  Entering and leaving the session, the rollback, the store of memories and the alert succeed or raise.\<close>

datatype commit_outcome = Committed | Commit_Raises bool bool

record signal_env =
  se_enters :: bool
  se_id :: nat
  se_commit1 :: commit_outcome
  se_refresh :: "bool option"
  se_content :: "string option"
  se_commit2 :: commit_outcome
  se_remembers :: bool
  se_alerts :: bool
  se_rolls_back :: bool
  se_exits :: bool

record stored_signal =
  ss_id :: nat
  ss_data :: pydict
  ss_confidence :: int

record stored_analysis =
  sa_signal_id :: nat
  sa_analysis :: pyval
  sa_score :: pyval
  sa_recommendation :: pyval

record worker_state =
  wk_signals :: "stored_signal list"
  wk_analyses :: "stored_analysis list"
  wk_memories :: nat
  wk_alerts :: nat
  wk_rollbacks :: nat
  wk_taken :: nat
  wk_done :: nat
  wk_alive :: bool

datatype gate_answer = Gate_Raises | Dropped | Passed int

text \<open>The checks before anything is stored, in their order.\<close>

definition signal_gate :: "signal_libs \<Rightarrow> pydict \<Rightarrow> gate_answer" where
  "signal_gate l d =
     (case validate_signal l d of
        None \<Rightarrow> Gate_Raises
      | Some False \<Rightarrow> Dropped
      | Some True \<Rightarrow>
         (case passes_confluence d of
            None \<Rightarrow> Gate_Raises
          | Some False \<Rightarrow> Dropped
          | Some True \<Rightarrow>
             (case signal_in_killzone l (dget ''timestamp'' d VNone) of
                None \<Rightarrow> Gate_Raises
              | Some False \<Rightarrow> Dropped
              | Some True \<Rightarrow>
                 (case score_signal l d of
                    None \<Rightarrow> Gate_Raises
                  | Some c \<Rightarrow> (if c < 75 then Dropped else Passed c)))))"

text \<open>How the body of the handler ends: with \<open>continue\<close> after its own \<open>task_done\<close>, at its end, or with an exception of
  SQLAlchemy or another one.\<close>

datatype body_end = Dropped_Early | Completed | Db_Error | Other_Error

definition error_end :: "bool \<Rightarrow> body_end" where
  "error_end db = (if db then Db_Error else Other_Error)"

text \<open>The second half, for a signal that is stored: only a dictionary is an analysis; its text is that of
  "content". An exception of the store of memories is swallowed, one of the alert ends the body.\<close>

definition store_analysis :: "signal_env \<Rightarrow> pyval \<Rightarrow> stored_signal \<Rightarrow> worker_state \<Rightarrow> body_end \<times> worker_state" where
  "store_analysis env ai s w =
     (case ai of
        VDict d \<Rightarrow>
          (let a = \<lparr>sa_signal_id = ss_id s, sa_analysis = dget ''content'' d VNone,
                    sa_score = dget ''score'' d (VInt (ss_confidence s)), sa_recommendation = dget ''explanation'' d (VStr [])\<rparr>;
               w' = w\<lparr>wk_analyses := wk_analyses w @ [a]\<rparr>
           in case se_commit2 env of
                Commit_Raises db written \<Rightarrow> (error_end db, if written then w' else w)
              | Committed \<Rightarrow>
                  (if se_alerts env then Completed else Other_Error,
                   w'\<lparr>wk_memories := wk_memories w + (if se_remembers env then 1 else 0),
                      wk_alerts := wk_alerts w + (if se_alerts env then 1 else 0)\<rparr>))
      | _ \<Rightarrow> (Other_Error, w))"

definition worker_body :: "signal_libs \<Rightarrow> signal_env \<Rightarrow> pydict \<Rightarrow> worker_state \<Rightarrow> body_end \<times> worker_state" where
  "worker_body l env d w =
     (case signal_gate l d of
        Gate_Raises \<Rightarrow> (Other_Error, w)
      | Dropped \<Rightarrow> (Dropped_Early, w)
      | Passed c \<Rightarrow>
          (let s = \<lparr>ss_id = se_id env, ss_data = AList.update ''confidence'' (VInt c) d, ss_confidence = c\<rparr>;
               w' = w\<lparr>wk_signals := wk_signals w @ [s]\<rparr>
           in case se_commit1 env of
                Commit_Raises db written \<Rightarrow> (error_end db, if written then w' else w)
              | Committed \<Rightarrow>
                 (case se_refresh env of
                    Some db \<Rightarrow> (error_end db, w')
                  | None \<Rightarrow>
                     (case se_content env of
                        None \<Rightarrow> (Other_Error, w')
                      | Some content \<Rightarrow> store_analysis env (read_analysis (sg_loads l) content) s w'))))"

text \<open>One round of the loop. An exception of the rollback, or of entering or leaving the session, is caught by
  nothing and ends the worker: the queue fills and no later signal is taken.\<close>

definition signal_worker :: "signal_libs \<Rightarrow> signal_env \<Rightarrow> pydict \<Rightarrow> worker_state \<Rightarrow> worker_state" where
  "signal_worker l env d w =
     (if \<not> wk_alive w then w
      else
       (let w0 = w\<lparr>wk_taken := wk_taken w + 1\<rparr> in
        if \<not> se_enters env then w0\<lparr>wk_alive := False\<rparr>
        else
         (let (how, w1) = worker_body l env d w0;
              w2 = (if how = Dropped_Early then w1\<lparr>wk_done := wk_done w1 + 1\<rparr>
                    else if how = Db_Error \<and> se_rolls_back env then w1\<lparr>wk_rollbacks := wk_rollbacks w1 + 1\<rparr>
                    else w1)
          in if how = Db_Error \<and> \<not> se_rolls_back env \<or> \<not> se_exits env then w2\<lparr>wk_alive := False\<rparr>
             else if how = Dropped_Early then w2
             else w2\<lparr>wk_done := wk_done w2 + 1\<rparr>)))"

definition worker_run :: "signal_libs \<Rightarrow> (signal_env \<times> pydict) list \<Rightarrow> worker_state \<Rightarrow> worker_state" where
  "worker_run l todo w = fold (\<lambda>(env, d). signal_worker l env d) todo w"

definition worker_init :: worker_state where
  "worker_init = \<lparr>wk_signals = [], wk_analyses = [], wk_memories = 0, wk_alerts = 0, wk_rollbacks = 0, wk_taken = 0,
     wk_done = 0, wk_alive = True\<rparr>"

end
