(* ===== verification/Signal_Props.thy ===== *)
theory Signal_Props
  imports Signal_Service Contracts
begin

text \<open>
  The alert system: what the gate of the worker lets through, what a run of the worker stores, how many
  requests the limit admits, and what the cleaning of the webhook does to times.
\<close>

section \<open>The gate\<close>

lemma signal_score_bounds: "score_signal l d = Some c \<Longrightarrow> c \<le> 100"
  by (auto simp: score_signal_def split: bind_splits)

lemma score_of_passed:
  assumes "score_signal l d = Some c" "passes_confluence d = Some True" "signal_in_killzone l (dget ''timestamp'' d VNone) = Some True"
  shows "c \<ge> 90"
  using assms by (auto simp: score_signal_def passes_confluence_def split: bind_splits)

lemma gate_passed_aux:
  "signal_gate l d = Passed c \<longleftrightarrow>
     validate_signal l d = Some True \<and> passes_confluence d = Some True \<and>
     signal_in_killzone l (dget ''timestamp'' d VNone) = Some True \<and> score_signal l d = Some c \<and> 90 \<le> c \<and> c \<le> 100"
  using score_of_passed[of l d c] signal_score_bounds[of l d c]
  by (auto simp: signal_gate_def split: option.splits bool.splits if_splits)

lemma gate_passed: "signal_gate l d = Passed c \<Longrightarrow> 90 \<le> c \<and> c \<le> 100"
  by (simp only: gate_passed_aux)

text \<open>The worker takes a signal exactly when it has its fields, at least two confluences and a time in
  a killzone. Its score is then at least 90, so the last check, a score of at least 75, drops nothing,
  and the confidence it came with has no influence beyond being between 0 and 100.\<close>

theorem gate_exact:
  "signal_gate l d = Passed c \<longleftrightarrow>
     validate_signal l d = Some True \<and> passes_confluence d = Some True \<and>
     signal_in_killzone l (dget ''timestamp'' d VNone) = Some True \<and> score_signal l d = Some c \<and> 90 \<le> c \<and> c \<le> 100"
  by (rule gate_passed_aux)

section \<open>Runs of the worker\<close>

definition worker_ok :: "worker_state \<Rightarrow> bool" where
  "worker_ok w \<longleftrightarrow> list_all (\<lambda>s. 90 \<le> ss_confidence s \<and> ss_confidence s \<le> 100) (wk_signals w) \<and>
     subseq (map sa_signal_id (wk_analyses w)) (map ss_id (wk_signals w)) \<and>
     wk_alerts w \<le> length (wk_analyses w) \<and> wk_memories w \<le> length (wk_analyses w)"

text \<open>What the rounds do to the books besides the rows.\<close>

lemma worker_ok_frame [simp]:
  "worker_ok (w\<lparr>wk_taken := n\<rparr>) = worker_ok w" "worker_ok (w\<lparr>wk_done := n\<rparr>) = worker_ok w"
  "worker_ok (w\<lparr>wk_rollbacks := n\<rparr>) = worker_ok w" "worker_ok (w\<lparr>wk_alive := b\<rparr>) = worker_ok w"
  by (simp_all add: worker_ok_def)

lemma worker_ok_store:
  assumes "worker_ok w" "90 \<le> ss_confidence s" "ss_confidence s \<le> 100"
  shows "worker_ok (w\<lparr>wk_signals := wk_signals w @ [s]\<rparr>)"
    and "worker_ok (snd (store_analysis env ai s (w\<lparr>wk_signals := wk_signals w @ [s]\<rparr>)))"
  using assms
  by (auto simp: worker_ok_def store_analysis_def Let_def subseq_snoc_both subseq_snoc_right
      split: pyval.splits commit_outcome.splits)

lemma worker_ok_body:
  assumes "worker_ok w"
  shows "worker_ok (snd (worker_body l env d w))"
proof (cases "signal_gate l d")
  case (Passed c)
  then have "90 \<le> c" "c \<le> 100" using gate_passed by blast+
  with worker_ok_store[OF assms, of "\<lparr>ss_id = se_id env, ss_data = AList.update ''confidence'' (VInt c) d, ss_confidence = c\<rparr>"]
  show ?thesis
    using assms Passed by (auto simp: worker_body_def Let_def split: commit_outcome.splits option.splits)
qed (use assms in \<open>simp_all add: worker_body_def\<close>)

lemma worker_ok_step: "worker_ok w \<Longrightarrow> worker_ok (signal_worker l env d w)"
  using worker_ok_body[of "w\<lparr>wk_taken := wk_taken w + 1\<rparr>" l env d]
  by (auto simp: signal_worker_def Let_def split: prod.splits)

lemma body_books:
  "wk_taken (snd (worker_body l env d w)) = wk_taken w" "wk_done (snd (worker_body l env d w)) = wk_done w"
  "wk_alive (snd (worker_body l env d w)) = wk_alive w"
  by (simp_all add: worker_body_def store_analysis_def Let_def
      split: gate_answer.split commit_outcome.split option.split pyval.split)

text \<open>The signals at which the worker ends: the session cannot be entered or left, or an exception of SQLAlchemy is
  followed by one of the rollback.\<close>

definition db_fails :: "signal_libs \<Rightarrow> signal_env \<Rightarrow> pydict \<Rightarrow> bool" where
  "db_fails l env d \<longleftrightarrow> (\<exists>c. signal_gate l d = Passed c) \<and>
     (case se_commit1 env of
        Commit_Raises db written \<Rightarrow> db
      | Committed \<Rightarrow>
         (case se_refresh env of
            Some db \<Rightarrow> db
          | None \<Rightarrow>
             (case se_content env of
                None \<Rightarrow> False
              | Some content \<Rightarrow> is_dict (read_analysis (sg_loads l) content) \<and> (\<exists>written. se_commit2 env = Commit_Raises True written))))"

definition ends_worker :: "signal_libs \<Rightarrow> signal_env \<times> pydict \<Rightarrow> bool" where
  "ends_worker l = (\<lambda>(env, d). \<not> se_enters env \<or> \<not> se_exits env \<or> db_fails l env d \<and> \<not> se_rolls_back env)"

lemma body_end_db: "fst (worker_body l env d w) = Db_Error \<longleftrightarrow> db_fails l env d"
  by (auto simp: worker_body_def store_analysis_def db_fails_def error_end_def Let_def
      split: gate_answer.splits commit_outcome.splits option.splits pyval.splits)

abbreviation "worker_step l \<equiv> (\<lambda>(env, d). signal_worker l env d)"

lemma worker_survives:
  assumes "wk_alive w"
  shows "wk_taken (worker_step l t w) = wk_taken w + 1"
    and "wk_alive (worker_step l t w) = (\<not> ends_worker l t)"
    and "\<not> ends_worker l t \<Longrightarrow> wk_done (worker_step l t w) = wk_done w + 1"
    and "wk_done w \<le> wk_done (worker_step l t w)" "wk_done (worker_step l t w) \<le> wk_done w + 1"
proof -
  obtain env d where t: "t = (env, d)" by fastforce
  obtain how w1 where b: "worker_body l env d (w\<lparr>wk_taken := Suc (wk_taken w)\<rparr>) = (how, w1)" by fastforce
  have "wk_taken w1 = wk_taken w + 1" "wk_done w1 = wk_done w" "wk_alive w1 = wk_alive w"
    using body_books[of l env d "w\<lparr>wk_taken := Suc (wk_taken w)\<rparr>"] unfolding b by simp_all
  moreover have "how = Db_Error \<longleftrightarrow> db_fails l env d"
    using body_end_db[of l env d "w\<lparr>wk_taken := Suc (wk_taken w)\<rparr>"] unfolding b by simp
  ultimately show "wk_taken (worker_step l t w) = wk_taken w + 1"
    "wk_alive (worker_step l t w) = (\<not> ends_worker l t)"
    "\<not> ends_worker l t \<Longrightarrow> wk_done (worker_step l t w) = wk_done w + 1"
    "wk_done w \<le> wk_done (worker_step l t w)" "wk_done (worker_step l t w) \<le> wk_done w + 1"
    using assms by (auto simp: t signal_worker_def b Let_def ends_worker_def)
qed

lemma worker_ended: "\<not> wk_alive w \<Longrightarrow> fold (worker_step l) todo w = w"
  by (induction todo) (auto simp: signal_worker_def)

text \<open>How far a run gets.\<close>

lemma worker_progress:
  assumes "wk_alive w"
  shows "let u = fold (worker_step l) todo w; served = takeWhile (Not \<circ> ends_worker l) todo in
     wk_alive u = (served = todo) \<and> wk_taken u = wk_taken w + min (length todo) (length served + 1) \<and>
     wk_done w + length served \<le> wk_done u \<and> wk_done u + wk_taken w \<le> wk_taken u + wk_done w"
  using assms
proof (induction todo arbitrary: w)
  case Nil
  then show ?case by simp
next
  case (Cons t todo)
  note one = worker_survives[OF Cons.prems, of l t]
  show ?case
  proof (cases "ends_worker l t")
    case True
    with one worker_ended[of "worker_step l t w" l todo] show ?thesis by (simp add: Let_def)
  next
    case False
    with one(2) have "wk_alive (worker_step l t w)" by simp
    from Cons.IH[OF this] one(1,3) False show ?thesis by (simp add: Let_def)
  qed
qed

text \<open>The worker keeps its books, and no signal and no analysis that is stored is changed or removed.\<close>

interpretation workers: inv_machine "worker_step l" worker_ok for l
  by unfold_locales (auto intro: worker_ok_step)

lemma body_extends:
  "prefix (wk_signals w) (wk_signals (snd (worker_body l env d w)))"
  "prefix (wk_analyses w) (wk_analyses (snd (worker_body l env d w)))"
  by (simp_all add: worker_body_def store_analysis_def Let_def
      split: gate_answer.split commit_outcome.split option.split pyval.split)

lemma worker_extends:
  "prefix (wk_signals w) (wk_signals (worker_step l t w))"
  "prefix (wk_analyses w) (wk_analyses (worker_step l t w))"
  using body_extends[of "w\<lparr>wk_taken := wk_taken w + 1\<rparr>" l "fst t" "snd t"]
  by (auto simp: signal_worker_def Let_def split: prod.splits)

interpretation stored_signals: append_only "worker_step l" wk_signals for l
  by unfold_locales (rule worker_extends)

interpretation stored_analyses: append_only "worker_step l" wk_analyses for l
  by unfold_locales (rule worker_extends)

text \<open>C37: whatever raises outside, a stored signal has a confidence of 90 to 100; every analysis belongs to a stored
  signal and no signal has two; there is at most one alert and one memory per analysis; and what is stored after
  some signals is there, unchanged, after all of them. The worker takes the signals up to and with the
  first at which the session cannot be entered or left or the rollback raises, and acknowledges all before it once; it
  survives exactly when there is no such signal, and then has acknowledged all. Otherwise it never
  takes another one.\<close>

theorem worker_accounts:
  "let u = worker_run l todo worker_init; v = worker_run l (todo @ later) worker_init;
       served = takeWhile (Not \<circ> ends_worker l) todo in
   worker_ok u \<and> wk_alive u = (served = todo) \<and> wk_taken u = min (length todo) (length served + 1) \<and>
   length served \<le> wk_done u \<and> wk_done u \<le> wk_taken u \<and>
   prefix (wk_signals u) (wk_signals v) \<and> prefix (wk_analyses u) (wk_analyses v)"
proof -
  have i: "worker_ok worker_init" "wk_alive worker_init" "wk_taken worker_init = 0" "wk_done worker_init = 0"
    by (simp_all add: worker_ok_def worker_init_def)
  show ?thesis
    using workers.run_inv[OF i(1), of l todo] worker_progress[OF i(2), of l todo]
    by (auto simp: Let_def worker_run_def i(3,4) stored_signals.run_extends stored_analyses.run_extends)
qed

section \<open>The limit of the requests\<close>

definition limit_ok :: "rat \<Rightarrow> rat list \<Rightarrow> bool" where
  "limit_ok now ts \<longleftrightarrow> sorted ts \<and> (\<forall>t\<in>set ts. t \<le> now) \<and> length ts \<le> rate_limit"

text \<open>With a clock that does not go back at most 60 requests are remembered, all of the last minute, and a
  request is refused exactly when 60 of them are.\<close>

lemma rate_limit_exact:
  assumes "limit_ok before ts" "before \<le> now"
  shows "limit_ok now (snd (rate_limited now ts))"
    and "fst (rate_limited now ts) \<longleftrightarrow> length (filter (\<lambda>t. now - t \<le> rate_window) ts) = rate_limit"
    and "\<forall>t\<in>set (snd (rate_limited now ts)). now - t \<le> rate_window"
proof -
  have recent: "sorted ts \<Longrightarrow> dropWhile (\<lambda>t. now - t > rate_window) ts = filter (\<lambda>t. now - t \<le> rate_window) ts" for ts :: "rat list"
  proof (induction ts)
    case (Cons t ts)
    have "now - t \<le> rate_window \<Longrightarrow> filter (\<lambda>t. now - t \<le> rate_window) ts = ts"
      using Cons.prems by (intro filter_True) auto
    then show ?case using Cons by auto
  qed simp
  have le: "length (filter (\<lambda>t. now - t \<le> rate_window) ts) \<le> rate_limit"
    using assms(1) length_filter_le[of _ ts] by (meson le_trans limit_ok_def)
  show "limit_ok now (snd (rate_limited now ts))"
    using assms recent[of ts] le by (auto simp: limit_ok_def rate_limited_def Let_def sorted_append sorted_filter intro: sorted_wrt_filter)
  show "fst (rate_limited now ts) \<longleftrightarrow> length (filter (\<lambda>t. now - t \<le> rate_window) ts) = rate_limit"
    using assms(1) recent[of ts] le by (auto simp: limit_ok_def rate_limited_def Let_def)
  show "\<forall>t\<in>set (snd (rate_limited now ts)). now - t \<le> rate_window"
    using assms(1) recent[of ts] by (auto simp: limit_ok_def rate_limited_def Let_def rate_window_def)
qed

text \<open>A failure is kept like an answer: asked again, it is answered again, without a request.\<close>

theorem failure_cached:
  "snd (cached_gpt_analysis service now prompt g) = g' \<Longrightarrow>
   fst (cached_gpt_analysis service later prompt g') = fst (cached_gpt_analysis service now prompt g) \<and>
   gp_requests (snd (cached_gpt_analysis service later prompt g')) = gp_requests g'"
  by (cases "map_of (gp_cache g) prompt") (auto simp: cached_gpt_analysis_def split: prod.splits)

section \<open>Times behind the webhook\<close>

text \<open>An accepted payload has no plus sign in its time: a time with an offset to the east arrives with the
  digits run together.\<close>

theorem offsets_are_lost:
  assumes "receive_webhook secret n header query body = Accepted d" "map_of d ''timestamp'' = Some (VStr s)"
  shows "CHR ''+'' \<notin> set s"
proof -
  obtain raw where "d = sanitize_payload raw"
    using assms(1) by (auto simp: receive_webhook_def Let_def split: option.splits pyval.splits if_splits)
  then obtain v where "sanitize_value v = VStr s"
    using assms(2) by (auto simp: sanitize_payload_def map_of_map dest!: map_of_SomeD)
  then have "\<exists>u. s = sanitize_string u" by (cases v) auto
  then show ?thesis by (auto simp: sanitize_string_def word_char_def)
qed

end
