(* ===== verification/Smc_Engine.thy ===== *)
theory Smc_Engine
  imports Orch_Policy
begin

text \<open>
  The evaluator of setups in \<open>apps/smc\<close>: the decision and its schema (\<open>models.py\<close>), the two questions to the
  language model with the decision that replaces them (\<open>decision_engine.py\<close>), and the notifier
  (\<open>notifier.py\<close>).

  Parameters: the answers of the language model (\<open>None\<close> when the call raises), the reading of a decision
  from JSON, the text of the rationale. Scores are rational numbers, floating point is exact.
\<close>

datatype smc_tier = Strong | Moderate | Weak

datatype smc_action = Go_Long | Go_Short | Stay_Out

datatype smc_status = Met | Partly_Met | Not_Met

record smc_decision =
  smc_dec_symbol :: string
  smc_dec_timeframes :: "string list"
  smc_dec_timestamp :: string
  smc_dec_checklist :: "(string \<times> smc_status \<times> string) list"
  smc_dec_confidence :: int
  smc_dec_tier :: smc_tier
  smc_dec_action :: smc_action
  smc_dec_stop_loss :: rat
  smc_dec_take_profit :: rat
  smc_dec_rr_min :: rat
  smc_dec_risk_per_trade :: rat
  smc_dec_rationale :: "string option"
  smc_dec_checklist_score :: "rat option"

definition smc_keys :: "string list" where
  "smc_keys = [''htf_bias'', ''liquidity_context'', ''poi'', ''ltf_confirmation'', ''risk_execution'', ''discipline'', ''session_killzone'']"

text \<open>The schema: known keys, a confidence from 0 to 100.\<close>

definition smc_valid :: "smc_decision \<Rightarrow> bool" where
  "smc_valid d \<longleftrightarrow> (\<forall>c\<in>set (smc_dec_checklist d). fst c \<in> set smc_keys) \<and> 0 \<le> smc_dec_confidence d \<and> smc_dec_confidence d \<le> 100"

section \<open>The fallback\<close>

definition smc_met :: "pydict \<Rightarrow> string \<Rightarrow> bool" where
  "smc_met ctx k = truthy (dget k ctx (VBool True))"

definition checklist_share :: "pydict \<Rightarrow> rat" where
  "checklist_share ctx = of_nat (length (filter (smc_met ctx) smc_keys)) / of_nat (length smc_keys)"

definition combined_score :: "pydict \<Rightarrow> rat" where
  "combined_score ctx =
     min (checklist_share ctx + (if smc_met ctx ''liquidity_context'' then 15/100 else 0) +
          (if smc_met ctx ''poi'' then 15/100 else 0)) 1"

definition smc_tier_of :: "rat \<Rightarrow> smc_tier" where
  "smc_tier_of x = (if x \<ge> 8/10 then Strong else if x \<ge> 6/10 then Moderate else Weak)"

definition smc_confidence :: "rat \<Rightarrow> int" where
  "smc_confidence x =
     (case smc_tier_of x of Strong \<Rightarrow> py_trunc (90 * x) | Moderate \<Rightarrow> py_trunc (70 * x) | Weak \<Rightarrow> py_trunc (40 * x))"

fun all_texts :: "pyval list \<Rightarrow> string list option" where
  "all_texts [] = Some []"
| "all_texts (VStr s # vs) = map_option ((#) s) (all_texts vs)"
| "all_texts _ = None"

text \<open>\<open>None\<close> when the context gives the metadata another type than the schema wants.\<close>

definition fallback_decision :: "(pydict \<Rightarrow> string) \<Rightarrow> pydict \<Rightarrow> smc_decision option" where
  "fallback_decision rationale ctx =
     (case (dget ''symbol'' ctx (VStr ''XAUUSD''), dget ''timestamp'' ctx (VStr ''2025-08-11T12:00:00Z''),
            dget ''timeframe_context'' ctx (VList [VStr ''4H'', VStr ''1H'', VStr ''5M''])) of
        (VStr symbol, VStr now, VList tf) \<Rightarrow>
          map_option (\<lambda>tfs.
            \<lparr>smc_dec_symbol = symbol, smc_dec_timeframes = tfs, smc_dec_timestamp = now,
             smc_dec_checklist = map (\<lambda>k. (k, if smc_met ctx k then Met else Not_Met, ''fallback'')) smc_keys,
             smc_dec_confidence = smc_confidence (combined_score ctx), smc_dec_tier = smc_tier_of (combined_score ctx),
             smc_dec_action = (if smc_met ctx ''htf_bias'' then Go_Long else Stay_Out),
             smc_dec_stop_loss = 2/10, smc_dec_take_profit = 6/10, smc_dec_rr_min = 3, smc_dec_risk_per_trade = 1,
             smc_dec_rationale = Some (rationale ctx), smc_dec_checklist_score = Some (py_round 2 (checklist_share ctx))\<rparr>)
            (all_texts tf)
      | _ \<Rightarrow> None)"

section \<open>The evaluation\<close>

text \<open>The decision, \<open>None\<close> when the evaluation raises, with the number of questions and of fallbacks.\<close>

definition evaluate_smc ::
    "(nat \<Rightarrow> string option) \<Rightarrow> (string \<Rightarrow> smc_decision option) \<Rightarrow> (pydict \<Rightarrow> string) \<Rightarrow> pydict \<Rightarrow> smc_decision option \<times> nat \<times> nat" where
  "evaluate_smc llm parse rationale ctx =
     (case llm 0 of
        None \<Rightarrow> (None, 1, 0)
      | Some output \<Rightarrow>
         (case parse output of
            Some d \<Rightarrow> (Some d, 1, 0)
          | None \<Rightarrow>
             (case llm 1 of
                None \<Rightarrow> (None, 2, 0)
              | Some repaired \<Rightarrow>
                 (case parse repaired of
                    Some d \<Rightarrow> (Some d, 2, 0)
                  | None \<Rightarrow> (fallback_decision rationale ctx, 2, 1)))))"

text \<open>\<open>SMCNotifier.notify\<close>: every notifier is tried, the ones that raise are logged.\<close>

definition smc_notify :: "(nat \<Rightarrow> bool) \<Rightarrow> nat \<Rightarrow> nat \<times> nat" where
  "smc_notify sends n = (length (filter sends [0..<n]), length (filter (\<lambda>i. \<not> sends i) [0..<n]))"

section \<open>Properties\<close>

lemma share_bounds_smc: "0 \<le> checklist_share ctx" "checklist_share ctx \<le> 1"
  by (simp_all add: checklist_share_def smc_keys_def)

lemma combined_bounds: "0 \<le> combined_score ctx" "combined_score ctx \<le> 1"
  using share_bounds_smc[of ctx] by (auto simp: combined_score_def)

lemma trunc_scaled:
  assumes "n \<ge> 0" "0 \<le> x" "x \<le> 1"
  shows "0 \<le> py_trunc (of_int n * x)" "py_trunc (of_int n * x) \<le> n"
proof -
  have x: "0 \<le> of_int n * x" "of_int n * x \<le> of_int n" using assms by (simp_all add: mult_left_le)
  then have "0 \<le> \<lfloor>of_int n * x\<rfloor>" "\<lfloor>of_int n * x\<rfloor> \<le> n" by (simp_all add: floor_le_iff)
  then show "0 \<le> py_trunc (of_int n * x)" "py_trunc (of_int n * x) \<le> n" using x(1) by (simp_all add: py_trunc_def)
qed

lemma confidence_bounds_smc: "0 \<le> x \<Longrightarrow> x \<le> 1 \<Longrightarrow> 0 \<le> smc_confidence x \<and> smc_confidence x \<le> 90"
  using trunc_scaled[of 90 x] trunc_scaled[of 70 x] trunc_scaled[of 40 x] by (cases "smc_tier_of x") (simp_all add: smc_confidence_def)

text \<open>What the evaluation answers obeys the schema, when the reading of an answer does,
  after at most two questions; and it never goes short without the language model.\<close>

theorem smc_decisions_valid:
  assumes "\<forall>s d. parse s = Some d \<longrightarrow> smc_valid d" "evaluate_smc llm parse rationale ctx = (Some d, asked, fallbacks)"
  shows "smc_valid d \<and> asked \<le> 2 \<and> fallbacks \<le> 1 \<and> (fallbacks = 1 \<longrightarrow> smc_dec_action d \<noteq> Go_Short \<and> smc_dec_confidence d \<le> 90)"
proof (cases "fallbacks = 1")
  case True
  then have fb: "fallback_decision rationale ctx = Some d" "asked = 2"
    using assms(2) by (auto simp: evaluate_smc_def split: option.splits)
  have "smc_dec_checklist d = map (\<lambda>k. (k, if smc_met ctx k then Met else Not_Met, ''fallback'')) smc_keys"
    "smc_dec_confidence d = smc_confidence (combined_score ctx)" "smc_dec_action d \<noteq> Go_Short"
    using fb(1) by (auto simp: fallback_decision_def split: pyval.splits if_splits)
  then show ?thesis
    using True fb(2) confidence_bounds_smc[OF combined_bounds, of ctx] by (auto simp: smc_valid_def)
next
  case False
  then show ?thesis using assms by (auto simp: evaluate_smc_def split: option.splits)
qed

text \<open>Without any context, and without the language model, the setup is strong and goes long with 90.\<close>

theorem fallback_of_nothing:
  "map_option (\<lambda>d. (smc_dec_tier d, smc_dec_action d, smc_dec_confidence d)) (fallback_decision rationale []) = Some (Strong, Go_Long, 90)"
  by (simp add: fallback_decision_def combined_score_def checklist_share_def smc_met_def smc_keys_def dget_def
      smc_confidence_def smc_tier_of_def py_trunc_def)

theorem smc_decisions_valid_witness: "smc_valid (the (fallback_decision (\<lambda>_. []) []))"
proof -
  have "fallback_decision (\<lambda>_. []) [] \<noteq> None" by (simp add: fallback_decision_def dget_def)
  then have "evaluate_smc (\<lambda>_. Some ''?'') (\<lambda>_. None) (\<lambda>_. []) [] = (Some (the (fallback_decision (\<lambda>_. []) [])), 2, 1)"
    by (auto simp: evaluate_smc_def)
  from smc_decisions_valid[OF _ this] show ?thesis by simp
qed

end
