(* ===== verification/Release_Tag.thy ===== *)
theory Release_Tag
  imports Orch_Decision "HOL-Library.Sublist"
begin

text \<open>
  \<open>tools/release/tag_release.py\<close>: the script that tags a release and pushes the tag, with its checks.

  Git is a parameter: a command gives an exit code, a text and a new state of the repository and its
  remotes (a command that cannot be run or takes too long gives code 1 in the code, and so it does here).
  The commands that were run are kept in a log. Printing, colours and the message of the tag are left
  out.
\<close>

record 's tagger =
  tg_git :: "string list \<Rightarrow> 's \<Rightarrow> int \<times> string \<times> 's"
  tg_tag :: string
  tg_remote :: string
  tg_dry_run :: bool

type_synonym 's tag_state = "'s \<times> string list list"

definition run_cmd :: "'s tagger \<Rightarrow> bool \<Rightarrow> string list \<Rightarrow> 's tag_state \<Rightarrow> (int \<times> string) \<times> 's tag_state" where
  "run_cmd t capture cmd st =
     (if tg_dry_run t then ((0, []), st)
      else (let (code, out, s) = tg_git t cmd (fst st) in ((code, if capture then py_strip out else []), (s, snd st @ [cmd]))))"

definition check_git_repo :: "'s tagger \<Rightarrow> 's tag_state \<Rightarrow> bool \<times> 's tag_state" where
  "check_git_repo t st = (let ((code, _), st) = run_cmd t True [''git'', ''rev-parse'', ''--git-dir''] st in (code = 0, st))"

definition check_uncommitted_changes :: "'s tagger \<Rightarrow> 's tag_state \<Rightarrow> bool \<times> 's tag_state" where
  "check_uncommitted_changes t st =
     (let ((code, _), st) = run_cmd t True [''git'', ''diff-index'', ''--tag_quiet'', ''HEAD'', ''--''] st in (code = 0, st))"

text \<open>The branch and the full hash of the commit.\<close>

definition get_current_state :: "'s tagger \<Rightarrow> 's tag_state \<Rightarrow> (string \<times> string) option \<times> 's tag_state" where
  "get_current_state t st =
     (let ((c1, branch), st) = run_cmd t True [''git'', ''rev-parse'', ''--abbrev-ref'', ''HEAD''] st in
      if c1 \<noteq> 0 then (None, st)
      else (let ((c2, _), st) = run_cmd t True [''git'', ''rev-parse'', ''--short'', ''HEAD''] st in
            if c2 \<noteq> 0 then (None, st)
            else (let ((c3, commit), st) = run_cmd t True [''git'', ''rev-parse'', ''HEAD''] st in
                  if c3 \<noteq> 0 then (None, st) else (Some (branch, commit), st))))"

definition tag_exists_locally :: "'s tagger \<Rightarrow> 's tag_state \<Rightarrow> bool \<times> 's tag_state" where
  "tag_exists_locally t st = (let ((code, _), st) = run_cmd t True [''git'', ''rev-parse'', tg_tag t] st in (code = 0, st))"

definition ls_remote :: "'s tagger \<Rightarrow> string list" where
  "ls_remote t = [''git'', ''ls-remote'', ''--tags'', tg_remote t, tg_tag t]"

definition tag_exists_remotely :: "'s tagger \<Rightarrow> 's tag_state \<Rightarrow> bool \<times> 's tag_state" where
  "tag_exists_remotely t st =
     (let ((code, out), st) = run_cmd t True (ls_remote t) st in (code = 0 \<and> sublist (tg_tag t) out, st))"

definition get_tag_commit :: "'s tagger \<Rightarrow> 's tag_state \<Rightarrow> string option \<times> 's tag_state" where
  "get_tag_commit t st =
     (let ((code, commit), st) = run_cmd t True [''git'', ''rev-list'', ''-n'', ''1'', tg_tag t] st in
      (if code = 0 then Some commit else None, st))"

definition get_remote_url :: "'s tagger \<Rightarrow> 's tag_state \<Rightarrow> string option \<times> 's tag_state" where
  "get_remote_url t st =
     (let ((code, url), st) = run_cmd t True [''git'', ''config'', ''--get'', ''remote.'' @ tg_remote t @ ''.url''] st in
      (if code = 0 then Some url else None, st))"

definition tag_command :: "'s tagger \<Rightarrow> string list" where
  "tag_command t = [''git'', ''tag'', ''-a'', tg_tag t, ''-m'']"

definition push_command :: "'s tagger \<Rightarrow> string list" where
  "push_command t = [''git'', ''push'', tg_remote t, tg_tag t]"

definition create_tag :: "'s tagger \<Rightarrow> 's tag_state \<Rightarrow> bool \<times> 's tag_state" where
  "create_tag t st =
     (let (there, st) = tag_exists_locally t st in
      if there then (True, st)
      else (let ((code, _), st) = run_cmd t False (tag_command t) st in (code = 0, st)))"

definition push_tag :: "'s tagger \<Rightarrow> 's tag_state \<Rightarrow> bool \<times> 's tag_state" where
  "push_tag t st = (let ((code, _), st) = run_cmd t False (push_command t) st in (code = 0, st))"

definition verify_tag :: "'s tagger \<Rightarrow> 's tag_state \<Rightarrow> bool \<times> 's tag_state" where
  "verify_tag t st =
     (let (there, st) = tag_exists_remotely t st in
      if \<not> there then (False, st) else (True, snd (run_cmd t True (ls_remote t) st)))"

definition validate_tag_state :: "'s tagger \<Rightarrow> string \<Rightarrow> 's tag_state \<Rightarrow> bool \<times> 's tag_state" where
  "validate_tag_state t head st =
     (let (there, st) = tag_exists_locally t st in
      if \<not> there then (True, st)
      else (let (commit, st) = get_tag_commit t st in
            if commit \<noteq> Some head then (False, st) else (True, snd (tag_exists_remotely t st))))"

text \<open>From the question to the end: creating, pushing and verifying.\<close>

definition tag_and_push :: "'s tagger \<Rightarrow> 's tag_state \<Rightarrow> bool \<times> 's tag_state" where
  "tag_and_push t st =
     (let (created, st) = create_tag t st in
      if \<not> created then (False, st)
      else (let (pushed, st) = push_tag t st in if \<not> pushed then (False, st) else verify_tag t st))"

definition execute_tagging :: "'s tagger \<Rightarrow> string \<Rightarrow> 's tag_state \<Rightarrow> bool \<times> 's tag_state" where
  "execute_tagging t answer st =
     (let (repo, st) = check_git_repo t st in
      if \<not> repo then (False, st)
      else (let (clean, st) = check_uncommitted_changes t st in
      if \<not> clean then (False, st)
      else (let (cur, st) = get_current_state t st in
      case cur of
        None \<Rightarrow> (False, st)
      | Some (_, head) \<Rightarrow>
         (let (valid, st) = validate_tag_state t head st in
          if \<not> valid then (False, st)
          else (let (_, st) = get_remote_url t st in
                if \<not> tg_dry_run t \<and> py_lower answer \<noteq> ''y'' then (False, st)
                else tag_and_push t st)))))"

section \<open>Properties\<close>

lemma dry_cmd [simp]: "tg_dry_run t \<Longrightarrow> run_cmd t b cmd st = ((0, []), st)"
  by (simp add: run_cmd_def)

lemmas tag_steps = check_git_repo_def check_uncommitted_changes_def get_current_state_def tag_exists_locally_def
  tag_exists_remotely_def get_tag_commit_def get_remote_url_def create_tag_def push_tag_def verify_tag_def validate_tag_state_def

text \<open>A dry run runs nothing, and always ends as a failure: the tag that was not pushed is looked for in the
  empty answer of a command that was not run.\<close>

theorem dry_run_fails:
  assumes "tg_dry_run t" "tg_tag t \<noteq> []"
  shows "execute_tagging t answer st = (False, st)"
  using assms by (simp add: execute_tagging_def tag_and_push_def tag_steps)

text \<open>The commands that change something: all others only ask.\<close>

definition tag_changing :: "'s tagger \<Rightarrow> string list \<Rightarrow> bool" where
  "tag_changing t cmd \<longleftrightarrow> cmd = tag_command t \<or> cmd = push_command t"

definition tag_quiet :: "'s tagger \<Rightarrow> 's tag_state \<Rightarrow> 's tag_state \<Rightarrow> bool" where
  "tag_quiet t st st' \<longleftrightarrow> filter (tag_changing t) (snd st') = filter (tag_changing t) (snd st)"

lemma quiet_trans: "tag_quiet t a b \<Longrightarrow> tag_quiet t b c \<Longrightarrow> tag_quiet t a c"
  by (simp add: tag_quiet_def)

lemma quiet_cmd: "\<not> tag_changing t cmd \<Longrightarrow> tag_quiet t st (snd (run_cmd t b cmd st))"
  by (simp add: tag_quiet_def run_cmd_def split: prod.split)

lemma quiet_run: "run_cmd t b cmd st = (r, st') \<Longrightarrow> \<not> tag_changing t cmd \<Longrightarrow> tag_quiet t st st'"
  using quiet_cmd[of t cmd st b] by simp

lemma asking: "\<not> tag_changing t (''git'' # ''rev-parse'' # xs)" "\<not> tag_changing t (''git'' # ''diff-index'' # xs)" "\<not> tag_changing t (''git'' # ''config'' # xs)"
  "\<not> tag_changing t (''git'' # ''rev-list'' # xs)" "\<not> tag_changing t (ls_remote t)"
  by (simp_all add: tag_changing_def tag_command_def push_command_def ls_remote_def)

lemma quiet_steps:
  "check_git_repo t st = (a, st') \<Longrightarrow> tag_quiet t st st'"
  "check_uncommitted_changes t st = (a, st') \<Longrightarrow> tag_quiet t st st'"
  "get_current_state t st = (b, st') \<Longrightarrow> tag_quiet t st st'"
  "tag_exists_locally t st = (a, st') \<Longrightarrow> tag_quiet t st st'"
  "tag_exists_remotely t st = (a, st') \<Longrightarrow> tag_quiet t st st'"
  "get_tag_commit t st = (c, st') \<Longrightarrow> tag_quiet t st st'"
  "get_remote_url t st = (c, st') \<Longrightarrow> tag_quiet t st st'"
  unfolding tag_steps
  by (auto simp: Let_def split: prod.splits if_splits dest!: quiet_run simp: asking intro: quiet_trans)

definition tag_ran :: "'s tagger \<Rightarrow> 's tag_state \<Rightarrow> 's tag_state \<Rightarrow> string list list \<Rightarrow> bool" where
  "tag_ran t st st' cs \<longleftrightarrow> filter (tag_changing t) (snd st') = filter (tag_changing t) (snd st) @ cs"

lemma changed_quiet: "tag_quiet t a b \<Longrightarrow> tag_ran t b c cs \<Longrightarrow> tag_ran t a c cs" "tag_ran t a b cs \<Longrightarrow> tag_quiet t b c \<Longrightarrow> tag_ran t a c cs"
  "tag_quiet t a b \<Longrightarrow> tag_ran t a b []"
  by (simp_all add: tag_ran_def tag_quiet_def)

lemma changed_trans: "tag_ran t a b cs \<Longrightarrow> tag_ran t b c ds \<Longrightarrow> tag_ran t a c (cs @ ds)"
  by (simp add: tag_ran_def)

lemma changed_run: "run_cmd t b cmd st = (r, st') \<Longrightarrow> tag_changing t cmd \<Longrightarrow> tag_ran t st st' (if tg_dry_run t then [] else [cmd])"
  by (auto simp: tag_ran_def run_cmd_def split: prod.splits if_splits)

lemma create_changed:
  assumes "create_tag t st = (a, st')"
  shows "tag_ran t st st' [] \<or> tag_ran t st st' [tag_command t]"
proof -
  obtain there st1 where there: "tag_exists_locally t st = (there, st1)" by (cases "tag_exists_locally t st") auto
  note q = quiet_steps(4)[OF there]
  show ?thesis
  proof (cases there)
    case True
    then show ?thesis using assms there q changed_quiet(3)[OF q] by (simp add: create_tag_def)
  next
    case False
    obtain r st2 where r: "run_cmd t False (tag_command t) st1 = (r, st2)" by (cases "run_cmd t False (tag_command t) st1") auto
    then have "st' = st2" using assms there False by (cases r) (simp add: create_tag_def)
    then show ?thesis using changed_quiet(1)[OF q changed_run[OF r]] by (auto simp: tag_changing_def split: if_splits)
  qed
qed

lemma push_changed:
  assumes "push_tag t st = (a, st')"
  shows "tag_ran t st st' [] \<or> tag_ran t st st' [push_command t]"
proof -
  obtain r st2 where r: "run_cmd t False (push_command t) st = (r, st2)" by (cases "run_cmd t False (push_command t) st") auto
  then have "st' = st2" using assms by (cases r) (simp add: push_tag_def)
  then show ?thesis using changed_run[OF r] by (auto simp: tag_changing_def split: if_splits)
qed

lemma verify_quiet: "verify_tag t st = (a, st') \<Longrightarrow> tag_quiet t st st'"
  unfolding verify_tag_def
  by (auto split: prod.splits if_splits dest!: quiet_steps(5) intro: quiet_trans[OF _ quiet_cmd[OF asking(5)]] simp del: dry_cmd)

lemma quiet_remote: "tag_quiet t st (snd (tag_exists_remotely t st))"
  by (rule quiet_steps(5)[OF prod.collapse[symmetric]])

lemma validate_quiet:
  assumes "validate_tag_state t head st = (a, st')"
  shows "tag_quiet t st st'"
proof -
  obtain there s1 where 1: "tag_exists_locally t st = (there, s1)" by (cases "tag_exists_locally t st") auto
  obtain commit s2 where 2: "get_tag_commit t s1 = (commit, s2)" by (cases "get_tag_commit t s1") auto
  have "st' = (if \<not> there then s1 else if commit \<noteq> Some head then s2 else snd (tag_exists_remotely t s2))"
    using assms by (auto simp: validate_tag_state_def 1 2 split: if_splits)
  moreover note quiet_steps(4)[OF 1]
  moreover note quiet_trans[OF quiet_steps(4)[OF 1] quiet_steps(6)[OF 2]]
  moreover note quiet_trans[OF quiet_trans[OF quiet_steps(4)[OF 1] quiet_steps(6)[OF 2]] quiet_remote]
  ultimately show ?thesis by auto
qed

definition tag_changes :: "'s tagger \<Rightarrow> string list list set" where
  "tag_changes t = {[], [tag_command t], [push_command t], [tag_command t, push_command t]}"

lemma tag_and_push_changed:
  assumes "tag_and_push t st = (a, st')"
  shows "\<exists>cs\<in>tag_changes t. tag_ran t st st' cs"
proof -
  obtain created st1 where c: "create_tag t st = (created, st1)" by (cases "create_tag t st") auto
  obtain cs where cs: "tag_ran t st st1 cs" "cs \<in> {[], [tag_command t]}" using create_changed[OF c] by blast
  show ?thesis
  proof (cases created)
    case False
    then show ?thesis using assms c cs by (auto simp: tag_and_push_def tag_changes_def)
  next
    case True
    obtain pushed st2 where p: "push_tag t st1 = (pushed, st2)" by (cases "push_tag t st1") auto
    obtain ps where ps: "tag_ran t st1 st2 ps" "ps \<in> {[], [push_command t]}" using push_changed[OF p] by blast
    have both: "tag_ran t st st2 (cs @ ps)" "cs @ ps \<in> tag_changes t"
      using changed_trans[OF cs(1) ps(1)] cs(2) ps(2) by (auto simp: tag_changes_def)
    show ?thesis
    proof (cases pushed)
      case True
      then have "verify_tag t st2 = (a, st')" using assms c p \<open>created\<close> by (simp add: tag_and_push_def)
      then show ?thesis using changed_quiet(2)[OF both(1) verify_quiet] both(2) by blast
    next
      case False
      then show ?thesis using assms c p \<open>created\<close> both by (auto simp: tag_and_push_def)
    qed
  qed
qed

lemma dry_keeps: "tg_dry_run t \<Longrightarrow> snd (execute_tagging t answer st) = st"
  by (simp add: execute_tagging_def tag_and_push_def tag_steps)

text \<open>Whatever git answers, the script runs at most one command that creates the tag and at most one
  that pushes it, in this order and without force; and none without the answer yes or in a dry run.\<close>

theorem tagging_safe:
  "\<exists>cs\<in>(if py_lower answer = ''y'' \<and> \<not> tg_dry_run t then tag_changes t else {[]}).
     filter (tag_changing t) (snd (snd (execute_tagging t answer st))) = filter (tag_changing t) (snd st) @ cs"
proof (cases "tg_dry_run t")
  case False
  let ?C = "if py_lower answer = ''y'' then tag_changes t else {[]}"
  have none: "[] \<in> ?C" by (simp add: tag_changes_def)
  obtain a1 s1 where 1: "check_git_repo t st = (a1, s1)" by (cases "check_git_repo t st") auto
  obtain a2 s2 where 2: "check_uncommitted_changes t s1 = (a2, s2)" by (cases "check_uncommitted_changes t s1") auto
  obtain a3 s3 where 3: "get_current_state t s2 = (a3, s3)" by (cases "get_current_state t s2") auto
  note q1 = quiet_steps(1)[OF 1]
  note q2 = quiet_trans[OF q1 quiet_steps(2)[OF 2]]
  note q3 = quiet_trans[OF q2 quiet_steps(3)[OF 3]]
  have "\<exists>cs\<in>?C. tag_ran t st (snd (execute_tagging t answer st)) cs"
  proof (cases "a1 \<and> a2 \<and> a3 \<noteq> None")
    case True
    then obtain b head where a3: "a3 = Some (b, head)" by auto
    obtain a4 s4 where 4: "validate_tag_state t head s3 = (a4, s4)" by (cases "validate_tag_state t head s3") auto
    obtain a5 s5 where 5: "get_remote_url t s4 = (a5, s5)" by (cases "get_remote_url t s4") auto
    note q4 = quiet_trans[OF q3 validate_quiet[OF 4]]
    note q5 = quiet_trans[OF q4 quiet_steps(7)[OF 5]]
    obtain r s6 where 6: "tag_and_push t s5 = (r, s6)" by (cases "tag_and_push t s5") auto
    have "snd (execute_tagging t answer st) = (if \<not> a4 then s4 else if py_lower answer \<noteq> ''y'' then s5 else s6)"
      using True a3 False by (simp add: execute_tagging_def 1 2 3 4 5 6)
    moreover obtain cs where "cs \<in> tag_changes t" "tag_ran t st s6 cs" using tag_and_push_changed[OF 6] changed_quiet(1)[OF q5] by blast
    ultimately show ?thesis using changed_quiet(3)[OF q4] changed_quiet(3)[OF q5] none by (auto split: if_splits)
  next
    case False
    then have "snd (execute_tagging t answer st) = (if \<not> a1 then s1 else if \<not> a2 then s2 else s3)"
      by (cases a3) (auto simp: execute_tagging_def 1 2 3)
    then show ?thesis using changed_quiet(3)[OF q1] changed_quiet(3)[OF q2] changed_quiet(3)[OF q3] none by auto
  qed
  then show ?thesis using False unfolding tag_ran_def by simp
next
  case True
  then show ?thesis by (simp add: dry_keeps)
qed

end
