(* ===== verification/Orch_Redis.thy ===== *)
theory Orch_Redis
  imports Orch_Dlq Orch_Events Notifiers Orchestration
begin

text \<open>
  The orchestrator with Redis (\<open>reasoner_service/orchestrator.py\<close>): the connection with its backoff and its
  circuit breaker, the Redis operation of \<open>utils/redis_wrapper.py\<close> over it, the dead letter queue kept in
  Redis with its retry, the consumer of a queue of decisions, and the administration of the dead letters
  (\<open>reasoner_service/admin.py\<close>).

  Parameters: the answers of Redis to pings and commands, the clock at each step, the outcomes of the
  insertions. A text in the Redis queue is the entry that \<open>json.loads\<close> reads from it, \<open>None\<close> when it reads
  none. Metrics and logs are left out.
\<close>

section \<open>The connection\<close>

record reconnect_config =
  rk_max_attempts :: int
  rk_base_delay :: rat
  rk_max_delay :: rat
  rk_jitter_ms :: int
  rk_cooldown :: rat

definition default_reconnect :: reconnect_config where
  "default_reconnect = \<lparr>rk_max_attempts = 5, rk_base_delay = 1/2, rk_max_delay = 10, rk_jitter_ms = 250, rk_cooldown = 60\<rparr>"

text \<open>What making a client and pinging it gives: an answer that counts as true, one that does not, an
  exception of the ping, an exception of making the client.\<close>

datatype ping = Pong | Falsy_Pong | Ping_Raises | Client_Raises

record redis_link =
  ln_connected :: bool
  ln_failures :: nat
  ln_open_until :: rat

definition reconnect_delay :: "reconnect_config \<Rightarrow> rat \<Rightarrow> nat \<Rightarrow> rat" where
  "reconnect_delay cfg now attempts =
     (let delay = min (rk_max_delay cfg) (rk_base_delay cfg * 2 ^ (attempts - 1));
          jitter = of_int (rk_jitter_ms cfg) / 1000 * (1/2 - frac now)
      in max 0 (delay + jitter))"

text \<open>The loop: connected or given up, the number of the next step, the link and the delays slept. A ping whose
  answer counts as false is repeated at once and is no attempt, so the loop may not end.\<close>

partial_function (option) reconnect_loop ::
    "reconnect_config \<Rightarrow> (nat \<Rightarrow> ping) \<Rightarrow> (nat \<Rightarrow> rat) \<Rightarrow> nat \<Rightarrow> nat \<Rightarrow> redis_link \<Rightarrow> rat list \<Rightarrow> (bool \<times> nat \<times> redis_link \<times> rat list) option" where
  "reconnect_loop cfg ping clock i attempts l slept =
     (if int attempts \<ge> rk_max_attempts cfg then Some (False, i, l, slept)
      else case ping i of
             Pong \<Rightarrow> Some (True, i, \<lparr>ln_connected = True, ln_failures = 0, ln_open_until = 0\<rparr>, slept)
           | Falsy_Pong \<Rightarrow> reconnect_loop cfg ping clock (i + 1) attempts (l\<lparr>ln_connected := True\<rparr>) slept
           | Ping_Raises \<Rightarrow>
               reconnect_loop cfg ping clock (i + 1) (attempts + 1) (l\<lparr>ln_connected := False, ln_failures := ln_failures l + 1\<rparr>)
                 (slept @ [reconnect_delay cfg (clock i) (attempts + 1)])
           | Client_Raises \<Rightarrow>
               reconnect_loop cfg ping clock (i + 1) (attempts + 1) (l\<lparr>ln_failures := ln_failures l + 1\<rparr>)
                 (slept @ [reconnect_delay cfg (clock i) (attempts + 1)]))"

text \<open>\<open>_ensure_redis\<close>, with the Redis module installed or not; \<open>now\<close> is the first reading of the clock.\<close>

definition link_ensure ::
    "bool \<Rightarrow> reconnect_config \<Rightarrow> (nat \<Rightarrow> ping) \<Rightarrow> rat \<Rightarrow> (nat \<Rightarrow> rat) \<Rightarrow> redis_link \<Rightarrow> redis_link option" where
  "link_ensure installed cfg ping now clock l =
     (if \<not> installed then Some (l\<lparr>ln_connected := False\<rparr>)
      else if ln_open_until l \<noteq> 0 \<and> now < ln_open_until l then Some (l\<lparr>ln_connected := False\<rparr>)
      else case reconnect_loop cfg ping clock 0 0 l [] of
             None \<Rightarrow> None
           | Some (True, _, l', _) \<Rightarrow> Some l'
           | Some (False, i, l', _) \<Rightarrow> Some (l'\<lparr>ln_connected := False, ln_open_until := clock i + rk_cooldown cfg\<rparr>))"

section \<open>An operation\<close>

text \<open>\<open>redis_op\<close> on the link: attempt \<open>i\<close> answers a value or the text of its exception, \<open>ens\<close> is \<open>_ensure_redis\<close>.\<close>

fun link_attempts ::
    "(nat \<Rightarrow> string + 'v) \<Rightarrow> (redis_link \<Rightarrow> redis_link option) \<Rightarrow> nat \<Rightarrow> nat \<Rightarrow> redis_link \<Rightarrow> ('v redis_answer \<times> redis_link) option" where
  "link_attempts op ens i retries l =
     (case op i of
        Inr v \<Rightarrow> Some (Redis_Value v, l)
      | Inl err \<Rightarrow>
          (case retries of
             0 \<Rightarrow> Some (Redis_Op_Failed err, l)
           | Suc n \<Rightarrow>
              (case ens l of
                 None \<Rightarrow> None
               | Some l' \<Rightarrow>
                   (if \<not> ln_connected l' then Some (Redis_Unavailable ''redis unavailable after reconnect'', l')
                    else link_attempts op ens (i + 1) n l'))))"

declare link_attempts.simps [simp del]

definition link_op ::
    "(nat \<Rightarrow> string + 'v) \<Rightarrow> (redis_link \<Rightarrow> redis_link option) \<Rightarrow> nat \<Rightarrow> redis_link \<Rightarrow> ('v redis_answer \<times> redis_link) option" where
  "link_op op ens retries l =
     (if ln_open_until l > 0 then Some (Redis_Unavailable ''redis circuit open'', l)
      else if ln_connected l then link_attempts op ens 0 retries l
      else case ens l of
             None \<Rightarrow> None
           | Some l' \<Rightarrow>
               (if \<not> ln_connected l' then Some (Redis_Unavailable ''no redis available after ensure'', l')
                else link_attempts op ens 0 retries l'))"

section \<open>The dead letters in Redis\<close>

record letters =
  lt_orch :: orchestrator
  lt_queue :: "dlq_entry option list"
  lt_inserted :: "pydict list"

text \<open>\<open>push\<close> tells whether the command succeeds.\<close>

definition publish_letter :: "bool \<Rightarrow> bool \<Rightarrow> int \<Rightarrow> pydict \<Rightarrow> letters \<Rightarrow> letters" where
  "publish_letter redis push now payload st =
     (if redis \<and> push
      then st\<lparr>lt_queue := lt_queue st @ [Some \<lparr>dl_ref = 0, dl_decision = payload, dl_error = ''published_via_adapter'', dl_ts = now,
                dl_attempts = 0, dl_next_attempt_ts = 0\<rparr>]\<rparr>
      else st\<lparr>lt_orch := publish_to_dlq now payload (lt_orch st)\<rparr>)"

text \<open>The retry of one popped text. What is not due, unreadable or stored is gone; what fails is pushed back,
  also after the last attempt.\<close>

definition retry_popped :: "dlq_config \<Rightarrow> rat \<Rightarrow> string option \<Rightarrow> bool \<Rightarrow> letters \<Rightarrow> letters" where
  "retry_popped c now res push st =
     (case lt_queue st of
        [] \<Rightarrow> st
      | None # q \<Rightarrow> st\<lparr>lt_queue := q\<rparr>
      | Some e # q \<Rightarrow>
          (if \<not> is_due now e then st\<lparr>lt_queue := q\<rparr>
           else case res of
                  None \<Rightarrow> st\<lparr>lt_queue := q, lt_inserted := lt_inserted st @ [dl_decision e]\<rparr>
                | Some err \<Rightarrow> st\<lparr>lt_queue := (if push then q @ [Some (failed_entry c now err e)] else q)\<rparr>))"

text \<open>An entry of the memory, which is looked at when the pop raises or Redis is not used. While a client is
  there, the list in memory is left alone: what is stored stays, what fails is pushed to Redis.\<close>

definition retry_in_memory ::
    "dlq_config \<Rightarrow> rat \<Rightarrow> bool \<Rightarrow> string option \<Rightarrow> bool \<Rightarrow> nat \<Rightarrow> (nat list \<times> heap) \<times> dlq_entry option list \<times> pydict list \<Rightarrow>
     (nat list \<times> heap) \<times> dlq_entry option list \<times> pydict list" where
  "retry_in_memory c now linked res push r st =
     (let ((rs, h), q, ins) = st; e = heap_at h r in
      if \<not> is_due now e then st
      else case res of
             None \<Rightarrow> ((if linked then (rs, h) else retry_entry c now None r (rs, h)), q, ins @ [dl_decision e])
           | Some err \<Rightarrow>
               (if linked
                then ((rs, AList.update r (failed_entry c now err e) h),
                      (if push then q @ [Some (failed_entry c now err e)] else q), ins)
                else (retry_entry c now (Some err) r (rs, h), q, ins)))"

fun retry_all_in_memory ::
    "dlq_config \<Rightarrow> rat \<Rightarrow> (nat \<Rightarrow> bool) \<Rightarrow> (nat \<Rightarrow> string option) \<Rightarrow> (nat \<Rightarrow> bool) \<Rightarrow> nat \<Rightarrow> nat list \<Rightarrow>
     (nat list \<times> heap) \<times> dlq_entry option list \<times> pydict list \<Rightarrow> (nat list \<times> heap) \<times> dlq_entry option list \<times> pydict list" where
  "retry_all_in_memory c now linked res push i [] st = st"
| "retry_all_in_memory c now linked res push i (r # rs) st =
     retry_all_in_memory c now linked res push (Suc i) rs (retry_in_memory c now (linked i) (res i) (push i) r st)"

definition retry_memory ::
    "dlq_config \<Rightarrow> rat \<Rightarrow> (nat \<Rightarrow> bool) \<Rightarrow> (nat \<Rightarrow> string option) \<Rightarrow> (nat \<Rightarrow> bool) \<Rightarrow> letters \<Rightarrow> letters" where
  "retry_memory c now linked res push st =
     (let mem = oc_persist_dlq (lt_orch st); refs = map dl_ref mem;
          ((rs, h), q, ins) = retry_all_in_memory c now linked res push 0 refs
            ((refs, map (\<lambda>e. (dl_ref e, e)) mem), lt_queue st, lt_inserted st)
      in st\<lparr>lt_orch := (lt_orch st)\<lparr>oc_persist_dlq := map (heap_at h) rs\<rparr>, lt_queue := q, lt_inserted := ins\<rparr>)"

text \<open>What the code sees of Redis during one retry: whether there is a client at the start, whether the pop works,
  and for each entry whether there is a client, how the insertion ends and whether the push works.\<close>

record retry_env =
  rv_client :: bool
  rv_pops :: bool
  rv_linked :: "nat \<Rightarrow> bool"
  rv_insert :: "nat \<Rightarrow> string option"
  rv_push :: "nat \<Rightarrow> bool"

definition retry_letters :: "dlq_config \<Rightarrow> rat \<Rightarrow> retry_env \<Rightarrow> letters \<Rightarrow> letters" where
  "retry_letters c now env st =
     (if rv_client env \<and> rv_pops env then retry_popped c now (rv_insert env 0) (rv_push env 0) st
      else retry_memory c now (if rv_client env then rv_linked env else (\<lambda>_. False)) (rv_insert env) (rv_push env) st)"

text \<open>\<open>_dlq_retry_loop\<close>: one retry after the other.\<close>

definition retry_loop :: "dlq_config \<Rightarrow> (rat \<times> retry_env) list \<Rightarrow> letters \<Rightarrow> letters" where
  "retry_loop c polls st = fold (\<lambda>(now, env). retry_letters c now env) polls st"

section \<open>Administration\<close>

datatype 'a admin_answer = Not_Bound | Unauthorized | Server_Error | Admin_Ok 'a

definition admin_allowed :: "string \<Rightarrow> string option \<Rightarrow> bool" where
  "admin_allowed token header \<longleftrightarrow> token = [] \<or> header = Some token"

text \<open>\<open>LRANGE key 0 stop\<close>.\<close>

definition lrange_from_start :: "int \<Rightarrow> 'a list \<Rightarrow> 'a list" where
  "lrange_from_start stop xs =
     (let last = (if stop < 0 then int (length xs) + stop else stop) in take (nat (last + 1)) xs)"

definition dlq_list :: "bool \<Rightarrow> bool \<Rightarrow> bool \<Rightarrow> int \<Rightarrow> letters \<Rightarrow> (nat \<times> dlq_entry option list) admin_answer" where
  "dlq_list bound client ok max_items st =
     (if \<not> bound then Not_Bound
      else if client then
        (if \<not> ok then Server_Error
         else (let items = lrange_from_start (max_items - 1) (lt_queue st) in Admin_Ok (length items, items)))
      else (let items = map Some (slice_to max_items (oc_persist_dlq (lt_orch st))) in Admin_Ok (length items, items)))"

definition dlq_requeue_all :: "bool \<Rightarrow> bool \<Rightarrow> string \<Rightarrow> string option \<Rightarrow> letters \<Rightarrow> nat admin_answer \<times> letters" where
  "dlq_requeue_all bound client token header st =
     (if \<not> bound then (Not_Bound, st)
      else if \<not> admin_allowed token header then (Unauthorized, st)
      else if client then (Admin_Ok 0, st)
      else (let mem = oc_persist_dlq (lt_orch st) in
            (Admin_Ok (length mem), st\<lparr>lt_orch := (lt_orch st)\<lparr>oc_persist_dlq := mem @ mem\<rparr>\<rparr>)))"

definition dlq_flush :: "bool \<Rightarrow> bool \<Rightarrow> bool \<Rightarrow> string \<Rightarrow> string option \<Rightarrow> letters \<Rightarrow> unit admin_answer \<times> letters" where
  "dlq_flush bound client ok token header st =
     (if \<not> bound then (Not_Bound, st)
      else if \<not> admin_allowed token header then (Unauthorized, st)
      else if client then (if ok then (Admin_Ok (), st\<lparr>lt_queue := []\<rparr>) else (Server_Error, st))
      else (Admin_Ok (), st\<lparr>lt_orch := (lt_orch st)\<lparr>oc_persist_dlq := []\<rparr>\<rparr>))"

section \<open>The consumer of a queue of decisions\<close>

text \<open>The plan and the context of an item are kept beside its dictionary; without a context that counts as true
  the consumer makes one. Nothing here makes the plan executor raise, so the handler that
  publishes the item is not reached.\<close>

record queue_item =
  qi_decision :: pydict
  qi_plan :: "plan_arg option"
  qi_context :: "ctx_arg option"
  qi_now :: time

definition made_context :: "exec_context \<Rightarrow> ctx_arg" where
  "made_context any = CtxKwargs [''signal'', ''decision'', ''corr_id''] any"

definition consume_item ::
    "decision_env \<Rightarrow> bool \<Rightarrow> (plan_result \<Rightarrow> pydict) \<Rightarrow> exec_context \<Rightarrow> queue_item \<Rightarrow> orchestrator \<Rightarrow> decision_result option \<times> orchestrator" where
  "consume_item env enabled plan_json any it o1 =
     (let l = de_libs env; now = qi_now it;
          (_, d, o2) = pre_reasoning_policy_check l (ms_of now) (qi_decision it) o1;
          (d', o3) = (case qi_plan it of
                        None \<Rightarrow> (d, o2)
                      | Some plan \<Rightarrow>
                          (let r = execute_plan_if_enabled enabled (ms_of now) plan
                                     (case qi_context it of None \<Rightarrow> made_context any | Some ctx \<Rightarrow> ctx);
                               res = (case r of None \<Rightarrow> [] | Some x \<Rightarrow> plan_json x)
                           in (AList.update ''_plan_result'' (VDict res) d, snd (post_reasoning_policy_check l (ms_of now) res o2))))
      in process_decision env now d' True None o3)"

text \<open>All items, with the number of acknowledged ones.\<close>

definition run_from_queue ::
    "decision_env \<Rightarrow> bool \<Rightarrow> (plan_result \<Rightarrow> pydict) \<Rightarrow> exec_context \<Rightarrow> queue_item list \<Rightarrow> orchestrator \<Rightarrow> nat \<times> orchestrator" where
  "run_from_queue env enabled plan_json any items o1 =
     fold (\<lambda>it (n, o2). (n + 1, snd (consume_item env enabled plan_json any it o2))) items (0, o1)"

section \<open>Helpers of the events\<close>

text \<open>The filter of the advisory signals with its verdicts as dictionaries, and the metrics.\<close>

definition policy_decision_dict :: "policy_decision \<Rightarrow> pydict" where
  "policy_decision_dict d =
     [(''policy'', VStr (pd_policy_name d)), (''decision'', VStr (pd_decision d)), (''reason'', opt_str (pd_reason d)),
      (''signals_filtered'', VInt (pd_signals_filtered d)), (''timestamp_ms'', VInt (pd_timestamp_ms d))]"

definition apply_signal_filters ::
    "bool \<Rightarrow> (py_error + signal_policy option) \<Rightarrow> int \<Rightarrow> signal list \<Rightarrow> string \<Rightarrow> signal list \<times> pydict list" where
  "apply_signal_filters has_store answer now signals ty =
     (let (kept, ds) = apply_policies has_store answer now signals ty in (kept, map policy_decision_dict ds))"

definition record_event_metrics :: "string \<Rightarrow> int \<Rightarrow> int \<Rightarrow> orchestration_state \<Rightarrow> orchestration_state" where
  "record_event_metrics status processing_ms reasoning_ms s =
     (let s' = record_event_processing status processing_ms s in
      if reasoning_ms > 0 then record_reasoning_call (status = ''accepted'') reasoning_ms 0 s' else s')"

definition get_orchestration_metrics :: "orchestration_state \<Rightarrow> pydict" where
  "get_orchestration_metrics s =
     [(''orchestration'', VDict (get_orchestration_stats s)), (''reasoning'', VDict (get_reasoning_stats s))]"

end
