(* ===== verification/Orch_Redis_Props.thy ===== *)
theory Orch_Redis_Props
  imports Orch_Redis Orch_Props
begin

text \<open>
  The orchestrator with Redis: when a reconnection returns and what it leaves, the circuit breaker over a run
  of operations, what happens to dead letters in Redis and in memory, and the consumer of a queue.
\<close>

section \<open>Reconnecting\<close>

lemma reconnect_raises:
  assumes "ping i \<in> {Ping_Raises, Client_Raises}" "int a < rk_max_attempts cfg"
  obtains l' where "reconnect_loop cfg ping clock i a l s =
    reconnect_loop cfg ping clock (Suc i) (Suc a) l' (s @ [reconnect_delay cfg (clock i) (Suc a)])"
proof (cases "ping i = Ping_Raises")
  case True
  show ?thesis using assms(2) by (intro that, subst reconnect_loop.simps) (simp add: True)
next
  case False
  then have "ping i = Client_Raises" using assms(1) by simp
  then show ?thesis using assms(2) by (intro that, subst reconnect_loop.simps) simp
qed

lemma reconnect_connects:
  "k \<le> n \<Longrightarrow> int (a + k) < rk_max_attempts cfg \<Longrightarrow> (\<forall>j<k. ping (i + j) \<in> {Ping_Raises, Client_Raises}) \<Longrightarrow> ping (i + k) = Pong \<Longrightarrow>
   \<exists>slept. reconnect_loop cfg ping clock i a l s =
     Some (True, i + k, \<lparr>ln_connected = True, ln_failures = 0, ln_open_until = 0\<rparr>, s @ slept) \<and> length slept = k"
proof (induction k arbitrary: i a l s n)
  case 0
  then show ?case by (subst reconnect_loop.simps) simp
next
  case (Suc k)
  have first: "ping i \<in> {Ping_Raises, Client_Raises}" and a: "\<not> int a \<ge> rk_max_attempts cfg"
    using Suc.prems(2,3) by (auto dest!: spec[of _ 0])
  have rest: "\<forall>j<k. ping (Suc i + j) \<in> {Ping_Raises, Client_Raises}"
    using Suc.prems(3) by (metis Suc_less_eq add_Suc_shift)
  obtain l' where step: "reconnect_loop cfg ping clock i a l s =
      reconnect_loop cfg ping clock (Suc i) (Suc a) l' (s @ [reconnect_delay cfg (clock i) (Suc a)])"
    using reconnect_raises[of ping i a cfg clock l s, OF first] a by auto
  obtain slept where "reconnect_loop cfg ping clock (Suc i) (Suc a) l' (s @ [reconnect_delay cfg (clock i) (Suc a)]) =
      Some (True, Suc i + k, \<lparr>ln_connected = True, ln_failures = 0, ln_open_until = 0\<rparr>,
        (s @ [reconnect_delay cfg (clock i) (Suc a)]) @ slept)" "length slept = k"
    using Suc.IH[of k "Suc a" "Suc i" l' "s @ [reconnect_delay cfg (clock i) (Suc a)]"] Suc.prems(2,4) rest by auto
  then show ?case
    unfolding step by (intro exI[of _ "reconnect_delay cfg (clock i) (Suc a) # slept"]) simp
qed

lemma reconnect_gives_up:
  "int (a + k) = rk_max_attempts cfg \<Longrightarrow> (\<forall>j<k. ping (i + j) \<in> {Ping_Raises, Client_Raises}) \<Longrightarrow>
   \<exists>slept l'. reconnect_loop cfg ping clock i a l s = Some (False, i + k, l', s @ slept) \<and> length slept = k"
proof (induction k arbitrary: i a l s)
  case 0
  then show ?case by (subst reconnect_loop.simps) simp
next
  case (Suc k)
  have first: "ping i \<in> {Ping_Raises, Client_Raises}" and a: "\<not> int a \<ge> rk_max_attempts cfg"
    using Suc.prems by (auto dest!: spec[of _ 0])
  have rest: "\<forall>j<k. ping (Suc i + j) \<in> {Ping_Raises, Client_Raises}"
    using Suc.prems(2) by (metis Suc_less_eq add_Suc_shift)
  obtain l1 where step: "reconnect_loop cfg ping clock i a l s =
      reconnect_loop cfg ping clock (Suc i) (Suc a) l1 (s @ [reconnect_delay cfg (clock i) (Suc a)])"
    using reconnect_raises[of ping i a cfg clock l s, OF first] a by auto
  obtain slept l' where "reconnect_loop cfg ping clock (Suc i) (Suc a) l1 (s @ [reconnect_delay cfg (clock i) (Suc a)]) =
      Some (False, Suc i + k, l', (s @ [reconnect_delay cfg (clock i) (Suc a)]) @ slept)" "length slept = k"
    using Suc.IH[of "Suc a" "Suc i" l1 "s @ [reconnect_delay cfg (clock i) (Suc a)]"] Suc.prems(1) rest by auto
  then show ?case
    unfolding step by (intro exI[of _ "reconnect_delay cfg (clock i) (Suc a) # slept"] exI[of _ l']) simp
qed

text \<open>The index of the first ping that answers, if it is among the first \<open>n\<close>.\<close>

definition first_pong :: "(nat \<Rightarrow> ping) \<Rightarrow> nat \<Rightarrow> nat option" where
  "first_pong ping n = find (\<lambda>k. ping k = Pong) [0..<n]"

lemma first_pong_Some: "first_pong ping n = Some k \<longleftrightarrow> k < n \<and> ping k = Pong \<and> (\<forall>j<k. ping j \<noteq> Pong)"
  by (auto simp: first_pong_def find_Some_iff)

lemma first_pong_None: "first_pong ping n = None \<longleftrightarrow> (\<forall>k<n. ping k \<noteq> Pong)"
  by (auto simp: first_pong_def find_None_iff)

lemma ping_raises: "ping k \<noteq> Falsy_Pong \<Longrightarrow> ping k \<noteq> Pong \<Longrightarrow> ping k \<in> {Ping_Raises, Client_Raises}"
  by (cases "ping k") auto

lemma ensure_exact_aux:
  assumes "\<forall>k. ping k \<noteq> Falsy_Pong" "rk_max_attempts cfg \<ge> 0" "\<not> (ln_open_until l \<noteq> 0 \<and> now < ln_open_until l)"
  shows "\<exists>l'. link_ensure True cfg ping now clock l = Some l' \<and>
    ln_connected l' = (first_pong ping (nat (rk_max_attempts cfg)) \<noteq> None) \<and>
    ln_open_until l' = (if ln_connected l' then 0 else clock (nat (rk_max_attempts cfg)) + rk_cooldown cfg)"
proof (cases "first_pong ping (nat (rk_max_attempts cfg))")
  case None
  then have "\<forall>k<nat (rk_max_attempts cfg). ping (0 + k) \<in> {Ping_Raises, Client_Raises}"
    by (metis assms(1) first_pong_None ping_raises add_0)
  from reconnect_gives_up[OF _ this, of 0 cfg clock l "[]"] assms(2) obtain slept l2 where
    "reconnect_loop cfg ping clock 0 0 l [] = Some (False, nat (rk_max_attempts cfg), l2, slept)"
    by auto
  then have "link_ensure True cfg ping now clock l =
      Some (l2\<lparr>ln_connected := False, ln_open_until := clock (nat (rk_max_attempts cfg)) + rk_cooldown cfg\<rparr>)"
    using assms(3) by (auto simp: link_ensure_def)
  then show ?thesis using None by simp
next
  case (Some k)
  then have k: "int (0 + k) < rk_max_attempts cfg" "\<forall>j<k. ping (0 + j) \<noteq> Pong" "ping (0 + k) = Pong"
    by (auto simp: first_pong_Some)
  have raises: "\<forall>j<k. ping (0 + j) \<in> {Ping_Raises, Client_Raises}" by (intro allI impI ping_raises) (use k(2) assms(1) in auto)
  from reconnect_connects[OF order_refl k(1) raises k(3), of clock l "[]"] show ?thesis
    using assms(3) Some by (auto simp: link_ensure_def)
qed

text \<open>A ping whose answer counts as false is repeated for ever.\<close>

lemma reconnect_no_result:
  "reconnect_loop cfg ping clock i a l s = Some r \<Longrightarrow> \<not> ((\<forall>k. ping k = Falsy_Pong) \<and> int a < rk_max_attempts cfg)"
  by (rule reconnect_loop.raw_induct[where P = "\<lambda>cfg ping clock i a l s r. \<not> ((\<forall>k. ping k = Falsy_Pong) \<and> int a < rk_max_attempts cfg)", rotated])
    (assumption, fastforce split: if_splits ping.splits)

theorem falsy_ping_hangs:
  assumes "\<forall>k. ping k = Falsy_Pong" "rk_max_attempts cfg > 0" "ln_open_until l = 0"
  shows "link_ensure True cfg ping now clock l = None"
  using reconnect_no_result[of cfg ping clock 0 0 l "[]"] assms
  by (cases "reconnect_loop cfg ping clock 0 0 l []") (auto simp: link_ensure_def)

section \<open>The circuit breaker\<close>

text \<open>A run of operations, each with its own answers and reconnections.\<close>

fun link_run :: "((nat \<Rightarrow> string + 'v) \<times> (redis_link \<Rightarrow> redis_link option) \<times> nat) list \<Rightarrow> redis_link \<Rightarrow> 'v redis_answer list option" where
  "link_run [] l = Some []"
| "link_run ((op, ens, retries) # ops) l =
     (case link_op op ens retries l of
        None \<Rightarrow> None
      | Some (a, l') \<Rightarrow> map_option ((#) a) (link_run ops l'))"

lemma open_circuit_run:
  "ln_open_until l > 0 \<Longrightarrow> link_run ops l = Some (replicate (length ops) (Redis_Unavailable ''redis circuit open''))"
  by (induction ops) (auto simp: link_op_def)

text \<open>C38: when the first operation finds no client and every attempt to reconnect fails, it and
  every later operation are refused without asking Redis, however long the cooldown is over and whatever
  Redis would answer: only a reconnection closes the circuit, and an open circuit allows none.\<close>

theorem circuit_never_closes:
  assumes "\<forall>k. ping k \<in> {Ping_Raises, Client_Raises}" "rk_max_attempts cfg \<ge> 0" "ln_open_until l = 0" "\<not> ln_connected l"
    "clock (nat (rk_max_attempts cfg)) + rk_cooldown cfg > 0"
  shows "\<exists>m. link_run ((op, link_ensure True cfg ping now clock, retries) # later) l =
    Some (Redis_Unavailable m # replicate (length later) (Redis_Unavailable ''redis circuit open''))"
proof -
  have no: "ping k \<noteq> Pong \<and> ping k \<noteq> Falsy_Pong" for k using assms(1)[rule_format, of k] by auto
  then have no_pong: "first_pong ping n = None" for n by (simp add: first_pong_None)
  have "\<forall>k. ping k \<noteq> Falsy_Pong" using no by blast
  from ensure_exact_aux[OF this assms(2), of l now clock] obtain l' where
    l': "link_ensure True cfg ping now clock l = Some l'" "\<not> ln_connected l'" "ln_open_until l' > 0"
    using assms(3,5) no_pong by auto
  then show ?thesis
    using assms(3,4) by (simp add: link_op_def open_circuit_run)
qed

theorem circuit_never_closes_witness:
  "\<exists>m. link_run [((\<lambda>_. Inr ()), link_ensure True default_reconnect (\<lambda>_. Ping_Raises) 0 (\<lambda>i. of_nat i), 1),
                 ((\<lambda>_. Inr ()), (\<lambda>l. Some (l\<lparr>ln_connected := True, ln_open_until := 0\<rparr>)), 1)]
     \<lparr>ln_connected = False, ln_failures = 0, ln_open_until = 0\<rparr> =
   Some [Redis_Unavailable m, Redis_Unavailable ''redis circuit open'']"
  using circuit_never_closes[of "\<lambda>_. Ping_Raises" default_reconnect "\<lparr>ln_connected = False, ln_failures = 0, ln_open_until = 0\<rparr>"
      "\<lambda>i. of_nat i" "\<lambda>_. Inr ()" 0 1 "[((\<lambda>_. Inr ()), (\<lambda>l. Some (l\<lparr>ln_connected := True, ln_open_until := 0\<rparr>)), 1)]"]
  by (simp add: default_reconnect_def)

section \<open>Letters in Redis\<close>

definition failing :: retry_env where
  "failing = \<lparr>rv_client = True, rv_pops = True, rv_linked = (\<lambda>_. True), rv_insert = (\<lambda>_. Some ''db''), rv_push = (\<lambda>_. True)\<rparr>"

definition polled_every :: "rat \<Rightarrow> rat \<Rightarrow> nat \<Rightarrow> (rat \<times> retry_env) list" where
  "polled_every t step n = map (\<lambda>i. (t + of_nat i * step, failing)) [0..<n]"

text \<open>With the default settings, a letter that is alone in the Redis queue and whose insertion
  keeps failing is tried four times and popped a fifth time before it is due again: the queue is empty,
  nothing was stored, and the last of the five attempts never happens.\<close>

theorem failing_letter_lost:
  assumes "lt_queue st = [Some e]" "dl_attempts e = 0" "is_due t e"
  shows "let st4 = retry_loop default_dlq_config (polled_every t 5 4) st;
             st5 = retry_loop default_dlq_config (polled_every t 5 5) st
         in map (map_option dl_attempts) (lt_queue st4) = [Some 4] \<and> lt_queue st5 = [] \<and> lt_inserted st5 = lt_inserted st"
proof -
  have upt: "[0..<4] = [0, 1, 2, 3 :: nat]" "[0..<5] = [0, 1, 2, 3, 4 :: nat]" by (simp_all add: upt_rec)
  show ?thesis
    using assms
    by (simp add: retry_loop_def polled_every_def upt failing_def retry_letters_def retry_popped_def is_due_def failed_entry_def
        backoff_def default_dlq_config_def)
qed

definition lone_letter :: letters where
  "lone_letter = \<lparr>lt_orch = orch_init True, lt_queue = [Some \<lparr>dl_ref = 0, dl_decision = [], dl_error = ''db'', dl_ts = 0, dl_attempts = 0,
     dl_next_attempt_ts = 0\<rparr>], lt_inserted = []\<rparr>"

theorem failing_letter_lost_witness: "lt_queue (retry_loop default_dlq_config (polled_every 100 5 5) lone_letter) = []"
  using failing_letter_lost[of lone_letter "\<lparr>dl_ref = 0, dl_decision = [], dl_error = ''db'', dl_ts = 0, dl_attempts = 0,
     dl_next_attempt_ts = 0\<rparr>" 100]
  by (simp add: lone_letter_def is_due_def Let_def)

text \<open>A letter popped too early is gone.\<close>

lemma early_pop_lost:
  "lt_queue st = Some e # q \<Longrightarrow> \<not> is_due now e \<Longrightarrow> rv_client env \<Longrightarrow> rv_pops env \<Longrightarrow> retry_letters c now env st = st\<lparr>lt_queue := q\<rparr>"
  by (simp add: retry_letters_def retry_popped_def)

section \<open>Letters in memory\<close>

text \<open>The decisions a retry stores when every insertion succeeds: those of the due entries.\<close>

definition due_decisions :: "rat \<Rightarrow> heap \<Rightarrow> nat list \<Rightarrow> pydict list" where
  "due_decisions now h rs = map (\<lambda>r. dl_decision (heap_at h r)) (filter (\<lambda>r. is_due now (heap_at h r)) rs)"

lemma retry_inserts:
  "\<exists>rs1. retry_in_memory c now b None w r ((rs, h), q, ins) = ((rs1, h), q, ins @ due_decisions now h [r]) \<and> (b \<longrightarrow> rs1 = rs)"
  by (simp add: retry_in_memory_def retry_entry_def Let_def due_decisions_def)

lemma retry_all_inserts:
  "\<exists>rs1. retry_all_in_memory c now linked (\<lambda>_. None) push i ps ((rs, h), q, ins) =
     ((rs1, h), q, ins @ due_decisions now h ps) \<and> ((\<forall>j. linked j) \<longrightarrow> rs1 = rs)"
proof (induction ps arbitrary: i rs ins)
  case Nil
  then show ?case by (simp add: due_decisions_def)
next
  case (Cons p ps)
  obtain rs1 where step: "retry_in_memory c now (linked i) None (push i) p ((rs, h), q, ins) =
      ((rs1, h), q, ins @ due_decisions now h [p])" "linked i \<longrightarrow> rs1 = rs"
    using retry_inserts by meson
  obtain rs2 where "retry_all_in_memory c now linked (\<lambda>_. None) push (Suc i) ps ((rs1, h), q, ins @ due_decisions now h [p]) =
      ((rs2, h), q, (ins @ due_decisions now h [p]) @ due_decisions now h ps)" "(\<forall>j. linked j) \<longrightarrow> rs2 = rs1"
    using Cons.IH by meson
  moreover have "due_decisions now h [p] @ due_decisions now h ps = due_decisions now h (p # ps)"
    by (simp add: due_decisions_def)
  ultimately show ?case using step by auto
qed

text \<open>Every entry of the queue is due, and the entries are different objects.\<close>

definition all_due :: "rat \<Rightarrow> letters \<Rightarrow> bool" where
  "all_due now st \<longleftrightarrow> distinct (map dl_ref (oc_persist_dlq (lt_orch st))) \<and> (\<forall>e\<in>set (oc_persist_dlq (lt_orch st)). is_due now e)"

lemma due_of_queue:
  assumes "distinct (map dl_ref q)" "\<forall>e\<in>set q. is_due now e"
  shows "due_decisions now (map (\<lambda>e. (dl_ref e, e)) q) (map dl_ref q) = map dl_decision q"
  using assms at_entry[OF assms(1)] by (simp add: due_decisions_def filter_map comp_def cong: filter_cong map_cong)

text \<open>Requeueing through the administration answers the number of the letters in memory and
  makes every letter appear twice; the next retry, when everything is due and every insertion succeeds,
  stores every decision twice.\<close>

theorem requeue_inserts_twice:
  assumes "all_due now st" "admin_allowed token header" "\<forall>i. rv_insert env i = None" "\<not> rv_client env"
  shows "let (a, st') = dlq_requeue_all True False token header st; n = oc_persist_dlq (lt_orch st) in
    a = Admin_Ok (length n) \<and> lt_inserted (retry_letters c now env st') = lt_inserted st @ map dl_decision n @ map dl_decision n"
proof -
  let ?q = "oc_persist_dlq (lt_orch st)" and ?h = "map (\<lambda>e. (dl_ref e, e)) (oc_persist_dlq (lt_orch st))"
  have d: "distinct (map dl_ref ?q)" "\<forall>e\<in>set ?q. is_due now e" using assms(1) unfolding all_due_def by blast+
  have same: "heap_at (?h @ ?h) = heap_at ?h" by (auto simp: heap_at_def fun_eq_iff map_add_def split: option.split)
  have twice: "due_decisions now (?h @ ?h) (map dl_ref ?q @ map dl_ref ?q) = map dl_decision ?q @ map dl_decision ?q"
    using due_of_queue[OF d] unfolding due_decisions_def same by simp
  have ins: "rv_insert env = (\<lambda>_. None)" using assms(3) by auto
  obtain rs1 where "retry_all_in_memory c now (\<lambda>_. False) (\<lambda>_. None) (rv_push env) 0 (map dl_ref ?q @ map dl_ref ?q)
      ((map dl_ref ?q @ map dl_ref ?q, ?h @ ?h), lt_queue st, lt_inserted st) =
      ((rs1, ?h @ ?h), lt_queue st, lt_inserted st @ map dl_decision ?q @ map dl_decision ?q)"
    using retry_all_inserts[of c now "\<lambda>_. False" "rv_push env" 0 "map dl_ref ?q @ map dl_ref ?q" "map dl_ref ?q @ map dl_ref ?q"
        "?h @ ?h" "lt_queue st" "lt_inserted st", unfolded twice] by blast
  then show ?thesis
    using assms(2,4) by (simp add: dlq_requeue_all_def retry_letters_def retry_memory_def ins Let_def)
qed

definition pair_of_letters :: letters where
  "pair_of_letters = lone_letter\<lparr>lt_orch := (orch_init True)\<lparr>oc_persist_dlq :=
     [\<lparr>dl_ref = 0, dl_decision = [(''symbol'', VStr ''A'')], dl_error = ''db'', dl_ts = 1, dl_attempts = 0, dl_next_attempt_ts = 0\<rparr>,
      \<lparr>dl_ref = 1, dl_decision = [(''symbol'', VStr ''B'')], dl_error = ''db'', dl_ts = 2, dl_attempts = 0, dl_next_attempt_ts = 0\<rparr>]\<rparr>\<rparr>"

theorem requeue_inserts_twice_witness:
  "lt_inserted (retry_letters default_dlq_config 9 (failing\<lparr>rv_client := False, rv_insert := \<lambda>_. None\<rparr>)
      (snd (dlq_requeue_all True False [] None pair_of_letters))) =
    [[(''symbol'', VStr ''A'')], [(''symbol'', VStr ''B'')], [(''symbol'', VStr ''A'')], [(''symbol'', VStr ''B'')]]"
  using requeue_inserts_twice[of 9 pair_of_letters "[]" None "failing\<lparr>rv_client := False, rv_insert := \<lambda>_. None\<rparr>" default_dlq_config]
  by (simp add: all_due_def pair_of_letters_def lone_letter_def is_due_def admin_allowed_def Let_def split: prod.splits)

text \<open>When the pop raises but there is a client, letters in memory are stored and stay: every retry stores them
  again.\<close>

theorem memory_letters_stored_again:
  assumes "all_due now st" "rv_client env" "\<not> rv_pops env" "\<forall>i. rv_linked env i" "\<forall>i. rv_insert env i = None"
  shows "lt_inserted (retry_letters c now env st) = lt_inserted st @ map dl_decision (oc_persist_dlq (lt_orch st)) \<and>
    oc_persist_dlq (lt_orch (retry_letters c now env st)) = oc_persist_dlq (lt_orch st)"
proof -
  let ?q = "oc_persist_dlq (lt_orch st)" and ?h = "map (\<lambda>e. (dl_ref e, e)) (oc_persist_dlq (lt_orch st))"
  have d: "distinct (map dl_ref ?q)" "\<forall>e\<in>set ?q. is_due now e" using assms(1) unfolding all_due_def by blast+
  have ins: "rv_insert env = (\<lambda>_. None)" "rv_linked env = (\<lambda>_. True)" using assms(4,5) by auto
  have "retry_all_in_memory c now (\<lambda>_. True) (\<lambda>_. None) (rv_push env) 0 (map dl_ref ?q)
      ((map dl_ref ?q, ?h), lt_queue st, lt_inserted st) =
      ((map dl_ref ?q, ?h), lt_queue st, lt_inserted st @ map dl_decision ?q)"
    using retry_all_inserts[of c now "\<lambda>_. True" "rv_push env" 0 "map dl_ref ?q" "map dl_ref ?q" ?h "lt_queue st" "lt_inserted st"] due_of_queue[OF d]
    by auto
  moreover have "map (heap_at ?h) (map dl_ref ?q) = ?q" using at_entry[OF d(1)] by (simp add: map_idI)
  ultimately show ?thesis
    using assms(2,3) by (simp add: retry_letters_def retry_memory_def ins Let_def)
qed

text \<open>A listing of at most 0 letters has none from memory, and all of them from Redis.\<close>

theorem listing_of_zero:
  "dlq_list True False True 0 st = Admin_Ok (0, [])" "dlq_list True True True 0 st = Admin_Ok (length (lt_queue st), lt_queue st)"
  by (simp_all add: dlq_list_def slice_to_def lrange_from_start_def Let_def)

section \<open>The consumer\<close>

lemma consume_step: "gate_step o1 (snd (consume_item env enabled plan_json any it o1))"
proof -
  let ?l = "de_libs env" and ?now = "qi_now it"
  obtain p d o2 where pre: "pre_reasoning_policy_check ?l (ms_of ?now) (qi_decision it) o1 = (p, d, o2)"
    using prod_cases3 by blast
  have 1: "gate_step o1 o2" using pre_step[OF pre] by simp
  have post: "gate_step o2 (snd (post_reasoning_policy_check ?l (ms_of ?now) res o2))" for res
    using post_step[OF prod.collapse[symmetric]] by blast
  have done_: "gate_step o1 o3 \<Longrightarrow> gate_step o1 (snd (process_decision env ?now d' True None o3))" for d' o3
    using process_step gate_step_trans by blast
  show ?thesis
    using pre 1 done_ gate_step_trans[OF 1 post]
    by (cases "qi_plan it") (simp_all add: consume_item_def Let_def)
qed

text \<open>The consumer of a queue acknowledges every item once, and through any queue every veto and
  every deferral of a gate leaves exactly one entry of the audit trail, none is changed or removed, and
  the dead letters stay different objects.\<close>

theorem consumer_keeps_books:
  "let (n, s) = run_from_queue env enabled plan_json any items (orch_init permissive);
       (m, s') = run_from_queue env enabled plan_json any later s
   in n = length items \<and> m = length later \<and> orch_ok s \<and> orch_ok s' \<and> prefix (oc_policy_audit s) (oc_policy_audit s')"
proof -
  have run: "fst (fold (\<lambda>it (n, o2). (n + 1, snd (consume_item env enabled plan_json any it o2))) its (k, o1)) = k + length its \<and>
      gate_step o1 (snd (fold (\<lambda>it (n, o2). (n + 1, snd (consume_item env enabled plan_json any it o2))) its (k, o1)))" for its k o1
  proof (induction its arbitrary: k o1)
    case (Cons it its)
    then show ?case using gate_step_trans[OF consume_step] by fastforce
  qed simp
  show ?thesis
    using run[of items 0 "orch_init permissive"] run[of later 0 "snd (run_from_queue env enabled plan_json any items (orch_init permissive))"]
    by (auto simp: run_from_queue_def gate_step_def orch_ok_init Let_def split: prod.splits)
qed

end
