(* ===== verification/Decision_Store.thy ===== *)
theory Decision_Store
  imports Orch_Dlq_Props Orch_Gate_Props
begin

text \<open>
  The table of decisions and the log of notifications of \<open>reasoner_service/storage.py\<close>, and the insertions the
  orchestrator makes into it: what becomes of a decision that is processed, and of its dead letter.

  The constructor of a row belongs to SQLAlchemy and is a parameter; what is used of it is its documented
  behaviour, that it raises for a keyword that is no column. So are the new identifier, the commit and the
  time of creation.
\<close>

section \<open>The tables\<close>

record decision_row =
  dw_id :: string
  dw_created_at :: time
  dw_columns :: pydict

definition decision_columns :: "string list" where
  "decision_columns = [''id'', ''symbol'', ''decision_text'', ''raw'', ''bias'', ''confidence'', ''recommendation'', ''repair_used'',
     ''fallback_used'', ''duration_ms'', ''created_at'']"

definition notification_columns :: "string list" where
  "notification_columns = [''id'', ''decision_id'', ''channel'', ''status'', ''http_status'', ''error'', ''created_at'']"

type_synonym constructor = "pydict \<Rightarrow> string + pydict"

definition rejects_unknown :: "string list \<Rightarrow> constructor \<Rightarrow> bool" where
  "rejects_unknown columns mk \<longleftrightarrow> (\<forall>kwargs. \<not> set (map fst kwargs) \<subseteq> set columns \<longrightarrow> (\<exists>err. mk kwargs = Inl err))"

text \<open>A row is added; the left side is the text of an exception.\<close>

record insertion =
  in_make :: constructor
  in_new_id :: string
  in_now :: time
  in_commit :: "string option"

definition add_row :: "insertion \<Rightarrow> pydict \<Rightarrow> decision_row list \<Rightarrow> string + string \<times> decision_row list" where
  "add_row ins kwargs rows =
     (case in_make ins kwargs of
        Inl err \<Rightarrow> Inl err
      | Inr row \<Rightarrow>
          (case in_commit ins of
             Some err \<Rightarrow> Inl err
           | None \<Rightarrow>
               (let i = (case map_of kwargs ''id'' of Some (VStr i) \<Rightarrow> i | _ \<Rightarrow> in_new_id ins) in
                Inr (i, rows @ [\<lparr>dw_id = i, dw_created_at = in_now ins, dw_columns = row\<rparr>]))))"

definition insert_decision :: "insertion \<Rightarrow> pydict \<Rightarrow> decision_row list \<Rightarrow> string + string \<times> decision_row list" where
  "insert_decision = add_row"

definition get_decision_by_id :: "string \<Rightarrow> decision_row list \<Rightarrow> decision_row option" where
  "get_decision_by_id i rows = find (\<lambda>r. dw_id r = i) rows"

definition get_recent_decisions :: "nat \<Rightarrow> decision_row list \<Rightarrow> decision_row list" where
  "get_recent_decisions limit rows = take limit (sort_key (\<lambda>r. - dw_created_at r) rows)"

definition log_notification ::
    "insertion \<Rightarrow> string option \<Rightarrow> string \<Rightarrow> string \<Rightarrow> int \<Rightarrow> string option \<Rightarrow> decision_row list \<Rightarrow> string + string \<times> decision_row list" where
  "log_notification ins decision_id channel status http_status err rows =
     add_row ins [(''decision_id'', opt_str decision_id), (''channel'', VStr channel), (''status'', VStr status),
       (''http_status'', VInt http_status), (''error'', opt_str err)] rows"

section \<open>The insertions of the orchestrator\<close>

text \<open>The keywords, of a processed decision and of a dead letter alike; \<open>None\<close> when a conversion raises.\<close>

definition insert_kwargs :: "orch_libs \<Rightarrow> int \<Rightarrow> pydict \<Rightarrow> pydict option" where
  "insert_kwargs l now d =
     do { conf \<leftarrow> to_float l (dget ''confidence'' d (VFloat 0)); duration \<leftarrow> to_int l (dget ''duration_ms'' d (VInt 0));
          ts \<leftarrow> to_int l (dget ''timestamp_ms'' d (VInt now));
          Some [(''symbol'', dget ''symbol'' d VNone), (''decision_text'', VStr (ol_str l (VDict d))), (''raw'', VDict d),
                (''bias'', dget ''bias'' d (VStr ''neutral'')), (''confidence'', VFloat conf),
                (''recommendation'', dget ''recommendation'' d VNone), (''repair_used'', VBool (truthy (dget ''repair_used'' d VNone))),
                (''fallback_used'', VBool (truthy (dget ''fallback_used'' d VNone))), (''duration_ms'', VInt duration), (''ts_ms'', VInt ts)] }"

definition orchestrator_insert :: "orch_libs \<Rightarrow> int \<Rightarrow> insertion \<Rightarrow> decision_row list \<Rightarrow> pydict \<Rightarrow> string + string" where
  "orchestrator_insert l now ins rows d =
     (case insert_kwargs l now d of
        None \<Rightarrow> Inl ''conversion''
      | Some kwargs \<Rightarrow> (case insert_decision ins kwargs rows of Inl err \<Rightarrow> Inl err | Inr (i, _) \<Rightarrow> Inr i))"

definition insertion_error :: "string + string \<Rightarrow> string option" where
  "insertion_error r = (case r of Inl err \<Rightarrow> Some err | Inr _ \<Rightarrow> None)"

section \<open>Properties\<close>

lemma insert_rejected:
  assumes "rejects_unknown decision_columns (in_make ins)"
  obtains err where "orchestrator_insert l now ins rows d = Inl err"
proof (cases "insert_kwargs l now d")
  case None
  then show ?thesis by (intro that) (simp add: orchestrator_insert_def)
next
  case (Some kwargs)
  then have "''ts_ms'' \<in> set (map fst kwargs)" by (auto simp: insert_kwargs_def split: bind_splits)
  moreover have "''ts_ms'' \<notin> set decision_columns" by (simp add: decision_columns_def)
  ultimately obtain err where "in_make ins kwargs = Inl err" using assms unfolding rejects_unknown_def by blast
  then show ?thesis using Some by (intro that) (simp add: orchestrator_insert_def insert_decision_def add_row_def)
qed

text \<open>C16: with the table of the storage module, a decision that is processed is never stored:
  the orchestrator passes a keyword that is no column, the answer has no identifier, and the last dead
  letter is the decision, whose insertion raises again at every retry.\<close>

theorem decisions_never_stored:
  assumes "rejects_unknown decision_columns (in_make ins)"
    "process_decision (env\<lparr>de_insert := orchestrator_insert l ms ins rows\<rparr>) now d True cs o1 = (Some r, o2)"
  shows "dr_id r = None \<and> oc_persist_dlq o2 \<noteq> [] \<and> dl_attempts (last (oc_persist_dlq o2)) = 0 \<and>
    (\<exists>err. orchestrator_insert l ms' ins rows' (dl_decision (last (oc_persist_dlq o2))) = Inl err)"
proof -
  define e where "e = env\<lparr>de_insert := orchestrator_insert l ms ins rows\<rparr>"
  note run = assms(2)[folded e_def]
  have rejected: "\<exists>err. orchestrator_insert l ms ins rows x = Inl err" for l ms rows x by (rule insert_rejected[OF assms(1)]) blast
  have fails: "\<exists>err. persist e now x o4 = (None, enqueue (persist_entry (ms_of now) err x) o4)" for x o4
    using rejected[of l ms rows x] by (auto simp: persist_def e_def)
  obtain p d' o3 where pre: "pre_reasoning_policy_check (de_libs e) (ms_of now) d o1 = (p, d', o3)"
    using prod_cases3 by blast
  obtain d0 where norm: "normalize_decision (de_libs e) (de_parse_iso e) now d' = Some d0"
    using run pre by (cases "normalize_decision (de_libs e) (de_parse_iso e) now d'") (simp_all add: process_decision_def Let_def)
  obtain r3 o4 where post: "post_reasoning_policy_check (de_libs e) (ms_of now) d0 o3 = (r3, o4)" by fastforce
  obtain r4 o5 where paper: "execute_paper_trade_if_enabled (de_libs e) (de_paper e) d0 o4 = (r4, o5)" by fastforce
  define x where "x = (case de_shadow e d0 of None \<Rightarrow> d0 | Some v \<Rightarrow> AList.update ''_shadow_policy_result'' v d0)"
  obtain k where key: "compute_dedup_key (de_libs e) (de_dedup_window e) now x = Some k"
    using run pre norm post paper
    by (cases "compute_dedup_key (de_libs e) (de_dedup_window e) now x") (simp_all add: process_decision_def x_def[symmetric] Let_def)
  obtain err where fail: "persist e now x o5 = (None, enqueue (persist_entry (ms_of now) err x) o5)"
    using fails by blast
  have "dr_id r = None" "o2 = enqueue (persist_entry (ms_of now) err x) o5"
    using run pre norm post paper key fail by (auto simp: process_decision_def x_def[symmetric] Let_def split: if_splits)
  then show ?thesis using rejected by (simp add: enqueue_def persist_entry_def)
qed

definition demo_insertion :: insertion where
  "demo_insertion = \<lparr>in_make = (\<lambda>kw. if set (map fst kw) \<subseteq> set decision_columns then Inr kw else Inl ''invalid keyword argument''),
     in_new_id = ''row1'', in_now = 0, in_commit = None\<rparr>"

lemma demo_rejects: "rejects_unknown decision_columns (in_make demo_insertion)"
  by (simp add: rejects_unknown_def demo_insertion_def)

theorem decisions_never_stored_witness:
  "\<exists>r o2. process_decision (demo_decision_env\<lparr>de_insert := orchestrator_insert plain_libs 5 demo_insertion []\<rparr>) 5 killzone_decision True
       (Some [''slack'']) (orch_init True) = (Some r, o2) \<and> dr_id r = None \<and> oc_persist_dlq o2 \<noteq> []"
proof -
  let ?e = "demo_decision_env\<lparr>de_insert := orchestrator_insert plain_libs 5 demo_insertion []\<rparr>"
  let ?p = "process_decision ?e 5 killzone_decision True (Some [''slack'']) (orch_init True)"
  have keep: "keeps_snapshot ?e 5 killzone_decision (orch_init True)"
    by (simp add: keeps_snapshot_def pre_reasoning_policy_check_def orch_init_def)
  have "Option.bind (normalize_decision plain_libs (\<lambda>_. None) 5 killzone_decision) (compute_dedup_key plain_libs 60 5) \<noteq> None"
    by code_simp
  then obtain d0 k where "normalize_decision plain_libs (\<lambda>_. None) 5 killzone_decision = Some d0" "compute_dedup_key plain_libs 60 5 d0 = Some k"
    by (auto simp: bind_eq_Some_conv)
  then have "fst ?p \<noteq> None"
    by (simp add: process_result[OF keep] Let_def) (simp add: demo_decision_env_def Let_def)
  then obtain r where "?p = (Some r, snd ?p)" by (metis option.exhaust prod.collapse)
  from decisions_never_stored[OF demo_rejects this] this show ?thesis by blast
qed

text \<open>A dead letter whose insertion fails at every retry leaves the queue at the fifth one.\<close>

lemma one_failing:
  assumes "oc_persist_dlq s = [e]" "is_due now e"
  shows "oc_persist_dlq (dlq_retry_once c now (\<lambda>_. Some err) s) =
    (if dl_attempts e + 1 \<ge> dc_max_retries c then [] else [failed_entry c now err e])"
  using assms retry_settled[of s c now "\<lambda>_. Some err"] by simp

theorem failing_letter_dropped:
  assumes "oc_persist_dlq s = [e]" "dl_attempts e = 0" "is_due t e"
  shows "oc_persist_dlq (fold (\<lambda>i. dlq_retry_once default_dlq_config (t + of_nat i * 60) (\<lambda>_. Some err)) [0..<5] s) = []"
proof -
  let ?c = default_dlq_config
  let ?f = "\<lambda>i e. failed_entry ?c (t + of_nat i * 60) err e"
  let ?r = "\<lambda>i. dlq_retry_once ?c (t + of_nat i * 60) (\<lambda>_. Some err)"
  have due: "is_due (now + 60) (failed_entry ?c now err e)" for now e
    by (simp add: is_due_def failed_entry_def backoff_def default_dlq_config_def)
  have 0: "oc_persist_dlq (?r 0 s) = [?f 0 e]" using one_failing[OF assms(1), of t ?c err] assms(2,3) by (simp add: default_dlq_config_def)
  have step: "oc_persist_dlq (?r (Suc i) s') = (if dl_attempts e' + 2 \<ge> 5 then [] else [?f (Suc i) (?f i e')])"
    if "oc_persist_dlq s' = [?f i e']" for i s' e'
    using one_failing[OF that, of "t + of_nat (Suc i) * 60" ?c err] due[of "t + of_nat i * 60" e']
    by (simp add: algebra_simps default_dlq_config_def)
  have 1: "oc_persist_dlq (?r 1 (?r 0 s)) = [?f 1 (?f 0 e)]" using step[OF 0] assms(2) by simp
  have 2: "oc_persist_dlq (?r 2 (?r 1 (?r 0 s))) = [?f 2 (?f 1 (?f 0 e))]"
    using step[of "?r 1 (?r 0 s)" 1 "?f 0 e"] 1 assms(2) by (simp add: numeral_2_eq_2)
  have 3: "oc_persist_dlq (?r 3 (?r 2 (?r 1 (?r 0 s)))) = [?f 3 (?f 2 (?f 1 (?f 0 e)))]"
    using step[of "?r 2 (?r 1 (?r 0 s))" 2 "?f 1 (?f 0 e)"] 2 assms(2) by (simp add: numeral_3_eq_3 numeral_2_eq_2)
  have 4: "oc_persist_dlq (?r 4 (?r 3 (?r 2 (?r 1 (?r 0 s))))) = []"
    using step[of "?r 3 (?r 2 (?r 1 (?r 0 s)))" 3 "?f 2 (?f 1 (?f 0 e))"] 3 assms(2) by (simp add: eval_nat_numeral)
  have "[0..<5] = [0, 1, 2, 3, 4 :: nat]" by (simp add: upt_rec)
  then show ?thesis using 4 by simp
qed

lemma find_new: "\<forall>r\<in>set rows. \<not> P r \<Longrightarrow> P x \<Longrightarrow> find P (rows @ [x]) = Some x"
  by (induction rows) auto

text \<open>What is inserted without an unknown keyword is read back.\<close>

theorem insert_then_read:
  assumes "insert_decision ins kwargs rows = Inr (i, rows')" "\<forall>r\<in>set rows. dw_id r \<noteq> i"
  shows "map_option dw_columns (get_decision_by_id i rows') = (case in_make ins kwargs of Inl _ \<Rightarrow> None | Inr row \<Rightarrow> Some row)"
  using assms find_new[of rows "\<lambda>r. dw_id r = i"]
  by (auto simp: insert_decision_def add_row_def get_decision_by_id_def Let_def split: sum.splits option.splits)

end
