(* ===== verification/Llm_Service.thy ===== *)
theory Llm_Service
  imports Signal_Service
begin

text \<open>
  The way to a language model and back: the client with its retries and its streams
  (\<open>reasoner_service/llm_client.py\<close>), the reasoner with repair and fallback (\<open>reasoner_service/reasoner.py\<close>) and
  its adapter in the orchestrator, and the schema of a decision (\<open>reasoner_service/schemas.py\<close>).

  Parameters: what each request answers, the decoder of JSON, the conversions of \<open>orch_libs\<close>. Lines of a
  stream are ASCII. Addresses, headers and logs are left out.

  The lemmas say which request a completion comes from and how long the client sleeps, what a broken stream
  delivers, when the reasoner answers, and what an accepted decision is.
\<close>

section \<open>Requests\<close>

datatype chat_answer = Http_Raises | Http int "pyval option"

text \<open>\<open>v[k]\<close> for a text \<open>k\<close>, and \<open>v[0]\<close>; \<open>None\<close> when it raises.\<close>

definition value_at :: "string \<Rightarrow> pyval \<Rightarrow> pyval option" where
  "value_at k v = (case v of VDict d \<Rightarrow> map_of d k | _ \<Rightarrow> None)"

definition value_first :: "pyval \<Rightarrow> pyval option" where
  "value_first v = (case v of VList (x # _) \<Rightarrow> Some x | VStr (c # _) \<Rightarrow> Some (VStr [c]) | _ \<Rightarrow> None)"

definition choice_of :: "string \<Rightarrow> pyval \<Rightarrow> pyval option" where
  "choice_of k data = do { cs \<leftarrow> value_at ''choices'' data; c \<leftarrow> value_first cs; value_at k c }"

definition completion_content :: "pyval \<Rightarrow> pyval option" where
  "completion_content data = do { m \<leftarrow> choice_of ''message'' data; value_at ''content'' m }"

definition chat_payload :: "bool \<Rightarrow> pydict \<Rightarrow> string \<Rightarrow> pydict \<Rightarrow> pydict" where
  "chat_payload stream model prompt kwargs =
     update_all kwargs (model @ [(''messages'', VList [VDict [(''role'', VStr ''user''), (''content'', VStr prompt)]]),
       (''max_tokens'', VInt 512), (''temperature'', VFloat (7/10))] @ (if stream then [(''stream'', VBool True)] else []))"

definition openai_payload :: "bool \<Rightarrow> string \<Rightarrow> pydict \<Rightarrow> pydict" where
  "openai_payload stream = chat_payload stream [(''model'', VStr ''gpt-3.5-turbo'')]"

definition azure_payload :: "bool \<Rightarrow> string \<Rightarrow> pydict \<Rightarrow> pydict" where
  "azure_payload stream prompt kwargs = chat_payload stream [] prompt (filter (\<lambda>kv. fst kv \<noteq> ''deployment_id'') kwargs)"

text \<open>At most \<open>n\<close> requests, the next one is request \<open>i\<close>; after a failure \<open>2 ^ i\<close> seconds are slept, also after the
  last one.\<close>

primrec complete_attempts :: "(nat \<Rightarrow> chat_answer) \<Rightarrow> nat \<Rightarrow> nat \<Rightarrow> pyval option \<times> nat list" where
  "complete_attempts post 0 i = (None, [])"
| "complete_attempts post (Suc n) i =
     (case (case post i of Http status (Some data) \<Rightarrow> if status = 200 then completion_content data else None | _ \<Rightarrow> None) of
        Some content \<Rightarrow> (Some content, [])
      | None \<Rightarrow> (let (r, slept) = complete_attempts post n (i + 1) in (r, 2 ^ i # slept)))"

datatype llm_error = Not_Supported | No_Deployment | Out_Of_Retries

definition completion_result :: "pyval option \<Rightarrow> llm_error + pyval" where
  "completion_result r = (case r of None \<Rightarrow> Inl Out_Of_Retries | Some v \<Rightarrow> Inr v)"

definition openai_complete :: "(pydict \<Rightarrow> nat \<Rightarrow> chat_answer) \<Rightarrow> string \<Rightarrow> pydict \<Rightarrow> (llm_error + pyval) \<times> nat list" where
  "openai_complete post prompt kwargs =
     (let (r, slept) = complete_attempts (post (openai_payload False prompt kwargs)) 3 0 in (completion_result r, slept))"

definition azure_complete :: "(pydict \<Rightarrow> nat \<Rightarrow> chat_answer) \<Rightarrow> string \<Rightarrow> pydict \<Rightarrow> (llm_error + pyval) \<times> nat list" where
  "azure_complete post prompt kwargs =
     (if \<not> truthy (dget ''deployment_id'' kwargs VNone) then (Inl No_Deployment, [])
      else (let (r, slept) = complete_attempts (post (azure_payload False prompt kwargs)) 3 0 in (completion_result r, slept)))"

definition llm_complete :: "string \<Rightarrow> (pydict \<Rightarrow> nat \<Rightarrow> chat_answer) \<Rightarrow> string \<Rightarrow> pydict \<Rightarrow> (llm_error + pyval) \<times> nat list" where
  "llm_complete provider post prompt kwargs =
     (if provider = ''openai'' then openai_complete post prompt kwargs
      else if provider = ''azure'' then azure_complete post prompt kwargs
      else (Inl Not_Supported, []))"

section \<open>Streams\<close>

text \<open>A stream answers a status, its lines, and whether reading raises after them.\<close>

datatype stream_answer = Stream_Raises | Stream int "string list" bool

definition data_prefix :: string where "data_prefix = ''data: ''"

definition chunk_of :: "string \<Rightarrow> string" where
  "chunk_of line = (let c = py_strip line in if prefix data_prefix c then drop (length data_prefix) c else c)"

definition delta_of :: "(string \<Rightarrow> pyval option) \<Rightarrow> string \<Rightarrow> pyval option" where
  "delta_of loads line =
     (let chunk = chunk_of line in
      if line = [] \<or> chunk = [] \<or> chunk = ''[DONE]'' then None
      else do { data \<leftarrow> loads chunk; d \<leftarrow> choice_of ''delta'' data; v \<leftarrow> vget ''content'' d (VStr []);
                if truthy v then Some v else None })"

definition stream_deltas :: "(string \<Rightarrow> pyval option) \<Rightarrow> string list \<Rightarrow> pyval list" where
  "stream_deltas loads ls = List.map_filter (delta_of loads) ls"

text \<open>What the caller gets, and whether the stream ended well. A request that breaks off is made again from its
  start.\<close>

primrec stream_attempts :: "(string \<Rightarrow> pyval option) \<Rightarrow> (nat \<Rightarrow> stream_answer) \<Rightarrow> nat \<Rightarrow> nat \<Rightarrow> pyval list \<times> bool \<times> nat list" where
  "stream_attempts loads post 0 i = ([], False, [])"
| "stream_attempts loads post (Suc n) i =
     (let again = (\<lambda>ys. let (zs, fine, slept) = stream_attempts loads post n (i + 1) in (ys @ zs, fine, 2 ^ i # slept)) in
      case post i of
        Stream_Raises \<Rightarrow> again []
      | Stream status ls breaks \<Rightarrow>
          (if status \<noteq> 200 then again []
           else if breaks then again (stream_deltas loads ls)
           else (stream_deltas loads ls, True, [])))"

type_synonym stream_result = "pyval list \<times> llm_error option \<times> nat list"

definition run_stream :: "(string \<Rightarrow> pyval option) \<Rightarrow> (nat \<Rightarrow> stream_answer) \<Rightarrow> stream_result" where
  "run_stream loads post =
     (let (ys, fine, slept) = stream_attempts loads post 3 0 in (ys, if fine then None else Some Out_Of_Retries, slept))"

definition openai_stream_complete ::
    "(string \<Rightarrow> pyval option) \<Rightarrow> (pydict \<Rightarrow> nat \<Rightarrow> stream_answer) \<Rightarrow> string \<Rightarrow> pydict \<Rightarrow> stream_result" where
  "openai_stream_complete loads post prompt kwargs = run_stream loads (post (openai_payload True prompt kwargs))"

definition azure_stream_complete ::
    "(string \<Rightarrow> pyval option) \<Rightarrow> (pydict \<Rightarrow> nat \<Rightarrow> stream_answer) \<Rightarrow> string \<Rightarrow> pydict \<Rightarrow> stream_result" where
  "azure_stream_complete loads post prompt kwargs =
     (if \<not> truthy (dget ''deployment_id'' kwargs VNone) then ([], Some No_Deployment, [])
      else run_stream loads (post (azure_payload True prompt kwargs)))"

definition llm_stream ::
    "(string \<Rightarrow> pyval option) \<Rightarrow> string \<Rightarrow> (pydict \<Rightarrow> nat \<Rightarrow> stream_answer) \<Rightarrow> string \<Rightarrow> pydict \<Rightarrow> stream_result" where
  "llm_stream loads provider post prompt kwargs =
     (if provider = ''openai'' then openai_stream_complete loads post prompt kwargs
      else if provider = ''azure'' then azure_stream_complete loads post prompt kwargs
      else ([], Some Not_Supported, []))"

section \<open>The reasoner\<close>

text \<open>The answers of the model to the question and to the repair, \<open>None\<close> when the call raises; the result is \<open>None\<close>
  when the reasoner raises.\<close>

definition read_json :: "(string \<Rightarrow> pyval option) \<Rightarrow> pyval option \<Rightarrow> pyval option" where
  "read_json loads r = (case r of Some (VStr s) \<Rightarrow> loads s | _ \<Rightarrow> None)"

definition fallback_answer :: "orch_libs \<Rightarrow> pydict \<Rightarrow> pyval \<Rightarrow> pydict option" where
  "fallback_answer l snap price =
     (let symbol = py_str l (dget ''symbol'' snap (VStr ''?'')); confidence = dget ''confidence'' snap (VInt 0) in
      map_option (\<lambda>x.
        [(''symbol'', dget ''symbol'' snap (VStr ''?'')), (''content'', VStr (''Signal for '' @ symbol)),
         (''score'', confidence), (''confidence'', confidence),
         (''explanation'', VStr (''Detected '' @ py_str l (dget ''signal_type'' snap (VStr [])) @ '' with confidence '' @ py_str l confidence)),
         (''entry'', price), (''tp'', dget ''tp'' snap VNone), (''sl'', dget ''sl'' snap VNone),
         (''recommendation'', VStr (if x > 80 then ''enter'' else ''do_nothing'')),
         (''summary'', VStr ''Fallback summary: insufficient data or LLM unavailable.'')]) (as_number confidence))"

definition reason_from_snapshot ::
    "orch_libs \<Rightarrow> (string \<Rightarrow> pyval option) \<Rightarrow> pyval option \<Rightarrow> pyval option \<Rightarrow> pydict \<Rightarrow> pyval option" where
  "reason_from_snapshot l loads output repaired snap =
     do { price \<leftarrow> vget ''close'' (dget ''price_data'' snap (VDict [])) VNone;
          case read_json loads output of
            Some v \<Rightarrow> Some v
          | None \<Rightarrow>
              (case (if output = None then None else read_json loads repaired) of
                 Some v \<Rightarrow> Some v
               | None \<Rightarrow> map_option VDict (fallback_answer l snap price)) }"

text \<open>The reasoner with the client it makes itself: its repair always raises.\<close>

definition default_reasoner ::
    "orch_libs \<Rightarrow> (string \<Rightarrow> pyval option) \<Rightarrow> (pydict \<Rightarrow> nat \<Rightarrow> chat_answer) \<Rightarrow> pydict \<Rightarrow> pyval option" where
  "default_reasoner l loads post snap =
     reason_from_snapshot l loads
       (case fst (llm_complete ''openai'' post (py_str l (VDict snap)) []) of Inl _ \<Rightarrow> None | Inr v \<Rightarrow> Some v) None snap"

text \<open>The adapter of the orchestrator; \<open>err\<close> is the text of an exception.\<close>

definition reasoner_call ::
    "orch_libs \<Rightarrow> (pydict \<Rightarrow> pyval option) \<Rightarrow> string \<Rightarrow> pyval \<Rightarrow> pyval \<Rightarrow> pyval \<Rightarrow> pyval" where
  "reasoner_call l reasoner err prompt sig dec =
     (let of_dict = (\<lambda>v. case v of VDict d \<Rightarrow> d | _ \<Rightarrow> []);
          snap = update_all (of_dict dec) (update_all (of_dict sig) []);
          snap' = (if prompt = VNone then snap
                   else set_default ''summary'' (VStr (py_str l prompt)) (set_default ''prompt'' prompt snap))
      in case reasoner snap' of None \<Rightarrow> VDict [(''error'', VStr err)] | Some v \<Rightarrow> v)"

section \<open>The schema of a decision\<close>

record triggers =
  tr_entry_condition :: pyval
  tr_take_profits :: "rat list"
  tr_stop_loss :: "rat option"

record model_decision =
  md_symbol :: string
  md_snapshot_ts_ms :: pyval
  md_bias :: string
  md_confidence :: rat
  md_recommendation :: string
  md_triggers :: triggers
  md_drivers :: "pyval list"
  md_caveats :: "pyval list"
  md_summary :: string
  md_versions :: pydict

definition clip_confidence :: "orch_libs \<Rightarrow> pyval \<Rightarrow> rat option" where
  "clip_confidence l v = map_option (\<lambda>x. min (max x 0) 1) (to_float l v)"

fun floats_of :: "orch_libs \<Rightarrow> pyval list \<Rightarrow> rat list option" where
  "floats_of l [] = Some []"
| "floats_of l (v # vs) = do { x \<leftarrow> to_float l v; xs \<leftarrow> floats_of l vs; Some (x # xs) }"

definition coerce_triggers :: "orch_libs \<Rightarrow> pyval \<Rightarrow> triggers option" where
  "coerce_triggers l v =
     (case v of
        VDict d \<Rightarrow>
          (if \<not> set (map fst d) \<subseteq> {''entry_condition'', ''take_profits'', ''stop_loss''} then None
           else do { tps \<leftarrow> iterate (or_else (dget ''take_profits'' d VNone) (VList []));
                     xs \<leftarrow> floats_of l tps;
                     sl \<leftarrow> (if dget ''stop_loss'' d VNone = VNone then Some None
                           else map_option Some (to_float l (dget ''stop_loss'' d VNone)));
                     Some \<lparr>tr_entry_condition = dget ''entry_condition'' d VNone, tr_take_profits = xs, tr_stop_loss = sl\<rparr> })
      | _ \<Rightarrow> None)"

definition coerce_versions :: "pyval \<Rightarrow> pydict option" where
  "coerce_versions v =
     (case v of
        VDict d \<Rightarrow> (if set (map fst d) \<subseteq> {''reasoner_version'', ''strategy_version''}
                   then Some [(''reasoner_version'', dget ''reasoner_version'' d VNone),
                              (''strategy_version'', dget ''strategy_version'' d VNone)] else None)
      | _ \<Rightarrow> None)"

definition md_text :: "string \<Rightarrow> pydict \<Rightarrow> string option" where
  "md_text k d = (case map_of d k of Some (VStr s) \<Rightarrow> Some s | _ \<Rightarrow> None)"

definition md_list :: "string \<Rightarrow> pydict \<Rightarrow> pyval list option" where
  "md_list k d = (case map_of d k of Some (VList xs) \<Rightarrow> Some xs | _ \<Rightarrow> None)"

text \<open>\<open>None\<close> when building the model raises.\<close>

definition parse_decision :: "orch_libs \<Rightarrow> pydict \<Rightarrow> model_decision option" where
  "parse_decision l d =
     do { symbol \<leftarrow> md_text ''symbol'' d; ts \<leftarrow> map_of d ''snapshot_ts_ms''; bias \<leftarrow> md_text ''bias'' d;
          c \<leftarrow> map_of d ''confidence''; conf \<leftarrow> clip_confidence l c; recommendation \<leftarrow> md_text ''recommendation'' d;
          t \<leftarrow> map_of d ''triggers''; tr \<leftarrow> coerce_triggers l t;
          drivers \<leftarrow> md_list ''drivers'' d; caveats \<leftarrow> md_list ''caveats'' d; summary \<leftarrow> md_text ''summary'' d;
          v \<leftarrow> map_of d ''versions''; versions \<leftarrow> coerce_versions v;
          if drivers = [] then None
          else Some \<lparr>md_symbol = symbol, md_snapshot_ts_ms = ts, md_bias = bias, md_confidence = conf,
                     md_recommendation = recommendation, md_triggers = tr, md_drivers = drivers, md_caveats = caveats,
                     md_summary = summary, md_versions = versions\<rparr> }"

text \<open>The validators of an outcome.\<close>

definition validate_outcome_fields :: "orch_libs \<Rightarrow> pydict \<Rightarrow> (string \<times> string \<times> rat \<times> rat \<times> rat) option" where
  "validate_outcome_fields l d =
     do { outcome \<leftarrow> md_text ''outcome'' d; reason \<leftarrow> md_text ''exit_reason'' d;
          e \<leftarrow> map_of d ''entry_price''; entry \<leftarrow> to_float l e; x \<leftarrow> map_of d ''exit_price''; exit \<leftarrow> to_float l x;
          p \<leftarrow> map_of d ''pnl''; pnl \<leftarrow> to_float l p;
          if outcome \<in> {''win'', ''loss'', ''breakeven''} \<and> reason \<in> {''tp'', ''sl'', ''manual'', ''timeout''}
          then Some (outcome, reason, entry, exit, pnl) else None }"

section \<open>Completions\<close>

definition answer_content :: "chat_answer \<Rightarrow> pyval option" where
  "answer_content a = (case a of Http status (Some data) \<Rightarrow> if status = 200 then completion_content data else None | _ \<Rightarrow> None)"

definition failures_first :: "(nat \<Rightarrow> chat_answer) \<Rightarrow> nat \<Rightarrow> nat \<Rightarrow> nat" where
  "failures_first post i n = length (takeWhile (\<lambda>k. answer_content (post k) = None) [i..<i + n])"

lemma failures_step: "failures_first post i (Suc n) = (if answer_content (post i) = None then Suc (failures_first post (Suc i) n) else 0)"
  by (simp add: failures_first_def upt_rec[of i])

lemma attempts_exact:
  "complete_attempts post n i =
     ((if failures_first post i n < n then answer_content (post (i + failures_first post i n)) else None),
      map (\<lambda>k. 2 ^ (i + k)) [0..<failures_first post i n])"
proof (induction n arbitrary: i)
  case 0
  then show ?case by (simp add: failures_first_def)
next
  case (Suc n)
  have shift: "map (\<lambda>k. 2 ^ (i + k)) [0..<Suc m] = 2 ^ i # map (\<lambda>k. (2::nat) ^ (Suc i + k)) [0..<m]" for m
    by (simp add: upt_conv_Cons map_Suc_upt[symmetric] comp_def del: upt_Suc)
  have "complete_attempts post (Suc n) i = (case answer_content (post i) of Some content \<Rightarrow> (Some content, [])
      | None \<Rightarrow> (let (r, slept) = complete_attempts post n (i + 1) in (r, 2 ^ i # slept)))"
    by (simp add: answer_content_def)
  then show ?case
    by (cases "answer_content (post i)") (simp_all add: Suc.IH failures_step shift Let_def del: upt_Suc)
qed

lemma powers_sum: "sum_list (map (\<lambda>k. (2::nat) ^ k) [0..<n]) = 2 ^ n - 1"
  by (induction n) (simp_all add: Suc_leI)

text \<open>C40: a completion is the content of the first of at most three requests that answers one, and raises
  when none does; the client sleeps one second less than two to the number of failed requests.\<close>

theorem completion_exact:
  "let answers = post (openai_payload False prompt kwargs); k = failures_first answers 0 3 in
   fst (openai_complete post prompt kwargs) =
     completion_result (if k < 3 then answer_content (answers k) else None) \<and>
   sum_list (snd (openai_complete post prompt kwargs)) = 2 ^ k - 1"
  by (simp add: openai_complete_def attempts_exact powers_sum Let_def)

section \<open>Streams\<close>

text \<open>A stream that breaks off is started again, and what was delivered is delivered again.\<close>

theorem stream_repeats:
  assumes "post (openai_payload True prompt kwargs) 0 = Stream 200 ls True"
    "post (openai_payload True prompt kwargs) 1 = Stream 200 (ls @ rest) False"
  shows "llm_stream loads ''openai'' post prompt kwargs =
    (stream_deltas loads ls @ stream_deltas loads ls @ stream_deltas loads rest, None, [1])"
  using assms by (simp add: llm_stream_def openai_stream_complete_def run_stream_def numeral_3_eq_3 stream_deltas_def map_filter_def Let_def)

section \<open>The reasoner\<close>

text \<open>Whatever the model does, a snapshot with a dictionary of prices and a confidence that is a number gets an
  answer: what the model or its repair wrote as JSON, of any type, else the fallback.\<close>

theorem reasoner_answers:
  assumes "dget ''price_data'' snap (VDict []) = VDict prices" "as_number (dget ''confidence'' snap (VInt 0)) = Some x"
  shows "\<exists>v. reason_from_snapshot l loads output repaired snap = Some v \<and>
    (read_json loads output = Some v \<or> read_json loads repaired = Some v \<or>
     Some v = map_option VDict (fallback_answer l snap (dget ''close'' prices VNone)))"
  using assms
  by (auto simp: reason_from_snapshot_def vget_def fallback_answer_def Let_def split: option.split if_splits)

text \<open>The fallback is not a decision of the schema.\<close>

theorem fallback_not_a_decision: "fallback_answer l snap price = Some d \<Longrightarrow> parse_decision l d = None"
  by (auto simp: fallback_answer_def parse_decision_def md_text_def Let_def split: pyval.splits)

section \<open>The schema\<close>

text \<open>What the schema accepts has a confidence between 0 and 1 and at least one driver.\<close>

theorem parsed_decision_valid:
  assumes "parse_decision l d = Some m"
  shows "0 \<le> md_confidence m \<and> md_confidence m \<le> 1 \<and> md_drivers m \<noteq> []"
  using assms
  by (auto simp: parse_decision_def clip_confidence_def split: bind_splits if_splits)

end
