(* ===== verification/Alert_Service.thy ===== *)
theory Alert_Service
  imports Alert_Memory Llm_Service
begin

text \<open>
  What surrounds the alert memory (\<open>ict_trading_system/backend/memory_service.py\<close>): the cached script, the
  registry of symbols, the locks, the counters, the reasoning about a symbol and the replay of alerts; and the
  webhook of TradingView with its question to the language model (\<open>backend/main.py\<close>, \<open>backend/ai_agent.py\<close>).

  Parameters: the commands of Redis, JSON, the conversions, the answers of the model, the database and
  Telegram. The expiry times of the keys are left out, but a lock may expire at any moment.
\<close>

section \<open>The cached script\<close>

text \<open>Whether the process has cached the hash of the script, and whether the server knows the script.\<close>

record script_state =
  sc_cached :: bool
  sc_loaded :: bool

definition get_store_alert_sha :: "(nat \<Rightarrow> bool) \<Rightarrow> script_state \<Rightarrow> bool \<times> script_state" where
  "get_store_alert_sha loads st =
     (if sc_cached st then (True, st)
      else if loads 0 \<or> loads 1 then (True, \<lparr>sc_cached = True, sc_loaded = True\<rparr>)
      else (False, st))"

text \<open>The error of a server that does not know the script arrives as the error of \<open>redis_op\<close>, which the handler
  that would load it does not catch.\<close>

definition store_alert_cached ::
    "'s redis \<Rightarrow> memory_libs \<Rightarrow> (nat \<Rightarrow> bool) \<Rightarrow> alert \<Rightarrow> nat option \<Rightarrow> script_state \<times> 's \<Rightarrow> bool \<times> script_state \<times> 's" where
  "store_alert_cached r ml loads a cap st =
     (let (sc, s) = st in
      if at_symbol a = [] \<or> at_tf a = [] then (False, sc, s)
      else (let (got, sc1) = get_store_alert_sha loads sc in
            if \<not> got \<or> \<not> sc_loaded sc1 then (False, sc1, s)
            else (let (stored, s') = store_alert r ml a cap s in (stored, sc1, s'))))"

definition store_all ::
    "'s redis \<Rightarrow> memory_libs \<Rightarrow> (nat \<Rightarrow> bool) \<Rightarrow> alert list \<Rightarrow> script_state \<times> 's \<Rightarrow> bool list \<times> script_state \<times> 's" where
  "store_all r ml loads as st =
     fold (\<lambda>a (bs, st). let (b, st') = store_alert_cached r ml loads a None st in (bs @ [b], st')) as ([], st)"

section \<open>The registry of symbols\<close>

record 's symbol_registry =
  sr_add :: "string \<Rightarrow> 's \<Rightarrow> 's"
  sr_see :: "string \<Rightarrow> string \<Rightarrow> 's \<Rightarrow> 's"
  sr_members :: "'s \<Rightarrow> string list"
  sr_last_seen :: "string \<Rightarrow> 's \<Rightarrow> string option"
  sr_remove :: "string \<Rightarrow> 's \<Rightarrow> 's"

definition register_commands :: "'s symbol_registry \<Rightarrow> int \<Rightarrow> string \<Rightarrow> 's \<Rightarrow> 's" where
  "register_commands r now symbol s = sr_see r symbol (show_int now) (sr_add r symbol s)"

text \<open>The commands are queued in a pipeline. The coroutine that would execute them is the last part of a tuple;
  \<open>redis_op\<close> awaits a coroutine, and a tuple is none, so with an asynchronous client nothing is executed.\<close>

definition register_symbol :: "bool \<Rightarrow> 's symbol_registry \<Rightarrow> int \<Rightarrow> string \<Rightarrow> 's \<Rightarrow> 's" where
  "register_symbol asynchronous r now symbol s = (if asynchronous then s else register_commands r now symbol s)"

definition stale_symbol :: "orch_libs \<Rightarrow> 's symbol_registry \<Rightarrow> int \<Rightarrow> int \<Rightarrow> 's \<Rightarrow> string \<Rightarrow> bool" where
  "stale_symbol l r now max_age s symbol \<longleftrightarrow>
     (case sr_last_seen r symbol s of
        None \<Rightarrow> True
      | Some raw \<Rightarrow> raw = [] \<or> (case ol_parse_int l raw of None \<Rightarrow> True | Some ts \<Rightarrow> now - ts > max_age))"

definition prune_symbol_registry :: "orch_libs \<Rightarrow> 's symbol_registry \<Rightarrow> int \<Rightarrow> int \<Rightarrow> 's \<Rightarrow> nat \<times> 's" where
  "prune_symbol_registry l r now max_age s =
     fold (\<lambda>symbol (removed, s). if stale_symbol l r now max_age s symbol then (removed + 1, sr_remove r symbol s) else (removed, s))
       (sr_members r s) (0, s)"

section \<open>Locks\<close>

record 's lock_redis =
  lk_get :: "string \<Rightarrow> 's \<Rightarrow> string option"
  lk_set_nx :: "string \<Rightarrow> string \<Rightarrow> 's \<Rightarrow> bool \<times> 's"
  lk_del :: "string \<Rightarrow> 's \<Rightarrow> 's"

text \<open>\<open>works\<close> tells whether the command reaches Redis.\<close>

definition acquire_lock :: "'s lock_redis \<Rightarrow> bool \<Rightarrow> string \<Rightarrow> string \<Rightarrow> 's \<Rightarrow> string option \<times> 's" where
  "acquire_lock r works key token s =
     (if \<not> works then (None, s)
      else (let (set_ok, s') = lk_set_nx r key token s in (if set_ok then Some token else None, s')))"

definition unlock_script :: "'s lock_redis \<Rightarrow> string \<Rightarrow> string \<Rightarrow> 's \<Rightarrow> bool \<times> 's" where
  "unlock_script r key token s = (if lk_get r key s = Some token then (True, lk_del r key s) else (False, s))"

text \<open>The second try is made when the first raises; that it raises because the script is unknown cannot be seen
  behind \<open>redis_op\<close>.\<close>

definition release_lock :: "'s lock_redis \<Rightarrow> (nat \<Rightarrow> bool) \<Rightarrow> string \<Rightarrow> string \<Rightarrow> 's \<Rightarrow> bool \<times> 's" where
  "release_lock r works key token s =
     (if works 0 \<or> works 1 then unlock_script r key token s else (False, s))"

section \<open>Counters\<close>

type_synonym counters = "(string \<times> rat) list"

definition add_counter :: "string \<Rightarrow> rat \<Rightarrow> counters \<Rightarrow> counters" where
  "add_counter k x c = AList.update k (dget k c 0 + x) c"

definition record_metric :: "bool \<Rightarrow> string \<Rightarrow> rat \<Rightarrow> counters \<Rightarrow> counters" where
  "record_metric works name x c = (if works then add_counter (''metrics:'' @ name) x c else c)"

text \<open>The counters of a fused snapshot; the fill of a window is added to what was there.\<close>

definition fill_ratio :: "string \<times> nat \<Rightarrow> rat" where
  "fill_ratio w = of_nat (snd w) / of_nat (window_cap (fst w))"

definition fuse_metrics :: "string \<Rightarrow> int \<Rightarrow> int \<Rightarrow> (string \<times> nat) list \<Rightarrow> counters \<Rightarrow> counters" where
  "fuse_metrics symbol latency_ms age windows c =
     (let c1 = add_counter ''metrics:fuse_count'' 1 c;
          c2 = add_counter (''metrics:fuse_latency_count:'' @ symbol) 1 c1;
          c3 = add_counter (''metrics:fuse_latency_sum_ms:'' @ symbol) (of_int latency_ms) c2;
          c4 = AList.update (''metrics:snapshot_age_ms:'' @ symbol) (of_int age) c3
      in fold (\<lambda>w. add_counter (''metrics:rb_fill_ratio:'' @ symbol @ '':'' @ fst w) (fill_ratio w)) windows c4)"

definition ingest_metrics :: "bool \<Rightarrow> string \<Rightarrow> bool \<Rightarrow> counters \<Rightarrow> counters" where
  "ingest_metrics works symbol stored c =
     (if stored
      then record_metric works (''alerts.per_symbol:'' @ symbol) 1
             (record_metric works (''alerts.symbol:'' @ symbol) 1 (record_metric works ''alerts.ingested'' 1 c))
      else record_metric works (''alerts.duplicate:'' @ symbol) 1 (record_metric works ''alerts.duplicate'' 1 c))"

section \<open>Analytics and reasoning\<close>

definition compute_trend_acceleration :: "'s redis \<Rightarrow> memory_libs \<Rightarrow> string \<Rightarrow> string \<Rightarrow> nat \<Rightarrow> 's \<Rightarrow> rat" where
  "compute_trend_acceleration r ml symbol tf lookback s =
     trend_acceleration (fetch_window r ml symbol tf (Some lookback) s) lookback"

definition volatility_of_symbol :: "'s redis \<Rightarrow> memory_libs \<Rightarrow> string \<Rightarrow> 's \<Rightarrow> rat" where
  "volatility_of_symbol r ml symbol s =
     compute_volatility_index ml (map (\<lambda>tf. (tf, fetch_window r ml symbol tf (Some 20) s)) TF_ORDER)"

text \<open>The biases of the entries that can be read; an entry that is no dictionary is skipped.\<close>

definition compute_bias_shift_rate :: "'s redis \<Rightarrow> (string \<Rightarrow> pyval option) \<Rightarrow> string \<Rightarrow> nat \<Rightarrow> 's \<Rightarrow> rat" where
  "compute_bias_shift_rate r loads symbol lookback s =
     bias_shift_rate (List.map_filter (\<lambda>raw. Option.bind (loads raw) (\<lambda>v. vget ''bias'' v VNone))
       (rd_lrange r (''bias_hist:'' @ symbol) lookback s))"

text \<open>The decision and the counters; \<open>None\<close> without a snapshot, \<open>Some None\<close> when reading or reasoning raises.\<close>

definition reason_from_symbol ::
    "'s redis \<Rightarrow> (string \<Rightarrow> pyval option) \<Rightarrow> (pydict \<Rightarrow> pyval option) \<Rightarrow> string \<Rightarrow> 's \<Rightarrow> counters \<Rightarrow> pyval option option \<times> counters" where
  "reason_from_symbol r loads reasoner symbol s c =
     (case rd_get r (''fuse:'' @ symbol) s of
        None \<Rightarrow> (None, c)
      | Some raw \<Rightarrow>
          (if raw = [] then (None, c)
           else case loads raw of
                  Some (VDict snap) \<Rightarrow>
                    (case reasoner snap of
                       None \<Rightarrow> (Some None, c)
                     | Some d \<Rightarrow> (Some (Some d), record_metric True (''decisions:'' @ symbol) 1 c))
                | _ \<Rightarrow> (Some None, c)))"

text \<open>One answer for each alert, \<open>None\<close> for a duplicate and for one that raises.\<close>

definition replay_answer :: "alert_result \<Rightarrow> fused option" where
  "replay_answer a = (case a of alert_result.Accepted snap \<Rightarrow> snap | _ \<Rightarrow> None)"

definition replay_alerts ::
    "'s redis \<Rightarrow> memory_libs \<Rightarrow> snapshot_json \<Rightarrow> bool \<Rightarrow> int \<Rightarrow> pydict list \<Rightarrow> 's \<Rightarrow> fused option list \<times> 's" where
  "replay_alerts r ml js lock_free now alerts s =
     fold (\<lambda>p (out, s). let (a, s') = on_new_alert r ml js lock_free now p s in (out @ [replay_answer a], s')) alerts ([], s)"

section \<open>The webhook of TradingView\<close>

definition single_to_double :: "string \<Rightarrow> string" where
  "single_to_double = map (\<lambda>c. if of_char c = (39 :: nat) then char_of (34 :: nat) else c)"

definition with_entry :: "pydict \<Rightarrow> int \<Rightarrow> string \<Rightarrow> pyval" where
  "with_entry d score text =
     VDict [(''score'', VInt score), (''explanation'', VStr text), (''entry'', dget ''entry'' d (VStr ''N/A''))]"

text \<open>The key of the service, its answer (\<open>Inl\<close>: the text of an exception, \<open>Inr\<close>: status, text, content) and JSON.\<close>

definition analyze_trade_signal ::
    "(string \<Rightarrow> pyval option) \<Rightarrow> string \<Rightarrow> string + int \<times> string \<times> string \<Rightarrow> pydict \<Rightarrow> pyval" where
  "analyze_trade_signal loads key answer d =
     (if key = [] \<or> prefix ''sk-REPLACE'' key
      then with_entry d 90 ''This is a high-confidence setup based on confluence and session context.''
      else case answer of
             Inl err \<Rightarrow> with_entry d 80 (''AI error: '' @ err)
           | Inr (status, body, content) \<Rightarrow>
               (if status \<noteq> 200 then with_entry d 80 (''OpenAI error: '' @ show_int status @ '' '' @ body)
                else case loads (single_to_double content) of
                       Some v \<Rightarrow> v
                     | None \<Rightarrow> with_entry d 80 content))"

datatype webhook_result = Invalid_Payload | Webhook_Ok nat bool pyval

definition alert_columns :: "string list" where
  "alert_columns = [''symbol'', ''tf'', ''side'', ''score'', ''entry'', ''sl'', ''tp'', ''session'', ''htf_mid'', ''regime'', ''choch_up'',
     ''choch_down'', ''bos_up'', ''bos_down'']"

text \<open>The rows of the table of alerts, the number of messages; the identifier is the place of the row from 1.\<close>

definition tradingview_webhook ::
    "pyval option \<Rightarrow> pyval \<Rightarrow> bool \<Rightarrow> (nat \<Rightarrow> bool) \<Rightarrow> bool \<Rightarrow> pydict list \<times> nat \<Rightarrow> webhook_result \<times> pydict list \<times> nat" where
  "tradingview_webhook body ai commits sends token st =
     (let (rows, sent) = st in
      case body of
        Some (VDict d) \<Rightarrow>
          (if \<not> commits then (Invalid_Payload, rows, sent)
           else (let rows' = rows @ [map (\<lambda>k. (k, dget k d VNone)) alert_columns] in
                 case ai of
                   VDict a \<Rightarrow>
                     (if \<not> token then (Webhook_Ok (length rows') False ai, rows', sent)
                      else (Webhook_Ok (length rows') (sends sent \<and> sends (sent + 1)) ai, rows', sent + 2))
                 | _ \<Rightarrow> (Invalid_Payload, rows', sent)))
      | _ \<Rightarrow> (Invalid_Payload, rows, sent))"

end
