(* ===== verification/Alert_Service_Props.thy ===== *)
theory Alert_Service_Props
  imports Alert_Service Alert_Memory_Props
begin

text \<open>
  The cached script after the server has forgotten it, the pruning of the registry, the locks over any run of
  clients, the counter of the fill ratio, and the webhook.
\<close>

section \<open>The cached script\<close>

lemma forgotten_step:
  "sc_cached sc \<Longrightarrow> \<not> sc_loaded sc \<Longrightarrow> store_alert_cached r ml loads a cap (sc, s) = (False, sc, s)"
  by (simp add: store_alert_cached_def get_store_alert_sha_def)

text \<open>Once the process has cached the hash and the server has forgotten the script, no
  alert is stored any more: each is refused like a duplicate, and nothing changes.\<close>

theorem forgotten_script_loses_alerts:
  assumes "sc_cached sc" "\<not> sc_loaded sc"
  shows "store_all r ml loads as (sc, s) = (replicate (length as) False, sc, s)"
proof -
  have "fold (\<lambda>a (bs, st). let (b, st') = store_alert_cached r ml loads a None st in (bs @ [b], st')) as (bs, (sc, s)) =
      (bs @ replicate (length as) False, sc, s)" for bs
  proof (induction as arbitrary: bs)
    case (Cons a as)
    then show ?case by (simp add: forgotten_step[OF assms] Let_def)
  qed simp
  from this[of "[]"] show ?thesis by (simp add: store_all_def)
qed

theorem forgotten_script_loses_alerts_witness:
  "store_all table_redis tick_libs (\<lambda>_. True) [tick 1, tick 2] (\<lparr>sc_cached = True, sc_loaded = False\<rparr>, s) =
     ([False, False], \<lparr>sc_cached = True, sc_loaded = False\<rparr>, s)"
  using forgotten_script_loses_alerts[of "\<lparr>sc_cached = True, sc_loaded = False\<rparr>" table_redis tick_libs "\<lambda>_. True" "[tick 1, tick 2]" s]
  by (simp add: numeral_2_eq_2)

section \<open>The registry\<close>

text \<open>Documented behaviour of the set and the hashes: removing a symbol takes it out of the set and leaves the rest
  of the registry alone.\<close>

definition registry_ok :: "'s symbol_registry \<Rightarrow> bool" where
  "registry_ok r \<longleftrightarrow> (\<forall>s. distinct (sr_members r s)) \<and>
     (\<forall>s x. sr_members r (sr_remove r x s) = filter (\<lambda>y. y \<noteq> x) (sr_members r s)) \<and>
     (\<forall>s x y. sr_last_seen r y (sr_remove r x s) = sr_last_seen r y s)"

lemma stale_removed: "registry_ok r \<Longrightarrow> stale_symbol l r now age (sr_remove r x s) y = stale_symbol l r now age s y"
  by (simp add: registry_ok_def stale_symbol_def)

lemma prune_fold:
  assumes "registry_ok r" "distinct xs"
  shows "case fold (\<lambda>symbol (removed, s). if stale_symbol l r now age s symbol then (removed + 1, sr_remove r symbol s) else (removed, s)) xs (n, s) of
    (m, s') \<Rightarrow> m = n + length (filter (stale_symbol l r now age s) xs) \<and>
      sr_members r s' = filter (\<lambda>y. y \<notin> set (filter (stale_symbol l r now age s) xs)) (sr_members r s) \<and>
      (\<forall>y. sr_last_seen r y s' = sr_last_seen r y s)"
  using assms(2)
proof (induction xs arbitrary: n s)
  case (Cons x xs)
  show ?case
  proof (cases "stale_symbol l r now age s x")
    case True
    have "stale_symbol l r now age (sr_remove r x s) = stale_symbol l r now age s" using stale_removed[OF assms(1)] by blast
    then show ?thesis
      using Cons.IH[of "n + 1" "sr_remove r x s"] Cons.prems True assms(1)
      by (auto simp: registry_ok_def filter_filter intro!: filter_cong split: prod.splits)
  next
    case False
    then show ?thesis using Cons.IH[of n s] Cons.prems by (simp split: prod.splits)
  qed
qed simp

text \<open>Pruning keeps exactly the symbols whose last sighting can be read and is not older than the limit,
  in their order, and answers the number of the others.\<close>

theorem prune_exact:
  assumes "registry_ok r"
  shows "let (n, s') = prune_symbol_registry l r now age s in
    sr_members r s' = filter (\<lambda>y. \<not> stale_symbol l r now age s y) (sr_members r s) \<and>
    n + length (sr_members r s') = length (sr_members r s)"
proof -
  have d: "distinct (sr_members r s)" using assms by (simp add: registry_ok_def)
  have keep: "filter (\<lambda>y. y \<in> set (sr_members r s) \<longrightarrow> \<not> stale_symbol l r now age s y) (sr_members r s) =
      filter (\<lambda>y. \<not> stale_symbol l r now age s y) (sr_members r s)"
    by (rule filter_cong) auto
  show ?thesis
    using prune_fold[OF assms d, where l = l and now = now and age = age and n = 0 and s = s] sum_length_filter_compl[where P = "stale_symbol l r now age s" and xs = "sr_members r s"]
    by (simp add: prune_symbol_registry_def keep split: prod.splits)
qed

definition table_registry :: "(string list \<times> (string \<Rightarrow> string option)) symbol_registry" where
  "table_registry = \<lparr>sr_add = (\<lambda>x (xs, h). (List.insert x xs, h)), sr_see = (\<lambda>x t (xs, h). (xs, h(x := Some t))),
     sr_members = (\<lambda>(xs, h). remdups xs), sr_last_seen = (\<lambda>x (xs, h). h x), sr_remove = (\<lambda>x (xs, h). (filter (\<lambda>y. y \<noteq> x) xs, h))\<rparr>"

theorem prune_exact_witness:
  "let l = \<lparr>ol_parse_int = (\<lambda>t. if t = ''5'' then Some 5 else None), ol_parse_float = (\<lambda>_. None), ol_str = (\<lambda>_. []), ol_json_file = (\<lambda>_. None)\<rparr>;
       (n, s') = prune_symbol_registry l table_registry 10 60 ([''EURUSD'', ''XAUUSD''], [''EURUSD'' \<mapsto> ''5'', ''XAUUSD'' \<mapsto> ''?''])
   in sr_members table_registry s' = [''EURUSD''] \<and> n = 1"
proof -
  define l :: orch_libs where
    "l = \<lparr>ol_parse_int = (\<lambda>t. if t = ''5'' then Some 5 else None), ol_parse_float = (\<lambda>_. None), ol_str = (\<lambda>_. []), ol_json_file = (\<lambda>_. None)\<rparr>"
  have "registry_ok table_registry"
    by (auto simp: registry_ok_def table_registry_def remdups_filter)
  from prune_exact[OF this, of l 10 60 "([''EURUSD'', ''XAUUSD''], [''EURUSD'' \<mapsto> ''5'', ''XAUUSD'' \<mapsto> ''?''])"]
  show ?thesis
    unfolding l_def[symmetric] by (auto simp: table_registry_def stale_symbol_def Let_def split: prod.splits) (simp_all add: l_def)
qed

text \<open>With an asynchronous client no symbol is ever registered, whatever arrives.\<close>

theorem never_registered: "fold (\<lambda>(now, symbol). register_symbol True r now symbol) calls s = s"
  by (induction calls) (simp_all add: register_symbol_def split_beta)

section \<open>Locks\<close>

text \<open>Documented behaviour of GET, SET NX and DEL on the key of the lock.\<close>

definition lock_ok :: "'s lock_redis \<Rightarrow> string \<Rightarrow> bool" where
  "lock_ok r key \<longleftrightarrow>
     (\<forall>t s. fst (lk_set_nx r key t s) = (lk_get r key s = None)) \<and>
     (\<forall>t s. lk_get r key s = None \<longrightarrow> lk_get r key (snd (lk_set_nx r key t s)) = Some t) \<and>
     (\<forall>t s. lk_get r key s \<noteq> None \<longrightarrow> lk_get r key (snd (lk_set_nx r key t s)) = lk_get r key s) \<and>
     (\<forall>s. lk_get r key (lk_del r key s) = None)"

text \<open>Clients take and give back the lock with tokens of their own, and the lock may expire.\<close>

datatype lock_call = Take bool string | Give "nat \<Rightarrow> bool" string | Expire

datatype lock_event = Taken string | Given string | Expired

fun lock_step :: "'s lock_redis \<Rightarrow> string \<Rightarrow> lock_call \<Rightarrow> 's \<Rightarrow> lock_event list \<times> 's" where
  "lock_step r key (Take w t) s = (let (a, s') = acquire_lock r w key t s in (if a = None then [] else [Taken (the a)], s'))"
| "lock_step r key (Give w t) s = (let (b, s') = release_lock r w key t s in (if b then [Given t] else [], s'))"
| "lock_step r key Expire s = ([Expired], lk_del r key s)"

fun lock_run :: "'s lock_redis \<Rightarrow> string \<Rightarrow> lock_call list \<Rightarrow> 's \<Rightarrow> lock_event list" where
  "lock_run r key [] s = []"
| "lock_run r key (c # cs) s = (let (es, s') = lock_step r key c s in es @ lock_run r key cs s')"

text \<open>The lock is taken only when nobody has it, and given back only by the one who has it.\<close>

fun alternating :: "string option \<Rightarrow> lock_event list \<Rightarrow> bool" where
  "alternating h [] = True"
| "alternating h (Taken t # es) = (h = None \<and> alternating (Some t) es)"
| "alternating h (Given t # es) = (h = Some t \<and> alternating None es)"
| "alternating h (Expired # es) = alternating None es"

lemma lock_step_ok:
  assumes "lock_ok r key" "lock_step r key c s = (es, s')"
  shows "alternating (lk_get r key s) (es @ rest) = alternating (lk_get r key s') rest"
proof (cases c)
  case (Take w t)
  obtain b s1 where set: "lk_set_nx r key t s = (b, s1)" by fastforce
  have "b = (lk_get r key s = None)" "lk_get r key s = None \<Longrightarrow> lk_get r key s1 = Some t"
    "lk_get r key s \<noteq> None \<Longrightarrow> lk_get r key s1 = lk_get r key s"
    using assms(1) set unfolding lock_ok_def by (metis fst_conv, metis snd_conv, metis snd_conv)
  then show ?thesis
    using assms(2) Take set by (auto simp: acquire_lock_def split: if_splits)
next
  case (Give w t)
  then show ?thesis
    using assms by (auto simp: release_lock_def unlock_script_def lock_ok_def split: prod.splits if_splits)
next
  case Expire
  then show ?thesis using assms by (auto simp: lock_ok_def)
qed

text \<open>C39: whatever clients take and give back the lock in whatever order, with commands that fail and
  expiries at any moment, it is taken only while nobody holds it, and given back only by its holder.\<close>

theorem lock_exclusive:
  assumes "lock_ok r key" "lk_get r key s = None"
  shows "alternating None (lock_run r key calls s)"
proof -
  have "alternating (lk_get r key s) (lock_run r key calls s)" for s
  proof (induction calls arbitrary: s)
    case (Cons c calls)
    obtain es s' where step: "lock_step r key c s = (es, s')" by fastforce
    show ?case using lock_step_ok[OF assms(1) step] Cons.IH by (simp add: step)
  qed simp
  from this[of s] show ?thesis using assms(2) by simp
qed

definition table_lock :: "(string \<Rightarrow> string option) lock_redis" where
  "table_lock = \<lparr>lk_get = (\<lambda>k s. s k), lk_set_nx = (\<lambda>k t s. if s k = None then (True, s(k := Some t)) else (False, s)),
     lk_del = (\<lambda>k s. s(k := None))\<rparr>"

definition busy :: "lock_call list" where
  "busy = [Take True ''a'', Take True ''b'', Give (\<lambda>_. True) ''b'', Give (\<lambda>_. True) ''a'', Take True ''b'']"

theorem lock_exclusive_witness:
  "alternating None (lock_run table_lock ''lock'' busy (\<lambda>_. None)) \<and>
   lock_run table_lock ''lock'' busy (\<lambda>_. None) = [Taken ''a'', Given ''a'', Taken ''b'']"
proof -
  have "lock_ok table_lock ''lock''" by (simp add: lock_ok_def table_lock_def)
  moreover have "lk_get table_lock ''lock'' (\<lambda>_. None) = None" by (simp add: table_lock_def)
  ultimately have "alternating None (lock_run table_lock ''lock'' busy (\<lambda>_. None))" by (rule lock_exclusive)
  then show ?thesis
    by (simp add: busy_def acquire_lock_def release_lock_def unlock_script_def table_lock_def)
qed

section \<open>Counters and the webhook\<close>

text \<open>A second snapshot with the same window doubles its fill.\<close>

theorem fill_ratio_accumulates:
  "dget (''metrics:rb_fill_ratio:'' @ symbol @ '':'' @ tf)
     (fuse_metrics symbol ms age [(tf, n)] (fuse_metrics symbol ms age [(tf, n)] [])) 0 = 2 * fill_ratio (tf, n)"
  by (simp add: fuse_metrics_def add_counter_def dget_def update_conv' Let_def)

text \<open>An answer of the model that is no dictionary refuses the webhook after its alert was stored.\<close>

theorem stored_though_refused:
  assumes "\<forall>a. ai \<noteq> VDict a"
  shows "tradingview_webhook (Some (VDict d)) ai True sends token (rows, sent) =
    (Invalid_Payload, rows @ [map (\<lambda>k. (k, dget k d VNone)) alert_columns], sent)"
  using assms by (simp add: tradingview_webhook_def Let_def split: pyval.split)

end
