(* ===== verification/Policy_Remote.thy ===== *)
theory Policy_Remote
  imports Orch_Gate_Props
begin

text \<open>
  The remote policy backends of \<open>reasoner_service/policy_backends.py\<close> (HTTP, Redis, a chain of backends), a policy
  store with backends of its own, and the loading of a snapshot of performance metrics
  (\<open>reasoner_service/metrics_snapshot.py\<close>).

  Parameters: what the service and Redis answer, the hash of a context, JSON. A backend answers \<open>None\<close> when
  it raises, which the two remote ones never do.
\<close>

section \<open>Backends\<close>

datatype policy_reply = Policy_Raises | Policy_Status int "pyval option"

definition http_get_policy :: "policy_reply \<Rightarrow> pyval" where
  "http_get_policy r = (case r of Policy_Status status (Some v) \<Rightarrow> if status = 200 then v else VDict [] | _ \<Rightarrow> VDict [])"

record 's policy_cache =
  pk_connects :: "'s \<Rightarrow> bool"
  pk_get :: "string \<Rightarrow> 's \<Rightarrow> string option option"
  pk_setex :: "string \<Rightarrow> string \<Rightarrow> 's \<Rightarrow> 's option"
  pk_hash :: "pydict \<Rightarrow> string"
  pk_dumps :: "pyval \<Rightarrow> string option"
  pk_loads :: "string \<Rightarrow> pyval option"
  pk_prefix :: string

text \<open>The connection that was made once is kept.\<close>

definition ensure_connection :: "'s policy_cache \<Rightarrow> bool \<times> 's \<Rightarrow> bool \<times> 's" where
  "ensure_connection b st = (fst st \<or> pk_connects b (snd st), snd st)"

definition policy_key :: "'s policy_cache \<Rightarrow> string \<Rightarrow> pydict \<Rightarrow> string" where
  "policy_key b name ctx = pk_prefix b @ name @ '':'' @ pk_hash b ctx"

definition redis_get_policy :: "'s policy_cache \<Rightarrow> string \<Rightarrow> pydict \<Rightarrow> bool \<times> 's \<Rightarrow> pyval \<times> bool \<times> 's" where
  "redis_get_policy b name ctx st =
     (let st1 = ensure_connection b st in
      (if \<not> fst st1 then VDict []
       else case pk_get b (policy_key b name ctx) (snd st1) of
              Some (Some raw) \<Rightarrow>
                (if raw = [] then VDict [] else case pk_loads b raw of None \<Rightarrow> VDict [] | Some v \<Rightarrow> v)
            | _ \<Rightarrow> VDict [], st1))"

definition redis_set_policy :: "'s policy_cache \<Rightarrow> string \<Rightarrow> pydict \<Rightarrow> pyval \<Rightarrow> bool \<times> 's \<Rightarrow> bool \<times> bool \<times> 's" where
  "redis_set_policy b name ctx policy st =
     (let st1 = ensure_connection b st in
      if \<not> fst st1 then (False, st1)
      else case pk_dumps b policy of
             None \<Rightarrow> (False, st1)
           | Some raw \<Rightarrow>
               (case pk_setex b (policy_key b name ctx) raw (snd st1) of
                  None \<Rightarrow> (False, st1)
                | Some s \<Rightarrow> (True, True, s)))"

definition close_connection :: "bool \<times> 's \<Rightarrow> bool \<times> 's" where
  "close_connection st = (False, snd st)"

definition chained_get_policy :: "(string \<Rightarrow> pydict \<Rightarrow> pyval option) list \<Rightarrow> string \<Rightarrow> pydict \<Rightarrow> pyval" where
  "chained_get_policy backends name ctx = first_policy (map (\<lambda>b. b name ctx) backends)"

section \<open>The snapshot of metrics\<close>

text \<open>A key is a JSON list, or three texts between commas; the keys are lists, in the order of the file.\<close>

definition metrics_key :: "(string \<Rightarrow> pyval option) \<Rightarrow> string \<Rightarrow> pyval list option" where
  "metrics_key loads k =
     (if prefix ''['' k then (case loads k of Some (VList xs) \<Rightarrow> (if list_all py_hashable xs then Some xs else None) | _ \<Rightarrow> None)
      else (case map py_strip (split_at (CHR '','') k) of
              a # b # c # _ \<Rightarrow> Some [VStr a, VStr b, VStr c]
            | _ \<Rightarrow> None))"

definition load_metrics_snapshot :: "(string \<Rightarrow> pyval option) \<Rightarrow> pyval option \<Rightarrow> (pyval list \<times> pyval) list" where
  "load_metrics_snapshot loads raw =
     (case raw of
        Some (VDict d) \<Rightarrow>
          fold (\<lambda>(k, v) snap. case metrics_key loads k of None \<Rightarrow> snap | Some key \<Rightarrow> AList.update key v snap) d []
      | _ \<Rightarrow> [])"

text \<open>What the gate can look up: the keys of three parts.\<close>

definition snapshot_of_metrics :: "(pyval list \<times> pyval) list \<Rightarrow> ((pyval \<times> pyval \<times> pyval) \<times> pyval) list" where
  "snapshot_of_metrics snap = List.map_filter (\<lambda>(k, v). case k of [a, b, c] \<Rightarrow> Some ((a, b, c), v) | _ \<Rightarrow> None) snap"

section \<open>Properties\<close>

text \<open>Documented behaviour of SETEX and GET: a value that was set, and has not expired, is read back.\<close>

definition cache_ok :: "'s policy_cache \<Rightarrow> bool" where
  "cache_ok b \<longleftrightarrow> (\<forall>k v s s'. pk_setex b k v s = Some s' \<longrightarrow> pk_get b k s' = Some (Some v)) \<and>
     (\<forall>v raw. pk_dumps b v = Some raw \<longrightarrow> raw \<noteq> [] \<and> pk_loads b raw = Some v)"

text \<open>A policy that was stored for a context is what the backend answers for that name and
  context until it expires.\<close>

theorem cached_policy_read_back:
  assumes "cache_ok b" "redis_set_policy b name ctx policy st = (True, st')"
  shows "fst (redis_get_policy b name ctx st') = policy"
  using assms
  by (auto simp: redis_set_policy_def redis_get_policy_def ensure_connection_def cache_ok_def Let_def
      split: option.splits if_splits)

definition table_cache :: "(string \<Rightarrow> string option) policy_cache" where
  "table_cache = \<lparr>pk_connects = (\<lambda>_. True), pk_get = (\<lambda>k s. Some (s k)), pk_setex = (\<lambda>k v s. Some (s(k \<mapsto> v))), pk_hash = (\<lambda>_. ''h''),
     pk_dumps = (\<lambda>v. if v = VDict [(''active'', VBool True)] then Some ''{}'' else None),
     pk_loads = (\<lambda>s. Some (VDict [(''active'', VBool True)])), pk_prefix = ''policy:''\<rparr>"

theorem cached_policy_read_back_witness:
  "fst (redis_get_policy table_cache ''killzone'' []
     (snd (redis_set_policy table_cache ''killzone'' [] (VDict [(''active'', VBool True)]) (False, \<lambda>_. None)))) =
   VDict [(''active'', VBool True)]"
proof -
  have "cache_ok table_cache" by (auto simp: cache_ok_def table_cache_def)
  moreover have "redis_set_policy table_cache ''killzone'' [] (VDict [(''active'', VBool True)]) (False, \<lambda>_. None) =
      (True, snd (redis_set_policy table_cache ''killzone'' [] (VDict [(''active'', VBool True)]) (False, \<lambda>_. None)))"
    by (simp add: redis_set_policy_def ensure_connection_def table_cache_def Let_def)
  ultimately show ?thesis by (rule cached_policy_read_back)
qed

text \<open>A remote backend that cannot be reached is the same as none: the next backend decides.\<close>

theorem unreachable_is_absent:
  assumes "\<not> pk_connects b s"
  shows "chained_get_policy ((\<lambda>_ _. Some (http_get_policy Policy_Raises)) # (\<lambda>n c. Some (fst (redis_get_policy b n c (False, s)))) # bs) name ctx =
    chained_get_policy bs name ctx"
  using assms by (simp add: chained_get_policy_def http_get_policy_def redis_get_policy_def ensure_connection_def)

text \<open>The default store is such a chain.\<close>

theorem default_store_chained:
  "get_policy l cfg name ctx = chained_get_policy [\<lambda>n c. Some (config_backend cfg n), default_backend l] name ctx"
  by (simp add: get_policy_def chained_get_policy_def)

text \<open>A key with fewer than three parts is skipped, further parts are ignored.\<close>

theorem metrics_keys:
  "metrics_key loads ''EURUSD, smc ,London,x'' = Some [VStr ''EURUSD'', VStr ''smc'', VStr ''London'']"
  "metrics_key loads ''EURUSD,smc'' = None"
  by (simp_all add: metrics_key_def split_at_def py_strip_def strip_chars_def is_blank_def)

end
