(* ===== verification/Paper_Experiment.thy ===== *)
theory Paper_Experiment
  imports Orch_Gate_Props
begin

text \<open>
  The experiment of \<open>scripts/run_paper_experiment.py\<close>: synthetic decisions of two signal types run through an
  orchestrator with paper trading until the losing type has enough outcomes, then one more decision of that
  type, from whose answer the script reads whether it was vetoed.

  Parameters: the environment, the clock and the identifier of each decision, and the text that \<open>str\<close> gives
  for an answer. The printed summaries are left out.
\<close>

section \<open>The experiment\<close>

definition losing_signal :: string where "losing_signal = ''bearish_bos''"

definition control_signal :: string where "control_signal = ''bullish_choch''"

definition experiment_symbol :: string where "experiment_symbol = ''EURUSD''"

definition generate_synthetic_decision :: "string \<Rightarrow> int \<Rightarrow> string \<Rightarrow> string \<Rightarrow> pydict" where
  "generate_synthetic_decision i now_ms symbol signal_type =
     (let (entry, sl, tp) = (if symbol = ''EURUSD'' then (10850/10000, 10800/10000, 10900/10000 :: rat) else (100, 99, 101)) in
      [(''id'', VStr i), (''symbol'', VStr symbol), (''signal_type'', VStr signal_type), (''timeframe'', VStr ''4H''),
       (''direction'', VStr ''long''), (''entry_price'', VFloat entry), (''stop_loss_price'', VFloat sl),
       (''take_profit_price'', VFloat tp), (''model'', VStr ''test_model''), (''session'', VStr ''London''),
       (''ts_ms'', VInt now_ms), (''timestamp_ms'', VInt now_ms)])"

text \<open>The sample size: from the file of constraints when it has the section, else the argument.\<close>

definition sample_size :: "pydict \<Rightarrow> int \<Rightarrow> pyval" where
  "sample_size constraints arg =
     (case dget ''outcome_adaptation'' constraints VNone of VDict d \<Rightarrow> dget ''min_sample_size'' d (VInt arg) | _ \<Rightarrow> VInt arg)"

definition experiment_constraints :: "pyval \<Rightarrow> pyval \<Rightarrow> pydict" where
  "experiment_constraints seed min_sample =
     [(''paper_execution_adapter'', VDict [(''enabled'', VBool True), (''slippage_model'', VStr ''fixed_percent''),
        (''slippage_fixed_pct'', VFloat (5/100)), (''tpsl_model'', VStr ''instant''), (''seed'', seed),
        (''forced_outcome_enabled'', VBool True), (''forced_outcome_signal_types'', VList [VStr losing_signal]),
        (''forced_outcome_value'', VStr ''loss''), (''forced_outcome_probability'', VFloat 1)]),
      (''outcome_adaptation'', VDict [(''enabled'', VBool True), (''min_sample_size'', min_sample),
        (''suppress_if'', VDict [(''expectancy_r'', VFloat (-5/100))])])]"

record experiment_env =
  ex_decision :: "nat \<Rightarrow> decision_env"
  ex_now :: "nat \<Rightarrow> time"
  ex_id :: "nat \<Rightarrow> string"
  ex_str :: "decision_result option \<Rightarrow> string"

text \<open>The outcomes of a signal type, at most the 100 newest; \<open>None\<close> when the query fails.\<close>

definition collected :: "string \<Rightarrow> orchestrator \<Rightarrow> outcome_table option" where
  "collected signal_type o1 =
     (case oc_db o1 of
        Db table \<Rightarrow> Some (get_outcomes_by_signal_type experiment_symbol signal_type 100 (Some ''test_model'') (Some ''London'') (Some ''long'') table)
      | _ \<Rightarrow> None)"

definition run_decision :: "experiment_env \<Rightarrow> nat \<Rightarrow> string \<Rightarrow> orchestrator \<Rightarrow> decision_result option \<times> orchestrator" where
  "run_decision ex i signal_type o1 =
     process_decision (ex_decision ex i) (ex_now ex i)
       (generate_synthetic_decision (ex_id ex i) (ms_of (ex_now ex i)) experiment_symbol signal_type) True None o1"

text \<open>At most \<open>n\<close> more decisions; every third one is of the losing type.\<close>

primrec generate_outcomes :: "experiment_env \<Rightarrow> nat \<Rightarrow> nat \<Rightarrow> nat \<Rightarrow> orchestrator \<Rightarrow> nat \<times> orchestrator" where
  "generate_outcomes ex min_sample 0 i o1 = (i, o1)"
| "generate_outcomes ex min_sample (Suc n) i o1 =
     (let (r, o2) = run_decision ex i (if i mod 3 = 0 then losing_signal else control_signal) o1;
          enough = (case collected losing_signal o2 of None \<Rightarrow> False | Some os \<Rightarrow> os \<noteq> [] \<and> length os \<ge> min_sample)
      in if r \<noteq> None \<and> enough then (i + 1, o2) else generate_outcomes ex min_sample n (i + 1) o2)"

text \<open>The verdict, with the number of decisions before it.\<close>

definition run_experiment :: "experiment_env \<Rightarrow> nat \<Rightarrow> nat \<Rightarrow> orchestrator \<Rightarrow> nat \<times> bool" where
  "run_experiment ex max_decisions min_sample o1 =
     (let (n, o2) = generate_outcomes ex min_sample max_decisions 0 o1; r = fst (run_decision ex n losing_signal o2)
      in (n, r \<noteq> None \<and> sublist ''veto'' (py_lower (ex_str ex r))))"

section \<open>Properties\<close>

lemma generate_bound: "fst (generate_outcomes ex m n i o1) \<le> i + n \<and> (n > 0 \<longrightarrow> fst (generate_outcomes ex m n i o1) > i)"
proof (induction n arbitrary: i o1)
  case (Suc n)
  show ?case using Suc.IH[of "i + 1"] by (auto simp: Let_def split: prod.split) (metis Suc_leD Suc_le_eq less_or_eq_imp_le neq0_conv generate_outcomes.simps(1) fst_conv lessI)+
qed simp

text \<open>The constraints the gates and the paper trader read are only those of slippage and exit: no forced loss is
  ever applied.\<close>

theorem forced_outcomes_unread:
  assumes "oc_constraints o1 = experiment_constraints seed k"
  shows "\<exists>cfg. (case load_config ''paper_execution_adapter'' o1 of VDict c \<Rightarrow> adapter_config plain_libs c | _ \<Rightarrow> None) = Some cfg \<and>
    pc_tpsl_model cfg = ''instant'' \<and> pc_slippage_fixed_pct cfg = 5/100"
  using assms
  by (simp add: load_config_def experiment_constraints_def dget_def adapter_config_def to_float_def to_int_def)

text \<open>The experiment returns, after at most the given number of decisions.\<close>

theorem experiment_bounded: "fst (run_experiment ex max_decisions min_sample o1) \<le> max_decisions"
  using generate_bound[of ex min_sample max_decisions 0 o1] by (auto simp: run_experiment_def Let_def split: prod.split)

text \<open>A sample above 100 is never complete: the query that counts it answers at most 100 outcomes.\<close>

theorem large_sample_never_complete:
  assumes "min_sample > 100"
  shows "fst (generate_outcomes ex min_sample n i o1) = i + n"
proof (induction n arbitrary: i o1)
  case (Suc n)
  have "length os \<le> 100" if "collected losing_signal o2 = Some os" for o2 os
    using that by (auto simp: collected_def get_outcomes_by_signal_type_def split: outcome_db.splits)
  then have "\<not> (case collected losing_signal o2 of None \<Rightarrow> False | Some os \<Rightarrow> os \<noteq> [] \<and> length os \<ge> min_sample)" for o2
    using assms by (auto split: option.split) fastforce
  then show ?case using Suc.IH by (simp add: Let_def split: prod.split)
qed simp

text \<open>The verdict of the last decision does not depend on the gates: two orchestrators that leave the snapshot
  alone answer it alike, one that vetoes it and one that does not.\<close>

theorem verdict_ignores_gates:
  assumes "keeps_snapshot (ex_decision ex n) (ex_now ex n) d o1" "keeps_snapshot (ex_decision ex n) (ex_now ex n) d o2"
    "d = generate_synthetic_decision (ex_id ex n) (ms_of (ex_now ex n)) experiment_symbol losing_signal"
  shows "fst (run_decision ex n losing_signal o1) = fst (run_decision ex n losing_signal o2)"
  unfolding run_decision_def assms(3)[symmetric]
  by (simp only: process_result[OF assms(1)] process_result[OF assms(2)])

end
