(* ===== verification/Report_Texts.thy ===== *)
theory Report_Texts
  imports Orch_Decision "HOL-Library.List_Lexorder" "HOL-Library.Char_ord"
begin

text \<open>
  The texts and exports of two report services: the explanations and the export of an offline evaluation
  (\<open>reasoner_service/decision_offline_evaluation_service.py\<close>), and the export of a trust calibration
  (\<open>reasoner_service/decision_trust_calibration_service.py\<close>).

  A text is a list of lines, each with its values before they are rendered; an export is a JSON value or
  such a text, without rules and blank lines. The time of an export is a parameter. The fixed texts of the disclaimers are cut to their
  first words. The text of an exception is a parameter.
\<close>

datatype report_export = Json pyval | Lines "fstring list"

section \<open>Offline evaluations\<close>

definition sub_dict :: "string \<Rightarrow> pydict \<Rightarrow> pydict option" where
  "sub_dict k d = (case dget k d (VDict []) of VDict m \<Rightarrow> Some m | _ \<Rightarrow> None)"

definition number_at :: "string \<Rightarrow> pydict \<Rightarrow> rat option" where
  "number_at k d = as_number (dget k d (VInt 0))"

definition blocked_share :: "pydict \<Rightarrow> rat option" where
  "blocked_share r = do { i \<leftarrow> sub_dict ''impact_analysis'' r; number_at ''blocked_percentage'' i }"

definition generate_comparison_explanation :: "pydict \<Rightarrow> pydict \<Rightarrow> fstring" where
  "generate_comparison_explanation a b =
     (let name_a = PV (dget ''scenario_name'' a (VStr ''Scenario A'')); name_b = PV (dget ''scenario_name'' b (VStr ''Scenario B'')) in
      case (blocked_share a, blocked_share b) of
        (Some x, Some y) \<Rightarrow>
          [T ''Comparing '', name_a, T '' and '', name_b, T '': '', name_a, T '' would block '', F x, T ''% of trades, while '', name_b,
           T '' would block '', F y, T ''%. This comparison is directional only and does not rank scenarios. No actual enforcement occurs.'']
      | _ \<Rightarrow> [T ''Comparison completed. This is informational analysis only.''])"

definition generate_batch_explanation :: "int \<Rightarrow> int \<Rightarrow> pydict \<Rightarrow> fstring" where
  "generate_batch_explanation successful failed stats =
     (case (number_at ''average_blocked_percentage'' stats, number_at ''consistency_score'' stats) of
        (Some blocked, Some consistency) \<Rightarrow>
          [T ''Batch evaluation completed: '', I successful, T '' successful, '', I failed, T '' failed. Average blocking rate across scenarios was '',
           F blocked, T ''%. Consistency score: '', F consistency,
           T ''. This batch analysis is informational only and does not influence live decisions.'']
      | _ \<Rightarrow> [T ''Batch evaluation completed. This is informational analysis only.''])"

definition line_text :: "string \<Rightarrow> pydict \<Rightarrow> fstring option" where
  "line_text k d = (case dget k d (VStr ''N/A'') of VStr s \<Rightarrow> Some [T s] | _ \<Rightarrow> None)"

text \<open>\<open>None\<close> when a part has a type that cannot be formatted or joined.\<close>

definition evaluation_lines :: "pydict \<Rightarrow> fstring list option" where
  "evaluation_lines d =
     do { constraints \<leftarrow> sub_dict ''policy_constraints'' d; stats \<leftarrow> sub_dict ''statistics'' d;
          conf \<leftarrow> number_at ''average_confidence'' stats; impact \<leftarrow> sub_dict ''impact_analysis'' d;
          blocked \<leftarrow> number_at ''blocked_percentage'' impact; allowed \<leftarrow> number_at ''allowed_percentage'' impact;
          explanation \<leftarrow> line_text ''explanation'' d; disclaimer \<leftarrow> line_text ''disclaimer'' d;
          export_disclaimer \<leftarrow> line_text ''export_disclaimer'' d;
          Some ([[T ''DECISION OFFLINE EVALUATION REPORT''],
                 [T ''SCENARIO: '', PV (dget ''scenario_name'' d (VStr ''N/A''))],
                 [T ''Scenario ID: '', PV (dget ''scenario_id'' d (VStr ''N/A''))],
                 [T ''Evaluation Timestamp: '', PV (dget ''evaluation_timestamp'' d (VStr ''N/A''))], [T ''POLICY CONSTRAINTS:'']] @
                map (\<lambda>(k, v). [T ''  - '', T k, T '': '', PV v]) constraints @
                [[T ''STATISTICS:''],
                 [T ''  Total Trades Evaluated: '', PV (dget ''total_trades_evaluated'' stats (VInt 0))],
                 [T ''  Trades Allowed: '', PV (dget ''trades_allowed'' stats (VInt 0))],
                 [T ''  Trades Would Block: '', PV (dget ''trades_would_block'' stats (VInt 0))],
                 [T ''  Average Confidence: '', F conf],
                 [T ''IMPACT ANALYSIS:''], [T ''  Blocked Percentage: '', F blocked, T ''%''], [T ''  Allowed Percentage: '', F allowed, T ''%''],
                 [T ''EXPLANATION:''], explanation, [T ''DISCLAIMER:''], disclaimer, [T ''EXPORT DISCLAIMER:''], export_disclaimer]) }"

definition export_disclaimer_text :: string where
  "export_disclaimer_text = ''This evaluation report is informational only and does not influence live decisions.''"

definition export_evaluation_report :: "time \<Rightarrow> string \<Rightarrow> pyval \<Rightarrow> string \<Rightarrow> report_export" where
  "export_evaluation_report now err result fmt =
     (case result of
        VDict d \<Rightarrow>
          (let data = AList.update ''export_disclaimer'' (VStr export_disclaimer_text) (AList.update ''export_timestamp'' (VIso now) d) in
           if py_lower fmt = ''text'' then (case evaluation_lines data of Some ls \<Rightarrow> Lines ls | None \<Rightarrow> Json (VDict data))
           else Json (VDict data))
      | _ \<Rightarrow> Json (VDict [(''error'', VStr err), (''export_timestamp'', VIso now), (''disclaimer'', VStr export_disclaimer_text)]))"

section \<open>Trust calibrations\<close>

definition trust_disclaimer :: string where
  "trust_disclaimer = ''AUTHORITY WARNING - THIS OUTPUT HAS ZERO DECISION AUTHORITY''"

definition snapshot_line :: "string \<times> pyval \<Rightarrow> fstring list" where
  "snapshot_line kv =
     (case snd kv of
        VDict m \<Rightarrow> [T (fst kv), T '':''] # map (\<lambda>(k, v). [T ''  '', T k, T '': '', PV v]) (sort_key fst m)
      | VList xs \<Rightarrow> [[T (fst kv), T '': '', I (int (length xs)), T '' items'']]
      | v \<Rightarrow> [[T (fst kv), T '': '', PV v]])"

definition failed_snapshot :: "fstring list" where
  "failed_snapshot = [[T ''DECISION TRUST CALIBRATION SNAPSHOT''], [T ''Export failed gracefully.'']]"

definition export_as_text :: "pyval \<Rightarrow> fstring list" where
  "export_as_text v =
     (case v of
        VDict d \<Rightarrow> [[T ''DECISION TRUST CALIBRATION SNAPSHOT''], [T ''DISCLAIMER:''], [T trust_disclaimer]] @
          concat (map snapshot_line (filter (\<lambda>kv. fst kv \<noteq> ''disclaimer'') (sort_key fst d)))
      | _ \<Rightarrow> failed_snapshot)"

definition export_trust_snapshot :: "pyval \<Rightarrow> string \<Rightarrow> report_export" where
  "export_trust_snapshot result fmt =
     (let r = (if truthy result then result else VDict []) in
      if fmt = ''text'' then Lines (export_as_text r) else Json r)"

section \<open>Disclaimers\<close>

definition disclaims :: "string \<Rightarrow> report_export \<Rightarrow> bool" where
  "disclaims s e \<longleftrightarrow>
     (case e of
        Lines ls \<Rightarrow> [T s] \<in> set ls
      | Json v \<Rightarrow> (case v of VDict d \<Rightarrow> VStr s \<in> snd ` set d | _ \<Rightarrow> False))"

lemma updated_last: "(k, v) \<in> set (AList.update k v d)"
  by (induction d) auto

lemma text_discloses:
  assumes "evaluation_lines d = Some ls" "map_of d ''export_disclaimer'' = Some (VStr s)"
  shows "[T s] \<in> set ls"
  using assms by (auto simp: evaluation_lines_def line_text_def dget_def split: bind_splits)

text \<open>Every export of an offline evaluation, of any type and in any format, carries the disclaimer.\<close>

theorem exports_disclaim: "disclaims export_disclaimer_text (export_evaluation_report now err result fmt)"
proof (cases result)
  case (VDict d)
  let ?data = "AList.update ''export_disclaimer'' (VStr export_disclaimer_text) (AList.update ''export_timestamp'' (VIso now) d)"
  have json: "disclaims export_disclaimer_text (Json (VDict ?data))"
    using updated_last[of "''export_disclaimer''" "VStr export_disclaimer_text"] by (force simp: disclaims_def)
  have "disclaims export_disclaimer_text (Lines ls)" if "evaluation_lines ?data = Some ls" for ls
    using text_discloses[OF that] by (simp add: disclaims_def update_conv')
  then show ?thesis using VDict json by (auto simp: export_evaluation_report_def Let_def split: option.split)
qed (simp_all add: export_evaluation_report_def disclaims_def)

text \<open>The trust calibration promises its disclaimer in every output: a text of a dictionary has it, but neither an
  empty result as JSON nor a failed text.\<close>

theorem trust_exports_disclaim:
  "disclaims trust_disclaimer (export_trust_snapshot (VDict d) ''text'')"
  "\<not> disclaims trust_disclaimer (export_trust_snapshot VNone ''json'')"
  "\<not> disclaims trust_disclaimer (export_trust_snapshot (VList [VNone]) ''text'')"
  by (simp_all add: export_trust_snapshot_def export_as_text_def disclaims_def failed_snapshot_def trust_disclaimer_def split: if_splits)

end
