(* ===== verification/Replay_Pipeline.thy ===== *)
theory Replay_Pipeline
  imports Replay_Batch
begin

text \<open>
  The two scripts that run the replay scripts one after another:
  \<open>scripts/run_replay_pipeline_eurusd_truefx_jan2026.py\<close> and
  \<open>scripts/run_real_eurusd_replay_pipeline.py\<close>, with the options that the called scripts declare for
  \<open>argparse\<close>.

  Parameters (\<open>script_world\<close>): whether a script starts, what it does to the files once it has its
  arguments, and what the files hold. An option may be shortened to an unambiguous beginning, as
  \<open>argparse\<close> allows; a value does not begin with a dash, numbers are kept as texts, and \<open>--help\<close>
  and the form with an equals sign, which no pipeline passes, are left out.

  The lemmas say which scripts a run reaches and with which arguments, that the pipeline over real signals never
  completes, and what the summary of the other one says of the allowlist.
\<close>

section \<open>Options\<close>

datatype arg_count = Flag | One | Many

record arg_option =
  ao_name :: string
  ao_count :: arg_count
  ao_required :: bool

definition arg_option_of :: "string \<Rightarrow> arg_count \<Rightarrow> bool \<Rightarrow> arg_option" where
  "arg_option_of n c r = \<lparr>ao_name = n, ao_count = c, ao_required = r\<rparr>"

type_synonym arg_values = "(string \<times> string list) list"

definition is_option :: "string \<Rightarrow> bool" where
  "is_option t \<longleftrightarrow> prefix ''-'' t"

text \<open>The option a token stands for: itself, or the only one that it begins.\<close>

definition resolve_option :: "arg_option list \<Rightarrow> string \<Rightarrow> arg_option option" where
  "resolve_option os t =
     (case filter (\<lambda>x. ao_name x = t) os of
        x # _ \<Rightarrow> Some x
      | [] \<Rightarrow> (case filter (\<lambda>x. prefix t (ao_name x)) os of [x] \<Rightarrow> Some x | _ \<Rightarrow> None))"

text \<open>The values behind an option, and the tokens after them; \<open>None\<close> when there are too few.\<close>

definition option_values :: "arg_count \<Rightarrow> string list \<Rightarrow> (string list \<times> string list) option" where
  "option_values c ts =
     (case c of
        Flag \<Rightarrow> Some ([], ts)
      | One \<Rightarrow> (case ts of t # ts' \<Rightarrow> (if is_option t then None else Some ([t], ts')) | [] \<Rightarrow> None)
      | Many \<Rightarrow> (let vs = takeWhile (\<lambda>t. \<not> is_option t) ts in
                 if vs = [] then None else Some (vs, drop (length vs) ts)))"

lemma option_values_length: "option_values c ts = Some (vs, rest) \<Longrightarrow> length rest \<le> length ts"
  by (auto simp: option_values_def Let_def split: arg_count.splits list.splits if_splits)

function parse_tokens :: "arg_option list \<Rightarrow> string list \<Rightarrow> arg_values option" where
  "parse_tokens os [] = Some []"
| "parse_tokens os (t # ts) =
     (if \<not> is_option t then None
      else case resolve_option os t of
             None \<Rightarrow> None
           | Some x \<Rightarrow>
              (case option_values (ao_count x) ts of
                 None \<Rightarrow> None
               | Some (vs, rest) \<Rightarrow> map_option (\<lambda>as. (ao_name x, vs) # as) (parse_tokens os rest)))"
  by pat_completeness auto
termination
  by (relation "measure (\<lambda>(os, ts). length ts)") (auto dest: option_values_length)

text \<open>\<open>parse_args\<close>; \<open>None\<close> when the process ends with the message about its usage.\<close>

definition parse_args :: "arg_option list \<Rightarrow> string list \<Rightarrow> arg_values option" where
  "parse_args os ts =
     (case parse_tokens os ts of
        None \<Rightarrow> None
      | Some as \<Rightarrow> (if list_all (\<lambda>x. ao_required x \<longrightarrow> ao_name x \<in> set (map fst as)) os then Some as else None))"

section \<open>The scripts\<close>

datatype replay_script =
  Convert_Ticks | Merge_Minutes | Filter_Signals | Export_Signals | Historical_Replay | Replay_Batch | Allowlist_Builder

definition convert_ticks_options :: "arg_option list" where
  "convert_ticks_options = [arg_option_of ''--input'' One True, arg_option_of ''--output'' One True, arg_option_of ''--quiet'' Flag False]"

definition merge_minutes_options :: "arg_option list" where
  "merge_minutes_options = [arg_option_of ''--inputs'' Many True, arg_option_of ''--output'' One True]"

definition filter_signals_options :: "arg_option list" where
  "filter_signals_options = [arg_option_of ''--input'' One True, arg_option_of ''--output'' One True, arg_option_of ''--symbol'' One False]"

definition export_signals_options :: "arg_option list" where
  "export_signals_options = [arg_option_of ''--candles-csv'' One True, arg_option_of ''--output'' One True,
     arg_option_of ''--stride'' One False, arg_option_of ''--max-signals'' One False]"

definition historical_replay_options :: "arg_option list" where
  "historical_replay_options = [arg_option_of ''--candles-csv'' One True, arg_option_of ''--signals-jsonl'' One True,
     arg_option_of ''--symbol'' One False, arg_option_of ''--signal-type'' One False, arg_option_of ''--from'' One False,
     arg_option_of ''--to'' One False, arg_option_of ''--output'' One False]"

definition replay_batch_options :: "arg_option list" where
  "replay_batch_options = [arg_option_of ''--candles-csv'' One True, arg_option_of ''--signals-jsonl'' One True,
     arg_option_of ''--output-dir'' One False]"

definition allowlist_options :: "arg_option list" where
  "allowlist_options = [arg_option_of ''--replay-summary-json'' One True, arg_option_of ''--min-samples'' One False,
     arg_option_of ''--min-expectancy'' One False, arg_option_of ''--max-dd'' One False, arg_option_of ''--max-streak'' One False,
     arg_option_of ''--output'' One False]"

fun script_options :: "replay_script \<Rightarrow> arg_option list" where
  "script_options Convert_Ticks = convert_ticks_options"
| "script_options Merge_Minutes = merge_minutes_options"
| "script_options Filter_Signals = filter_signals_options"
| "script_options Export_Signals = export_signals_options"
| "script_options Historical_Replay = historical_replay_options"
| "script_options Replay_Batch = replay_batch_options"
| "script_options Allowlist_Builder = allowlist_options"

section \<open>Running them\<close>

datatype json_file = No_File | Not_Json | Json pyval

record 's script_world =
  sw_starts :: "replay_script \<Rightarrow> 's \<Rightarrow> bool"
  sw_body :: "replay_script \<Rightarrow> arg_values \<Rightarrow> 's \<Rightarrow> int \<times> 's"
  sw_exists :: "string \<Rightarrow> 's \<Rightarrow> bool"
  sw_lines :: "string \<Rightarrow> 's \<Rightarrow> string list"
  sw_json :: "string \<Rightarrow> 's \<Rightarrow> json_file"

text \<open>The files, and the scripts that got beyond their arguments.\<close>

record 's pipeline_state =
  ps_files :: 's
  ps_ran :: "(replay_script \<times> arg_values) list"

text \<open>A script fails when it does not start, refuses its arguments (exit code 2), or ends with another code than 0.\<close>

definition run_command :: "'s script_world \<Rightarrow> replay_script \<times> string list \<Rightarrow> 's pipeline_state \<Rightarrow> bool \<times> 's pipeline_state" where
  "run_command w cmd st =
     (case cmd of (script, tokens) \<Rightarrow>
        if \<not> sw_starts w script (ps_files st) then (False, st)
        else case parse_args (script_options script) tokens of
               None \<Rightarrow> (False, st)
             | Some as \<Rightarrow>
                (let (code, files) = sw_body w script as (ps_files st)
                 in (code = 0, \<lparr>ps_files = files, ps_ran = ps_ran st @ [(script, as)]\<rparr>)))"

text \<open>One after another, up to the first that fails.\<close>

primrec run_commands ::
    "'s script_world \<Rightarrow> (replay_script \<times> string list) list \<Rightarrow> 's pipeline_state \<Rightarrow> bool \<times> 's pipeline_state" where
  "run_commands w [] st = (True, st)"
| "run_commands w (c # cs) st =
     (let (ok, st') = run_command w c st in if ok then run_commands w cs st' else (False, st'))"

section \<open>The pipeline over real signals\<close>

text \<open>The root is absolute, as the path of a running script is.\<close>

definition data_path :: "string \<Rightarrow> string \<Rightarrow> string" where
  "data_path base p = ''/'' @ base @ ''/data/'' @ p"

definition jan_candles :: string where "jan_candles = ''processed/EURUSD/M1/EURUSD-2026-01-M1.csv''"
definition feb_ticks :: string where "feb_ticks = ''raw/truefx/EURUSD-2026-02.csv''"
definition real_signals :: string where "real_signals = ''processed/EURUSD/real_signals.jsonl''"
definition feb_candles :: string where "feb_candles = ''processed/EURUSD/M1/EURUSD-2026-02-M1.csv''"
definition merged_candles :: string where "merged_candles = ''processed/EURUSD/M1/EURUSD-2026-01-02-M1.csv''"
definition eurusd_signals :: string where "eurusd_signals = ''processed/EURUSD/EURUSD-filtered-signals.jsonl''"
definition replay_results :: string where "replay_results = ''processed/EURUSD/replay-results-eurusd.jsonl''"
definition batch_file :: string where "batch_file = ''processed/EURUSD/replay-summary-eurusd.txt''"
definition allowlist_file :: string where "allowlist_file = ''processed/EURUSD/allowlist-eurusd.jsonl''"

definition real_commands :: "string \<Rightarrow> (replay_script \<times> string list) list" where
  "real_commands base =
     (let p = data_path base in
      [(Convert_Ticks, [''--input'', p feb_ticks, ''--output'', p feb_candles]),
       (Merge_Minutes, [''--inputs'', p jan_candles, p feb_candles, ''--output'', p merged_candles]),
       (Filter_Signals, [''--input'', p real_signals, ''--output'', p eurusd_signals, ''--symbol'', ''EURUSD'']),
       (Historical_Replay, [''--candles'', p merged_candles, ''--signals'', p eurusd_signals, ''--output'', p replay_results]),
       (Replay_Batch, [''--replay-results'', p replay_results, ''--output'', p batch_file]),
       (Allowlist_Builder, [''--replay-results'', p replay_results, ''--output'', p allowlist_file,
          ''--min-win-rate'', ''0.6'', ''--min-profit-factor'', ''1.5''])])"

text \<open>The exit code, and the state it leaves.\<close>

definition pipeline_eurusd_real_replay :: "'s script_world \<Rightarrow> string \<Rightarrow> 's \<Rightarrow> int \<times> 's pipeline_state" where
  "pipeline_eurusd_real_replay w base files =
     (let st = \<lparr>ps_files = files, ps_ran = []\<rparr> in
      if \<not> list_all (\<lambda>p. sw_exists w (data_path base p) files) [jan_candles, feb_ticks, real_signals] then (1, st)
      else (let (ok, st') = run_commands w (real_commands base) st in (if ok then 0 else 1, st')))"

section \<open>The pipeline over generated signals\<close>

definition candles_default :: string where "candles_default = ''data/processed/EURUSD/M1/EURUSD-2026-01-M1.csv''"
definition signals_default :: string where "signals_default = ''data/processed/EURUSD/signals.jsonl''"
definition report_json :: string where "report_json = ''results/replay_report.json''"
definition summary_json :: string where "summary_json = ''results/replay_summary.json''"
definition allowlist_json :: string where "allowlist_json = ''results/allowlist.json''"

definition january_options :: "arg_option list" where
  "january_options = [arg_option_of ''--candles-csv'' One False, arg_option_of ''--signals-output'' One False,
     arg_option_of ''--skip-export'' Flag False]"

record january_args =
  ja_candles :: string
  ja_signals :: string
  ja_skip :: bool

text \<open>The last value counts.\<close>

definition given_value :: "string \<Rightarrow> string \<Rightarrow> arg_values \<Rightarrow> string" where
  "given_value k dflt as = (case map_of (rev as) k of Some [v] \<Rightarrow> v | _ \<Rightarrow> dflt)"

definition january_args_of :: "arg_values \<Rightarrow> january_args" where
  "january_args_of as =
     \<lparr>ja_candles = given_value ''--candles-csv'' candles_default as,
      ja_signals = given_value ''--signals-output'' signals_default as,
      ja_skip = (''--skip-export'' \<in> set (map fst as))\<rparr>"

definition export_command :: "january_args \<Rightarrow> replay_script \<times> string list" where
  "export_command a = (Export_Signals, [''--candles-csv'', ja_candles a, ''--output'', ja_signals a,
     ''--stride'', ''240'', ''--max-signals'', ''200''])"

definition january_commands :: "january_args \<Rightarrow> (replay_script \<times> string list) list" where
  "january_commands a =
     [(Historical_Replay, [''--candles-csv'', ja_candles a, ''--signals-jsonl'', ja_signals a, ''--output'', report_json]),
      (Replay_Batch, [''--candles-csv'', ja_candles a, ''--signals-jsonl'', ja_signals a, ''--output-dir'', ''results'']),
      (Allowlist_Builder, [''--replay-summary-json'', summary_json, ''--output'', allowlist_json])]"

text \<open>How many elements a file of JSON has under a key; \<open>None\<close> when asking raises.\<close>

definition json_elements :: "string \<Rightarrow> json_file \<Rightarrow> pyval list option" where
  "json_elements k f =
     (case f of
        No_File \<Rightarrow> Some []
      | Not_Json \<Rightarrow> None
      | Json (VDict d) \<Rightarrow> iterate (dget k d (VList []))
      | Json _ \<Rightarrow> None)"

text \<open>The keys of the allowlist are shown by a slice, which a dictionary refuses.\<close>

definition sliceable :: "string \<Rightarrow> json_file \<Rightarrow> bool" where
  "sliceable k f = (case f of Json (VDict d) \<Rightarrow> (case dget k d (VList []) of VDict m \<Rightarrow> m = [] | _ \<Rightarrow> True) | _ \<Rightarrow> True)"

record proof_summary =
  pf_signals :: nat
  pf_outcomes :: nat
  pf_groups :: nat
  pf_allowed :: nat

definition print_proof_summary :: "'s script_world \<Rightarrow> 's \<Rightarrow> proof_summary option" where
  "print_proof_summary w files =
     do { outcomes \<leftarrow> json_elements ''outcomes'' (sw_json w report_json files);
          groups \<leftarrow> json_elements ''groups'' (sw_json w summary_json files);
          allowed \<leftarrow> json_elements ''allowed'' (sw_json w allowlist_json files);
          if \<not> sliceable ''allowed'' (sw_json w allowlist_json files) then None
          else Some \<lparr>pf_signals = (if sw_exists w signals_default files
                                    then length (filter (\<lambda>l. py_strip l \<noteq> []) (sw_lines w signals_default files)) else 0),
                     pf_outcomes = length outcomes, pf_groups = length groups, pf_allowed = length allowed\<rparr> }"

definition january_pipeline ::
    "'s script_world \<Rightarrow> january_args \<Rightarrow> 's \<Rightarrow> int \<times> proof_summary option \<times> 's pipeline_state" where
  "january_pipeline w a files =
     (let st = \<lparr>ps_files = files, ps_ran = []\<rparr> in
      if \<not> sw_exists w (ja_candles a) files then (1, None, st)
      else let (ok, st1) = (if ja_skip a then (sw_exists w (ja_signals a) files, st) else run_command w (export_command a) st)
           in if \<not> ok then (1, None, st1)
              else let (ok2, st2) = run_commands w (january_commands a) st1
                   in if \<not> ok2 then (1, None, st2)
                      else case print_proof_summary w (ps_files st2) of
                             None \<Rightarrow> (1, None, st2)
                           | Some p \<Rightarrow> (0, Some p, st2))"

definition january_main ::
    "'s script_world \<Rightarrow> string list \<Rightarrow> 's \<Rightarrow> int \<times> proof_summary option \<times> 's pipeline_state" where
  "january_main w tokens files =
     (case parse_args january_options tokens of
        None \<Rightarrow> (2, None, \<lparr>ps_files = files, ps_ran = []\<rparr>)
      | Some as \<Rightarrow> january_pipeline w (january_args_of as) files)"

section \<open>Commands one after another\<close>

definition parsed_command :: "replay_script \<times> string list \<Rightarrow> (replay_script \<times> arg_values) option" where
  "parsed_command c = map_option (Pair (fst c)) (parse_args (script_options (fst c)) (snd c))"

lemma run_command_refused: "parsed_command c = None \<Longrightarrow> run_command w c st = (False, st)"
  by (auto simp: run_command_def parsed_command_def split: prod.splits)

lemma run_command_ran:
  assumes "run_command w c st = (ok, st')" "parsed_command c = Some r"
  shows "ps_ran st' = ps_ran st @ (if ps_ran st' = ps_ran st then [] else [r])"
    and "ok \<Longrightarrow> ps_ran st' = ps_ran st @ [r]"
    and "ps_ran st' = ps_ran st \<or> ps_ran st' = ps_ran st @ [r]"
  using assms by (auto simp: run_command_def parsed_command_def split: prod.splits if_splits)

text \<open>A run gets through a prefix of the commands, and through all of them when it succeeds.\<close>

lemma run_commands_ran:
  assumes "run_commands w cs st = (ok, st')" "map parsed_command cs = map Some rs"
  shows "\<exists>ds. prefix ds rs \<and> ps_ran st' = ps_ran st @ ds \<and> (ok \<longrightarrow> ds = rs)"
  using assms
proof (induction cs arbitrary: st rs)
  case Nil
  then show ?case by simp
next
  case (Cons c cs)
  then obtain r rs' where rs: "rs = r # rs'" "parsed_command c = Some r" "map parsed_command cs = map Some rs'"
    by (cases rs) auto
  obtain ok1 st1 where one: "run_command w c st = (ok1, st1)" by fastforce
  note ran = run_command_ran[OF one rs(2)]
  show ?case
  proof (cases ok1)
    case True
    with Cons.prems one have "run_commands w cs st1 = (ok, st')" by simp
    from Cons.IH[OF this rs(3)] obtain ds
      where "prefix ds rs'" "ps_ran st' = ps_ran st1 @ ds" "ok \<longrightarrow> ds = rs'" by blast
    with ran(2)[OF True] rs(1) show ?thesis by (intro exI[of _ "r # ds"]) auto
  next
    case False
    with Cons.prems one have "ok = False" "st' = st1" by auto
    with ran(3) rs(1) show ?thesis by (intro exI[of _ "if ps_ran st1 = ps_ran st then [] else [r]"]) auto
  qed
qed

text \<open>A command with refused arguments ends the run.\<close>

lemma run_commands_append:
  "run_commands w (cs @ ds) st =
     (let (ok, st') = run_commands w cs st in if ok then run_commands w ds st' else (False, st'))"
  by (induction cs arbitrary: st) (auto simp: Let_def split: prod.splits)

lemma run_commands_refused:
  assumes "parsed_command c = None" "map parsed_command cs = map Some rs"
  shows "fst (run_commands w (cs @ c # ds) st) = False \<and>
         (\<exists>es. prefix es rs \<and> ps_ran (snd (run_commands w (cs @ c # ds) st)) = ps_ran st @ es)"
proof -
  obtain ok st' where r: "run_commands w cs st = (ok, st')" by fastforce
  from run_commands_ran[OF this assms(2)] obtain es where "prefix es rs" "ps_ran st' = ps_ran st @ es" by blast
  with r show ?thesis by (auto simp: run_commands_append run_command_refused[OF assms(1)])
qed

section \<open>The pipeline over real signals\<close>

lemma data_path_no_option [simp]: "\<not> is_option (data_path base p)"
  by (simp add: is_option_def data_path_def)

lemmas parse_simps = parsed_command_def parse_args_def resolve_option_def option_values_def arg_option_of_def

definition real_reached :: "string \<Rightarrow> (replay_script \<times> arg_values) list" where
  "real_reached base =
     (let p = data_path base in
      [(Convert_Ticks, [(''--input'', [p feb_ticks]), (''--output'', [p feb_candles])]),
       (Merge_Minutes, [(''--inputs'', [p jan_candles, p feb_candles]), (''--output'', [p merged_candles])]),
       (Filter_Signals, [(''--input'', [p real_signals]), (''--output'', [p eurusd_signals]), (''--symbol'', [''EURUSD''])]),
       (Historical_Replay, [(''--candles-csv'', [p merged_candles]), (''--signals-jsonl'', [p eurusd_signals]),
          (''--output'', [p replay_results])])])"

lemma option_texts [simp]:
  "is_option (CHR ''-'' # s)" "is_option (CHR ''E'' # s) = False" "is_option (CHR ''r'' # s) = False"
  "is_option (CHR ''2'' # s) = False"
  by (simp_all add: is_option_def)

lemma real_commands_parse: "map parsed_command (take 4 (real_commands base)) = map Some (real_reached base)"
  by (simp add: real_commands_def real_reached_def parse_simps convert_ticks_options_def merge_minutes_options_def
      filter_signals_options_def historical_replay_options_def Let_def)

lemma batch_refused: "parsed_command (real_commands base ! 4) = None"
  by (simp add: real_commands_def parse_simps replay_batch_options_def Let_def)

lemma real_commands_split:
  "real_commands base = take 4 (real_commands base) @ real_commands base ! 4 # drop 5 (real_commands base)"
  by (simp add: real_commands_def Let_def)

text \<open>Whatever the files hold and the scripts do, the pipeline fails: the batch script has no option
  "--replay-results" and is never run, nor is the builder of the allowlist. The shortened options of the step
  before are accepted.\<close>

theorem real_pipeline_never_completes:
  "fst (pipeline_eurusd_real_replay w base files) = 1 \<and>
   prefix (ps_ran (snd (pipeline_eurusd_real_replay w base files))) (real_reached base)"
proof -
  note r = run_commands_refused[OF batch_refused[of base] real_commands_parse[of base],
    where w = w and ds = "drop 5 (real_commands base)" and st = "\<lparr>ps_files = files, ps_ran = []\<rparr>", folded real_commands_split]
  then show ?thesis
    by (cases "run_commands w (real_commands base) \<lparr>ps_files = files, ps_ran = []\<rparr>")
       (auto simp: pipeline_eurusd_real_replay_def Let_def)
qed

section \<open>The pipeline over generated signals\<close>

definition january_reached :: "january_args \<Rightarrow> (replay_script \<times> arg_values) list" where
  "january_reached a =
     (if ja_skip a then []
      else [(Export_Signals, [(''--candles-csv'', [ja_candles a]), (''--output'', [ja_signals a]),
               (''--stride'', [''240'']), (''--max-signals'', [''200''])])]) @
     [(Historical_Replay, [(''--candles-csv'', [ja_candles a]), (''--signals-jsonl'', [ja_signals a]), (''--output'', [report_json])]),
      (Replay_Batch, [(''--candles-csv'', [ja_candles a]), (''--signals-jsonl'', [ja_signals a]), (''--output-dir'', [''results''])]),
      (Allowlist_Builder, [(''--replay-summary-json'', [summary_json]), (''--output'', [allowlist_json])])]"

lemma result_texts [simp]: "\<not> is_option report_json" "\<not> is_option summary_json" "\<not> is_option allowlist_json"
  by (simp_all add: report_json_def summary_json_def allowlist_json_def)

definition january_sequence :: "january_args \<Rightarrow> (replay_script \<times> string list) list" where
  "january_sequence a = (if ja_skip a then [] else [export_command a]) @ january_commands a"

lemma january_parse:
  assumes "\<not> is_option (ja_candles a)" "\<not> is_option (ja_signals a)"
  shows "map parsed_command (january_sequence a) = map Some (january_reached a)"
  using assms
  by (simp add: january_sequence_def january_reached_def export_command_def january_commands_def parse_simps
      export_signals_options_def historical_replay_options_def replay_batch_options_def allowlist_options_def Let_def)

text \<open>The pipeline is a run of its commands between two looks at the files.\<close>

lemma january_is_run:
  assumes "run_commands w (january_sequence a) \<lparr>ps_files = files, ps_ran = []\<rparr> = (ok, st)"
    and "sw_exists w (ja_candles a) files" and "ja_skip a \<Longrightarrow> sw_exists w (ja_signals a) files"
  shows "january_pipeline w a files =
     (if ok then (case print_proof_summary w (ps_files st) of None \<Rightarrow> (1, None, st) | Some p \<Rightarrow> (0, Some p, st)) else (1, None, st))"
  using assms
  by (cases "run_command w (export_command a) \<lparr>ps_files = files, ps_ran = []\<rparr>")
     (auto simp: january_pipeline_def january_sequence_def Let_def split: if_splits prod.splits)

lemma january_missing:
  assumes "\<not> sw_exists w (ja_candles a) files \<or> ja_skip a \<and> \<not> sw_exists w (ja_signals a) files"
  shows "january_pipeline w a files = (1, None, \<lparr>ps_files = files, ps_ran = []\<rparr>)"
  using assms by (auto simp: january_pipeline_def Let_def)

text \<open>A run reaches the scripts in their order with these arguments, and all of them when its exit code is 0.\<close>

theorem january_exact:
  assumes "\<not> is_option (ja_candles a)" "\<not> is_option (ja_signals a)"
  shows "case january_pipeline w a files of (code, summary, st) \<Rightarrow>
     prefix (ps_ran st) (january_reached a) \<and> code \<in> {0, 1} \<and>
     (code = 0 \<longrightarrow> ps_ran st = january_reached a \<and> summary = print_proof_summary w (ps_files st) \<and> summary \<noteq> None)"
proof (cases "\<not> sw_exists w (ja_candles a) files \<or> ja_skip a \<and> \<not> sw_exists w (ja_signals a) files")
  case True
  then show ?thesis by (simp add: january_missing)
next
  case False
  obtain ok st where r: "run_commands w (january_sequence a) \<lparr>ps_files = files, ps_ran = []\<rparr> = (ok, st)" by fastforce
  from run_commands_ran[OF r january_parse[OF assms]] obtain ds
    where "prefix ds (january_reached a)" "ps_ran st = ds" "ok \<longrightarrow> ds = january_reached a" by auto
  then show ?thesis using False by (auto simp: january_is_run[OF r] split: option.splits)
qed

theorem january_exact_witness:
  defines "w \<equiv> \<lparr>sw_starts = \<lambda>_ _. True, sw_body = \<lambda>s as n. (0, n + 1), sw_exists = \<lambda>_ _. True,
                sw_lines = \<lambda>_ _. [''one'', '' '', ''two''], sw_json = \<lambda>_ _. No_File\<rparr> :: nat script_world"
  shows "let (code, summary, st) = january_main w [''--skip-exp'', ''--candles'', ''c.csv''] 0 in
     code = 0 \<and> ps_files st = 3 \<and> length (ps_ran st) = 3 \<and> map_option pf_signals summary = Some 2"
proof -
  define a where "a = \<lparr>ja_candles = ''c.csv'', ja_signals = signals_default, ja_skip = True\<rparr>"
  have n: "\<not> is_option (ja_candles a)" "\<not> is_option (ja_signals a)"
    by (simp_all add: a_def signals_default_def is_option_def)
  have m: "january_main w [''--skip-exp'', ''--candles'', ''c.csv''] 0 = january_pipeline w a 0"
    by (simp add: january_main_def january_options_def parse_simps january_args_of_def given_value_def a_def
        is_option_def)
  have v: "parse_args (script_options s) ts = Some as \<Longrightarrow>
      run_command w (s, ts) st = (True, \<lparr>ps_files = ps_files st + 1, ps_ran = ps_ran st @ [(s, as)]\<rparr>)" for s ts as st
    by (simp add: run_command_def w_def)
  have c: "map parsed_command (january_commands a) = map Some (january_reached a)"
    using january_parse[OF n] by (simp add: january_sequence_def a_def)
  have r: "run_commands w (january_commands a) \<lparr>ps_files = 0, ps_ran = []\<rparr> =
      (True, \<lparr>ps_files = 3, ps_ran = january_reached a\<rparr>)"
    using c by (auto simp: january_commands_def january_reached_def parsed_command_def v a_def)
  have ps: "print_proof_summary w 3 = Some \<lparr>pf_signals = 2, pf_outcomes = 0, pf_groups = 0, pf_allowed = 0\<rparr>"
    by (simp add: print_proof_summary_def w_def json_elements_def sliceable_def py_strip_def strip_chars_def is_blank_def)
  have "sw_exists w x 0" for x by (simp add: w_def)
  with ps have e: "january_pipeline w a 0 = (0, Some \<lparr>pf_signals = 2, pf_outcomes = 0, pf_groups = 0, pf_allowed = 0\<rparr>,
      \<lparr>ps_files = 3, ps_ran = january_reached a\<rparr>)"
    using r by (subst january_is_run[where ok = True]) (auto simp: january_sequence_def a_def)
  have "length (january_reached a) = 3" by (simp add: january_reached_def a_def)
  then show ?thesis using january_exact[OF n, of w 0] by (simp add: m e ps)
qed

section \<open>The summary and the allowlist\<close>

text \<open>The summary counts the key "allowed"; the builder writes "allowed_groups". Whatever groups it has found, the
  summary says that the allowlist is empty.\<close>

theorem summary_finds_no_group:
  assumes "build_allowlist l now lm summary = Some d" "sw_json w allowlist_json files = Json (VDict d)"
    and "print_proof_summary w files = Some p"
  shows "pf_allowed p = 0"
proof -
  have "map_of d ''allowed'' = None" using assms(1) by (auto simp: build_allowlist_def bind_eq_Some_conv)
  with assms(2) have "json_elements ''allowed'' (sw_json w allowlist_json files) = Some []"
    by (simp add: json_elements_def dget_def)
  with assms(3) show ?thesis by (auto simp: print_proof_summary_def bind_eq_Some_conv split: if_splits)
qed

end
