(* ===== verification/Model_Adapters.thy ===== *)
theory Model_Adapters
  imports Llm_Service Smc_Engine
begin

text \<open>
  Three more clients of language models: the adapter for Gemini
  (\<open>ict_trading_system/src/services/gemini_adapter.py\<close>) behind the factory
  (\<open>services/reasoner_factory.py\<close>) and the analysis of a signal (\<open>analyze_signal\<close> of
  \<open>services/openai_service.py\<close>); the embeddings of the store of memories
  (\<open>utils/memory_agent.py\<close>); and the client of the evaluator of setups (\<open>apps/smc/llm_client.py\<close>).

  Parameters: what each request answers (\<open>gemini_answer\<close>, \<open>chat_answer\<close>), the decoder of JSON, the answer of
  the cached client. The text of the prompt, headers, time limits and logs are left out.
\<close>

section \<open>The adapter for Gemini\<close>

datatype gemini_answer = Timed_Out | Request_Fails | Answered int "pyval option"

text \<open>\<open>raise_for_status\<close>.\<close>

definition status_raises :: "int \<Rightarrow> bool" where
  "status_raises s \<longleftrightarrow> 400 \<le> s \<and> s < 600"

text \<open>The text of the first part of the first candidate; whatever is missing or of another type gives the empty text.\<close>

definition gemini_text :: "pydict \<Rightarrow> pyval" where
  "gemini_text d =
     (case dget ''candidates'' d (VList []) of
        VList (VDict first # _) \<Rightarrow>
          (case dget ''content'' first (VDict []) of
             VDict c \<Rightarrow>
               (case dget ''parts'' c (VList []) of
                  VList (VDict p # _) \<Rightarrow> (let t = dget ''text'' p (VStr []) in if truthy t then t else VStr [])
                | _ \<Rightarrow> VStr [])
           | _ \<Rightarrow> VStr [])
      | _ \<Rightarrow> VStr [])"

definition gemini_completion :: "pyval \<Rightarrow> pyval \<Rightarrow> pydict" where
  "gemini_completion ident content =
     [(''id'', ident), (''object'', VStr ''chat.completion''),
      (''choices'', VList [VDict [(''message'', VDict [(''role'', VStr ''assistant''), (''content'', content)])]]),
      (''provider'', VStr ''gemini'')]"

definition gemini_unavailable :: string where
  "gemini_unavailable = ''Gemini API error or unavailable.''"

text \<open>At most \<open>n\<close> requests, the next one is request \<open>i\<close>; the answer, if there is one, and the pauses in seconds.
  Only a refusal for the rate and a time limit are tried again.\<close>

primrec gemini_attempts :: "(nat \<Rightarrow> gemini_answer) \<Rightarrow> nat \<Rightarrow> nat \<Rightarrow> pydict option \<times> nat list" where
  "gemini_attempts post 0 i = (None, [])"
| "gemini_attempts post (Suc n) i =
     (let again = (if n > 0 then (let (r, slept) = gemini_attempts post n (i + 1) in (r, 2 ^ i # slept)) else (None, [])) in
      case post i of
        Timed_Out \<Rightarrow> again
      | Request_Fails \<Rightarrow> (None, [])
      | Answered status body \<Rightarrow>
          (if status = 429 then again
           else if status_raises status then (None, [])
           else case body of
                  Some (VDict d) \<Rightarrow> (Some (gemini_completion (dget ''id'' d (VStr ''gemini-mock-id'')) (gemini_text d)), [])
                | _ \<Rightarrow> (None, [])))"

definition gemini_chat :: "(nat \<Rightarrow> gemini_answer) \<Rightarrow> pydict \<times> nat list" where
  "gemini_chat post =
     (let (r, slept) = gemini_attempts post 3 0 in
      (case r of Some d \<Rightarrow> d | None \<Rightarrow> gemini_completion (VStr ''gemini-error'') (VStr gemini_unavailable), slept))"

section \<open>The factory and the analysis of a signal\<close>

datatype reasoner_kind = Gemini_Adapter | OpenAI_Adapter

definition create_reasoner :: "string option \<Rightarrow> reasoner_kind" where
  "create_reasoner provider = (if py_lower (str_or provider ''gemini'') = ''openai'' then OpenAI_Adapter else Gemini_Adapter)"

text \<open>The content of a completion as \<open>analyze_signal\<close> looks it up; \<open>None\<close> when a step raises.\<close>

definition completion_text :: "pydict \<Rightarrow> pyval option" where
  "completion_text d =
     do { c \<leftarrow> value_first (dget ''choices'' d (VList [VDict []]));
          m \<leftarrow> vget ''message'' c (VDict []); vget ''content'' m (VStr []) }"

text \<open>A content that is no text is refused by the decoder of JSON and, uncaught, by the search for braces.\<close>

definition read_content :: "(string \<Rightarrow> pyval option) \<Rightarrow> pyval \<Rightarrow> pyval option" where
  "read_content loads content = (case content of VStr s \<Rightarrow> Some (read_analysis loads s) | _ \<Rightarrow> None)"

definition analyze_signal ::
    "(string \<Rightarrow> pyval option) \<Rightarrow> string option \<Rightarrow> (nat \<Rightarrow> gemini_answer) \<Rightarrow> pyval \<Rightarrow> pyval option" where
  "analyze_signal loads provider post cached =
     (case create_reasoner provider of
        Gemini_Adapter \<Rightarrow> Option.bind (completion_text (fst (gemini_chat post))) (read_content loads)
      | OpenAI_Adapter \<Rightarrow> read_content loads cached)"

section \<open>Embeddings\<close>

datatype embedding_error = No_Gemini_Key | No_OpenAI_Client | Invalid_Provider | Embedding_Raises

text \<open>The answers of both services are given, \<open>None\<close> when the request raises.\<close>

definition gemini_embedding :: "bool \<Rightarrow> pyval option \<Rightarrow> embedding_error + pyval" where
  "gemini_embedding has_key answer =
     (if \<not> has_key then Inl No_Gemini_Key
      else case do { v \<leftarrow> answer; e \<leftarrow> vget ''embedding'' v (VDict []); vget ''values'' e (VList []) } of
             None \<Rightarrow> Inl Embedding_Raises
           | Some x \<Rightarrow> Inr x)"

definition get_embedding :: "string \<Rightarrow> bool \<Rightarrow> bool \<Rightarrow> pyval option \<Rightarrow> pyval option \<Rightarrow> embedding_error + pyval" where
  "get_embedding provider has_key has_client gemini openai =
     (if provider = ''gemini'' then gemini_embedding has_key gemini
      else if provider = ''openai'' then
        (if \<not> has_client then Inl No_OpenAI_Client else case openai of None \<Rightarrow> Inl Embedding_Raises | Some x \<Rightarrow> Inr x)
      else Inl Invalid_Provider)"

section \<open>The client of the evaluator\<close>

definition smc_payload :: "pyval \<Rightarrow> pyval \<Rightarrow> pyval \<Rightarrow> string \<Rightarrow> pydict \<Rightarrow> pydict" where
  "smc_payload model max_tokens temperature prompt kwargs =
     update_all kwargs [(''model'', model), (''messages'', VList [VDict [(''role'', VStr ''user''), (''content'', VStr prompt)]]),
       (''max_tokens'', max_tokens), (''temperature'', temperature)]"

definition smc_content :: "chat_answer \<Rightarrow> pyval option" where
  "smc_content a =
     (case a of Http status (Some data) \<Rightarrow> (if status_raises status then None else completion_content data) | _ \<Rightarrow> None)"

text \<open>Two attempts, one second apart; the second exception is the caller's.\<close>

definition smc_complete :: "(nat \<Rightarrow> chat_answer) \<Rightarrow> pyval option \<times> nat list" where
  "smc_complete post = (case smc_content (post 0) of Some c \<Rightarrow> (Some c, []) | None \<Rightarrow> (smc_content (post 1), [1]))"

section \<open>What the clients promise\<close>

text \<open>Which request the answer comes from, and how long the adapter sleeps: after \<open>k\<close> requests that may be repeated
  comes one whose answer counts.\<close>

definition may_repeat :: "gemini_answer \<Rightarrow> bool" where
  "may_repeat a = (case a of Timed_Out \<Rightarrow> True | Request_Fails \<Rightarrow> False | Answered s _ \<Rightarrow> s = 429)"

definition gemini_answers :: "gemini_answer \<Rightarrow> bool" where
  "gemini_answers a = (case a of Answered s (Some (VDict d)) \<Rightarrow> \<not> status_raises s | _ \<Rightarrow> False)"

definition gemini_result :: "gemini_answer \<Rightarrow> pydict" where
  "gemini_result a =
     (case a of
        Answered s (Some (VDict d)) \<Rightarrow>
          (if status_raises s then gemini_completion (VStr ''gemini-error'') (VStr gemini_unavailable)
           else gemini_completion (dget ''id'' d (VStr ''gemini-mock-id'')) (gemini_text d))
      | _ \<Rightarrow> gemini_completion (VStr ''gemini-error'') (VStr gemini_unavailable))"

lemma gemini_step:
  "gemini_attempts post (Suc n) i =
     (if may_repeat (post i) then
        (if n > 0 then (let (r, slept) = gemini_attempts post n (i + 1) in (r, 2 ^ i # slept)) else (None, []))
      else (if gemini_answers (post i) then Some (gemini_result (post i)) else None, []))"
  by (cases "post i") (auto simp: may_repeat_def gemini_answers_def gemini_result_def Let_def status_raises_def
      split: option.splits pyval.splits)

lemma gemini_no_result:
  "\<not> gemini_answers a \<Longrightarrow> gemini_result a = gemini_completion (VStr ''gemini-error'') (VStr gemini_unavailable)"
  by (auto simp: gemini_answers_def gemini_result_def split: gemini_answer.splits option.splits pyval.splits)

lemma repeated_no_answer: "may_repeat a \<Longrightarrow> \<not> gemini_answers a"
  by (auto simp: gemini_answers_def may_repeat_def status_raises_def split: gemini_answer.splits option.splits pyval.splits)

text \<open>The adapter answers with the first of three requests that is not to be repeated, and sleeps one second
  before the second and two before the third.\<close>

theorem gemini_exact:
  "gemini_chat post =
     (let k = length (takeWhile may_repeat [post 0, post 1]) in (gemini_result (post k), take k [1, 2]))"
  by (auto simp: gemini_chat_def eval_nat_numeral gemini_step Let_def gemini_no_result repeated_no_answer
      simp del: gemini_attempts.simps(2))

text \<open>A completion always has its content where \<open>analyze_signal\<close> looks for it.\<close>

lemma completion_text_gemini [simp]: "completion_text (gemini_completion ident content) = Some content"
  by (simp add: completion_text_def gemini_completion_def dget_def value_first_def vget_def)

text \<open>An outage of the model is an analysis like any other: it gets the score 0, is stored with the signal, and
  announced.\<close>

theorem outage_stored:
  assumes "\<And>k. k < 3 \<Longrightarrow> \<not> gemini_answers (post k)" "loads gemini_unavailable = None"
    and "provider = None" "signal_gate l d = Passed c" "sg_loads l = loads"
    and "se_content env = Some gemini_unavailable" "se_commit1 env = Committed" "se_refresh env = None"
    and "se_commit2 env = Committed" "se_alerts env" "se_enters env" "wk_alive w"
  shows "analyze_signal loads provider post cached = Some (read_analysis loads gemini_unavailable) \<and>
     wk_alerts (signal_worker l env d w) = wk_alerts w + 1 \<and>
     map sa_score (wk_analyses (signal_worker l env d w)) = map sa_score (wk_analyses w) @ [VInt 0]"
proof -
  have no: "gemini_result (post (length (takeWhile may_repeat [post 0, post 1]))) =
      gemini_completion (VStr ''gemini-error'') (VStr gemini_unavailable)"
    by (rule gemini_no_result) (use assms(1) in auto)
  have "braces gemini_unavailable = None" by (simp add: braces_def gemini_unavailable_def)
  then have r: "read_analysis loads gemini_unavailable = no_analysis gemini_unavailable"
    using assms(2) by (simp add: read_analysis_def)
  have "create_reasoner provider = Gemini_Adapter"
    by (simp add: create_reasoner_def assms(3) py_lower_def lower_char_def)
  then have "analyze_signal loads provider post cached = Some (no_analysis gemini_unavailable)"
    by (simp only: analyze_signal_def gemini_exact Let_def no fst_conv reasoner_kind.case completion_text_gemini)
       (simp add: read_content_def r)
  then show ?thesis using assms
    by (simp add: r signal_worker_def worker_body_def store_analysis_def no_analysis_def dget_def Let_def)
qed

end
