(* ===== verification/Spec2Isabelle.thy ===== *)
theory Spec2Isabelle
  imports Boundary_Guards Stage10_Props Approval Mode_Selector Governance Orchestration_Props
    Timeline Policy_Props Plan_Props Plan_Graph Counterfactual Outcome_Recorder Analytics_Props Trust_Props Intelligence_Memory_Props
    Orch_Decision_Props Replay_Props Alert_Memory_Props Alert_Package Candle_Props
    Signal_Props Smc_Engine Release_Tag Orch_Redis_Props Decision_Store Llm_Service Alert_Service_Props Policy_Remote
    Paper_Experiment Report_Texts Replay_Pipeline Model_Adapters
begin

text \<open>
  A model of a trading system in Python: signals come in by webhook, a language model reasons about them, policies
  and people decide, an engine executes, and services record, count and judge what has happened; scripts
  replay signals over recorded candles. The theories follow the files under \<open>src/\<close>; each opens with
  what it holds. A definition has the name of the function, class or field it models, with a prefix or suffix where
  that name is taken.

  \<open>Conventions\<close> (\<open>Prelude\<close>, \<open>Py_Values\<close>, \<open>Exec_Monad\<close>). A class with state is a record and a method a function
  on it, a dataclass is a record, an enumeration a datatype; a dictionary is an association list in the order of
  insertion, a value of unknown type a \<open>pyval\<close>. An exception is the left side of a sum, or \<open>None\<close> where only
  its occurrence counts. Times are whole microseconds, floats are rational numbers: rounding errors, infinities and
  NaN are outside, but the conversions, \<open>round\<close> and the truncations of the code are written out. Texts are ASCII. Log lines,
  metrics of Prometheus and printed reports are left out.

  \<open>Interfaces\<close> (\<open>Contracts\<close>). Four locales say what components promise one another: a machine with an invariant
  (\<open>inv_machine\<close>), a log that only grows (\<open>append_only\<close>), a log that also tells every change of a view (\<open>audited\<close>),
  and a store that returns what was put under a key (\<open>keyed_store\<close>); \<open>engine_frame\<close> in \<open>Engine_Lemmas\<close>
  is the frame of the engine's blocks, an extension of
  \<open>engine_body_frame\<close>, the frame of the body of \<open>execute\<close>. They are interpreted on the operations of the kill switches, both audit logs, the
  approval manager, the engine, the guardrails, the cooldowns and metrics, the review service, the archive, the calibration
  and the signal worker.

  The parts, in the order in which a trade meets them:

  \<^item> \<open>The alert memory and the webhooks\<close>: \<open>Alert_Memory\<close>, \<open>Alert_Service\<close> (\<open>ict_trading_system/backend\<close>: validation,
    the window of alerts with its Lua script, registry, locks, counters, reasoning, replay, the webhook) with
    \<open>Alert_Memory_Props\<close>, \<open>Alert_Service_Props\<close>: the window is the newest accepted alerts, scores lie in their
    ranges, a lock has one holder under every interleaving. \<open>Signal_Service\<close>, \<open>Signal_Props\<close>
    (\<open>ict_trading_system/src\<close>): webhook, worker, limit of requests, alerts, and what the worker keeps whatever
    raises outside, and when it ends. \<open>Smc_Engine\<close> (\<open>apps/smc\<close>). \<open>Model_Adapters\<close>: the other clients of language models.
  \<^item> \<open>Reasoning\<close>: \<open>Llm_Service\<close> (\<open>llm_client.py\<close>, \<open>reasoner.py\<close>, \<open>schemas.py\<close> of \<open>reasoner_service\<close>), \<open>Reasoning\<close>
    (\<open>reasoning_manager.py\<close>), \<open>Mode_Selector\<close> (\<open>reasoning_mode_selector.py\<close>): requests and retries, what an
    accepted decision is, one mode per cycle.
  \<^item> \<open>The orchestrator\<close> (\<open>reasoner_service/orchestrator.py\<close>): \<open>Orch_Policy\<close> (the gates and what they consult),
    \<open>Orch_Decision\<close> (normalisation, persistence, routing, notification), \<open>Orch_Events\<close> (\<open>handle_event\<close>), \<open>Orch_Dlq\<close>
    and \<open>Orch_Redis\<close> (dead letters, connection, circuit breaker, queues, \<open>admin.py\<close>), \<open>Decision_Store\<close>
    (\<open>storage.py\<close>), \<open>Policy_Remote\<close> (\<open>policy_backends.py\<close>), \<open>Orchestration\<close> (\<open>orchestration_advanced.py\<close>). The theories
    \<open>Orch_Props\<close>, \<open>Orch_Gate_Props\<close>, \<open>Orch_Decision_Props\<close>, \<open>Orch_Dlq_Props\<close>, \<open>Orch_Redis_Props\<close> and
    \<open>Orchestration_Props\<close> show the books the gates keep over any sequence of events, which verdicts have an
    effect, and what becomes of dead letters.
  \<^item> \<open>Plans\<close>: \<open>Plan_Contract\<close> (\<open>plan_execution_schemas.py\<close>), \<open>Plan_Graph\<close> (\<open>plan_executor.py\<close>), \<open>Plan_Props\<close>: validation
    against a schema, and the execution of both kinds of plans.
  \<^item> \<open>Approval and guardrails\<close>: \<open>Approval\<close> (\<open>human_approval_manager.py\<close>), \<open>Stage10\<close>, \<open>Stage10_Props\<close>
    (\<open>stage10_controller.py\<close>), \<open>Governance\<close> (\<open>trade_governance_service.py\<close>), and the package \<open>execution_boundary\<close>:
    \<open>Boundary_Models\<close>, \<open>Boundary_Kill_Switch\<close>, \<open>Boundary_Audit\<close>, \<open>Boundary_Guards\<close>. Abstract specifications: three
    independent latches for the kill switches, \<open>may_execute\<close> for the gate, the latest decision for an
    approval, the seven rules as a predicate for governance.
  \<^item> \<open>Execution\<close>: \<open>Engine_Types\<close>, \<open>Engine\<close>, \<open>Engine_Lemmas\<close>, \<open>Engine_Trace\<close>, \<open>Engine_Observe\<close>, \<open>Engine_Props\<close>
    (\<open>execution_engine.py\<close>). A run of \<open>execute\<close> against any broker is described by the calls the broker receives
    (a traced broker; \<open>Engine_Observe\<close> shows that tracing changes nothing), the result, and the logs.
    \<open>Paper_Adapter\<close> (\<open>paper_execution_adapter.py\<close>) and \<open>Paper_Experiment\<close> simulate fills.
  \<^item> \<open>Records and statistics\<close>: \<open>Outcome_Recorder\<close>, \<open>Outcome_Stats\<close>, \<open>Policy_Eval\<close> with \<open>Policy_Props\<close>
    (\<open>outcome_policy_evaluator.py\<close>, \<open>policy_shadow_mode.py\<close>), \<open>Analytics\<close>, \<open>Confidence\<close> with \<open>Analytics_Props\<close>, \<open>Timeline\<close>,
    \<open>Counterfactual\<close>.
  \<^item> \<open>Review and intelligence\<close>: \<open>Human_Review\<close>, \<open>Human_Review_Props\<close>, \<open>Trust_Stability\<close>, \<open>Trust_Calibration\<close>,
    \<open>Trust_Props\<close>, \<open>Intelligence_Report\<close>, \<open>Offline_Evaluation\<close>, \<open>Intelligence_Memory\<close> with \<open>Intelligence_Props\<close> and
    \<open>Intelligence_Memory_Props\<close>, \<open>Report_Texts\<close>: the chain from a recorded trade to the evaluation of a policy.
  \<^item> \<open>Notification\<close>: \<open>Notifiers\<close> (the module \<open>alerts.py\<close>), \<open>Alert_Package\<close> (the package of the same name, which imports
    give instead), \<open>Deadletter\<close> (the stream of failed notifications and its poller).
  \<^item> \<open>Replay and tools\<close>: \<open>Replay\<close>, \<open>Replay_Batch\<close>, \<open>Replay_Props\<close> (\<open>backtest_replay\<close> and the scripts that run it and build
    the allowlist), \<open>Replay_Pipeline\<close> (the scripts that run those scripts),
    \<open>Candle_Merge\<close>, \<open>Candle_Convert\<close>, \<open>Candle_Props\<close> (files of candles and ticks), \<open>Release_Tag\<close>
    (\<open>tools/release\<close>).

  \<open>How they interact.\<close> The orchestrator calls the reasoning manager, the gates (which read the allowlist that
  \<open>Replay_Batch\<close> builds and the rows that \<open>Outcome_Stats\<close> reads), the storage and the notifiers; failures go to
  its dead letters. The guardrails of \<open>Stage10\<close> call \<open>execute\<close> of the engine; the approval boundary decides
  whether an advisory is handed on. A paper trade becomes a row by the recorder; the statistics, the policies, the
  analytics and the confidence evaluator read rows. The timeline feeds governance and the simulator, these feed the
  reports, reports the archive, the archive the offline evaluation, the calibration and the memory service.

  \<open>Bounds and fuel.\<close> No fuel is used; three loops of the code may run for ever and are partial functions with the
  result \<open>None\<close>. The polling of an order (\<open>wait_for_fill\<close>) looks at the clock: 30 seconds in rounds of 100
  milliseconds end within 302 readings, and \<open>execute_returns\<close> shows that every execution ends once the clock goes on.
  The walk through a graph of steps (\<open>walk\<close>) returns when the transitions decrease a rank, which bounds the
  attempts. The reconnection to Redis (\<open>reconnect_loop\<close>) returns when every ping raises or answers, and does not for
  pings whose answer counts as false, which is shown. Requests of the clients of language models are at most three, retries of other calls have the bounds of
  the code. Every other recursion is structural or has a measure.

  \<open>Parameters.\<close> What is not in the repository is an argument: the broker; the constructor of database rows and the outcome
  of commits; Redis commands; HTTP answers and notifiers; language models; the decoder and
  encoder of JSON and the reader of CSV files; \<open>float\<close> and \<open>fromisoformat\<close> on texts; MD5 and SHA-256; random
  numbers; the hyperbolic tangent; git; the clock; \<open>eval\<close> and \<open>str.format\<close> of plan steps; the rendering of values in
  messages. The laws a theorem needs of a parameter are hypotheses of it, and its witness gives a
  parameter that has them.

  \<open>Order of operations.\<close> A method that holds a lock for all its work is one step. Where the code releases control
  between reading and writing, as in recording on the timeline, the model has the steps apart; runs are sequences of
  steps of several callers, also for the lock of the alert memory and the tables of the orchestration helpers.

  \<open>Not modelled\<close>, with the reason:

  \<^item> \<open>ict_trading_system/reasoner_service/orchestrator.py\<close> and \<open>backtest_replay/replay_runner.py\<close> import modules or
    names that do not exist and cannot be loaded; the first is an older form of the modelled orchestrator.
  \<^item> Set-up of applications, routers, loggers, metrics, settings, tables and migrations: declarations
    for libraries. The three routes on users read and write one row.
  \<^item> \<open>notifier_alerts.py\<close>, a second copy of modelled functions; stubs that answer constants; demonstrations,
    mock servers and tests.
  \<^item> Command lines (but for those the pipelines depend on), printed summaries, Markdown tables, constant
    disclaimers, and fields that nothing reads.
  \<^item> Numbers in the Lua script are integers of any size, keys in Redis do not expire but for the lock, and a command of the
    lock that is executed while its answer is lost does not occur.
  \<^item> In the orchestrator: the set-up of connections and the workers that repeat modelled operations with
    pauses.
\<close>

end
